(* ===== verification/Prelude.thy ===== *)
theory Prelude
  imports Main
begin

text \<open>
  Shared vocabulary of the development: transactions that may throw (the shape of every
  Dispatch operation that runs under \<open>inTransaction\<close>), their weakest-precondition calculus,
  tables as lists of rows in insertion order (the SQLite tables the repositories read and
  write), and the generic lemmas the component theories share.
\<close>

named_theorems wp_simps \<open>weakest-precondition equations of the transaction combinators\<close>
named_theorems row_simps \<open>rewriting of row selections and updates\<close>

section \<open>Transactions\<close>

text \<open>
  An operation reads and writes the database and either returns a value or throws. A throw
  carries no database: \<open>inTransaction\<close> rolls every write of the operation back, so the caller
  is left with the state it started from.
\<close>

type_synonym ('s, 'e, 'a) tx = "'s \<Rightarrow> 'e + 'a \<times> 's"

definition returnT :: "'a \<Rightarrow> ('s, 'e, 'a) tx" where
  "returnT x = (\<lambda>s. Inr (x, s))"

definition throwT :: "'e \<Rightarrow> ('s, 'e, 'a) tx" where
  "throwT e = (\<lambda>s. Inl e)"

definition bindT :: "('s, 'e, 'a) tx \<Rightarrow> ('a \<Rightarrow> ('s, 'e, 'b) tx) \<Rightarrow> ('s, 'e, 'b) tx" where
  "bindT m f = (\<lambda>s. case m s of Inl e \<Rightarrow> Inl e | Inr (x, s') \<Rightarrow> f x s')"

definition getT :: "('s \<Rightarrow> 'a) \<Rightarrow> ('s, 'e, 'a) tx" where
  "getT g = (\<lambda>s. Inr (g s, s))"

definition modifyT :: "('s \<Rightarrow> 's) \<Rightarrow> ('s, 'e, unit) tx" where
  "modifyT g = (\<lambda>s. Inr ((), g s))"

definition whenT :: "bool \<Rightarrow> ('s, 'e, unit) tx \<Rightarrow> ('s, 'e, unit) tx" where
  "whenT b m = (if b then m else returnT ())"

definition throwIf :: "bool \<Rightarrow> 'e \<Rightarrow> ('s, 'e, unit) tx" where
  "throwIf b e = (if b then throwT e else returnT ())"

text \<open>Return the value of a pure check, or throw its error.\<close>

definition liftT :: "'e + 'a \<Rightarrow> ('s, 'e, 'a) tx" where
  "liftT r = (case r of Inl e \<Rightarrow> throwT e | Inr x \<Rightarrow> returnT x)"

text \<open>
  \<open>try { m } catch (err) { h err }\<close> around a nested transaction: the nested savepoint is rolled
  back, so the handler runs on the state the nested transaction started from.
\<close>

definition catchT :: "('s, 'e, 'a) tx \<Rightarrow> ('e \<Rightarrow> ('s, 'e, 'a) tx) \<Rightarrow> ('s, 'e, 'a) tx" where
  "catchT m h = (\<lambda>s. case m s of Inl e \<Rightarrow> h e s | Inr r \<Rightarrow> Inr r)"

text \<open>A \<open>for\<close> loop over a list that was read before the loop started.\<close>

primrec forT :: "'a list \<Rightarrow> ('a \<Rightarrow> ('s, 'e, unit) tx) \<Rightarrow> ('s, 'e, unit) tx" where
  "forT [] f = returnT ()"
| "forT (x # xs) f = bindT (f x) (\<lambda>_. forT xs f)"

subsection \<open>Weakest preconditions\<close>

text \<open>
  \<open>wp m Q s\<close>: when \<open>m\<close> returns from \<open>s\<close>, its result and final state satisfy \<open>Q\<close>. A throw
  satisfies every \<open>Q\<close>, because it changes nothing. That \<open>m\<close> does return is a separate
  statement, \<open>returns m s\<close>.
\<close>

definition wp :: "('s, 'e, 'a) tx \<Rightarrow> ('a \<Rightarrow> 's \<Rightarrow> bool) \<Rightarrow> 's \<Rightarrow> bool" where
  "wp m Q s = (case m s of Inl e \<Rightarrow> True | Inr (x, s') \<Rightarrow> Q x s')"

definition returns :: "('s, 'e, 'a) tx \<Rightarrow> 's \<Rightarrow> bool" where
  "returns m s = (case m s of Inl e \<Rightarrow> False | Inr r \<Rightarrow> True)"

lemma wp_return [wp_simps]: "wp (returnT x) Q = Q x"
  by (rule ext) (simp add: wp_def returnT_def)

lemma wp_throw [wp_simps]: "wp (throwT e) Q s = True"
  by (simp add: wp_def throwT_def)

lemma wp_bind [wp_simps]: "wp (bindT m f) Q = wp m (\<lambda>x. wp (f x) Q)"
  by (rule ext) (auto simp: wp_def bindT_def split: sum.splits prod.splits)

lemma wp_get [wp_simps]: "wp (getT g) Q s = Q (g s) s"
  by (simp add: wp_def getT_def)

lemma wp_modify [wp_simps]: "wp (modifyT g) Q s = Q () (g s)"
  by (simp add: wp_def modifyT_def)

lemma wp_when [wp_simps]: "wp (whenT b m) Q s = (if b then wp m Q s else Q () s)"
  by (simp add: whenT_def wp_return)

lemma wp_throwIf [wp_simps]: "wp (throwIf b e) Q s = (\<not> b \<longrightarrow> Q () s)"
  by (simp add: throwIf_def wp_throw wp_return)

lemma wp_lift [wp_simps]: "wp (liftT r) Q s = (\<forall>x. r = Inr x \<longrightarrow> Q x s)"
  by (cases r) (simp_all add: liftT_def wp_throw wp_return)

lemma wp_if [wp_simps]: "wp (if b then m else n) Q s = (if b then wp m Q s else wp n Q s)"
  by simp

lemma wp_catchI:
  assumes "wp m Q s" and "\<And>e. m s = Inl e \<Longrightarrow> wp (h e) Q s"
  shows "wp (catchT m h) Q s"
  using assms by (auto simp: wp_def catchT_def split: sum.splits prod.splits)

lemma wp_mono: "wp m Q s \<Longrightarrow> (\<And>x s'. Q x s' \<Longrightarrow> R x s') \<Longrightarrow> wp m R s"
  by (auto simp: wp_def split: sum.splits prod.splits)

lemma wp_conj: "wp m Q s \<Longrightarrow> wp m R s \<Longrightarrow> wp m (\<lambda>x s'. Q x s' \<and> R x s') s"
  by (auto simp: wp_def split: sum.splits prod.splits)

lemma wp_Inr: "wp m Q s \<Longrightarrow> m s = Inr (x, s') \<Longrightarrow> Q x s'"
  by (simp add: wp_def)

lemma wpI: "(\<And>x s'. m s = Inr (x, s') \<Longrightarrow> Q x s') \<Longrightarrow> wp m Q s"
  by (auto simp: wp_def split: sum.splits prod.splits)

lemma wp_forT:
  assumes "\<And>x s. x \<in> set xs \<Longrightarrow> I s \<Longrightarrow> wp (f x) (\<lambda>_. I) s" and "I s"
  shows "wp (forT xs f) (\<lambda>_. I) s"
  using assms
proof (induction xs arbitrary: s)
  case Nil
  then show ?case by (simp add: wp_simps)
next
  case (Cons x xs)
  have "wp (f x) (\<lambda>_ s'. I s') s" using Cons.prems by simp
  moreover have "wp (forT xs f) (\<lambda>_. I) s'" if "I s'" for s'
    using Cons.IH [of s'] Cons.prems(1) that by simp
  ultimately show ?case by (auto simp: wp_simps elim: wp_mono)
qed

subsection \<open>Computing with the combinators\<close>

lemmas tx_defs = returnT_def throwT_def bindT_def getT_def modifyT_def whenT_def throwIf_def
  catchT_def

lemma bindT_Inr_iff:
  "bindT m f s = Inr (y, t) \<longleftrightarrow> (\<exists>x s'. m s = Inr (x, s') \<and> f x s' = Inr (y, t))"
  by (auto simp: bindT_def split: sum.splits prod.splits)

lemma bindT_get [simp]: "bindT (getT g) f s = f (g s) s"
  by (simp add: bindT_def getT_def)

lemma bindT_modify [simp]: "bindT (modifyT g) f s = f () (g s)"
  by (simp add: bindT_def modifyT_def)

lemma bindT_return [simp]: "bindT (returnT x) f s = f x s"
  by (simp add: bindT_def returnT_def)

lemma bindT_throw [simp]: "bindT (throwT e) f s = Inl e"
  by (simp add: bindT_def throwT_def)

lemma bindT_throwIf [simp]: "bindT (throwIf b e) f s = (if b then Inl e else f () s)"
  by (simp add: bindT_def throwIf_def throwT_def returnT_def)

lemma bindT_lift [simp]: "bindT (liftT r) f s = (case r of Inl e \<Rightarrow> Inl e | Inr x \<Rightarrow> f x s)"
  by (cases r) (simp_all add: liftT_def)

lemma bindT_when_False [simp]: "bindT (whenT False m) f s = f () s"
  by (simp add: whenT_def)

lemma bindT_when_True [simp]: "bindT (whenT True m) f s = bindT m f s"
  by (simp add: whenT_def)

lemma returns_Inr: "m s = Inr r \<Longrightarrow> returns m s"
  by (simp add: returns_def)

lemma returnsE: "returns m s \<Longrightarrow> (\<And>x s'. m s = Inr (x, s') \<Longrightarrow> P) \<Longrightarrow> P"
  by (auto simp: returns_def split: sum.splits)

lemma returns_bindI:
  assumes "returns m s" and "\<And>x s'. m s = Inr (x, s') \<Longrightarrow> returns (f x) s'"
  shows "returns (bindT m f) s"
  using assms by (auto simp: returns_def bindT_def split: sum.splits prod.splits)

lemma returns_simps [simp]:
  "returns (returnT x) s" "returns (getT g) s" "returns (modifyT h) s" "\<not> returns (throwT e) s"
  by (simp_all add: returns_def tx_defs)

subsection \<open>Sequences of transactions\<close>

text \<open>
  An operation the code does not wrap in one transaction: a throw keeps what the transactions
  before it committed.
\<close>

type_synonym ('s, 'e, 'a) txs = "'s \<Rightarrow> ('e + 'a) \<times> 's"

definition run_tx :: "('s, 'e, 'a) tx \<Rightarrow> ('s, 'e, 'a) txs" where
  "run_tx m = (\<lambda>s. case m s of Inl e \<Rightarrow> (Inl e, s) | Inr (x, s') \<Rightarrow> (Inr x, s'))"

definition thenP :: "('s, 'e, 'a) txs \<Rightarrow> ('a \<Rightarrow> ('s, 'e, 'b) txs) \<Rightarrow> ('s, 'e, 'b) txs" where
  "thenP m f = (\<lambda>s. case m s of (Inl e, s') \<Rightarrow> (Inl e, s') | (Inr x, s') \<Rightarrow> f x s')"

primrec eachP :: "'a list \<Rightarrow> ('a \<Rightarrow> ('s, 'e, unit) txs) \<Rightarrow> ('s, 'e, unit) txs" where
  "eachP [] f = run_tx (returnT ())"
| "eachP (x # xs) f = thenP (f x) (\<lambda>_. eachP xs f)"

lemma run_tx_Inr: "run_tx m s = (Inr x, s') \<longleftrightarrow> m s = Inr (x, s')"
  by (auto simp: run_tx_def split: sum.splits)

lemma run_txE:
  assumes "run_tx m s = (r, s')"
  obtains e where "m s = Inl e" "r = Inl e" "s' = s" | x where "m s = Inr (x, s')" "r = Inr x"
  using assms by (auto simp: run_tx_def split: sum.splits)

lemma thenP_Inr:
  "thenP m f s = (Inr y, s') \<longleftrightarrow> (\<exists>x t. m s = (Inr x, t) \<and> f x t = (Inr y, s'))"
  by (auto simp: thenP_def split: sum.splits prod.splits)

lemma thenPE:
  assumes "thenP m f s = (r, s')"
  obtains e where "m s = (Inl e, s')" "r = Inl e" | x t where "m s = (Inr x, t)" "f x t = (r, s')"
  using assms by (auto simp: thenP_def split: sum.splits prod.splits)

subsection \<open>Frames\<close>

text \<open>
  \<open>framed R m\<close>: every run of \<open>m\<close> that returns relates its first state to its last one by \<open>R\<close>. For a
  preorder \<open>R\<close> it follows for an operation from its statements: each combinator has a rule.
\<close>

definition framed :: "('s \<Rightarrow> 's \<Rightarrow> bool) \<Rightarrow> ('s, 'e, 'a) tx \<Rightarrow> bool" where
  "framed R m = (\<forall>s x s'. m s = Inr (x, s') \<longrightarrow> R s s')"

named_theorems frames \<open>frame rules: operations within a preorder\<close>

lemma framedI: "(\<And>s x s'. m s = Inr (x, s') \<Longrightarrow> R s s') \<Longrightarrow> framed R m"
  by (simp add: framed_def)

lemma framedD: "framed R m \<Longrightarrow> m s = Inr (x, s') \<Longrightarrow> R s s'"
  by (simp add: framed_def)

lemma framed_wp: "framed R m \<Longrightarrow> wp m (\<lambda>_. R s) s"
  by (auto intro: wpI framedD)

definition framedP :: "('s \<Rightarrow> 's \<Rightarrow> bool) \<Rightarrow> ('s, 'e, 'a) txs \<Rightarrow> bool" where
  "framedP R m = (\<forall>s r s'. m s = (r, s') \<longrightarrow> R s s')"

lemma framedPD: "framedP R m \<Longrightarrow> m s = (r, s') \<Longrightarrow> R s s'"
  by (simp add: framedP_def)

locale preorder_frame =
  fixes R :: "'s \<Rightarrow> 's \<Rightarrow> bool"
  assumes frame_refl: "R s s"
    and frame_trans: "R s t \<Longrightarrow> R t u \<Longrightarrow> R s u"
begin

lemma framed_pure [frames]:
  "framed R (returnT x)" "framed R (throwT e)" "framed R (getT g)" "framed R (throwIf b e)"
  by (auto simp: framed_def returnT_def throwT_def getT_def throwIf_def frame_refl)

lemma framed_lift [frames]: "framed R (liftT r)"
  by (cases r) (simp_all add: liftT_def framed_pure)

lemma framed_modify: "(\<And>s. R s (g s)) \<Longrightarrow> framed R (modifyT g)"
  by (simp add: framed_def modifyT_def)

lemma framed_bind [frames]: "framed R m \<Longrightarrow> (\<And>x. framed R (f x)) \<Longrightarrow> framed R (bindT m f)"
  unfolding framed_def bindT_Inr_iff by (blast intro: frame_trans)

lemma framed_when [frames]: "framed R m \<Longrightarrow> framed R (whenT b m)"
  by (simp add: whenT_def frames)

lemma framed_if [frames]: "framed R m \<Longrightarrow> framed R n \<Longrightarrow> framed R (if b then m else n)"
  by simp

lemma framed_option [frames]:
  "framed R m \<Longrightarrow> (\<And>x. framed R (f x)) \<Longrightarrow> framed R (case v of None \<Rightarrow> m | Some x \<Rightarrow> f x)"
  by (cases v) simp_all

lemma framed_prod [frames]: "(\<And>x y. framed R (f x y)) \<Longrightarrow> framed R (case v of (x, y) \<Rightarrow> f x y)"
  by (cases v) simp

lemma framed_let [frames]: "(\<And>x. framed R (f x)) \<Longrightarrow> framed R (let x = v in f x)"
  by (simp add: Let_def)

lemma framed_catch [frames]: "framed R m \<Longrightarrow> (\<And>e. framed R (h e)) \<Longrightarrow> framed R (catchT m h)"
  by (auto simp: framed_def catchT_def split: sum.splits)

lemma framed_for [frames]: "(\<And>x. framed R (f x)) \<Longrightarrow> framed R (forT xs f)"
  by (induction xs) (simp_all add: frames)

lemma framed_found [frames]:
  "(\<And>t. framed R (m t)) \<Longrightarrow> framed R (\<lambda>s. case g s of None \<Rightarrow> Inl e | Some t \<Rightarrow> m t s)"
  by (auto simp: framed_def split: option.splits)

lemma framed_guard [frames]: "framed R m \<Longrightarrow> framed R (\<lambda>s. if b s then Inl e else m s)"
  by (auto simp: framed_def)

lemma framed_read [frames]: "framed R (\<lambda>s. case g s of None \<Rightarrow> Inl e | Some t \<Rightarrow> Inr (t, s))"
  by (auto simp: framed_def frame_refl split: option.splits)

lemma framed_branches:
  "framed R m \<Longrightarrow> framed R (\<lambda>s. if b s then Inr (x, s) else if c s then Inr (y, s) else m s)"
  by (auto simp: framed_def frame_refl)

lemma framedP_run [frames]: "framed R m \<Longrightarrow> framedP R (run_tx m)"
  unfolding framedP_def by (auto elim!: run_txE intro: frame_refl framedD)

lemma framedP_then [frames]: "framedP R m \<Longrightarrow> (\<And>x. framedP R (f x)) \<Longrightarrow> framedP R (thenP m f)"
  unfolding framedP_def by (blast elim!: thenPE intro: frame_trans)

lemma framedP_each [frames]: "(\<And>x. framedP R (f x)) \<Longrightarrow> framedP R (eachP xs f)"
  by (induction xs) (simp_all add: frames)

lemma framedP_if [frames]: "framedP R m \<Longrightarrow> framedP R n \<Longrightarrow> framedP R (if b then m else n)"
  by simp

lemma framedP_option [frames]:
  "framedP R m \<Longrightarrow> (\<And>x. framedP R (f x)) \<Longrightarrow> framedP R (case v of None \<Rightarrow> m | Some x \<Rightarrow> f x)"
  by (cases v) simp_all

lemma framedP_prod [frames]: "(\<And>x y. framedP R (f x y)) \<Longrightarrow> framedP R (case v of (x, y) \<Rightarrow> f x y)"
  by (cases v) simp

end

text \<open>Keeping an invariant is such a preorder.\<close>

abbreviation keepsT :: "('s \<Rightarrow> bool) \<Rightarrow> ('s, 'e, 'a) tx \<Rightarrow> bool" where
  "keepsT I m \<equiv> framed (\<lambda>s s'. I s \<longrightarrow> I s') m"

interpretation keep: preorder_frame "\<lambda>s s'. I s \<longrightarrow> I s'" for I
  by unfold_locales blast+

lemma keepsT_I: "(\<And>s. I s \<Longrightarrow> wp m (\<lambda>_. I) s) \<Longrightarrow> keepsT I m"
  by (rule framedI) (auto dest: wp_Inr)

lemma keepsT_D: "keepsT I m \<Longrightarrow> I s \<Longrightarrow> wp m (\<lambda>_. I) s"
  by (auto intro: wpI dest: framedD)

section \<open>Tables\<close>

text \<open>
  A table is the list of its rows in \<open>rowid\<close> order. \<open>find_row\<close> is a \<open>SELECT * WHERE key = ?\<close>
  read with \<open>.get()\<close>; \<open>upd_rows\<close> is an \<open>UPDATE ... WHERE P\<close>.
\<close>

definition find_row :: "('r \<Rightarrow> 'k) \<Rightarrow> 'k \<Rightarrow> 'r list \<Rightarrow> 'r option" where
  "find_row key k rows = find (\<lambda>r. key r = k) rows"

definition upd_rows :: "('r \<Rightarrow> bool) \<Rightarrow> ('r \<Rightarrow> 'r) \<Rightarrow> 'r list \<Rightarrow> 'r list" where
  "upd_rows P f rows = map (\<lambda>r. if P r then f r else r) rows"

lemma find_row_Some_iff:
  "distinct (map key rows) \<Longrightarrow> find_row key k rows = Some r \<longleftrightarrow> r \<in> set rows \<and> key r = k"
proof (induction rows)
  case Nil
  then show ?case by (simp add: find_row_def)
next
  case (Cons a rows)
  then show ?case by (auto simp: find_row_def)
qed

lemma find_row_SomeD: "find_row key k rows = Some r \<Longrightarrow> r \<in> set rows \<and> key r = k"
  by (auto simp: find_row_def find_Some_iff)

lemma find_row_None_iff: "find_row key k rows = None \<longleftrightarrow> k \<notin> key ` set rows"
  by (auto simp: find_row_def find_None_iff)

lemma set_upd_rows [row_simps]: "set (upd_rows P f rows) = (\<lambda>r. if P r then f r else r) ` set rows"
  by (simp add: upd_rows_def)

lemma length_upd_rows [simp]: "length (upd_rows P f rows) = length rows"
  by (simp add: upd_rows_def)

lemma map_key_upd_rows:
  "(\<And>r. key (f r) = key r) \<Longrightarrow> map key (upd_rows P f rows) = map key rows"
  by (induction rows) (auto simp: upd_rows_def)

lemma find_row_upd_rows:
  assumes "\<And>r. key (f r) = key r"
  shows "find_row key k (upd_rows P f rows) =
         map_option (\<lambda>r. if P r then f r else r) (find_row key k rows)"
  using assms by (induction rows) (auto simp: find_row_def upd_rows_def)

lemma find_row_append:
  "find_row key k (rows @ rows') =
     (case find_row key k rows of None \<Rightarrow> find_row key k rows' | Some r \<Rightarrow> Some r)"
  by (induction rows) (auto simp: find_row_def)

lemma find_row_filter_ne:
  "find_row key k (filter (\<lambda>r. key r \<noteq> i) rows) = (if k = i then None else find_row key k rows)"
  by (induction rows) (auto simp: find_row_def)

lemma upd_rows_upd_rows:
  assumes "\<And>r. P r \<Longrightarrow> P (g r)"
  shows "upd_rows P f (upd_rows P g rows) = upd_rows P (\<lambda>r. f (g r)) rows"
  using assms by (simp add: upd_rows_def)

lemma upd_rows_cong:
  assumes "\<And>r. r \<in> set rows \<Longrightarrow> P r = Q r" and "\<And>r. r \<in> set rows \<Longrightarrow> Q r \<Longrightarrow> f r = g r"
  shows "upd_rows P f rows = upd_rows Q g rows"
  using assms by (simp add: upd_rows_def)

lemma distinct_keyD:
  "distinct (map key rows) \<Longrightarrow> r \<in> set rows \<Longrightarrow> q \<in> set rows \<Longrightarrow> key r = key q \<Longrightarrow> r = q"
  by (simp add: distinct_map inj_on_def)

lemma list_ex_upd_rows:
  "list_ex Q (upd_rows P f rows) = list_ex (\<lambda>r. Q (if P r then f r else r)) rows"
  by (induction rows) (auto simp: upd_rows_def)

lemma list_ex_iff_set: "list_ex P xs \<longleftrightarrow> (\<exists>x \<in> set xs. P x)"
  by (rule list_ex_iff)

section \<open>JavaScript strings\<close>

text \<open>
  Strings are lists of code units; the model's code units are the Latin-1 ones. \<open>js_trim\<close> is
  \<open>String.prototype.trim\<close> on them: it strips TAB, LF, VT, FF, CR, SPACE and NBSP from both ends.
\<close>

definition js_ws :: "char \<Rightarrow> bool" where
  "js_ws c = (of_char c \<in> {9, 10, 11, 12, 13, 32, 160 :: nat})"

definition js_trim :: "string \<Rightarrow> string" where
  "js_trim s = rev (dropWhile js_ws (rev (dropWhile js_ws s)))"

lemma js_trim_Nil [simp]: "js_trim [] = []"
  by (simp add: js_trim_def)

lemma js_trim_eq_Nil_iff: "js_trim s = [] \<longleftrightarrow> (\<forall>c \<in> set s. js_ws c)"
proof -
  have "js_trim s = [] \<longleftrightarrow> (\<forall>c \<in> set (dropWhile js_ws s). js_ws c)"
    by (simp add: js_trim_def)
  also have "\<dots> \<longleftrightarrow> (\<forall>c \<in> set s. js_ws c)"
    by (induction s) auto
  finally show ?thesis .
qed

end
