(* ===== verification/Json.thy ===== *)
theory Json
  imports Prelude
begin

text \<open>
  JSON values and \<open>JSON.stringify\<close>, as far as the sources use them: event payloads
  (\<open>events/eventWriter.ts\<close>), the array the event hash covers (\<open>events/eventChain.ts\<close>) and the
  delivery-diff fingerprint (\<open>services/diffService.ts\<close>). The numbers the sources put into
  payloads are integers. The theory proves that encoding an array of strings and nulls loses
  nothing: two different arrays (also nested ones) never encode to the same text, which is what the event hash
  relies on.
\<close>

datatype json =
    JNull
  | JBool bool
  | JNum int
  | JStr string
  | JArr "json list"
  | JObj "(string \<times> json) list"

abbreviation jopt :: "string option \<Rightarrow> json" where
  "jopt x \<equiv> (case x of None \<Rightarrow> JNull | Some s \<Rightarrow> JStr s)"

section \<open>Numbers\<close>

definition digit_char :: "nat \<Rightarrow> char" where
  "digit_char d = char_of (48 + d)"

fun show_nat :: "nat \<Rightarrow> string" where
  "show_nat n = (if n < 10 then [digit_char n] else show_nat (n div 10) @ [digit_char (n mod 10)])"

declare show_nat.simps [simp del]

definition show_int :: "int \<Rightarrow> string" where
  "show_int i = (if i < 0 then CHR ''-'' # show_nat (nat (- i)) else show_nat (nat i))"

section \<open>String literals\<close>

definition hex_digit :: "nat \<Rightarrow> char" where
  "hex_digit d = (if d < 10 then char_of (48 + d) else char_of (87 + d))"

text \<open>
  The escapes of \<open>JSON.stringify\<close>: the quote and the backslash, the five control characters
  that have a short form, and a six-character unicode escape with two significant hexadecimal
  digits for every other control character. Everything else stands for itself.
\<close>

definition short_escape :: "char \<Rightarrow> char option" where
  "short_escape c =
     (let n = of_char c :: nat in
      if n = 34 then Some (CHR 0x22)
      else if n = 92 then Some (CHR 0x5C)
      else if n = 8 then Some (CHR ''b'')
      else if n = 9 then Some (CHR ''t'')
      else if n = 10 then Some (CHR ''n'')
      else if n = 12 then Some (CHR ''f'')
      else if n = 13 then Some (CHR ''r'')
      else None)"

definition json_escape :: "char \<Rightarrow> string" where
  "json_escape c =
     (let n = of_char c :: nat in
      case short_escape c of
        Some d \<Rightarrow> [CHR 0x5C, d]
      | None \<Rightarrow>
          if n < 32 then
            [CHR 0x5C, CHR ''u'', CHR ''0'', CHR ''0'', hex_digit (n div 16), hex_digit (n mod 16)]
          else [c])"

definition json_string :: "string \<Rightarrow> string" where
  "json_string s = [CHR 0x22] @ concat (map json_escape s) @ [CHR 0x22]"

fun join_with :: "string \<Rightarrow> string list \<Rightarrow> string" where
  "join_with sep [] = []"
| "join_with sep [x] = x"
| "join_with sep (x # y # xs) = x @ sep @ join_with sep (y # xs)"

fun stringify :: "json \<Rightarrow> string" where
  "stringify JNull = ''null''"
| "stringify (JBool b) = (if b then ''true'' else ''false'')"
| "stringify (JNum i) = show_int i"
| "stringify (JStr s) = json_string s"
| "stringify (JArr xs) = ''['' @ join_with '','' (map stringify xs) @ '']''"
| "stringify (JObj kvs) =
     ''{'' @ join_with '','' (map (\<lambda>(k, v). json_string k @ '':'' @ stringify v) kvs) @ ''}''"

section \<open>Nothing is lost\<close>

definition escape_code :: "char \<Rightarrow> nat" where
  "escape_code e = (if e = CHR 0x22 then 34 else if e = CHR 0x5C then 92 else
     if e = CHR ''b'' then 8 else if e = CHR ''t'' then 9 else if e = CHR ''n'' then 10 else
     if e = CHR ''f'' then 12 else 13)"

lemma short_escape_code: "short_escape c = Some e \<Longrightarrow> of_char c = escape_code e"
  by (auto simp: short_escape_def Let_def escape_code_def split: if_split_asm)

lemma short_escape_inj: "short_escape c = Some e \<Longrightarrow> short_escape d = Some e \<Longrightarrow> c = d"
  by (metis short_escape_code char_of_char)

lemma short_escape_not_u: "short_escape c \<noteq> Some (CHR ''u'')"
  by (simp add: short_escape_def Let_def)

lemma short_escape_None: "short_escape c = None \<Longrightarrow> c \<noteq> CHR 0x5C \<and> c \<noteq> CHR 0x22"
  by (auto simp: short_escape_def Let_def)

lemma of_char_hex_digit:
  "d < 16 \<Longrightarrow> (of_char (hex_digit d) :: nat) = (if d < 10 then 48 + d else 87 + d)"
  by (simp add: hex_digit_def)

lemma hex_digit_inj:
  assumes "x < 16" "y < 16" "hex_digit x = hex_digit y"
  shows "x = y"
proof -
  have "(if x < 10 then 48 + x else 87 + x) = (if y < 10 then 48 + y else 87 + y)"
    using of_char_hex_digit [OF assms(1)] of_char_hex_digit [OF assms(2)] assms(3) by metis
  with assms(1,2) show ?thesis by (simp split: if_split_asm)
qed

lemma hex_pair_inj:
  assumes "hex_digit (of_char c div 16) = hex_digit (of_char d div 16)"
    and "hex_digit (of_char c mod 16) = hex_digit (of_char d mod 16)"
    and "(of_char c :: nat) < 32" "(of_char d :: nat) < 32"
  shows "c = d"
proof -
  have "(of_char c :: nat) div 16 = of_char d div 16"
    using assms by (intro hex_digit_inj) auto
  moreover have "(of_char c :: nat) mod 16 = of_char d mod 16"
    using assms by (intro hex_digit_inj) auto
  ultimately have "(of_char c :: nat) = of_char d"
    by (metis div_mult_mod_eq)
  then show ?thesis by (metis char_of_char)
qed

text \<open>One escape never is a proper prefix of another, and never starts with a bare quote.\<close>

lemma json_escape_prefix_free:
  "json_escape c @ x = json_escape d @ y \<Longrightarrow> c = d \<and> x = y"
  using short_escape_inj [of c _ d] short_escape_None [of c] short_escape_None [of d]
    short_escape_not_u [of c] short_escape_not_u [of d] hex_pair_inj [of c d]
  by (auto simp: json_escape_def Let_def split: option.splits if_splits)

lemma json_escape_not_quote: "json_escape c @ x \<noteq> CHR 0x22 # y"
  using short_escape_None [of c]
  by (auto simp: json_escape_def Let_def split: option.splits)

lemma json_body_prefix_free:
  "concat (map json_escape s) @ CHR 0x22 # x = concat (map json_escape t) @ CHR 0x22 # y
   \<Longrightarrow> s = t \<and> x = y"
proof (induction s arbitrary: t)
  case Nil
  show ?case
  proof (cases t)
    case Nil
    with Nil.prems show ?thesis by simp
  next
    case (Cons d ds)
    with Nil.prems have "json_escape d @ (concat (map json_escape ds) @ CHR 0x22 # y) = CHR 0x22 # x"
      by simp
    then show ?thesis by (simp add: json_escape_not_quote)
  qed
next
  case (Cons c s)
  show ?case
  proof (cases t)
    case Nil
    with Cons.prems have "json_escape c @ (concat (map json_escape s) @ CHR 0x22 # x) = CHR 0x22 # y"
      by simp
    then show ?thesis by (simp add: json_escape_not_quote)
  next
    case (Cons d ds)
    with Cons.prems have
      "json_escape c @ (concat (map json_escape s) @ CHR 0x22 # x)
         = json_escape d @ (concat (map json_escape ds) @ CHR 0x22 # y)" by simp
    then have "c = d" and
      "concat (map json_escape s) @ CHR 0x22 # x = concat (map json_escape ds) @ CHR 0x22 # y"
      by (auto dest: json_escape_prefix_free)
    with Cons.IH [of ds] Cons show ?thesis by simp
  qed
qed

lemma json_string_prefix_free: "json_string s @ x = json_string t @ y \<Longrightarrow> s = t \<and> x = y"
  using json_body_prefix_free [of s x t y] by (simp add: json_string_def)

lemma json_string_inj: "json_string s = json_string t \<Longrightarrow> s = t"
  using json_string_prefix_free [of s "[]" t "[]"] by simp

text \<open>
  Values built from strings, nulls and arrays are self-delimiting: where one ends is read off
  the text itself. (Numbers are not: \<open>1\<close> is a prefix of \<open>12\<close>.)
\<close>

fun textual :: "json \<Rightarrow> bool" where
  "textual JNull = True"
| "textual (JStr s) = True"
| "textual (JArr xs) = list_all textual xs"
| "textual _ = False"

lemma textual_head:
  "textual v \<Longrightarrow> \<exists>c cs. stringify v = c # cs \<and> c \<noteq> CHR '']'' \<and> c \<noteq> CHR '',''"
  by (cases v) (simp_all add: json_string_def)

lemma joined_prefix_free:
  assumes "\<And>v w x y. v \<in> set vs \<Longrightarrow> textual w \<Longrightarrow> stringify v @ x = stringify w @ y \<Longrightarrow> v = w \<and> x = y"
    and "list_all textual vs" and "list_all textual ws"
    and "join_with '','' (map stringify vs) @ CHR '']'' # x = join_with '','' (map stringify ws) @ CHR '']'' # y"
  shows "vs = ws \<and> x = y"
  using assms
proof (induction vs arbitrary: ws)
  case Nil
  then show ?case
    using textual_head [of "hd ws"] by (cases ws rule: remdups_adj.cases) auto
next
  case (Cons v vs)
  obtain w ws' where ws: "ws = w # ws'"
    using Cons.prems(2,4) textual_head [of v]
    by (cases ws; cases vs) auto
  let ?tl = "\<lambda>us x. (case us of [] \<Rightarrow> [] | _ \<Rightarrow> '','' @ join_with '','' (map stringify us)) @ CHR '']'' # x"
  have split: "join_with '','' (map stringify (u # us)) @ CHR '']'' # z = stringify u @ ?tl us z" for u us z
    by (cases us) simp_all
  have "stringify v @ ?tl vs x = stringify w @ ?tl ws' y"
    using Cons.prems(4) unfolding ws split .
  then have vw: "v = w" and tl: "?tl vs x = ?tl ws' y"
    using Cons.prems(1) [of v w] Cons.prems(3) ws by auto
  show ?case
  proof (cases vs)
    case Nil
    with tl have "ws' = []" by (cases ws') auto
    with Nil tl vw ws show ?thesis by simp
  next
    case (Cons u us)
    with tl obtain w' ws'' where ws': "ws' = w' # ws''" by (cases ws') auto
    have "join_with '','' (map stringify vs) @ CHR '']'' # x = join_with '','' (map stringify ws') @ CHR '']'' # y"
      using tl Cons ws' by simp
    then have "vs = ws' \<and> x = y"
      using Cons.IH [of ws'] Cons.prems ws by auto
    with vw ws show ?thesis by simp
  qed
qed

lemma stringify_prefix_free:
  "textual v \<Longrightarrow> textual w \<Longrightarrow> stringify v @ x = stringify w @ y \<Longrightarrow> v = w \<and> x = y"
proof (induction v arbitrary: w x y)
  case (JStr s)
  then show ?case
    by (cases w) (auto simp: json_string_def dest: json_body_prefix_free)
next
  case (JArr vs)
  then obtain ws where w: "w = JArr ws"
    by (cases w) (auto simp: json_string_def)
  have "vs = ws \<and> x = y"
  proof (rule joined_prefix_free)
    fix v w x y
    assume "v \<in> set vs" "textual w" "stringify v @ x = stringify w @ y"
    then show "v = w \<and> x = y"
      using JArr.IH [of v w x y] JArr.prems(1) by (auto simp: list_all_iff)
  qed (use JArr.prems w in auto)
  with w show ?case by simp
qed (use json_string_def in \<open>case_tac w; auto\<close>)+

lemma stringify_inj: "textual v \<Longrightarrow> textual w \<Longrightarrow> stringify v = stringify w \<Longrightarrow> v = w"
  using stringify_prefix_free [of v w "[]" "[]"] by simp

text \<open>\<open>JSON.stringify\<close> is injective on arrays of strings and nulls.\<close>

lemma stringify_fields_inj:
  assumes "stringify (JArr (map jopt as)) = stringify (JArr (map jopt bs))"
  shows "as = bs"
proof -
  have t: "textual (JArr (map jopt xs))" for xs
    by (auto simp: list_all_iff split: option.splits)
  have "map jopt as = map jopt bs"
    using stringify_inj [OF t t assms] by simp
  then show ?thesis
    by (rule injD [OF inj_mapI, rotated]) (auto intro!: injI split: option.splits)
qed

end
