(* ===== verification/Clock.thy ===== *)
theory Clock
  imports Json
begin

text \<open>
  Time (\<open>util/clock.ts\<close>). An instant is a number of milliseconds since the epoch; the sources
  keep it as the text \<open>Date.prototype.toISOString\<close> writes, modelled here for the event
  payloads that carry one. \<open>isoPlusSeconds\<close> is on instants.
\<close>

type_synonym instant = int

definition isoPlusSeconds :: "nat \<Rightarrow> instant \<Rightarrow> instant" where
  "isoPlusSeconds seconds from = from + int seconds * 1000"

text \<open>Year, month and day of a day number (days since 1 January 1970, proleptic Gregorian).\<close>

definition civil_from_days :: "int \<Rightarrow> int \<times> int \<times> int" where
  "civil_from_days days = (
     let z = days + 719468; era = z div 146097; doe = z mod 146097;
         yoe = (doe - doe div 1460 + doe div 36524 - doe div 146096) div 365;
         doy = doe - (365 * yoe + yoe div 4 - yoe div 100);
         mp = (5 * doy + 2) div 153;
         d = doy - (153 * mp + 2) div 5 + 1;
         m = (if mp < 10 then mp + 3 else mp - 9);
         y = yoe + era * 400 + (if m \<le> 2 then 1 else 0)
     in (y, m, d))"

definition pad :: "nat \<Rightarrow> int \<Rightarrow> string" where
  "pad n i = (let s = show_nat (nat i) in replicate (n - length s) (CHR ''0'') @ s)"

definition toISOString :: "instant \<Rightarrow> string" where
  "toISOString ms = (
     let (y, m, d) = civil_from_days (ms div 86400000); r = ms mod 86400000;
         year = (if 0 \<le> y \<and> y \<le> 9999 then pad 4 y
                 else (if y < 0 then ''-'' else ''+'') @ pad 6 \<bar>y\<bar>)
     in year @ ''-'' @ pad 2 m @ ''-'' @ pad 2 d @ ''T'' @ pad 2 (r div 3600000) @ '':''
        @ pad 2 (r div 60000 mod 60) @ '':'' @ pad 2 (r div 1000 mod 60) @ ''.'' @ pad 3 (r mod 1000) @ ''Z'')"

end
