(* ===== verification/Domain.thy ===== *)
theory Domain
  imports Clock Complex_Main
begin

text \<open>
  The domain of the control plane (\<open>packages/dispatch/src/domain/types.ts\<close>): the enumerations
  as datatypes, the table rows as records, and the error codes of \<open>util/errors.ts\<close>. Field
  names keep the column names, prefixed with the row they belong to. Identifiers are strings;
  ISO-8601 UTC timestamps are the instants they denote, in milliseconds since the epoch (the
  sources compare them as text, which for the fixed-width form \<open>toISOString\<close> writes is the
  order of the instants).
\<close>

type_synonym id = string

section \<open>Enumerations\<close>

datatype ticket_status =
    Draft | Refining | Ready | Claimed | InProgress | Blocked | InReview | InTesting
  | ReadyForMerge | Done | Failed | Cancelled | Paused

definition TICKET_STATUSES :: "ticket_status list" where
  "TICKET_STATUSES = [Draft, Refining, Ready, Claimed, InProgress, Blocked, InReview, InTesting,
     ReadyForMerge, Done, Failed, Cancelled, Paused]"

fun status_name :: "ticket_status \<Rightarrow> string" where
  "status_name Draft = ''draft''"
| "status_name Refining = ''refining''"
| "status_name Ready = ''ready''"
| "status_name Claimed = ''claimed''"
| "status_name InProgress = ''in_progress''"
| "status_name Blocked = ''blocked''"
| "status_name InReview = ''in_review''"
| "status_name InTesting = ''in_testing''"
| "status_name ReadyForMerge = ''ready_for_merge''"
| "status_name Done = ''done''"
| "status_name Failed = ''failed''"
| "status_name Cancelled = ''cancelled''"
| "status_name Paused = ''paused''"

datatype pause_reason = CapHit | BudgetCap | Timeout

fun pause_reason_name :: "pause_reason \<Rightarrow> string" where
  "pause_reason_name CapHit = ''cap_hit''"
| "pause_reason_name BudgetCap = ''budget_cap''"
| "pause_reason_name Timeout = ''timeout''"

datatype risk_level = Low | Medium | High | Critical

text \<open>\<open>riskRank\<close>: the index in \<open>RISK_LEVELS\<close>.\<close>

fun riskRank :: "risk_level \<Rightarrow> nat" where
  "riskRank Low = 0"
| "riskRank Medium = 1"
| "riskRank High = 2"
| "riskRank Critical = 3"

datatype policy_pack = SoloLoose | TeamLight | FactoryStrict | Regulated

fun pack_name :: "policy_pack \<Rightarrow> string" where
  "pack_name SoloLoose = ''solo_loose''"
| "pack_name TeamLight = ''team_light''"
| "pack_name FactoryStrict = ''factory_strict''"
| "pack_name Regulated = ''regulated''"

datatype ac_status = AcPending | AcSatisfied | AcFailed | AcWaived

datatype decision_status =
  DsRequested | DsAgentProposed | DsHumanRequired | DsAccepted | DsRejected | DsSuperseded

datatype decision_severity =
  LogOnly | AgentCanChoose | HumanPreferred | HumanRequired | SecurityRequired

datatype claim_status = ClActive | ClReleased | ClExpired | ClRevoked | ClCompleted

datatype evidence_type =
    TestOutput | CoverageReport | Commit | BranchEv | PullRequest | DiffSummary | Screenshot | LogEv
  | ManualNote | CiRun | StaticAnalysis | LoreRecord | MemoryPrimed

fun evidence_type_name :: "evidence_type \<Rightarrow> string" where
  "evidence_type_name TestOutput = ''test_output''"
| "evidence_type_name CoverageReport = ''coverage_report''"
| "evidence_type_name Commit = ''commit''"
| "evidence_type_name BranchEv = ''branch''"
| "evidence_type_name PullRequest = ''pull_request''"
| "evidence_type_name DiffSummary = ''diff_summary''"
| "evidence_type_name Screenshot = ''screenshot''"
| "evidence_type_name LogEv = ''log''"
| "evidence_type_name ManualNote = ''manual_note''"
| "evidence_type_name CiRun = ''ci_run''"
| "evidence_type_name StaticAnalysis = ''static_analysis''"
| "evidence_type_name LoreRecord = ''lore_record''"
| "evidence_type_name MemoryPrimed = ''memory_primed''"

datatype actor_type = Human | AgentActor | Admin | System

fun actor_type_name :: "actor_type \<Rightarrow> string" where
  "actor_type_name Human = ''human''"
| "actor_type_name AgentActor = ''agent''"
| "actor_type_name Admin = ''admin''"
| "actor_type_name System = ''system''"

record actor =
  a_type :: actor_type
  a_id :: "string option"

text \<open>\<open>actor.id ?? actor.type\<close>, the author stamped on evidence and decisions.\<close>

definition actor_label :: "actor \<Rightarrow> string" where
  "actor_label a = (case a_id a of Some i \<Rightarrow> i | None \<Rightarrow> actor_type_name (a_type a))"

section \<open>Rows\<close>

record review_feedback =
  f_reason :: string
  f_reviewer :: "string option"
  f_at :: instant
  f_code :: "string option"
  f_attempt :: "nat option"
  f_maxAttempts :: "nat option"

record ticket =
  t_id :: id
  t_number :: "nat option"
  t_title :: string
  t_description :: string
  t_status :: ticket_status
  t_priority :: int
  t_risk_level :: risk_level
  t_policy_pack :: policy_pack
  t_source :: "string option"
  t_created_by :: "string option"
  t_reviewer :: "string option"
  t_branch_name :: "string option"
  t_pr_url :: "string option"
  t_attempt_count :: nat
  t_row_version :: nat
  t_scheduled_after :: "instant option"
  t_due_at :: "instant option"
  t_bootstrap :: bool
  t_last_review_feedback :: "review_feedback option"
  t_can_be_tested :: bool
  t_test_contract :: "json option"
  t_acceptance :: bool
  t_allow_test_changes :: bool
  t_human_owner :: "string option"
  t_human_delivered :: "string option"
  t_delivery_budget_usd :: "rat option"
  t_created_at :: instant
  t_updated_at :: instant

record acceptance_criterion =
  ac_id :: id
  ac_ticket_id :: id
  ac_text :: string
  ac_sort_order :: nat
  ac_status :: ac_status
  ac_verification_method :: "string option"
  ac_evidence_required :: bool
  ac_verified_by :: "string option"
  ac_verified_at :: "instant option"
  ac_check_command :: "string option"
  ac_spec_clause_id :: "string option"
  ac_created_at :: instant
  ac_updated_at :: instant

record repository =
  r_id :: id
  r_name :: string
  r_local_path :: "string option"
  r_remote_url :: "string option"
  r_default_branch :: string
  r_stack :: "string option"
  r_risk_level :: risk_level
  r_test_command :: "string option"
  r_lint_command :: "string option"
  r_coverage_command :: "string option"
  r_hidden :: bool
  r_created_at :: instant
  r_updated_at :: instant

record decision =
  d_id :: id
  d_title :: string
  d_question :: string
  d_rationale :: "string option"
  d_status :: decision_status
  d_decision_type :: string
  d_severity :: decision_severity
  d_proposed_answer :: "string option"
  d_proposed_by :: "string option"
  d_confidence :: "string option"
  d_resolved_answer :: "string option"
  d_resolved_by :: "string option"
  d_resolved_at :: "instant option"
  d_memory_record_id :: "string option"
  d_created_at :: instant
  d_updated_at :: instant

datatype agent_status = AgActive | AgPaused | AgDisabled

record agent =
  g_id :: id
  g_display_name :: "string option"
  g_agent_type :: string
  g_model :: "string option"
  g_runtime :: "string option"
  g_host :: "string option"
  g_max_risk :: risk_level
  g_status :: agent_status
  g_created_by :: "string option"
  g_last_seen_at :: "instant option"
  g_created_at :: instant
  g_updated_at :: instant
  g_squad_name :: "string option"
  g_shirt_number :: "nat option"

record ticket_claim =
  c_id :: id
  c_ticket_id :: id
  c_agent_id :: id
  c_token_hash :: string
  c_status :: claim_status
  c_expires_at :: instant
  c_heartbeat_at :: instant
  c_created_at :: instant
  c_released_at :: "instant option"

record evidence =
  ev_id :: id
  ev_ticket_id :: id
  ev_ac_id :: "id option"
  ev_repo_id :: "id option"
  ev_decision_id :: "id option"
  ev_type :: evidence_type
  ev_summary :: string
  ev_uri :: "string option"
  ev_payload_json :: "json option"
  ev_created_by :: string
  ev_recorded_by :: "actor_type option"
  ev_created_at :: instant

record work_event =
  we_id :: id
  we_entity_type :: string
  we_entity_id :: id
  we_actor_type :: actor_type
  we_actor_id :: "string option"
  we_event_type :: string
  we_payload :: "json option"
  we_correlation_id :: "string option"
  we_created_at :: instant

record paused_delivery =
  p_ticket_id :: id
  p_reason :: pause_reason
  p_branch_name :: "string option"
  p_worktree_path :: "string option"
  p_worktrees_json :: "string option"
  p_repo :: "string option"
  p_attempt :: nat
  p_turns :: "nat option"
  p_spend :: "string option"
  p_resume_requested :: bool
  p_created_at :: instant
  p_updated_at :: instant

record rework_attempt =
  w_id :: id
  w_ticket_id :: id
  w_attempt :: nat
  w_max_attempts :: "nat option"
  w_gate :: "string option"
  w_distilled_failure :: string
  w_ac_id :: "id option"
  w_created_at :: instant

section \<open>The scope graph\<close>

datatype scope_node_type =
    NodeFactory | NodeDomain | NodeProduct | NodeCapability | NodeSystem | NodeService | NodeLibrary
  | NodeExternalDependency | NodeEpic

fun node_type_name :: "scope_node_type \<Rightarrow> string" where
  "node_type_name NodeFactory = ''factory''"
| "node_type_name NodeDomain = ''domain''"
| "node_type_name NodeProduct = ''product''"
| "node_type_name NodeCapability = ''capability''"
| "node_type_name NodeSystem = ''system''"
| "node_type_name NodeService = ''service''"
| "node_type_name NodeLibrary = ''library''"
| "node_type_name NodeExternalDependency = ''external_dependency''"
| "node_type_name NodeEpic = ''epic''"

record scope_node =
  sn_id :: id
  sn_name :: string
  sn_type :: scope_node_type
  sn_description :: "string option"
  sn_risk_level :: risk_level
  sn_owner :: "string option"
  sn_tags :: "string list option"
  sn_lore_tags :: "string list option"
  sn_created_at :: instant
  sn_updated_at :: instant

datatype scope_edge_relation =
    EdgeContains | EdgeDependsOn | EdgeCalls | EdgePublishesTo | EdgeConsumesFrom | EdgeSharesLibrary | EdgeDeployedWith

record scope_edge =
  se_id :: id
  se_from :: id
  se_to :: id
  se_relation :: scope_edge_relation
  se_confidence :: "rat option"
  se_reasons :: "string list option"
  se_created_at :: instant

section \<open>Scope and repository links\<close>

datatype ticket_scope_relation =
  ScPrimary | ScSecondary | ScSuggested | ScRejected | ScImplicitRepo

record ticket_scope_node =
  ts_ticket_id :: id
  ts_scope_node_id :: id
  ts_relation :: ticket_scope_relation
  ts_confidence :: "rat option"
  ts_reasons :: "string list option"
  ts_created_at :: instant
  ts_updated_at :: instant

datatype ticket_repo_access = AccWrite | AccRead | AccTest | AccNone

datatype ticket_repo_relation =
  RelConfirmed | RelSuggested | RelRejected | RelContextOnly | RelImplicitSingleRepo

definition isActiveTicketRepoRelation :: "ticket_repo_relation \<Rightarrow> bool" where
  "isActiveTicketRepoRelation r = (r \<in> {RelConfirmed, RelImplicitSingleRepo})"

datatype ticket_repo_source =
    SrcManual | SrcScopeInferred | SrcAgentSuggested | SrcMemory | SrcCodeowners | SrcMonoFallback

datatype ticket_repo_role = RolePrimary | RoleSecondary | RoleAffected | RoleReadOnlyContext | RoleTestOnly

text \<open>The order of the role column's text values, which \<open>listForTicket\<close> sorts by.\<close>

fun role_rank :: "ticket_repo_role \<Rightarrow> nat" where
  "role_rank RoleAffected = 0"
| "role_rank RolePrimary = 1"
| "role_rank RoleReadOnlyContext = 2"
| "role_rank RoleSecondary = 3"
| "role_rank RoleTestOnly = 4"

record ticket_repo =
  tr_ticket_id :: id
  tr_repo_id :: id
  tr_role :: ticket_repo_role
  tr_branch_name :: "string option"
  tr_pr_url :: "string option"
  tr_access :: ticket_repo_access
  tr_relation :: ticket_repo_relation
  tr_source :: ticket_repo_source
  tr_confidence :: "rat option"
  tr_reasons :: "string list option"
  tr_created_at :: instant
  tr_updated_at :: instant

datatype scope_repo_relation =
    RepoOwns | RepoContains | RepoUses | RepoDependsOn | RepoSharedBy | RepoDeployedWith | RepoReadContext
  | RepoWriteTarget | RepoTestTarget

record scope_repo =
  srp_id :: id
  srp_scope_node_id :: id
  srp_repo_id :: id
  srp_relation :: scope_repo_relation
  srp_default_access :: ticket_repo_access
  srp_confidence :: "rat option"
  srp_role_description :: "string option"
  srp_reasons :: "string list option"
  srp_created_at :: instant
  srp_updated_at :: instant

datatype delivery_status =
    NotStarted | BranchCreated | ChangesMade | TestsFailed | TestsPassed | PrOpened
  | ReviewReady | DeliveryDone

definition DELIVERY_EVIDENCED_STATUSES :: "delivery_status list" where
  "DELIVERY_EVIDENCED_STATUSES = [ReviewReady, DeliveryDone]"

record ticket_repo_delivery =
  rd_ticket_id :: id
  rd_repo_id :: id
  rd_branch_name :: "string option"
  rd_commit_sha :: "string option"
  rd_base_sha :: "string option"
  rd_pr_url :: "string option"
  rd_status :: delivery_status
  rd_evidence_ref :: "string option"
  rd_created_at :: instant
  rd_updated_at :: instant

record ticket_dependency =
  dep_ticket_id :: id
  dep_depends_on :: id
  dep_created_at :: instant

record dependency_view =
  dv_depends_on :: id
  dv_number :: "nat option"
  dv_title :: string
  dv_status :: ticket_status
  dv_satisfied :: bool

datatype decision_relation = RBlocks | RInforms | RCreatedBy | RSupersedes

record ticket_decision =
  td_ticket_id :: id
  td_decision_id :: id
  td_relation :: decision_relation

section \<open>Errors\<close>

datatype dispatch_error_code =
    NOT_FOUND | VALIDATION_ERROR | PAYLOAD_TOO_LARGE | POLICY_DENIED | STATE_CONFLICT | PARTLY_LANDED
  | CONCURRENCY_CONFLICT | ILLEGAL_TRANSITION | NO_OP | DUPLICATE | CLAIM_INVALID | CLAIM_REQUIRED
  | TICKET_NOT_CLAIMABLE | TICKET_NOT_HUMAN_OWNED | DEPENDENCY_BLOCKED | AGENT_NOT_ELIGIBLE
  | SCOPE_NODE_IN_USE | REPO_NOT_LINKED | INVALID_EDGE | INVALID_DEPENDENCY
  | ADVANCED_RELATION_REQUIRED | ACTOR_NOT_PERMITTED | SCOPE_DENIED | READ_ONLY_TOKEN | UNAUTHORIZED
  | FACTORY_RUNNER_OWNED | NOT_CONFIGURED | TEST_CONTRACT_LEAK | BINDING_REQUIRED
  | ACCEPTANCE_EVIDENCE_REQUIRED | CONTRACT_MISMATCH | CONTRACT_FROZEN | OBSERVED_RISK_ESCALATED
  | DB_NOT_EMPTY | DB_NOT_FOUND | AMBIGUOUS_REF | INCOMPATIBLE_BUNDLE | INCONSISTENT_BUNDLE
  | MERGE_IN_FLIGHT | FILE_NOT_FOUND | IO_ERROR | WRITE_FAILED | DB_BUSY | NOT_A_GIT_REPO | UNSAFE_BIND
  | INTERNAL_ERROR

text \<open>
  What an operation throws: a structured \<open>DispatchError\<close> by its code, or the constraint error
  SQLite raises on an insert (the partial unique index on active claims; a primary key; a
  reference to a row that does not exist), or the error of a failed input schema.
\<close>

datatype thrown =
    DispatchError dispatch_error_code
  | SqliteUnique
  | SqlitePrimaryKey
  | SqliteForeignKey
  | ZodError

lemma status_name_inj: "status_name a = status_name b \<Longrightarrow> a = b"
  by (cases a; cases b) simp_all

lemma TICKET_STATUSES_all: "s \<in> set TICKET_STATUSES"
  by (cases s) (simp_all add: TICKET_STATUSES_def)

end
