(* ===== verification/Samples.thy ===== *)
theory Samples
  imports Domain
begin

text \<open>
  Concrete rows for the worked examples that accompany the theorems: a ticket, a criterion and
  a claim whose optional columns are empty. They model no code.
\<close>

definition sample_ticket :: "id \<Rightarrow> nat \<Rightarrow> ticket_status \<Rightarrow> ticket" where
  "sample_ticket i n st = \<lparr>t_id = i, t_number = Some n, t_title = ''Fix'', t_description = ''It'',
     t_status = st, t_priority = 0, t_risk_level = Low, t_policy_pack = SoloLoose, t_source = None,
     t_created_by = None, t_reviewer = None, t_branch_name = None, t_pr_url = None,
     t_attempt_count = 0, t_row_version = 0, t_scheduled_after = None, t_due_at = None,
     t_bootstrap = False, t_last_review_feedback = None, t_can_be_tested = False,
     t_test_contract = None, t_acceptance = False, t_allow_test_changes = False,
     t_human_owner = None, t_human_delivered = None, t_delivery_budget_usd = None,
     t_created_at = 0, t_updated_at = 0\<rparr>"

definition sample_ac :: "id \<Rightarrow> id \<Rightarrow> acceptance_criterion" where
  "sample_ac i tid = \<lparr>ac_id = i, ac_ticket_id = tid, ac_text = ''works'', ac_sort_order = 0,
     ac_status = AcPending, ac_verification_method = Some ''test'', ac_evidence_required = False,
     ac_verified_by = None, ac_verified_at = None, ac_check_command = None,
     ac_spec_clause_id = None, ac_created_at = 0, ac_updated_at = 0\<rparr>"

definition sample_claim :: "id \<Rightarrow> id \<Rightarrow> string \<Rightarrow> instant \<Rightarrow> ticket_claim" where
  "sample_claim i tid h expires = \<lparr>c_id = i, c_ticket_id = tid, c_agent_id = ''a1'', c_token_hash = h,
     c_status = ClActive, c_expires_at = expires, c_heartbeat_at = 0, c_created_at = 0,
     c_released_at = None\<rparr>"

definition sample_agent :: "id \<Rightarrow> agent" where
  "sample_agent i = \<lparr>g_id = i, g_display_name = None, g_agent_type = ''claude'', g_model = None,
     g_runtime = None, g_host = None, g_max_risk = High, g_status = AgActive, g_created_by = None,
     g_last_seen_at = None, g_created_at = 0, g_updated_at = 0, g_squad_name = None,
     g_shirt_number = None\<rparr>"

lemmas sample_defs = sample_ticket_def sample_ac_def sample_claim_def sample_agent_def

end
