(* ===== verification/Store.thy ===== *)
theory Store
  imports Samples "HOL-Library.Product_Lexorder"
begin

text \<open>
  The database of the control plane and its repositories
  (\<open>packages/dispatch/src/repositories/\<close>): a record of tables, each a list of rows in \<open>rowid\<close>
  order, and one definition per query or statement. The repositories hold no business rules;
  what they promise their clients (what a read returns after a write, which rows a statement
  touches) is proved beside them and in the theories that use them.

  What the sources take from outside the repository arrives through \<open>env\<close>: the clock, the
  random identifiers and tokens of \<open>node:crypto\<close>, its SHA-256, the git runner and the file
  system. Nothing is assumed of them here.
\<close>

section \<open>The environment of an operation\<close>

datatype id_kind = ClaimId | EventId | TicketId | AcId | EvidenceId | DecisionId | AgentId | ReworkId
  | RepoId | ScopeNodeId | ScopeEdgeId | ScopeRepoId

record git_result =
  gr_status :: "int option"
  gr_stdout :: string
  gr_truncated :: bool

record env =
  en_now :: instant
  en_uuid :: "id_kind \<Rightarrow> nat \<Rightarrow> id"
  en_token :: "nat \<Rightarrow> string"
  en_sha256 :: "string \<Rightarrow> string"
  en_git :: "string \<Rightarrow> string list \<Rightarrow> git_result"
  en_exists :: "string \<Rightarrow> bool"
  en_correlation :: "string option"

section \<open>The tables\<close>

record db =
  db_tickets :: "ticket list"
  db_claims :: "ticket_claim list"
  db_acs :: "acceptance_criterion list"
  db_agents :: "agent list"
  db_agent_caps :: "(id \<times> string) list"
  db_required_caps :: "(id \<times> string) list"
  db_decisions :: "decision list"
  db_ticket_decisions :: "ticket_decision list"
  db_dependencies :: "ticket_dependency list"
  db_paused :: "paused_delivery list"
  db_evidence :: "evidence list"
  db_events :: "work_event list"
  db_repositories :: "repository list"
  db_ticket_repos :: "ticket_repo list"
  db_repo_deliveries :: "ticket_repo_delivery list"
  db_ticket_scopes :: "ticket_scope_node list"
  db_scope_repos :: "scope_repo list"
  db_scope_nodes :: "scope_node list"
  db_scope_edges :: "scope_edge list"
  db_rework :: "rework_attempt list"

type_synonym 'a op = "(db, thrown, 'a) tx"

definition empty_db :: db where
  "empty_db = \<lparr>db_tickets = [], db_claims = [], db_acs = [], db_agents = [], db_agent_caps = [],
     db_required_caps = [], db_decisions = [], db_ticket_decisions = [], db_dependencies = [],
     db_paused = [], db_evidence = [], db_events = [], db_repositories = [], db_ticket_repos = [],
     db_repo_deliveries = [], db_ticket_scopes = [], db_scope_repos = [], db_scope_nodes = [],
     db_scope_edges = [], db_rework = []\<rparr>"

abbreviation orElse :: "'a option \<Rightarrow> 'a option \<Rightarrow> 'a option" where
  "orElse new old \<equiv> (case new of None \<Rightarrow> old | Some v \<Rightarrow> Some v)"

text \<open>
  An environment for the worked examples: it is noon of day 1, no git, an empty disk, and
  identifiers that count.
\<close>

definition sample_env :: env where
  "sample_env = \<lparr>en_now = 43200000, en_uuid = (\<lambda>k n. (case k of ClaimId \<Rightarrow> ''cl'' | EventId \<Rightarrow> ''ev''
       | TicketId \<Rightarrow> ''tk'' | AcId \<Rightarrow> ''ac'' | EvidenceId \<Rightarrow> ''ed'' | DecisionId \<Rightarrow> ''dc''
       | AgentId \<Rightarrow> ''ag'' | ReworkId \<Rightarrow> ''rw''
       | RepoId \<Rightarrow> ''rp'' | ScopeNodeId \<Rightarrow> ''sn'' | ScopeEdgeId \<Rightarrow> ''se'' | ScopeRepoId \<Rightarrow> ''sr'') @ show_nat n),
     en_token = (\<lambda>n. ''tok'' @ show_nat n), en_sha256 = (\<lambda>s. ''sha:'' @ s),
     en_git = (\<lambda>_ _. \<lparr>gr_status = None, gr_stdout = [], gr_truncated = False\<rparr>),
     en_exists = (\<lambda>_. False), en_correlation = None\<rparr>"

section \<open>The event log\<close>

text \<open>
  \<open>writeEvent\<close> appends one row and returns its id. The hash columns are derived from the other
  columns and the previous row; theory \<open>Event_Chain\<close> models them.
\<close>

definition writeEvent ::
  "env \<Rightarrow> string \<Rightarrow> id \<Rightarrow> actor \<Rightarrow> string \<Rightarrow> json option \<Rightarrow> id op" where
  "writeEvent en entity_type entity_id actor event_type payload = (\<lambda>db.
     let i = en_uuid en EventId (length (db_events db)) in
     Inr (i, db\<lparr>db_events := db_events db @
       [\<lparr>we_id = i, we_entity_type = entity_type, we_entity_id = entity_id,
         we_actor_type = a_type actor, we_actor_id = a_id actor, we_event_type = event_type,
         we_payload = payload, we_correlation_id = en_correlation en,
         we_created_at = en_now en\<rparr>]\<rparr>))"

abbreviation ticketEvent :: "env \<Rightarrow> id \<Rightarrow> actor \<Rightarrow> string \<Rightarrow> (string \<times> json) list \<Rightarrow> id op" where
  "ticketEvent en tid actor event_type payload \<equiv>
     writeEvent en ''ticket'' tid actor event_type (Some (JObj payload))"

section \<open>Tickets\<close>

definition ticket_findById :: "db \<Rightarrow> id \<Rightarrow> ticket option" where
  "ticket_findById db i = find_row t_id i (db_tickets db)"

definition ticket_findByNumber :: "db \<Rightarrow> nat \<Rightarrow> ticket option" where
  "ticket_findByNumber db n = find (\<lambda>t. t_number t = Some n) (db_tickets db)"

definition ticket_nextNumber :: "db \<Rightarrow> nat" where
  "ticket_nextNumber db =
     foldr (\<lambda>t m. case t_number t of None \<Rightarrow> m | Some n \<Rightarrow> max n m) (db_tickets db) 0 + 1"

definition ticket_insert :: "ticket \<Rightarrow> unit op" where
  "ticket_insert t = (\<lambda>db.
     if t_id t \<in> t_id ` set (db_tickets db) then Inl SqlitePrimaryKey
     else if t_number t \<noteq> None \<and> t_number t \<in> t_number ` set (db_tickets db) then Inl SqliteUnique
     else Inr ((), db\<lparr>db_tickets := db_tickets db @ [t]\<rparr>))"

record ticket_patch =
  pt_branch_name :: "string option"
  pt_pr_url :: "string option"
  pt_reviewer :: "string option"
  pt_attempt_count :: "nat option"

definition no_patch :: ticket_patch where
  "no_patch = \<lparr>pt_branch_name = None, pt_pr_url = None, pt_reviewer = None, pt_attempt_count = None\<rparr>"

definition apply_status :: "ticket_status \<Rightarrow> ticket_patch \<Rightarrow> instant \<Rightarrow> ticket \<Rightarrow> ticket" where
  "apply_status to patch now t = t\<lparr>
     t_status := to,
     t_row_version := t_row_version t + 1,
     t_attempt_count := (case pt_attempt_count patch of None \<Rightarrow> t_attempt_count t | Some n \<Rightarrow> n),
     t_branch_name := orElse (pt_branch_name patch) (t_branch_name t),
     t_pr_url := orElse (pt_pr_url patch) (t_pr_url t),
     t_reviewer := orElse (pt_reviewer patch) (t_reviewer t),
     t_updated_at := now\<rparr>"

text \<open>
  The optimistic-concurrency update: it returns whether a row still matched the expected
  version, and changes nothing when none did.
\<close>

definition ticket_updateStatus ::
  "id \<Rightarrow> ticket_status \<Rightarrow> nat \<Rightarrow> ticket_patch \<Rightarrow> instant \<Rightarrow> bool op" where
  "ticket_updateStatus i to expected patch now = (\<lambda>db.
     let hit = (\<lambda>t. t_id t = i \<and> t_row_version t = expected) in
     Inr (list_ex hit (db_tickets db),
          db\<lparr>db_tickets := upd_rows hit (apply_status to patch now) (db_tickets db)\<rparr>))"

definition ticket_update :: "id \<Rightarrow> (ticket \<Rightarrow> ticket) \<Rightarrow> unit op" where
  "ticket_update i f = modifyT (\<lambda>db. db\<lparr>db_tickets := upd_rows (\<lambda>t. t_id t = i) f (db_tickets db)\<rparr>)"

definition setReviewFeedback :: "id \<Rightarrow> review_feedback option \<Rightarrow> unit op" where
  "setReviewFeedback i v = ticket_update i (\<lambda>t. t\<lparr>t_last_review_feedback := v\<rparr>)"

definition setHumanOwner :: "id \<Rightarrow> string option \<Rightarrow> unit op" where
  "setHumanOwner i v = ticket_update i (\<lambda>t. t\<lparr>t_human_owner := v\<rparr>)"

definition setHumanDelivered :: "id \<Rightarrow> string option \<Rightarrow> unit op" where
  "setHumanDelivered i v = ticket_update i (\<lambda>t. t\<lparr>t_human_delivered := v\<rparr>)"

definition setDeliveryBudget :: "id \<Rightarrow> rat option \<Rightarrow> instant \<Rightarrow> unit op" where
  "setDeliveryBudget i v now =
     ticket_update i (\<lambda>t. t\<lparr>t_delivery_budget_usd := v, t_updated_at := now\<rparr>)"

definition setCanBeTested :: "id \<Rightarrow> bool \<Rightarrow> instant \<Rightarrow> unit op" where
  "setCanBeTested i v now = ticket_update i (\<lambda>t. t\<lparr>t_can_be_tested := v, t_updated_at := now\<rparr>)"

definition setAllowTestChanges :: "id \<Rightarrow> bool \<Rightarrow> instant \<Rightarrow> unit op" where
  "setAllowTestChanges i v now =
     ticket_update i (\<lambda>t. t\<lparr>t_allow_test_changes := v, t_updated_at := now\<rparr>)"

definition setTestContract :: "id \<Rightarrow> json option \<Rightarrow> instant \<Rightarrow> unit op" where
  "setTestContract i v now = ticket_update i (\<lambda>t. t\<lparr>t_test_contract := v, t_updated_at := now\<rparr>)"

definition ticket_touch :: "id \<Rightarrow> instant \<Rightarrow> unit op" where
  "ticket_touch i now = ticket_update i (\<lambda>t. t\<lparr>t_updated_at := now\<rparr>)"

record ticket_fields =
  tf_title :: "string option"
  tf_description :: "string option"
  tf_policy_pack :: "policy_pack option"
  tf_priority :: "int option"

definition apply_fields :: "ticket_fields \<Rightarrow> instant \<Rightarrow> ticket \<Rightarrow> ticket" where
  "apply_fields f now t = t\<lparr>
     t_title := (case tf_title f of None \<Rightarrow> t_title t | Some v \<Rightarrow> v),
     t_description := (case tf_description f of None \<Rightarrow> t_description t | Some v \<Rightarrow> v),
     t_policy_pack := (case tf_policy_pack f of None \<Rightarrow> t_policy_pack t | Some v \<Rightarrow> v),
     t_priority := (case tf_priority f of None \<Rightarrow> t_priority t | Some v \<Rightarrow> v),
     t_row_version := t_row_version t + 1,
     t_updated_at := now\<rparr>"

definition ticket_updateFields :: "id \<Rightarrow> nat \<Rightarrow> ticket_fields \<Rightarrow> instant \<Rightarrow> bool op" where
  "ticket_updateFields i expected f now = (\<lambda>db.
     let hit = (\<lambda>t. t_id t = i \<and> t_row_version t = expected) in
     Inr (list_ex hit (db_tickets db),
          db\<lparr>db_tickets := upd_rows hit (apply_fields f now) (db_tickets db)\<rparr>))"

end
