(* ===== verification/Link_Store.thy ===== *)
theory Link_Store
  imports Store "HOL-Library.List_Lexorder" "HOL-Library.Char_ord" "HOL-Library.Option_ord"
begin

text \<open>
  The repositories beside tickets and claims (\<open>packages/dispatch/src/repositories/\<close>): agents
  and capabilities, acceptance criteria, evidence, decisions and their ticket links,
  dependencies, paused deliveries, repository links, per-repository deliveries, scope links
  and the rework trail. A query is a function of the database; a statement is an operation.
  An insert throws what the table's constraints throw.
\<close>

section \<open>Agents and capabilities\<close>

definition agent_findById :: "db \<Rightarrow> id \<Rightarrow> agent option" where
  "agent_findById db i = find_row g_id i (db_agents db)"

definition agent_insert :: "agent \<Rightarrow> unit op" where
  "agent_insert a = (\<lambda>db.
     if g_id a \<in> g_id ` set (db_agents db) then Inl SqlitePrimaryKey
     else Inr ((), db\<lparr>db_agents := db_agents db @ [a]\<rparr>))"

definition agent_addCapability :: "id \<Rightarrow> string \<Rightarrow> unit op" where
  "agent_addCapability i cap = modifyT (\<lambda>db.
     if (i, cap) \<in> set (db_agent_caps db) then db
     else db\<lparr>db_agent_caps := db_agent_caps db @ [(i, cap)]\<rparr>)"

definition agent_capabilities :: "db \<Rightarrow> id \<Rightarrow> string list" where
  "agent_capabilities db i = sort (map snd (filter (\<lambda>r. fst r = i) (db_agent_caps db)))"

definition agent_touchLastSeen :: "id \<Rightarrow> instant \<Rightarrow> unit op" where
  "agent_touchLastSeen i now = modifyT (\<lambda>db. db\<lparr>db_agents :=
     upd_rows (\<lambda>a. g_id a = i) (\<lambda>a. a\<lparr>g_last_seen_at := Some now, g_updated_at := now\<rparr>)
       (db_agents db)\<rparr>)"

definition required_listForTicket :: "db \<Rightarrow> id \<Rightarrow> string list" where
  "required_listForTicket db tid =
     sort (map snd (filter (\<lambda>r. fst r = tid) (db_required_caps db)))"

text \<open>\<open>setForTicket\<close>: delete every row of the ticket, then insert each capability once.\<close>

definition required_setForTicket :: "id \<Rightarrow> string list \<Rightarrow> unit op" where
  "required_setForTicket tid caps = modifyT (\<lambda>db. db\<lparr>db_required_caps :=
     filter (\<lambda>r. fst r \<noteq> tid) (db_required_caps db) @ map (Pair tid) (rev (remdups (rev caps)))\<rparr>)"

section \<open>Acceptance criteria\<close>

definition ac_findById :: "db \<Rightarrow> id \<Rightarrow> acceptance_criterion option" where
  "ac_findById db i = find_row ac_id i (db_acs db)"

definition ac_insert :: "acceptance_criterion \<Rightarrow> unit op" where
  "ac_insert ac = (\<lambda>db.
     if ac_id ac \<in> ac_id ` set (db_acs db) then Inl SqlitePrimaryKey
     else Inr ((), db\<lparr>db_acs := db_acs db @ [ac]\<rparr>))"

definition ac_listForTicket :: "db \<Rightarrow> id \<Rightarrow> acceptance_criterion list" where
  "ac_listForTicket db tid =
     sort_key ac_sort_order (filter (\<lambda>a. ac_ticket_id a = tid) (db_acs db))"

definition ac_nextSortOrder :: "db \<Rightarrow> id \<Rightarrow> nat" where
  "ac_nextSortOrder db tid =
     foldr (\<lambda>a m. max (ac_sort_order a + 1) m) (filter (\<lambda>a. ac_ticket_id a = tid) (db_acs db)) 0"

definition ac_update ::
  "id \<Rightarrow> string \<Rightarrow> string option \<Rightarrow> string option \<Rightarrow> instant \<Rightarrow> unit op" where
  "ac_update i txt method check now = modifyT (\<lambda>db. db\<lparr>db_acs :=
     upd_rows (\<lambda>a. ac_id a = i)
       (\<lambda>a. a\<lparr>ac_text := txt, ac_verification_method := method, ac_check_command := check,
              ac_status := AcPending, ac_verified_by := None, ac_verified_at := None,
              ac_updated_at := now\<rparr>) (db_acs db)\<rparr>)"

text \<open>Deleting a criterion cascades to its evidence.\<close>

definition ac_delete :: "id \<Rightarrow> unit op" where
  "ac_delete i = modifyT (\<lambda>db. db\<lparr>db_acs := filter (\<lambda>a. ac_id a \<noteq> i) (db_acs db),
     db_evidence := filter (\<lambda>e. ev_ac_id e \<noteq> Some i) (db_evidence db)\<rparr>)"

definition ac_setStatus :: "id \<Rightarrow> ac_status \<Rightarrow> string option \<Rightarrow> instant \<Rightarrow> unit op" where
  "ac_setStatus i st by_whom now = modifyT (\<lambda>db. db\<lparr>db_acs :=
     upd_rows (\<lambda>a. ac_id a = i)
       (\<lambda>a. a\<lparr>ac_status := st, ac_verified_by := by_whom,
              ac_verified_at := (if st = AcSatisfied then Some now else ac_verified_at a),
              ac_updated_at := now\<rparr>) (db_acs db)\<rparr>)"

definition ac_reset :: "instant \<Rightarrow> acceptance_criterion \<Rightarrow> acceptance_criterion" where
  "ac_reset now a = a\<lparr>ac_status := AcPending, ac_verified_by := None, ac_verified_at := None,
     ac_updated_at := now\<rparr>"

definition ac_resetForTicket :: "id \<Rightarrow> instant \<Rightarrow> nat op" where
  "ac_resetForTicket tid now = (\<lambda>db.
     Inr (length (filter (\<lambda>a. ac_ticket_id a = tid) (db_acs db)),
          db\<lparr>db_acs := upd_rows (\<lambda>a. ac_ticket_id a = tid) (ac_reset now) (db_acs db)\<rparr>))"

section \<open>Evidence\<close>

definition evidence_insert :: "evidence \<Rightarrow> unit op" where
  "evidence_insert e = (\<lambda>db.
     if ev_id e \<in> ev_id ` set (db_evidence db) then Inl SqlitePrimaryKey
     else if ev_ticket_id e \<notin> t_id ` set (db_tickets db)
          \<or> (\<exists>a \<in> set_option (ev_ac_id e). a \<notin> ac_id ` set (db_acs db))
          \<or> (\<exists>r \<in> set_option (ev_repo_id e). r \<notin> r_id ` set (db_repositories db))
          \<or> (\<exists>d \<in> set_option (ev_decision_id e). d \<notin> d_id ` set (db_decisions db))
       then Inl SqliteForeignKey
     else Inr ((), db\<lparr>db_evidence := db_evidence db @ [e]\<rparr>))"

definition evidence_listForTicket :: "db \<Rightarrow> id \<Rightarrow> evidence list" where
  "evidence_listForTicket db tid =
     sort_key ev_created_at (filter (\<lambda>e. ev_ticket_id e = tid) (db_evidence db))"

text \<open>\<open>countByAc\<close> read at one criterion (\<open>get(acId) ?? 0\<close>).\<close>

definition evidence_countByAc :: "db \<Rightarrow> id \<Rightarrow> id \<Rightarrow> nat" where
  "evidence_countByAc db tid acid =
     length (filter (\<lambda>e. ev_ticket_id e = tid \<and> ev_ac_id e = Some acid) (db_evidence db))"

definition evidence_hasPrOrDiff :: "db \<Rightarrow> id \<Rightarrow> bool" where
  "evidence_hasPrOrDiff db tid =
     list_ex (\<lambda>e. ev_ticket_id e = tid \<and> ev_type e \<in> {PullRequest, DiffSummary}) (db_evidence db)"

section \<open>Decisions\<close>

definition decision_findById :: "db \<Rightarrow> id \<Rightarrow> decision option" where
  "decision_findById db i = find_row d_id i (db_decisions db)"

definition decision_insert :: "decision \<Rightarrow> unit op" where
  "decision_insert d = (\<lambda>db.
     if d_id d \<in> d_id ` set (db_decisions db) then Inl SqlitePrimaryKey
     else Inr ((), db\<lparr>db_decisions := db_decisions db @ [d]\<rparr>))"

definition decision_resolve ::
  "id \<Rightarrow> decision_status \<Rightarrow> string option \<Rightarrow> string option \<Rightarrow> string option \<Rightarrow> instant \<Rightarrow> bool op" where
  "decision_resolve i st answer rationale by_whom now = (\<lambda>db.
     Inr (list_ex (\<lambda>d. d_id d = i) (db_decisions db),
          db\<lparr>db_decisions := upd_rows (\<lambda>d. d_id d = i)
            (\<lambda>d. d\<lparr>d_status := st, d_resolved_answer := answer,
                   d_rationale := orElse rationale (d_rationale d),
                   d_resolved_by := by_whom, d_resolved_at := Some now, d_updated_at := now\<rparr>)
            (db_decisions db)\<rparr>))"

definition decision_link :: "id \<Rightarrow> id \<Rightarrow> decision_relation \<Rightarrow> unit op" where
  "decision_link tid did rel = (\<lambda>db.
     let row = \<lparr>td_ticket_id = tid, td_decision_id = did, td_relation = rel\<rparr> in
     if row \<in> set (db_ticket_decisions db) then Inr ((), db)
     else if tid \<notin> t_id ` set (db_tickets db) \<or> did \<notin> d_id ` set (db_decisions db)
       then Inl SqliteForeignKey
     else Inr ((), db\<lparr>db_ticket_decisions := db_ticket_decisions db @ [row]\<rparr>))"

definition decision_settled :: "decision_status \<Rightarrow> bool" where
  "decision_settled s = (s \<in> {DsAccepted, DsRejected, DsSuperseded})"

definition decision_listPending :: "db \<Rightarrow> decision list" where
  "decision_listPending db = sort_key d_created_at
     (filter (\<lambda>d. d_status d \<in> {DsRequested, DsAgentProposed, DsHumanRequired}) (db_decisions db))"

definition blockingForTicket :: "db \<Rightarrow> id \<Rightarrow> decision list" where
  "blockingForTicket db tid = concat (map (\<lambda>td.
       if td_ticket_id td = tid \<and> td_relation td = RBlocks then
         filter (\<lambda>d. d_id d = td_decision_id td \<and> \<not> decision_settled (d_status d)) (db_decisions db)
       else []) (db_ticket_decisions db))"

definition hasUnresolvedHumanRequired :: "db \<Rightarrow> id \<Rightarrow> bool" where
  "hasUnresolvedHumanRequired db tid =
     list_ex (\<lambda>d. d_severity d = HumanRequired) (blockingForTicket db tid)"

section \<open>Dependencies\<close>

definition dep_exists :: "db \<Rightarrow> id \<Rightarrow> id \<Rightarrow> bool" where
  "dep_exists db tid on =
     list_ex (\<lambda>d. dep_ticket_id d = tid \<and> dep_depends_on d = on) (db_dependencies db)"

definition dep_insert :: "ticket_dependency \<Rightarrow> unit op" where
  "dep_insert d = (\<lambda>db.
     if dep_exists db (dep_ticket_id d) (dep_depends_on d) then Inl SqlitePrimaryKey
     else if dep_ticket_id d \<notin> t_id ` set (db_tickets db)
           \<or> dep_depends_on d \<notin> t_id ` set (db_tickets db) then Inl SqliteForeignKey
     else Inr ((), db\<lparr>db_dependencies := db_dependencies db @ [d]\<rparr>))"

definition dep_delete :: "id \<Rightarrow> id \<Rightarrow> bool op" where
  "dep_delete tid on = (\<lambda>db.
     Inr (dep_exists db tid on, db\<lparr>db_dependencies :=
       filter (\<lambda>d. \<not> (dep_ticket_id d = tid \<and> dep_depends_on d = on)) (db_dependencies db)\<rparr>))"

definition dependsOn :: "db \<Rightarrow> id \<Rightarrow> id list" where
  "dependsOn db tid =
     map dep_depends_on (filter (\<lambda>d. dep_ticket_id d = tid) (db_dependencies db))"

definition dep_listForTicket :: "db \<Rightarrow> id \<Rightarrow> dependency_view list" where
  "dep_listForTicket db tid = sort_key dv_number (concat (map (\<lambda>on.
       map (\<lambda>t. \<lparr>dv_depends_on = on, dv_number = t_number t, dv_title = t_title t,
                  dv_status = t_status t, dv_satisfied = (t_status t = Done)\<rparr>)
         (filter (\<lambda>t. t_id t = on) (db_tickets db))) (dependsOn db tid)))"

definition unsatisfiedDependencies :: "db \<Rightarrow> id \<Rightarrow> dependency_view list" where
  "unsatisfiedDependencies db tid = filter (\<lambda>v. \<not> dv_satisfied v) (dep_listForTicket db tid)"

definition hasUnsatisfiedDependencies :: "db \<Rightarrow> id \<Rightarrow> bool" where
  "hasUnsatisfiedDependencies db tid =
     list_ex (\<lambda>d. dep_ticket_id d = tid \<and>
                list_ex (\<lambda>t. t_id t = dep_depends_on d \<and> t_status t \<noteq> Done) (db_tickets db))
       (db_dependencies db)"

section \<open>Paused deliveries\<close>

record pause_context =
  pc_reason :: pause_reason
  pc_branch_name :: "string option"
  pc_worktree_path :: "string option"
  pc_worktrees_json :: "string option"
  pc_repo :: "string option"
  pc_attempt :: nat
  pc_turns :: "nat option"
  pc_spend :: "string option"

definition paused_find :: "db \<Rightarrow> id \<Rightarrow> paused_delivery option" where
  "paused_find db tid = find_row p_ticket_id tid (db_paused db)"

definition paused_row :: "id \<Rightarrow> pause_context \<Rightarrow> instant \<Rightarrow> instant \<Rightarrow> paused_delivery" where
  "paused_row tid c created now = \<lparr>p_ticket_id = tid, p_reason = pc_reason c,
     p_branch_name = pc_branch_name c, p_worktree_path = pc_worktree_path c,
     p_worktrees_json = pc_worktrees_json c, p_repo = pc_repo c, p_attempt = pc_attempt c,
     p_turns = pc_turns c, p_spend = pc_spend c, p_resume_requested = False,
     p_created_at = created, p_updated_at = now\<rparr>"

definition paused_upsert :: "id \<Rightarrow> pause_context \<Rightarrow> instant \<Rightarrow> unit op" where
  "paused_upsert tid c now = modifyT (\<lambda>db. db\<lparr>db_paused :=
     (if paused_find db tid = None then db_paused db @ [paused_row tid c now now]
      else upd_rows (\<lambda>p. p_ticket_id p = tid) (\<lambda>p. paused_row tid c (p_created_at p) now)
             (db_paused db))\<rparr>)"

definition setResumeRequested :: "id \<Rightarrow> bool \<Rightarrow> instant \<Rightarrow> unit op" where
  "setResumeRequested tid v now = modifyT (\<lambda>db. db\<lparr>db_paused :=
     upd_rows (\<lambda>p. p_ticket_id p = tid)
       (\<lambda>p. p\<lparr>p_resume_requested := v, p_updated_at := now\<rparr>) (db_paused db)\<rparr>)"

definition listResumeRequested :: "db \<Rightarrow> paused_delivery list" where
  "listResumeRequested db = sort_key p_created_at (filter p_resume_requested (db_paused db))"

definition paused_delete :: "id \<Rightarrow> unit op" where
  "paused_delete tid = modifyT (\<lambda>db. db\<lparr>db_paused := filter (\<lambda>p. p_ticket_id p \<noteq> tid) (db_paused db)\<rparr>)"

section \<open>Repository links and per-repository deliveries\<close>

definition repo_findById :: "db \<Rightarrow> id \<Rightarrow> repository option" where
  "repo_findById db i = find_row r_id i (db_repositories db)"

definition repo_findByName :: "db \<Rightarrow> string \<Rightarrow> repository option" where
  "repo_findByName db n = find_row r_name n (db_repositories db)"

definition repo_by_name_or_id :: "db \<Rightarrow> string \<Rightarrow> repository option" where
  "repo_by_name_or_id db ref = (case repo_findByName db ref of Some r \<Rightarrow> Some r | None \<Rightarrow> repo_findById db ref)"

text \<open>\<open>listForTicket\<close>: each link with its repository, by role and then repository name.\<close>

definition repo_listForTicket :: "db \<Rightarrow> id \<Rightarrow> (ticket_repo \<times> repository) list" where
  "repo_listForTicket db tid = sort_key (\<lambda>(tr, r). (role_rank (tr_role tr), r_name r))
     (concat (map (\<lambda>tr.
        if tr_ticket_id tr = tid then map (Pair tr) (filter (\<lambda>r. r_id r = tr_repo_id tr) (db_repositories db))
        else []) (db_ticket_repos db)))"

definition repo_countForTicket :: "db \<Rightarrow> id \<Rightarrow> nat" where
  "repo_countForTicket db tid = length (filter (\<lambda>tr. tr_ticket_id tr = tid) (db_ticket_repos db))"

definition ticketRepoBranch :: "db \<Rightarrow> id \<Rightarrow> id \<Rightarrow> string option" where
  "ticketRepoBranch db tid rid =
     Option.bind (find (\<lambda>tr. tr_ticket_id tr = tid \<and> tr_repo_id tr = rid) (db_ticket_repos db))
       tr_branch_name"

record delivery_upsert =
  du_branchName :: "string option"
  du_commitSha :: "string option"
  du_baseSha :: "string option"
  du_replaceBaseSha :: bool
  du_prUrl :: "string option"
  du_status :: delivery_status
  du_evidenceRef :: "string option"

definition delivery_find :: "db \<Rightarrow> id \<Rightarrow> id \<Rightarrow> ticket_repo_delivery option" where
  "delivery_find db tid rid =
     find (\<lambda>d. rd_ticket_id d = tid \<and> rd_repo_id d = rid) (db_repo_deliveries db)"

definition patch_delivery ::
  "delivery_upsert \<Rightarrow> instant \<Rightarrow> ticket_repo_delivery \<Rightarrow> ticket_repo_delivery" where
  "patch_delivery u now d = d\<lparr>
     rd_branch_name := orElse (du_branchName u) (rd_branch_name d),
     rd_commit_sha := orElse (du_commitSha u) (rd_commit_sha d),
     rd_base_sha := (if du_replaceBaseSha u then orElse (du_baseSha u) (rd_base_sha d)
                     else orElse (rd_base_sha d) (du_baseSha u)),
     rd_pr_url := orElse (du_prUrl u) (rd_pr_url d),
     rd_status := du_status u,
     rd_evidence_ref := orElse (du_evidenceRef u) (rd_evidence_ref d),
     rd_updated_at := now\<rparr>"

definition delivery_upsert_row :: "id \<Rightarrow> id \<Rightarrow> delivery_upsert \<Rightarrow> instant \<Rightarrow> unit op" where
  "delivery_upsert_row tid rid u now = modifyT (\<lambda>db. db\<lparr>db_repo_deliveries :=
     (if delivery_find db tid rid = None then db_repo_deliveries db @
        [\<lparr>rd_ticket_id = tid, rd_repo_id = rid, rd_branch_name = du_branchName u,
          rd_commit_sha = du_commitSha u, rd_base_sha = du_baseSha u, rd_pr_url = du_prUrl u,
          rd_status = du_status u, rd_evidence_ref = du_evidenceRef u,
          rd_created_at = now, rd_updated_at = now\<rparr>]
      else upd_rows (\<lambda>d. rd_ticket_id d = tid \<and> rd_repo_id d = rid) (patch_delivery u now)
             (db_repo_deliveries db))\<rparr>)"

definition delivery_listForTicket :: "db \<Rightarrow> id \<Rightarrow> (ticket_repo_delivery \<times> string) list" where
  "delivery_listForTicket db tid = sort_key (\<lambda>(d, n). (rd_created_at d, n))
     (concat (map (\<lambda>d.
        if rd_ticket_id d = tid then map (\<lambda>r. (d, r_name r)) (filter (\<lambda>r. r_id r = rd_repo_id d) (db_repositories db))
        else []) (db_repo_deliveries db)))"

section \<open>Scope links\<close>

text \<open>Each link with its node, the primary one first and then by relation and name.\<close>

fun ticket_scope_rank :: "ticket_scope_relation \<Rightarrow> nat" where
  "ticket_scope_rank ScPrimary = 0"
| "ticket_scope_rank ScSecondary = 1"
| "ticket_scope_rank ScSuggested = 2"
| "ticket_scope_rank ScImplicitRepo = 3"
| "ticket_scope_rank ScRejected = 4"

definition scope_listForTicket :: "db \<Rightarrow> id \<Rightarrow> (ticket_scope_node \<times> scope_node) list" where
  "scope_listForTicket db tid = sort_key (\<lambda>(s, n). (ticket_scope_rank (ts_relation s), sn_name n))
     (concat (map (\<lambda>s.
        if ts_ticket_id s = tid then map (Pair s) (filter (\<lambda>n. sn_id n = ts_scope_node_id s) (db_scope_nodes db))
        else []) (db_ticket_scopes db)))"

definition scopesForRepo :: "db \<Rightarrow> id \<Rightarrow> (scope_repo \<times> scope_node) list" where
  "scopesForRepo db rid = sort_key (\<lambda>(sr, n). (node_type_name (sn_type n), sn_name n))
     (concat (map (\<lambda>sr.
        if srp_repo_id sr = rid then map (Pair sr) (filter (\<lambda>n. sn_id n = srp_scope_node_id sr) (db_scope_nodes db))
        else []) (db_scope_repos db)))"

section \<open>The rework trail\<close>

definition rework_insert :: "rework_attempt \<Rightarrow> unit op" where
  "rework_insert w = (\<lambda>db.
     if w_id w \<in> w_id ` set (db_rework db) then Inl SqlitePrimaryKey
     else Inr ((), db\<lparr>db_rework := db_rework db @ [w]\<rparr>))"

definition rework_listForTicket :: "db \<Rightarrow> id \<Rightarrow> rework_attempt list" where
  "rework_listForTicket db tid =
     sort_key w_attempt (filter (\<lambda>w. w_ticket_id w = tid) (db_rework db))"

section \<open>What the queries say\<close>

lemma set_blockingForTicket:
  "set (blockingForTicket db tid) = {d \<in> set (db_decisions db). \<not> decision_settled (d_status d) \<and>
     (\<exists>td \<in> set (db_ticket_decisions db). td_ticket_id td = tid \<and> td_relation td = RBlocks \<and>
        td_decision_id td = d_id d)}"
  by (auto simp: blockingForTicket_def split: if_splits)

lemma blockingForTicket_Nil_iff:
  "blockingForTicket db tid = [] \<longleftrightarrow>
     (\<forall>td \<in> set (db_ticket_decisions db). td_ticket_id td = tid \<and> td_relation td = RBlocks \<longrightarrow>
        (\<forall>d \<in> set (db_decisions db). d_id d = td_decision_id td \<longrightarrow> decision_settled (d_status d)))"
  unfolding set_empty [symmetric] set_blockingForTicket by (auto intro: sym)

lemma unsatisfiedDependencies_Nil_iff:
  "unsatisfiedDependencies db tid = [] \<longleftrightarrow> \<not> hasUnsatisfiedDependencies db tid"
  by (auto simp: unsatisfiedDependencies_def dep_listForTicket_def hasUnsatisfiedDependencies_def
      dependsOn_def list_ex_iff filter_empty_conv)

lemma set_dependsOn: "set (dependsOn db tid) =
    {on. \<exists>d \<in> set (db_dependencies db). dep_ticket_id d = tid \<and> dep_depends_on d = on}"
  by (auto simp: dependsOn_def)

lemma dep_exists_iff: "dep_exists db tid on \<longleftrightarrow> on \<in> set (dependsOn db tid)"
  by (auto simp: dep_exists_def list_ex_iff dependsOn_def)

end
