(* ===== verification/Diff.thy ===== *)
theory Diff
  imports Link_Store
begin

text \<open>
  The done gate's view of a delivery (\<open>services/diffService.ts\<close>): which repositories and git
  ranges a ticket's delivery consists of, the numstat parser, the proof that at least one
  range is non-empty, and the fingerprint by which a proof computed before the write
  transaction is recognised inside it. The git runner and the file system are fields of
  \<open>env\<close>. The rest of that file renders the review payload and is not modelled.
\<close>

section \<open>Targets\<close>

definition GIT_EMPTY_TREE :: string where
  "GIT_EMPTY_TREE = ''4b825dc642cb6eb9a060e54bf8d69288fbee4904''"

definition SAFE_DIFF_FLAGS :: "string list" where
  "SAFE_DIFF_FLAGS = [''--no-ext-diff'', ''--no-textconv'']"

datatype diff_unavailable_reason = NoBranch | RepoNotOnDisk | NoLocalPath | DiffEmpty | GitError

fun unavailable_name :: "diff_unavailable_reason \<Rightarrow> string" where
  "unavailable_name NoBranch = ''no_branch''"
| "unavailable_name RepoNotOnDisk = ''repo_not_on_disk''"
| "unavailable_name NoLocalPath = ''no_local_path''"
| "unavailable_name DiffEmpty = ''empty''"
| "unavailable_name GitError = ''git_error''"

definition is_lower_hex :: "char \<Rightarrow> bool" where
  "is_lower_hex c = (let n = of_char c :: nat in (48 \<le> n \<and> n \<le> 57) \<or> (97 \<le> n \<and> n \<le> 102))"

record diff_target =
  dt_repoId :: id
  dt_repo :: string
  dt_localPath :: string
  dt_baseBranch :: string
  dt_branch :: "string option"
  dt_isBootstrap :: bool
  dt_diffArgs :: "string list"
  dt_label :: string
  dt_rangeDesc :: string
  dt_gateCommands :: "string list"
  dt_baseSha :: "string option"

datatype diff_entry =
    Target diff_target
  | Unavailable string "string option" string diff_unavailable_reason

text \<open>The trimmed value when it is not blank.\<close>

definition nonEmpty :: "string option \<Rightarrow> string option" where
  "nonEmpty v = (case v of None \<Rightarrow> None | Some s \<Rightarrow> if js_trim s = [] then None else Some (js_trim s))"

text \<open>The delivery branch: the link's, else the delivery row's, else the ticket's.\<close>

definition delivery_branch :: "db \<Rightarrow> ticket \<Rightarrow> repository \<Rightarrow> string option" where
  "delivery_branch db t r =
     orElse (nonEmpty (ticketRepoBranch db (t_id t) (r_id r)))
       (orElse (nonEmpty (Option.bind (delivery_find db (t_id t) (r_id r)) rd_branch_name))
               (nonEmpty (t_branch_name t)))"

definition base_branch :: "repository \<Rightarrow> string" where
  "base_branch r = (if r_default_branch r = [] then ''main'' else r_default_branch r)"

definition mk_target :: "db \<Rightarrow> ticket \<Rightarrow> repository \<Rightarrow> string \<Rightarrow> diff_target" where
  "mk_target db t r path = (
     let branch = delivery_branch db t r;
         isBootstrap = (branch = None \<and> t_bootstrap t);
         recordedBase = Option.bind (delivery_find db (t_id t) (r_id r)) rd_base_sha;
         b = (case branch of None \<Rightarrow> [] | Some b \<Rightarrow> b);
         range = base_branch r @ ''...'' @ b in
     \<lparr>dt_repoId = r_id r, dt_repo = r_name r, dt_localPath = path,
      dt_baseBranch = base_branch r, dt_branch = branch, dt_isBootstrap = isBootstrap,
      dt_diffArgs = (if isBootstrap then [GIT_EMPTY_TREE, ''HEAD''] else [range]),
      dt_label = (if isBootstrap then ''initial commit'' else b),
      dt_rangeDesc = (if isBootstrap then ''the initial commit'' else range),
      dt_gateCommands = concat (map (\<lambda>c. case c of None \<Rightarrow> []
          | Some s \<Rightarrow> if js_trim s = [] then [] else [s]) [r_test_command r, r_lint_command r]),
      dt_baseSha = (case recordedBase of None \<Rightarrow> None
          | Some s \<Rightarrow> if 40 \<le> length s \<and> length s \<le> 64 \<and> list_all is_lower_hex s
                     then Some s else None)\<rparr>)"

definition resolve_target :: "env \<Rightarrow> db \<Rightarrow> ticket \<Rightarrow> repository \<Rightarrow> diff_entry" where
  "resolve_target en db t r = (
     let branch = delivery_branch db t r in
     if branch = None \<and> \<not> t_bootstrap t then Unavailable (r_name r) None (base_branch r) NoBranch
     else case r_local_path r of
       None \<Rightarrow> Unavailable (r_name r) branch (base_branch r) NoLocalPath
     | Some path \<Rightarrow>
         if js_trim path = [] then Unavailable (r_name r) branch (base_branch r) NoLocalPath
         else if \<not> en_exists en path then Unavailable (r_name r) branch (base_branch r) RepoNotOnDisk
         else Target (mk_target db t r path))"

definition active_write_links :: "db \<Rightarrow> id \<Rightarrow> (ticket_repo \<times> repository) list" where
  "active_write_links db tid =
     filter (\<lambda>(tr, r). isActiveTicketRepoRelation (tr_relation tr) \<and> tr_access tr = AccWrite)
       (repo_listForTicket db tid)"

definition resolveDiffTargets :: "env \<Rightarrow> db \<Rightarrow> ticket \<Rightarrow> diff_entry list" where
  "resolveDiffTargets en db t = map (\<lambda>(tr, r). resolve_target en db t r) (active_write_links db (t_id t))"

section \<open>Numstat\<close>

text \<open>\<open>String.prototype.split\<close> on a one-character separator.\<close>

fun split_on :: "char \<Rightarrow> string \<Rightarrow> string list" where
  "split_on sep [] = [[]]"
| "split_on sep (c # cs) =
     (if c = sep then [] # split_on sep cs
      else case split_on sep cs of [] \<Rightarrow> [[c]] | p # ps \<Rightarrow> (c # p) # ps)"

text \<open>\<open>Number.parseInt(s, 10)\<close>; \<open>None\<close> is \<open>NaN\<close>.\<close>

definition dec_digit :: "char \<Rightarrow> bool" where
  "dec_digit c = (let n = of_char c :: nat in 48 \<le> n \<and> n \<le> 57)"

definition parseInt10 :: "string \<Rightarrow> int option" where
  "parseInt10 s = (
     let s1 = dropWhile js_ws s;
         neg = (s1 \<noteq> [] \<and> hd s1 = CHR ''-'');
         s2 = (if s1 \<noteq> [] \<and> (hd s1 = CHR ''-'' \<or> hd s1 = CHR ''+'') then tl s1 else s1);
         ds = takeWhile dec_digit s2;
         v = foldl (\<lambda>acc c. acc * 10 + (int (of_char c) - 48)) 0 ds
     in if ds = [] then None else Some (if neg then - v else v))"

record numstat =
  ns_files :: nat
  ns_additions :: int
  ns_deletions :: int
  ns_paths :: "string list"

definition numstat_step :: "numstat \<Rightarrow> string \<Rightarrow> numstat" where
  "numstat_step acc line = (
     let trimmed = js_trim line; parts = split_on (CHR 0x09) trimmed in
     if trimmed = [] \<or> length parts < 3 then acc
     else \<lparr>ns_files = ns_files acc + 1,
           ns_additions = ns_additions acc + (case parseInt10 (parts ! 0) of None \<Rightarrow> 0 | Some n \<Rightarrow> n),
           ns_deletions = ns_deletions acc + (case parseInt10 (parts ! 1) of None \<Rightarrow> 0 | Some n \<Rightarrow> n),
           ns_paths = ns_paths acc @ [last parts]\<rparr>)"

definition parseNumstat :: "string \<Rightarrow> numstat" where
  "parseNumstat out = foldl numstat_step
     \<lparr>ns_files = 0, ns_additions = 0, ns_deletions = 0, ns_paths = []\<rparr> (split_on (CHR 0x0A) out)"

text \<open>A truncated read keeps its output up to and including the last newline.\<close>

definition cut_last_line :: "string \<Rightarrow> string" where
  "cut_last_line s = rev (dropWhile (\<lambda>c. c \<noteq> CHR 0x0A) (rev s))"

definition runNumstat :: "env \<Rightarrow> diff_target \<Rightarrow> git_result" where
  "runNumstat en t = (
     let res = en_git en (dt_localPath t) ([''diff'', ''--numstat''] @ SAFE_DIFF_FLAGS @ dt_diffArgs t)
     in if gr_truncated res then res\<lparr>gr_stdout := cut_last_line (gr_stdout res)\<rparr> else res)"

section \<open>Proof and fingerprint\<close>

record delivery_diff_proof =
  dp_hasDiff :: bool
  dp_fingerprint :: string

definition entry_key :: "diff_entry \<Rightarrow> string list" where
  "entry_key e = (case e of
     Unavailable repo _ _ reason \<Rightarrow> [''unavailable'', repo, unavailable_name reason]
   | Target t \<Rightarrow> [dt_repoId t, dt_localPath t] @ dt_diffArgs t)"

definition deliveryDiffFingerprint :: "env \<Rightarrow> db \<Rightarrow> ticket \<Rightarrow> string" where
  "deliveryDiffFingerprint en db t =
     stringify (JArr (map (\<lambda>e. JArr (map JStr (entry_key e))) (resolveDiffTargets en db t)))"

definition entry_has_diff :: "env \<Rightarrow> diff_entry \<Rightarrow> bool" where
  "entry_has_diff en e = (case e of
     Unavailable _ _ _ _ \<Rightarrow> False
   | Target t \<Rightarrow> let stat = runNumstat en t in
       gr_status stat = Some 0 \<and> ns_files (parseNumstat (gr_stdout stat)) > 0)"

definition deliveryDiffProof :: "env \<Rightarrow> db \<Rightarrow> ticket \<Rightarrow> delivery_diff_proof" where
  "deliveryDiffProof en db t = \<lparr>dp_hasDiff = list_ex (entry_has_diff en) (resolveDiffTargets en db t),
     dp_fingerprint = deliveryDiffFingerprint en db t\<rparr>"

section \<open>The fingerprint pins the answer\<close>

lemma resolve_target_repoId: "resolve_target en db t r = Target d \<Longrightarrow> dt_repoId d = r_id r"
  by (auto simp: resolve_target_def mk_target_def Let_def split: if_split_asm option.split_asm)

lemma runNumstat_key:
  "dt_localPath a = dt_localPath b \<Longrightarrow> dt_diffArgs a = dt_diffArgs b \<Longrightarrow> runNumstat en a = runNumstat en b"
  by (simp add: runNumstat_def Let_def)

lemma entry_key_has_diff:
  assumes "entry_key e = entry_key f"
    and "\<And>d. e = Target d \<Longrightarrow> dt_repoId d \<noteq> ''unavailable''"
    and "\<And>d. f = Target d \<Longrightarrow> dt_repoId d \<noteq> ''unavailable''"
  shows "entry_has_diff en e = entry_has_diff en f"
proof (cases e)
  case (Target a)
  with assms(1,2) obtain b where f: "f = Target b"
    by (cases f) (simp_all add: entry_key_def)
  with assms(1) Target have "runNumstat en a = runNumstat en b"
    by (intro runNumstat_key) (simp_all add: entry_key_def)
  with Target f show ?thesis by (simp add: entry_has_diff_def Let_def)
next
  case (Unavailable repo br base reason)
  with assms(1,3) obtain x y z w where "f = Unavailable x y z w"
    by (cases f) (auto simp: entry_key_def)
  with Unavailable show ?thesis by (simp add: entry_has_diff_def)
qed

lemma fingerprint_keys:
  assumes "deliveryDiffFingerprint en db t = deliveryDiffFingerprint en' db' t'"
  shows "map entry_key (resolveDiffTargets en db t) = map entry_key (resolveDiffTargets en' db' t')"
proof -
  let ?enc = "\<lambda>xs. JArr (map (\<lambda>e. JArr (map JStr (entry_key e))) xs)"
  have t: "textual (?enc xs)" for xs by (simp add: list_all_iff)
  have "?enc (resolveDiffTargets en db t) = ?enc (resolveDiffTargets en' db' t')"
    using assms unfolding deliveryDiffFingerprint_def by (rule stringify_inj [OF t t])
  then have "map (\<lambda>k. JArr (map JStr k)) (map entry_key (resolveDiffTargets en db t))
      = map (\<lambda>k. JArr (map JStr k)) (map entry_key (resolveDiffTargets en' db' t'))"
    by (simp add: comp_def)
  moreover have "inj (\<lambda>k. JArr (map JStr k))"
    by (rule injI) (simp add: inj_map_eq_map inj_def)
  ultimately show ?thesis by (simp only: inj_map_eq_map)
qed

lemma active_write_links_repo: "(tr, r) \<in> set (active_write_links db tid) \<Longrightarrow> r \<in> set (db_repositories db)"
  by (auto simp: active_write_links_def repo_listForTicket_def split: if_splits)

text \<open>
  C34. The fingerprint pins the done gate's answer. When two database states give a ticket the
  same fingerprint, the same git runner and file system give it the same diff proof, so a
  proof computed before the write transaction is still the proof inside it. Repository ids
  only have to differ from the literal \<open>unavailable\<close>, which a random UUID does.
\<close>

theorem fingerprint_pins_proof:
  assumes "deliveryDiffFingerprint en db t = deliveryDiffFingerprint en db' t'"
    and "''unavailable'' \<notin> r_id ` set (db_repositories db)"
    and "''unavailable'' \<notin> r_id ` set (db_repositories db')"
  shows "deliveryDiffProof en db t = deliveryDiffProof en db' t'"
proof -
  let ?xs = "resolveDiffTargets en db t" and ?ys = "resolveDiffTargets en db' t'"
  have keys: "map entry_key ?xs = map entry_key ?ys" using assms(1) by (rule fingerprint_keys)
  have "dt_repoId d \<in> r_id ` set (db_repositories x)" if "Target d \<in> set (resolveDiffTargets en x u)" for d x u
    using that by (auto simp: resolveDiffTargets_def dest!: resolve_target_repoId [OF sym] active_write_links_repo)
  then have ids: "dt_repoId d \<noteq> ''unavailable''" if "Target d \<in> set ?xs \<or> Target d \<in> set ?ys" for d
    using that assms(2,3) by metis
  have "list_all2 (\<lambda>e f. entry_has_diff en e = entry_has_diff en f) ?xs ?ys"
  proof (rule list_all2_all_nthI)
    show len: "length ?xs = length ?ys" using keys by (metis length_map)
    fix n assume n: "n < length ?xs"
    show "entry_has_diff en (?xs ! n) = entry_has_diff en (?ys ! n)"
    proof (rule entry_key_has_diff)
      show "entry_key (?xs ! n) = entry_key (?ys ! n)"
        using keys n len by (metis nth_map)
    qed (use ids n len in \<open>auto simp: in_set_conv_nth\<close>)
  qed
  then have "map (entry_has_diff en) ?xs = map (entry_has_diff en) ?ys"
    by (simp add: list_all2_conv_all_nth list_eq_iff_nth_eq)
  then have "list_ex (\<lambda>b. b) (map (entry_has_diff en) ?xs) = list_ex (\<lambda>b. b) (map (entry_has_diff en) ?ys)"
    by simp
  then show ?thesis
    using assms(1) by (simp add: deliveryDiffProof_def list_ex_iff)
qed

definition sample_diff_db :: db where
  "sample_diff_db = empty_db\<lparr>
     db_repositories := [\<lparr>r_id = ''r1'', r_name = ''app'', r_local_path = Some ''/app'', r_remote_url = None,
       r_default_branch = ''main'', r_stack = None, r_risk_level = Low, r_test_command = None,
       r_lint_command = None, r_coverage_command = None, r_hidden = False, r_created_at = 0, r_updated_at = 0\<rparr>],
     db_ticket_repos := [\<lparr>tr_ticket_id = ''t1'', tr_repo_id = ''r1'', tr_role = RolePrimary,
       tr_branch_name = Some ''wg/1'', tr_pr_url = None, tr_access = AccWrite, tr_relation = RelConfirmed, tr_source = SrcManual,
       tr_confidence = None, tr_reasons = None, tr_created_at = 0, tr_updated_at = 0\<rparr>]\<rparr>"

theorem fingerprint_pins_proof_witness:
  "deliveryDiffProof sample_env (sample_diff_db\<lparr>db_tickets := []\<rparr>) (sample_ticket ''t1'' 1 InReview) =
   deliveryDiffProof sample_env (sample_diff_db\<lparr>db_tickets := [sample_ticket ''t1'' 1 InReview]\<rparr>)
     (sample_ticket ''t1'' 1 InReview\<lparr>t_pr_url := Some ''https://pr''\<rparr>)"
  by (rule fingerprint_pins_proof)
    (simp_all add: deliveryDiffFingerprint_def resolveDiffTargets_def active_write_links_def
      repo_listForTicket_def sample_diff_db_def sample_ticket_def resolve_target_def delivery_branch_def base_branch_def delivery_find_def
      ticketRepoBranch_def empty_db_def isActiveTicketRepoRelation_def Let_def nonEmpty_def
      js_trim_def js_ws_def sample_env_def)

end
