(* ===== verification/Claim_Store.thy ===== *)
theory Claim_Store
  imports Link_Store
begin

text \<open>
  The lease table (\<open>repositories/claimRepository.ts\<close>, table \<open>ticket_claims\<close> of \<open>db/schema.ts\<close>):
  its statements, the two candidate queries an agent claims through, and the interface
  \<open>lease_store\<close> the services rely on.
\<close>

section \<open>Statements\<close>

definition claim_active :: "ticket_claim \<Rightarrow> bool" where
  "claim_active c = (c_status c = ClActive)"

text \<open>
  The constraints of the table: the primary key, the two foreign keys, and the partial unique
  index that admits one active claim per ticket.
\<close>

definition claim_insert :: "ticket_claim \<Rightarrow> unit op" where
  "claim_insert c = (\<lambda>db.
     if c_id c \<in> c_id ` set (db_claims db) then Inl SqlitePrimaryKey
     else if claim_active c \<and> list_ex (\<lambda>x. c_ticket_id x = c_ticket_id c \<and> claim_active x) (db_claims db)
       then Inl SqliteUnique
     else if c_ticket_id c \<notin> t_id ` set (db_tickets db) \<or> c_agent_id c \<notin> g_id ` set (db_agents db)
       then Inl SqliteForeignKey
     else Inr ((), db\<lparr>db_claims := db_claims db @ [c]\<rparr>))"

definition claim_findActiveByTokenHash :: "db \<Rightarrow> string \<Rightarrow> instant \<Rightarrow> ticket_claim option" where
  "claim_findActiveByTokenHash db h now =
     find (\<lambda>c. c_token_hash c = h \<and> claim_active c \<and> c_expires_at c > now) (db_claims db)"

definition claim_findByTokenHash :: "db \<Rightarrow> string \<Rightarrow> ticket_claim option" where
  "claim_findByTokenHash db h = find (\<lambda>c. c_token_hash c = h \<and> claim_active c) (db_claims db)"

definition claim_findById :: "db \<Rightarrow> id \<Rightarrow> ticket_claim option" where
  "claim_findById db i = find_row c_id i (db_claims db)"

definition claim_listExpired :: "db \<Rightarrow> instant \<Rightarrow> ticket_claim list" where
  "claim_listExpired db now =
     sort_key c_expires_at (filter (\<lambda>c. claim_active c \<and> c_expires_at c < now) (db_claims db))"

definition claim_extend :: "id \<Rightarrow> instant \<Rightarrow> instant \<Rightarrow> bool op" where
  "claim_extend i expires heartbeat = (\<lambda>db.
     let hit = (\<lambda>c. c_id c = i \<and> claim_active c) in
     Inr (list_ex hit (db_claims db), db\<lparr>db_claims :=
       upd_rows hit (\<lambda>c. c\<lparr>c_expires_at := expires, c_heartbeat_at := heartbeat\<rparr>) (db_claims db)\<rparr>))"

definition claim_setStatus :: "id \<Rightarrow> claim_status \<Rightarrow> instant \<Rightarrow> unit op" where
  "claim_setStatus i st now = modifyT (\<lambda>db. db\<lparr>db_claims :=
     upd_rows (\<lambda>c. c_id c = i)
       (\<lambda>c. c\<lparr>c_status := st,
              c_released_at := (if st = ClActive then c_released_at c else Some now)\<rparr>)
       (db_claims db)\<rparr>)"

definition hasActiveForTicket :: "db \<Rightarrow> id \<Rightarrow> bool" where
  "hasActiveForTicket db tid =
     list_ex (\<lambda>c. c_ticket_id c = tid \<and> claim_active c) (db_claims db)"

definition release_rows :: "id \<Rightarrow> instant \<Rightarrow> db \<Rightarrow> db" where
  "release_rows tid now db = db\<lparr>db_claims :=
     upd_rows (\<lambda>c. c_ticket_id c = tid \<and> claim_active c)
       (\<lambda>c. c\<lparr>c_status := ClReleased, c_released_at := Some now\<rparr>) (db_claims db)\<rparr>"

definition releaseActiveForTicket :: "id \<Rightarrow> instant \<Rightarrow> nat op" where
  "releaseActiveForTicket tid now = (\<lambda>db.
     Inr (length (filter (\<lambda>c. c_ticket_id c = tid \<and> claim_active c) (db_claims db)),
          release_rows tid now db))"

section \<open>The candidate queries\<close>

record candidate_row =
  cr_id :: id
  cr_priority :: int
  cr_created_at :: instant
  cr_expired_claim_id :: "id option"

record candidate_criteria =
  cc_maxRiskRank :: nat
  cc_capabilities :: "string list"

definition expired_claims :: "db \<Rightarrow> id \<Rightarrow> instant \<Rightarrow> ticket_claim list" where
  "expired_claims db tid now =
     filter (\<lambda>c. c_ticket_id c = tid \<and> claim_active c \<and> c_expires_at c \<le> now) (db_claims db)"

definition candidate_of :: "db \<Rightarrow> instant \<Rightarrow> ticket \<Rightarrow> candidate_row" where
  "candidate_of db now t = \<lparr>cr_id = t_id t, cr_priority = t_priority t, cr_created_at = t_created_at t,
     cr_expired_claim_id =
       (case sort_key c_expires_at (expired_claims db (t_id t) now) of
          [] \<Rightarrow> None | c # _ \<Rightarrow> Some (c_id c))\<rparr>"

text \<open>
  The \<open>WHERE\<close> clause the two queries share, with the capabilities already bound as
  parameters. \<open>lease_free\<close> and \<open>queue_ready\<close> name its two conditions on status and leases.
\<close>

definition queue_ready :: "db \<Rightarrow> instant \<Rightarrow> ticket \<Rightarrow> bool" where
  "queue_ready db now t = (t_status t = Ready \<or>
     (t_status t \<in> {Claimed, InProgress} \<and> expired_claims db (t_id t) now \<noteq> []))"

definition lease_free :: "db \<Rightarrow> instant \<Rightarrow> id \<Rightarrow> bool" where
  "lease_free db now tid =
     (\<not> list_ex (\<lambda>c. c_ticket_id c = tid \<and> claim_active c \<and> c_expires_at c > now) (db_claims db))"

definition candidate_where :: "db \<Rightarrow> instant \<Rightarrow> nat \<Rightarrow> string list \<Rightarrow> ticket \<Rightarrow> bool" where
  "candidate_where db now maxRiskRank caps t = (
     queue_ready db now t
     \<and> t_human_owner t = None
     \<and> (case t_scheduled_after t of None \<Rightarrow> True | Some s \<Rightarrow> s \<le> now)
     \<and> riskRank (t_risk_level t) \<le> maxRiskRank
     \<and> \<not> list_ex (\<lambda>r. fst r = t_id t \<and> snd r \<notin> set caps) (db_required_caps db)
     \<and> \<not> list_ex (\<lambda>td. td_ticket_id td = t_id t \<and> td_relation td = RBlocks \<and>
           list_ex (\<lambda>d. d_id d = td_decision_id td \<and> \<not> decision_settled (d_status d)) (db_decisions db))
           (db_ticket_decisions db)
     \<and> \<not> list_ex (\<lambda>dep. dep_ticket_id dep = t_id t \<and>
           list_ex (\<lambda>dt. t_id dt = dep_depends_on dep \<and> t_status dt \<noteq> Done) (db_tickets db))
           (db_dependencies db)
     \<and> lease_free db now (t_id t))"

definition candidateTickets :: "db \<Rightarrow> instant \<Rightarrow> candidate_criteria \<Rightarrow> candidate_row list" where
  "candidateTickets db now criteria = (
     let caps = (if cc_capabilities criteria \<noteq> [] then cc_capabilities criteria
                 else [CHR 0x00 # ''__none__'']) in
     map (candidate_of db now)
       (sort_key (\<lambda>t. (- t_priority t, t_created_at t))
         (filter (candidate_where db now (cc_maxRiskRank criteria) caps) (db_tickets db))))"

definition candidateForTicket ::
  "db \<Rightarrow> id \<Rightarrow> instant \<Rightarrow> candidate_criteria \<Rightarrow> candidate_row option" where
  "candidateForTicket db tid now criteria = (
     let caps = (if cc_capabilities criteria \<noteq> [] then cc_capabilities criteria
                 else ['' __none__'']) in
     map_option (candidate_of db now)
       (find (\<lambda>t. t_id t = tid \<and> candidate_where db now (cc_maxRiskRank criteria) caps t)
         (db_tickets db)))"

section \<open>The lease interface\<close>

text \<open>
  What the services rely on: at most one active lease per ticket, releasing a ticket's leases
  frees exactly that ticket, and taking a lease needs a free ticket and occupies exactly it.
\<close>

locale lease_store =
  fixes holds :: "'s \<Rightarrow> 'k \<Rightarrow> bool"
    and free :: "'k \<Rightarrow> 's \<Rightarrow> 's"
    and take :: "'k \<Rightarrow> 's \<Rightarrow> 's option"
  assumes holds_free: "holds (free k s) k' \<longleftrightarrow> k' \<noteq> k \<and> holds s k'"
    and take_holds: "take k s = Some s' \<Longrightarrow> holds s' k' \<longleftrightarrow> k' = k \<or> holds s k'"
    and take_needs_free: "take k s = Some s' \<Longrightarrow> \<not> holds s k"
begin

lemma free_idle: "\<not> holds (free k s) k"
  by (simp add: holds_free)

lemma free_keeps: "k' \<noteq> k \<Longrightarrow> holds (free k s) k' \<longleftrightarrow> holds s k'"
  by (simp add: holds_free)

text \<open>No two holders: whoever takes a key second has to wait until it is freed.\<close>

lemma take_excludes: "take k s = Some s' \<Longrightarrow> take k s' = None"
  by (metis take_holds take_needs_free not_Some_eq)

lemma free_take_frame:
  "take k s = Some s' \<Longrightarrow> k' \<noteq> k \<Longrightarrow> holds (free k s') k' \<longleftrightarrow> holds s k'"
  by (simp add: holds_free take_holds)

end

text \<open>The keys of the tables the lease operations read.\<close>

definition take_lease :: "ticket_claim \<Rightarrow> db \<Rightarrow> db option" where
  "take_lease c db = (case claim_insert c db of Inl _ \<Rightarrow> None | Inr (_, db') \<Rightarrow> Some db')"

lemma holds_release_rows:
  "hasActiveForTicket (release_rows tid now db) k \<longleftrightarrow> k \<noteq> tid \<and> hasActiveForTicket db k"
  by (auto simp: hasActiveForTicket_def release_rows_def list_ex_iff set_upd_rows claim_active_def
      split: if_splits)

lemma claim_insert_Inr:
  "claim_insert c db = Inr (u, db') \<longleftrightarrow>
     db' = db\<lparr>db_claims := db_claims db @ [c]\<rparr> \<and> c_id c \<notin> c_id ` set (db_claims db) \<and>
     \<not> (claim_active c \<and> hasActiveForTicket db (c_ticket_id c)) \<and>
     c_ticket_id c \<in> t_id ` set (db_tickets db) \<and> c_agent_id c \<in> g_id ` set (db_agents db)"
  by (auto simp: claim_insert_def hasActiveForTicket_def)

lemma hasActiveForTicket_append:
  "hasActiveForTicket (db\<lparr>db_claims := db_claims db @ [c]\<rparr>) k \<longleftrightarrow>
     (k = c_ticket_id c \<and> claim_active c) \<or> hasActiveForTicket db k"
  by (auto simp: hasActiveForTicket_def)

interpretation leases: lease_store hasActiveForTicket "\<lambda>tid. release_rows tid now"
    "\<lambda>tid. take_lease (c\<lparr>c_ticket_id := tid, c_status := ClActive\<rparr>)" for now c
proof (unfold_locales, goal_cases)
  case (1 k s k')
  show ?case by (rule holds_release_rows)
next
  case (2 k s s' k')
  then show ?case
    by (auto simp: take_lease_def claim_insert_Inr hasActiveForTicket_append claim_active_def
        split: sum.splits)
next
  case (3 k s s')
  then show ?case
    by (auto simp: take_lease_def claim_insert_Inr claim_active_def split: sum.splits)
qed

section \<open>What the candidate queries promise\<close>

lemma candidate_where_settled:
  "candidate_where db now r caps t \<Longrightarrow> blockingForTicket db (t_id t) = []"
  unfolding blockingForTicket_Nil_iff candidate_where_def list_ex_iff by blast

lemma candidate_where_deps:
  "candidate_where db now r caps t \<Longrightarrow> \<not> hasUnsatisfiedDependencies db (t_id t)"
  by (simp add: candidate_where_def hasUnsatisfiedDependencies_def)

lemma set_candidateTickets:
  "set (candidateTickets db now criteria) = candidate_of db now `
     {t \<in> set (db_tickets db). candidate_where db now (cc_maxRiskRank criteria)
        (if cc_capabilities criteria \<noteq> [] then cc_capabilities criteria else [CHR 0x00 # ''__none__'']) t}"
  by (auto simp: candidateTickets_def Let_def)

end
