(* ===== verification/Policy.thy ===== *)
theory Policy
  imports Samples
begin

text \<open>
  The policy packs (\<open>policy/policy.ts\<close>): \<open>evaluatePolicy\<close> computes, for a pack and a gated
  transition, the failures that block it and the warnings that do not. A failure is its code
  with the values its message interpolates. The packs are a linear order of strictness; the
  theory proves that what a stricter pack admits every looser pack admits, and what a passed
  done gate guarantees.
\<close>

section \<open>Gate inputs\<close>

datatype policy_gate = GateReady | GateClaim | GateDone

datatype policy_failure =
    TITLE_REQUIRED
  | AC_REQUIRED
  | DESCRIPTION_RECOMMENDED
  | SCOPE_REPO_UNCONFIRMED
  | REPO_RECOMMENDED
  | WRITE_REPO_REQUIRED
  | DESCRIPTION_REQUIRED
  | REPO_REQUIRED
  | HUMAN_BLOCKER_OPEN
  | PRIMARY_SCOPE_REQUIRED
  | SUGGESTED_REPO_UNRESOLVED nat
  | AC_VERIFICATION_REQUIRED string
  | REVIEWER_REQUIRED
  | BLOCKING_DECISION_OPEN
  | HUMAN_APPROVAL_REQUIRED
  | AC_CHECK_UNVERIFIED string ac_status "string option"
  | PR_OR_DIFF_REQUIRED
  | AC_UNRESOLVED nat
  | AC_EVIDENCE_MISSING string
  | BRANCH_REQUIRED
  | REPO_DELIVERY_REQUIRED "string list"

record scope_repo_context =
  sr_hasAnyRepo :: bool
  sr_writeRepoCount :: nat
  sr_hasPrimaryScope :: bool
  sr_monoFallbackApplies :: bool
  sr_unresolvedSuggestedRepoCount :: nat

definition AC_CHECK_VERIFIER :: string where
  "AC_CHECK_VERIFIER = ''runner:check''"

record policy_context =
  px_ticket :: ticket
  px_acceptanceCriteria :: "acceptance_criterion list"
  px_repoCount :: nat
  px_blockingDecisions :: "decision list"
  px_hasUnresolvedHumanRequired :: bool
  px_evidenceCountByAc :: "id \<Rightarrow> nat"
  px_hasPrOrDiff :: bool
  px_humanDelivered :: bool
  px_hasReviewer :: bool
  px_humanApprovedReady :: bool
  px_scopeRepo :: scope_repo_context
  px_writeReposWithoutDelivery :: "string list"

record policy_result =
  pr_allowed :: bool
  pr_policy_pack :: policy_pack
  pr_gate :: policy_gate
  pr_failures :: "policy_failure list"
  pr_warnings :: "policy_failure list"

section \<open>Evaluation\<close>

text \<open>JavaScript truthiness of a nullable string: null and the empty string are false.\<close>

definition truthy :: "string option \<Rightarrow> bool" where
  "truthy s = (case s of None \<Rightarrow> False | Some x \<Rightarrow> x \<noteq> [])"

definition at_least_team :: "policy_pack \<Rightarrow> bool" where
  "at_least_team p = (p = TeamLight \<or> p = FactoryStrict \<or> p = Regulated)"

definition at_least_strict :: "policy_pack \<Rightarrow> bool" where
  "at_least_strict p = (p = FactoryStrict \<or> p = Regulated)"

abbreviation pushIf :: "bool \<Rightarrow> policy_failure \<Rightarrow> policy_failure list" where
  "pushIf b f \<equiv> (if b then [f] else [])"

definition lacks_verification :: "acceptance_criterion \<Rightarrow> bool" where
  "lacks_verification c =
     (case ac_verification_method c of None \<Rightarrow> True | Some m \<Rightarrow> js_trim m = [])"

definition ready_failures :: "policy_pack \<Rightarrow> policy_context \<Rightarrow> policy_failure list" where
  "ready_failures pack ctx = (
     let ac = px_acceptanceCriteria ctx; sr = px_scopeRepo ctx; t = px_ticket ctx in
     pushIf (js_trim (t_title t) = []) TITLE_REQUIRED
     @ pushIf (ac = []) AC_REQUIRED
     @ (if pack = SoloLoose then
          (if \<not> sr_hasAnyRepo sr then
             pushIf (sr_hasPrimaryScope sr \<and> \<not> t_bootstrap t) SCOPE_REPO_UNCONFIRMED
           else pushIf (sr_writeRepoCount sr = 0 \<and> \<not> t_bootstrap t) WRITE_REPO_REQUIRED)
        else [])
     @ (if at_least_team pack then
          pushIf (js_trim (t_description t) = []) DESCRIPTION_REQUIRED
          @ (if \<not> sr_hasAnyRepo sr then [REPO_REQUIRED]
             else pushIf (sr_writeRepoCount sr = 0) WRITE_REPO_REQUIRED)
          @ pushIf (px_hasUnresolvedHumanRequired ctx) HUMAN_BLOCKER_OPEN
        else [])
     @ (if at_least_strict pack then
          pushIf (\<not> sr_hasPrimaryScope sr \<and> \<not> sr_monoFallbackApplies sr) PRIMARY_SCOPE_REQUIRED
          @ pushIf (sr_unresolvedSuggestedRepoCount sr > 0)
              (SUGGESTED_REPO_UNRESOLVED (sr_unresolvedSuggestedRepoCount sr))
          @ map (\<lambda>c. AC_VERIFICATION_REQUIRED (ac_text c)) (filter lacks_verification ac)
          @ pushIf (\<not> px_hasReviewer ctx) REVIEWER_REQUIRED
          @ pushIf (px_blockingDecisions ctx \<noteq> []) BLOCKING_DECISION_OPEN
        else [])
     @ pushIf (pack = Regulated \<and> \<not> px_humanApprovedReady ctx) HUMAN_APPROVAL_REQUIRED)"

definition ready_warnings :: "policy_pack \<Rightarrow> policy_context \<Rightarrow> policy_failure list" where
  "ready_warnings pack ctx = (
     let sr = px_scopeRepo ctx; t = px_ticket ctx in
     if pack = SoloLoose then
       pushIf (js_trim (t_description t) = []) DESCRIPTION_RECOMMENDED
       @ pushIf (\<not> sr_hasAnyRepo sr \<and> \<not> (sr_hasPrimaryScope sr \<and> \<not> t_bootstrap t)) REPO_RECOMMENDED
     else [])"

definition claim_failures :: "policy_pack \<Rightarrow> policy_context \<Rightarrow> policy_failure list" where
  "claim_failures pack ctx =
     pushIf (px_hasUnresolvedHumanRequired ctx) HUMAN_BLOCKER_OPEN
     @ pushIf (at_least_strict pack \<and> px_blockingDecisions ctx \<noteq> []) BLOCKING_DECISION_OPEN"

definition check_unverified :: "acceptance_criterion \<Rightarrow> bool" where
  "check_unverified c = (truthy (ac_check_command c) \<and> ac_status c \<noteq> AcWaived \<and>
     (ac_status c \<noteq> AcSatisfied \<or> ac_verified_by c \<noteq> Some AC_CHECK_VERIFIER))"

definition done_failures :: "policy_pack \<Rightarrow> policy_context \<Rightarrow> policy_failure list" where
  "done_failures pack ctx = (
     let ac = px_acceptanceCriteria ctx;
         unresolved = filter (\<lambda>c. ac_status c = AcPending \<or> ac_status c = AcFailed) ac;
         missing = px_writeReposWithoutDelivery ctx in
     map (\<lambda>c. AC_CHECK_UNVERIFIED (ac_text c) (ac_status c) (ac_verified_by c))
         (filter check_unverified ac)
     @ pushIf (\<not> px_hasPrOrDiff ctx \<and> \<not> px_humanDelivered ctx) PR_OR_DIFF_REQUIRED
     @ pushIf (at_least_team pack \<and> unresolved \<noteq> []) (AC_UNRESOLVED (length unresolved))
     @ (if at_least_strict pack then
          map (\<lambda>c. AC_EVIDENCE_MISSING (ac_text c))
            (filter (\<lambda>c. ac_status c \<noteq> AcWaived \<and> px_evidenceCountByAc ctx (ac_id c) = 0) ac)
          @ pushIf (\<not> truthy (t_branch_name (px_ticket ctx))) BRANCH_REQUIRED
          @ pushIf (missing \<noteq> []) (REPO_DELIVERY_REQUIRED missing)
        else []))"

definition evaluatePolicy :: "policy_pack \<Rightarrow> policy_gate \<Rightarrow> policy_context \<Rightarrow> policy_result" where
  "evaluatePolicy pack gate ctx = (
     let failures = (case gate of GateReady \<Rightarrow> ready_failures pack ctx
                       | GateClaim \<Rightarrow> claim_failures pack ctx
                       | GateDone \<Rightarrow> done_failures pack ctx) in
     \<lparr>pr_allowed = (failures = []), pr_policy_pack = pack, pr_gate = gate, pr_failures = failures,
      pr_warnings = (if gate = GateReady then ready_warnings pack ctx else [])\<rparr>)"

section \<open>Strictness\<close>

text \<open>
  The layering the sources describe (\<open>team_light\<close> extends \<open>solo_loose\<close>, and so on) is the
  position of the pack in \<open>POLICY_PACKS\<close>.
\<close>

instantiation policy_pack :: linorder
begin

definition pack_rank :: "policy_pack \<Rightarrow> nat" where
  "pack_rank p = (case p of SoloLoose \<Rightarrow> 0 | TeamLight \<Rightarrow> 1 | FactoryStrict \<Rightarrow> 2 | Regulated \<Rightarrow> 3)"

definition less_eq_policy_pack :: "policy_pack \<Rightarrow> policy_pack \<Rightarrow> bool" where
  "less_eq_policy_pack p q = (pack_rank p \<le> pack_rank q)"

definition less_policy_pack :: "policy_pack \<Rightarrow> policy_pack \<Rightarrow> bool" where
  "less_policy_pack p q = (pack_rank p < pack_rank q)"

instance
proof
  fix p q r :: policy_pack
  show "p < q \<longleftrightarrow> p \<le> q \<and> \<not> q \<le> p"
    by (auto simp: less_eq_policy_pack_def less_policy_pack_def)
  show "p \<le> p" by (simp add: less_eq_policy_pack_def)
  show "p \<le> q \<Longrightarrow> q \<le> r \<Longrightarrow> p \<le> r" by (simp add: less_eq_policy_pack_def)
  show "p \<le> q \<Longrightarrow> q \<le> p \<Longrightarrow> p = q"
    by (cases p; cases q) (simp_all add: less_eq_policy_pack_def pack_rank_def)
  show "p \<le> q \<or> q \<le> p" by (auto simp: less_eq_policy_pack_def)
qed

end

lemma at_least_mono:
  "p \<le> q \<Longrightarrow> at_least_team p \<Longrightarrow> at_least_team q"
  "p \<le> q \<Longrightarrow> at_least_strict p \<Longrightarrow> at_least_strict q"
  "p \<le> q \<Longrightarrow> p = Regulated \<Longrightarrow> q = Regulated"
  "p \<le> q \<Longrightarrow> \<not> at_least_team q \<Longrightarrow> p = SoloLoose \<and> q = SoloLoose"
  by (cases p; cases q; simp add: at_least_team_def at_least_strict_def less_eq_policy_pack_def
      pack_rank_def)+

lemma at_least_strict_team: "at_least_strict p \<Longrightarrow> at_least_team p"
  by (cases p) (simp_all add: at_least_team_def at_least_strict_def)

lemma ready_failures_Nil_iff:
  "ready_failures pack ctx = [] \<longleftrightarrow>
     js_trim (t_title (px_ticket ctx)) \<noteq> [] \<and> px_acceptanceCriteria ctx \<noteq> [] \<and>
     (pack = SoloLoose \<longrightarrow> t_bootstrap (px_ticket ctx) \<or>
        (if sr_hasAnyRepo (px_scopeRepo ctx) then sr_writeRepoCount (px_scopeRepo ctx) > 0
         else \<not> sr_hasPrimaryScope (px_scopeRepo ctx))) \<and>
     (at_least_team pack \<longrightarrow>
        js_trim (t_description (px_ticket ctx)) \<noteq> [] \<and> sr_hasAnyRepo (px_scopeRepo ctx) \<and>
        sr_writeRepoCount (px_scopeRepo ctx) > 0 \<and> \<not> px_hasUnresolvedHumanRequired ctx) \<and>
     (at_least_strict pack \<longrightarrow>
        (sr_hasPrimaryScope (px_scopeRepo ctx) \<or> sr_monoFallbackApplies (px_scopeRepo ctx)) \<and>
        sr_unresolvedSuggestedRepoCount (px_scopeRepo ctx) = 0 \<and>
        (\<forall>c \<in> set (px_acceptanceCriteria ctx). \<not> lacks_verification c) \<and>
        px_hasReviewer ctx \<and> px_blockingDecisions ctx = []) \<and>
     (pack = Regulated \<longrightarrow> px_humanApprovedReady ctx)"
  by (cases pack) (simp_all add: ready_failures_def Let_def at_least_team_def at_least_strict_def
      filter_empty_conv)

lemma done_failures_Nil_iff:
  "done_failures pack ctx = [] \<longleftrightarrow>
     (\<forall>c \<in> set (px_acceptanceCriteria ctx). \<not> check_unverified c) \<and>
     (px_hasPrOrDiff ctx \<or> px_humanDelivered ctx) \<and>
     (at_least_team pack \<longrightarrow>
        (\<forall>c \<in> set (px_acceptanceCriteria ctx). ac_status c \<in> {AcSatisfied, AcWaived})) \<and>
     (at_least_strict pack \<longrightarrow>
        (\<forall>c \<in> set (px_acceptanceCriteria ctx).
           ac_status c = AcWaived \<or> px_evidenceCountByAc ctx (ac_id c) > 0) \<and>
        truthy (t_branch_name (px_ticket ctx)) \<and> px_writeReposWithoutDelivery ctx = [])"
proof -
  have st: "(ac_status c \<noteq> AcPending \<and> ac_status c \<noteq> AcFailed) \<longleftrightarrow>
      (ac_status c = AcSatisfied \<or> ac_status c = AcWaived)"
    for c by (cases "ac_status c") simp_all
  show ?thesis
    by (cases pack) (simp_all add: done_failures_def Let_def at_least_team_def at_least_strict_def
        filter_empty_conv st)
qed

lemma claim_failures_Nil_iff:
  "claim_failures pack ctx = [] \<longleftrightarrow>
     \<not> px_hasUnresolvedHumanRequired ctx \<and> (at_least_strict pack \<longrightarrow> px_blockingDecisions ctx = [])"
  by (auto simp: claim_failures_def)

lemma allowed_iff:
  "pr_allowed (evaluatePolicy pack gate ctx) \<longleftrightarrow>
     (case gate of GateReady \<Rightarrow> ready_failures pack ctx = []
        | GateClaim \<Rightarrow> claim_failures pack ctx = [] | GateDone \<Rightarrow> done_failures pack ctx = [])"
  by (cases gate) (simp_all add: evaluatePolicy_def Let_def)

definition sample_context :: policy_context where
  "sample_context = \<lparr>px_ticket = sample_ticket ''t1'' 1 Refining, px_acceptanceCriteria = [sample_ac ''c1'' ''t1''],
     px_repoCount = 1, px_blockingDecisions = [], px_hasUnresolvedHumanRequired = False,
     px_evidenceCountByAc = (\<lambda>_. 0), px_hasPrOrDiff = False, px_humanDelivered = False,
     px_hasReviewer = True, px_humanApprovedReady = True,
     px_scopeRepo = \<lparr>sr_hasAnyRepo = True, sr_writeRepoCount = 1, sr_hasPrimaryScope = True,
       sr_monoFallbackApplies = False, sr_unresolvedSuggestedRepoCount = 0\<rparr>,
     px_writeReposWithoutDelivery = []\<rparr>"

text \<open>
  The packs are layered: whatever a stricter pack lets through at a gate (ready, claim or
  done), every looser pack lets through too.
\<close>

theorem policy_layered:
  assumes "p \<le> q" and "pr_allowed (evaluatePolicy q gate ctx)"
  shows "pr_allowed (evaluatePolicy p gate ctx)"
  using assms(2) at_least_mono [of p q] assms(1)
  unfolding allowed_iff ready_failures_Nil_iff claim_failures_Nil_iff done_failures_Nil_iff
  by (cases gate) auto

theorem policy_layered_witness:
  "pr_allowed (evaluatePolicy SoloLoose GateReady sample_context)"
proof -
  have "pr_allowed (evaluatePolicy Regulated GateReady sample_context)"
    by (simp add: allowed_iff ready_failures_Nil_iff sample_context_def sample_defs js_trim_def
        js_ws_def lacks_verification_def)
  then show ?thesis
    by (rule policy_layered [rotated]) (simp add: less_eq_policy_pack_def pack_rank_def)
qed

text \<open>
  What a passed done gate guarantees, whatever the pack: every criterion that carries an
  executable check and is not waived was satisfied by the runner's own check and by nobody
  else, and the delivery has a recomputed diff unless a human delivered it by hand. Under
  the two strict packs every criterion that is not waived is satisfied and has evidence.
\<close>

theorem done_gate_guarantees:
  assumes "pr_allowed (evaluatePolicy pack GateDone ctx)" and "c \<in> set (px_acceptanceCriteria ctx)"
  shows "(truthy (ac_check_command c) \<and> ac_status c \<noteq> AcWaived \<longrightarrow>
            ac_status c = AcSatisfied \<and> ac_verified_by c = Some AC_CHECK_VERIFIER) \<and>
         (px_hasPrOrDiff ctx \<or> px_humanDelivered ctx) \<and>
         (at_least_strict pack \<and> ac_status c \<noteq> AcWaived \<longrightarrow>
            ac_status c = AcSatisfied \<and> 0 < px_evidenceCountByAc ctx (ac_id c))"
  using assms at_least_strict_team [of pack]
  by (auto simp: allowed_iff done_failures_Nil_iff check_unverified_def)

theorem done_gate_guarantees_witness:
  "ac_verified_by (sample_ac ''c1'' ''t1''\<lparr>ac_status := AcSatisfied, ac_verified_by := Some AC_CHECK_VERIFIER,
       ac_check_command := Some ''npm test''\<rparr>) = Some AC_CHECK_VERIFIER"
proof -
  let ?c = "sample_ac ''c1'' ''t1''\<lparr>ac_status := AcSatisfied, ac_verified_by := Some AC_CHECK_VERIFIER,
       ac_check_command := Some ''npm test''\<rparr>"
  let ?ctx = "sample_context\<lparr>px_acceptanceCriteria := [?c], px_hasPrOrDiff := True\<rparr>"
  have "pr_allowed (evaluatePolicy TeamLight GateDone ?ctx)"
    by (simp add: allowed_iff done_failures_Nil_iff check_unverified_def at_least_strict_def sample_defs)
  then show ?thesis
    using done_gate_guarantees [of TeamLight ?ctx ?c] by (simp add: truthy_def sample_defs)
qed

end
