(* ===== verification/Transition.thy ===== *)
theory Transition
  imports Diff Claim_Store Policy
begin

text \<open>
  The ticket state machine (\<open>services/transitionService.ts\<close>): the allowed edges, the guarded
  edges with the flags that legalise them, the policy evaluation of a gated transition and
  \<open>transition\<close> itself with everything it writes: the status under optimistic concurrency, the
  leases it releases, the feedback and by-hand markers it clears or stamps, the event and the
  pause context.
\<close>

section \<open>Edges\<close>

definition ALLOWED :: "(ticket_status \<times> ticket_status) list" where
  "ALLOWED = [
     (Draft, Refining), (Draft, Ready), (Refining, Ready), (Ready, Claimed),
     (Ready, InProgress), (Claimed, InProgress), (Claimed, Ready), (Claimed, Blocked),
     (InProgress, Blocked), (InProgress, InReview), (InProgress, Failed),
     (Claimed, Refining), (InProgress, Ready), (InProgress, Refining),
     (Blocked, Ready), (Blocked, Refining),
     (Draft, Blocked), (Refining, Blocked), (Ready, Blocked), (Blocked, Draft),
     (InReview, ReadyForMerge), (InReview, Ready), (InReview, Refining),
     (InReview, InTesting), (InTesting, ReadyForMerge), (InTesting, Refining),
     (InTesting, InReview), (InTesting, Ready), (InTesting, Blocked), (InTesting, Cancelled),
     (ReadyForMerge, Done), (ReadyForMerge, InReview), (ReadyForMerge, Refining),
     (ReadyForMerge, Cancelled), (InReview, Cancelled), (Blocked, Cancelled), (Failed, Cancelled),
     (Done, InReview), (InReview, Blocked), (ReadyForMerge, Blocked),
     (Ready, Cancelled), (Refining, Cancelled), (Draft, Cancelled),
     (Failed, Ready), (Failed, Refining), (Ready, Draft), (Refining, Draft),
     (Cancelled, Refining), (Cancelled, Draft),
     (InProgress, Paused), (InReview, Paused), (Claimed, Paused),
     (Paused, InProgress), (Paused, Cancelled), (Paused, Refining)]"

definition REVIEW_LANE_STATUSES :: "ticket_status list" where
  "REVIEW_LANE_STATUSES = [InReview, InTesting, ReadyForMerge, Done]"

definition REQUEUE_STATES :: "ticket_status list" where
  "REQUEUE_STATES = [Ready, Draft, Refining, Blocked, Cancelled]"

fun gateFor :: "ticket_status \<Rightarrow> policy_gate option" where
  "gateFor Ready = Some GateReady"
| "gateFor Claimed = Some GateClaim"
| "gateFor ReadyForMerge = Some GateDone"
| "gateFor _ = None"

text \<open>The opt-in flags of \<open>TransitionInput\<close>, and the edge patterns of the guard table.\<close>

datatype flag =
    SystemOverride | ReopenForReview | MarkMerged | WontDo | Park | TesterVerdict | PauseDelivery
  | ResumeDelivery | RunnerRelease | HumanClaim | HumanBlock | HumanRelease | AgentClaim
  | ReviewApprove | AgentSubmit | UnleasedSubmit | ReviewReject

record transition_input =
  ti_ticketId :: id
  ti_actor :: actor
  ti_toStatus :: ticket_status
  ti_reason :: "string option"
  ti_expectedFromStatus :: "ticket_status option"
  ti_patch :: "ticket_patch option"
  ti_correlationId :: "string option"
  ti_flags :: "flag list"
  ti_approvedUnchanged :: "bool option option"
  ti_deliveryDiff :: "delivery_diff_proof option"

datatype edge_pattern = Edge ticket_status ticket_status | ToAny ticket_status

record guarded_edge =
  ge_edges :: "edge_pattern list"
  ge_anyOf :: "flag list"

definition GUARDED_EDGES :: "guarded_edge list" where
  "GUARDED_EDGES = [
     \<lparr>ge_edges = [Edge Done InReview, Edge ReadyForMerge InReview], ge_anyOf = [ReopenForReview]\<rparr>,
     \<lparr>ge_edges = [Edge ReadyForMerge Done], ge_anyOf = [MarkMerged]\<rparr>,
     \<lparr>ge_edges = [Edge InReview Blocked, Edge ReadyForMerge Blocked, Edge InTesting Blocked],
      ge_anyOf = [Park]\<rparr>,
     \<lparr>ge_edges = [Edge InReview InTesting, Edge InTesting ReadyForMerge, Edge InTesting Refining,
        Edge InTesting Ready, Edge InTesting InReview], ge_anyOf = [TesterVerdict]\<rparr>,
     \<lparr>ge_edges = [ToAny Paused], ge_anyOf = [PauseDelivery]\<rparr>,
     \<lparr>ge_edges = [Edge Paused InProgress], ge_anyOf = [ResumeDelivery]\<rparr>,
     \<lparr>ge_edges = [Edge Ready InProgress], ge_anyOf = [HumanClaim]\<rparr>,
     \<lparr>ge_edges = [Edge Draft Blocked, Edge Refining Blocked, Edge Ready Blocked, Edge Blocked Draft],
      ge_anyOf = [HumanBlock]\<rparr>,
     \<lparr>ge_edges = [Edge Claimed Refining, Edge InProgress Refining], ge_anyOf = [RunnerRelease]\<rparr>,
     \<lparr>ge_edges = [Edge InProgress Ready], ge_anyOf = [RunnerRelease, HumanRelease, SystemOverride]\<rparr>,
     \<lparr>ge_edges = [ToAny Cancelled], ge_anyOf = [WontDo]\<rparr>,
     \<lparr>ge_edges = [Edge Ready Claimed], ge_anyOf = [AgentClaim]\<rparr>,
     \<lparr>ge_edges = [Edge Claimed InProgress], ge_anyOf = [AgentSubmit]\<rparr>,
     \<lparr>ge_edges = [Edge InProgress InReview], ge_anyOf = [AgentSubmit, UnleasedSubmit]\<rparr>,
     \<lparr>ge_edges = [Edge InReview Ready, Edge InReview Refining, Edge ReadyForMerge Refining],
      ge_anyOf = [ReviewReject]\<rparr>,
     \<lparr>ge_edges = [Edge InReview ReadyForMerge], ge_anyOf = [ReviewApprove]\<rparr>]"

definition edge_matches :: "ticket_status \<Rightarrow> ticket_status \<Rightarrow> edge_pattern \<Rightarrow> bool" where
  "edge_matches from to e = (e = Edge from to \<or> e = ToAny to)"

definition violatedGuard :: "ticket_status \<Rightarrow> ticket_status \<Rightarrow> flag list \<Rightarrow> guarded_edge option" where
  "violatedGuard from to flags =
     find (\<lambda>rule. list_ex (edge_matches from to) (ge_edges rule)
                  \<and> \<not> list_ex (\<lambda>f. f \<in> set flags) (ge_anyOf rule)) GUARDED_EDGES"

section \<open>Policy context\<close>

definition repoDeliveryContext :: "db \<Rightarrow> id \<Rightarrow> string list" where
  "repoDeliveryContext db tid = map (\<lambda>(tr, r). r_name r)
     (filter (\<lambda>(tr, r). \<not> (case delivery_find db tid (r_id r) of
          None \<Rightarrow> False
        | Some d \<Rightarrow> rd_status d \<in> set DELIVERY_EVIDENCED_STATUSES \<or> rd_branch_name d \<noteq> None
                    \<or> rd_pr_url d \<noteq> None))
       (active_write_links db tid))"

definition scopeRepoContext :: "db \<Rightarrow> id \<Rightarrow> scope_repo_context" where
  "scopeRepoContext db tid = (
     let links = repo_listForTicket db tid in
     \<lparr>sr_hasAnyRepo = (links \<noteq> []),
      sr_writeRepoCount = length (active_write_links db tid),
      sr_hasPrimaryScope = list_ex (\<lambda>(s, n). ts_relation s = ScPrimary) (scope_listForTicket db tid),
      sr_monoFallbackApplies = (case links of [(tr, r)] \<Rightarrow> scopesForRepo db (r_id r) = [] | _ \<Rightarrow> False),
      sr_unresolvedSuggestedRepoCount =
        length (filter (\<lambda>(tr, r). tr_relation tr = RelSuggested) links)\<rparr>)"

definition hasReadyApproval :: "db \<Rightarrow> id \<Rightarrow> bool" where
  "hasReadyApproval db tid = list_ex (\<lambda>e. we_entity_type e = ''ticket'' \<and> we_entity_id e = tid
     \<and> we_event_type e = ''ticket.ready_approved'') (db_events db)"

definition hasRealDeliveryDiff :: "env \<Rightarrow> db \<Rightarrow> ticket \<Rightarrow> delivery_diff_proof option \<Rightarrow> bool" where
  "hasRealDeliveryDiff en db t proof_opt = (case proof_opt of
     Some p \<Rightarrow> if dp_fingerprint p = deliveryDiffFingerprint en db t then dp_hasDiff p
                else dp_hasDiff (deliveryDiffProof en db t)
   | None \<Rightarrow> dp_hasDiff (deliveryDiffProof en db t))"

definition policyContext ::
  "env \<Rightarrow> db \<Rightarrow> ticket \<Rightarrow> policy_gate \<Rightarrow> delivery_diff_proof option \<Rightarrow> policy_context" where
  "policyContext en db t gate proof_opt = \<lparr>
     px_ticket = t,
     px_acceptanceCriteria = ac_listForTicket db (t_id t),
     px_repoCount = repo_countForTicket db (t_id t),
     px_blockingDecisions = blockingForTicket db (t_id t),
     px_hasUnresolvedHumanRequired = hasUnresolvedHumanRequired db (t_id t),
     px_evidenceCountByAc = evidence_countByAc db (t_id t),
     px_hasPrOrDiff = (if gate = GateDone then hasRealDeliveryDiff en db t proof_opt else False),
     px_humanDelivered = (t_human_delivered t \<noteq> None),
     px_hasReviewer = truthy (t_reviewer t),
     px_humanApprovedReady = hasReadyApproval db (t_id t),
     px_scopeRepo = scopeRepoContext db (t_id t),
     px_writeReposWithoutDelivery = repoDeliveryContext db (t_id t)\<rparr>"

definition evaluate ::
  "env \<Rightarrow> db \<Rightarrow> ticket \<Rightarrow> policy_gate \<Rightarrow> delivery_diff_proof option \<Rightarrow> policy_result" where
  "evaluate en db t gate proof_opt =
     evaluatePolicy (t_policy_pack t) gate (policyContext en db t gate proof_opt)"

definition preview :: "env \<Rightarrow> id \<Rightarrow> ticket_status \<Rightarrow> policy_result option op" where
  "preview en tid to = (\<lambda>db. case gateFor to of
     None \<Rightarrow> Inr (None, db)
   | Some gate \<Rightarrow>
       (case ticket_findById db tid of
          None \<Rightarrow> Inl (DispatchError NOT_FOUND)
        | Some t \<Rightarrow> Inr (Some (evaluate en db t gate None), db)))"

section \<open>The transition\<close>

text \<open>
  The checks of \<open>transition\<close> in the order the code makes them, as the error thrown or the
  policy result of a gated edge.
\<close>

definition transition_check ::
  "env \<Rightarrow> transition_input \<Rightarrow> db \<Rightarrow> ticket \<Rightarrow> thrown + policy_result option" where
  "transition_check en inp db t = (
     let from = t_status t; to = ti_toStatus inp in
     if ti_expectedFromStatus inp \<noteq> None \<and> ti_expectedFromStatus inp \<noteq> Some from
       then Inl (DispatchError STATE_CONFLICT)
     else if from = to then Inl (DispatchError NO_OP)
     else if (from, to) \<notin> set ALLOWED then Inl (DispatchError ILLEGAL_TRANSITION)
     else if HumanBlock \<in> set (ti_flags inp) \<and> a_type (ti_actor inp) \<noteq> Human
          \<and> a_type (ti_actor inp) \<noteq> Admin then Inl (DispatchError ACTOR_NOT_PERMITTED)
     else if violatedGuard from to (ti_flags inp) \<noteq> None then Inl (DispatchError ILLEGAL_TRANSITION)
     else case gateFor to of
       None \<Rightarrow> Inr None
     | Some gate \<Rightarrow>
         if SystemOverride \<in> set (ti_flags inp) then Inr None
         else let policy = evaluate en db t gate (ti_deliveryDiff inp) in
           if \<not> pr_allowed policy then Inl (DispatchError POLICY_DENIED) else Inr (Some policy))"

definition patch_json :: "ticket_patch \<Rightarrow> json" where
  "patch_json p = JObj (
     (case pt_branch_name p of None \<Rightarrow> [] | Some v \<Rightarrow> [(''branch_name'', JStr v)])
     @ (case pt_pr_url p of None \<Rightarrow> [] | Some v \<Rightarrow> [(''pr_url'', JStr v)])
     @ (case pt_reviewer p of None \<Rightarrow> [] | Some v \<Rightarrow> [(''reviewer'', JStr v)])
     @ (case pt_attempt_count p of None \<Rightarrow> [] | Some n \<Rightarrow> [(''attempt_count'', JNum (int n))]))"

definition transition_payload :: "transition_input \<Rightarrow> ticket_status \<Rightarrow> (string \<times> json) list" where
  "transition_payload inp from =
     [(''from'', JStr (status_name from)), (''to'', JStr (status_name (ti_toStatus inp))),
      (''reason'', jopt (ti_reason inp)),
      (''patch'', case ti_patch inp of None \<Rightarrow> JNull | Some p \<Rightarrow> patch_json p)]
     @ (case ti_approvedUnchanged inp of None \<Rightarrow> []
        | Some v \<Rightarrow> [(''approved_unchanged'', case v of None \<Rightarrow> JNull | Some b \<Rightarrow> JBool b)])"

record transition_result =
  tres_ticket :: ticket
  tres_eventId :: id
  tres_policy :: "policy_result option"

definition with_correlation :: "string option \<Rightarrow> env \<Rightarrow> env" where
  "with_correlation c en =
     (case c of None \<Rightarrow> en | Some s \<Rightarrow> if s = [] then en else en\<lparr>en_correlation := Some s\<rparr>)"

text \<open>The writes of \<open>transition\<close>, after its checks passed for the row \<open>t\<close> it read.\<close>

definition transition_writes ::
  "env \<Rightarrow> transition_input \<Rightarrow> ticket \<Rightarrow> policy_result option \<Rightarrow> transition_result op" where
  "transition_writes en inp t policy = (
     let to = ti_toStatus inp; now = en_now en; tid = t_id t in
     bindT (ticket_updateStatus tid to (t_row_version t)
              (case ti_patch inp of None \<Rightarrow> no_patch | Some p \<Rightarrow> p) now) (\<lambda>ok.
     bindT (throwIf (\<not> ok) (DispatchError CONCURRENCY_CONFLICT)) (\<lambda>_.
     bindT (whenT (to \<in> set REQUEUE_STATES)
              (bindT (releaseActiveForTicket tid now) (\<lambda>_. returnT ()))) (\<lambda>_.
     bindT (whenT (to = Paused) (bindT (releaseActiveForTicket tid now) (\<lambda>_. returnT ()))) (\<lambda>_.
     bindT (whenT (to = InReview) (setReviewFeedback tid None)) (\<lambda>_.
     bindT (whenT (t_human_owner t \<noteq> None \<and> to \<noteq> InProgress)
              (bindT (setHumanOwner tid None) (\<lambda>_.
                 whenT (to = InReview) (setHumanDelivered tid (t_human_owner t))))) (\<lambda>_.
     bindT (whenT (t_human_delivered t \<noteq> None \<and> to \<notin> set REVIEW_LANE_STATUSES)
              (setHumanDelivered tid None)) (\<lambda>_.
     bindT (ticketEvent (with_correlation (ti_correlationId inp) en) tid (ti_actor inp)
              ''ticket.transitioned'' (transition_payload inp (t_status t))) (\<lambda>ev.
     bindT (whenT (to \<noteq> Paused \<and> to \<noteq> InProgress) (paused_delete tid)) (\<lambda>_.
     bindT (getT (\<lambda>db. ticket_findById db tid)) (\<lambda>updated.
     returnT \<lparr>tres_ticket = the updated, tres_eventId = ev, tres_policy = policy\<rparr>)))))))))))"

definition transition :: "env \<Rightarrow> transition_input \<Rightarrow> transition_result op" where
  "transition en inp = (\<lambda>db.
     case ticket_findById db (ti_ticketId inp) of
       None \<Rightarrow> Inl (DispatchError NOT_FOUND)
     | Some t \<Rightarrow>
         (case transition_check en inp db t of
            Inl e \<Rightarrow> Inl e
          | Inr policy \<Rightarrow> transition_writes en inp t policy db))"

text \<open>The input of a caller that sets only the fields the code's object literals set.\<close>

definition move :: "id \<Rightarrow> actor \<Rightarrow> ticket_status \<Rightarrow> flag list \<Rightarrow> transition_input" where
  "move tid actor to flags = \<lparr>ti_ticketId = tid, ti_actor = actor, ti_toStatus = to, ti_reason = None,
     ti_expectedFromStatus = None, ti_patch = None, ti_correlationId = None, ti_flags = flags,
     ti_approvedUnchanged = None, ti_deliveryDiff = None\<rparr>"

section \<open>The effect of a transition\<close>

text \<open>
  What a transition that passes its checks makes of the ticket's row and of the tables, in
  closed form. \<open>transition_effect\<close> is the specification; \<open>transition_eq\<close> proves that the
  sequence of statements above implements it on a database whose ticket ids are unique.
\<close>

definition moved :: "env \<Rightarrow> transition_input \<Rightarrow> ticket \<Rightarrow> ticket \<Rightarrow> ticket" where
  "moved en inp t x = (
     let to = ti_toStatus inp;
         x1 = apply_status to (case ti_patch inp of None \<Rightarrow> no_patch | Some p \<Rightarrow> p) (en_now en) x;
         x2 = (if to = InReview then x1\<lparr>t_last_review_feedback := None\<rparr> else x1);
         x3 = (if t_human_owner t \<noteq> None \<and> to \<noteq> InProgress
               then if to = InReview then x2\<lparr>t_human_owner := None, t_human_delivered := t_human_owner t\<rparr>
                    else x2\<lparr>t_human_owner := None\<rparr>
               else x2)
     in if t_human_delivered t \<noteq> None \<and> to \<notin> set REVIEW_LANE_STATUSES
        then x3\<lparr>t_human_delivered := None\<rparr> else x3)"

definition transition_event :: "env \<Rightarrow> transition_input \<Rightarrow> ticket \<Rightarrow> db \<Rightarrow> work_event" where
  "transition_event en inp t db = \<lparr>we_id = en_uuid en EventId (length (db_events db)),
     we_entity_type = ''ticket'', we_entity_id = t_id t, we_actor_type = a_type (ti_actor inp),
     we_actor_id = a_id (ti_actor inp), we_event_type = ''ticket.transitioned'',
     we_payload = Some (JObj (transition_payload inp (t_status t))),
     we_correlation_id = en_correlation (with_correlation (ti_correlationId inp) en),
     we_created_at = en_now en\<rparr>"

definition frees_lease :: "ticket_status \<Rightarrow> bool" where
  "frees_lease to = (to \<in> set REQUEUE_STATES \<or> to = Paused)"

definition keeps_context :: "ticket_status \<Rightarrow> bool" where
  "keeps_context to = (to = Paused \<or> to = InProgress)"

definition release_claims :: "bool \<Rightarrow> id \<Rightarrow> instant \<Rightarrow> ticket_claim list \<Rightarrow> ticket_claim list" where
  "release_claims b i now cs = (if b then upd_rows (\<lambda>c. c_ticket_id c = i \<and> claim_active c)
     (\<lambda>c. c\<lparr>c_status := ClReleased, c_released_at := Some now\<rparr>) cs else cs)"

definition transition_effect :: "env \<Rightarrow> transition_input \<Rightarrow> ticket \<Rightarrow> db \<Rightarrow> db" where
  "transition_effect en inp t db = db\<lparr>
     db_tickets := upd_rows (\<lambda>x. t_id x = t_id t) (moved en inp t) (db_tickets db),
     db_claims := release_claims (frees_lease (ti_toStatus inp)) (t_id t) (en_now en) (db_claims db),
     db_events := db_events db @ [transition_event en inp t db],
     db_paused := (if keeps_context (ti_toStatus inp) then db_paused db
                   else filter (\<lambda>p. p_ticket_id p \<noteq> t_id t) (db_paused db))\<rparr>"

lemma moved_simps [simp]:
  "t_id (moved en inp t x) = t_id x"
  "t_number (moved en inp t x) = t_number x"
  "t_status (moved en inp t x) = ti_toStatus inp"
  "t_row_version (moved en inp t x) = t_row_version x + 1"
  "t_policy_pack (moved en inp t x) = t_policy_pack x"
  "t_priority (moved en inp t x) = t_priority x"
  "t_risk_level (moved en inp t x) = t_risk_level x"
  "t_scheduled_after (moved en inp t x) = t_scheduled_after x"
  by (simp_all add: moved_def apply_status_def Let_def)

lemma moved_human_owner:
  "t_human_owner (moved en inp t t) = (if ti_toStatus inp = InProgress then t_human_owner t else None)"
  by (simp add: moved_def apply_status_def Let_def)

lemma moved_human_delivered:
  "t_human_delivered (moved en inp t t) =
     (if ti_toStatus inp \<notin> set REVIEW_LANE_STATUSES then None
      else if ti_toStatus inp = InReview \<and> t_human_owner t \<noteq> None then t_human_owner t
      else t_human_delivered t)"
  by (simp add: moved_def apply_status_def Let_def REVIEW_LANE_STATUSES_def)

lemma bindT_writeEvent:
  "bindT (writeEvent en et ei ac ty pl) k db =
     k (en_uuid en EventId (length (db_events db))) (db\<lparr>db_events := db_events db @
       [\<lparr>we_id = en_uuid en EventId (length (db_events db)), we_entity_type = et, we_entity_id = ei,
         we_actor_type = a_type ac, we_actor_id = a_id ac, we_event_type = ty,
         we_payload = pl, we_correlation_id = en_correlation en, we_created_at = en_now en\<rparr>]\<rparr>)"
  by (simp add: writeEvent_def bindT_def Let_def)

lemma upd_rows_id: "upd_rows P (\<lambda>x. x) rows = rows"
  by (simp add: upd_rows_def)

lemma bindT_when_update:
  "bindT (whenT b (ticket_update i f)) k db =
     k () (db\<lparr>db_tickets := upd_rows (\<lambda>x. t_id x = i) (\<lambda>x. if b then f x else x) (db_tickets db)\<rparr>)"
  by (cases b) (simp_all add: ticket_update_def upd_rows_id)

lemma release_claims_twice:
  "release_claims b i now (release_claims a i now cs) = release_claims (a \<or> b) i now cs"
  by (auto simp: release_claims_def upd_rows_def claim_active_def)

lemma bindT_when_release:
  "bindT (whenT b (bindT (releaseActiveForTicket i now) (\<lambda>_. returnT ()))) k db =
     k () (db\<lparr>db_claims := release_claims b i now (db_claims db)\<rparr>)"
  by (cases b) (simp_all add: releaseActiveForTicket_def whenT_def bindT_def returnT_def release_rows_def
      release_claims_def)

lemma bindT_when_paused_delete:
  "bindT (whenT b (paused_delete i)) k db =
     k () (db\<lparr>db_paused := (if b then filter (\<lambda>p. p_ticket_id p \<noteq> i) (db_paused db) else db_paused db)\<rparr>)"
  by (cases b) (simp_all add: paused_delete_def)

lemma ticket_findById_SomeD: "ticket_findById db i = Some t \<Longrightarrow> t \<in> set (db_tickets db) \<and> t_id t = i"
  unfolding ticket_findById_def by (rule find_row_SomeD)

lemma hits_found:
  assumes "distinct (map t_id (db_tickets db))" and "ticket_findById db i = Some t"
  shows "upd_rows (\<lambda>x. t_id x = i \<and> t_row_version x = t_row_version t) f (db_tickets db) =
           upd_rows (\<lambda>x. t_id x = i) f (db_tickets db)"
    and "list_ex (\<lambda>x. t_id x = i \<and> t_row_version x = t_row_version t) (db_tickets db)"
proof -
  have t: "t \<in> set (db_tickets db)" "t_id t = i"
    using ticket_findById_SomeD [OF assms(2)] by auto
  show "upd_rows (\<lambda>x. t_id x = i \<and> t_row_version x = t_row_version t) f (db_tickets db) =
           upd_rows (\<lambda>x. t_id x = i) f (db_tickets db)"
    using t distinct_keyD [OF assms(1)] by (intro upd_rows_cong) auto
  show "list_ex (\<lambda>x. t_id x = i \<and> t_row_version x = t_row_version t) (db_tickets db)"
    using t by (auto simp: list_ex_iff)
qed

lemma by_hand_update:
  "bindT (whenT b (bindT (setHumanOwner i v) (\<lambda>_. whenT c (setHumanDelivered i w)))) k db =
     k () (db\<lparr>db_tickets := upd_rows (\<lambda>x. t_id x = i)
        (\<lambda>x. if b then (if c then x\<lparr>t_human_owner := v, t_human_delivered := w\<rparr> else x\<lparr>t_human_owner := v\<rparr>)
             else x) (db_tickets db)\<rparr>)"
  by (cases b; cases c)
    (simp_all add: setHumanOwner_def setHumanDelivered_def ticket_update_def whenT_def bindT_def
      modifyT_def returnT_def upd_rows_upd_rows upd_rows_id)

lemma transition_writes_eq:
  assumes "distinct (map t_id (db_tickets db))" and "ticket_findById db i = Some t"
  shows "transition_writes en inp t policy db =
    Inr (\<lparr>tres_ticket = moved en inp t t, tres_eventId = en_uuid en EventId (length (db_events db)),
          tres_policy = policy\<rparr>, transition_effect en inp t db)"
proof -
  have i: "t_id t = i" using ticket_findById_SomeD [OF assms(2)] by simp
  have found: "find_row t_id i (upd_rows (\<lambda>x. t_id x = i) (moved en inp t) (db_tickets db)) =
      Some (moved en inp t t)"
    using assms(2) i by (simp add: find_row_upd_rows ticket_findById_def)
  have uuid: "en_uuid (with_correlation c en) = en_uuid en" "en_now (with_correlation c en) = en_now en" for c
    by (simp_all add: with_correlation_def split: option.splits)
  have chain: "upd_rows (\<lambda>x. t_id x = i)
        (\<lambda>x. if (\<exists>y. t_human_delivered t = Some y) \<and> ti_toStatus inp \<notin> set REVIEW_LANE_STATUSES
             then x\<lparr>t_human_delivered := None\<rparr> else x)
        (upd_rows (\<lambda>x. t_id x = i)
          (\<lambda>x. if (\<exists>y. t_human_owner t = Some y) \<and> ti_toStatus inp \<noteq> InProgress
               then if ti_toStatus inp = InReview
                    then x\<lparr>t_human_owner := None, t_human_delivered := t_human_owner t\<rparr>
                    else x\<lparr>t_human_owner := None\<rparr> else x)
          (upd_rows (\<lambda>x. t_id x = i)
            (\<lambda>x. if ti_toStatus inp = InReview then x\<lparr>t_last_review_feedback := None\<rparr> else x)
            (upd_rows (\<lambda>t. t_id t = i)
              (apply_status (ti_toStatus inp) (case ti_patch inp of None \<Rightarrow> no_patch | Some p \<Rightarrow> p)
                (en_now en)) (db_tickets db)))) =
      upd_rows (\<lambda>x. t_id x = i) (moved en inp t) (db_tickets db)"
  proof -
    have keep: "t_id (apply_status to p now r) = t_id r" for to p now r by (simp add: apply_status_def)
    show ?thesis
      by ((subst upd_rows_upd_rows, (simp add: keep; fail))+)
        (rule upd_rows_cong [OF refl], simp only: moved_def Let_def not_None_eq)
  qed
  show ?thesis
    unfolding transition_writes_def Let_def ticket_updateStatus_def bindT_def [of "\<lambda>db. Inr (g db, h db)" for g h]
    by (simp add: i hits_found [OF assms] bindT_when_release setReviewFeedback_def
        setHumanDelivered_def [of _ None] bindT_when_update by_hand_update bindT_when_paused_delete
        bindT_writeEvent uuid release_claims_twice ticket_findById_def chain found
        split del: if_split)
      (simp add: returnT_def transition_effect_def transition_event_def frees_lease_def
        keeps_context_def i)
qed

text \<open>The closed form of \<open>transition\<close>, and the rule the services' proofs use.\<close>

lemma transition_eq:
  assumes "distinct (map t_id (db_tickets db))"
  shows "transition en inp db =
    (case ticket_findById db (ti_ticketId inp) of
       None \<Rightarrow> Inl (DispatchError NOT_FOUND)
     | Some t \<Rightarrow> (case transition_check en inp db t of
         Inl e \<Rightarrow> Inl e
       | Inr policy \<Rightarrow>
           Inr (\<lparr>tres_ticket = moved en inp t t, tres_eventId = en_uuid en EventId (length (db_events db)),
                 tres_policy = policy\<rparr>, transition_effect en inp t db)))"
  using transition_writes_eq [OF assms]
  by (simp add: transition_def split: option.splits sum.splits)

lemma wp_transition:
  assumes "distinct (map t_id (db_tickets db))"
    and "\<And>t policy r. ticket_findById db (ti_ticketId inp) = Some t \<Longrightarrow>
           transition_check en inp db t = Inr policy \<Longrightarrow>
           tres_ticket r = moved en inp t t \<Longrightarrow> Q r (transition_effect en inp t db)"
  shows "wp (transition en inp) Q db"
  using assms(2) unfolding wp_def transition_eq [OF assms(1)]
  by (auto split: option.splits sum.splits)

end
