(* ===== verification/Lifecycle.thy ===== *)
theory Lifecycle
  imports Transition
begin

text \<open>
  The abstract lifecycle of one ticket. \<open>view db i\<close> forgets everything of the database but what
  the lifecycle of ticket \<open>i\<close> depends on: its status, whether a human owns it, whether its
  review submission was delivered by hand, whether an agent lease is active on it and whether
  a pause context is stored for it. Every operation of the services is a step on the view of
  the ticket it is about and leaves every other view alone; the theory proves this for the
  statements of the repositories and for \<open>transition\<close>. \<open>sound\<close> is the invariant of a view.
\<close>

section \<open>Views\<close>

record view =
  v_status :: ticket_status
  v_owned :: bool
  v_delivered :: bool
  v_leased :: bool
  v_context :: bool

definition view_of :: "db \<Rightarrow> ticket \<Rightarrow> view" where
  "view_of db t = \<lparr>v_status = t_status t, v_owned = (t_human_owner t \<noteq> None),
     v_delivered = (t_human_delivered t \<noteq> None), v_leased = hasActiveForTicket db (t_id t),
     v_context = (paused_find db (t_id t) \<noteq> None)\<rparr>"

definition view :: "db \<Rightarrow> id \<Rightarrow> view option" where
  "view db i = map_option (view_of db) (ticket_findById db i)"

text \<open>The abstract step of a transition to \<open>to\<close>.\<close>

definition goto :: "ticket_status \<Rightarrow> view \<Rightarrow> view" where
  "goto to v = \<lparr>v_status = to, v_owned = (v_owned v \<and> to = InProgress),
     v_delivered = (to \<in> set REVIEW_LANE_STATUSES \<and> (v_delivered v \<or> to = InReview \<and> v_owned v)),
     v_leased = (v_leased v \<and> \<not> frees_lease to),
     v_context = (v_context v \<and> keeps_context to)\<rparr>"

text \<open>
  The invariant. A lease lives only on a ticket in delivery (a delivery that was moved to
  \<open>failed\<close> keeps its lease); a claimed ticket has one; a ticket in human hands is in progress
  and unleased; the delivered-by-hand marker lives in the review lane; a pause context
  belongs to a paused or resumed delivery.
\<close>

definition sound :: "view \<Rightarrow> bool" where
  "sound v = (
     (v_leased v \<longrightarrow> v_status v \<in> {Claimed, InProgress, Failed}) \<and>
     (v_status v = Claimed \<longrightarrow> v_leased v) \<and>
     (v_owned v \<longrightarrow> v_status v = InProgress \<and> \<not> v_leased v) \<and>
     (v_delivered v \<longrightarrow> v_status v \<in> set REVIEW_LANE_STATUSES) \<and>
     (v_context v \<longrightarrow> v_status v \<in> {Paused, InProgress}))"

text \<open>The keys and indexes SQLite enforces.\<close>

definition one_active :: "ticket_claim list \<Rightarrow> bool" where
  "one_active cs = distinct (map c_ticket_id (filter claim_active cs))"

definition keys_ok :: "db \<Rightarrow> bool" where
  "keys_ok db = (distinct (map t_id (db_tickets db)) \<and> distinct (map c_id (db_claims db)) \<and>
     one_active (db_claims db) \<and> set (map c_ticket_id (db_claims db)) \<subseteq> set (map t_id (db_tickets db)))"

definition healthy :: "db \<Rightarrow> bool" where
  "healthy db = (keys_ok db \<and> (\<forall>i v. view db i = Some v \<longrightarrow> sound v))"

section \<open>Views of the statements\<close>

lemma view_frame [simp]:
  "view (db\<lparr>db_acs := x1\<rparr>) i = view db i"
  "view (db\<lparr>db_agents := x2\<rparr>) i = view db i"
  "view (db\<lparr>db_agent_caps := x3\<rparr>) i = view db i"
  "view (db\<lparr>db_required_caps := x4\<rparr>) i = view db i"
  "view (db\<lparr>db_decisions := x5\<rparr>) i = view db i"
  "view (db\<lparr>db_ticket_decisions := x6\<rparr>) i = view db i"
  "view (db\<lparr>db_dependencies := x7\<rparr>) i = view db i"
  "view (db\<lparr>db_evidence := x8\<rparr>) i = view db i"
  "view (db\<lparr>db_events := x9\<rparr>) i = view db i"
  "view (db\<lparr>db_ticket_repos := x10\<rparr>) i = view db i"
  "view (db\<lparr>db_repo_deliveries := x11\<rparr>) i = view db i"
  "view (db\<lparr>db_rework := x12\<rparr>) i = view db i"
  by (simp_all add: view_def view_of_def [abs_def] ticket_findById_def hasActiveForTicket_def paused_find_def)

lemma keys_ok_frame [simp]:
  "keys_ok (db\<lparr>db_acs := x1\<rparr>) = keys_ok db"
  "keys_ok (db\<lparr>db_agents := x2\<rparr>) = keys_ok db"
  "keys_ok (db\<lparr>db_agent_caps := x3\<rparr>) = keys_ok db"
  "keys_ok (db\<lparr>db_required_caps := x4\<rparr>) = keys_ok db"
  "keys_ok (db\<lparr>db_decisions := x5\<rparr>) = keys_ok db"
  "keys_ok (db\<lparr>db_ticket_decisions := x6\<rparr>) = keys_ok db"
  "keys_ok (db\<lparr>db_dependencies := x7\<rparr>) = keys_ok db"
  "keys_ok (db\<lparr>db_evidence := x8\<rparr>) = keys_ok db"
  "keys_ok (db\<lparr>db_events := x9\<rparr>) = keys_ok db"
  "keys_ok (db\<lparr>db_ticket_repos := x10\<rparr>) = keys_ok db"
  "keys_ok (db\<lparr>db_repo_deliveries := x11\<rparr>) = keys_ok db"
  "keys_ok (db\<lparr>db_rework := x12\<rparr>) = keys_ok db"
  "keys_ok (db\<lparr>db_paused := x13\<rparr>) = keys_ok db"
  by (simp_all add: keys_ok_def)

lemma findById_upd:
  assumes "\<And>x. t_id (f x) = t_id x"
  shows "ticket_findById (db\<lparr>db_tickets := upd_rows (\<lambda>x. t_id x = i) f (db_tickets db)\<rparr>) j =
    (if j = i then map_option f (ticket_findById db i) else ticket_findById db j)"
proof (cases "find_row t_id j (db_tickets db)")
  case None
  then show ?thesis using assms by (auto simp: ticket_findById_def find_row_upd_rows)
next
  case (Some r)
  then have "t_id r = j" using find_row_SomeD by fastforce
  with Some assms show ?thesis by (auto simp: ticket_findById_def find_row_upd_rows)
qed

lemma active_release_claims:
  "list_ex (\<lambda>c. c_ticket_id c = j \<and> claim_active c) (release_claims b i now cs) \<longleftrightarrow>
     list_ex (\<lambda>c. c_ticket_id c = j \<and> claim_active c) cs \<and> \<not> (b \<and> j = i)"
  by (auto simp: release_claims_def set_upd_rows list_ex_iff claim_active_def split: if_splits)

lemma view_eq:
  "view db i = map_option (\<lambda>t. \<lparr>v_status = t_status t, v_owned = (t_human_owner t \<noteq> None),
     v_delivered = (t_human_delivered t \<noteq> None), v_leased = hasActiveForTicket db i,
     v_context = (paused_find db i \<noteq> None)\<rparr>) (ticket_findById db i)"
  by (cases "ticket_findById db i") (auto simp: view_def view_of_def dest: ticket_findById_SomeD)

lemma view_transition_effect:
  assumes "ticket_findById db i = Some t"
  shows "view (transition_effect en inp t db) j =
    (if j = i then map_option (goto (ti_toStatus inp)) (view db i) else view db j)"
proof -
  have t: "t_id t = i" using ticket_findById_SomeD [OF assms] by simp
  let ?db = "transition_effect en inp t db"
  have find: "ticket_findById ?db j = (if j = i then Some (moved en inp t t) else ticket_findById db j)"
    using findById_upd [where f = "moved en inp t" and db = db and i = i and j = j] assms t
    by (simp add: transition_effect_def ticket_findById_def)
  have lease: "hasActiveForTicket ?db j \<longleftrightarrow> hasActiveForTicket db j \<and> \<not> (frees_lease (ti_toStatus inp) \<and> j = i)"
    by (simp add: transition_effect_def hasActiveForTicket_def active_release_claims t)
  have ctx: "paused_find ?db j = (if \<not> keeps_context (ti_toStatus inp) \<and> j = i then None else paused_find db j)"
    using t by (simp add: transition_effect_def paused_find_def find_row_filter_ne)
  show ?thesis
    unfolding view_eq find lease ctx using assms t
    by (auto simp: goto_def moved_human_owner moved_human_delivered)
qed

lemma view_ticket_update:
  assumes "\<And>x. t_id (f x) = t_id x" "\<And>x. t_status (f x) = t_status x"
    "\<And>x. t_human_owner (f x) = t_human_owner x" "\<And>x. t_human_delivered (f x) = t_human_delivered x"
  shows "view (db\<lparr>db_tickets := upd_rows (\<lambda>x. t_id x = i) f (db_tickets db)\<rparr>) j = view db j"
  using findById_upd [where f = f and db = db and i = i and j = j] assms
  by (cases "ticket_findById db j")
    (auto simp: view_eq hasActiveForTicket_def paused_find_def)

lemma view_setHumanOwner:
  "view (db\<lparr>db_tickets := upd_rows (\<lambda>x. t_id x = i) (\<lambda>x. x\<lparr>t_human_owner := w\<rparr>) (db_tickets db)\<rparr>) j =
     (if j = i then map_option (\<lambda>v. v\<lparr>v_owned := (w \<noteq> None)\<rparr>) (view db i) else view db j)"
  using findById_upd [where f = "\<lambda>x. x\<lparr>t_human_owner := w\<rparr>" and db = db and i = i and j = j]
  by (cases "ticket_findById db j")
    (auto simp: view_eq hasActiveForTicket_def paused_find_def)

lemma view_claim_append:
  "claim_active c \<Longrightarrow> view (db\<lparr>db_claims := db_claims db @ [c]\<rparr>) j =
     (if j = c_ticket_id c then map_option (\<lambda>v. v\<lparr>v_leased := True\<rparr>) (view db j) else view db j)"
  by (cases "ticket_findById db j")
    (auto simp: view_eq ticket_findById_def paused_find_def hasActiveForTicket_append)

text \<open>Closing the claim \<open>c\<close> by its id frees exactly its ticket, because it is the only active one.\<close>

lemma one_activeD:
  "one_active cs \<Longrightarrow> c \<in> set cs \<Longrightarrow> d \<in> set cs \<Longrightarrow> claim_active c \<Longrightarrow> claim_active d \<Longrightarrow>
   c_ticket_id c = c_ticket_id d \<Longrightarrow> c = d"
  unfolding one_active_def
  by (rule distinct_keyD [where key = c_ticket_id and rows = "filter claim_active cs"]) auto

lemma view_claim_close:
  assumes "keys_ok db" and "c \<in> set (db_claims db)" and "claim_active c" and "st \<noteq> ClActive"
  shows "view (db\<lparr>db_claims := upd_rows (\<lambda>x. c_id x = c_id c)
            (\<lambda>x. x\<lparr>c_status := st, c_released_at := r x\<rparr>) (db_claims db)\<rparr>) j =
     (if j = c_ticket_id c then map_option (\<lambda>v. v\<lparr>v_leased := False\<rparr>) (view db j) else view db j)"
proof -
  have "x = c" if "x \<in> set (db_claims db)" "claim_active x" "c_ticket_id x = c_ticket_id c" for x
    using one_activeD [of "db_claims db" x c] assms that by (auto simp: keys_ok_def)
  moreover have "x = c" if "x \<in> set (db_claims db)" "c_id x = c_id c" for x
    using distinct_keyD [of c_id "db_claims db" x c] assms that by (auto simp: keys_ok_def)
  ultimately have lease: "list_ex (\<lambda>x. c_ticket_id x = j \<and> claim_active x)
      (upd_rows (\<lambda>x. c_id x = c_id c) (\<lambda>x. x\<lparr>c_status := st, c_released_at := r x\<rparr>) (db_claims db)) \<longleftrightarrow>
    list_ex (\<lambda>x. c_ticket_id x = j \<and> claim_active x) (db_claims db) \<and> j \<noteq> c_ticket_id c"
    using assms(4) unfolding list_ex_iff set_upd_rows by (auto simp: claim_active_def)
  show ?thesis
    by (cases "ticket_findById db j")
      (auto simp: view_eq ticket_findById_def paused_find_def hasActiveForTicket_def lease)
qed

lemma view_claim_extend:
  "view (db\<lparr>db_claims := upd_rows P (\<lambda>x. x\<lparr>c_expires_at := e, c_heartbeat_at := h\<rparr>) (db_claims db)\<rparr>) j = view db j"
proof -
  have "hasActiveForTicket (db\<lparr>db_claims := upd_rows P (\<lambda>x. x\<lparr>c_expires_at := e, c_heartbeat_at := h\<rparr>)
      (db_claims db)\<rparr>) j = hasActiveForTicket db j"
    by (simp add: hasActiveForTicket_def list_ex_upd_rows)
      (rule arg_cong [where f = "\<lambda>p. list_ex p _"], auto simp: claim_active_def)
  then show ?thesis by (simp add: view_eq ticket_findById_def paused_find_def)
qed

lemma view_paused:
  "view (db\<lparr>db_paused := ps\<rparr>) j = map_option (\<lambda>v. v\<lparr>v_context := (find_row p_ticket_id j ps \<noteq> None)\<rparr>) (view db j)"
  by (cases "ticket_findById db j")
    (simp_all add: view_eq ticket_findById_def paused_find_def hasActiveForTicket_def)

section \<open>Keys\<close>

lemma keys_ok_tickets:
  assumes "\<And>x. t_id (f x) = t_id x"
  shows "keys_ok (db\<lparr>db_tickets := upd_rows P f (db_tickets db)\<rparr>) = keys_ok db"
  by (simp add: keys_ok_def map_key_upd_rows [where key = t_id and f = f, OF assms] del: set_map)

lemma keys_ok_claims_upd:
  assumes "keys_ok db" and "\<And>x. c_id (f x) = c_id x" and "\<And>x. c_ticket_id (f x) = c_ticket_id x"
    and "\<And>x. P x \<Longrightarrow> claim_active (f x) \<Longrightarrow> claim_active x"
  shows "keys_ok (db\<lparr>db_claims := upd_rows P f (db_claims db)\<rparr>)"
proof -
  have "map c_id (upd_rows P f (db_claims db)) = map c_id (db_claims db)"
    using assms(2) by (rule map_key_upd_rows)
  moreover have "map c_ticket_id (upd_rows P f (db_claims db)) = map c_ticket_id (db_claims db)"
    using assms(3) by (rule map_key_upd_rows)
  moreover have "one_active (upd_rows P f cs)" if "one_active cs" for cs
  proof -
    let ?g = "\<lambda>r. if P r then f r else r"
    have "claim_active (?g r) \<longrightarrow> claim_active r" for r using assms(4) by simp
    then have "filter (\<lambda>r. claim_active (?g r)) cs = filter (\<lambda>r. claim_active (?g r)) (filter claim_active cs)"
      unfolding filter_filter by (intro filter_cong) blast+
    moreover have "map c_ticket_id (filter claim_active (map ?g cs)) =
        map c_ticket_id (filter (\<lambda>r. claim_active (?g r)) cs)"
      using assms(3) by (simp add: filter_map comp_def)
    ultimately show ?thesis
      using that unfolding one_active_def upd_rows_def by (simp only: distinct_map_filter)
  qed
  ultimately show ?thesis using assms(1) by (simp add: keys_ok_def del: set_map)
qed

lemma keys_ok_claim_append:
  assumes "keys_ok db" and "claim_insert c db = Inr (u, db')"
  shows "keys_ok db'"
  using assms unfolding keys_ok_def claim_insert_Inr one_active_def hasActiveForTicket_def
  by (auto simp: list_ex_iff)

lemma keys_ok_transition_effect:
  "keys_ok db \<Longrightarrow> keys_ok (transition_effect en inp t db)"
proof -
  assume k: "keys_ok db"
  have "keys_ok (db\<lparr>db_claims := release_claims b i now (db_claims db)\<rparr>)" for b i now
    unfolding release_claims_def using k by (auto intro!: keys_ok_claims_upd simp: claim_active_def)
  moreover have "map t_id (upd_rows P (moved en inp t) rows) = map t_id rows" for P rows
    by (rule map_key_upd_rows) simp
  ultimately show ?thesis
    by (simp add: keys_ok_def transition_effect_def del: set_map)
qed

section \<open>Steps on one view\<close>

text \<open>
  \<open>on_view db i f db'\<close>: from \<open>db\<close> to \<open>db'\<close> the view of ticket \<open>i\<close> changed by \<open>f\<close>, no other view changed,
  and the keys are intact. The rules below follow an operation statement by statement.
\<close>

definition on_view :: "db \<Rightarrow> id \<Rightarrow> (view \<Rightarrow> view) \<Rightarrow> db \<Rightarrow> bool" where
  "on_view db i f db' = (keys_ok db' \<and>
     (\<forall>j. view db' j = (if j = i then map_option f (view db i) else view db j)))"

lemma on_view_refl: "keys_ok db \<Longrightarrow> on_view db i (\<lambda>v. v) db"
  by (simp add: on_view_def option.map_ident)

lemma on_view_keys: "on_view db i f db' \<Longrightarrow> keys_ok db'"
  by (simp add: on_view_def)

lemma on_view_same: "on_view db i f db' \<Longrightarrow> view db' i = map_option f (view db i)"
  by (simp add: on_view_def)

lemma on_view_trans:
  "on_view db i f db1 \<Longrightarrow> on_view db1 i g db2 \<Longrightarrow> on_view db i (\<lambda>v. g (f v)) db2"
  by (auto simp: on_view_def option.map_comp comp_def)

lemma on_view_cong:
  "on_view db i f db' \<Longrightarrow> (\<And>v. view db i = Some v \<Longrightarrow> f v = g v) \<Longrightarrow> on_view db i g db'"
  by (cases "view db i") (auto simp: on_view_def)

lemma on_view_frame [simp]:
  "on_view db i f (db'\<lparr>db_acs := x1\<rparr>) = on_view db i f db'"
  "on_view db i f (db'\<lparr>db_agents := x2\<rparr>) = on_view db i f db'"
  "on_view db i f (db'\<lparr>db_agent_caps := x3\<rparr>) = on_view db i f db'"
  "on_view db i f (db'\<lparr>db_required_caps := x4\<rparr>) = on_view db i f db'"
  "on_view db i f (db'\<lparr>db_decisions := x5\<rparr>) = on_view db i f db'"
  "on_view db i f (db'\<lparr>db_ticket_decisions := x6\<rparr>) = on_view db i f db'"
  "on_view db i f (db'\<lparr>db_dependencies := x7\<rparr>) = on_view db i f db'"
  "on_view db i f (db'\<lparr>db_evidence := x8\<rparr>) = on_view db i f db'"
  "on_view db i f (db'\<lparr>db_events := x9\<rparr>) = on_view db i f db'"
  "on_view db i f (db'\<lparr>db_ticket_repos := x10\<rparr>) = on_view db i f db'"
  "on_view db i f (db'\<lparr>db_repo_deliveries := x11\<rparr>) = on_view db i f db'"
  "on_view db i f (db'\<lparr>db_rework := x12\<rparr>) = on_view db i f db'"
  by (simp_all add: on_view_def)

lemma on_view_transition:
  assumes "on_view db i f db'" and "ticket_findById db' i = Some t"
  shows "on_view db i (\<lambda>v. goto (ti_toStatus inp) (f v)) (transition_effect en inp t db')"
proof (rule on_view_trans [OF assms(1)])
  show "on_view db' i (goto (ti_toStatus inp)) (transition_effect en inp t db')"
    using view_transition_effect [OF assms(2)] on_view_keys [OF assms(1)]
    by (simp add: on_view_def keys_ok_transition_effect)
qed

definition close_claim :: "id \<Rightarrow> claim_status \<Rightarrow> instant \<Rightarrow> db \<Rightarrow> db" where
  "close_claim cid st now db = db\<lparr>db_claims := upd_rows (\<lambda>c. c_id c = cid)
     (\<lambda>c. c\<lparr>c_status := st, c_released_at := (if st = ClActive then c_released_at c else Some now)\<rparr>)
     (db_claims db)\<rparr>"

lemma on_view_close:
  assumes "on_view db i f db'" and "c \<in> set (db_claims db')" and "c_ticket_id c = i"
    and "st \<noteq> ClActive"
  shows "on_view db i (\<lambda>v. (f v)\<lparr>v_leased := v_leased (f v) \<and> \<not> claim_active c\<rparr>)
           (close_claim (c_id c) st now db')"
proof (rule on_view_trans [OF assms(1)])
  have k: "keys_ok db'" using assms(1) by (rule on_view_keys)
  have keys: "keys_ok (close_claim (c_id c) st now db')"
    unfolding close_claim_def
    by (rule keys_ok_claims_upd [OF k]) (use assms(4) in \<open>auto simp: claim_active_def\<close>)
  show "on_view db' i (\<lambda>v. v\<lparr>v_leased := v_leased v \<and> \<not> claim_active c\<rparr>) (close_claim (c_id c) st now db')"
  proof (cases "claim_active c")
    case True
    then show ?thesis
      using view_claim_close [OF k assms(2) True assms(4)] keys assms(3)
      by (simp add: on_view_def close_claim_def)
  next
    case False
    have "x = c" if "x \<in> set (db_claims db')" "c_id x = c_id c" for x
      using distinct_keyD [of c_id "db_claims db'" x c] assms(2) k that by (simp add: keys_ok_def)
    with False assms(4) have "hasActiveForTicket (close_claim (c_id c) st now db') j = hasActiveForTicket db' j" for j
      unfolding hasActiveForTicket_def close_claim_def list_ex_iff
      by (auto simp: set_upd_rows claim_active_def)
    then have "view (close_claim (c_id c) st now db') j = view db' j" for j
      by (simp add: view_eq close_claim_def ticket_findById_def paused_find_def)
    with keys False show ?thesis
      by (cases "view db' i") (auto simp: on_view_def)
  qed
qed

lemma on_view_insert:
  assumes "on_view db i f db'" and "claim_insert c db' = Inr (u, db'')"
    and "c_ticket_id c = i" and "claim_active c"
  shows "on_view db i (\<lambda>v. (f v)\<lparr>v_leased := True\<rparr>) db''"
proof (rule on_view_trans [OF assms(1)])
  have "keys_ok db''" using keys_ok_claim_append on_view_keys assms(1,2) by blast
  moreover have "db'' = db'\<lparr>db_claims := db_claims db' @ [c]\<rparr>"
    using assms(2) by (simp add: claim_insert_Inr)
  ultimately show "on_view db' i (\<lambda>v. v\<lparr>v_leased := True\<rparr>) db''"
    using view_claim_append [OF assms(4)] assms(3) by (simp add: on_view_def)
qed

lemma on_view_ticket_update:
  assumes "on_view db i f db'"
    and "\<And>x. t_id (g x) = t_id x" "\<And>x. t_status (g x) = t_status x"
    "\<And>x. t_human_owner (g x) = t_human_owner x" "\<And>x. t_human_delivered (g x) = t_human_delivered x"
  shows "on_view db i f (db'\<lparr>db_tickets := upd_rows (\<lambda>x. t_id x = k) g (db_tickets db')\<rparr>)"
  using assms(1) view_ticket_update [of g, OF assms(2-5)] keys_ok_tickets [of g, OF assms(2)]
  by (simp add: on_view_def)

lemma on_view_owner:
  assumes "on_view db i f db'"
  shows "on_view db i (\<lambda>v. (f v)\<lparr>v_owned := (w \<noteq> None)\<rparr>)
    (db'\<lparr>db_tickets := upd_rows (\<lambda>x. t_id x = i) (\<lambda>x. x\<lparr>t_human_owner := w\<rparr>) (db_tickets db')\<rparr>)"
  using assms view_setHumanOwner [of i w db'] keys_ok_tickets [of "\<lambda>x. x\<lparr>t_human_owner := w\<rparr>"]
  by (auto simp: on_view_def option.map_comp comp_def)

lemma on_view_paused:
  assumes "on_view db i f db'"
    and "\<And>j. j \<noteq> i \<Longrightarrow> (find_row p_ticket_id j ps \<noteq> None) = (find_row p_ticket_id j (db_paused db') \<noteq> None)"
  shows "on_view db i (\<lambda>v. (f v)\<lparr>v_context := (find_row p_ticket_id i ps \<noteq> None)\<rparr>) (db'\<lparr>db_paused := ps\<rparr>)"
proof (rule on_view_trans [OF assms(1)])
  have "view (db'\<lparr>db_paused := ps\<rparr>) j = view db' j" if "j \<noteq> i" for j
    using assms(2) [OF that] by (cases "ticket_findById db' j") (simp_all add: view_eq paused_find_def ticket_findById_def hasActiveForTicket_def)
  then show "on_view db' i (\<lambda>v. v\<lparr>v_context := (find_row p_ticket_id i ps \<noteq> None)\<rparr>) (db'\<lparr>db_paused := ps\<rparr>)"
    using on_view_keys [OF assms(1)] by (simp add: on_view_def view_paused)
qed

section \<open>Soundness of steps\<close>

lemma healthy_on_view:
  assumes "healthy db" and "on_view db i f db'" and "\<And>v. view db i = Some v \<Longrightarrow> sound v \<Longrightarrow> sound (f v)"
  shows "healthy db'"
  unfolding healthy_def
proof (intro conjI allI impI)
  show "keys_ok db'" using assms(2) by (rule on_view_keys)
  fix j v assume "view db' j = Some v"
  then show "sound v"
    using assms by (cases "j = i") (auto simp: on_view_def healthy_def)
qed

lemma healthy_keys: "healthy db \<Longrightarrow> keys_ok db"
  by (simp add: healthy_def)

lemma healthy_sound: "healthy db \<Longrightarrow> view db i = Some v \<Longrightarrow> sound v"
  by (simp add: healthy_def)

text \<open>Entering a state that frees the lease is sound whatever the view was before.\<close>

lemma sound_goto_free: "frees_lease to \<Longrightarrow> sound (goto to v)"
  by (cases to) (simp_all add: sound_def goto_def frees_lease_def REQUEUE_STATES_def
      REVIEW_LANE_STATUSES_def keeps_context_def)

lemma sound_goto:
  assumes "sound v" and "(v_status v, to) \<in> set ALLOWED" and "to \<noteq> Claimed"
    and "to = InReview \<Longrightarrow> \<not> v_leased v"
  shows "sound (goto to v)"
proof (cases "frees_lease to")
  case True
  then show ?thesis by (rule sound_goto_free)
next
  case False
  then show ?thesis
    using assms
    by (cases "v_status v"; cases to)
      (simp_all add: sound_def goto_def frees_lease_def REQUEUE_STATES_def REVIEW_LANE_STATUSES_def
        keeps_context_def ALLOWED_def)
qed

lemma sound_goto_claimed: "sound (goto Claimed (v\<lparr>v_leased := True\<rparr>))"
  by (simp add: sound_def goto_def frees_lease_def REQUEUE_STATES_def REVIEW_LANE_STATUSES_def
      keeps_context_def)

lemma sound_submitted: "sound ((goto InReview v)\<lparr>v_leased := False\<rparr>)"
  by (simp add: sound_def goto_def REVIEW_LANE_STATUSES_def keeps_context_def)

section \<open>Weakest preconditions of the statements\<close>

text \<open>
  The rows an event and a feedback write leave behind, named so that the state of a long
  operation stays small in its proof.
\<close>

definition add_event ::
  "env \<Rightarrow> string \<Rightarrow> id \<Rightarrow> actor \<Rightarrow> string \<Rightarrow> json option \<Rightarrow> db \<Rightarrow> db" where
  "add_event en et ei ac ty pl db = db\<lparr>db_events := db_events db @
     [\<lparr>we_id = en_uuid en EventId (length (db_events db)), we_entity_type = et, we_entity_id = ei,
       we_actor_type = a_type ac, we_actor_id = a_id ac, we_event_type = ty,
       we_payload = pl, we_correlation_id = en_correlation en, we_created_at = en_now en\<rparr>]\<rparr>"

definition put_feedback :: "id \<Rightarrow> review_feedback option \<Rightarrow> db \<Rightarrow> db" where
  "put_feedback i v db = db\<lparr>db_tickets :=
     upd_rows (\<lambda>t. t_id t = i) (\<lambda>t. t\<lparr>t_last_review_feedback := v\<rparr>) (db_tickets db)\<rparr>"

lemma add_event_simps [simp]:
  "db_tickets (add_event en et ei ac ty pl db) = db_tickets db"
  "db_claims (add_event en et ei ac ty pl db) = db_claims db"
  "db_acs (add_event en et ei ac ty pl db) = db_acs db"
  "db_agents (add_event en et ei ac ty pl db) = db_agents db"
  "db_agent_caps (add_event en et ei ac ty pl db) = db_agent_caps db"
  "db_required_caps (add_event en et ei ac ty pl db) = db_required_caps db"
  "db_decisions (add_event en et ei ac ty pl db) = db_decisions db"
  "db_ticket_decisions (add_event en et ei ac ty pl db) = db_ticket_decisions db"
  "db_dependencies (add_event en et ei ac ty pl db) = db_dependencies db"
  "db_paused (add_event en et ei ac ty pl db) = db_paused db"
  "db_evidence (add_event en et ei ac ty pl db) = db_evidence db"
  "db_repositories (add_event en et ei ac ty pl db) = db_repositories db"
  "db_ticket_repos (add_event en et ei ac ty pl db) = db_ticket_repos db"
  "db_repo_deliveries (add_event en et ei ac ty pl db) = db_repo_deliveries db"
  "db_ticket_scopes (add_event en et ei ac ty pl db) = db_ticket_scopes db"
  "db_scope_repos (add_event en et ei ac ty pl db) = db_scope_repos db"
  "db_scope_nodes (add_event en et ei ac ty pl db) = db_scope_nodes db"
  "db_scope_edges (add_event en et ei ac ty pl db) = db_scope_edges db"
  "db_rework (add_event en et ei ac ty pl db) = db_rework db"
  "view (add_event en et ei ac ty pl db) i = view db i"
  "keys_ok (add_event en et ei ac ty pl db) = keys_ok db"
  "on_view db0 i f (add_event en et ei ac ty pl db) = on_view db0 i f db"
  "healthy (add_event en et ei ac ty pl db) = healthy db"
  by (simp_all add: add_event_def healthy_def)

lemma put_feedback_simps [simp]:
  "db_events (put_feedback k w db) = db_events db"
  "db_claims (put_feedback k w db) = db_claims db"
  "db_acs (put_feedback k w db) = db_acs db"
  "db_agents (put_feedback k w db) = db_agents db"
  "db_agent_caps (put_feedback k w db) = db_agent_caps db"
  "db_required_caps (put_feedback k w db) = db_required_caps db"
  "db_decisions (put_feedback k w db) = db_decisions db"
  "db_ticket_decisions (put_feedback k w db) = db_ticket_decisions db"
  "db_dependencies (put_feedback k w db) = db_dependencies db"
  "db_paused (put_feedback k w db) = db_paused db"
  "db_evidence (put_feedback k w db) = db_evidence db"
  "db_repositories (put_feedback k w db) = db_repositories db"
  "db_ticket_repos (put_feedback k w db) = db_ticket_repos db"
  "db_repo_deliveries (put_feedback k w db) = db_repo_deliveries db"
  "db_ticket_scopes (put_feedback k w db) = db_ticket_scopes db"
  "db_scope_repos (put_feedback k w db) = db_scope_repos db"
  "db_scope_nodes (put_feedback k w db) = db_scope_nodes db"
  "db_scope_edges (put_feedback k w db) = db_scope_edges db"
  "db_rework (put_feedback k w db) = db_rework db"
  "view (put_feedback k w db) i = view db i"
  "keys_ok (put_feedback k w db) = keys_ok db"
  "on_view db0 i f (put_feedback k w db) = on_view db0 i f db"
  "healthy (put_feedback k w db) = healthy db"
  by (simp_all add: put_feedback_def healthy_def on_view_def view_ticket_update keys_ok_tickets)

lemma wp_writeEvent [wp_simps]:
  "wp (writeEvent en et ei ac ty pl) Q db =
     Q (en_uuid en EventId (length (db_events db))) (add_event en et ei ac ty pl db)"
  by (simp add: wp_def writeEvent_def add_event_def Let_def)

lemma wp_setReviewFeedback [wp_simps]:
  "wp (setReviewFeedback i v) Q db = Q () (put_feedback i v db)"
  by (simp add: setReviewFeedback_def ticket_update_def wp_modify put_feedback_def)

lemma wp_claim_setStatus [wp_simps]:
  "wp (claim_setStatus cid st now) Q db = Q () (close_claim cid st now db)"
  by (simp add: claim_setStatus_def wp_modify close_claim_def)

lemma wp_ticket_update [wp_simps]:
  "wp (ticket_update i f) Q db =
     Q () (db\<lparr>db_tickets := upd_rows (\<lambda>t. t_id t = i) f (db_tickets db)\<rparr>)"
  by (simp add: ticket_update_def wp_modify)

lemma wp_claim_insert [wp_simps]:
  "wp (claim_insert c) Q db = (\<forall>db'. claim_insert c db = Inr ((), db') \<longrightarrow> Q () db')"
  by (auto simp: wp_def split: sum.splits)

lemma wp_release [wp_simps]:
  "wp (releaseActiveForTicket i now) Q db =
     Q (length (filter (\<lambda>c. c_ticket_id c = i \<and> claim_active c) (db_claims db))) (release_rows i now db)"
  by (simp add: wp_def releaseActiveForTicket_def)

lemma wp_setResumeRequested [wp_simps]:
  "wp (setResumeRequested i v now) Q db = Q () (db\<lparr>db_paused := upd_rows (\<lambda>p. p_ticket_id p = i)
       (\<lambda>p. p\<lparr>p_resume_requested := v, p_updated_at := now\<rparr>) (db_paused db)\<rparr>)"
  by (simp add: setResumeRequested_def wp_modify)

lemma wp_agent_touch [wp_simps]:
  "wp (agent_touchLastSeen i now) Q db = Q () (db\<lparr>db_agents :=
     upd_rows (\<lambda>a. g_id a = i) (\<lambda>a. a\<lparr>g_last_seen_at := Some now, g_updated_at := now\<rparr>) (db_agents db)\<rparr>)"
  by (simp add: agent_touchLastSeen_def wp_modify)

text \<open>The transition rule over views: what a caller that tracks \<open>on_view\<close> gets.\<close>

lemma transition_checkD:
  assumes "transition_check en inp db t = Inr policy"
  shows "(t_status t, ti_toStatus inp) \<in> set ALLOWED" and "t_status t \<noteq> ti_toStatus inp"
    and "violatedGuard (t_status t) (ti_toStatus inp) (ti_flags inp) = None"
    and "ti_expectedFromStatus inp = None \<or> ti_expectedFromStatus inp = Some (t_status t)"
  using assms by (auto simp: transition_check_def Let_def split: if_split_asm)

lemma view_SomeD:
  assumes "view db i = Some v"
  shows "\<exists>t. ticket_findById db i = Some t \<and> t_status t = v_status v \<and>
    (t_human_owner t \<noteq> None) = v_owned v \<and> (t_human_delivered t \<noteq> None) = v_delivered v"
    and "v_leased v = hasActiveForTicket db i" and "v_context v = (paused_find db i \<noteq> None)"
  using assms by (auto simp: view_eq)

lemma find_view: "ticket_findById db i = Some t \<Longrightarrow>
    \<exists>v. view db i = Some v \<and> v_status v = t_status t \<and> v_owned v = (t_human_owner t \<noteq> None) \<and>
      v_leased v = hasActiveForTicket db i \<and> v_context v = (paused_find db i \<noteq> None)"
  by (auto simp: view_eq)

lemma wp_transition_view:
  assumes "on_view db i f s" and "ti_ticketId inp = i"
    and "\<And>t r v s'. ticket_findById s i = Some t \<Longrightarrow> view db i = Some v \<Longrightarrow> v_status (f v) = t_status t \<Longrightarrow>
           (v_status (f v), ti_toStatus inp) \<in> set ALLOWED \<Longrightarrow>
           violatedGuard (v_status (f v)) (ti_toStatus inp) (ti_flags inp) = None \<Longrightarrow>
           ti_expectedFromStatus inp = None \<or> ti_expectedFromStatus inp = Some (v_status (f v)) \<Longrightarrow>
           s' = transition_effect en inp t s \<Longrightarrow> tres_ticket r = moved en inp t t \<Longrightarrow>
           on_view db i (\<lambda>v. goto (ti_toStatus inp) (f v)) s' \<Longrightarrow> Q r s'"
  shows "wp (transition en inp) Q s"
proof (rule wp_transition)
  show "distinct (map t_id (db_tickets s))" using on_view_keys [OF assms(1)] by (simp add: keys_ok_def)
  fix t policy and r :: transition_result
  assume t: "ticket_findById s (ti_ticketId inp) = Some t"
    and c: "transition_check en inp s t = Inr policy" and r: "tres_ticket r = moved en inp t t"
  obtain u where u: "view s i = Some u" "v_status u = t_status t"
    using find_view [OF t] assms(2) by auto
  then obtain v where v: "view db i = Some v" "u = f v"
    using on_view_same [OF assms(1)] by auto
  show "Q r (transition_effect en inp t s)"
    using assms(3) [of t v "transition_effect en inp t s" r] t u v r assms(2) transition_checkD [OF c]
      on_view_transition [OF assms(1)]
    by simp
qed

text \<open>A single transition keeps the invariant, but for the two edges that concern the lease.\<close>

lemma healthy_transition:
  assumes "healthy db" and "ti_toStatus inp \<noteq> Claimed"
    and "ti_toStatus inp = InReview \<Longrightarrow> \<not> hasActiveForTicket db (ti_ticketId inp)"
  shows "wp (transition en inp) (\<lambda>_. healthy) db"
proof (rule wp_transition_view [OF on_view_refl [OF healthy_keys [OF assms(1)]] refl])
  fix t r v s'
  assume "ticket_findById db (ti_ticketId inp) = Some t" and v: "view db (ti_ticketId inp) = Some v"
    and e: "(v_status v, ti_toStatus inp) \<in> set ALLOWED"
    and s': "on_view db (ti_ticketId inp) (goto (ti_toStatus inp)) s'"
  show "healthy s'"
  proof (rule healthy_on_view [OF assms(1) s'])
    fix w assume "view db (ti_ticketId inp) = Some w" "sound w"
    then show "sound (goto (ti_toStatus inp) w)"
      using v e assms(2,3) view_SomeD(2) [OF v] by (intro sound_goto) auto
  qed
qed

end
