(* ===== verification/Ticket_Ref.thy ===== *)
theory Ticket_Ref
  imports Store
begin

text \<open>
  The ticket-reference resolver every service shares
  (\<open>TicketRepository.resolveRef\<close>): the id, else the number in any accepted spelling
  (\<open>15\<close>, \<open>#15\<close>, \<open>T-15\<close>). The number is read with JavaScript's \<open>Number\<close>, modelled on the
  literals it accepts whose value is a positive integer: decimal literals with an optional
  plus sign, fraction and exponent, and hexadecimal, octal and binary literals. A digit string
  longer than the doubles represent exactly is read exactly here.
\<close>

definition digit_value :: "char \<Rightarrow> nat option" where
  "digit_value c = (let n = of_char c :: nat in
     if 48 \<le> n \<and> n \<le> 57 then Some (n - 48)
     else if 65 \<le> n \<and> n \<le> 70 then Some (n - 55)
     else if 97 \<le> n \<and> n \<le> 102 then Some (n - 87)
     else None)"

fun digits_value :: "nat \<Rightarrow> nat \<Rightarrow> string \<Rightarrow> nat option" where
  "digits_value base acc [] = Some acc"
| "digits_value base acc (c # cs) =
     (case digit_value c of
        None \<Rightarrow> None
      | Some d \<Rightarrow> if d < base then digits_value base (acc * base + d) cs else None)"

definition is_dec :: "char \<Rightarrow> bool" where
  "is_dec c = (let n = of_char c :: nat in 48 \<le> n \<and> n \<le> 57)"

text \<open>\<open>m * 10^e / 10^f\<close> when that is a whole number.\<close>

definition scale_value :: "nat \<Rightarrow> int \<Rightarrow> nat option" where
  "scale_value m e = (if 0 \<le> e then Some (m * 10 ^ nat e)
     else if m mod 10 ^ nat (- e) = 0 then Some (m div 10 ^ nat (- e)) else None)"

definition exponent_value :: "string \<Rightarrow> int option" where
  "exponent_value s = (case s of
     [] \<Rightarrow> Some 0
   | c # cs \<Rightarrow>
       if c \<noteq> CHR ''e'' \<and> c \<noteq> CHR ''E'' then None
       else case cs of
         [] \<Rightarrow> None
       | d # ds \<Rightarrow>
           if d = CHR ''-'' then (if ds = [] then None else map_option (\<lambda>n. - int n) (digits_value 10 0 ds))
           else if d = CHR ''+'' then (if ds = [] then None else map_option int (digits_value 10 0 ds))
           else map_option int (digits_value 10 0 cs))"

definition decimal_value :: "string \<Rightarrow> nat option" where
  "decimal_value s = (
     let ip = takeWhile is_dec s; r = dropWhile is_dec s;
         (fp, ex) = (case r of
             c # cs \<Rightarrow> if c = CHR ''.'' then (takeWhile is_dec cs, dropWhile is_dec cs) else ([], r)
           | [] \<Rightarrow> ([], []))
     in if ip = [] \<and> fp = [] then None
        else case (digits_value 10 0 (ip @ fp), exponent_value ex) of
          (Some m, Some e) \<Rightarrow> scale_value m (e - int (length fp))
        | _ \<Rightarrow> None)"

definition radix_value :: "nat \<Rightarrow> string \<Rightarrow> nat option" where
  "radix_value base ds = (if ds = [] then None else digits_value base 0 ds)"

text \<open>\<open>Number(s)\<close> when that is a non-negative integer; the empty string is 0.\<close>

definition js_Number_nat :: "string \<Rightarrow> nat option" where
  "js_Number_nat s = (case js_trim s of
     [] \<Rightarrow> Some 0
   | c # cs \<Rightarrow>
       if c = CHR ''+'' then decimal_value cs
       else if c = CHR ''0'' \<and> cs \<noteq> [] \<and> hd cs \<in> {CHR ''x'', CHR ''X''} then radix_value 16 (tl cs)
       else if c = CHR ''0'' \<and> cs \<noteq> [] \<and> hd cs \<in> {CHR ''o'', CHR ''O''} then radix_value 8 (tl cs)
       else if c = CHR ''0'' \<and> cs \<noteq> [] \<and> hd cs \<in> {CHR ''b'', CHR ''B''} then radix_value 2 (tl cs)
       else decimal_value (c # cs))"

text \<open>\<open>ref.trim().replace(/^#/, "").replace(/^T-/i, "")\<close>\<close>

definition strip_ref :: "string \<Rightarrow> string" where
  "strip_ref ref = (
     let s = js_trim ref;
         s1 = (case s of c # cs \<Rightarrow> if c = CHR ''#'' then cs else s | [] \<Rightarrow> [])
     in case s1 of
          c # d # cs \<Rightarrow> if (c = CHR ''T'' \<or> c = CHR ''t'') \<and> d = CHR ''-'' then cs else s1
        | _ \<Rightarrow> s1)"

definition resolve_ref :: "db \<Rightarrow> string \<Rightarrow> ticket option" where
  "resolve_ref db ref = (case ticket_findById db ref of
     Some t \<Rightarrow> Some t
   | None \<Rightarrow>
       (case js_Number_nat (strip_ref ref) of
          None \<Rightarrow> None
        | Some n \<Rightarrow> if 0 < n then ticket_findByNumber db n else None))"

definition resolveRef :: "string \<Rightarrow> ticket op" where
  "resolveRef ref = (\<lambda>db. case resolve_ref db ref of
     None \<Rightarrow> Inl (DispatchError NOT_FOUND) | Some t \<Rightarrow> Inr (t, db))"

section \<open>Spellings\<close>

lemma digits_value_show_nat_aux:
  "digits_value 10 acc (ds @ [digit_char d]) = map_option (\<lambda>m. m * 10 + d) (digits_value 10 acc ds)"
  if "d < 10"
proof -
  have "digit_value (digit_char d) = Some d"
    using that by (simp add: digit_value_def digit_char_def Let_def)
  then show ?thesis
    using that by (induction ds arbitrary: acc) (auto split: option.splits)
qed

lemma digits_value_show_nat: "digits_value 10 0 (show_nat n) = Some n"
proof (induction n rule: show_nat.induct)
  case (1 n)
  show ?case
  proof (cases "n < 10")
    case True
    then show ?thesis
      using digits_value_show_nat_aux [of n 0 "[]"] by (simp add: show_nat.simps [of n])
  next
    case False
    with 1 have "digits_value 10 0 (show_nat (n div 10)) = Some (n div 10)" by simp
    with False show ?thesis
      using digits_value_show_nat_aux [of "n mod 10" 0 "show_nat (n div 10)"]
      by (simp add: show_nat.simps [of n])
  qed
qed

lemma is_dec_digit_char: "d < 10 \<Longrightarrow> is_dec (digit_char d)"
  by (simp add: is_dec_def digit_char_def Let_def)

lemma show_nat_all_dec: "c \<in> set (show_nat n) \<Longrightarrow> is_dec c"
proof (induction n rule: show_nat.induct)
  case (1 n)
  then show ?case
    by (subst (asm) (2) show_nat.simps) (auto split: if_split_asm intro: is_dec_digit_char)
qed

lemma show_nat_not_Nil [simp]: "show_nat n \<noteq> []"
  by (subst show_nat.simps) simp

lemma is_dec_not_special:
  "is_dec c \<Longrightarrow> \<not> js_ws c \<and> c \<noteq> CHR ''#'' \<and> c \<noteq> CHR ''T'' \<and> c \<noteq> CHR ''t'' \<and> c \<noteq> CHR ''+''
     \<and> c \<notin> {CHR ''x'', CHR ''X'', CHR ''o'', CHR ''O'', CHR ''b'', CHR ''B''}"
  by (auto simp: is_dec_def js_ws_def Let_def)

lemma js_trim_all_dec: "(\<And>c. c \<in> set s \<Longrightarrow> is_dec c) \<Longrightarrow> js_trim s = s"
proof -
  assume dec: "\<And>c. c \<in> set s \<Longrightarrow> is_dec c"
  then have nows: "\<And>c. c \<in> set s \<Longrightarrow> \<not> js_ws c" using is_dec_not_special by blast
  have "dropWhile js_ws s = s" using nows by (cases s) auto
  moreover have "dropWhile js_ws t = t" if "set t = set s" for t
    using that nows by (cases t) auto
  ultimately show ?thesis by (simp add: js_trim_def)
qed

lemma decimal_value_digits:
  assumes "\<And>c. c \<in> set s \<Longrightarrow> is_dec c" "s \<noteq> []" "digits_value 10 0 s = Some n"
  shows "decimal_value s = Some n"
proof -
  have split: "takeWhile is_dec s = s" "dropWhile is_dec s = []"
    using assms(1) by simp_all
  show ?thesis
    unfolding decimal_value_def split using assms(2,3)
    by (simp add: exponent_value_def scale_value_def Let_def)
qed

lemma js_Number_show_nat: "js_Number_nat (show_nat n) = Some n"
proof -
  obtain c cs where s: "show_nat n = c # cs" by (cases "show_nat n") auto
  have dec: "\<And>d. d \<in> set (c # cs) \<Longrightarrow> is_dec d" using show_nat_all_dec s by metis
  have "js_trim (c # cs) = c # cs" by (rule js_trim_all_dec) (rule dec)
  moreover have "decimal_value (c # cs) = Some n"
    using digits_value_show_nat [of n] s by (intro decimal_value_digits dec) auto
  moreover have "c \<noteq> CHR ''+''" "cs \<noteq> [] \<Longrightarrow> hd cs \<notin> {CHR ''x'', CHR ''X'', CHR ''o'', CHR ''O'', CHR ''b'', CHR ''B''}"
    using is_dec_not_special [OF dec] by (auto dest!: is_dec_not_special [OF dec] hd_in_set)
  ultimately show ?thesis
    by (auto simp: js_Number_nat_def s)
qed

lemma strip_ref_show_nat:
  "strip_ref (show_nat n) = show_nat n"
  "strip_ref (CHR ''#'' # show_nat n) = show_nat n"
  "strip_ref (CHR ''T'' # CHR ''-'' # show_nat n) = show_nat n"
proof -
  obtain c cs where s: "show_nat n = c # cs" by (cases "show_nat n") auto
  have dec: "\<And>d. d \<in> set (c # cs) \<Longrightarrow> is_dec d" using show_nat_all_dec s by metis
  then have c: "c \<noteq> CHR ''#''" "c \<noteq> CHR ''T''" "c \<noteq> CHR ''t''"
    using is_dec_not_special [of c] by auto
  have trim: "js_trim (pre @ c # cs) = pre @ c # cs" if "pre = [] \<or> \<not> js_ws (hd pre)" for pre
  proof -
    have "dropWhile js_ws (pre @ c # cs) = pre @ c # cs"
      using that dec is_dec_not_special [of c] by (cases pre) auto
    moreover have "dropWhile js_ws (rev (pre @ c # cs)) = rev (pre @ c # cs)"
    proof -
      obtain d ds where r: "rev (c # cs) = d # ds" by (cases "rev (c # cs)") auto
      then have "d \<in> set (c # cs)" by (metis list.set_intros(1) set_rev)
      then have "\<not> js_ws d" using dec is_dec_not_special by blast
      with r show ?thesis by simp
    qed
    ultimately show ?thesis by (simp add: js_trim_def)
  qed
  show "strip_ref (show_nat n) = show_nat n"
    using trim [of "[]"] c by (auto simp: strip_ref_def s Let_def split: list.splits)
  show "strip_ref (CHR ''#'' # show_nat n) = show_nat n"
    using trim [of "[CHR ''#'']"] c by (auto simp: strip_ref_def s Let_def js_ws_def split: list.splits)
  show "strip_ref (CHR ''T'' # CHR ''-'' # show_nat n) = show_nat n"
    using trim [of "[CHR ''T'', CHR ''-'']"] by (auto simp: strip_ref_def s Let_def js_ws_def)
qed

text \<open>
  Every spelling of a ticket number (the printed number, with a leading hash or with the
  prefix \<open>T-\<close>) that is nobody's id resolves to the ticket with that number.
\<close>

theorem resolve_ref_spellings:
  assumes "ref \<in> {show_nat n, CHR ''#'' # show_nat n, CHR ''T'' # CHR ''-'' # show_nat n}"
    and "0 < n" and "ticket_findById db ref = None"
  shows "resolve_ref db ref = ticket_findByNumber db n"
  using assms by (auto simp: resolve_ref_def strip_ref_show_nat js_Number_show_nat)

theorem resolve_ref_spellings_witness:
  "resolve_ref (empty_db\<lparr>db_tickets := [sample_ticket ''t1'' 42 Draft]\<rparr>) ''T-42'' = Some (sample_ticket ''t1'' 42 Draft)"
proof -
  have sn: "show_nat 42 = ''42''" by code_simp
  show ?thesis
    using resolve_ref_spellings [of "''T-42''" 42 "empty_db\<lparr>db_tickets := [sample_ticket ''t1'' 42 Draft]\<rparr>"]
    unfolding sn
    by (simp add: ticket_findById_def find_row_def ticket_findByNumber_def sample_ticket_def)
qed

lemma resolve_ref_mem: "resolve_ref db ref = Some t \<Longrightarrow> t \<in> set (db_tickets db)"
  by (auto simp: resolve_ref_def ticket_findById_def ticket_findByNumber_def find_Some_iff
      dest: find_row_SomeD split: option.splits if_splits)

lemma wp_resolveRef [wp_simps]:
  "wp (resolveRef ref) Q db = (\<forall>t. resolve_ref db ref = Some t \<longrightarrow> Q t db)"
  by (auto simp: wp_def resolveRef_def split: option.splits)

lemma bindT_resolveRef: "resolve_ref db r = Some t \<Longrightarrow> bindT (resolveRef r) f db = f t db"
  by (simp add: bindT_def resolveRef_def)

lemma bindT_resolved:
  "bindT (resolveRef r) f db = Inr y \<longleftrightarrow> (\<exists>t. resolve_ref db r = Some t \<and> f t db = Inr y)"
  by (auto simp: bindT_def resolveRef_def split: option.splits)

end
