(* ===== verification/Claims.thy ===== *)
theory Claims
  imports Lifecycle Ticket_Ref
begin

text \<open>
  The claim service (\<open>services/claimService.ts\<close>): agents, the atomic queue claim, by-hand work,
  heartbeats, evidence, review submission, blocking, release, the runner's bookkeeping and
  the recovery of stale claims. Every operation runs in one transaction; what it throws
  rolls it back. Error details and messages are not modelled, codes are.
\<close>

section \<open>Agents\<close>

record register_agent_input =
  ra_display_name :: "string option"
  ra_agent_type :: string
  ra_model :: "string option"
  ra_runtime :: "string option"
  ra_host :: "string option"
  ra_max_risk :: risk_level
  ra_capabilities :: "string list"
  ra_created_by :: "string option"

text \<open>The input is what the schema hands on: defaults filled in.\<close>

definition registerAgent :: "env \<Rightarrow> register_agent_input \<Rightarrow> actor \<Rightarrow> agent op" where
  "registerAgent en inp actor =
     bindT (getT (\<lambda>db. \<lparr>g_id = en_uuid en AgentId (length (db_agents db)),
       g_display_name = ra_display_name inp, g_agent_type = ra_agent_type inp,
       g_model = ra_model inp, g_runtime = ra_runtime inp, g_host = ra_host inp,
       g_max_risk = ra_max_risk inp, g_status = AgActive,
       g_created_by = orElse (ra_created_by inp) (a_id actor), g_last_seen_at = None,
       g_created_at = en_now en, g_updated_at = en_now en, g_squad_name = None,
       g_shirt_number = None\<rparr>)) (\<lambda>agent.
     bindT (agent_insert agent) (\<lambda>_.
     bindT (forT (ra_capabilities inp) (agent_addCapability (g_id agent))) (\<lambda>_.
     bindT (writeEvent en ''agent'' (g_id agent) actor ''agent.registered''
              (Some (JObj [(''agent_type'', JStr (g_agent_type agent)),
                           (''capabilities'', JArr (map JStr (ra_capabilities inp)))]))) (\<lambda>_.
     returnT agent))))"

section \<open>Tokens\<close>

definition newClaimToken :: "env \<Rightarrow> nat \<Rightarrow> string" where
  "newClaimToken en n = ''ct_'' @ en_token en n"

definition hashClaimToken :: "env \<Rightarrow> string \<Rightarrow> string" where
  "hashClaimToken en token = en_sha256 en token"

definition activeClaimForToken :: "env \<Rightarrow> string \<Rightarrow> ticket_claim op" where
  "activeClaimForToken en token = (\<lambda>db.
     case claim_findActiveByTokenHash db (hashClaimToken en token) (en_now en) of
       None \<Rightarrow> Inl (DispatchError CLAIM_INVALID) | Some c \<Rightarrow> Inr (c, db))"

definition assertClaimOnTicket :: "env \<Rightarrow> string \<Rightarrow> id \<Rightarrow> ticket_claim op" where
  "assertClaimOnTicket en token tid =
     bindT (activeClaimForToken en token) (\<lambda>claim.
     bindT (throwIf (c_ticket_id claim \<noteq> tid) (DispatchError CLAIM_INVALID)) (\<lambda>_.
     returnT claim))"

definition ticketIdForToken :: "env \<Rightarrow> db \<Rightarrow> string \<Rightarrow> id option" where
  "ticketIdForToken en db token =
     map_option c_ticket_id (claim_findByTokenHash db (hashClaimToken en token))"

text \<open>
  The lease length in whole seconds, at least one. \<open>Math.round\<close> rounds halves up.
\<close>

definition ttlForClaim :: "ticket_claim \<Rightarrow> nat" where
  "ttlForClaim c = nat (max 1 ((c_expires_at c - c_heartbeat_at c + 500) div 1000))"

section \<open>Claiming\<close>

record claim_result =
  cl_ticketId :: id
  cl_number :: nat
  cl_claimToken :: string
  cl_lastReviewFeedback :: "review_feedback option"

definition sysmove :: "id \<Rightarrow> actor \<Rightarrow> ticket_status \<Rightarrow> string \<Rightarrow> flag list \<Rightarrow> transition_input" where
  "sysmove tid actor to reason flags = (move tid actor to flags)\<lparr>ti_reason := Some reason\<rparr>"

text \<open>
  A lapsed lease on an in-progress ticket that still has its pause context: back to paused.
\<close>

definition returnLapsedResumeToPaused :: "env \<Rightarrow> ticket \<Rightarrow> id \<Rightarrow> actor \<Rightarrow> bool op" where
  "returnLapsedResumeToPaused en t claimId actor = (\<lambda>db.
     if t_status t \<noteq> InProgress \<or> t_human_owner t \<noteq> None then Inr (False, db)
     else if paused_find db (t_id t) = None then Inr (False, db)
     else bindT (transition en ((sysmove (t_id t) actor Paused ''claim_expired_mid_resume''
                   [SystemOverride, PauseDelivery])\<lparr>ti_expectedFromStatus := Some InProgress\<rparr>)) (\<lambda>_.
          bindT (setResumeRequested (t_id t) False (en_now en)) (\<lambda>_.
          bindT (ticketEvent en (t_id t) actor ''claim.expired''
                   [(''claim_id'', JStr claimId), (''returned_to'', JStr ''paused'')]) (\<lambda>_.
          returnT True))) db)"

definition mk_claim :: "env \<Rightarrow> db \<Rightarrow> id \<Rightarrow> agent \<Rightarrow> nat \<Rightarrow> ticket_claim" where
  "mk_claim en db tid ag ttl = (let n = length (db_claims db) in
     \<lparr>c_id = en_uuid en ClaimId n, c_ticket_id = tid, c_agent_id = g_id ag,
      c_token_hash = hashClaimToken en (newClaimToken en n), c_status = ClActive,
      c_expires_at = isoPlusSeconds ttl (en_now en), c_heartbeat_at = en_now en,
      c_created_at = en_now en, c_released_at = None\<rparr>)"

text \<open>The expired-claim half of \<open>attemptClaim\<close>: true when the candidate must be skipped.\<close>

definition reapExpired :: "env \<Rightarrow> candidate_row \<Rightarrow> actor \<Rightarrow> bool op" where
  "reapExpired en cand actor = (case cr_expired_claim_id cand of
     None \<Rightarrow> returnT False
   | Some cid \<Rightarrow>
       bindT (claim_setStatus cid ClExpired (en_now en)) (\<lambda>_.
       bindT (getT (\<lambda>db. ticket_findById db (cr_id cand))) (\<lambda>stuck.
       bindT (case stuck of None \<Rightarrow> returnT False
              | Some t \<Rightarrow> returnLapsedResumeToPaused en t cid actor) (\<lambda>back.
       if back then returnT True
       else
         bindT (case stuck of None \<Rightarrow> returnT ()
                | Some t \<Rightarrow> whenT (t_status t \<in> {Claimed, InProgress})
                    (bindT (transition en (sysmove (cr_id cand) actor Ready ''claim_expired_reclaim''
                              [SystemOverride])) (\<lambda>_. returnT ()))) (\<lambda>_.
         bindT (ticketEvent en (cr_id cand) actor ''claim.expired''
                  [(''claim_id'', JStr cid), (''returned_to'', JStr ''reclaimed'')]) (\<lambda>_.
         returnT False))))))"

text \<open>
  The second half: insert the lease, flip the ticket, report. \<open>None\<close> is the sentinel \<open>"skip"\<close>.
\<close>

definition takeLease :: "env \<Rightarrow> id \<Rightarrow> agent \<Rightarrow> nat \<Rightarrow> actor \<Rightarrow> claim_result option op" where
  "takeLease en tid ag ttl actor =
     bindT (getT (\<lambda>db. (mk_claim en db tid ag ttl, newClaimToken en (length (db_claims db))))) (\<lambda>(claim, token).
     bindT (catchT (bindT (claim_insert claim) (\<lambda>_. returnT True))
              (\<lambda>e. if e = SqliteUnique then returnT False else throwT e)) (\<lambda>inserted.
     if \<not> inserted then returnT None
     else
       bindT (catchT
         (bindT (transition en ((sysmove tid actor Claimed ''claim_next'' [AgentClaim])
                   \<lparr>ti_expectedFromStatus := Some Ready\<rparr>)) (\<lambda>_. returnT True))
         (\<lambda>e. bindT (claim_setStatus (c_id claim) ClReleased (en_now en)) (\<lambda>_.
              if e = DispatchError POLICY_DENIED \<or> e = DispatchError STATE_CONFLICT
              then returnT False else throwT e))) (\<lambda>flipped.
       if \<not> flipped then returnT None
       else
         bindT (getT (\<lambda>db. the (ticket_findById db tid))) (\<lambda>t.
         bindT (ticketEvent en (t_id t) actor ''claim.created''
                  [(''claim_id'', JStr (c_id claim)), (''agent_id'', JStr (g_id ag)),
                   (''expires_at'', JStr (toISOString (c_expires_at claim)))]) (\<lambda>_.
         returnT (Some \<lparr>cl_ticketId = t_id t, cl_number = (case t_number t of None \<Rightarrow> 0 | Some n \<Rightarrow> n),
           cl_claimToken = token, cl_lastReviewFeedback = t_last_review_feedback t\<rparr>))))))"

definition attemptClaim ::
  "env \<Rightarrow> candidate_row \<Rightarrow> agent \<Rightarrow> nat \<Rightarrow> actor \<Rightarrow> claim_result option op" where
  "attemptClaim en cand ag ttl actor =
     bindT (reapExpired en cand actor) (\<lambda>skip.
     if skip then returnT None else takeLease en (cr_id cand) ag ttl actor)"

primrec tryCandidates ::
  "env \<Rightarrow> agent \<Rightarrow> nat \<Rightarrow> actor \<Rightarrow> candidate_row list \<Rightarrow> claim_result option op" where
  "tryCandidates en ag ttl actor [] = returnT None"
| "tryCandidates en ag ttl actor (c # cs) =
     bindT (attemptClaim en c ag ttl actor) (\<lambda>r.
     case r of None \<Rightarrow> tryCandidates en ag ttl actor cs | Some res \<Rightarrow> returnT (Some res))"

definition criteria_of :: "db \<Rightarrow> agent \<Rightarrow> candidate_criteria" where
  "criteria_of db ag = \<lparr>cc_maxRiskRank = riskRank (g_max_risk ag),
     cc_capabilities = agent_capabilities db (g_id ag)\<rparr>"

definition findActiveAgent :: "id \<Rightarrow> agent op" where
  "findActiveAgent i = (\<lambda>db. case agent_findById db i of
     None \<Rightarrow> Inl (DispatchError NOT_FOUND)
   | Some a \<Rightarrow> if g_status a \<noteq> AgActive then Inl (DispatchError AGENT_NOT_ELIGIBLE) else Inr (a, db))"

definition claimNextTicket :: "env \<Rightarrow> id \<Rightarrow> nat \<Rightarrow> actor \<Rightarrow> claim_result option op" where
  "claimNextTicket en agentId ttl actor =
     bindT (findActiveAgent agentId) (\<lambda>ag.
     bindT (agent_touchLastSeen (g_id ag) (en_now en)) (\<lambda>_.
     bindT (getT (\<lambda>db. candidateTickets db (en_now en) (criteria_of db ag))) (\<lambda>candidates.
     tryCandidates en ag ttl actor candidates)))"

text \<open>
  \<open>notClaimableReasons\<close> only words the error; its conditions are listed for the claim that
  they explain every refusal.
\<close>

datatype not_claimable_reason =
    ReasonStatus ticket_status
  | ReasonHumanOwned string
  | ReasonScheduled instant
  | ReasonRisk risk_level risk_level
  | ReasonMissing "string list"
  | ReasonDecision id string
  | ReasonLiveClaim

definition notClaimableReasons ::
  "db \<Rightarrow> ticket \<Rightarrow> agent \<Rightarrow> string list \<Rightarrow> instant \<Rightarrow> not_claimable_reason list" where
  "notClaimableReasons db t ag caps now = (
     let missing = filter (\<lambda>c. c \<notin> set caps)
           (map snd (filter (\<lambda>r. fst r = t_id t) (db_required_caps db))) in
     (if t_status t \<noteq> Ready then [ReasonStatus (t_status t)] else [])
     @ (case t_human_owner t of None \<Rightarrow> [] | Some o' \<Rightarrow> if o' = [] then [] else [ReasonHumanOwned o'])
     @ (case t_scheduled_after t of None \<Rightarrow> [] | Some s \<Rightarrow> if s > now then [ReasonScheduled s] else [])
     @ (if riskRank (t_risk_level t) > riskRank (g_max_risk ag)
        then [ReasonRisk (t_risk_level t) (g_max_risk ag)] else [])
     @ (if missing \<noteq> [] then [ReasonMissing missing] else [])
     @ map (\<lambda>d. ReasonDecision (take 8 (d_id d)) (d_title d)) (blockingForTicket db (t_id t))
     @ (if \<not> lease_free db now (t_id t) then [ReasonLiveClaim] else []))"

definition claimTicket :: "env \<Rightarrow> id \<Rightarrow> id \<Rightarrow> nat \<Rightarrow> actor \<Rightarrow> claim_result op" where
  "claimTicket en tid agentId ttl actor = (\<lambda>db0.
     case ticket_findById db0 tid of
       None \<Rightarrow> Inl (DispatchError NOT_FOUND)
     | Some t \<Rightarrow>
         bindT (findActiveAgent agentId) (\<lambda>ag.
         bindT (agent_touchLastSeen (g_id ag) (en_now en)) (\<lambda>_.
         bindT (getT (\<lambda>db. candidateForTicket db (t_id t) (en_now en) (criteria_of db ag))) (\<lambda>cand.
         case cand of
           None \<Rightarrow>
             bindT (getT (\<lambda>db. unsatisfiedDependencies db (t_id t))) (\<lambda>unsatisfied.
             throwT (DispatchError (if unsatisfied \<noteq> [] then DEPENDENCY_BLOCKED else TICKET_NOT_CLAIMABLE)))
         | Some c \<Rightarrow>
             bindT (attemptClaim en c ag ttl actor) (\<lambda>r.
             case r of None \<Rightarrow> throwT (DispatchError TICKET_NOT_CLAIMABLE) | Some res \<Rightarrow> returnT res)))) db0)"

section \<open>By-hand work\<close>

definition human_label :: "actor \<Rightarrow> string" where
  "human_label actor = (case a_id actor of None \<Rightarrow> ''human'' | Some i \<Rightarrow> i)"

definition humanClaimTicket :: "env \<Rightarrow> id \<Rightarrow> actor \<Rightarrow> (id \<times> nat) op" where
  "humanClaimTicket en tid actor = (\<lambda>db.
     case ticket_findById db tid of
       None \<Rightarrow> Inl (DispatchError NOT_FOUND)
     | Some t \<Rightarrow>
         if t_status t \<noteq> Ready \<or> hasActiveForTicket db (t_id t) then Inl (DispatchError TICKET_NOT_CLAIMABLE)
         else bindT (transition en ((sysmove (t_id t) actor InProgress ''human_claim'' [HumanClaim])
                       \<lparr>ti_expectedFromStatus := Some Ready\<rparr>)) (\<lambda>_.
              bindT (setHumanOwner (t_id t) (Some (human_label actor))) (\<lambda>_.
              bindT (ticketEvent en (t_id t) actor ''ticket.human_claimed''
                       [(''owner'', JStr (human_label actor))]) (\<lambda>_.
              returnT (t_id t, case t_number t of None \<Rightarrow> 0 | Some n \<Rightarrow> n)))) db)"

definition humanReleaseTicket :: "env \<Rightarrow> id \<Rightarrow> actor \<Rightarrow> (id \<times> ticket_status \<times> id) op" where
  "humanReleaseTicket en tid actor = (\<lambda>db.
     case ticket_findById db tid of
       None \<Rightarrow> Inl (DispatchError NOT_FOUND)
     | Some t \<Rightarrow>
         if t_status t \<noteq> InProgress \<or> t_human_owner t = None then Inl (DispatchError TICKET_NOT_HUMAN_OWNED)
         else if a_type actor = Human \<and> Some (human_label actor) \<noteq> t_human_owner t
           then Inl (DispatchError ACTOR_NOT_PERMITTED)
         else bindT (transition en ((sysmove (t_id t) actor Ready ''human_release'' [HumanRelease])
                       \<lparr>ti_expectedFromStatus := Some InProgress\<rparr>)) (\<lambda>res.
              bindT (ticketEvent en (t_id t) actor ''ticket.human_released''
                       [(''returned_to'', JStr ''ready'')]) (\<lambda>ev.
              returnT (t_id t, t_status (tres_ticket res), ev))) db)"

section \<open>Heartbeat and evidence\<close>

definition heartbeat :: "env \<Rightarrow> string \<Rightarrow> instant op" where
  "heartbeat en token =
     bindT (activeClaimForToken en token) (\<lambda>claim.
     let expiresAt = isoPlusSeconds (ttlForClaim claim) (en_now en) in
     bindT (claim_extend (c_id claim) expiresAt (en_now en)) (\<lambda>ok.
     bindT (throwIf (\<not> ok) (DispatchError CLAIM_INVALID)) (\<lambda>_.
     returnT expiresAt)))"

record record_evidence_input =
  re_claimToken :: "string option"
  re_reviewOf :: "string option"
  re_ticket_id :: string
  re_ac_id :: "id option"
  re_repo_id :: "id option"
  re_evidence_type :: evidence_type
  re_summary :: string
  re_uri :: "string option"
  re_payload :: "json option"

definition evidence_schema_ok :: "record_evidence_input \<Rightarrow> bool" where
  "evidence_schema_ok inp = (re_ticket_id inp \<noteq> [] \<and> re_ac_id inp \<noteq> Some [] \<and> re_repo_id inp \<noteq> Some []
     \<and> js_trim (re_summary inp) \<noteq> [] \<and> length (js_trim (re_summary inp)) \<le> 5000
     \<and> (case re_uri inp of None \<Rightarrow> True | Some u \<Rightarrow> length u \<le> 2000))"

definition is_review_note :: "record_evidence_input \<Rightarrow> actor \<Rightarrow> ticket \<Rightarrow> bool" where
  "is_review_note inp actor t = (
     \<not> truthy (re_claimToken inp) \<and> a_type actor \<noteq> Human
     \<and> (case re_reviewOf inp of None \<Rightarrow> False | Some r \<Rightarrow>
          js_trim r \<noteq> [] \<and> (t_status t = InReview \<or> t_status t = InTesting)
          \<and> (js_trim r = t_id t
             \<or> js_trim r = (case t_number t of None \<Rightarrow> ''null'' | Some n \<Rightarrow> show_nat n))))"

definition recordEvidence :: "env \<Rightarrow> record_evidence_input \<Rightarrow> actor \<Rightarrow> (id \<times> id) op" where
  "recordEvidence en inp actor =
     bindT (throwIf (\<not> evidence_schema_ok inp) ZodError) (\<lambda>_.
     bindT (resolveRef (re_ticket_id inp)) (\<lambda>t.
     let isReview = is_review_note inp actor t in
     bindT (if truthy (re_claimToken inp)
            then bindT (assertClaimOnTicket en (the (re_claimToken inp)) (t_id t)) (\<lambda>_. returnT ())
            else throwIf (a_type actor \<noteq> Human \<and> \<not> isReview) (DispatchError CLAIM_INVALID)) (\<lambda>_.
     bindT (getT (\<lambda>db. case re_ac_id inp of None \<Rightarrow> False
              | Some a \<Rightarrow> (case ac_findById db a of None \<Rightarrow> True | Some ac \<Rightarrow> ac_ticket_id ac \<noteq> t_id t))) (\<lambda>missing.
     bindT (throwIf missing (DispatchError NOT_FOUND)) (\<lambda>_.
     bindT (getT (\<lambda>db. en_uuid en EvidenceId (length (db_evidence db)))) (\<lambda>eid.
     bindT (evidence_insert \<lparr>ev_id = eid, ev_ticket_id = t_id t, ev_ac_id = re_ac_id inp,
              ev_repo_id = re_repo_id inp, ev_decision_id = None, ev_type = re_evidence_type inp,
              ev_summary = js_trim (re_summary inp), ev_uri = re_uri inp, ev_payload_json = re_payload inp,
              ev_created_by = actor_label actor, ev_recorded_by = Some (a_type actor),
              ev_created_at = en_now en\<rparr>) (\<lambda>_.
     bindT (case re_ac_id inp of None \<Rightarrow> returnT ()
            | Some a \<Rightarrow> whenT (\<not> isReview) (ac_setStatus a AcSatisfied (Some (actor_label actor)) (en_now en))) (\<lambda>_.
     bindT (ticketEvent en (t_id t) actor ''evidence.recorded''
              [(''evidence_id'', JStr eid), (''ac_id'', jopt (re_ac_id inp)),
               (''evidence_type'', JStr (evidence_type_name (re_evidence_type inp)))]) (\<lambda>ev.
     returnT (eid, ev))))))))))"

section \<open>Submission, blocking, release\<close>

definition submitForReview ::
  "env \<Rightarrow> string \<Rightarrow> string \<Rightarrow> string option \<Rightarrow> actor \<Rightarrow> (id \<times> ticket_status \<times> id) op" where
  "submitForReview en token ref reason actor =
     bindT (activeClaimForToken en token) (\<lambda>claim.
     bindT (resolveRef ref) (\<lambda>t.
     bindT (throwIf (c_ticket_id claim \<noteq> t_id t) (DispatchError CLAIM_INVALID)) (\<lambda>_.
     bindT (whenT (t_status t = Claimed)
              (bindT (transition en ((sysmove (t_id t) actor InProgress ''submit_for_review'' [AgentSubmit])
                 \<lparr>ti_expectedFromStatus := Some Claimed\<rparr>)) (\<lambda>_. returnT ()))) (\<lambda>_.
     bindT (transition en ((sysmove (t_id t) actor InReview
               (case reason of None \<Rightarrow> ''submit_for_review'' | Some r \<Rightarrow> r) [AgentSubmit])
               \<lparr>ti_expectedFromStatus := Some InProgress\<rparr>)) (\<lambda>res.
     bindT (claim_setStatus (c_id claim) ClCompleted (en_now en)) (\<lambda>_.
     bindT (ticketEvent en (t_id t) actor ''claim.completed'' [(''claim_id'', JStr (c_id claim))]) (\<lambda>ev.
     returnT (t_id t, t_status (tres_ticket res), ev))))))))"

definition markBlocked :: "env \<Rightarrow> string option \<Rightarrow> string \<Rightarrow> string \<Rightarrow> actor \<Rightarrow> (id \<times> id) op" where
  "markBlocked en token ref reason actor =
     bindT (resolveRef ref) (\<lambda>t.
     bindT (if truthy token then bindT (assertClaimOnTicket en (the token) (t_id t)) (\<lambda>_. returnT ())
            else throwIf (a_type actor = AgentActor) (DispatchError CLAIM_REQUIRED)) (\<lambda>_.
     bindT (transition en (sysmove (t_id t) actor Blocked reason [])) (\<lambda>_.
     bindT (ticketEvent en (t_id t) actor ''ticket.blocked'' [(''reason'', JStr reason)]) (\<lambda>ev.
     returnT (t_id t, ev)))))"

definition releaseClaim :: "env \<Rightarrow> string \<Rightarrow> actor \<Rightarrow> unit op" where
  "releaseClaim en token actor =
     bindT (activeClaimForToken en token) (\<lambda>claim.
     bindT (claim_setStatus (c_id claim) ClReleased (en_now en)) (\<lambda>_.
     bindT (getT (\<lambda>db. ticket_findById db (c_ticket_id claim))) (\<lambda>t.
     bindT (case t of None \<Rightarrow> returnT ()
            | Some t \<Rightarrow> whenT (t_status t \<in> {Claimed, InProgress})
                (bindT (transition en (sysmove (t_id t) actor Ready ''release_claim'' [SystemOverride]))
                   (\<lambda>_. returnT ()))) (\<lambda>_.
     bindT (ticketEvent en (c_ticket_id claim) actor ''claim.released'' [(''claim_id'', JStr (c_id claim))]) (\<lambda>_.
     returnT ())))))"

datatype release_target = ToReady | ToRefining | ToBlocked

fun release_status :: "release_target \<Rightarrow> ticket_status" where
  "release_status ToReady = Ready"
| "release_status ToRefining = Refining"
| "release_status ToBlocked = Blocked"

text \<open>\<open>pausedUntil\<close> is the instant \<open>Date.parse\<close> reads, absent when there is none or it is not finite.\<close>

record runner_release_input =
  rr_ticket_id :: string
  rr_to :: release_target
  rr_claimToken :: "string option"
  rr_reason :: "string option"
  rr_reasonCode :: "string option"
  rr_attempt :: "nat option"
  rr_maxAttempts :: "nat option"
  rr_pausedUntil :: "instant option"

definition runnerRelease :: "env \<Rightarrow> runner_release_input \<Rightarrow> actor \<Rightarrow> (ticket_status \<times> id) op" where
  "runnerRelease en inp actor =
     bindT (resolveRef (rr_ticket_id inp)) (\<lambda>t.
     bindT (whenT (truthy (rr_claimToken inp))
              (bindT (assertClaimOnTicket en (the (rr_claimToken inp)) (t_id t)) (\<lambda>claim.
               bindT (claim_setStatus (c_id claim) ClReleased (en_now en)) (\<lambda>_.
               bindT (ticketEvent en (t_id t) actor ''claim.released'' [(''claim_id'', JStr (c_id claim))]) (\<lambda>_.
               returnT ()))))) (\<lambda>_.
     let to = release_status (rr_to inp);
         reason = (case rr_reason inp of None \<Rightarrow> ''runner_release_'' @ status_name to | Some r \<Rightarrow> r) in
     bindT (transition en (sysmove (t_id t) actor to reason [SystemOverride, RunnerRelease])) (\<lambda>res.
     bindT (whenT (rr_to inp = ToRefining \<or> rr_to inp = ToBlocked)
              (setReviewFeedback (t_id t) (Some \<lparr>f_reason = reason, f_reviewer = a_id actor, f_at = en_now en,
                 f_code = (if truthy (rr_reasonCode inp) then rr_reasonCode inp else None),
                 f_attempt = rr_attempt inp, f_maxAttempts = rr_maxAttempts inp\<rparr>))) (\<lambda>_.
     bindT (whenT (rr_to inp = ToBlocked)
              (bindT (ticketEvent en (t_id t) actor ''ticket.blocked''
                 [(''reason'', JStr reason), (''reason_code'', jopt (rr_reasonCode inp))]) (\<lambda>_. returnT ()))) (\<lambda>_.
     bindT (whenT (rr_to inp = ToReady \<and> rr_reasonCode inp = Some ''usage_limit'')
              (bindT (ticketEvent en (t_id t) actor ''ticket.usage_limited''
                 [(''reason'', JStr reason), (''reason_code'', JStr ''usage_limit''),
                  (''paused_until'', jopt (map_option toISOString (rr_pausedUntil inp)))]) (\<lambda>_. returnT ()))) (\<lambda>_.
     returnT (t_status (tres_ticket res), tres_eventId res)))))))"

record rework_input =
  ri_ticket_id :: string
  ri_attempt :: nat
  ri_maxAttempts :: nat
  ri_reason :: string
  ri_gate :: "string option"
  ri_distilledFailure :: "string option"
  ri_acId :: "id option"
  ri_final :: bool

definition recordReworkAttempt :: "env \<Rightarrow> rework_input \<Rightarrow> actor \<Rightarrow> id option op" where
  "recordReworkAttempt en inp actor =
     bindT (resolveRef (ri_ticket_id inp)) (\<lambda>t.
     bindT (getT (\<lambda>db. \<lparr>w_id = en_uuid en ReworkId (length (db_rework db)), w_ticket_id = t_id t,
       w_attempt = ri_attempt inp, w_max_attempts = Some (ri_maxAttempts inp), w_gate = ri_gate inp,
       w_distilled_failure = (case ri_distilledFailure inp of None \<Rightarrow> ri_reason inp | Some d \<Rightarrow> d),
       w_ac_id = ri_acId inp, w_created_at = en_now en\<rparr>)) (\<lambda>row.
     if ri_final inp then bindT (rework_insert row) (\<lambda>_. returnT None)
     else
       bindT (setReviewFeedback (t_id t) (Some \<lparr>f_reason = ri_reason inp, f_reviewer = a_id actor,
                f_at = en_now en, f_code = Some ''reworking'', f_attempt = Some (ri_attempt inp),
                f_maxAttempts = Some (ri_maxAttempts inp)\<rparr>)) (\<lambda>_.
       bindT (rework_insert row) (\<lambda>_.
       bindT (ticketEvent en (t_id t) actor ''ticket.reworking''
                [(''attempt'', JNum (int (ri_attempt inp))), (''max_attempts'', JNum (int (ri_maxAttempts inp))),
                 (''reason'', JStr (ri_reason inp)), (''gate'', jopt (ri_gate inp))]) (\<lambda>ev.
       returnT (Some ev))))))"

section \<open>Recovery\<close>

text \<open>One round of the sweep: it returns the ticket's id when the ticket landed in \<open>blocked\<close>.\<close>

definition expireOne :: "env \<Rightarrow> actor \<Rightarrow> ticket_claim \<Rightarrow> id option op" where
  "expireOne en actor claim =
     bindT (claim_setStatus (c_id claim) ClExpired (en_now en)) (\<lambda>_.
     bindT (getT (\<lambda>db. ticket_findById db (c_ticket_id claim))) (\<lambda>t.
     case t of
       None \<Rightarrow> returnT None
     | Some t \<Rightarrow>
         if t_status t \<noteq> Claimed \<and> t_status t \<noteq> InProgress then returnT None
         else
           bindT (returnLapsedResumeToPaused en t (c_id claim) actor) (\<lambda>back.
           if back then returnT None
           else
             bindT (getT (\<lambda>db. blockingForTicket db (t_id t) \<noteq> [])) (\<lambda>blocked.
             bindT (transition en (sysmove (t_id t) actor (if blocked then Blocked else Ready)
                      ''claim_expired'' [SystemOverride])) (\<lambda>_.
             bindT (ticketEvent en (t_id t) actor ''claim.expired''
                      [(''claim_id'', JStr (c_id claim)),
                       (''returned_to'', JStr (if blocked then ''blocked'' else ''ready''))]) (\<lambda>_.
             returnT (if blocked then Some (t_id t) else None)))))))"

primrec expireAll :: "env \<Rightarrow> actor \<Rightarrow> ticket_claim list \<Rightarrow> (nat \<times> id list) op" where
  "expireAll en actor [] = returnT (0, [])"
| "expireAll en actor (c # cs) =
     bindT (expireOne en actor c) (\<lambda>b.
     bindT (expireAll en actor cs) (\<lambda>(n, bs).
     returnT (n + 1, (case b of None \<Rightarrow> bs | Some i \<Rightarrow> i # bs))))"

definition expireStaleClaims :: "env \<Rightarrow> actor \<Rightarrow> (nat \<times> id list) op" where
  "expireStaleClaims en actor =
     bindT (getT (\<lambda>db. claim_listExpired db (en_now en))) (\<lambda>stale. expireAll en actor stale)"

definition leaseResumedDelivery :: "env \<Rightarrow> id \<Rightarrow> id \<Rightarrow> nat \<Rightarrow> actor \<Rightarrow> (string \<times> instant) op" where
  "leaseResumedDelivery en tid agentId ttl actor =
     bindT (findActiveAgent agentId) (\<lambda>ag.
     bindT (agent_touchLastSeen (g_id ag) (en_now en)) (\<lambda>_.
     bindT (releaseActiveForTicket tid (en_now en)) (\<lambda>_.
     bindT (getT (\<lambda>db. (mk_claim en db tid ag ttl, newClaimToken en (length (db_claims db))))) (\<lambda>(claim, token).
     bindT (claim_insert claim) (\<lambda>_.
     bindT (ticketEvent en tid actor ''claim.created''
              [(''claim_id'', JStr (c_id claim)), (''agent_id'', JStr (g_id ag)),
               (''expires_at'', JStr (toISOString (c_expires_at claim))), (''resumed'', JBool True)]) (\<lambda>_.
     returnT (token, c_expires_at claim)))))))"

text \<open>The human override (\<open>revokeClaim\<close> of \<open>services/ticketLifecycleService.ts\<close>).\<close>

definition revokeClaim :: "env \<Rightarrow> id \<Rightarrow> actor \<Rightarrow> (id \<times> id) op" where
  "revokeClaim en claimId actor = (\<lambda>db.
     case claim_findById db claimId of
       None \<Rightarrow> Inl (DispatchError NOT_FOUND)
     | Some claim \<Rightarrow>
         if c_status claim \<noteq> ClActive then Inl (DispatchError STATE_CONFLICT)
         else
           bindT (claim_setStatus (c_id claim) ClRevoked (en_now en)) (\<lambda>_.
           bindT (getT (\<lambda>db. ticket_findById db (c_ticket_id claim))) (\<lambda>t.
           bindT (case t of None \<Rightarrow> returnT ()
                  | Some t \<Rightarrow> whenT (t_status t \<in> {Claimed, InProgress})
                      (bindT (transition en (sysmove (t_id t) actor Ready ''claim_revoked'' [SystemOverride]))
                         (\<lambda>_. returnT ()))) (\<lambda>_.
           bindT (ticketEvent en (c_ticket_id claim) actor ''claim.revoked''
                    [(''claim_id'', JStr (c_id claim)), (''agent_id'', JStr (c_agent_id claim))]) (\<lambda>_.
           returnT (c_id claim, c_ticket_id claim))))) db)"

end
