(* ===== verification/Claim_Inv.thy ===== *)
theory Claim_Inv
  imports Claims
begin

text \<open>
  Every operation of the claim service keeps the lifecycle invariant: one proof per operation,
  each a walk over its statements with the rules of \<open>Lifecycle\<close>.
\<close>

section \<open>Rules for the helpers\<close>

lemma activeClaimD:
  "claim_findActiveByTokenHash db h now = Some c \<Longrightarrow>
     c \<in> set (db_claims db) \<and> claim_active c \<and> c_token_hash c = h \<and> now < c_expires_at c"
  by (auto simp: claim_findActiveByTokenHash_def find_Some_iff)

lemma wp_activeClaimForToken [wp_simps]:
  "wp (activeClaimForToken en tok) Q db =
     (\<forall>c. claim_findActiveByTokenHash db (hashClaimToken en tok) (en_now en) = Some c \<longrightarrow> Q c db)"
  by (auto simp: wp_def activeClaimForToken_def split: option.splits)

lemma wp_assertClaimOnTicket [wp_simps]:
  "wp (assertClaimOnTicket en tok tid) Q db =
     (\<forall>c. claim_findActiveByTokenHash db (hashClaimToken en tok) (en_now en) = Some c \<longrightarrow>
          c_ticket_id c = tid \<longrightarrow> Q c db)"
  by (auto simp: assertClaimOnTicket_def wp_simps)

lemma wp_findActiveAgent [wp_simps]:
  "wp (findActiveAgent i) Q db =
     (\<forall>a. agent_findById db i = Some a \<longrightarrow> g_status a = AgActive \<longrightarrow> Q a db)"
  by (auto simp: wp_def findActiveAgent_def split: option.splits)

lemma sysmove_simps [simp]:
  "ti_ticketId (sysmove tid actor to reason flags) = tid"
  "ti_toStatus (sysmove tid actor to reason flags) = to"
  "ti_flags (sysmove tid actor to reason flags) = flags"
  "ti_expectedFromStatus (sysmove tid actor to reason flags) = None"
  "ti_patch (sysmove tid actor to reason flags) = None"
  by (simp_all add: sysmove_def move_def)

lemma frees_lease_simps [simp]:
  "frees_lease Ready" "frees_lease Refining" "frees_lease Blocked" "frees_lease Draft"
  "frees_lease Cancelled" "frees_lease Paused" "\<not> frees_lease InReview" "\<not> frees_lease InProgress"
  "\<not> frees_lease Claimed" "\<not> frees_lease InTesting" "\<not> frees_lease ReadyForMerge"
  "\<not> frees_lease Done" "\<not> frees_lease Failed"
  by (simp_all add: frees_lease_def REQUEUE_STATES_def)

lemma db_transition_effect [simp]:
  "db_claims (transition_effect en inp t db) =
     release_claims (frees_lease (ti_toStatus inp)) (t_id t) (en_now en) (db_claims db)"
  "db_acs (transition_effect en inp t db) = db_acs db"
  "db_agents (transition_effect en inp t db) = db_agents db"
  "db_evidence (transition_effect en inp t db) = db_evidence db"
  "db_decisions (transition_effect en inp t db) = db_decisions db"
  "db_ticket_decisions (transition_effect en inp t db) = db_ticket_decisions db"
  "db_dependencies (transition_effect en inp t db) = db_dependencies db"
  by (simp_all add: transition_effect_def)

text \<open>Claim rows never change hands: the pairs of claim and ticket only grow.\<close>

definition claim_rows :: "db \<Rightarrow> (id \<times> id) set" where
  "claim_rows db = set (map (\<lambda>c. (c_id c, c_ticket_id c)) (db_claims db))"

lemma claim_rows_upd:
  assumes "\<And>c. c_id (f c) = c_id c" and "\<And>c. c_ticket_id (f c) = c_ticket_id c"
  shows "map (\<lambda>c. (c_id c, c_ticket_id c)) (upd_rows P f cs) = map (\<lambda>c. (c_id c, c_ticket_id c)) cs"
  by (rule map_key_upd_rows) (simp add: assms)

lemma claim_rows_simps [simp]:
  "claim_rows (close_claim cid st now db) = claim_rows db"
  "claim_rows (transition_effect en inp t db) = claim_rows db"
  "claim_rows (db\<lparr>db_events := x\<rparr>) = claim_rows db"
  "claim_rows (add_event en et ei ac ty pl db) = claim_rows db"
  "claim_rows (put_feedback k u db) = claim_rows db"
  "claim_rows (db\<lparr>db_paused := y\<rparr>) = claim_rows db"
  "claim_rows (db\<lparr>db_tickets := z\<rparr>) = claim_rows db"
  "claim_rows (db\<lparr>db_agents := w\<rparr>) = claim_rows db"
  by (simp_all add: claim_rows_def close_claim_def release_claims_def claim_rows_upd del: set_map)

lemma claim_rows_insert:
  "claim_insert c db = Inr (u, db') \<Longrightarrow> claim_rows db \<subseteq> claim_rows db'"
  by (auto simp: claim_insert_Inr claim_rows_def)

lemma on_view_resume:
  assumes "on_view db i f s"
  shows "on_view db i f (s\<lparr>db_paused := upd_rows (\<lambda>p. p_ticket_id p = k)
           (\<lambda>p. p\<lparr>p_resume_requested := b, p_updated_at := now\<rparr>) (db_paused s)\<rparr>)"
proof -
  let ?ps = "upd_rows (\<lambda>p. p_ticket_id p = k) (\<lambda>p. p\<lparr>p_resume_requested := b, p_updated_at := now\<rparr>) (db_paused s)"
  have "(find_row p_ticket_id j ?ps \<noteq> None) = (find_row p_ticket_id j (db_paused s) \<noteq> None)" for j
    by (simp add: find_row_upd_rows)
  then have "view (s\<lparr>db_paused := ?ps\<rparr>) j = view s j" for j
    by (simp add: view_eq paused_find_def ticket_findById_def hasActiveForTicket_def)
  with assms show ?thesis by (simp add: on_view_def)
qed

lemma wp_returnLapsed:
  assumes "on_view db i f s" and "t_id t = i"
    and "\<And>s'. on_view db i (\<lambda>v. goto Paused (f v)) s' \<Longrightarrow> claim_rows s' = claim_rows s \<Longrightarrow> Q True s'"
    and "Q False s"
  shows "wp (returnLapsedResumeToPaused en t cid actor) Q s"
proof (cases "t_status t \<noteq> InProgress \<or> t_human_owner t \<noteq> None \<or> paused_find s (t_id t) = None")
  case True
  then have "returnLapsedResumeToPaused en t cid actor s = Inr (False, s)"
    by (auto simp: returnLapsedResumeToPaused_def)
  with assms(4) show ?thesis by (simp add: wp_def)
next
  case False
  let ?m = "bindT (transition en ((sysmove (t_id t) actor Paused ''claim_expired_mid_resume''
                   [SystemOverride, PauseDelivery])\<lparr>ti_expectedFromStatus := Some InProgress\<rparr>)) (\<lambda>_.
          bindT (setResumeRequested (t_id t) False (en_now en)) (\<lambda>_.
          bindT (ticketEvent en (t_id t) actor ''claim.expired''
                   [(''claim_id'', JStr cid), (''returned_to'', JStr ''paused'')]) (\<lambda>_.
          returnT True)))"
  have "wp ?m Q s"
    unfolding wp_bind
    by (rule wp_transition_view [OF assms(1)])
      (auto simp: wp_simps assms(2) intro!: assms(3) on_view_resume)
  moreover have "wp (returnLapsedResumeToPaused en t cid actor) Q s = wp ?m Q s"
    using False by (auto simp: wp_def returnLapsedResumeToPaused_def)
  ultimately show ?thesis by simp
qed

section \<open>Recovery\<close>

lemma sound_unlease: "sound v \<Longrightarrow> v_status v \<noteq> Claimed \<Longrightarrow> sound (v\<lparr>v_leased := v_leased v \<and> b\<rparr>)"
  by (auto simp: sound_def)

lemma claim_rowsE:
  assumes "(cid, tid) \<in> claim_rows db"
  obtains c where "c \<in> set (db_claims db)" "c_id c = cid" "c_ticket_id c = tid"
  using assms by (auto simp: claim_rows_def)

text \<open>
  The shared tail of expiry, release and revocation: the claim is closed, then the ticket is
  sent on when it was in delivery.
\<close>

lemma wp_send_on:
  assumes "healthy db" and "on_view db i f s"
    and "\<And>v. sound v \<Longrightarrow> v_status (f v) \<noteq> Claimed \<Longrightarrow> sound (f v)"
    and "frees_lease to"
    and "\<And>s'. healthy s' \<Longrightarrow> claim_rows s' = claim_rows s \<Longrightarrow> Q () s'"
  shows "wp (case ticket_findById s i of None \<Rightarrow> returnT ()
           | Some t \<Rightarrow> whenT (t_status t \<in> {Claimed, InProgress})
               (bindT (transition en (sysmove (t_id t) actor to reason flags)) (\<lambda>_. returnT ()))) Q s"
proof (cases "ticket_findById s i")
  case None
  then have "view s i = None" by (simp add: view_eq)
  then have "view db i = None" using on_view_same [OF assms(2)] by (cases "view db i") auto
  then have "healthy s" using healthy_on_view [OF assms(1,2)] by simp
  with None assms(5) show ?thesis by (simp add: wp_simps)
next
  case (Some t)
  have t: "t_id t = i" using ticket_findById_SomeD [OF Some] by simp
  obtain v where v: "view db i = Some v" "v_status (f v) = t_status t"
    using find_view [OF Some] on_view_same [OF assms(2)] by auto
  show ?thesis
  proof (cases "t_status t \<in> {Claimed, InProgress}")
    case True
    have "wp (transition en (sysmove (t_id t) actor to reason flags)) (\<lambda>_ s'. Q () s') s"
    proof (rule wp_transition_view [OF assms(2)], simp add: t)
      fix ta s' assume "on_view db i (\<lambda>v. goto (ti_toStatus (sysmove (t_id t) actor to reason flags)) (f v)) s'"
        and s': "s' = transition_effect en (sysmove (t_id t) actor to reason flags) ta s"
      then have "healthy s'" using healthy_on_view [OF assms(1)] sound_goto_free [OF assms(4)] by simp
      then show "Q () s'" using assms(5) s' by simp
    qed
    with Some True show ?thesis by (simp add: wp_simps)
  next
    case False
    have "healthy s"
      using healthy_on_view [OF assms(1,2)] assms(3) v False by auto
    with Some False assms(5) show ?thesis by (simp add: wp_simps)
  qed
qed

lemma healthy_events [simp]: "healthy (db\<lparr>db_events := x\<rparr>) = healthy db"
  by (simp add: healthy_def)

lemma healthy_agents [simp]: "healthy (db\<lparr>db_agents := x\<rparr>) = healthy db"
  by (simp add: healthy_def)

lemma on_view_close_active:
  assumes "keys_ok db" and "c \<in> set (db_claims db)" and "claim_active c" and "st \<noteq> ClActive"
    and "c_ticket_id c = i"
  shows "on_view db i (\<lambda>v. v\<lparr>v_leased := v_leased v \<and> False\<rparr>) (close_claim (c_id c) st now db)"
  using on_view_close [OF on_view_refl [OF assms(1)] assms(2,5,4), of now] assms(3) by simp

lemma healthy_releaseClaim:
  assumes "healthy db"
  shows "wp (releaseClaim en tok actor) (\<lambda>_. healthy) db"
  unfolding releaseClaim_def wp_simps
  by (auto dest!: activeClaimD intro!: sound_unlease
      wp_send_on [OF assms on_view_close_active [OF healthy_keys [OF assms]]])

lemma wp_claim_findById:
  "wp (\<lambda>db. case claim_findById db cid of None \<Rightarrow> Inl e
      | Some c \<Rightarrow> if c_status c \<noteq> ClActive then Inl e' else m c db) Q db =
   (\<forall>c. claim_findById db cid = Some c \<longrightarrow> c_status c = ClActive \<longrightarrow> wp (m c) Q db)"
  by (auto simp: wp_def split: option.splits)

lemma healthy_revokeClaim:
  assumes "healthy db"
  shows "wp (revokeClaim en cid actor) (\<lambda>_. healthy) db"
  unfolding revokeClaim_def wp_claim_findById wp_simps
  by (auto simp: claim_active_def claim_findById_def dest!: find_row_SomeD intro!: sound_unlease
      wp_send_on [OF assms on_view_close_active [OF healthy_keys [OF assms]]])

lemma on_view_close_row:
  assumes "keys_ok db" and "(cid, i) \<in> claim_rows db" and "st \<noteq> ClActive"
  shows "\<exists>b. on_view db i (\<lambda>v. v\<lparr>v_leased := v_leased v \<and> b\<rparr>) (close_claim cid st now db)"
proof -
  obtain c where "c \<in> set (db_claims db)" "c_id c = cid" "c_ticket_id c = i"
    using assms(2) by (rule claim_rowsE)
  with on_view_close [OF on_view_refl [OF assms(1)], of c i st now] assms(3) show ?thesis
    by (intro exI [of _ "\<not> claim_active c"]) simp
qed

lemma wp_transition_free:
  assumes "healthy db" and "on_view db (ti_ticketId inp) f s" and "frees_lease (ti_toStatus inp)"
    and "\<And>r t s'. s' = transition_effect en inp t s \<Longrightarrow> tres_ticket r = moved en inp t t \<Longrightarrow>
            healthy s' \<Longrightarrow> claim_rows s' = claim_rows s \<Longrightarrow> Q r s'"
  shows "wp (transition en inp) Q s"
proof (rule wp_transition_view [OF assms(2) refl])
  fix t v s' and r :: transition_result
  assume s': "s' = transition_effect en inp t s" "tres_ticket r = moved en inp t t"
    and "on_view db (ti_ticketId inp) (\<lambda>v. goto (ti_toStatus inp) (f v)) s'"
  then have "healthy s'" using healthy_on_view [OF assms(1)] sound_goto_free [OF assms(3)] by simp
  then show "Q r s'" using assms(4) s' by simp
qed

lemma healthy_expireOne:
  assumes "healthy db" and "(c_id c, c_ticket_id c) \<in> claim_rows db"
  shows "wp (expireOne en actor c) (\<lambda>_ s. healthy s \<and> claim_rows s = claim_rows db) db"
proof -
  let ?s = "close_claim (c_id c) ClExpired (en_now en) db" and ?i = "c_ticket_id c"
  let ?Q = "\<lambda>_ s. healthy s \<and> claim_rows s = claim_rows db"
  obtain b where v: "on_view db ?i (\<lambda>v. v\<lparr>v_leased := v_leased v \<and> b\<rparr>) ?s"
    using on_view_close_row [OF healthy_keys [OF assms(1)] assms(2)] by blast
  have done': "healthy ?s" if "\<And>t. ticket_findById ?s ?i = Some t \<Longrightarrow> t_status t \<noteq> Claimed"
  proof (rule healthy_on_view [OF assms(1) v])
    fix w assume w: "view db ?i = Some w" "sound w"
    then have "v_status w \<noteq> Claimed"
      using on_view_same [OF v] that by (auto dest!: view_SomeD(1))
    then show "sound (w\<lparr>v_leased := v_leased w \<and> b\<rparr>)" using sound_unlease w by blast
  qed
  show ?thesis
  proof (cases "ticket_findById ?s ?i")
    case None
    then show ?thesis using done' by (simp add: expireOne_def wp_simps)
  next
    case (Some t)
    then have t: "t_id t = ?i" using ticket_findById_SomeD by blast
    show ?thesis
    proof (cases "t_status t \<noteq> Claimed \<and> t_status t \<noteq> InProgress")
      case True
      then show ?thesis using done' Some by (simp add: expireOne_def wp_simps)
    next
      case False
      have "wp (returnLapsedResumeToPaused en t (c_id c) actor) (\<lambda>back. wp (if back then returnT None
           else bindT (getT (\<lambda>db. blockingForTicket db (t_id t) \<noteq> [])) (\<lambda>blocked.
             bindT (transition en (sysmove (t_id t) actor (if blocked then Blocked else Ready)
                      ''claim_expired'' [SystemOverride])) (\<lambda>_.
             bindT (ticketEvent en (t_id t) actor ''claim.expired''
                      [(''claim_id'', JStr (c_id c)),
                       (''returned_to'', JStr (if blocked then ''blocked'' else ''ready''))]) (\<lambda>_.
             returnT (if blocked then Some (t_id t) else None))))) ?Q) ?s"
      proof (rule wp_returnLapsed [OF v t])
        fix s' assume "on_view db ?i (\<lambda>w. goto Paused (w\<lparr>v_leased := v_leased w \<and> b\<rparr>)) s'"
          and "claim_rows s' = claim_rows ?s"
        then show "wp (if True then returnT None else X) ?Q s'" for X
          using healthy_on_view [OF assms(1)] sound_goto_free by (simp add: wp_simps)
      qed (use v t in \<open>auto simp: wp_simps intro!: wp_transition_free [OF assms(1)]\<close>)
      then show ?thesis using Some False by (auto simp: expireOne_def wp_simps)
    qed
  qed
qed

lemma healthy_expireAll:
  assumes "healthy db" and "\<And>c. c \<in> set cs \<Longrightarrow> (c_id c, c_ticket_id c) \<in> claim_rows db"
  shows "wp (expireAll en actor cs) (\<lambda>_. healthy) db"
  using assms
proof (induction cs arbitrary: db)
  case Nil
  then show ?case by (simp add: wp_simps)
next
  case (Cons c cs)
  have "wp (expireOne en actor c) (\<lambda>_ s. healthy s \<and> claim_rows s = claim_rows db) db"
    using Cons.prems by (intro healthy_expireOne) auto
  moreover have "wp (expireAll en actor cs) (\<lambda>_. healthy) s"
    if "healthy s" "claim_rows s = claim_rows db" for s
    using Cons.IH [of s] Cons.prems(2) that by simp
  ultimately show ?case
    by (auto simp: wp_simps case_prod_beta elim!: wp_mono)
qed

lemma healthy_expireStaleClaims:
  "healthy db \<Longrightarrow> wp (expireStaleClaims en actor) (\<lambda>_. healthy) db"
  by (auto simp: expireStaleClaims_def wp_simps claim_rows_def claim_listExpired_def intro!: healthy_expireAll)

section \<open>Release, blocking, submission\<close>

lemma release_status_frees [simp]: "frees_lease (release_status to)"
  by (cases to) simp_all

lemma healthy_runnerRelease:
  assumes "healthy db"
  shows "wp (runnerRelease en inp actor) (\<lambda>_. healthy) db"
  unfolding runnerRelease_def Let_def wp_simps
  by (auto dest!: activeClaimD intro!: wp_transition_free [OF assms] on_view_refl healthy_keys [OF assms]
      on_view_close_active)

lemma healthy_markBlocked:
  assumes "healthy db"
  shows "wp (markBlocked en tok ref reason actor) (\<lambda>_. healthy) db"
  unfolding markBlocked_def wp_simps
  by (auto simp: wp_simps intro!: wp_transition_free [OF assms] on_view_refl healthy_keys [OF assms])

definition extend_rows :: "id \<Rightarrow> instant \<Rightarrow> instant \<Rightarrow> db \<Rightarrow> db" where
  "extend_rows i e h db = db\<lparr>db_claims := upd_rows (\<lambda>c. c_id c = i \<and> claim_active c)
     (\<lambda>c. c\<lparr>c_expires_at := e, c_heartbeat_at := h\<rparr>) (db_claims db)\<rparr>"

lemma wp_claim_extend [wp_simps]:
  "wp (claim_extend i e h) Q db =
     Q (list_ex (\<lambda>c. c_id c = i \<and> claim_active c) (db_claims db)) (extend_rows i e h db)"
  by (simp add: wp_def claim_extend_def extend_rows_def Let_def)

lemma healthy_extend_rows: "healthy db \<Longrightarrow> healthy (extend_rows i e h db)"
  unfolding healthy_def extend_rows_def view_claim_extend
  by (auto intro!: keys_ok_claims_upd simp: claim_active_def)

lemma healthy_heartbeat:
  assumes "healthy db"
  shows "wp (heartbeat en tok) (\<lambda>_. healthy) db"
  unfolding heartbeat_def Let_def wp_simps using healthy_extend_rows [OF assms] by simp

lemma wp_evidence_insert [wp_simps]:
  "wp (evidence_insert e) Q db = (evidence_insert e db = Inr ((), db\<lparr>db_evidence := db_evidence db @ [e]\<rparr>) \<longrightarrow>
     Q () (db\<lparr>db_evidence := db_evidence db @ [e]\<rparr>))"
  by (auto simp: wp_def evidence_insert_def)

lemma healthy_frame [simp]:
  "healthy (db\<lparr>db_evidence := x1\<rparr>) = healthy db"
  "healthy (db\<lparr>db_acs := x2\<rparr>) = healthy db"
  "healthy (db\<lparr>db_rework := x3\<rparr>) = healthy db"
  "healthy (db\<lparr>db_agent_caps := x4\<rparr>) = healthy db"
  by (simp_all add: healthy_def)

lemma healthy_recordEvidence:
  assumes "healthy db"
  shows "wp (recordEvidence en inp actor) (\<lambda>_. healthy) db"
  unfolding recordEvidence_def Let_def wp_simps
  using assms by (auto simp: wp_simps ac_setStatus_def split: option.splits)

lemma healthy_recordReworkAttempt:
  assumes "healthy db"
  shows "wp (recordReworkAttempt en inp actor) (\<lambda>_. healthy) db"
  unfolding recordReworkAttempt_def wp_simps
  using assms by (auto simp: wp_simps wp_def rework_insert_def)

lemma wp_agent_insert [wp_simps]:
  "wp (agent_insert a) Q db =
     (g_id a \<notin> g_id ` set (db_agents db) \<longrightarrow> Q () (db\<lparr>db_agents := db_agents db @ [a]\<rparr>))"
  by (simp add: wp_def agent_insert_def)

lemma healthy_registerAgent:
  assumes "healthy db"
  shows "wp (registerAgent en inp actor) (\<lambda>_. healthy) db"
proof -
  have "wp (forT caps (agent_addCapability i)) (\<lambda>_. healthy) s" if "healthy s" for caps i s
    by (rule wp_forT) (use that in \<open>auto simp: agent_addCapability_def wp_simps\<close>)
  then have "wp (forT (ra_capabilities inp) (agent_addCapability i))
      (\<lambda>_ s'. healthy (add_event en et i actor ty pl s')) s" if "healthy s" for i s et ty pl
    using that by simp
  with assms show ?thesis
    unfolding registerAgent_def wp_simps by simp
qed

lemma wp_submit:
  assumes "healthy db" and "on_view db i f s" and "db_claims s = db_claims db"
    and c: "c \<in> set (db_claims db)" "claim_active c" "c_ticket_id c = i"
    and "ti_ticketId inp = i" and "ti_toStatus inp = InReview"
  shows "wp (transition en inp) (\<lambda>r s'. healthy (close_claim (c_id c) ClCompleted (en_now en) s')) s"
proof (rule wp_transition_view [OF assms(2,7)])
  fix t r v s'
  assume s': "s' = transition_effect en inp t s" and v: "on_view db i (\<lambda>v. goto (ti_toStatus inp) (f v)) s'"
  have "c \<in> set (db_claims s')" using s' assms by (simp add: release_claims_def)
  then have "on_view db i (\<lambda>v. (goto InReview (f v))\<lparr>v_leased := False\<rparr>) (close_claim (c_id c) ClCompleted (en_now en) s')"
    using on_view_close [OF v, of c ClCompleted "en_now en"] c assms(8) by simp
  then show "healthy (close_claim (c_id c) ClCompleted (en_now en) s')"
    by (rule healthy_on_view [OF assms(1)]) (rule sound_submitted)
qed

lemma healthy_submitForReview:
  assumes "healthy db"
  shows "wp (submitForReview en tok ref reason actor) (\<lambda>_. healthy) db"
proof -
  have "wp (transition en ((sysmove i actor InProgress ''submit_for_review'' [AgentSubmit])
              \<lparr>ti_expectedFromStatus := Some Claimed\<rparr>))
          (\<lambda>_. wp (transition en ((sysmove i actor InReview reason' [AgentSubmit])
              \<lparr>ti_expectedFromStatus := Some InProgress\<rparr>))
             (\<lambda>r s'. healthy (close_claim (c_id c) ClCompleted (en_now en) s'))) db"
    if "c \<in> set (db_claims db)" "claim_active c" "c_ticket_id c = i" for c i reason'
    by (rule wp_transition_view [OF on_view_refl [OF healthy_keys [OF assms]]])
      (use that in \<open>auto intro!: wp_submit [OF assms] simp: release_claims_def\<close>)
  moreover have "wp (transition en ((sysmove i actor InReview reason' [AgentSubmit])
              \<lparr>ti_expectedFromStatus := Some InProgress\<rparr>))
             (\<lambda>r s'. healthy (close_claim (c_id c) ClCompleted (en_now en) s')) db"
    if "c \<in> set (db_claims db)" "claim_active c" "c_ticket_id c = i" for c i reason'
    by (rule wp_submit [OF assms on_view_refl [OF healthy_keys [OF assms]]]) (use that in auto)
  ultimately show ?thesis
    unfolding submitForReview_def wp_simps by (auto dest!: activeClaimD)
qed

section \<open>By-hand work\<close>

lemma wp_found:
  "wp (\<lambda>db. case ticket_findById db i of None \<Rightarrow> Inl e | Some t \<Rightarrow> m t db) Q db =
     (\<forall>t. ticket_findById db i = Some t \<longrightarrow> wp (m t) Q db)"
  by (auto simp: wp_def split: option.splits)

lemma wp_guard:
  "wp (\<lambda>db. if b db then Inl e else m db) Q db = (\<not> b db \<longrightarrow> wp m Q db)"
  by (auto simp: wp_def)

lemma healthy_humanReleaseTicket:
  assumes "healthy db"
  shows "wp (humanReleaseTicket en i actor) (\<lambda>_. healthy) db"
  unfolding humanReleaseTicket_def wp_found wp_guard wp_simps
  by (auto intro!: wp_transition_free [OF assms] on_view_refl healthy_keys [OF assms])

lemma sound_by_hand:
  "sound v \<Longrightarrow> v_status v = Ready \<Longrightarrow> sound ((goto InProgress v)\<lparr>v_owned := True\<rparr>)"
  by (auto simp: sound_def goto_def REVIEW_LANE_STATUSES_def)

lemma healthy_humanClaimTicket:
  assumes "healthy db"
  shows "wp (humanClaimTicket en i actor) (\<lambda>_. healthy) db"
  unfolding humanClaimTicket_def wp_found wp_guard setHumanOwner_def wp_simps add_event_simps
proof (intro allI impI)
  fix t assume t: "ticket_findById db i = Some t" and "\<not> (t_status t \<noteq> Ready \<or> hasActiveForTicket db (t_id t))"
  let ?inp = "sysmove (t_id t) actor InProgress ''human_claim'' [HumanClaim]\<lparr>ti_expectedFromStatus := Some Ready\<rparr>"
  show "wp (transition en ?inp) (\<lambda>_ s. healthy (s\<lparr>db_tickets := upd_rows (\<lambda>x. t_id x = t_id t)
          (\<lambda>x. x\<lparr>t_human_owner := Some (human_label actor)\<rparr>) (db_tickets s)\<rparr>)) db"
  proof (rule wp_transition_view [OF on_view_refl [OF healthy_keys [OF assms]]], simp)
    fix v s' assume v: "view db (t_id t) = Some v" "ti_expectedFromStatus ?inp = None \<or> ti_expectedFromStatus ?inp = Some (v_status v)"
      and s': "on_view db (t_id t) (\<lambda>v. goto (ti_toStatus ?inp) v) s'"
    show "healthy (s'\<lparr>db_tickets := upd_rows (\<lambda>x. t_id x = t_id t)
          (\<lambda>x. x\<lparr>t_human_owner := Some (human_label actor)\<rparr>) (db_tickets s')\<rparr>)"
      by (rule healthy_on_view [OF assms on_view_owner [OF s']]) (use v sound_by_hand in auto)
  qed
qed

section \<open>Claiming\<close>

lemma healthy_goto_free:
  "healthy db \<Longrightarrow> on_view db i (\<lambda>v. goto to (f v)) s \<Longrightarrow> frees_lease to \<Longrightarrow> healthy s"
  by (auto intro: healthy_on_view sound_goto_free)

lemma healthy_reapExpired:
  assumes "healthy db"
    and "\<And>cid. cr_expired_claim_id cand = Some cid \<Longrightarrow> (cid, cr_id cand) \<in> claim_rows db"
  shows "wp (reapExpired en cand actor) (\<lambda>_ s. healthy s \<and> claim_rows s = claim_rows db) db"
proof (cases "cr_expired_claim_id cand")
  case None
  with assms show ?thesis by (simp add: reapExpired_def wp_simps)
next
  case (Some cid)
  let ?s = "close_claim cid ClExpired (en_now en) db" and ?i = "cr_id cand"
  let ?Q = "\<lambda>_ s. healthy s \<and> claim_rows s = claim_rows db"
  obtain b where v: "on_view db ?i (\<lambda>v. v\<lparr>v_leased := v_leased v \<and> b\<rparr>) ?s"
    using on_view_close_row [OF healthy_keys [OF assms(1)]] assms(2) Some by blast
  have send: "wp (case ticket_findById ?s ?i of None \<Rightarrow> returnT ()
           | Some t \<Rightarrow> whenT (t_status t \<in> {Claimed, InProgress})
               (bindT (transition en (sysmove (t_id t) actor Ready ''claim_expired_reclaim'' [SystemOverride])) (\<lambda>_. returnT ())))
       ?Q ?s"
    by (rule wp_send_on [OF assms(1) v]) (auto intro: sound_unlease)
  show ?thesis
  proof (cases "ticket_findById ?s ?i")
    case None
    with send Some show ?thesis by (simp add: reapExpired_def wp_simps)
  next
    case t: (Some t)
    then have ti: "t_id t = ?i" using ticket_findById_SomeD by blast
    have red: "wp (reapExpired en cand actor) ?Q db = wp (returnLapsedResumeToPaused en t cid actor)
        (\<lambda>back. wp (if back then returnT True else bindT (case ticket_findById ?s ?i of None \<Rightarrow> returnT ()
             | Some t \<Rightarrow> whenT (t_status t \<in> {Claimed, InProgress})
                 (bindT (transition en (sysmove ?i actor Ready ''claim_expired_reclaim'' [SystemOverride])) (\<lambda>_. returnT ())))
           (\<lambda>_. bindT (ticketEvent en ?i actor ''claim.expired''
                  [(''claim_id'', JStr cid), (''returned_to'', JStr ''reclaimed'')]) (\<lambda>_. returnT False))) ?Q) ?s"
      using Some t by (simp add: reapExpired_def wp_simps)
    show ?thesis
      unfolding red using send t ti healthy_goto_free [OF assms(1)]
      by (intro wp_returnLapsed [OF v ti]) (auto simp: wp_simps)
  qed
qed

lemma mk_claim_simps [simp]:
  "c_ticket_id (mk_claim en db tid ag ttl) = tid" "claim_active (mk_claim en db tid ag ttl)"
  by (simp_all add: mk_claim_def claim_active_def Let_def)

text \<open>A lease that was inserted and then released by the catch leaves the views as they were.\<close>

lemma healthy_insert_close:
  assumes "healthy db" and "claim_insert c db = Inr ((), s)" and "claim_active c"
  shows "healthy (close_claim (c_id c) ClReleased now s)"
proof -
  have v: "on_view db (c_ticket_id c) (\<lambda>v. v\<lparr>v_leased := True\<rparr>) s"
    by (rule on_view_insert [OF on_view_refl [OF healthy_keys [OF assms(1)]] assms(2) refl assms(3)])
  have c: "c \<in> set (db_claims s)" and free: "\<not> hasActiveForTicket db (c_ticket_id c)"
    using assms(2,3) by (auto simp: claim_insert_Inr)
  have "on_view db (c_ticket_id c) (\<lambda>v. v\<lparr>v_leased := False\<rparr>) (close_claim (c_id c) ClReleased now s)"
    using on_view_close [OF v c refl, of ClReleased now] assms(3) by simp
  then show ?thesis
  proof (rule healthy_on_view [OF assms(1)])
    fix v assume "view db (c_ticket_id c) = Some v" "sound v"
    moreover from this free have "v\<lparr>v_leased := False\<rparr> = v" by (auto dest: view_SomeD(2))
    ultimately show "sound (v\<lparr>v_leased := False\<rparr>)" by simp
  qed
qed

lemma healthy_takeLease:
  assumes "healthy db"
  shows "wp (takeLease en tid ag ttl actor) (\<lambda>_ s. healthy s \<and> claim_rows db \<subseteq> claim_rows s) db"
proof -
  let ?c = "mk_claim en db tid ag ttl"
  let ?Q = "\<lambda>_ s. healthy s \<and> claim_rows db \<subseteq> claim_rows s"
  let ?inp = "sysmove tid actor Claimed ''claim_next'' [AgentClaim]\<lparr>ti_expectedFromStatus := Some Ready\<rparr>"
  have flip: "wp (transition en ?inp) (\<lambda>_. ?Q ()) s" if ins: "claim_insert ?c db = Inr ((), s)" for s
  proof (rule wp_transition_view [OF on_view_insert [OF on_view_refl [OF healthy_keys [OF assms]] ins]])
    fix t r v s' assume s': "s' = transition_effect en ?inp t s"
      and v: "on_view db tid (\<lambda>v. goto (ti_toStatus ?inp) (v\<lparr>v_leased := True\<rparr>)) s'"
    have "healthy s'" by (rule healthy_on_view [OF assms v]) (simp add: sound_goto_claimed)
    with s' claim_rows_insert [OF ins] show "?Q () s'" by simp
  qed simp_all
  show ?thesis
  proof (cases "claim_insert ?c db")
    case (Inl e)
    then have "catchT (bindT (claim_insert ?c) (\<lambda>_. returnT True))
        (\<lambda>e. if e = SqliteUnique then returnT False else throwT e) db =
        (if e = SqliteUnique then Inr (False, db) else Inl e)"
      by (simp add: catchT_def bindT_def returnT_def throwT_def)
    with assms show ?thesis
      by (simp add: takeLease_def wp_simps) (simp add: wp_def returnT_def)
  next
    case (Inr r)
    then obtain s where ins: "claim_insert ?c db = Inr ((), s)" by (cases r) auto
    then have "catchT (bindT (claim_insert ?c) (\<lambda>_. returnT True))
        (\<lambda>e. if e = SqliteUnique then returnT False else throwT e) db = Inr (True, s)"
      by (simp add: catchT_def bindT_def returnT_def)
    moreover have "wp (catchT (bindT (transition en ?inp) (\<lambda>_. returnT True))
         (\<lambda>e. bindT (claim_setStatus (c_id ?c) ClReleased (en_now en)) (\<lambda>_.
              if e = DispatchError POLICY_DENIED \<or> e = DispatchError STATE_CONFLICT
              then returnT False else throwT e))) (\<lambda>_. ?Q ()) s"
      using flip [OF ins] healthy_insert_close [OF assms ins] claim_rows_insert [OF ins]
      by (intro wp_catchI) (auto simp: wp_simps)
    ultimately show ?thesis
      by (simp add: takeLease_def wp_simps wp_def [of "catchT (bindT (claim_insert c) f) h" for c f h])
        (auto simp: wp_simps elim!: wp_mono split: if_splits)
  qed
qed

lemma healthy_attemptClaim:
  assumes "healthy db"
    and "\<And>cid. cr_expired_claim_id cand = Some cid \<Longrightarrow> (cid, cr_id cand) \<in> claim_rows db"
  shows "wp (attemptClaim en cand ag ttl actor) (\<lambda>_ s. healthy s \<and> claim_rows db \<subseteq> claim_rows s) db"
proof -
  have "wp (takeLease en (cr_id cand) ag ttl actor) (\<lambda>_ s'. healthy s' \<and> claim_rows db \<subseteq> claim_rows s') s"
    if "healthy s" "claim_rows s = claim_rows db" for s
    using healthy_takeLease [OF that(1)] that(2) by simp
  then show ?thesis
    unfolding attemptClaim_def wp_simps
    by (intro wp_mono [OF healthy_reapExpired [OF assms]]) (auto simp: wp_simps)
qed

lemma healthy_tryCandidates:
  assumes "healthy db"
    and "\<And>c cid. c \<in> set cs \<Longrightarrow> cr_expired_claim_id c = Some cid \<Longrightarrow> (cid, cr_id c) \<in> claim_rows db"
  shows "wp (tryCandidates en ag ttl actor cs) (\<lambda>_. healthy) db"
  using assms
proof (induction cs arbitrary: db)
  case Nil
  then show ?case by (simp add: wp_simps)
next
  case (Cons c cs)
  have "wp (attemptClaim en c ag ttl actor) (\<lambda>_ s. healthy s \<and> claim_rows db \<subseteq> claim_rows s) db"
    using Cons.prems by (intro healthy_attemptClaim) auto
  moreover have "wp (tryCandidates en ag ttl actor cs) (\<lambda>_. healthy) s"
    if "healthy s" "claim_rows db \<subseteq> claim_rows s" for s
    using Cons.IH [of s] Cons.prems(2) that by (meson list.set_intros(2) subsetD)
  ultimately show ?case
    by (auto simp: wp_simps elim!: wp_mono split: option.splits)
qed

lemma candidate_claim_row:
  "cr_expired_claim_id (candidate_of db now t) = Some cid \<Longrightarrow> (cid, t_id t) \<in> claim_rows db"
proof -
  assume "cr_expired_claim_id (candidate_of db now t) = Some cid"
  then obtain c rest where c: "sort_key c_expires_at (expired_claims db (t_id t) now) = c # rest" "c_id c = cid"
    by (auto simp: candidate_of_def split: list.splits)
  then have "c \<in> set (expired_claims db (t_id t) now)" by (metis list.set_intros(1) set_sort)
  with c show ?thesis by (auto simp: expired_claims_def claim_rows_def)
qed

lemma cr_id_candidate_of [simp]: "cr_id (candidate_of db now t) = t_id t"
  by (simp add: candidate_of_def)

lemma healthy_claimNextTicket:
  assumes "healthy db"
  shows "wp (claimNextTicket en agentId ttl actor) (\<lambda>_. healthy) db"
  unfolding claimNextTicket_def wp_simps
  using assms
  by (auto simp: set_candidateTickets intro!: healthy_tryCandidates) (drule candidate_claim_row, simp)

lemma candidateForTicket_SomeD:
  "candidateForTicket db tid now cr = Some c \<Longrightarrow> cr_id c = tid \<and>
     (\<forall>cid. cr_expired_claim_id c = Some cid \<longrightarrow> (cid, tid) \<in> claim_rows db)"
  by (auto simp: candidateForTicket_def Let_def find_Some_iff dest: candidate_claim_row)

lemma healthy_claimTicket:
  assumes "healthy db"
  shows "wp (claimTicket en tid agentId ttl actor) (\<lambda>_. healthy) db"
proof -
  have "wp (attemptClaim en c ag ttl actor)
      (\<lambda>r. wp (case r of None \<Rightarrow> throwT (DispatchError TICKET_NOT_CLAIMABLE) | Some res \<Rightarrow> returnT res) (\<lambda>_. healthy)) s"
    if "healthy s" "candidateForTicket s i (en_now en) cr = Some c" for s i cr c ag
    by (rule wp_mono [OF healthy_attemptClaim])
      (use that in \<open>auto simp: wp_simps dest!: candidateForTicket_SomeD split: option.splits\<close>)
  then show ?thesis
    unfolding claimTicket_def wp_found wp_simps
    using assms by (auto simp: wp_simps split: option.splits)
qed

lemma on_view_release:
  assumes "on_view db i f s"
  shows "on_view db i (\<lambda>v. (f v)\<lparr>v_leased := False\<rparr>) (release_rows i now s)"
proof (rule on_view_trans [OF assms])
  have "keys_ok (release_rows i now s)"
    unfolding release_rows_def
    by (rule keys_ok_claims_upd [OF on_view_keys [OF assms]]) (auto simp: claim_active_def)
  moreover have "view (release_rows i now s) j =
      (if j = i then map_option (\<lambda>v. v\<lparr>v_leased := False\<rparr>) (view s i) else view s j)" for j
    unfolding view_eq holds_release_rows
    by (auto simp: release_rows_def ticket_findById_def paused_find_def option.map_comp comp_def)
  ultimately show "on_view s i (\<lambda>v. v\<lparr>v_leased := False\<rparr>) (release_rows i now s)"
    by (simp add: on_view_def)
qed

text \<open>The lease of a resumed delivery, tracked from the state \<open>db\<close> before the resume.\<close>

lemma healthy_leaseResumedDelivery:
  assumes "healthy db" and "on_view db tid f s"
    and "\<And>v. view db tid = Some v \<Longrightarrow> sound v \<Longrightarrow> sound ((f v)\<lparr>v_leased := True\<rparr>)"
  shows "wp (leaseResumedDelivery en tid agentId ttl actor) (\<lambda>_. healthy) s"
  unfolding leaseResumedDelivery_def wp_simps
proof (intro allI impI)
  fix ag :: agent
  let ?s = "release_rows tid (en_now en) (s\<lparr>db_agents := upd_rows (\<lambda>a. g_id a = g_id ag)
       (\<lambda>a. a\<lparr>g_last_seen_at := Some (en_now en), g_updated_at := en_now en\<rparr>) (db_agents s)\<rparr>)"
  have v: "on_view db tid (\<lambda>v. (f v)\<lparr>v_leased := False\<rparr>) ?s"
    by (rule on_view_release) (simp add: assms(2))
  show "wp (case (mk_claim en ?s tid ag ttl, newClaimToken en (length (db_claims ?s))) of (claim, token) \<Rightarrow>
      bindT (claim_insert claim) (\<lambda>_. bindT (ticketEvent en tid actor ''claim.created''
              [(''claim_id'', JStr (c_id claim)), (''agent_id'', JStr (g_id ag)),
               (''expires_at'', JStr (toISOString (c_expires_at claim))), (''resumed'', JBool True)]) (\<lambda>_.
     returnT (token, c_expires_at claim)))) (\<lambda>_. healthy) ?s"
    using assms(3)
    by (auto simp: wp_simps intro!: healthy_on_view [OF assms(1) on_view_insert [OF v]] mk_claim_simps)
qed

end
