(* ===== verification/Graph_Walk.thy ===== *)
theory Graph_Walk
  imports Prelude
begin

text \<open>
  The depth-first search the services share: the cycle guard of the ticket dependencies and the
  containment guard of the scope graph both walk a table of edges with a stack and a set of seen
  nodes. It ends because a node is expanded once, and a node with no edge only shortens the
  stack; and it decides reachability.
\<close>

definition succs :: "('a \<times> 'a) list \<Rightarrow> 'a \<Rightarrow> 'a list" where
  "succs es x = map snd (filter (\<lambda>e. fst e = x) es)"

lemma set_succs: "y \<in> set (succs es x) \<longleftrightarrow> (x, y) \<in> set es"
  by (auto simp: succs_def image_iff)

text \<open>The head of \<open>stack\<close> is its top.\<close>

function graph_walk :: "('a \<times> 'a) list \<Rightarrow> 'a \<Rightarrow> 'a list \<Rightarrow> 'a list \<Rightarrow> bool" where
  "graph_walk es target seen [] = False"
| "graph_walk es target seen (cur # stack) =
     (if cur = target then True
      else if cur \<in> set seen then graph_walk es target seen stack
      else graph_walk es target (cur # seen) (rev (succs es cur) @ stack))"
  by pat_completeness auto
termination
proof (relation "(\<lambda>(es, target, seen, stack). card (fst ` set es - set seen)) <*mlex*>
    measure (\<lambda>(es, target, seen, stack). length stack)", goal_cases)
  case 1
  show ?case by (simp add: wf_mlex)
next
  case (2 es target seen cur stack)
  then show ?case by (simp add: mlex_prod_def)
next
  case (3 es target seen cur stack)
  show ?case
  proof (cases "cur \<in> fst ` set es")
    case True
    then have "fst ` set es - set (cur # seen) \<subset> fst ` set es - set seen" using 3 by auto
    then have "card (fst ` set es - set (cur # seen)) < card (fst ` set es - set seen)"
      by (intro psubset_card_mono) simp_all
    then show ?thesis by (simp add: mlex_prod_def)
  next
    case False
    then have "fst ` set es - set (cur # seen) = fst ` set es - set seen" by auto
    moreover have "succs es cur = []" using False by (auto simp: succs_def filter_empty_conv image_iff)
    ultimately show ?thesis by (simp add: mlex_prod_def)
  qed
qed

lemma leaves_seen:
  assumes "(x, y) \<in> R\<^sup>*" and "x \<in> S" and "y \<notin> S"
    and "\<And>s t. s \<in> S \<Longrightarrow> (s, t) \<in> R \<Longrightarrow> t \<in> S \<union> T"
  shows "\<exists>z \<in> T. (z, y) \<in> R\<^sup>*"
  using assms(1,2)
proof (induction rule: converse_rtrancl_induct)
  case base
  with assms(3) show ?case by simp
next
  case (step x z)
  then have "z \<in> S \<or> z \<in> T" using assms(4) by blast
  with step show ?case by blast
qed

lemma graph_walk_reach:
  assumes "target \<notin> set seen"
    and "\<And>s t. s \<in> set seen \<Longrightarrow> (s, t) \<in> set es \<Longrightarrow> t \<in> set seen \<union> set stack"
  shows "graph_walk es target seen stack \<longleftrightarrow> (\<exists>x \<in> set stack. (x, target) \<in> (set es)\<^sup>*)"
  using assms
proof (induction es target seen stack rule: graph_walk.induct)
  case (1 es target seen)
  then show ?case by simp
next
  case (2 es target seen cur stack)
  consider "cur = target" | "cur \<noteq> target" "cur \<in> set seen" | "cur \<noteq> target" "cur \<notin> set seen" by blast
  then show ?case
  proof cases
    case 1
    then show ?thesis by simp
  next
    case seen: 2
    have "graph_walk es target seen stack \<longleftrightarrow> (\<exists>x \<in> set stack. (x, target) \<in> (set es)\<^sup>*)"
      by (rule "2.IH"(1)) (use seen "2.prems" in auto)
    moreover have "\<exists>z \<in> set stack. (z, target) \<in> (set es)\<^sup>*" if "(cur, target) \<in> (set es)\<^sup>*"
      by (rule leaves_seen [OF that seen(2) "2.prems"(1)]) (use seen(2) "2.prems"(2) in auto)
    ultimately show ?thesis using seen by auto
  next
    case new: 3
    have "graph_walk es target (cur # seen) (rev (succs es cur) @ stack) \<longleftrightarrow>
        (\<exists>x \<in> set (rev (succs es cur) @ stack). (x, target) \<in> (set es)\<^sup>*)"
      by (rule "2.IH"(2)) (use new "2.prems" in \<open>auto simp: set_succs\<close>)
    moreover have "(cur, target) \<in> (set es)\<^sup>* \<longleftrightarrow> (\<exists>x \<in> set (succs es cur). (x, target) \<in> (set es)\<^sup>*)"
      using new(1) by (metis converse_rtranclE converse_rtrancl_into_rtrancl set_succs)
    ultimately show ?thesis using new by auto
  qed
qed

lemma graph_walk_iff: "graph_walk es b [] [a] \<longleftrightarrow> (a, b) \<in> (set es)\<^sup>*"
  by (subst graph_walk_reach) auto

end
