(* ===== verification/Tickets.thy ===== *)
theory Tickets
  imports Claim_Inv Graph_Walk
begin

text \<open>
  The ticket service (\<open>services/ticketService.ts\<close>): creation, the acceptance criteria, contract
  edits under the contract freeze and the ready gate, human block and unblock, the dependency
  graph with its cycle guard, claimability, and the human gate operations. The lemmas show
  that every operation keeps the lifecycle invariant, that the cycle guard decides
  reachability, and that the dependency graph stays acyclic.
\<close>

section \<open>Input schemas\<close>

definition has_control :: "string \<Rightarrow> bool" where
  "has_control s = list_ex (\<lambda>c. of_char c \<le> (31 :: nat) \<or> of_char c = (127 :: nat)) s"

text \<open>A trimmed one-line text of 1 to \<open>n\<close> characters.\<close>

definition one_line_ok :: "nat \<Rightarrow> string \<Rightarrow> bool" where
  "one_line_ok n s = (js_trim s \<noteq> [] \<and> length (js_trim s) \<le> n \<and> \<not> has_control (js_trim s))"

definition check_command_ok :: "string \<Rightarrow> bool" where
  "check_command_ok v = (length v \<le> 2000 \<and> js_trim v \<noteq> [] \<and> CHR 0x00 \<notin> set v)"

definition opt_ok :: "('a \<Rightarrow> bool) \<Rightarrow> 'a option \<Rightarrow> bool" where
  "opt_ok P x = (case x of None \<Rightarrow> True | Some v \<Rightarrow> P v)"

record create_ticket_input =
  ct_title :: string
  ct_description :: string
  ct_priority :: int
  ct_risk_level :: risk_level
  ct_policy_pack :: policy_pack
  ct_source :: "string option"
  ct_created_by :: "string option"
  ct_bootstrap :: bool
  ct_acceptance :: bool
  ct_delivery_budget_usd :: "rat option"

definition create_schema_ok :: "create_ticket_input \<Rightarrow> bool" where
  "create_schema_ok inp = (one_line_ok 300 (ct_title inp) \<and> length (ct_description inp) \<le> 20000
     \<and> 0 \<le> ct_priority inp \<and> ct_priority inp \<le> 1000
     \<and> opt_ok (\<lambda>s. length s \<le> 200) (ct_source inp) \<and> opt_ok (\<lambda>s. length s \<le> 200) (ct_created_by inp)
     \<and> opt_ok (\<lambda>b. 0 < b) (ct_delivery_budget_usd inp))"

record add_ac_input =
  aa_ticket_id :: string
  aa_text :: string
  aa_verification_method :: "string option"
  aa_evidence_required :: bool
  aa_spec_clause_id :: "string option"
  aa_check_command :: "string option"

definition add_ac_schema_ok :: "add_ac_input \<Rightarrow> bool" where
  "add_ac_schema_ok inp = (aa_ticket_id inp \<noteq> [] \<and> one_line_ok 2000 (aa_text inp)
     \<and> opt_ok (\<lambda>s. length s \<le> 500) (aa_verification_method inp)
     \<and> opt_ok (\<lambda>s. js_trim s \<noteq> [] \<and> length (js_trim s) \<le> 100) (aa_spec_clause_id inp)
     \<and> opt_ok check_command_ok (aa_check_command inp))"

definition edit_schema_ok :: "ticket_fields \<Rightarrow> bool" where
  "edit_schema_ok f = (opt_ok (one_line_ok 300) (tf_title f) \<and> opt_ok (\<lambda>s. length s \<le> 20000) (tf_description f)
     \<and> opt_ok (\<lambda>p. 0 \<le> p \<and> p \<le> 1000) (tf_priority f)
     \<and> (tf_title f \<noteq> None \<or> tf_description f \<noteq> None \<or> tf_policy_pack f \<noteq> None \<or> tf_priority f \<noteq> None))"

text \<open>In the two nullable fields the outer option is \<open>undefined\<close>, the inner one \<open>null\<close>.\<close>

record edit_ac_input =
  ea_text :: "string option"
  ea_verification_method :: "string option option"
  ea_check_command :: "string option option"

definition edit_ac_schema_ok :: "edit_ac_input \<Rightarrow> bool" where
  "edit_ac_schema_ok inp = (opt_ok (one_line_ok 2000) (ea_text inp)
     \<and> opt_ok (opt_ok (\<lambda>s. length s \<le> 500)) (ea_verification_method inp)
     \<and> opt_ok (opt_ok check_command_ok) (ea_check_command inp)
     \<and> (ea_text inp \<noteq> None \<or> ea_verification_method inp \<noteq> None \<or> ea_check_command inp \<noteq> None))"

section \<open>Creation and criteria\<close>

definition new_ticket :: "env \<Rightarrow> create_ticket_input \<Rightarrow> actor \<Rightarrow> db \<Rightarrow> ticket" where
  "new_ticket en inp actor db = \<lparr>t_id = en_uuid en TicketId (length (db_tickets db)),
     t_number = Some (ticket_nextNumber db), t_title = js_trim (ct_title inp),
     t_description = ct_description inp, t_status = Draft, t_priority = ct_priority inp,
     t_risk_level = ct_risk_level inp, t_policy_pack = ct_policy_pack inp, t_source = ct_source inp,
     t_created_by = orElse (ct_created_by inp) (a_id actor), t_reviewer = None,
     t_branch_name = None, t_pr_url = None, t_attempt_count = 0, t_row_version = 0,
     t_scheduled_after = None, t_due_at = None, t_bootstrap = ct_bootstrap inp,
     t_last_review_feedback = None, t_can_be_tested = False, t_test_contract = None,
     t_acceptance = ct_acceptance inp, t_allow_test_changes = False, t_human_owner = None,
     t_human_delivered = None, t_delivery_budget_usd = ct_delivery_budget_usd inp,
     t_created_at = en_now en, t_updated_at = en_now en\<rparr>"

definition createTicket :: "env \<Rightarrow> create_ticket_input \<Rightarrow> actor \<Rightarrow> ticket op" where
  "createTicket en inp actor =
     bindT (throwIf (\<not> create_schema_ok inp) ZodError) (\<lambda>_.
     bindT (getT (new_ticket en inp actor)) (\<lambda>t.
     bindT (ticket_insert t) (\<lambda>_.
     bindT (ticketEvent en (t_id t) actor ''ticket.created''
              ([(''title'', JStr (t_title t)), (''policy_pack'', JStr (pack_name (t_policy_pack t)))]
               @ (if t_bootstrap t then [(''bootstrap'', JBool True)] else [])
               @ (if t_acceptance t then [(''acceptance'', JBool True)] else []))) (\<lambda>_.
     returnT t))))"

definition CONTRACT_EDITABLE_STATUSES :: "ticket_status list" where
  "CONTRACT_EDITABLE_STATUSES = [Draft, Refining, Ready, Blocked]"

definition assertContractEditable :: "ticket \<Rightarrow> unit op" where
  "assertContractEditable t =
     throwIf (t_status t \<notin> set CONTRACT_EDITABLE_STATUSES) (DispatchError CONTRACT_FROZEN)"

definition recheckReadyGate :: "env \<Rightarrow> ticket \<Rightarrow> unit op" where
  "recheckReadyGate en before =
     (if t_status before \<noteq> Ready then returnT ()
      else bindT (preview en (t_id before) Ready) (\<lambda>policy.
           throwIf (case policy of None \<Rightarrow> False | Some p \<Rightarrow> \<not> pr_allowed p) (DispatchError POLICY_DENIED)))"

definition addAcceptanceCriterion :: "env \<Rightarrow> add_ac_input \<Rightarrow> actor \<Rightarrow> (acceptance_criterion \<times> id) op" where
  "addAcceptanceCriterion en inp actor =
     bindT (throwIf (\<not> add_ac_schema_ok inp) ZodError) (\<lambda>_.
     bindT (resolveRef (aa_ticket_id inp)) (\<lambda>t.
     bindT (assertContractEditable t) (\<lambda>_.
     bindT (getT (\<lambda>db. \<lparr>ac_id = en_uuid en AcId (length (db_acs db)), ac_ticket_id = t_id t,
              ac_text = js_trim (aa_text inp), ac_sort_order = ac_nextSortOrder db (t_id t),
              ac_status = AcPending, ac_verification_method = aa_verification_method inp,
              ac_evidence_required = aa_evidence_required inp, ac_verified_by = None,
              ac_verified_at = None, ac_check_command = aa_check_command inp,
              ac_spec_clause_id = map_option js_trim (aa_spec_clause_id inp),
              ac_created_at = en_now en, ac_updated_at = en_now en\<rparr>)) (\<lambda>ac.
     bindT (ac_insert ac) (\<lambda>_.
     bindT (ticketEvent en (t_id t) actor ''ac.added''
              [(''ac_id'', JStr (ac_id ac)), (''text'', JStr (ac_text ac))]) (\<lambda>ev.
     bindT (recheckReadyGate en t) (\<lambda>_.
     returnT (ac, ev))))))))"

section \<open>Contract edits\<close>

definition createWarnings :: "ticket \<Rightarrow> string list" where
  "createWarnings t = (if t_policy_pack t = SoloLoose \<or> js_trim (t_description t) \<noteq> [] then []
     else [''DESCRIPTION_REQUIRED''])"

definition edit_changes :: "ticket_fields \<Rightarrow> ticket \<Rightarrow> (string \<times> json) list" where
  "edit_changes f t =
     (case tf_title f of None \<Rightarrow> [] | Some v \<Rightarrow> if v = t_title t then []
        else [(''title'', JObj [(''from'', JStr (t_title t)), (''to'', JStr v)])])
     @ (case tf_description f of None \<Rightarrow> [] | Some v \<Rightarrow> if v = t_description t then []
        else [(''description'', JObj [(''from_length'', JNum (int (length (t_description t)))),
                                       (''to_length'', JNum (int (length v)))])])
     @ (case tf_policy_pack f of None \<Rightarrow> [] | Some v \<Rightarrow> if v = t_policy_pack t then []
        else [(''policy_pack'', JObj [(''from'', JStr (pack_name (t_policy_pack t))),
                                       (''to'', JStr (pack_name v))])])
     @ (case tf_priority f of None \<Rightarrow> [] | Some v \<Rightarrow> if v = t_priority t then []
        else [(''priority'', JObj [(''from'', JNum (t_priority t)), (''to'', JNum v)])])"

definition trim_fields :: "ticket_fields \<Rightarrow> ticket_fields" where
  "trim_fields f = f\<lparr>tf_title := map_option js_trim (tf_title f)\<rparr>"

definition editTicket :: "env \<Rightarrow> string \<Rightarrow> ticket_fields \<Rightarrow> actor \<Rightarrow> (ticket \<times> id \<times> string list) op" where
  "editTicket en ref raw actor =
     bindT (throwIf (\<not> edit_schema_ok raw) ZodError) (\<lambda>_.
     let inp = trim_fields raw in
     bindT (resolveRef ref) (\<lambda>t.
     bindT (if tf_title inp \<noteq> None \<or> tf_description inp \<noteq> None \<or> tf_policy_pack inp \<noteq> None
            then assertContractEditable t
            else throwIf (t_status t = Done \<or> t_status t = Cancelled) (DispatchError STATE_CONFLICT)) (\<lambda>_.
     let changes = edit_changes inp t in
     bindT (throwIf (changes = []) (DispatchError NO_OP)) (\<lambda>_.
     bindT (ticket_updateFields (t_id t) (t_row_version t) inp (en_now en)) (\<lambda>ok.
     bindT (throwIf (\<not> ok) (DispatchError CONCURRENCY_CONFLICT)) (\<lambda>_.
     bindT (ticketEvent en (t_id t) actor ''ticket.edited''
              [(''changed'', JArr (map (JStr \<circ> fst) changes)), (''changes'', JObj changes)]) (\<lambda>ev.
     bindT (recheckReadyGate en t) (\<lambda>_.
     bindT (getT (\<lambda>db. ticket_findById db (t_id t))) (\<lambda>updated.
     case updated of None \<Rightarrow> throwT (DispatchError NOT_FOUND)
     | Some u \<Rightarrow> returnT (u, ev, map fst changes))))))))))"

text \<open>A criterion by position (\<open>/^\d{1,3}$/\<close>), by id, or by a unique prefix of at least four characters.\<close>

definition resolve_ac :: "acceptance_criterion list \<Rightarrow> string \<Rightarrow> dispatch_error_code + acceptance_criterion" where
  "resolve_ac acs acRef = (
     let ref = js_trim acRef in
     if ref \<noteq> [] \<and> length ref \<le> 3 \<and> list_all is_dec ref then
       (case digits_value 10 0 ref of
          Some (Suc n) \<Rightarrow> if n < length acs then Inr (acs ! n) else Inl NOT_FOUND
        | _ \<Rightarrow> Inl NOT_FOUND)
     else case find (\<lambda>a. ac_id a = ref) acs of
       Some a \<Rightarrow> Inr a
     | None \<Rightarrow>
         (case (if 4 \<le> length ref then filter (\<lambda>a. take (length ref) (ac_id a) = ref) acs else []) of
            [] \<Rightarrow> Inl NOT_FOUND | [a] \<Rightarrow> Inr a | _ \<Rightarrow> Inl AMBIGUOUS_REF))"

definition resolveAcceptanceCriterion :: "ticket \<Rightarrow> string \<Rightarrow> acceptance_criterion op" where
  "resolveAcceptanceCriterion t acRef = (\<lambda>db.
     case resolve_ac (ac_listForTicket db (t_id t)) acRef of
       Inl e \<Rightarrow> Inl (DispatchError e) | Inr a \<Rightarrow> Inr (a, db))"

text \<open>The new values and the changed fields with their old and new value.\<close>

definition edit_ac_next :: "edit_ac_input \<Rightarrow> acceptance_criterion \<Rightarrow> string \<times> string option \<times> string option" where
  "edit_ac_next inp ac = (
     (case ea_text inp of None \<Rightarrow> ac_text ac | Some s \<Rightarrow> js_trim s),
     (case ea_verification_method inp of None \<Rightarrow> ac_verification_method ac
      | Some None \<Rightarrow> None | Some (Some s) \<Rightarrow> if js_trim s = [] then None else Some s),
     (case ea_check_command inp of None \<Rightarrow> ac_check_command ac | Some c \<Rightarrow> c))"

definition edit_ac_changes ::
  "acceptance_criterion \<Rightarrow> string \<times> string option \<times> string option \<Rightarrow> (string \<times> json \<times> json) list" where
  "edit_ac_changes ac next = (case next of (txt, method, check) \<Rightarrow>
     (if txt \<noteq> ac_text ac then [(''text'', JStr (ac_text ac), JStr txt)] else [])
     @ (if method \<noteq> ac_verification_method ac
        then [(''verification_method'', jopt (ac_verification_method ac), jopt method)] else [])
     @ (if check \<noteq> ac_check_command ac
        then [(''check_command'', jopt (ac_check_command ac), jopt check)] else []))"

definition editAcceptanceCriterion ::
  "env \<Rightarrow> string \<Rightarrow> string \<Rightarrow> edit_ac_input \<Rightarrow> actor \<Rightarrow> (acceptance_criterion \<times> id) op" where
  "editAcceptanceCriterion en ticketRef acRef inp actor =
     bindT (throwIf (\<not> edit_ac_schema_ok inp) ZodError) (\<lambda>_.
     bindT (resolveRef ticketRef) (\<lambda>t.
     bindT (assertContractEditable t) (\<lambda>_.
     bindT (resolveAcceptanceCriterion t acRef) (\<lambda>ac.
     bindT (returnT (edit_ac_next inp ac)) (\<lambda>next.
     bindT (returnT (edit_ac_changes ac next)) (\<lambda>changes.
     bindT (throwIf (changes = []) (DispatchError NO_OP)) (\<lambda>_.
     bindT (ac_update (ac_id ac) (fst next) (fst (snd next)) (snd (snd next)) (en_now en)) (\<lambda>_.
     bindT (ticketEvent en (t_id t) actor ''ac.edited''
              [(''ac_id'', JStr (ac_id ac)), (''changed'', JArr (map (JStr \<circ> fst) changes)),
               (''changes'', JObj (map (\<lambda>(k, a, b). (k, JObj [(''from'', a), (''to'', b)])) changes))]) (\<lambda>ev.
     bindT (recheckReadyGate en t) (\<lambda>_.
     bindT (getT (\<lambda>db. ac_findById db (ac_id ac))) (\<lambda>updated.
     case updated of None \<Rightarrow> throwT (DispatchError NOT_FOUND) | Some u \<Rightarrow> returnT (u, ev))))))))))))"

definition removeAcceptanceCriterion :: "env \<Rightarrow> string \<Rightarrow> string \<Rightarrow> actor \<Rightarrow> (id \<times> id) op" where
  "removeAcceptanceCriterion en ticketRef acRef actor =
     bindT (resolveRef ticketRef) (\<lambda>t.
     bindT (assertContractEditable t) (\<lambda>_.
     bindT (resolveAcceptanceCriterion t acRef) (\<lambda>ac.
     bindT (ac_delete (ac_id ac)) (\<lambda>_.
     bindT (ticketEvent en (t_id t) actor ''ac.removed''
              [(''ac_id'', JStr (ac_id ac)), (''text'', JStr (ac_text ac))]) (\<lambda>ev.
     bindT (recheckReadyGate en t) (\<lambda>_.
     returnT (ac_id ac, ev)))))))"

definition resetAcceptanceCriteria :: "env \<Rightarrow> string \<Rightarrow> actor \<Rightarrow> (id \<times> nat \<times> id) op" where
  "resetAcceptanceCriteria en ref actor =
     bindT (resolveRef ref) (\<lambda>t.
     bindT (ac_resetForTicket (t_id t) (en_now en)) (\<lambda>n.
     bindT (ticketEvent en (t_id t) actor ''ticket.acceptance_criteria_reset''
              [(''reset'', JNum (int n))]) (\<lambda>ev.
     returnT (t_id t, n, ev))))"

section \<open>Human block and unblock\<close>

definition human_or_admin :: "actor \<Rightarrow> bool" where
  "human_or_admin actor = (a_type actor = Human \<or> a_type actor = Admin)"

definition assertHumanOrAdmin :: "actor \<Rightarrow> unit op" where
  "assertHumanOrAdmin actor = throwIf (\<not> human_or_admin actor) (DispatchError ACTOR_NOT_PERMITTED)"

definition humanBlockTicket :: "env \<Rightarrow> string \<Rightarrow> string \<Rightarrow> actor \<Rightarrow> (id \<times> ticket_status \<times> id) op" where
  "humanBlockTicket en ref reason actor =
     bindT (assertHumanOrAdmin actor) (\<lambda>_.
     let why = js_trim reason in
     bindT (throwIf (why = []) (DispatchError VALIDATION_ERROR)) (\<lambda>_.
     bindT (resolveRef ref) (\<lambda>t.
     let from = t_status t; humanOwned = (from = InProgress \<and> t_human_owner t \<noteq> None) in
     bindT (throwIf (from \<noteq> Draft \<and> from \<noteq> Refining \<and> from \<noteq> Ready \<and> \<not> humanOwned)
              (DispatchError STATE_CONFLICT)) (\<lambda>_.
     bindT (transition en (sysmove (t_id t) actor Blocked why [HumanBlock])) (\<lambda>_.
     bindT (ticketEvent en (t_id t) actor ''ticket.blocked''
              [(''reason'', JStr why), (''from'', JStr (status_name from))]) (\<lambda>ev.
     returnT (t_id t, from, ev)))))))"

fun json_field :: "string \<Rightarrow> json \<Rightarrow> json option" where
  "json_field k (JObj kvs) = map_of kvs k"
| "json_field k _ = None"

text \<open>The last transition of the ticket into \<open>blocked\<close>, by time and then by row.\<close>

definition block_events :: "db \<Rightarrow> id \<Rightarrow> work_event list" where
  "block_events db tid = filter (\<lambda>e. we_entity_type e = ''ticket'' \<and> we_entity_id e = tid
     \<and> we_event_type e = ''ticket.transitioned''
     \<and> Option.bind (we_payload e) (json_field ''to'') = Some (JStr ''blocked'')) (db_events db)"

definition blockedFrom :: "db \<Rightarrow> id \<Rightarrow> json option" where
  "blockedFrom db tid = (case rev (sort_key we_created_at (block_events db tid)) of
     [] \<Rightarrow> None | e # _ \<Rightarrow> Option.bind (we_payload e) (json_field ''from''))"

datatype unblock_target = UbReady | UbRefining | UbDraft

fun unblock_status :: "unblock_target \<Rightarrow> ticket_status" where
  "unblock_status UbReady = Ready"
| "unblock_status UbRefining = Refining"
| "unblock_status UbDraft = Draft"

definition unblock_to :: "unblock_target option \<Rightarrow> json option \<Rightarrow> ticket_status" where
  "unblock_to to from = (case to of
     Some u \<Rightarrow> unblock_status u
   | None \<Rightarrow> if from = Some (JStr ''draft'') then Draft
             else if from = Some (JStr ''refining'') then Refining else Ready)"

definition humanUnblockTicket ::
  "env \<Rightarrow> string \<Rightarrow> actor \<Rightarrow> unblock_target option \<Rightarrow> (id \<times> ticket_status \<times> id) op" where
  "humanUnblockTicket en ref actor to =
     bindT (assertHumanOrAdmin actor) (\<lambda>_.
     bindT (resolveRef ref) (\<lambda>t.
     bindT (throwIf (t_status t \<noteq> Blocked) (DispatchError STATE_CONFLICT)) (\<lambda>_.
     bindT (getT (\<lambda>db. unblock_to to (blockedFrom db (t_id t)))) (\<lambda>target.
     bindT (transition en (sysmove (t_id t) actor target ''unblock'' [HumanBlock])) (\<lambda>_.
     bindT (ticketEvent en (t_id t) actor ''ticket.unblocked''
              [(''to'', JStr (status_name target))]) (\<lambda>ev.
     returnT (t_id t, target, ev)))))))"

section \<open>Dependencies\<close>

definition dependency_edges :: "db \<Rightarrow> (id \<times> id) list" where
  "dependency_edges db = map (\<lambda>d. (dep_ticket_id d, dep_depends_on d)) (db_dependencies db)"

definition dependencyCycleWouldForm :: "db \<Rightarrow> id \<Rightarrow> id \<Rightarrow> bool" where
  "dependencyCycleWouldForm db startTicketId targetTicketId =
     graph_walk (dependency_edges db) targetTicketId [] [startTicketId]"

definition addDependency :: "env \<Rightarrow> string \<Rightarrow> string \<Rightarrow> actor \<Rightarrow> (id \<times> id \<times> id) op" where
  "addDependency en ticketRef dependsRef actor =
     bindT (throwIf (ticketRef = [] \<or> dependsRef = []) ZodError) (\<lambda>_.
     bindT (resolveRef ticketRef) (\<lambda>t.
     bindT (resolveRef dependsRef) (\<lambda>on.
     bindT (throwIf (t_id t = t_id on) (DispatchError INVALID_DEPENDENCY)) (\<lambda>_.
     bindT (getT (\<lambda>db. dep_exists db (t_id t) (t_id on))) (\<lambda>dup.
     bindT (throwIf dup (DispatchError DUPLICATE)) (\<lambda>_.
     bindT (getT (\<lambda>db. dependencyCycleWouldForm db (t_id on) (t_id t))) (\<lambda>cycle.
     bindT (throwIf cycle (DispatchError INVALID_DEPENDENCY)) (\<lambda>_.
     bindT (dep_insert \<lparr>dep_ticket_id = t_id t, dep_depends_on = t_id on, dep_created_at = en_now en\<rparr>) (\<lambda>_.
     bindT (ticketEvent en (t_id t) actor ''ticket.dependency_added''
              [(''depends_on_ticket_id'', JStr (t_id on)),
               (''depends_on_number'', case t_number on of None \<Rightarrow> JNull | Some n \<Rightarrow> JNum (int n))]) (\<lambda>ev.
     returnT (t_id t, t_id on, ev)))))))))))"

definition listDependencies :: "string \<Rightarrow> dependency_view list op" where
  "listDependencies ref = bindT (resolveRef ref) (\<lambda>t. getT (\<lambda>db. dep_listForTicket db (t_id t)))"

definition removeDependency :: "env \<Rightarrow> string \<Rightarrow> string \<Rightarrow> actor \<Rightarrow> (id \<times> id \<times> id) op" where
  "removeDependency en ticketRef dependsRef actor =
     bindT (resolveRef ticketRef) (\<lambda>t.
     bindT (resolveRef dependsRef) (\<lambda>on.
     bindT (dep_delete (t_id t) (t_id on)) (\<lambda>removed.
     bindT (throwIf (\<not> removed) (DispatchError NOT_FOUND)) (\<lambda>_.
     bindT (ticketEvent en (t_id t) actor ''ticket.dependency_removed''
              [(''depends_on_ticket_id'', JStr (t_id on))]) (\<lambda>ev.
     returnT (t_id t, t_id on, ev))))))"

section \<open>Claimability\<close>

datatype claim_blocker = PolicyBlocker policy_failure | DEPENDENCY_BLOCKER | DECISION_BLOCKER

record claimability_result =
  cb_ticketId :: id
  cb_ready :: bool
  cb_blockers :: "claim_blocker list"
  cb_warnings :: "policy_failure list"

definition claimability_of :: "env \<Rightarrow> db \<Rightarrow> ticket \<Rightarrow> claimability_result" where
  "claimability_of en db t = (
     let blockers = (if unsatisfiedDependencies db (t_id t) \<noteq> [] then [DEPENDENCY_BLOCKER] else [])
           @ (if blockingForTicket db (t_id t) \<noteq> [] then [DECISION_BLOCKER] else []) in
     if t_status t \<noteq> Draft \<and> t_status t \<noteq> Refining then
       \<lparr>cb_ticketId = t_id t, cb_ready = (blockers = []), cb_blockers = blockers, cb_warnings = []\<rparr>
     else let policy = evaluate en db t GateReady None in
       \<lparr>cb_ticketId = t_id t, cb_ready = (pr_allowed policy \<and> blockers = []),
        cb_blockers = map PolicyBlocker (pr_failures policy) @ blockers, cb_warnings = pr_warnings policy\<rparr>)"

definition claimability :: "env \<Rightarrow> string \<Rightarrow> claimability_result op" where
  "claimability en ref = bindT (resolveRef ref) (\<lambda>t. getT (\<lambda>db. claimability_of en db t))"

definition isClaimableNow :: "env \<Rightarrow> db \<Rightarrow> ticket \<Rightarrow> bool" where
  "isClaimableNow en db t = (t_status t = Ready \<and> t_human_owner t = None \<and>
     (case claimability en (t_id t) db of Inl _ \<Rightarrow> False | Inr (r, _) \<Rightarrow> cb_ready r))"

section \<open>Human gate operations\<close>

definition setTicketAllowTestChanges :: "env \<Rightarrow> string \<Rightarrow> bool \<Rightarrow> actor \<Rightarrow> string option \<Rightarrow> (id \<times> bool \<times> id) op" where
  "setTicketAllowTestChanges en ref allowed actor reason =
     bindT (assertHumanOrAdmin actor) (\<lambda>_.
     let note = js_trim (case reason of None \<Rightarrow> [] | Some r \<Rightarrow> r) in
     bindT (resolveRef ref) (\<lambda>t.
     bindT (setAllowTestChanges (t_id t) allowed (en_now en)) (\<lambda>_.
     bindT (ticketEvent en (t_id t) actor ''ticket.test_changes_allowed''
              ([(''allow_test_changes'', JBool allowed), (''previous'', JBool (t_allow_test_changes t))]
               @ (if note = [] then [] else [(''reason'', JStr (take 500 note))]))) (\<lambda>ev.
     returnT (t_id t, allowed, ev)))))"

definition grantReadyApproval :: "env \<Rightarrow> string \<Rightarrow> actor \<Rightarrow> (id \<times> id) op" where
  "grantReadyApproval en ref actor =
     bindT (assertHumanOrAdmin actor) (\<lambda>_.
     bindT (resolveRef ref) (\<lambda>t.
     bindT (ticketEvent en (t_id t) actor ''ticket.ready_approved''
              [(''granted_by'', JStr (actor_label actor))]) (\<lambda>ev.
     returnT (t_id t, ev))))"

definition assignReviewer :: "env \<Rightarrow> string \<Rightarrow> string \<Rightarrow> actor \<Rightarrow> (id \<times> string \<times> id) op" where
  "assignReviewer en ref reviewerId actor =
     bindT (assertHumanOrAdmin actor) (\<lambda>_.
     let reviewer = js_trim reviewerId in
     bindT (throwIf (reviewer = []) (DispatchError VALIDATION_ERROR)) (\<lambda>_.
     bindT (resolveRef ref) (\<lambda>t.
     bindT (ticket_updateStatus (t_id t) (t_status t) (t_row_version t)
              (no_patch\<lparr>pt_reviewer := Some reviewer\<rparr>) (en_now en)) (\<lambda>ok.
     bindT (throwIf (\<not> ok) (DispatchError CONCURRENCY_CONFLICT)) (\<lambda>_.
     bindT (ticketEvent en (t_id t) actor ''ticket.reviewer_assigned'' [(''reviewer'', JStr reviewer)]) (\<lambda>ev.
     returnT (t_id t, reviewer, ev)))))))"

definition setRequiredCapabilities :: "env \<Rightarrow> string \<Rightarrow> string list \<Rightarrow> actor \<Rightarrow> (id \<times> string list \<times> id) op" where
  "setRequiredCapabilities en ref caps0 actor =
     bindT (throwIf (ref = [] \<or> \<not> list_all (\<lambda>c. js_trim c \<noteq> [] \<and> length (js_trim c) \<le> 100) caps0) ZodError) (\<lambda>_.
     let caps = rev (remdups (rev (map js_trim caps0))) in
     bindT (resolveRef ref) (\<lambda>t.
     bindT (required_setForTicket (t_id t) caps) (\<lambda>_.
     bindT (ticketEvent en (t_id t) actor ''ticket.required_capabilities_set''
              [(''capabilities'', JArr (map JStr caps))]) (\<lambda>ev.
     returnT (t_id t, caps, ev)))))"

end
