(* ===== verification/Scope_Graph.thy ===== *)
theory Scope_Graph
  imports Tickets
begin

text \<open>
  The scope graph (\<open>services/scopeService.ts\<close> with \<open>repositories/scopeNodeRepository.ts\<close>,
  \<open>scopeEdgeRepository.ts\<close>, \<open>scopeRepoRepository.ts\<close> and \<open>ticketScopeNodeRepository.ts\<close>): product
  and system areas, the edges between them, the repositories they map to, and the scopes of a
  ticket. The lists of tags and reasons, which the tables hold as JSON text, are held as lists.
\<close>

section \<open>Scope nodes\<close>

text \<open>The controls the schemas of the graph refuse: those below the space.\<close>

definition has_c0 :: "string \<Rightarrow> bool" where
  "has_c0 s = list_ex (\<lambda>c. of_char c \<le> (31 :: nat)) s"

definition tag_list_ok :: "string list \<Rightarrow> bool" where
  "tag_list_ok ts = (length ts \<le> 100 \<and> list_all (\<lambda>t. js_trim t \<noteq> [] \<and> length (js_trim t) \<le> 100) ts)"

definition reasons_ok :: "string list \<Rightarrow> bool" where
  "reasons_ok rs = (length rs \<le> 50 \<and> list_all (\<lambda>r. js_trim r \<noteq> [] \<and> length (js_trim r) \<le> 2000) rs)"

definition confidence_ok :: "rat \<Rightarrow> bool" where
  "confidence_ok c = (0 \<le> c \<and> c \<le> 1)"

definition node_name_ok :: "string \<Rightarrow> bool" where
  "node_name_ok s = (js_trim s \<noteq> [] \<and> length (js_trim s) \<le> 200 \<and> \<not> has_c0 (js_trim s))"

definition plain_ok :: "nat \<Rightarrow> string \<Rightarrow> bool" where
  "plain_ok n s = (length s \<le> n \<and> \<not> has_c0 s)"

record scope_node_input =
  ni_name :: string
  ni_type :: scope_node_type
  ni_description :: "string option"
  ni_risk_level :: risk_level
  ni_owner :: "string option"
  ni_tags :: "string list option"
  ni_lore_tags :: "string list option"

definition node_schema_ok :: "scope_node_input \<Rightarrow> bool" where
  "node_schema_ok inp = (node_name_ok (ni_name inp) \<and> opt_ok (plain_ok 20000) (ni_description inp)
     \<and> opt_ok (plain_ok 200) (ni_owner inp) \<and> opt_ok tag_list_ok (ni_tags inp) \<and> opt_ok tag_list_ok (ni_lore_tags inp))"

definition node_findById :: "db \<Rightarrow> id \<Rightarrow> scope_node option" where
  "node_findById db i = find_row sn_id i (db_scope_nodes db)"

definition node_list :: "db \<Rightarrow> scope_node list" where
  "node_list db = sort_key (\<lambda>n. (node_type_name (sn_type n), sn_name n)) (db_scope_nodes db)"

definition node_insert :: "scope_node \<Rightarrow> unit op" where
  "node_insert n = (\<lambda>db. if sn_id n \<in> sn_id ` set (db_scope_nodes db) then Inl SqlitePrimaryKey
     else Inr ((), db\<lparr>db_scope_nodes := db_scope_nodes db @ [n]\<rparr>))"

definition node_row :: "env \<Rightarrow> db \<Rightarrow> scope_node_input \<Rightarrow> scope_node" where
  "node_row en db inp = \<lparr>sn_id = en_uuid en ScopeNodeId (length (db_scope_nodes db)), sn_name = js_trim (ni_name inp),
     sn_type = ni_type inp, sn_description = ni_description inp, sn_risk_level = ni_risk_level inp, sn_owner = ni_owner inp,
     sn_tags = map_option (map js_trim) (ni_tags inp), sn_lore_tags = map_option (map js_trim) (ni_lore_tags inp),
     sn_created_at = en_now en, sn_updated_at = en_now en\<rparr>"

definition nodeEvent :: "env \<Rightarrow> id \<Rightarrow> actor \<Rightarrow> string \<Rightarrow> (string \<times> json) list \<Rightarrow> id op" where
  "nodeEvent en i actor event_type payload = writeEvent en ''scope_node'' i actor event_type (Some (JObj payload))"

definition createScopeNode :: "env \<Rightarrow> scope_node_input \<Rightarrow> actor \<Rightarrow> scope_node op" where
  "createScopeNode en inp actor =
     bindT (throwIf (\<not> node_schema_ok inp) ZodError) (\<lambda>_.
     bindT (getT (\<lambda>db. node_row en db inp)) (\<lambda>n.
     bindT (node_insert n) (\<lambda>_.
     bindT (nodeEvent en (sn_id n) actor ''scope_node.created''
              [(''name'', JStr (sn_name n)), (''type'', JStr (node_type_name (sn_type n)))]) (\<lambda>_.
     returnT n))))"

text \<open>A patch: an absent field is not written.\<close>

record scope_node_patch =
  nu_name :: "string option"
  nu_type :: "scope_node_type option"
  nu_description :: "string option"
  nu_risk_level :: "risk_level option"
  nu_owner :: "string option"
  nu_tags :: "string list option"
  nu_lore_tags :: "string list option"

definition patch_schema_ok :: "scope_node_patch \<Rightarrow> bool" where
  "patch_schema_ok p = (opt_ok node_name_ok (nu_name p) \<and> opt_ok (plain_ok 20000) (nu_description p)
     \<and> opt_ok (plain_ok 200) (nu_owner p) \<and> opt_ok tag_list_ok (nu_tags p) \<and> opt_ok tag_list_ok (nu_lore_tags p))"

definition patch_fields :: "scope_node_patch \<Rightarrow> string list" where
  "patch_fields p = (if nu_name p = None then [] else [''name'']) @ (if nu_type p = None then [] else [''type''])
     @ (if nu_description p = None then [] else [''description'']) @ (if nu_risk_level p = None then [] else [''risk_level''])
     @ (if nu_owner p = None then [] else [''owner'']) @ (if nu_tags p = None then [] else [''tags_json''])
     @ (if nu_lore_tags p = None then [] else [''lore_tags_json''])"

definition patch_node :: "scope_node_patch \<Rightarrow> instant \<Rightarrow> scope_node \<Rightarrow> scope_node" where
  "patch_node p now n = n\<lparr>
     sn_name := (case nu_name p of None \<Rightarrow> sn_name n | Some v \<Rightarrow> js_trim v),
     sn_type := (case nu_type p of None \<Rightarrow> sn_type n | Some v \<Rightarrow> v),
     sn_description := orElse (nu_description p) (sn_description n),
     sn_risk_level := (case nu_risk_level p of None \<Rightarrow> sn_risk_level n | Some v \<Rightarrow> v),
     sn_owner := orElse (nu_owner p) (sn_owner n),
     sn_tags := orElse (map_option (map js_trim) (nu_tags p)) (sn_tags n),
     sn_lore_tags := orElse (map_option (map js_trim) (nu_lore_tags p)) (sn_lore_tags n),
     sn_updated_at := now\<rparr>"

definition node_update :: "id \<Rightarrow> scope_node_patch \<Rightarrow> instant \<Rightarrow> unit op" where
  "node_update i p now = modifyT (\<lambda>db. db\<lparr>db_scope_nodes := upd_rows (\<lambda>n. sn_id n = i) (patch_node p now) (db_scope_nodes db)\<rparr>)"

definition getScopeNodeRow :: "id \<Rightarrow> scope_node op" where
  "getScopeNodeRow i = (\<lambda>db. case node_findById db i of None \<Rightarrow> Inl (DispatchError NOT_FOUND) | Some n \<Rightarrow> Inr (n, db))"

definition updateScopeNode :: "env \<Rightarrow> id \<Rightarrow> scope_node_patch \<Rightarrow> actor \<Rightarrow> scope_node op" where
  "updateScopeNode en i p actor =
     bindT (throwIf (\<not> patch_schema_ok p) ZodError) (\<lambda>_.
     bindT (getScopeNodeRow i) (\<lambda>_.
     bindT (node_update i p (en_now en)) (\<lambda>_.
     bindT (nodeEvent en i actor ''scope_node.updated'' [(''fields'', JArr (map JStr (patch_fields p)))]) (\<lambda>_.
     getScopeNodeRow i))))"

section \<open>Repositories of a scope\<close>

fun srp_relation_name :: "scope_repo_relation \<Rightarrow> string" where
  "srp_relation_name RepoOwns = ''owns''"
| "srp_relation_name RepoContains = ''contains''"
| "srp_relation_name RepoUses = ''uses''"
| "srp_relation_name RepoDependsOn = ''depends_on''"
| "srp_relation_name RepoSharedBy = ''shared_by''"
| "srp_relation_name RepoDeployedWith = ''deployed_with''"
| "srp_relation_name RepoReadContext = ''read_context''"
| "srp_relation_name RepoWriteTarget = ''write_target''"
| "srp_relation_name RepoTestTarget = ''test_target''"

definition reposForScope :: "db \<Rightarrow> id \<Rightarrow> (scope_repo \<times> repository) list" where
  "reposForScope db nid = sort_key (\<lambda>(sr, r). (srp_relation_name (srp_relation sr), r_name r))
     (concat (map (\<lambda>sr.
        if srp_scope_node_id sr = nid then map (Pair sr) (filter (\<lambda>r. r_id r = srp_repo_id sr \<and> \<not> r_hidden r) (db_repositories db))
        else []) (db_scope_repos db)))"

definition scopeRepo_findById :: "db \<Rightarrow> id \<Rightarrow> scope_repo option" where
  "scopeRepo_findById db i = find_row srp_id i (db_scope_repos db)"

definition scopeRepo_exists :: "db \<Rightarrow> id \<Rightarrow> id \<Rightarrow> scope_repo_relation \<Rightarrow> bool" where
  "scopeRepo_exists db nid rid rel = list_ex (\<lambda>sr. srp_scope_node_id sr = nid \<and> srp_repo_id sr = rid \<and> srp_relation sr = rel) (db_scope_repos db)"

definition scopeRepo_countForNode :: "db \<Rightarrow> id \<Rightarrow> nat" where
  "scopeRepo_countForNode db nid = length (filter (\<lambda>sr. srp_scope_node_id sr = nid) (db_scope_repos db))"

definition scopeRepo_insert :: "scope_repo \<Rightarrow> unit op" where
  "scopeRepo_insert l = (\<lambda>db. if srp_id l \<in> srp_id ` set (db_scope_repos db) then Inl SqlitePrimaryKey
     else if scopeRepo_exists db (srp_scope_node_id l) (srp_repo_id l) (srp_relation l) then Inl SqliteUnique
     else if srp_scope_node_id l \<notin> sn_id ` set (db_scope_nodes db) \<or> srp_repo_id l \<notin> r_id ` set (db_repositories db) then Inl SqliteForeignKey
     else Inr ((), db\<lparr>db_scope_repos := db_scope_repos db @ [l]\<rparr>))"

record scope_repo_patch =
  sp_default_access :: "ticket_repo_access option"
  sp_confidence :: "rat option"
  sp_role_description :: "string option"
  sp_reasons :: "string list option"

definition patch_scope_repo :: "scope_repo_patch \<Rightarrow> instant \<Rightarrow> scope_repo \<Rightarrow> scope_repo" where
  "patch_scope_repo p now l = l\<lparr>
     srp_default_access := (case sp_default_access p of None \<Rightarrow> srp_default_access l | Some v \<Rightarrow> v),
     srp_confidence := orElse (sp_confidence p) (srp_confidence l),
     srp_role_description := orElse (sp_role_description p) (srp_role_description l),
     srp_reasons := orElse (map_option (map js_trim) (sp_reasons p)) (srp_reasons l),
     srp_updated_at := now\<rparr>"

definition listUnmappedRepos :: "db \<Rightarrow> bool \<Rightarrow> repository list" where
  "listUnmappedRepos db includeHidden = sort_key r_name (filter (\<lambda>r.
     \<not> list_ex (\<lambda>sr. srp_repo_id sr = r_id r) (db_scope_repos db) \<and> (includeHidden \<or> \<not> r_hidden r)) (db_repositories db))"

definition defaultAccessForRelation :: "scope_repo_relation \<Rightarrow> ticket_repo_access" where
  "defaultAccessForRelation rel = (if rel = RepoOwns \<or> rel = RepoWriteTarget then AccWrite
     else if rel = RepoTestTarget then AccTest else AccRead)"

fun access_name :: "ticket_repo_access \<Rightarrow> string" where
  "access_name AccWrite = ''write''"
| "access_name AccRead = ''read''"
| "access_name AccTest = ''test''"
| "access_name AccNone = ''none''"

definition repo_by_id_or_name :: "db \<Rightarrow> string \<Rightarrow> repository option" where
  "repo_by_id_or_name db ref = (case repo_findById db ref of Some r \<Rightarrow> Some r | None \<Rightarrow> repo_findByName db ref)"

definition need_repo :: "(db \<Rightarrow> string \<Rightarrow> repository option) \<Rightarrow> string \<Rightarrow> repository op" where
  "need_repo find_it ref = (\<lambda>db. case find_it db ref of None \<Rightarrow> Inl (DispatchError NOT_FOUND) | Some r \<Rightarrow> Inr (r, db))"

record scope_repo_input =
  si_scope_node_id :: id
  si_repo_id :: string
  si_relation :: scope_repo_relation
  si_default_access :: "ticket_repo_access option"
  si_confidence :: "rat option"
  si_role_description :: "string option"
  si_reasons :: "string list option"

definition scope_repo_schema_ok :: "scope_repo_input \<Rightarrow> bool" where
  "scope_repo_schema_ok inp = (si_scope_node_id inp \<noteq> [] \<and> si_repo_id inp \<noteq> [] \<and> opt_ok confidence_ok (si_confidence inp)
     \<and> opt_ok (\<lambda>s. length s \<le> 2000) (si_role_description inp) \<and> opt_ok reasons_ok (si_reasons inp))"

definition scope_repo_row :: "env \<Rightarrow> db \<Rightarrow> scope_repo_input \<Rightarrow> scope_node \<Rightarrow> repository \<Rightarrow> scope_repo" where
  "scope_repo_row en db inp n r = \<lparr>srp_id = en_uuid en ScopeRepoId (length (db_scope_repos db)), srp_scope_node_id = sn_id n,
     srp_repo_id = r_id r, srp_relation = si_relation inp,
     srp_default_access = (case si_default_access inp of None \<Rightarrow> defaultAccessForRelation (si_relation inp) | Some a \<Rightarrow> a),
     srp_confidence = si_confidence inp, srp_role_description = si_role_description inp,
     srp_reasons = map_option (map js_trim) (si_reasons inp), srp_created_at = en_now en, srp_updated_at = en_now en\<rparr>"

definition linkScopeRepo :: "env \<Rightarrow> scope_repo_input \<Rightarrow> actor \<Rightarrow> scope_repo op" where
  "linkScopeRepo en inp actor =
     bindT (throwIf (\<not> scope_repo_schema_ok inp) ZodError) (\<lambda>_.
     bindT (getScopeNodeRow (si_scope_node_id inp)) (\<lambda>n.
     bindT (need_repo repo_by_id_or_name (si_repo_id inp)) (\<lambda>r.
     bindT (getT (\<lambda>db. scopeRepo_exists db (sn_id n) (r_id r) (si_relation inp))) (\<lambda>dup.
     bindT (throwIf dup (DispatchError DUPLICATE)) (\<lambda>_.
     bindT (getT (\<lambda>db. scope_repo_row en db inp n r)) (\<lambda>l.
     bindT (scopeRepo_insert l) (\<lambda>_.
     bindT (nodeEvent en (sn_id n) actor ''scope_repo.linked''
              [(''association_id'', JStr (srp_id l)), (''repo_id'', JStr (r_id r)), (''relation'', JStr (srp_relation_name (srp_relation l))),
               (''default_access'', JStr (access_name (srp_default_access l)))]) (\<lambda>_.
     returnT l))))))))"

definition getScopeRepo :: "id \<Rightarrow> scope_repo op" where
  "getScopeRepo i = (\<lambda>db. case scopeRepo_findById db i of None \<Rightarrow> Inl (DispatchError NOT_FOUND) | Some l \<Rightarrow> Inr (l, db))"

definition scope_repo_fields :: "scope_repo_patch \<Rightarrow> string list" where
  "scope_repo_fields p = (if sp_default_access p = None then [] else [''default_access''])
     @ (if sp_confidence p = None then [] else [''confidence'']) @ (if sp_role_description p = None then [] else [''role_description''])
     @ (if sp_reasons p = None then [] else [''reasons_json''])"

definition updateScopeRepo :: "env \<Rightarrow> id \<Rightarrow> scope_repo_patch \<Rightarrow> actor \<Rightarrow> scope_repo op" where
  "updateScopeRepo en i p actor =
     bindT (throwIf (\<not> (opt_ok confidence_ok (sp_confidence p) \<and> opt_ok (\<lambda>s. length s \<le> 2000) (sp_role_description p)
       \<and> opt_ok reasons_ok (sp_reasons p))) ZodError) (\<lambda>_.
     bindT (getScopeRepo i) (\<lambda>old.
     bindT (modifyT (\<lambda>db. db\<lparr>db_scope_repos := upd_rows (\<lambda>l. srp_id l = i) (patch_scope_repo p (en_now en)) (db_scope_repos db)\<rparr>)) (\<lambda>_.
     bindT (nodeEvent en (srp_scope_node_id old) actor ''scope_repo.updated''
              [(''association_id'', JStr i), (''fields'', JArr (map JStr (scope_repo_fields p)))]) (\<lambda>_.
     getScopeRepo i))))"

definition unlinkScopeRepo :: "env \<Rightarrow> id \<Rightarrow> actor \<Rightarrow> (id \<times> id) op" where
  "unlinkScopeRepo en i actor =
     bindT (getScopeRepo i) (\<lambda>old.
     bindT (modifyT (\<lambda>db. db\<lparr>db_scope_repos := filter (\<lambda>l. srp_id l \<noteq> i) (db_scope_repos db)\<rparr>)) (\<lambda>_.
     bindT (nodeEvent en (srp_scope_node_id old) actor ''scope_repo.unlinked''
              [(''association_id'', JStr i), (''repo_id'', JStr (srp_repo_id old))]) (\<lambda>ev.
     returnT (i, ev))))"

definition getScopeNode :: "id \<Rightarrow> (scope_node \<times> (scope_repo \<times> repository) list) op" where
  "getScopeNode i = bindT (getScopeNodeRow i) (\<lambda>n. getT (\<lambda>db. (n, reposForScope db i)))"

section \<open>Edges\<close>

fun edge_relation_name :: "scope_edge_relation \<Rightarrow> string" where
  "edge_relation_name EdgeContains = ''contains''"
| "edge_relation_name EdgeDependsOn = ''depends_on''"
| "edge_relation_name EdgeCalls = ''calls''"
| "edge_relation_name EdgePublishesTo = ''publishes_to''"
| "edge_relation_name EdgeConsumesFrom = ''consumes_from''"
| "edge_relation_name EdgeSharesLibrary = ''shares_library''"
| "edge_relation_name EdgeDeployedWith = ''deployed_with''"

definition edge_exists :: "db \<Rightarrow> id \<Rightarrow> id \<Rightarrow> scope_edge_relation \<Rightarrow> bool" where
  "edge_exists db a b rel = list_ex (\<lambda>e. se_from e = a \<and> se_to e = b \<and> se_relation e = rel) (db_scope_edges db)"

definition edge_insert :: "scope_edge \<Rightarrow> unit op" where
  "edge_insert e = (\<lambda>db. if se_id e \<in> se_id ` set (db_scope_edges db) then Inl SqlitePrimaryKey
     else if edge_exists db (se_from e) (se_to e) (se_relation e) then Inl SqliteUnique
     else if se_from e \<notin> sn_id ` set (db_scope_nodes db) \<or> se_to e \<notin> sn_id ` set (db_scope_nodes db) then Inl SqliteForeignKey
     else Inr ((), db\<lparr>db_scope_edges := db_scope_edges db @ [e]\<rparr>))"

definition listScopeEdges :: "db \<Rightarrow> id option \<Rightarrow> scope_edge list" where
  "listScopeEdges db node = sort_key se_created_at (filter (\<lambda>e.
     (case node of None \<Rightarrow> True | Some i \<Rightarrow> i = [] \<or> se_from e = i \<or> se_to e = i)) (db_scope_edges db))"

definition SCOPE_EDGE_RELATIONS_V1 :: "scope_edge_relation list" where
  "SCOPE_EDGE_RELATIONS_V1 = [EdgeContains, EdgeDependsOn]"

definition contains_edges :: "db \<Rightarrow> (id \<times> id) list" where
  "contains_edges db = map (\<lambda>e. (se_from e, se_to e)) (filter (\<lambda>e. se_relation e = EdgeContains) (db_scope_edges db))"

definition containsCycleWouldForm :: "db \<Rightarrow> id \<Rightarrow> id \<Rightarrow> bool" where
  "containsCycleWouldForm db startNodeId targetNodeId = graph_walk (contains_edges db) targetNodeId [] [startNodeId]"

record scope_edge_input =
  ei_from :: id
  ei_to :: id
  ei_relation :: scope_edge_relation
  ei_confidence :: "rat option"
  ei_reasons :: "string list option"
  ei_advanced :: bool

definition edge_schema_ok :: "scope_edge_input \<Rightarrow> bool" where
  "edge_schema_ok inp = (ei_from inp \<noteq> [] \<and> ei_to inp \<noteq> [] \<and> opt_ok confidence_ok (ei_confidence inp) \<and> opt_ok reasons_ok (ei_reasons inp))"

definition edge_row :: "env \<Rightarrow> db \<Rightarrow> scope_edge_input \<Rightarrow> scope_edge" where
  "edge_row en db inp = \<lparr>se_id = en_uuid en ScopeEdgeId (length (db_scope_edges db)), se_from = ei_from inp, se_to = ei_to inp,
     se_relation = ei_relation inp, se_confidence = ei_confidence inp, se_reasons = map_option (map js_trim) (ei_reasons inp),
     se_created_at = en_now en\<rparr>"

definition createScopeEdge :: "env \<Rightarrow> scope_edge_input \<Rightarrow> actor \<Rightarrow> scope_edge op" where
  "createScopeEdge en inp actor =
     bindT (throwIf (\<not> edge_schema_ok inp) ZodError) (\<lambda>_.
     bindT (throwIf (ei_from inp = ei_to inp) (DispatchError INVALID_EDGE)) (\<lambda>_.
     bindT (throwIf (\<not> ei_advanced inp \<and> ei_relation inp \<notin> set SCOPE_EDGE_RELATIONS_V1) (DispatchError ADVANCED_RELATION_REQUIRED)) (\<lambda>_.
     bindT (getScopeNodeRow (ei_from inp)) (\<lambda>_.
     bindT (getScopeNodeRow (ei_to inp)) (\<lambda>_.
     bindT (getT (\<lambda>db. edge_exists db (ei_from inp) (ei_to inp) (ei_relation inp))) (\<lambda>dup.
     bindT (throwIf dup (DispatchError DUPLICATE)) (\<lambda>_.
     bindT (getT (\<lambda>db. containsCycleWouldForm db (ei_to inp) (ei_from inp))) (\<lambda>cycle.
     bindT (throwIf (ei_relation inp = EdgeContains \<and> cycle) (DispatchError INVALID_EDGE)) (\<lambda>_.
     bindT (getT (\<lambda>db. edge_row en db inp)) (\<lambda>e.
     bindT (edge_insert e) (\<lambda>_.
     bindT (nodeEvent en (ei_from inp) actor ''scope_edge.created''
              [(''edge_id'', JStr (se_id e)), (''to_node_id'', JStr (ei_to inp)), (''relation'', JStr (edge_relation_name (ei_relation inp)))]) (\<lambda>_.
     returnT e))))))))))))"

definition getScopeEdge :: "id \<Rightarrow> scope_edge op" where
  "getScopeEdge i = (\<lambda>db. case find_row se_id i (db_scope_edges db) of None \<Rightarrow> Inl (DispatchError NOT_FOUND) | Some e \<Rightarrow> Inr (e, db))"

definition deleteScopeEdge :: "env \<Rightarrow> id \<Rightarrow> actor \<Rightarrow> (id \<times> id) op" where
  "deleteScopeEdge en i actor =
     bindT (getScopeEdge i) (\<lambda>old.
     bindT (modifyT (\<lambda>db. db\<lparr>db_scope_edges := filter (\<lambda>e. se_id e \<noteq> i) (db_scope_edges db)\<rparr>)) (\<lambda>_.
     bindT (nodeEvent en (se_from old) actor ''scope_edge.deleted''
              [(''edge_id'', JStr i), (''relation'', JStr (edge_relation_name (se_relation old)))]) (\<lambda>ev.
     returnT (i, ev))))"

text \<open>The delete of a node, with the edges the foreign keys cascade to.\<close>

definition node_delete :: "id \<Rightarrow> unit op" where
  "node_delete i = modifyT (\<lambda>db. db\<lparr>db_scope_nodes := filter (\<lambda>n. sn_id n \<noteq> i) (db_scope_nodes db),
     db_scope_edges := filter (\<lambda>e. se_from e \<noteq> i \<and> se_to e \<noteq> i) (db_scope_edges db)\<rparr>)"

definition ticketScope_countForNode :: "db \<Rightarrow> id \<Rightarrow> nat" where
  "ticketScope_countForNode db nid = length (filter (\<lambda>l. ts_scope_node_id l = nid) (db_ticket_scopes db))"

definition deleteScopeNode :: "env \<Rightarrow> id \<Rightarrow> actor \<Rightarrow> (id \<times> id) op" where
  "deleteScopeNode en i actor =
     bindT (getScopeNodeRow i) (\<lambda>n.
     bindT (getT (\<lambda>db. scopeRepo_countForNode db i)) (\<lambda>repoLinks.
     bindT (throwIf (repoLinks > 0) (DispatchError SCOPE_NODE_IN_USE)) (\<lambda>_.
     bindT (getT (\<lambda>db. ticketScope_countForNode db i)) (\<lambda>ticketLinks.
     bindT (throwIf (ticketLinks > 0) (DispatchError SCOPE_NODE_IN_USE)) (\<lambda>_.
     bindT (node_delete i) (\<lambda>_.
     bindT (nodeEvent en i actor ''scope_node.deleted'' [(''name'', JStr (sn_name n))]) (\<lambda>ev.
     returnT (i, ev))))))))"

section \<open>The scopes of a ticket\<close>

definition ticketScope_find :: "db \<Rightarrow> id \<Rightarrow> id \<Rightarrow> ticket_scope_node option" where
  "ticketScope_find db tid nid = find (\<lambda>l. ts_ticket_id l = tid \<and> ts_scope_node_id l = nid) (db_ticket_scopes db)"

definition ticketScope_upsert :: "ticket_scope_node \<Rightarrow> unit op" where
  "ticketScope_upsert l = (\<lambda>db.
     if ts_ticket_id l \<notin> t_id ` set (db_tickets db) \<or> ts_scope_node_id l \<notin> sn_id ` set (db_scope_nodes db) then Inl SqliteForeignKey
     else Inr ((), db\<lparr>db_ticket_scopes :=
       (if ticketScope_find db (ts_ticket_id l) (ts_scope_node_id l) = None then db_ticket_scopes db @ [l]
        else upd_rows (\<lambda>x. ts_ticket_id x = ts_ticket_id l \<and> ts_scope_node_id x = ts_scope_node_id l)
          (\<lambda>x. x\<lparr>ts_relation := ts_relation l, ts_confidence := ts_confidence l, ts_reasons := ts_reasons l,
             ts_updated_at := ts_updated_at l\<rparr>) (db_ticket_scopes db))\<rparr>))"

definition demotePrimaries :: "id \<Rightarrow> instant \<Rightarrow> unit op" where
  "demotePrimaries tid now = modifyT (\<lambda>db. db\<lparr>db_ticket_scopes :=
     upd_rows (\<lambda>l. ts_ticket_id l = tid \<and> ts_relation l = ScPrimary)
       (\<lambda>l. l\<lparr>ts_relation := ScSecondary, ts_updated_at := now\<rparr>) (db_ticket_scopes db)\<rparr>)"

definition ticketScope_delete :: "id \<Rightarrow> id \<Rightarrow> unit op" where
  "ticketScope_delete tid nid = modifyT (\<lambda>db. db\<lparr>db_ticket_scopes :=
     filter (\<lambda>l. \<not> (ts_ticket_id l = tid \<and> ts_scope_node_id l = nid)) (db_ticket_scopes db)\<rparr>)"

fun scope_relation_name :: "ticket_scope_relation \<Rightarrow> string" where
  "scope_relation_name ScPrimary = ''primary''"
| "scope_relation_name ScSecondary = ''secondary''"
| "scope_relation_name ScSuggested = ''suggested''"
| "scope_relation_name ScRejected = ''rejected''"
| "scope_relation_name ScImplicitRepo = ''implicit_repo''"

definition scope_setPrimaryScope :: "env \<Rightarrow> string \<Rightarrow> id \<Rightarrow> actor \<Rightarrow> ticket_scope_node op" where
  "scope_setPrimaryScope en ref nid actor =
     bindT (resolveRef ref) (\<lambda>t.
     bindT (getScopeNodeRow nid) (\<lambda>n.
     bindT (demotePrimaries (t_id t) (en_now en)) (\<lambda>_.
     bindT (getT (\<lambda>db. ticketScope_find db (t_id t) (sn_id n))) (\<lambda>existing.
     let link = \<lparr>ts_ticket_id = t_id t, ts_scope_node_id = sn_id n, ts_relation = ScPrimary,
       ts_confidence = Option.bind existing ts_confidence, ts_reasons = Option.bind existing ts_reasons,
       ts_created_at = (case existing of None \<Rightarrow> en_now en | Some x \<Rightarrow> ts_created_at x), ts_updated_at = en_now en\<rparr> in
     bindT (ticketScope_upsert link) (\<lambda>_.
     bindT (ticketEvent en (t_id t) actor ''ticket.scope_primary_set'' [(''scope_node_id'', JStr (sn_id n))]) (\<lambda>_.
     returnT link))))))"

record link_scope_input =
  lk_ticket_id :: string
  lk_scope_node_id :: id
  lk_relation :: ticket_scope_relation
  lk_confidence :: "rat option"
  lk_reasons :: "string list option"

definition link_scope_schema_ok :: "link_scope_input \<Rightarrow> bool" where
  "link_scope_schema_ok inp = (lk_ticket_id inp \<noteq> [] \<and> lk_scope_node_id inp \<noteq> [] \<and> opt_ok confidence_ok (lk_confidence inp)
     \<and> opt_ok reasons_ok (lk_reasons inp))"

text \<open>
  A primary link is read back under the reference the caller gave, which finds nothing unless
  that is the ticket's id: the result is then \<open>undefined\<close>.
\<close>

definition scope_linkTicketScope :: "env \<Rightarrow> link_scope_input \<Rightarrow> actor \<Rightarrow> ticket_scope_node option op" where
  "scope_linkTicketScope en inp actor =
     bindT (throwIf (\<not> link_scope_schema_ok inp) ZodError) (\<lambda>_.
     bindT (throwIf (lk_relation inp = ScImplicitRepo) (DispatchError VALIDATION_ERROR)) (\<lambda>_.
     if lk_relation inp = ScPrimary
     then bindT (scope_setPrimaryScope en (lk_ticket_id inp) (lk_scope_node_id inp) actor) (\<lambda>_.
       getT (\<lambda>db. ticketScope_find db (lk_ticket_id inp) (lk_scope_node_id inp)))
     else
       bindT (resolveRef (lk_ticket_id inp)) (\<lambda>t.
       bindT (getScopeNodeRow (lk_scope_node_id inp)) (\<lambda>n.
       let link = \<lparr>ts_ticket_id = t_id t, ts_scope_node_id = sn_id n, ts_relation = lk_relation inp,
         ts_confidence = lk_confidence inp, ts_reasons = map_option (map js_trim) (lk_reasons inp),
         ts_created_at = en_now en, ts_updated_at = en_now en\<rparr> in
       bindT (ticketScope_upsert link) (\<lambda>_.
       bindT (ticketEvent en (t_id t) actor ''ticket.scope_linked''
                [(''scope_node_id'', JStr (sn_id n)), (''relation'', JStr (scope_relation_name (ts_relation link)))]) (\<lambda>_.
       returnT (Some link)))))))"

definition listTicketScopes :: "string \<Rightarrow> (ticket_scope_node \<times> scope_node) list op" where
  "listTicketScopes ref = bindT (resolveRef ref) (\<lambda>t. getT (\<lambda>db. scope_listForTicket db (t_id t)))"

definition scope_removeTicketScope :: "env \<Rightarrow> string \<Rightarrow> id \<Rightarrow> actor \<Rightarrow> (id \<times> id \<times> id) op" where
  "scope_removeTicketScope en ref nid actor =
     bindT (resolveRef ref) (\<lambda>t.
     bindT (getT (\<lambda>db. ticketScope_find db (t_id t) nid)) (\<lambda>found.
     bindT (throwIf (found = None) (DispatchError NOT_FOUND)) (\<lambda>_.
     bindT (ticketScope_delete (t_id t) nid) (\<lambda>_.
     bindT (ticketEvent en (t_id t) actor ''ticket.scope_unlinked'' [(''scope_node_id'', JStr nid)]) (\<lambda>ev.
     returnT (t_id t, nid, ev))))))"

record scope_summary =
  su_primary :: "(id \<times> string \<times> scope_node_type) option"
  su_counts :: "ticket_scope_relation \<Rightarrow> nat"
  su_total :: nat

definition ticketScopeSummary :: "string \<Rightarrow> scope_summary op" where
  "ticketScopeSummary ref = bindT (listTicketScopes ref) (\<lambda>links. returnT \<lparr>
     su_primary = map_option (\<lambda>(l, n). (sn_id n, sn_name n, sn_type n)) (find (\<lambda>(l, n). ts_relation l = ScPrimary) (rev links)),
     su_counts = (\<lambda>rel. length (filter (\<lambda>(l, n). ts_relation l = rel) links)), su_total = length links\<rparr>)"

text \<open>The synthetic scope of a repository that no node maps.\<close>

definition implicit_node_input :: "repository \<Rightarrow> scope_node_input" where
  "implicit_node_input r = \<lparr>ni_name = ''repo:'' @ r_name r, ni_type = NodeExternalDependency,
     ni_description = Some (''Implicit single-repo scope for unmapped repo '' @ [CHR 0x27] @ r_name r @ [CHR 0x27] @ ''.''),
     ni_risk_level = Medium, ni_owner = None, ni_tags = None, ni_lore_tags = None\<rparr>"

definition implicit_node :: "env \<Rightarrow> repository \<Rightarrow> actor \<Rightarrow> scope_node op" where
  "implicit_node en r actor =
     bindT (getT (\<lambda>db. find (\<lambda>n. sn_name n = ''repo:'' @ r_name r \<and> sn_type n = NodeExternalDependency) (node_list db))) (\<lambda>existing.
     case existing of Some n \<Rightarrow> returnT n | None \<Rightarrow> createScopeNode en (implicit_node_input r) actor)"

definition recordImplicitRepoScopes :: "env \<Rightarrow> id \<Rightarrow> id \<Rightarrow> actor \<Rightarrow> unit op" where
  "recordImplicitRepoScopes en tid rid actor =
     bindT (getT (\<lambda>db. scopesForRepo db rid \<noteq> [])) (\<lambda>mapped.
     bindT (getT (\<lambda>db. repo_findById db rid)) (\<lambda>repo.
     case (if mapped then None else repo) of
       None \<Rightarrow> returnT ()
     | Some r \<Rightarrow>
         bindT (implicit_node en r actor) (\<lambda>n.
         bindT (getT (\<lambda>db. ticketScope_find db tid (sn_id n))) (\<lambda>found.
         if found \<noteq> None then returnT ()
         else
           bindT (ticketScope_upsert \<lparr>ts_ticket_id = tid, ts_scope_node_id = sn_id n, ts_relation = ScImplicitRepo, ts_confidence = None,
             ts_reasons = Some [''unmapped repo '' @ [CHR 0x27] @ r_name r @ [CHR 0x27] @ '' targeted by ticket''],
             ts_created_at = en_now en, ts_updated_at = en_now en\<rparr>) (\<lambda>_.
           bindT (ticketEvent en tid actor ''ticket.scope_linked''
                    [(''scope_node_id'', JStr (sn_id n)), (''relation'', JStr ''implicit_repo'')]) (\<lambda>_.
           returnT ()))))))"

end
