(* ===== verification/Review.thy ===== *)
theory Review
  imports Ticket_Inv
begin

text \<open>
  The moves of the review gate (\<open>services/reviewGateService.ts\<close>) that do not read the landing
  records: the retry cap, reopening a merged or merging ticket for review, holding an approved
  ticket for a human, and reopening a won't-do ticket.
\<close>

definition capRetry :: "nat \<Rightarrow> nat \<Rightarrow> nat \<times> bool" where
  "capRetry currentAttemptCount maxAttempts =
     (let nextAttempt = currentAttemptCount + 1 in (nextAttempt, nextAttempt \<ge> maxAttempts))"

definition system_or_admin :: "actor \<Rightarrow> bool" where
  "system_or_admin actor = (a_type actor = System \<or> a_type actor = Admin)"

datatype reopen_cause = MergeConflict | MovedSinceReview | UnpinnedRepo | OtherCause

fun reopen_cause_name :: "reopen_cause \<Rightarrow> string" where
  "reopen_cause_name MergeConflict = ''merge_conflict''"
| "reopen_cause_name MovedSinceReview = ''moved_since_review''"
| "reopen_cause_name UnpinnedRepo = ''unpinned_repo''"
| "reopen_cause_name OtherCause = ''other''"

record reopen_input =
  ro_reason :: string
  ro_resolution :: string
  ro_cause :: "reopen_cause option"

definition reopenForReview :: "env \<Rightarrow> string \<Rightarrow> reopen_input \<Rightarrow> actor \<Rightarrow> (id \<times> ticket_status \<times> id) op" where
  "reopenForReview en ref inp actor =
     bindT (throwIf (\<not> system_or_admin actor) (DispatchError ACTOR_NOT_PERMITTED)) (\<lambda>_.
     let reason = js_trim (ro_reason inp); resolution = js_trim (ro_resolution inp);
         cause = (case ro_cause inp of None \<Rightarrow> MergeConflict | Some c \<Rightarrow> c) in
     bindT (throwIf (resolution = []) (DispatchError VALIDATION_ERROR)) (\<lambda>_.
     bindT (resolveRef ref) (\<lambda>t.
     bindT (throwIf (t_status t \<noteq> Done \<and> t_status t \<noteq> ReadyForMerge) (DispatchError ILLEGAL_TRANSITION)) (\<lambda>_.
     bindT (transition en ((sysmove (t_id t) actor InReview
              (if reason \<noteq> [] then reason else ''reopened_for_review'') [ReopenForReview])
              \<lparr>ti_expectedFromStatus := Some (t_status t)\<rparr>)) (\<lambda>res.
     bindT (getT (\<lambda>db. en_uuid en EvidenceId (length (db_evidence db)))) (\<lambda>eid.
     bindT (evidence_insert \<lparr>ev_id = eid, ev_ticket_id = t_id t, ev_ac_id = None, ev_repo_id = None,
              ev_decision_id = None, ev_type = ManualNote, ev_summary = resolution, ev_uri = None,
              ev_payload_json = None, ev_created_by = actor_label actor,
              ev_recorded_by = Some (a_type actor), ev_created_at = en_now en\<rparr>) (\<lambda>_.
     bindT (ticketEvent en (t_id t) actor ''ticket.reopened_for_review''
              [(''reason'', if reason \<noteq> [] then JStr reason else JNull), (''resolution'', JStr resolution),
               (''cause'', JStr (reopen_cause_name cause)),
               (''merge_conflict_resolved'', JBool (cause = MergeConflict)), (''evidence_id'', JStr eid)]) (\<lambda>ev.
     returnT (t_id t, t_status (tres_ticket res), ev)))))))))"

text \<open>\<open>/^[a-z][a-z0-9_]{0,63}$/\<close>\<close>

definition is_lower :: "char \<Rightarrow> bool" where
  "is_lower c = (let n = of_char c :: nat in 97 \<le> n \<and> n \<le> 122)"

definition reason_code_ok :: "string \<Rightarrow> bool" where
  "reason_code_ok s = (case s of [] \<Rightarrow> False
     | c # cs \<Rightarrow> is_lower c \<and> length cs \<le> 63 \<and> list_all (\<lambda>d. is_lower d \<or> is_dec d \<or> d = CHR ''_'') cs)"

definition holdForHuman :: "env \<Rightarrow> string \<Rightarrow> string \<Rightarrow> string \<Rightarrow> actor \<Rightarrow> transition_result op" where
  "holdForHuman en ref reasonCode reasonText actor =
     bindT (throwIf (\<not> system_or_admin actor) (DispatchError ACTOR_NOT_PERMITTED)) (\<lambda>_.
     let code = js_trim reasonCode; r = take 4000 (js_trim reasonText);
         reason = (if r = [] then code else r) in
     bindT (throwIf (\<not> reason_code_ok code) (DispatchError VALIDATION_ERROR)) (\<lambda>_.
     bindT (resolveRef ref) (\<lambda>t.
     bindT (throwIf (t_status t \<noteq> ReadyForMerge \<and> t_status t \<noteq> InTesting) (DispatchError ILLEGAL_TRANSITION)) (\<lambda>_.
     bindT (transition en ((sysmove (t_id t) actor Blocked (''held:'' @ code) [Park])
              \<lparr>ti_expectedFromStatus := Some (t_status t)\<rparr>)) (\<lambda>res.
     bindT (ticketEvent en (t_id t) actor ''ticket.blocked''
              [(''reason'', JStr reason), (''reason_code'', JStr code)]) (\<lambda>_.
     returnT res))))))"

datatype reopen_target = ReopenRefining | ReopenDraft

fun reopen_status :: "reopen_target \<Rightarrow> ticket_status" where
  "reopen_status ReopenRefining = Refining"
| "reopen_status ReopenDraft = Draft"

definition reopenFromWontDo :: "env \<Rightarrow> string \<Rightarrow> reopen_target \<Rightarrow> actor \<Rightarrow> transition_result op" where
  "reopenFromWontDo en ref to actor =
     bindT (resolveRef ref) (\<lambda>t.
     transition en ((sysmove (t_id t) actor (reopen_status to) ''reopened_from_wont_do'' [])
       \<lparr>ti_expectedFromStatus := Some Cancelled\<rparr>))"

section \<open>The lifecycle invariant\<close>

lemma frees_reopen [simp]: "frees_lease (reopen_status to)"
  by (cases to) simp_all

lemma healthy_reopenFromWontDo:
  assumes "healthy db" shows "wp (reopenFromWontDo en r to actor) (\<lambda>_. healthy) db"
  unfolding reopenFromWontDo_def wp_simps
  by (auto intro!: wp_transition_free [OF assms] on_view_refl healthy_keys [OF assms])

lemma healthy_holdForHuman:
  assumes "healthy db" shows "wp (holdForHuman en r code why actor) (\<lambda>_. healthy) db"
  unfolding holdForHuman_def Let_def wp_simps
  by (auto intro!: wp_transition_free [OF assms] on_view_refl healthy_keys [OF assms])

lemma resolve_ref_find:
  assumes "keys_ok db" and "resolve_ref db r = Some t"
  shows "ticket_findById db (t_id t) = Some t"
  using assms resolve_ref_mem [OF assms(2)]
  by (simp add: ticket_findById_def find_row_Some_iff keys_ok_def)

text \<open>A finished or approved ticket holds no lease, so reopening it cannot strand one.\<close>

lemma healthy_reopenForReview:
  assumes "healthy db" shows "wp (reopenForReview en r inp actor) (\<lambda>_. healthy) db"
proof -
  have moved: "wp (transition en (sysmove (t_id t) actor InReview why [ReopenForReview]
      \<lparr>ti_expectedFromStatus := Some (t_status t)\<rparr>)) (\<lambda>_. healthy) db"
    if t: "resolve_ref db r = Some t" "t_status t = Done \<or> t_status t = ReadyForMerge" for t why
  proof (rule healthy_transition [OF assms])
    obtain v where v: "view db (t_id t) = Some v" "v_status v = t_status t" "v_leased v = hasActiveForTicket db (t_id t)"
      using find_view [OF resolve_ref_find [OF healthy_keys [OF assms] t(1)]] by blast
    with healthy_sound [OF assms v(1)] show "\<not> hasActiveForTicket db (ti_ticketId (sysmove (t_id t) actor InReview why [ReopenForReview]
      \<lparr>ti_expectedFromStatus := Some (t_status t)\<rparr>))"
      using t(2) by (auto simp: sound_def)
  qed simp
  then show ?thesis
    unfolding reopenForReview_def Let_def wp_simps
    by (intro allI impI, intro wp_mono [OF moved]) (auto simp: wp_simps)
qed

end
