(* ===== verification/Landing_Status.thy ===== *)
theory Landing_Status
  imports Review
begin

text \<open>
  Per-repository landing (\<open>services/landingStatus.ts\<close>) and the reads of the review gate that the
  landing paths use: which approved revisions of a ticket have landed, which repositories
  carry a landing whatever happened to the approval since, the approval a landing acts on,
  and the state of required CI. All of it is derived from SYSTEM evidence rows and from the
  event log. \<open>coll\<close> is the collation key by which \<open>localeCompare\<close> orders repository names.
\<close>

section \<open>Commit ids and prefixes\<close>

definition REVIEW_PIN_PREFIX :: string where
  "REVIEW_PIN_PREFIX = ''gaffer-reviewed-commit:''"

definition LANDING_PREFIX :: string where
  "LANDING_PREFIX = ''gaffer-landed-commit:''"

definition REJECT_PIN_PREFIX :: string where
  "REJECT_PIN_PREFIX = ''gaffer-rejected-commit:''"

definition PR_LANDING_VIAS :: "string list" where
  "PR_LANDING_VIAS = [''pr'', ''pr-stale'', ''local-fallback'']"

text \<open>
  \<open>toLowerCase\<close> maps the upper-case letters of Latin-1 (the multiplication sign between them is
  none); the \<open>lower\<close> of SQL and its \<open>LIKE\<close> know the ASCII ones only.
\<close>

definition ascii_lower :: "char \<Rightarrow> char" where
  "ascii_lower c = (let n = of_char c :: nat in if n < 65 then c else if n \<le> 90 then char_of (n + 32) else c)"

definition to_lower :: "char \<Rightarrow> char" where
  "to_lower c = (let n = of_char c :: nat in
     if n < 192 then ascii_lower c else if n \<le> 222 \<and> n \<noteq> 215 then char_of (n + 32) else c)"

definition lower :: "string \<Rightarrow> string" where
  "lower s = map to_lower s"

definition sql_lower :: "string \<Rightarrow> string" where
  "sql_lower s = map ascii_lower s"

text \<open>Both flip one bit of a letter, which is how they are evaluated.\<close>

lemma ascii_lower_code [code]:
  "ascii_lower (Char b0 b1 b2 b3 b4 b5 b6 b7) =
     (if \<not> b7 \<and> b6 \<and> \<not> b5 \<and> (b0 \<or> b1 \<or> b2 \<or> b3 \<or> b4) \<and> \<not> (b4 \<and> b3 \<and> (b2 \<or> b1 \<and> b0))
      then Char b0 b1 b2 b3 b4 True b6 b7 else Char b0 b1 b2 b3 b4 b5 b6 b7)"
  by (cases b0; cases b1; cases b2; cases b3; cases b4; cases b5; cases b6; cases b7)
    (simp_all add: ascii_lower_def char_of_def bit_0)

lemma to_lower_code [code]:
  "to_lower (Char b0 b1 b2 b3 b4 b5 b6 b7) =
     (if b7 then if b6 \<and> \<not> b5 \<and> \<not> (b0 \<and> b1 \<and> b2 \<and> b4) then Char b0 b1 b2 b3 b4 True b6 b7 else Char b0 b1 b2 b3 b4 b5 b6 b7
      else ascii_lower (Char b0 b1 b2 b3 b4 b5 b6 b7))"
  by (cases b0; cases b1; cases b2; cases b3; cases b4; cases b5; cases b6; cases b7)
    (simp_all add: to_lower_def ascii_lower_code char_of_def bit_0)

text \<open>\<open>SHA_RE\<close>: 40 or 64 lower-case hex digits.\<close>

definition full_sha :: "string \<Rightarrow> bool" where
  "full_sha s = ((length s = 40 \<or> length s = 64) \<and> list_all is_lower_hex s)"

definition shaOf :: "string option \<Rightarrow> string \<Rightarrow> string option" where
  "shaOf uri prefix = (case uri of None \<Rightarrow> None | Some s \<Rightarrow>
     if take (length prefix) s = prefix \<and> full_sha (lower (drop (length prefix) s))
     then Some (lower (drop (length prefix) s)) else None)"

text \<open>\<open>uri LIKE 'prefix%'\<close>, which ignores the case of ASCII letters; NULL matches nothing.\<close>

definition like_prefix :: "string \<Rightarrow> string option \<Rightarrow> bool" where
  "like_prefix prefix uri = (case uri of None \<Rightarrow> False
     | Some s \<Rightarrow> sql_lower (take (length prefix) s) = sql_lower prefix)"

section \<open>Pins and landings\<close>

text \<open>The SYSTEM commit rows of a ticket that name a repository, in row order.\<close>

definition system_commits :: "db \<Rightarrow> id \<Rightarrow> string \<Rightarrow> evidence list" where
  "system_commits db tid prefix = filter (\<lambda>e. ev_ticket_id e = tid \<and> ev_type e = Commit
     \<and> ev_recorded_by e = Some System \<and> ev_repo_id e \<noteq> None \<and> like_prefix prefix (ev_uri e))
     (db_evidence db)"

definition evidence_repo :: "db \<Rightarrow> evidence \<Rightarrow> repository option" where
  "evidence_repo db e = Option.bind (ev_repo_id e) (repo_findById db)"

definition recordedLandingRepos :: "db \<Rightarrow> id \<Rightarrow> string list" where
  "recordedLandingRepos db tid = sort (remdups (concat (map (\<lambda>e. case evidence_repo db e of
     None \<Rightarrow> [] | Some r \<Rightarrow> [r_name r]) (system_commits db tid LANDING_PREFIX))))"

definition json_text :: "string \<Rightarrow> json option \<Rightarrow> string option" where
  "json_text k p = (case Option.bind p (json_field k) of Some (JStr s) \<Rightarrow> Some s | _ \<Rightarrow> None)"

definition via_of :: "evidence \<Rightarrow> string" where
  "via_of e = (case json_text ''via'' (ev_payload_json e) of None \<Rightarrow> [] | Some v \<Rightarrow> v)"

definition APPROVAL_PATH :: "string list" where
  "APPROVAL_PATH = [''in_testing'', ''ready_for_merge'', ''blocked'', ''done'']"

definition is_transition :: "id \<Rightarrow> work_event \<Rightarrow> bool" where
  "is_transition tid e = (we_entity_type e = ''ticket'' \<and> we_entity_id e = tid
     \<and> we_event_type e = ''ticket.transitioned'')"

text \<open>The last transition off the approval's path, by row.\<close>

definition last_off_path :: "db \<Rightarrow> id \<Rightarrow> work_event option" where
  "last_off_path db tid = find (\<lambda>e. is_transition tid e \<and> (case json_text ''to'' (we_payload e) of
     None \<Rightarrow> False | Some s \<Rightarrow> s \<notin> set APPROVAL_PATH)) (rev (db_events db))"

definition stale :: "db \<Rightarrow> id \<Rightarrow> instant \<Rightarrow> bool" where
  "stale db tid pinAt = (case last_off_path db tid of
     None \<Rightarrow> False
   | Some e \<Rightarrow> if json_text ''to'' (we_payload e) = Some ''in_review'' then we_created_at e > pinAt
               else we_created_at e \<ge> pinAt)"

definition nullif_empty :: "string option \<Rightarrow> string option" where
  "nullif_empty v = (if v = Some [] then None else v)"

definition find_link :: "db \<Rightarrow> id \<Rightarrow> id \<Rightarrow> ticket_repo option" where
  "find_link db tid rid = find (\<lambda>l. tr_ticket_id l = tid \<and> tr_repo_id l = rid) (db_ticket_repos db)"

definition landing_branch :: "db \<Rightarrow> id \<Rightarrow> id \<Rightarrow> string option" where
  "landing_branch db tid rid =
     orElse (nullif_empty (Option.bind (find_link db tid rid) tr_branch_name))
       (orElse (nullif_empty (Option.bind (delivery_find db tid rid) rd_branch_name))
               (Option.bind (ticket_findById db tid) t_branch_name))"

definition landing_pr :: "db \<Rightarrow> id \<Rightarrow> id \<Rightarrow> string option" where
  "landing_pr db tid rid =
     orElse (nullif_empty (Option.bind (delivery_find db tid rid) rd_pr_url))
       (nullif_empty (Option.bind (find_link db tid rid) tr_pr_url))"

text \<open>The vias a landing of exactly this commit in this repository was recorded with.\<close>

definition landed_vias :: "db \<Rightarrow> id \<Rightarrow> id \<Rightarrow> string \<Rightarrow> string list" where
  "landed_vias db tid rid sha = map via_of (filter (\<lambda>e. ev_repo_id e = Some rid
     \<and> shaOf (ev_uri e) LANDING_PREFIX = Some sha) (system_commits db tid LANDING_PREFIX))"

definition isLanded :: "db \<Rightarrow> id \<Rightarrow> id \<Rightarrow> string \<Rightarrow> string option \<Rightarrow> bool" where
  "isLanded db tid rid sha prUrl = (
     let vias = landed_vias db tid rid sha in
     vias \<noteq> [] \<and> (truthy prUrl \<longrightarrow> list_ex (\<lambda>v. v \<in> set PR_LANDING_VIAS) vias))"

section \<open>The landing status\<close>

record landing_repo_state =
  lr_repoId :: id
  lr_repo :: string
  lr_sha :: string
  lr_pinned :: bool
  lr_landed :: bool
  lr_prUrl :: "string option"
  lr_localPath :: "string option"
  lr_defaultBranch :: string
  lr_branch :: "string option"

record landing_status =
  ls_repos :: "landing_repo_state list"
  ls_landed :: nat
  ls_pending :: nat
  ls_partial :: bool
  ls_unpinned :: "string list"

definition repo_state :: "db \<Rightarrow> id \<Rightarrow> repository \<Rightarrow> string option \<Rightarrow> landing_repo_state" where
  "repo_state db tid r pin = \<lparr>lr_repoId = r_id r, lr_repo = r_name r,
     lr_sha = (case pin of None \<Rightarrow> [] | Some sha \<Rightarrow> sha), lr_pinned = (pin \<noteq> None),
     lr_landed = (case pin of None \<Rightarrow> False
                  | Some sha \<Rightarrow> isLanded db tid (r_id r) sha (landing_pr db tid (r_id r))),
     lr_prUrl = landing_pr db tid (r_id r), lr_localPath = r_local_path r,
     lr_defaultBranch = base_branch r, lr_branch = landing_branch db tid (r_id r)\<rparr>"

text \<open>The review pins with their repository, newest first.\<close>

definition review_pins :: "db \<Rightarrow> id \<Rightarrow> (evidence \<times> repository) list" where
  "review_pins db tid = concat (map (\<lambda>e. case evidence_repo db e of None \<Rightarrow> [] | Some r \<Rightarrow> [(e, r)])
     (rev (sort_key ev_created_at (system_commits db tid REVIEW_PIN_PREFIX))))"

text \<open>The latest pin per repository, unless it is stale or names no commit.\<close>

fun pin_states :: "db \<Rightarrow> id \<Rightarrow> id list \<Rightarrow> (evidence \<times> repository) list \<Rightarrow> landing_repo_state list" where
  "pin_states db tid seen [] = []"
| "pin_states db tid seen ((e, r) # ps) =
     (if r_id r \<in> set seen then pin_states db tid seen ps
      else if stale db tid (ev_created_at e) \<or> shaOf (ev_uri e) REVIEW_PIN_PREFIX = None
        then pin_states db tid (r_id r # seen) ps
      else repo_state db tid r (shaOf (ev_uri e) REVIEW_PIN_PREFIX) # pin_states db tid (r_id r # seen) ps)"

text \<open>The active write repositories of the ticket.\<close>

definition write_repos :: "db \<Rightarrow> id \<Rightarrow> repository list" where
  "write_repos db tid = concat (map (\<lambda>l.
     if tr_ticket_id l = tid \<and> tr_access l = AccWrite \<and> isActiveTicketRepoRelation (tr_relation l)
     then (case repo_findById db (tr_repo_id l) of None \<Rightarrow> [] | Some r \<Rightarrow> [r]) else []) (db_ticket_repos db))"

definition computeLandingStatus :: "(string \<Rightarrow> string) \<Rightarrow> db \<Rightarrow> id \<Rightarrow> landing_status" where
  "computeLandingStatus coll db tid = (
     let pinned = pin_states db tid [] (review_pins db tid);
         missing = (if pinned = [] then []
                    else filter (\<lambda>r. r_id r \<notin> lr_repoId ` set pinned) (write_repos db tid));
         repos = sort_key (\<lambda>r. coll (lr_repo r)) (pinned @ map (\<lambda>r. repo_state db tid r None) missing);
         landed = length (filter lr_landed repos) in
     \<lparr>ls_repos = repos, ls_landed = landed, ls_pending = length repos - landed,
      ls_partial = (landed > 0 \<and> length repos - landed > 0), ls_unpinned = sort (map r_name missing)\<rparr>)"

section \<open>Approval and required CI\<close>

definition approvalRef :: "db \<Rightarrow> id \<Rightarrow> id option" where
  "approvalRef db tid = map_option we_id (find (\<lambda>e. is_transition tid e
     \<and> json_text ''to'' (we_payload e) = Some ''ready_for_merge'') (rev (db_events db)))"

record ci_status_result =
  ci_required :: bool
  ci_state :: "string option"
  ci_commit :: "string option"

definition ci_results :: "db \<Rightarrow> id \<Rightarrow> work_event list" where
  "ci_results db tid = filter (\<lambda>e. we_entity_type e = ''ticket'' \<and> we_entity_id e = tid
     \<and> we_event_type e = ''ticket.ci_result'') (rev (db_events db))"

definition starts_with :: "string \<Rightarrow> string \<Rightarrow> bool" where
  "starts_with s p = (take (length p) s = p)"

definition ci_hit :: "string \<Rightarrow> work_event \<Rightarrow> bool" where
  "ci_hit c e = (case json_text ''commit'' (we_payload e) of None \<Rightarrow> False
     | Some rc \<Rightarrow> lower rc \<noteq> [] \<and> (starts_with c (lower rc) \<or> starts_with (lower rc) c))"

definition ciStatus :: "db \<Rightarrow> id \<Rightarrow> string option \<Rightarrow> ci_status_result" where
  "ciStatus db tid commit = (
     let rows = ci_results db tid;
         mark = list_ex (\<lambda>e. we_entity_type e = ''ticket'' \<and> we_entity_id e = tid
           \<and> we_event_type e = ''ticket.ci_required'') (db_events db) in
     if rows = [] then \<lparr>ci_required = mark, ci_state = None, ci_commit = commit\<rparr>
     else let c = (case commit of None \<Rightarrow> None | Some s \<Rightarrow> if s = [] then None else Some (lower s));
              hit = (case c of None \<Rightarrow> Some (hd rows) | Some s \<Rightarrow> find (ci_hit s) rows) in
       \<lparr>ci_required = True, ci_state = Option.bind hit (\<lambda>e. json_text ''state'' (we_payload e)),
        ci_commit = (case c of None \<Rightarrow> json_text ''commit'' (we_payload (hd rows)) | Some s \<Rightarrow> Some s)\<rparr>)"

end
