(* ===== verification/Autonomy.thy ===== *)
theory Autonomy
  imports Landing_Status
begin

text \<open>
  The decisions behind an approval without a person: the observed risk of a delivery's real
  diff against the risk its ticket declares (\<open>services/observedRisk.ts\<close>), the stored autonomy
  policies beside the operator's flags (\<open>services/autonomyPolicyService.ts\<close>), and whether the
  independent tester gates a ticket (\<open>util/testingLane.ts\<close>). All of it is pure; \<open>process_env\<close> is
  \<open>process.env\<close>. Characters outside Latin-1 in a message are written as the UTF-8 bytes the
  database stores.
\<close>

type_synonym process_env = "string \<Rightarrow> string option"

section \<open>Flags\<close>

definition env_text :: "string option \<Rightarrow> string" where
  "env_text v = lower (js_trim (case v of None \<Rightarrow> [] | Some s \<Rightarrow> s))"

definition envFlagOn :: "string option \<Rightarrow> bool" where
  "envFlagOn value = (env_text value \<in> {''1'', ''true'', ''yes'', ''on''})"

datatype autonomy_mode = ModeOff | ModeRecommend | ModeAuto

datatype autonomy_gate = GateApprove | GateMerge | GateMemory

type_synonym policy_lookup = "id \<Rightarrow> risk_level \<Rightarrow> autonomy_gate \<Rightarrow> autonomy_mode option"

definition policyGrantsAuto :: "policy_lookup \<Rightarrow> id list \<Rightarrow> risk_level \<Rightarrow> autonomy_gate \<Rightarrow> bool" where
  "policyGrantsAuto lookup repoIds riskLevel gate =
     (if repoIds = [] then False
      else list_all (\<lambda>repoId. lookup repoId riskLevel gate = Some ModeAuto) repoIds)"

fun envAllowsAuto :: "autonomy_gate \<Rightarrow> process_env \<Rightarrow> bool" where
  "envAllowsAuto GateApprove pe = envFlagOn (pe ''DISPATCH_ALLOW_AGENT_APPROVE'')"
| "envAllowsAuto GateMerge pe = (envFlagOn (pe ''AUTO_MERGE'') \<and> envFlagOn (pe ''MERGE_ON_AGENT_REVIEW''))"
| "envAllowsAuto GateMemory pe = envFlagOn (pe ''MEMORY_AUTO_APPROVE'')"

definition isAutonomyAllowed ::
  "policy_lookup \<Rightarrow> id list \<Rightarrow> risk_level \<Rightarrow> autonomy_gate \<Rightarrow> process_env \<Rightarrow> bool" where
  "isAutonomyAllowed lookup repoIds riskLevel gate pe =
     (envAllowsAuto gate pe \<or> policyGrantsAuto lookup repoIds riskLevel gate)"

section \<open>Observed risk\<close>

datatype risk_kind = SensitivePath | DependencyChange | LargeDeletion | TestModified

datatype risk_severity = SevHigh | SevMedium

record risk_annotation =
  ra_kind :: risk_kind
  ra_severity :: risk_severity
  ra_detail :: string

record repo_diff =
  df_repo :: string
  df_files :: int
  df_additions :: int
  df_deletions :: int
  df_unavailable :: bool
  df_riskAnnotations :: "risk_annotation list"

record observed_risk =
  ob_level :: risk_level
  ob_determinate :: bool
  ob_reasons :: "string list"
  ob_files :: int
  ob_lines :: int
  ob_holds :: "string list"

definition intEnv :: "process_env \<Rightarrow> string \<Rightarrow> int \<Rightarrow> int" where
  "intEnv pe key fallback = (case parseInt10 (case pe key of None \<Rightarrow> [] | Some s \<Rightarrow> s) of
     None \<Rightarrow> fallback | Some n \<Rightarrow> if n > 0 then n else fallback)"

record size_thresholds =
  st_filesMed :: int
  st_filesHigh :: int
  st_linesMed :: int
  st_linesHigh :: int

definition sizeThresholds :: "process_env \<Rightarrow> size_thresholds" where
  "sizeThresholds pe = \<lparr>
     st_filesMed = intEnv pe ''DISPATCH_OBSERVED_RISK_FILES_MEDIUM'' 10,
     st_filesHigh = intEnv pe ''DISPATCH_OBSERVED_RISK_FILES_HIGH'' 25,
     st_linesMed = intEnv pe ''DISPATCH_OBSERVED_RISK_LINES_MEDIUM'' 200,
     st_linesHigh = intEnv pe ''DISPATCH_OBSERVED_RISK_LINES_HIGH'' 600\<rparr>"

definition maxLevel :: "risk_level \<Rightarrow> risk_level \<Rightarrow> risk_level" where
  "maxLevel a b = (if riskRank b > riskRank a then b else a)"

definition em_dash :: string where
  "em_dash = [CHR 0xE2, CHR 0x80, CHR 0x94]"

text \<open>The body of the loop over one repository's annotations.\<close>

definition note_annotation :: "string \<Rightarrow> observed_risk \<Rightarrow> risk_annotation \<Rightarrow> observed_risk" where
  "note_annotation repo ob ann = (case ra_kind ann of
     SensitivePath \<Rightarrow> ob\<lparr>ob_level := maxLevel (ob_level ob) High,
                         ob_reasons := ob_reasons ob @ [repo @ '': '' @ ra_detail ann]\<rparr>
   | TestModified \<Rightarrow>
       let sev = (if ra_severity ann = SevHigh then High else Medium);
           reason = repo @ '': tests modified '' @ em_dash @ '' '' @ ra_detail ann in
       ob\<lparr>ob_level := maxLevel (ob_level ob) sev, ob_reasons := ob_reasons ob @ [reason],
          ob_holds := ob_holds ob @ (if sev = High then [reason] else [])\<rparr>
   | _ \<Rightarrow> ob\<lparr>ob_level := maxLevel (ob_level ob) Medium,
             ob_reasons := ob_reasons ob @ [repo @ '': '' @ ra_detail ann]\<rparr>)"

definition note_repo :: "observed_risk \<Rightarrow> repo_diff \<Rightarrow> observed_risk" where
  "note_repo ob r = foldl (note_annotation (df_repo r))
     (ob\<lparr>ob_files := ob_files ob + df_files r,
         ob_lines := ob_lines ob + (df_additions r + df_deletions r)\<rparr>) (df_riskAnnotations r)"

definition size_text :: "observed_risk \<Rightarrow> string" where
  "size_text ob = '' change ('' @ show_int (ob_files ob) @ '' files, '' @ show_int (ob_lines ob) @ '' lines)''"

definition note_size :: "size_thresholds \<Rightarrow> observed_risk \<Rightarrow> observed_risk" where
  "note_size t ob =
     (if ob_files ob \<ge> st_filesHigh t \<or> ob_lines ob \<ge> st_linesHigh t
      then ob\<lparr>ob_level := maxLevel (ob_level ob) High, ob_reasons := ob_reasons ob @ [''large'' @ size_text ob]\<rparr>
      else if ob_files ob \<ge> st_filesMed t \<or> ob_lines ob \<ge> st_linesMed t
      then ob\<lparr>ob_level := maxLevel (ob_level ob) Medium, ob_reasons := ob_reasons ob @ [''sizeable'' @ size_text ob]\<rparr>
      else ob)"

definition nothing_observed :: observed_risk where
  "nothing_observed = \<lparr>ob_level = Low, ob_determinate = False, ob_reasons = [], ob_files = 0, ob_lines = 0,
     ob_holds = []\<rparr>"

definition observedRisk :: "process_env \<Rightarrow> repo_diff list \<Rightarrow> observed_risk" where
  "observedRisk pe repos = (
     let ob = note_size (sizeThresholds pe) (foldl note_repo nothing_observed repos);
         determinate = (repos \<noteq> [] \<and> list_all (\<lambda>r. \<not> df_unavailable r) repos) in
     ob\<lparr>ob_determinate := determinate,
        ob_reasons := ob_reasons ob @ (if determinate then []
          else if repos = [] then [''no write-repo diff available to observe'']
          else [''diff unavailable for at least one write repo''])\<rparr>)"

definition observedRiskCeiling :: "process_env \<Rightarrow> risk_level option" where
  "observedRiskCeiling pe = (
     let raw = env_text (pe ''DISPATCH_OBSERVED_RISK_CEILING'') in
     if raw = ''low'' then Some Low else if raw = ''medium'' then Some Medium
     else if raw = ''high'' then Some High else if raw = ''critical'' then Some Critical else None)"

definition shouldEscalate :: "process_env \<Rightarrow> observed_risk \<Rightarrow> risk_level \<Rightarrow> bool" where
  "shouldEscalate pe observed declared =
     (if \<not> ob_determinate observed then True
      else if ob_holds observed \<noteq> [] then True
      else if riskRank (ob_level observed) > riskRank declared then True
      else case observedRiskCeiling pe of None \<Rightarrow> False
           | Some limit \<Rightarrow> riskRank (ob_level observed) \<ge> riskRank limit)"

definition withRunnerIntegrityHolds :: "observed_risk \<Rightarrow> string list \<Rightarrow> observed_risk" where
  "withRunnerIntegrityHolds observed holds = (if holds = [] then observed
     else observed\<lparr>ob_level := High, ob_reasons := ob_reasons observed @ holds,
                   ob_holds := ob_holds observed @ holds\<rparr>)"

section \<open>The tester lane\<close>

datatype testing_lane_mode = LaneOn | LaneOff | LaneAuto

definition testingLaneMode :: "process_env \<Rightarrow> testing_lane_mode" where
  "testingLaneMode pe = (
     let raw = env_text (pe ''GAFFER_TESTING'') in
     if raw = [] \<or> raw = ''auto'' then LaneAuto
     else if raw \<in> {''1'', ''true'', ''yes'', ''on''} then LaneOn else LaneOff)"

definition isTestingEnabled :: "process_env \<Rightarrow> bool" where
  "isTestingEnabled pe = (testingLaneMode pe = LaneOn)"

record tester_lane_decision =
  tl_mode :: testing_lane_mode
  tl_on :: bool
  tl_missing_test_command :: "string list"

definition testerLaneFor :: "testing_lane_mode \<Rightarrow> (string \<times> string option) list \<Rightarrow> tester_lane_decision" where
  "testerLaneFor mode writeRepos = (
     let missing = map fst (filter (\<lambda>(name, cmd). js_trim (case cmd of None \<Rightarrow> [] | Some s \<Rightarrow> s) = []) writeRepos) in
     if mode \<noteq> LaneAuto then \<lparr>tl_mode = mode, tl_on = (mode = LaneOn), tl_missing_test_command = missing\<rparr>
     else \<lparr>tl_mode = mode, tl_on = (writeRepos \<noteq> [] \<and> missing = []), tl_missing_test_command = missing\<rparr>)"

datatype provenance = ByAgent | ByHuman | BySystem

fun provenance_name :: "provenance \<Rightarrow> string" where
  "provenance_name ByAgent = ''agent''"
| "provenance_name ByHuman = ''human''"
| "provenance_name BySystem = ''system''"

definition testerProvenance :: "actor \<Rightarrow> provenance" where
  "testerProvenance actor = (case a_type actor of AgentActor \<Rightarrow> ByAgent | System \<Rightarrow> BySystem
     | Human \<Rightarrow> ByHuman | Admin \<Rightarrow> ByHuman)"

text \<open>\<open>testerLane\<close>: the lane of a ticket, from its active write repositories.\<close>

definition testerLane :: "db \<Rightarrow> ticket \<Rightarrow> testing_lane_mode \<Rightarrow> tester_lane_decision" where
  "testerLane db t mode = testerLaneFor mode (map (\<lambda>(tr, r). (r_name r, r_test_command r)) (active_write_links db (t_id t)))"

section \<open>More change never looks safer\<close>

text \<open>The order in which observations accumulate.\<close>

definition observed_le :: "observed_risk \<Rightarrow> observed_risk \<Rightarrow> bool" where
  "observed_le a b = (riskRank (ob_level a) \<le> riskRank (ob_level b) \<and> ob_files a \<le> ob_files b \<and> ob_lines a \<le> ob_lines b
     \<and> set (ob_holds a) \<subseteq> set (ob_holds b))"

lemma observed_le_refl: "observed_le a a"
  by (simp add: observed_le_def)

lemma observed_le_trans: "observed_le a b \<Longrightarrow> observed_le b c \<Longrightarrow> observed_le a c"
  by (auto simp: observed_le_def)

lemma observed_le_foldl:
  "(\<And>a x. x \<in> set xs \<Longrightarrow> observed_le a (f a x)) \<Longrightarrow> observed_le a (foldl f a xs)"
proof (induction xs arbitrary: a)
  case (Cons x xs)
  have "observed_le a (f a x)" using Cons.prems by simp
  moreover have "observed_le (f a x) (foldl f (f a x) xs)" using Cons by simp
  ultimately show ?case by (simp add: observed_le_trans)
qed (simp add: observed_le_refl)

lemma rank_maxLevel [simp]: "riskRank (maxLevel a b) = max (riskRank a) (riskRank b)"
  by (simp add: maxLevel_def)

lemma note_annotation_grows: "observed_le ob (note_annotation repo ob ann)"
  by (simp add: note_annotation_def observed_le_def Let_def split: risk_kind.split) auto

lemma note_repo_grows:
  assumes "df_files r \<ge> 0" and "df_additions r + df_deletions r \<ge> 0"
  shows "observed_le ob (note_repo ob r)"
  unfolding note_repo_def
  by (rule observed_le_trans [OF _ observed_le_foldl [OF note_annotation_grows]])
    (use assms in \<open>simp add: observed_le_def\<close>)

lemma note_size_grows: "observed_le a b \<Longrightarrow> observed_le (note_size t a) (note_size t b)"
  by (auto simp: observed_le_def note_size_def)

lemma observedRisk_grows:
  assumes "\<And>r. r \<in> set extra \<Longrightarrow> df_files r \<ge> 0 \<and> df_additions r + df_deletions r \<ge> 0"
  shows "observed_le (observedRisk pe repos) (observedRisk pe (repos @ extra))"
proof -
  have "observed_le (foldl note_repo nothing_observed repos) (foldl note_repo nothing_observed (repos @ extra))"
    unfolding foldl_append using assms by (blast intro: observed_le_foldl note_repo_grows)
  then have "observed_le (note_size t (foldl note_repo nothing_observed repos))
      (note_size t (foldl note_repo nothing_observed (repos @ extra)))" for t by (rule note_size_grows)
  then show ?thesis unfolding observedRisk_def Let_def observed_le_def by simp
qed

text \<open>
  C38. More change never looks safer. When the observed risk of a delivery holds its automatic
  approval for a person, the same delivery with further changed repositories is held too: a
  larger diff can only raise the level, add holds or stay indeterminate, for every declared
  risk and every setting of the thresholds and of the ceiling.
\<close>

theorem escalation_monotone:
  assumes "shouldEscalate pe (observedRisk pe repos) declared" and "repos \<noteq> []"
    and "\<forall>r \<in> set extra. df_files r \<ge> 0 \<and> df_additions r + df_deletions r \<ge> 0"
  shows "shouldEscalate pe (observedRisk pe (repos @ extra)) declared"
proof -
  have le: "observed_le (observedRisk pe repos) (observedRisk pe (repos @ extra))"
    using assms(3) by (intro observedRisk_grows) blast
  have "ob_determinate (observedRisk pe (repos @ extra)) \<Longrightarrow> ob_determinate (observedRisk pe repos)"
    using assms(2) by (simp add: observedRisk_def Let_def)
  then show ?thesis using le assms(1)
    by (auto simp: shouldEscalate_def observed_le_def split: option.splits if_splits)
qed

definition sample_diff :: "string \<Rightarrow> int \<Rightarrow> repo_diff" where
  "sample_diff repo n = \<lparr>df_repo = repo, df_files = 1, df_additions = n, df_deletions = 0, df_unavailable = False,
     df_riskAnnotations = []\<rparr>"

theorem escalation_monotone_witness:
  "shouldEscalate (\<lambda>_. None) (observedRisk (\<lambda>_. None) ([sample_diff ''app'' 300] @ [sample_diff ''lib'' 1])) Low"
proof (rule escalation_monotone)
  show "shouldEscalate (\<lambda>_. None) (observedRisk (\<lambda>_. None) [sample_diff ''app'' 300]) Low" by code_simp
qed (simp_all add: sample_diff_def)

end
