(* ===== verification/Landing.thy ===== *)
theory Landing
  imports Landing_Status
begin

text \<open>
  Landing, rejection and required CI (\<open>services/reviewGateService.ts\<close> with the facade of
  \<open>services/reviewLifecycleService.ts\<close>): starting and recording a landing, marking a ticket
  merged, sending a ticket back, cancelling it, the board move, and CI results. The git
  probes the service is constructed with are fields of \<open>landing_env\<close>; a probe that throws
  counts as the answer the code falls back to. Operations the code does not wrap in one
  transaction are procedures: a sequence of transactions in which a throw keeps what the
  earlier ones committed.
\<close>

section \<open>Probes and procedures\<close>

record reviewed_head =
  rh_repoId :: id
  rh_repo :: string
  rh_branch :: string
  rh_sha :: string

record approval_shas =
  as_deliverySha :: "string option"
  as_mergeSha :: "string option"

record landing_env =
  le_collate :: "string \<Rightarrow> string"
  le_landedOnDefault :: "(id \<Rightarrow> string \<Rightarrow> bool) option"
  le_changeOnRefs :: "(id \<Rightarrow> string \<Rightarrow> string list \<Rightarrow> bool option) option"
  le_reviewedHeads :: "db \<Rightarrow> ticket \<Rightarrow> reviewed_head list"
  le_approvalShas :: "db \<Rightarrow> ticket \<Rightarrow> approval_shas option"
  le_maxAttempts :: nat

type_synonym 'a proc = "(db, thrown, 'a) txs"

definition approvalUnchanged :: "string option \<Rightarrow> string option \<Rightarrow> bool option" where
  "approvalUnchanged deliverySha mergeSha =
     (if \<not> truthy deliverySha \<or> \<not> truthy mergeSha then None else Some (deliverySha = mergeSha))"

definition computeApprovedUnchanged :: "landing_env \<Rightarrow> db \<Rightarrow> ticket \<Rightarrow> bool option" where
  "computeApprovedUnchanged le db t = (case le_approvalShas le db t of None \<Rightarrow> None
     | Some s \<Rightarrow> approvalUnchanged (as_deliverySha s) (as_mergeSha s))"

definition reviewerPatch :: "ticket \<Rightarrow> actor \<Rightarrow> string option" where
  "reviewerPatch t actor = (if t_reviewer t \<noteq> None then None
     else if a_type actor \<noteq> Human \<and> a_type actor \<noteq> Admin then None
     else if truthy (a_id actor) then a_id actor else None)"

text \<open>A SYSTEM commit row written by the service itself.\<close>

definition insert_commit :: "env \<Rightarrow> id \<Rightarrow> id \<Rightarrow> string \<Rightarrow> string \<Rightarrow> json \<Rightarrow> unit op" where
  "insert_commit en tid rid summary uri payload =
     bindT (getT (\<lambda>db. en_uuid en EvidenceId (length (db_evidence db)))) (\<lambda>eid.
     evidence_insert \<lparr>ev_id = eid, ev_ticket_id = tid, ev_ac_id = None, ev_repo_id = Some rid,
       ev_decision_id = None, ev_type = Commit, ev_summary = summary, ev_uri = Some uri,
       ev_payload_json = Some payload, ev_created_by = ''dispatch'', ev_recorded_by = Some System,
       ev_created_at = en_now en\<rparr>)"

definition number_text :: "ticket \<Rightarrow> string" where
  "number_text t = (case t_number t of None \<Rightarrow> ''null'' | Some n \<Rightarrow> show_nat n)"

section \<open>Starting a landing\<close>

record landing_input =
  li_repo :: string
  li_commit :: string
  li_approval :: "string option"
  li_via :: "string option"

definition ci_red :: "string option list \<Rightarrow> bool" where
  "ci_red states = (list_ex (\<lambda>s. s \<noteq> None \<and> s \<noteq> Some ''pass'') states \<or> \<not> list_ex (\<lambda>s. s = Some ''pass'') states)"

definition find_repo :: "landing_status \<Rightarrow> string \<Rightarrow> landing_repo_state option" where
  "find_repo st repo = find (\<lambda>r. lr_repoId r = repo \<or> lr_repo r = repo) (ls_repos st)"

definition landing_sha :: "string \<Rightarrow> string" where
  "landing_sha commit = lower (js_trim commit)"

definition beginLanding ::
  "env \<Rightarrow> landing_env \<Rightarrow> string \<Rightarrow> landing_input \<Rightarrow> actor \<Rightarrow> (id \<times> id \<times> string \<times> id option \<times> id) op" where
  "beginLanding en le ref inp actor =
     bindT (throwIf (\<not> system_or_admin actor) (DispatchError ACTOR_NOT_PERMITTED)) (\<lambda>_.
     let sha = landing_sha (li_commit inp) in
     bindT (throwIf (\<not> full_sha sha) (DispatchError VALIDATION_ERROR)) (\<lambda>_.
     bindT (resolveRef ref) (\<lambda>t.
     bindT (throwIf (t_status t \<noteq> ReadyForMerge) (DispatchError STATE_CONFLICT)) (\<lambda>_.
     bindT (getT (\<lambda>db. approvalRef db (t_id t))) (\<lambda>approval.
     bindT (throwIf (truthy (li_approval inp) \<and> approval \<noteq> li_approval inp) (DispatchError STATE_CONFLICT)) (\<lambda>_.
     bindT (getT (\<lambda>db. computeLandingStatus (le_collate le) db (t_id t))) (\<lambda>landing.
     let target = find_repo landing (li_repo inp) in
     bindT (throwIf (ls_repos landing \<noteq> [] \<and> (case target of None \<Rightarrow> True | Some r \<Rightarrow> lr_sha r \<noteq> sha))
              (DispatchError STATE_CONFLICT)) (\<lambda>_.
     bindT (getT (\<lambda>db.
        let pins = map lr_sha (filter lr_pinned (ls_repos landing)) in
        ci_required (ciStatus db (t_id t) None) \<and>
        ci_red (map (\<lambda>c. ci_state (ciStatus db (t_id t) (Some c))) (if pins \<noteq> [] then pins else [sha])))) (\<lambda>red.
     bindT (throwIf red (DispatchError STATE_CONFLICT)) (\<lambda>_.
     let repo = (case target of None \<Rightarrow> li_repo inp | Some r \<Rightarrow> lr_repo r);
         repoId = (case target of None \<Rightarrow> li_repo inp | Some r \<Rightarrow> lr_repoId r) in
     bindT (ticketEvent en (t_id t) actor ''ticket.landing_started''
              [(''repo'', JStr repo), (''repo_id'', JStr repoId), (''commit'', JStr sha),
               (''via'', jopt (li_via inp)), (''approval'', jopt approval)]) (\<lambda>ev.
     returnT (t_id t, repoId, sha, approval, ev))))))))))))"

definition startedOnApproval :: "db \<Rightarrow> id \<Rightarrow> string \<Rightarrow> string \<Rightarrow> (id \<times> string) option" where
  "startedOnApproval db tid repo sha = (case approvalRef db tid of
     None \<Rightarrow> None
   | Some approval \<Rightarrow>
       if approval = [] then None
       else case find (\<lambda>e. we_entity_type e = ''ticket'' \<and> we_entity_id e = tid
               \<and> we_event_type e = ''ticket.landing_started''
               \<and> json_text ''approval'' (we_payload e) = Some approval
               \<and> map_option sql_lower (json_text ''commit'' (we_payload e)) = Some sha
               \<and> (json_text ''repo_id'' (we_payload e) = Some repo \<or> json_text ''repo'' (we_payload e) = Some repo))
             (rev (db_events db)) of
         None \<Rightarrow> None
       | Some e \<Rightarrow> (case json_text ''repo_id'' (we_payload e) of
             None \<Rightarrow> None
           | Some rid \<Rightarrow> map_option (\<lambda>r. (r_id r, r_name r)) (repo_findById db rid)))"

section \<open>Landings started on the current approval\<close>

record landing_started =
  la_repo :: string
  la_repoId :: id
  la_commit :: string
  la_landed :: bool
  la_via :: "string option"
  la_at :: instant

definition UNVERIFIABLE_LANDING_VIAS :: "string list" where
  "UNVERIFIABLE_LANDING_VIAS = [''pr'', ''pr-stale'']"

definition via_text :: "string option \<Rightarrow> string" where
  "via_text v = (case v of None \<Rightarrow> [] | Some s \<Rightarrow> s)"

definition entered_review :: "db \<Rightarrow> id \<Rightarrow> instant option" where
  "entered_review db tid = map_option we_created_at (find (\<lambda>e. is_transition tid e
     \<and> json_text ''to'' (we_payload e) = Some ''in_review'') (rev (db_events db)))"

definition started_events :: "db \<Rightarrow> id \<Rightarrow> work_event list" where
  "started_events db tid = filter (\<lambda>e. we_entity_type e = ''ticket'' \<and> we_entity_id e = tid
     \<and> (case entered_review db tid of None \<Rightarrow> True | Some since \<Rightarrow> we_created_at e \<ge> since)
     \<and> we_event_type e \<in> {''ticket.landing_started'', ''ticket.repo_landed''}) (db_events db)"

text \<open>One step of the loop: the ordered map from (repository, commit) to the landing.\<close>

fun put_entry :: "'k \<Rightarrow> 'v \<Rightarrow> ('k \<times> 'v) list \<Rightarrow> ('k \<times> 'v) list" where
  "put_entry k v [] = [(k, v)]"
| "put_entry k v ((k', v') # xs) = (if k' = k then (k, v) # xs else (k', v') # put_entry k v xs)"

definition note_started ::
  "landing_status \<Rightarrow> ((string \<times> string) \<times> landing_started) list \<Rightarrow> work_event \<Rightarrow> ((string \<times> string) \<times> landing_started) list" where
  "note_started st out e = (
     let p = we_payload e;
         commit = lower (via_text (json_text ''commit'' p));
         repo = via_text (json_text ''repo'' p);
         rid = via_text (json_text ''repo_id'' p);
         hit = find (\<lambda>r. lr_repoId r = rid \<or> lr_repo r = repo) (ls_repos st) in
     if commit = [] then out
     else let key = ((case hit of None \<Rightarrow> repo | Some r \<Rightarrow> lr_repoId r), commit);
              prev = map_of out key in
       put_entry key \<lparr>la_repo = (case hit of None \<Rightarrow> repo | Some r \<Rightarrow> lr_repo r),
         la_repoId = (case hit of Some r \<Rightarrow> lr_repoId r
                      | None \<Rightarrow> (case json_text ''repo_id'' p of None \<Rightarrow> repo | Some i \<Rightarrow> i)),
         la_commit = commit, la_landed = (case prev of None \<Rightarrow> False | Some l \<Rightarrow> la_landed l),
         la_via = orElse (json_text ''via'' p) (Option.bind prev la_via),
         la_at = (case prev of None \<Rightarrow> we_created_at e | Some l \<Rightarrow> la_at l)\<rparr> out)"

definition settle_started :: "landing_env \<Rightarrow> landing_status \<Rightarrow> landing_started \<Rightarrow> landing_started" where
  "settle_started le st l = l\<lparr>la_landed :=
     (list_ex (\<lambda>r. lr_repoId r = la_repoId l \<and> lr_sha r = la_commit l \<and> lr_landed r) (ls_repos st)
      \<or> (case le_landedOnDefault le of None \<Rightarrow> False
         | Some probe \<Rightarrow> via_text (la_via l) \<notin> set UNVERIFIABLE_LANDING_VIAS \<and> probe (la_repoId l) (la_commit l)))\<rparr>"

definition landingsStarted :: "landing_env \<Rightarrow> db \<Rightarrow> id \<Rightarrow> landing_started list" where
  "landingsStarted le db tid = (
     let st = computeLandingStatus (le_collate le) db tid in
     map (\<lambda>(k, l). settle_started le st l) (foldl (note_started st) [] (started_events db tid)))"

section \<open>Recording a landing\<close>

definition primary_link :: "db \<Rightarrow> id \<Rightarrow> ticket_repo option" where
  "primary_link db tid = (case sort_key (\<lambda>l. (if tr_access l = AccWrite then 0 else 1 :: nat,
       if tr_role l = RolePrimary then 0 else 1 :: nat)) (filter (\<lambda>l. tr_ticket_id l = tid) (db_ticket_repos db)) of
     [] \<Rightarrow> None | l # _ \<Rightarrow> Some l)"

definition recorded_pr :: "db \<Rightarrow> ticket \<Rightarrow> id \<Rightarrow> string" where
  "recorded_pr db t rid = (
     let repoPr = (case find_link db (t_id t) rid of None \<Rightarrow> None
           | Some l \<Rightarrow> orElse (nullif_empty (tr_pr_url l))
               (nullif_empty (Option.bind (delivery_find db (t_id t) rid) rd_pr_url)));
         pr = js_trim (via_text repoPr) in
     if pr \<noteq> [] then pr
     else if map_option tr_repo_id (primary_link db (t_id t)) = Some rid then js_trim (via_text (t_pr_url t)) else [])"

definition assertPrLanding :: "landing_env \<Rightarrow> ticket \<Rightarrow> id \<Rightarrow> string \<Rightarrow> string \<Rightarrow> unit op" where
  "assertPrLanding le t rid sha via =
     bindT (getT (\<lambda>db. recorded_pr db t rid)) (\<lambda>pr.
     bindT (throwIf (pr = []) (DispatchError STATE_CONFLICT)) (\<lambda>_.
     case le_changeOnRefs le of
       None \<Rightarrow> returnT ()
     | Some probe \<Rightarrow>
         let carried = probe rid sha (if via = ''pr'' then [''default''] else [''remote-default'', ''default'']) in
         throwIf (carried \<noteq> Some True \<and> \<not> (via = ''pr-stale'' \<and> carried = None)) (DispatchError STATE_CONFLICT)))"

text \<open>The row and the event of a landing, once git (or the recorded pull request) shows it.\<close>

definition write_landing ::
  "env \<Rightarrow> landing_env \<Rightarrow> ticket \<Rightarrow> landing_input \<Rightarrow> actor \<Rightarrow> id \<Rightarrow> string \<Rightarrow> (id \<times> string \<times> bool) op" where
  "write_landing en le t inp actor rid name = (
     let sha = landing_sha (li_commit inp); via = via_text (li_via inp) in
     bindT (whenT (via \<in> set UNVERIFIABLE_LANDING_VIAS) (assertPrLanding le t rid sha via)) (\<lambda>_.
     bindT (throwIf (case le_landedOnDefault le of None \<Rightarrow> False
              | Some probe \<Rightarrow> via \<notin> set UNVERIFIABLE_LANDING_VIAS \<and> \<not> probe rid sha)
              (DispatchError STATE_CONFLICT)) (\<lambda>_.
     bindT (insert_commit en (t_id t) rid
              (''landed '' @ sha @ '' of #'' @ number_text t @ '' on '' @ name @ [CHR 0x27] @ ''s default branch''
               @ (if via = [] then [] else '' (via '' @ via @ '')'')) (LANDING_PREFIX @ sha)
              (JObj [(''kind'', JStr ''landing''), (''repo'', JStr name), (''via'', jopt (li_via inp))])) (\<lambda>_.
     bindT (ticketEvent en (t_id t) actor ''ticket.repo_landed''
              [(''repo'', JStr name), (''commit'', JStr sha), (''via'', jopt (li_via inp))]) (\<lambda>_.
     returnT (t_id t, name, True))))))"

definition recordLanding ::
  "env \<Rightarrow> landing_env \<Rightarrow> string \<Rightarrow> landing_input \<Rightarrow> actor \<Rightarrow> (id \<times> string \<times> bool) op" where
  "recordLanding en le ref inp actor =
     bindT (throwIf (\<not> system_or_admin actor) (DispatchError ACTOR_NOT_PERMITTED)) (\<lambda>_.
     let sha = landing_sha (li_commit inp) in
     bindT (throwIf (\<not> full_sha sha) (DispatchError VALIDATION_ERROR)) (\<lambda>_.
     bindT (resolveRef ref) (\<lambda>t.
     bindT (getT (\<lambda>db. if t_status t = ReadyForMerge then None
                       else startedOnApproval db (t_id t) (li_repo inp) sha)) (\<lambda>startedBefore.
     bindT (throwIf (t_status t \<noteq> ReadyForMerge \<and> startedBefore = None) (DispatchError ILLEGAL_TRANSITION)) (\<lambda>_.
     bindT (getT (\<lambda>db. computeLandingStatus (le_collate le) db (t_id t))) (\<lambda>before.
     bindT (getT (\<lambda>db. case startedBefore of None \<Rightarrow> None
              | Some (rid, name) \<Rightarrow> if list_ex (\<lambda>e. ev_ticket_id e = t_id t \<and> ev_repo_id e = Some rid
                   \<and> ev_uri e = Some (LANDING_PREFIX @ sha) \<and> ev_type e = Commit
                   \<and> ev_recorded_by e = Some System) (db_evidence db) then Some name else None)) (\<lambda>already.
     case already of
       Some name \<Rightarrow> returnT (t_id t, name, False)
     | None \<Rightarrow>
     let target = (case startedBefore of Some (rid, name) \<Rightarrow> Some (rid, name, sha, False)
           | None \<Rightarrow> map_option (\<lambda>r. (lr_repoId r, lr_repo r, lr_sha r, lr_landed r)) (find_repo before (li_repo inp))) in
     (case target of
       None \<Rightarrow> throwT (DispatchError STATE_CONFLICT)
     | Some (rid, name, tsha, landed) \<Rightarrow>
         if tsha \<noteq> sha then throwT (DispatchError STATE_CONFLICT)
         else if landed then returnT (t_id t, name, False)
         else write_landing en le t inp actor rid name))))))))"

end
