(* ===== verification/Contract.thy ===== *)
theory Contract
  imports Autonomy Landing
begin

text \<open>
  What a tester verdict is about: the contract hash (\<open>util/contractHash.ts\<close>), the acceptance
  profile a test contract names (\<open>domain/acceptanceProfileNames.ts\<close>, \<open>parseTestContract\<close> of
  \<open>domain/types.ts\<close>), the identities of the tests a PASS binds and the reads of the recorded
  PASS and of its replay (\<open>services/testerReplay.ts\<close>). The \<open>test_contract\<close> column is only written
  through \<open>JSON.stringify\<close>, so the model keeps the value and its text is \<open>stringify\<close> of it.
\<close>

section \<open>The contract hash\<close>

definition NUL :: string where
  "NUL = [CHR 0x00]"

definition contract_parts :: "db \<Rightarrow> ticket \<Rightarrow> string list" where
  "contract_parts db t = [t_title t, t_description t]
     @ map ac_text (sort_key ac_sort_order (filter (\<lambda>a. ac_ticket_id a = t_id t) (db_acs db)))
     @ [case t_test_contract t of None \<Rightarrow> [] | Some v \<Rightarrow> stringify v]"

definition contractHash :: "env \<Rightarrow> db \<Rightarrow> id \<Rightarrow> string option" where
  "contractHash en db tid = (case ticket_findById db tid of None \<Rightarrow> None
     | Some t \<Rightarrow> Some (en_sha256 en (join_with NUL (contract_parts db t))))"

section \<open>Acceptance profiles\<close>

datatype acceptance_profile = UnitProfile | CliProfile | ApiProfile | WebProfile | MigrationProfile | PerformanceProfile

fun profile_name :: "acceptance_profile \<Rightarrow> string" where
  "profile_name UnitProfile = ''unit''"
| "profile_name CliProfile = ''cli''"
| "profile_name ApiProfile = ''api''"
| "profile_name WebProfile = ''web''"
| "profile_name MigrationProfile = ''migration''"
| "profile_name PerformanceProfile = ''performance''"

definition ACCEPTANCE_PROFILES :: "acceptance_profile list" where
  "ACCEPTANCE_PROFILES = [UnitProfile, CliProfile, ApiProfile, WebProfile, MigrationProfile, PerformanceProfile]"

definition EXECUTABLE_PROFILES :: "acceptance_profile list" where
  "EXECUTABLE_PROFILES = [CliProfile, ApiProfile]"

text \<open>\<open>isAcceptanceProfile\<close>, with the profile it recognises.\<close>

definition asAcceptanceProfile :: "json option \<Rightarrow> acceptance_profile option" where
  "asAcceptanceProfile v = (case v of
     Some (JStr s) \<Rightarrow> find (\<lambda>p. profile_name p = s) ACCEPTANCE_PROFILES
   | _ \<Rightarrow> None)"

record test_contract =
  tc_changed_surfaces :: "string list"
  tc_runtime_deps :: "string list"
  tc_env_vars :: "string list"
  tc_run_command :: string
  tc_harness_ready :: bool
  tc_profile :: "acceptance_profile option"
  tc_profile_spec :: "json option"

definition string_list :: "json option \<Rightarrow> string list" where
  "string_list v = (case v of
     Some (JArr xs) \<Rightarrow> concat (map (\<lambda>x. case x of JStr s \<Rightarrow> [s] | _ \<Rightarrow> []) xs)
   | _ \<Rightarrow> [])"

definition is_object :: "json \<Rightarrow> bool" where
  "is_object v = (case v of JObj _ \<Rightarrow> True | JArr _ \<Rightarrow> True | _ \<Rightarrow> False)"

definition parseTestContract :: "json option \<Rightarrow> test_contract option" where
  "parseTestContract raw = (case raw of
     None \<Rightarrow> None
   | Some parsed \<Rightarrow>
       if \<not> is_object parsed then None
       else let profile = (case asAcceptanceProfile (json_field ''profile'' parsed) of
              Some p \<Rightarrow> if p \<noteq> UnitProfile then Some p else None | None \<Rightarrow> None) in
         Some \<lparr>tc_changed_surfaces = string_list (json_field ''changed_surfaces'' parsed),
           tc_runtime_deps = string_list (json_field ''runtime_deps'' parsed),
           tc_env_vars = string_list (json_field ''env_vars'' parsed),
           tc_run_command = (case json_field ''run_command'' parsed of Some (JStr s) \<Rightarrow> s | _ \<Rightarrow> []),
           tc_harness_ready = (json_field ''harness_ready'' parsed = Some (JBool True)),
           tc_profile = profile,
           tc_profile_spec = (case json_field ''profile_spec'' parsed of
              Some (JObj kvs) \<Rightarrow> if profile \<noteq> None then Some (JObj kvs) else None | _ \<Rightarrow> None)\<rparr>)"

definition contractProfile :: "test_contract option \<Rightarrow> acceptance_profile" where
  "contractProfile contract = (case contract of None \<Rightarrow> UnitProfile
     | Some c \<Rightarrow> (case tc_profile c of None \<Rightarrow> UnitProfile | Some p \<Rightarrow> p))"

section \<open>Test identities\<close>

record test_identity =
  te_file :: string
  te_name :: string
  te_line :: "int option"
  te_column :: "int option"

definition MAX_TESTER_IDENTITIES :: nat where
  "MAX_TESTER_IDENTITIES = 5000"

definition agree :: "int option \<Rightarrow> int option \<Rightarrow> bool" where
  "agree a b = (case (a, b) of (Some x, Some y) \<Rightarrow> x = y | _ \<Rightarrow> True)"

definition sameTesterIdentity :: "test_identity \<Rightarrow> test_identity \<Rightarrow> bool" where
  "sameTesterIdentity a b = (te_file a = te_file b \<and> te_name a = te_name b \<and> agree (te_line a) (te_line b)
     \<and> agree (te_column a) (te_column b))"

text \<open>A call-site number: absent (or null), a positive integer, or a refusal.\<close>

definition parse_position :: "string \<Rightarrow> json \<Rightarrow> int option option" where
  "parse_position k o' = (case json_field k o' of
     None \<Rightarrow> Some None
   | Some JNull \<Rightarrow> Some None
   | Some (JNum n) \<Rightarrow> if n \<le> 0 then None else Some (Some n)
   | Some _ \<Rightarrow> None)"

definition parse_identity :: "json \<Rightarrow> test_identity option" where
  "parse_identity o' = (
     let file = js_trim (via_text (json_text ''file'' (Some o'))); name = via_text (json_text ''name'' (Some o')) in
     if file = [] \<or> name = [] \<or> length file > 1000 \<or> length name > 2000 then None
     else if CHR 0x00 \<in> set file \<or> CHR 0x00 \<in> set name \<or> CHR 0x0D \<in> set file \<or> CHR 0x0A \<in> set file then None
     else case (parse_position ''line'' o', parse_position ''column'' o') of
       (Some l, Some c) \<Rightarrow> Some \<lparr>te_file = file, te_name = name, te_line = l, te_column = c\<rparr>
     | _ \<Rightarrow> None)"

fun parse_identities :: "test_identity list \<Rightarrow> json list \<Rightarrow> test_identity list option" where
  "parse_identities out [] = Some out"
| "parse_identities out (t # ts) = (case parse_identity t of
     None \<Rightarrow> None
   | Some i \<Rightarrow> parse_identities (if list_ex (\<lambda>x. sameTesterIdentity x i) out then out else out @ [i]) ts)"

definition parseTesterIdentities :: "json \<Rightarrow> test_identity list option" where
  "parseTesterIdentities raw = (case raw of
     JArr ts \<Rightarrow> if length ts > MAX_TESTER_IDENTITIES then None else parse_identities [] ts
   | _ \<Rightarrow> None)"

definition identity_json :: "test_identity \<Rightarrow> json" where
  "identity_json i = JObj ([(''file'', JStr (te_file i)), (''name'', JStr (te_name i))]
     @ (case te_line i of None \<Rightarrow> [] | Some n \<Rightarrow> [(''line'', JNum n)])
     @ (case te_column i of None \<Rightarrow> [] | Some n \<Rightarrow> [(''column'', JNum n)]))"

text \<open>\<open>TESTER_AGENT_ID_RE\<close> and \<open>TESTER_RUN_ID_RE\<close>.\<close>

definition alnum :: "char \<Rightarrow> bool" where
  "alnum c = (let n = of_char c :: nat in (48 \<le> n \<and> n \<le> 57) \<or> (65 \<le> n \<and> n \<le> 90) \<or> (97 \<le> n \<and> n \<le> 122))"

definition ref_ok :: "string \<Rightarrow> nat \<Rightarrow> string \<Rightarrow> bool" where
  "ref_ok punct m s = (case s of [] \<Rightarrow> False
     | c # cs \<Rightarrow> alnum c \<and> length cs \<le> m \<and> list_all (\<lambda>d. alnum d \<or> d \<in> set punct) cs)"

definition parseTesterAgent :: "json \<Rightarrow> (string \<times> string option) option" where
  "parseTesterAgent raw = (case raw of
     JObj _ \<Rightarrow> (case json_text ''id'' (Some raw) of
         None \<Rightarrow> None
       | Some i \<Rightarrow> if \<not> ref_ok ''._:@-'' 63 i then None
           else (case json_field ''run'' raw of
               None \<Rightarrow> Some (i, None)
             | Some JNull \<Rightarrow> Some (i, None)
             | Some (JStr run) \<Rightarrow> if ref_ok ''._:-'' 127 run then Some (i, Some run) else None
             | Some _ \<Rightarrow> None))
   | _ \<Rightarrow> None)"

section \<open>The recorded PASS and its replay\<close>

definition TESTER_REPLAY_PREFIX :: string where
  "TESTER_REPLAY_PREFIX = ''gaffer-tester-replayed:''"

fun contains :: "string \<Rightarrow> string \<Rightarrow> bool" where
  "contains [] p = (p = [])"
| "contains (c # cs) p = (starts_with (c # cs) p \<or> contains cs p)"

text \<open>\<open>payload_json LIKE '%"verdict":"pass"%'\<close>\<close>

definition like_pass :: "json option \<Rightarrow> bool" where
  "like_pass p = (case p of None \<Rightarrow> False
     | Some v \<Rightarrow> contains (sql_lower (stringify v))
         (json_string ''verdict'' @ '':'' @ json_string ''pass''))"

text \<open>The newest row of a list in row order (\<open>ORDER BY created_at DESC, rowid DESC LIMIT 1\<close>).\<close>

definition newest :: "evidence list \<Rightarrow> evidence option" where
  "newest rows = (case rev (sort_key ev_created_at rows) of [] \<Rightarrow> None | e # _ \<Rightarrow> Some e)"

record bound_pass =
  bp_evidenceId :: id
  bp_testedCommit :: "string option"
  bp_provenance :: "string option"
  bp_tests :: "test_identity list option"
  bp_at :: instant

definition tester_pass_rows :: "db \<Rightarrow> id \<Rightarrow> evidence list" where
  "tester_pass_rows db tid = filter (\<lambda>e. ev_ticket_id e = tid \<and> ev_type e = TestOutput \<and> like_pass (ev_payload_json e)
     \<and> list_ex (\<lambda>w. we_entity_type w = ''ticket'' \<and> we_entity_id w = tid \<and> we_event_type w = ''ticket.tester_passed''
          \<and> json_text ''evidence_id'' (we_payload w) = Some (ev_id e)) (db_events db)) (db_evidence db)"

definition readBoundTesterPass :: "db \<Rightarrow> id \<Rightarrow> bound_pass option" where
  "readBoundTesterPass db tid = (case newest (tester_pass_rows db tid) of
     None \<Rightarrow> None
   | Some row \<Rightarrow>
       let p = ev_payload_json row; tested = lower (via_text (json_text ''tested_commit'' p)) in
       Some \<lparr>bp_evidenceId = ev_id row, bp_testedCommit = (if full_sha tested then Some tested else None),
         bp_provenance = json_text ''provenance'' p,
         bp_tests = (case Option.bind p (json_field ''tests'') of
            None \<Rightarrow> None | Some JNull \<Rightarrow> None
          | Some v \<Rightarrow> Some (case parseTesterIdentities v of None \<Rightarrow> [] | Some ts \<Rightarrow> ts)),
         bp_at = ev_created_at row\<rparr>)"

text \<open>\<open>String(v)\<close>\<close>

fun js_String :: "json \<Rightarrow> string" where
  "js_String JNull = ''null''"
| "js_String (JBool b) = (if b then ''true'' else ''false'')"
| "js_String (JNum n) = show_int n"
| "js_String (JStr s) = s"
| "js_String (JArr xs) = join_with '','' (map (\<lambda>x. case x of JNull \<Rightarrow> [] | _ \<Rightarrow> js_String x) xs)"
| "js_String (JObj kvs) = ''[object Object]''"

definition field_string :: "string \<Rightarrow> json option \<Rightarrow> string" where
  "field_string k p = (case Option.bind p (json_field k) of None \<Rightarrow> [] | Some JNull \<Rightarrow> [] | Some v \<Rightarrow> js_String v)"

record tester_replay =
  rp_commit :: string
  rp_tested :: string
  rp_files :: "string list"
  rp_tests :: "test_identity list"
  rp_identities :: bool
  rp_via :: "string option"
  rp_repoId :: "id option"
  rp_notReplayed :: "string list"
  rp_note :: "string option"
  rp_at :: instant

definition replay_rows :: "db \<Rightarrow> id \<Rightarrow> evidence list" where
  "replay_rows db tid = rev (sort_key ev_created_at (filter (\<lambda>e. ev_ticket_id e = tid \<and> ev_type e = Commit
     \<and> ev_recorded_by e = Some System \<and> like_prefix TESTER_REPLAY_PREFIX (ev_uri e)) (db_evidence db)))"

definition replay_commit :: "evidence \<Rightarrow> string" where
  "replay_commit e = lower (drop (length TESTER_REPLAY_PREFIX) (via_text (ev_uri e)))"

definition readTesterReplay :: "db \<Rightarrow> id \<Rightarrow> string option \<Rightarrow> tester_replay option" where
  "readTesterReplay db tid tested = (case tested of None \<Rightarrow> None | Some raw \<Rightarrow>
     if raw = [] then None
     else map_option (\<lambda>e. let p = ev_payload_json e in
       \<lparr>rp_commit = replay_commit e, rp_tested = lower raw,
        rp_files = string_list (Option.bind p (json_field ''files'')),
        rp_tests = (case Option.bind p (json_field ''tests'') of None \<Rightarrow> [] | Some JNull \<Rightarrow> []
           | Some v \<Rightarrow> (case parseTesterIdentities v of None \<Rightarrow> [] | Some ts \<Rightarrow> ts)),
        rp_identities = (json_text ''evidence'' p = Some ''identities''),
        rp_via = json_text ''via'' p, rp_repoId = ev_repo_id e,
        rp_notReplayed = string_list (Option.bind p (json_field ''not_replayed_repos'')),
        rp_note = nullif_empty (json_text ''note'' p), rp_at = ev_created_at e\<rparr>)
      (find (\<lambda>e. full_sha (replay_commit e) \<and> json_text ''kind'' (ev_payload_json e) = Some ''tester_replay''
         \<and> lower (field_string ''tested'' (ev_payload_json e)) = lower raw) (replay_rows db tid)))"

end
