(* ===== verification/Repos.thy ===== *)
theory Repos
  imports Scope_Graph Contract
begin

text \<open>
  Repositories and the execution boundary of a ticket (\<open>services/repoService.ts\<close> with the writes of
  \<open>repositories/repoRepository.ts\<close>): registration and settings of a repository, the links between
  tickets and repositories, who may set a ticket's access boundary, and the two boundaries the
  system sets itself. The suggestion engine is left out.
\<close>

section \<open>Repositories\<close>

text \<open>\<open>GIT_REF_SAFE\<close>.\<close>

definition git_ref_safe :: "string \<Rightarrow> bool" where
  "git_ref_safe s = (s \<noteq> [] \<and> length s \<le> 200 \<and> list_all (\<lambda>c. alnum c \<or> c \<in> set ''._/-'') s \<and> hd s \<noteq> CHR 0x2D
     \<and> list_all (\<lambda>i. \<not> starts_with (drop i s) ''..'') [0 ..< length s])"

definition repo_name_ok :: "string \<Rightarrow> bool" where
  "repo_name_ok raw = (let v = js_trim raw in v \<noteq> [] \<and> length v \<le> 200 \<and> \<not> has_control v
     \<and> CHR 0x2F \<notin> set v \<and> CHR 0x5C \<notin> set v \<and> v \<noteq> ''.'' \<and> v \<noteq> ''..'' \<and> hd v \<noteq> CHR 0x2D)"

record register_repo_input =
  rg_name :: string
  rg_local_path :: "string option"
  rg_remote_url :: "string option"
  rg_default_branch :: string
  rg_stack :: "string option"
  rg_risk_level :: risk_level
  rg_test_command :: "string option"
  rg_lint_command :: "string option"
  rg_coverage_command :: "string option"

definition register_schema_ok :: "register_repo_input \<Rightarrow> bool" where
  "register_schema_ok inp = (repo_name_ok (rg_name inp) \<and> git_ref_safe (rg_default_branch inp)
     \<and> opt_ok (\<lambda>s. length s \<le> 2000) (rg_local_path inp) \<and> opt_ok (\<lambda>s. length s \<le> 2000) (rg_remote_url inp)
     \<and> opt_ok (\<lambda>s. length s \<le> 500) (rg_stack inp) \<and> opt_ok (\<lambda>s. length s \<le> 1000) (rg_test_command inp)
     \<and> opt_ok (\<lambda>s. length s \<le> 1000) (rg_lint_command inp) \<and> opt_ok (\<lambda>s. length s \<le> 1000) (rg_coverage_command inp))"

definition repo_insert :: "repository \<Rightarrow> unit op" where
  "repo_insert r = (\<lambda>db. if r_id r \<in> r_id ` set (db_repositories db) then Inl SqlitePrimaryKey
     else if r_name r \<in> r_name ` set (db_repositories db) then Inl SqliteUnique
     else Inr ((), db\<lparr>db_repositories := db_repositories db @ [r]\<rparr>))"

definition repo_update :: "id \<Rightarrow> (repository \<Rightarrow> repository) \<Rightarrow> unit op" where
  "repo_update i f = modifyT (\<lambda>db. db\<lparr>db_repositories := upd_rows (\<lambda>r. r_id r = i) f (db_repositories db)\<rparr>)"

definition repo_list :: "db \<Rightarrow> bool \<Rightarrow> repository list" where
  "repo_list db includeHidden = sort_key r_name (filter (\<lambda>r. includeHidden \<or> \<not> r_hidden r) (db_repositories db))"

definition repo_listHidden :: "db \<Rightarrow> repository list" where
  "repo_listHidden db = sort_key r_name (filter r_hidden (db_repositories db))"

definition repoEvent :: "env \<Rightarrow> id \<Rightarrow> actor \<Rightarrow> string \<Rightarrow> (string \<times> json) list \<Rightarrow> id op" where
  "repoEvent en i actor event_type payload = writeEvent en ''repository'' i actor event_type (Some (JObj payload))"

definition repo_row :: "env \<Rightarrow> db \<Rightarrow> register_repo_input \<Rightarrow> repository" where
  "repo_row en db inp = \<lparr>r_id = en_uuid en RepoId (length (db_repositories db)), r_name = js_trim (rg_name inp),
     r_local_path = rg_local_path inp, r_remote_url = rg_remote_url inp, r_default_branch = rg_default_branch inp,
     r_stack = rg_stack inp, r_risk_level = rg_risk_level inp, r_test_command = rg_test_command inp,
     r_lint_command = rg_lint_command inp, r_coverage_command = rg_coverage_command inp, r_hidden = False,
     r_created_at = en_now en, r_updated_at = en_now en\<rparr>"

definition registerRepository :: "env \<Rightarrow> register_repo_input \<Rightarrow> actor \<Rightarrow> repository op" where
  "registerRepository en inp actor =
     bindT (throwIf (\<not> register_schema_ok inp) ZodError) (\<lambda>_.
     bindT (getT (\<lambda>db. repo_findByName db (js_trim (rg_name inp)))) (\<lambda>taken.
     bindT (throwIf (taken \<noteq> None) (DispatchError DUPLICATE)) (\<lambda>_.
     bindT (getT (\<lambda>db. repo_row en db inp)) (\<lambda>r.
     bindT (repo_insert r) (\<lambda>_.
     bindT (repoEvent en (r_id r) actor ''repository.registered'' [(''name'', JStr (r_name r))]) (\<lambda>_.
     returnT r))))))"

definition setRepoHidden :: "env \<Rightarrow> string \<Rightarrow> bool \<Rightarrow> actor \<Rightarrow> repository op" where
  "setRepoHidden en ref hide actor =
     bindT (need_repo repo_by_id_or_name ref) (\<lambda>r.
     if r_hidden r = hide then returnT r
     else
       bindT (repo_update (r_id r) (\<lambda>x. x\<lparr>r_hidden := hide, r_updated_at := en_now en\<rparr>)) (\<lambda>_.
       bindT (repoEvent en (r_id r) actor (if hide then ''repository.hidden'' else ''repository.unhidden'') [(''name'', JStr (r_name r))]) (\<lambda>_.
       returnT (r\<lparr>r_hidden := hide, r_updated_at := en_now en\<rparr>))))"

definition setRepoDefaultBranch :: "env \<Rightarrow> string \<Rightarrow> string \<Rightarrow> actor \<Rightarrow> repository op" where
  "setRepoDefaultBranch en ref rawBranch actor = (
     let branch = js_trim rawBranch in
     bindT (throwIf (\<not> git_ref_safe branch) ZodError) (\<lambda>_.
     bindT (need_repo repo_by_id_or_name ref) (\<lambda>r.
     if r_default_branch r = branch then returnT r
     else
       bindT (repo_update (r_id r) (\<lambda>x. x\<lparr>r_default_branch := branch, r_updated_at := en_now en\<rparr>)) (\<lambda>_.
       bindT (repoEvent en (r_id r) actor ''repository.default_branch_changed''
                [(''name'', JStr (r_name r)), (''from'', JStr (r_default_branch r)), (''to'', JStr branch)]) (\<lambda>_.
       returnT (r\<lparr>r_default_branch := branch, r_updated_at := en_now en\<rparr>))))))"

text \<open>A command of the input: not given, cleared, or set.\<close>

datatype gate_command_input = KeepCommand | ClearCommand | SetCommand string

definition gate_command_ok :: "gate_command_input \<Rightarrow> bool" where
  "gate_command_ok c = (case c of SetCommand s \<Rightarrow> length (js_trim s) \<le> 500
     \<and> CHR 0x0A \<notin> set (js_trim s) \<and> CHR 0x0D \<notin> set (js_trim s) \<and> CHR 0x00 \<notin> set (js_trim s) | _ \<Rightarrow> True)"

definition norm_command :: "gate_command_input \<Rightarrow> string option \<Rightarrow> string option" where
  "norm_command c cur = (case c of KeepCommand \<Rightarrow> cur | ClearCommand \<Rightarrow> None
     | SetCommand s \<Rightarrow> if js_trim s = [] then None else Some (js_trim s))"

record repo_commands =
  rc_test :: gate_command_input
  rc_lint :: gate_command_input
  rc_coverage :: gate_command_input

definition text_or_null :: "string option \<Rightarrow> json" where
  "text_or_null v = (case v of None \<Rightarrow> JNull | Some s \<Rightarrow> JStr s)"

definition commands_json :: "string option \<Rightarrow> string option \<Rightarrow> string option \<Rightarrow> json" where
  "commands_json t l c = JObj [(''test_command'', text_or_null t), (''lint_command'', text_or_null l), (''coverage_command'', text_or_null c)]"

definition setRepoCommands :: "env \<Rightarrow> string \<Rightarrow> repo_commands \<Rightarrow> actor \<Rightarrow> repository op" where
  "setRepoCommands en ref inp actor =
     bindT (throwIf (a_type actor = AgentActor) (DispatchError ACTOR_NOT_PERMITTED)) (\<lambda>_.
     bindT (throwIf (\<not> (gate_command_ok (rc_test inp) \<and> gate_command_ok (rc_lint inp) \<and> gate_command_ok (rc_coverage inp))) ZodError) (\<lambda>_.
     bindT (need_repo repo_by_id_or_name ref) (\<lambda>r.
     let test = norm_command (rc_test inp) (r_test_command r); lint = norm_command (rc_lint inp) (r_lint_command r);
         coverage = norm_command (rc_coverage inp) (r_coverage_command r) in
     if test = r_test_command r \<and> lint = r_lint_command r \<and> coverage = r_coverage_command r then returnT r
     else
       bindT (repo_update (r_id r) (\<lambda>x. x\<lparr>r_test_command := test, r_lint_command := lint, r_coverage_command := coverage,
                r_updated_at := en_now en\<rparr>)) (\<lambda>_.
       bindT (repoEvent en (r_id r) actor ''repository.commands_changed''
                [(''name'', JStr (r_name r)), (''from'', commands_json (r_test_command r) (r_lint_command r) (r_coverage_command r)),
                 (''to'', commands_json test lint coverage)]) (\<lambda>_.
       returnT (r\<lparr>r_test_command := test, r_lint_command := lint, r_coverage_command := coverage, r_updated_at := en_now en\<rparr>))))))"

section \<open>Links of a ticket\<close>

definition same_link :: "id \<Rightarrow> id \<Rightarrow> ticket_repo \<Rightarrow> bool" where
  "same_link tid rid l = (tr_ticket_id l = tid \<and> tr_repo_id l = rid)"

text \<open>A new link has the column defaults: confirmed write access, set by hand.\<close>

definition fresh_link :: "id \<Rightarrow> id \<Rightarrow> instant \<Rightarrow> ticket_repo" where
  "fresh_link tid rid now = \<lparr>tr_ticket_id = tid, tr_repo_id = rid, tr_role = RolePrimary, tr_branch_name = None, tr_pr_url = None,
     tr_access = AccWrite, tr_relation = RelConfirmed, tr_source = SrcManual, tr_confidence = None, tr_reasons = None,
     tr_created_at = now, tr_updated_at = now\<rparr>"

definition put_link :: "id \<Rightarrow> id \<Rightarrow> (ticket_repo \<Rightarrow> ticket_repo) \<Rightarrow> instant \<Rightarrow> unit op" where
  "put_link tid rid f now = (\<lambda>db.
     if tid \<notin> t_id ` set (db_tickets db) \<or> rid \<notin> r_id ` set (db_repositories db) then Inl SqliteForeignKey
     else Inr ((), db\<lparr>db_ticket_repos :=
       (if find (same_link tid rid) (db_ticket_repos db) = None then db_ticket_repos db @ [f (fresh_link tid rid now)]
        else upd_rows (same_link tid rid) (\<lambda>l. (f l)\<lparr>tr_updated_at := now\<rparr>) (db_ticket_repos db))\<rparr>))"

definition linkTicket :: "id \<Rightarrow> id \<Rightarrow> ticket_repo_role \<Rightarrow> instant \<Rightarrow> unit op" where
  "linkTicket tid rid role now = put_link tid rid (\<lambda>l. l\<lparr>tr_role := role\<rparr>) now"

record access_upsert =
  xu_access :: ticket_repo_access
  xu_relation :: ticket_repo_relation
  xu_source :: ticket_repo_source
  xu_confidence :: "rat option"
  xu_reasons :: "string list option"

definition upsertAccess :: "id \<Rightarrow> id \<Rightarrow> access_upsert \<Rightarrow> instant \<Rightarrow> unit op" where
  "upsertAccess tid rid u now = put_link tid rid (\<lambda>l. l\<lparr>tr_access := xu_access u, tr_relation := xu_relation u,
     tr_source := xu_source u, tr_confidence := xu_confidence u, tr_reasons := xu_reasons u\<rparr>) now"

fun role_name :: "ticket_repo_role \<Rightarrow> string" where
  "role_name RolePrimary = ''primary''"
| "role_name RoleSecondary = ''secondary''"
| "role_name RoleAffected = ''affected''"
| "role_name RoleReadOnlyContext = ''read_only_context''"
| "role_name RoleTestOnly = ''test_only''"

definition TICKET_REPO_ROLES :: "ticket_repo_role list" where
  "TICKET_REPO_ROLES = [RolePrimary, RoleSecondary, RoleAffected, RoleReadOnlyContext, RoleTestOnly]"

definition need_ticket :: "id \<Rightarrow> ticket op" where
  "need_ticket i = (\<lambda>db. case ticket_findById db i of None \<Rightarrow> Inl (DispatchError NOT_FOUND) | Some t \<Rightarrow> Inr (t, db))"

definition linkRepository :: "env \<Rightarrow> id \<Rightarrow> string \<Rightarrow> string \<Rightarrow> actor \<Rightarrow> unit op" where
  "linkRepository en tid repoName role actor = (case find (\<lambda>r. role_name r = role) TICKET_REPO_ROLES of
     None \<Rightarrow> throwT (DispatchError VALIDATION_ERROR)
   | Some rl \<Rightarrow>
       bindT (need_ticket tid) (\<lambda>t.
       bindT (need_repo repo_by_name_or_id repoName) (\<lambda>r.
       bindT (linkTicket (t_id t) (r_id r) rl (en_now en)) (\<lambda>_.
       bindT (ticketEvent en (t_id t) actor ''ticket.repo_linked'' [(''repo_id'', JStr (r_id r)), (''role'', JStr role)]) (\<lambda>_.
       recordImplicitRepoScopes en (t_id t) (r_id r) actor)))))"

section \<open>The access boundary\<close>

record work_packet_repos =
  wk_writeRepos :: "(ticket_repo \<times> repository) list"
  wk_readOnlyRepos :: "(ticket_repo \<times> repository) list"
  wk_testRepos :: "(ticket_repo \<times> repository) list"
  wk_deniedRepos :: "(ticket_repo \<times> repository) list"
  wk_suggestedRepos :: "(ticket_repo \<times> repository) list"
  wk_rejectedRepos :: "(ticket_repo \<times> repository) list"

datatype packet_list = InWrite | InReadOnly | InTest | InDenied | InSuggested | InRejected

definition packet_of :: "ticket_repo \<Rightarrow> packet_list" where
  "packet_of l = (if tr_relation l = RelRejected then InRejected
     else if tr_relation l = RelSuggested then InSuggested
     else if \<not> isActiveTicketRepoRelation (tr_relation l) then InReadOnly
     else case tr_access l of AccWrite \<Rightarrow> InWrite | AccRead \<Rightarrow> InReadOnly | AccTest \<Rightarrow> InTest | AccNone \<Rightarrow> InDenied)"

definition workPacketRepos :: "string \<Rightarrow> work_packet_repos op" where
  "workPacketRepos ref = bindT (resolveRef ref) (\<lambda>t. getT (\<lambda>db.
     let links = repo_listForTicket db (t_id t); pick = (\<lambda>k. filter (\<lambda>(l, r). packet_of l = k) links) in
     \<lparr>wk_writeRepos = pick InWrite, wk_readOnlyRepos = pick InReadOnly, wk_testRepos = pick InTest,
      wk_deniedRepos = pick InDenied, wk_suggestedRepos = pick InSuggested, wk_rejectedRepos = pick InRejected\<rparr>))"

record repo_access_input =
  ta_ticket_id :: string
  ta_repo_id :: string
  ta_access :: ticket_repo_access
  ta_relation :: ticket_repo_relation
  ta_source :: ticket_repo_source
  ta_confidence :: "rat option"
  ta_reasons :: "string list option"

record repo_access_result =
  tx_ticketId :: id
  tx_repoId :: id
  tx_access :: ticket_repo_access
  tx_relation :: ticket_repo_relation
  tx_eventId :: id

fun repo_relation_name :: "ticket_repo_relation \<Rightarrow> string" where
  "repo_relation_name RelConfirmed = ''confirmed''"
| "repo_relation_name RelSuggested = ''suggested''"
| "repo_relation_name RelRejected = ''rejected''"
| "repo_relation_name RelContextOnly = ''context_only''"
| "repo_relation_name RelImplicitSingleRepo = ''implicit_single_repo''"

fun source_name :: "ticket_repo_source \<Rightarrow> string" where
  "source_name SrcManual = ''manual''"
| "source_name SrcScopeInferred = ''scope_inferred''"
| "source_name SrcAgentSuggested = ''agent_suggested''"
| "source_name SrcMemory = ''memory''"
| "source_name SrcCodeowners = ''codeowners''"
| "source_name SrcMonoFallback = ''mono_fallback''"

definition access_event :: "env \<Rightarrow> id \<Rightarrow> id \<Rightarrow> access_upsert \<Rightarrow> actor \<Rightarrow> id op" where
  "access_event en tid rid u actor = ticketEvent en tid actor ''ticket.repo_access_set''
     [(''repo_id'', JStr rid), (''access'', JStr (access_name (xu_access u))),
      (''relation'', JStr (repo_relation_name (xu_relation u))), (''source'', JStr (source_name (xu_source u)))]"

definition upsert_of :: "repo_access_input \<Rightarrow> access_upsert" where
  "upsert_of inp = \<lparr>xu_access = ta_access inp, xu_relation = ta_relation inp, xu_source = ta_source inp,
     xu_confidence = ta_confidence inp, xu_reasons = map_option (map js_trim) (ta_reasons inp)\<rparr>"

definition applyTicketRepoAccess :: "env \<Rightarrow> repo_access_input \<Rightarrow> actor \<Rightarrow> repo_access_result op" where
  "applyTicketRepoAccess en inp actor =
     bindT (throwIf (\<not> (ta_ticket_id inp \<noteq> [] \<and> ta_repo_id inp \<noteq> [] \<and> opt_ok confidence_ok (ta_confidence inp)
       \<and> opt_ok reasons_ok (ta_reasons inp))) ZodError) (\<lambda>_.
     bindT (throwIf (ta_relation inp = RelImplicitSingleRepo) (DispatchError VALIDATION_ERROR)) (\<lambda>_.
     bindT (resolveRef (ta_ticket_id inp)) (\<lambda>t.
     bindT (need_repo repo_by_id_or_name (ta_repo_id inp)) (\<lambda>r.
     bindT (upsertAccess (t_id t) (r_id r) (upsert_of inp) (en_now en)) (\<lambda>_.
     bindT (access_event en (t_id t) (r_id r) (upsert_of inp) actor) (\<lambda>ev.
     returnT \<lparr>tx_ticketId = t_id t, tx_repoId = r_id r, tx_access = ta_access inp, tx_relation = ta_relation inp, tx_eventId = ev\<rparr>))))))"

definition setTicketRepoAccess :: "env \<Rightarrow> repo_access_input \<Rightarrow> actor \<Rightarrow> repo_access_result op" where
  "setTicketRepoAccess en inp actor =
     bindT (throwIf (a_type actor \<noteq> Human \<and> a_type actor \<noteq> Admin) (DispatchError ACTOR_NOT_PERMITTED)) (\<lambda>_.
     applyTicketRepoAccess en inp actor)"

text \<open>A bootstrap ticket that shares a scope node with the ticket and writes to the repository.\<close>

definition sharedBootstrap :: "db \<Rightarrow> id \<Rightarrow> id \<Rightarrow> bool" where
  "sharedBootstrap db tid rid = list_ex (\<lambda>mine. ts_ticket_id mine = tid \<and>
     list_ex (\<lambda>theirs. ts_scope_node_id theirs = ts_scope_node_id mine \<and>
       list_ex (\<lambda>b. t_id b = ts_ticket_id theirs \<and> t_bootstrap b \<and> t_id b \<noteq> tid \<and>
         list_ex (\<lambda>l. same_link (t_id b) rid l \<and> tr_access l = AccWrite) (db_ticket_repos db)) (db_tickets db))
       (db_ticket_scopes db)) (db_ticket_scopes db)"

definition inheritBootstrapRepoAccess :: "env \<Rightarrow> string \<Rightarrow> string \<Rightarrow> actor \<Rightarrow> repo_access_result op" where
  "inheritBootstrapRepoAccess en ticketRef repoRef actor =
     bindT (throwIf (a_type actor \<noteq> System) (DispatchError ACTOR_NOT_PERMITTED)) (\<lambda>_.
     bindT (resolveRef ticketRef) (\<lambda>t.
     bindT (need_repo repo_by_id_or_name repoRef) (\<lambda>r.
     bindT (getT (\<lambda>db. sharedBootstrap db (t_id t) (r_id r))) (\<lambda>shared.
     bindT (throwIf (t_bootstrap t \<or> \<not> shared) (DispatchError ACTOR_NOT_PERMITTED)) (\<lambda>_.
     applyTicketRepoAccess en \<lparr>ta_ticket_id = t_id t, ta_repo_id = r_id r, ta_access = AccWrite, ta_relation = RelConfirmed,
       ta_source = SrcScopeInferred, ta_confidence = None, ta_reasons = None\<rparr> actor)))))"

text \<open>Whether the fallback applied, to which repository, or why not.\<close>

datatype mono_result = MonoApplied id id | MonoNotOne id nat | MonoMapped id

definition mono_upsert :: access_upsert where
  "mono_upsert = \<lparr>xu_access = AccWrite, xu_relation = RelImplicitSingleRepo, xu_source = SrcMonoFallback, xu_confidence = None,
     xu_reasons = Some [''single unmapped repo promoted to write via mono_fallback'']\<rparr>"

definition applyMonoFallback :: "env \<Rightarrow> string \<Rightarrow> actor \<Rightarrow> mono_result op" where
  "applyMonoFallback en ref actor =
     bindT (resolveRef ref) (\<lambda>t.
     bindT (getT (\<lambda>db. repo_listForTicket db (t_id t))) (\<lambda>links.
     if length links \<noteq> 1 then returnT (MonoNotOne (t_id t) (length links))
     else
       let rid = r_id (snd (hd links)) in
       bindT (getT (\<lambda>db. scopesForRepo db rid \<noteq> [])) (\<lambda>mapped.
       if mapped then returnT (MonoMapped (t_id t))
       else
         bindT (upsertAccess (t_id t) rid mono_upsert (en_now en)) (\<lambda>_.
         bindT (access_event en (t_id t) rid mono_upsert actor) (\<lambda>_.
         returnT (MonoApplied (t_id t) rid))))))"

end
