(* ===== verification/Decisions.thy ===== *)
theory Decisions
  imports Ticket_Inv
begin

text \<open>
  Decisions (\<open>services/decisionService.ts\<close>): a question is raised, linked to the tickets it
  informs or blocks, and resolved once. The notification after the commit is not modelled.
\<close>

record create_decision_input =
  cd_title :: string
  cd_question :: string
  cd_severity :: "decision_severity option"
  cd_ticketId :: "id option"
  cd_ticketIds :: "id list"

fun severity_name :: "decision_severity \<Rightarrow> string" where
  "severity_name LogOnly = ''log_only''"
| "severity_name AgentCanChoose = ''agent_can_choose''"
| "severity_name HumanPreferred = ''human_preferred''"
| "severity_name HumanRequired = ''human_required''"
| "severity_name SecurityRequired = ''security_required''"

definition new_decision :: "env \<Rightarrow> create_decision_input \<Rightarrow> db \<Rightarrow> decision" where
  "new_decision en inp db = \<lparr>d_id = en_uuid en DecisionId (length (db_decisions db)),
     d_title = cd_title inp, d_question = cd_question inp, d_rationale = None,
     d_status = (if cd_severity inp = Some HumanRequired then DsHumanRequired else DsRequested),
     d_decision_type = ''product'',
     d_severity = (case cd_severity inp of None \<Rightarrow> HumanPreferred | Some s \<Rightarrow> s),
     d_proposed_answer = None, d_proposed_by = None, d_confidence = None, d_resolved_answer = None,
     d_resolved_by = None, d_resolved_at = None, d_memory_record_id = None,
     d_created_at = en_now en, d_updated_at = en_now en\<rparr>"

text \<open>The distinct non-empty ids of the input, in the order of first occurrence.\<close>

definition linked_tickets :: "create_decision_input \<Rightarrow> id list" where
  "linked_tickets inp = filter (\<lambda>i. i \<noteq> [])
     (rev (remdups (rev ((case cd_ticketId inp of None \<Rightarrow> [] | Some i \<Rightarrow> [i]) @ cd_ticketIds inp))))"

definition decision_link_relation :: "decision \<Rightarrow> decision_relation" where
  "decision_link_relation d =
     (if d_severity d = LogOnly \<or> d_severity d = AgentCanChoose then RInforms else RBlocks)"

definition createDecision :: "env \<Rightarrow> create_decision_input \<Rightarrow> actor \<Rightarrow> decision op" where
  "createDecision en inp actor =
     bindT (throwIf (js_trim (cd_title inp) = []) (DispatchError VALIDATION_ERROR)) (\<lambda>_.
     bindT (throwIf (js_trim (cd_question inp) = []) (DispatchError VALIDATION_ERROR)) (\<lambda>_.
     bindT (getT (new_decision en inp)) (\<lambda>d.
     bindT (decision_insert d) (\<lambda>_.
     bindT (forT (linked_tickets inp) (\<lambda>tid. decision_link tid (d_id d) (decision_link_relation d))) (\<lambda>_.
     bindT (writeEvent en ''decision'' (d_id d) actor ''decision.created''
              (Some (JObj [(''title'', JStr (d_title d)), (''severity'', JStr (severity_name (d_severity d)))]))) (\<lambda>_.
     returnT d))))))"

definition getDecision :: "id \<Rightarrow> decision op" where
  "getDecision i = (\<lambda>db. case decision_findById db i of
     None \<Rightarrow> Inl (DispatchError NOT_FOUND) | Some d \<Rightarrow> Inr (d, db))"

datatype resolution = Accept | Reject

fun resolution_status :: "resolution \<Rightarrow> decision_status" where
  "resolution_status Accept = DsAccepted"
| "resolution_status Reject = DsRejected"

fun resolution_name :: "resolution \<Rightarrow> string" where
  "resolution_name Accept = ''accepted''"
| "resolution_name Reject = ''rejected''"

record resolve_decision_input =
  rs_decisionId :: id
  rs_status :: resolution
  rs_answer :: "string option"
  rs_rationale :: "string option"

definition resolveDecision :: "env \<Rightarrow> resolve_decision_input \<Rightarrow> actor \<Rightarrow> decision op" where
  "resolveDecision en inp actor =
     bindT (getDecision (rs_decisionId inp)) (\<lambda>d.
     bindT (throwIf (d_status d \<in> {DsAccepted, DsRejected, DsSuperseded}) (DispatchError STATE_CONFLICT)) (\<lambda>_.
     bindT (decision_resolve (d_id d) (resolution_status (rs_status inp)) (rs_answer inp)
              (rs_rationale inp) (Some (actor_label actor)) (en_now en)) (\<lambda>ok.
     bindT (throwIf (\<not> ok) (DispatchError CONCURRENCY_CONFLICT)) (\<lambda>_.
     bindT (writeEvent en ''decision'' (d_id d) actor ''decision.resolved''
              (Some (JObj [(''status'', JStr (resolution_name (rs_status inp))),
                           (''answer'', jopt (rs_answer inp))]))) (\<lambda>_.
     getT (\<lambda>db. the (decision_findById db (d_id d))))))))"

section \<open>The lifecycle invariant\<close>

lemma wp_decision_insert [wp_simps]:
  "wp (decision_insert d) Q db = (d_id d \<notin> d_id ` set (db_decisions db) \<longrightarrow>
     Q () (db\<lparr>db_decisions := db_decisions db @ [d]\<rparr>))"
  by (simp add: wp_def decision_insert_def)

lemma healthy_decision_link: "healthy db \<Longrightarrow> wp (decision_link t d r) (\<lambda>_. healthy) db"
  by (simp add: wp_def decision_link_def Let_def)

lemma wp_getDecision [wp_simps]:
  "wp (getDecision i) Q db = (\<forall>d. decision_findById db i = Some d \<longrightarrow> Q d db)"
  by (auto simp: wp_def getDecision_def split: option.splits)

lemma wp_decision_resolve [wp_simps]:
  "wp (decision_resolve i st a r w now) Q db =
     Q (list_ex (\<lambda>d. d_id d = i) (db_decisions db))
       (db\<lparr>db_decisions := upd_rows (\<lambda>d. d_id d = i)
            (\<lambda>d. d\<lparr>d_status := st, d_resolved_answer := a, d_rationale := orElse r (d_rationale d),
                   d_resolved_by := w, d_resolved_at := Some now, d_updated_at := now\<rparr>) (db_decisions db)\<rparr>)"
  by (simp add: wp_def decision_resolve_def)

lemma healthy_createDecision:
  assumes "healthy db" shows "wp (createDecision en inp actor) (\<lambda>_. healthy) db"
  unfolding createDecision_def wp_simps
  by (auto simp: assms intro!: wp_forT healthy_decision_link)

lemma healthy_resolveDecision:
  "healthy db \<Longrightarrow> wp (resolveDecision en inp actor) (\<lambda>_. healthy) db"
  unfolding resolveDecision_def wp_simps by (auto simp: wp_simps)

end
