(* ===== verification/Merge.thy ===== *)
theory Merge
  imports Landing
begin

text \<open>
  The end of a review (\<open>services/reviewGateService.ts\<close> with the facade of
  \<open>services/reviewLifecycleService.ts\<close> and the move targets of \<open>services/boardService.ts\<close>):
  marking a ticket merged, sending it back, cancelling it, the board move, and required CI.
  A ticket that landed anywhere cannot be cancelled here, and a send-back of it is held for a
  person; a revocation that comes after a landing started is reported on the ticket's trail.
\<close>

section \<open>Approval and reject pins\<close>

definition recordApprovalPins :: "env \<Rightarrow> ticket \<Rightarrow> actor \<Rightarrow> reviewed_head list \<Rightarrow> unit op" where
  "recordApprovalPins en t actor pins = forT pins (\<lambda>pin.
     insert_commit en (t_id t) (rh_repoId pin)
       ((if a_type actor = AgentActor then ''agent review'' else ''human review'') @ '' ('' @ actor_label actor
        @ '') approved commit '' @ rh_sha pin @ '' of '' @ rh_branch pin @ '' in '' @ rh_repo pin)
       (REVIEW_PIN_PREFIX @ rh_sha pin)
       (JObj [(''kind'', JStr ''review_pin''), (''approver_type'', JStr (actor_type_name (a_type actor))),
              (''repo'', JStr (rh_repo pin))]))"

definition recordRejectPins :: "env \<Rightarrow> ticket \<Rightarrow> actor \<Rightarrow> reviewed_head list \<Rightarrow> nat \<Rightarrow> unit op" where
  "recordRejectPins en t actor heads attempt = forT heads (\<lambda>pin.
     insert_commit en (t_id t) (rh_repoId pin)
       ((if a_type actor = AgentActor then ''agent review''
         else if a_type actor = System then ''the runner'' else ''human review'') @ '' ('' @ actor_label actor
        @ '') sent back commit '' @ rh_sha pin @ '' of '' @ rh_branch pin @ '' in '' @ rh_repo pin)
       (REJECT_PIN_PREFIX @ rh_sha pin)
       (JObj [(''kind'', JStr ''reject_pin''), (''rejecter_type'', JStr (actor_type_name (a_type actor))),
              (''repo'', JStr (rh_repo pin)), (''attempt'', JNum (int attempt))]))"

section \<open>Marking a ticket merged\<close>

text \<open>
  The repositories a merge settles from git: pinned, not yet landed, and without a pull
  request.
\<close>

definition git_settled :: "landing_status \<Rightarrow> landing_repo_state list" where
  "git_settled st = filter (\<lambda>r. \<not> lr_landed r \<and> lr_pinned r \<and> \<not> truthy (lr_prUrl r)) (ls_repos st)"

definition settle_from_git :: "env \<Rightarrow> landing_env \<Rightarrow> id \<Rightarrow> landing_status \<Rightarrow> unit proc" where
  "settle_from_git en le tid landing = (case le_landedOnDefault le of
     None \<Rightarrow> run_tx (returnT ())
   | Some probe \<Rightarrow>
       if ls_pending landing = 0 then run_tx (returnT ())
       else eachP (git_settled landing) (\<lambda>r.
         if probe (lr_repoId r) (lr_sha r)
         then run_tx (bindT (recordLanding en le tid
                \<lparr>li_repo = lr_repoId r, li_commit = lr_sha r, li_approval = None, li_via = Some ''git-verified''\<rparr>
                \<lparr>a_type = System, a_id = None\<rparr>) (\<lambda>_. returnT ()))
         else run_tx (returnT ())))"

definition finish_merge :: "env \<Rightarrow> landing_env \<Rightarrow> ticket \<Rightarrow> actor \<Rightarrow> transition_result op" where
  "finish_merge en le t actor =
     bindT (getT (\<lambda>db. computeLandingStatus (le_collate le) db (t_id t))) (\<lambda>landing.
     bindT (throwIf (ls_pending landing > 0) (DispatchError STATE_CONFLICT)) (\<lambda>_.
     bindT (getT (\<lambda>db. computeApprovedUnchanged le db t)) (\<lambda>unchanged.
     transition en ((sysmove (t_id t) actor Done ''merge_completed'' [MarkMerged])
       \<lparr>ti_expectedFromStatus := Some ReadyForMerge,
        ti_approvedUnchanged := map_option Some unchanged\<rparr>))))"

definition markMerged :: "env \<Rightarrow> landing_env \<Rightarrow> string \<Rightarrow> actor \<Rightarrow> transition_result proc" where
  "markMerged en le ref actor =
     thenP (run_tx (bindT (throwIf (\<not> system_or_admin actor) (DispatchError ACTOR_NOT_PERMITTED)) (\<lambda>_.
              resolveRef ref))) (\<lambda>t.
     thenP (run_tx (getT (\<lambda>db. computeLandingStatus (le_collate le) db (t_id t)))) (\<lambda>landing.
     thenP (settle_from_git en le (t_id t) landing) (\<lambda>_.
     run_tx (finish_merge en le t actor))))"

section \<open>Landed tickets are not cancelled\<close>

definition landed_anywhere :: "landing_env \<Rightarrow> db \<Rightarrow> id \<Rightarrow> string list" where
  "landed_anywhere le db tid = sort (remdups (recordedLandingRepos db tid
     @ map la_repo (filter la_landed (landingsStarted le db tid))))"

definition refuseCancelOfLanded :: "landing_env \<Rightarrow> ticket \<Rightarrow> unit op" where
  "refuseCancelOfLanded le t =
     bindT (getT (\<lambda>db. landed_anywhere le db (t_id t))) (\<lambda>landed.
     throwIf (landed \<noteq> []) (DispatchError PARTLY_LANDED))"

fun join_comma :: "string list \<Rightarrow> string" where
  "join_comma [] = []"
| "join_comma [s] = s"
| "join_comma (s # ss) = s @ '', '' @ join_comma ss"

definition partlyLandedHold :: "env \<Rightarrow> ticket \<Rightarrow> string list \<Rightarrow> string \<Rightarrow> string \<Rightarrow> actor \<Rightarrow> string op" where
  "partlyLandedHold en t landed requested reason actor = (
     let why = ''partly landed: '' @ join_comma landed @ '' already merged on the default branch, so this ''
           @ ''send-back to '' @ requested @ '' is held for a person instead of re-queued ('' @ reason @ ''). ''
           @ ''Rework and re-approve it from here (unblock), then land the rest; it cannot be cancelled.'' in
     bindT (ticketEvent en (t_id t) actor ''ticket.blocked''
              [(''reason'', JStr why), (''reason_code'', JStr ''partly_landed''),
               (''landed'', JArr (map JStr landed)), (''requested_target'', JStr requested)]) (\<lambda>_.
     returnT why))"

section \<open>Sending back and cancelling\<close>

datatype reject_target = RejectReady | RejectRefining | RejectCancelled

fun reject_status :: "reject_target \<Rightarrow> ticket_status" where
  "reject_status RejectReady = Ready"
| "reject_status RejectRefining = Refining"
| "reject_status RejectCancelled = Cancelled"

definition nonblank :: "string option \<Rightarrow> string \<Rightarrow> string" where
  "nonblank v dflt = (case v of None \<Rightarrow> dflt | Some s \<Rightarrow> if js_trim s \<noteq> [] then s else dflt)"

definition reject_patch :: "ticket \<Rightarrow> actor \<Rightarrow> nat option \<Rightarrow> ticket_patch option" where
  "reject_patch t actor attempt =
     (if attempt = None \<and> reviewerPatch t actor = None then None
      else Some (no_patch\<lparr>pt_attempt_count := attempt, pt_reviewer := reviewerPatch t actor\<rparr>))"

text \<open>
  What a rejection decides before it moves the ticket: the repositories it landed in (for a
  send-back), whether the ticket is re-queued, the attempt it counts, and whether the retry
  cap parks it.
\<close>

definition reject_plan :: "nat \<Rightarrow> db \<Rightarrow> ticket \<Rightarrow> reject_target \<Rightarrow> string list \<times> bool \<times> nat \<times> bool" where
  "reject_plan maxAttempts db t to = (
     let landed = (if to = RejectCancelled then [] else recordedLandingRepos db (t_id t));
         isRequeue = (to \<noteq> RejectCancelled \<and> landed = []);
         (nextAttempt, capReached) = (if isRequeue then capRetry (t_attempt_count t) maxAttempts
                                      else (t_attempt_count t, False)) in
     (landed, isRequeue, nextAttempt, capReached))"

text \<open>The part of a rejection after its guards.\<close>

definition reject_apply ::
  "env \<Rightarrow> landing_env \<Rightarrow> ticket \<Rightarrow> reject_target \<Rightarrow> actor \<Rightarrow> string option \<Rightarrow> reviewed_head list \<Rightarrow> transition_result op" where
  "reject_apply en le t to actor reason pinHeads = (
     let why = nonblank reason ''review_rejected'' in
     bindT (getT (\<lambda>db. reject_plan (le_maxAttempts le) db t to)) (\<lambda>(landed, isRequeue, nextAttempt, capReached).
     let holdLanded = (landed \<noteq> []) in
     bindT (transition en ((sysmove (t_id t) actor (if capReached \<or> holdLanded then Blocked else reject_status to)
              (if holdLanded then ''partly_landed:'' @ why
               else if capReached then ''retry_cap_reached:'' @ why else why)
              ((if isRequeue then [ReviewReject] else []) @ (if to = RejectCancelled then [WontDo] else [])
               @ (if capReached \<or> holdLanded then [Park] else [])))
              \<lparr>ti_expectedFromStatus := Some (t_status t),
               ti_patch := reject_patch t actor (if isRequeue then Some nextAttempt else None)\<rparr>)) (\<lambda>res.
     bindT (whenT holdLanded (bindT (partlyLandedHold en t landed (status_name (reject_status to)) why actor)
              (\<lambda>_. returnT ()))) (\<lambda>_.
     bindT (whenT capReached (bindT (ticketEvent en (t_id t) actor ''ticket.parked_retry_cap''
              [(''attempt_count'', JNum (int nextAttempt)), (''max_attempts'', JNum (int (le_maxAttempts le))),
               (''requested_target'', JStr (status_name (reject_status to))), (''reason'', JStr why)])
              (\<lambda>_. returnT ()))) (\<lambda>_.
     bindT (recordRejectPins en t actor pinHeads nextAttempt) (\<lambda>_.
     bindT (resetAcceptanceCriteria en (t_id t) actor) (\<lambda>_.
     bindT (setReviewFeedback (t_id t) (Some \<lparr>f_reason = why, f_reviewer = a_id actor, f_at = en_now en,
        f_code = None, f_attempt = None, f_maxAttempts = None\<rparr>)) (\<lambda>_.
     returnT res))))))))"

definition rejectReview ::
  "env \<Rightarrow> landing_env \<Rightarrow> string \<Rightarrow> reject_target \<Rightarrow> actor \<Rightarrow> string option \<Rightarrow> transition_result op" where
  "rejectReview en le ref to actor reason =
     bindT (if to = RejectCancelled then returnT []
            else bindT (resolveRef ref) (\<lambda>t. getT (\<lambda>db. le_reviewedHeads le db t))) (\<lambda>pinHeads.
     bindT (resolveRef ref) (\<lambda>t.
     bindT (throwIf (t_status t \<noteq> InReview \<and> t_status t \<noteq> ReadyForMerge) (DispatchError ILLEGAL_TRANSITION)) (\<lambda>_.
     bindT (whenT (to = RejectCancelled) (refuseCancelOfLanded le t)) (\<lambda>_.
     reject_apply en le t to actor reason pinHeads))))"

definition wontDo :: "env \<Rightarrow> landing_env \<Rightarrow> string \<Rightarrow> actor \<Rightarrow> string option \<Rightarrow> transition_result op" where
  "wontDo en le ref actor reason =
     bindT (resolveRef ref) (\<lambda>t.
     bindT (refuseCancelOfLanded le t) (\<lambda>_.
     bindT (transition en ((sysmove (t_id t) actor Cancelled (nonblank reason ''wont_do'') [WontDo])
              \<lparr>ti_expectedFromStatus := Some (t_status t)\<rparr>)) (\<lambda>res.
     bindT (resetAcceptanceCriteria en (t_id t) actor) (\<lambda>_.
     returnT res))))"

section \<open>The facade\<close>

definition landing_json :: "landing_started \<Rightarrow> json" where
  "landing_json l = JObj [(''repo'', JStr (la_repo l)), (''repoId'', JStr (la_repoId l)),
     (''commit'', JStr (la_commit l)), (''landed'', JBool (la_landed l)), (''via'', jopt (la_via l)),
     (''at'', JStr (toISOString (la_at l)))]"

definition revocationAfterLanding :: "env \<Rightarrow> landing_env \<Rightarrow> id \<Rightarrow> actor \<Rightarrow> string \<Rightarrow> landing_started list op" where
  "revocationAfterLanding en le tid actor revocation =
     bindT (getT (\<lambda>db. landingsStarted le db tid)) (\<lambda>landed.
     bindT (whenT (landed \<noteq> []) (bindT (ticketEvent en tid actor ''ticket.revoked_after_landing''
              [(''revocation'', JStr revocation), (''landings'', JArr (map landing_json landed))])
              (\<lambda>_. returnT ()))) (\<lambda>_.
     returnT landed))"

definition reject_facade ::
  "env \<Rightarrow> landing_env \<Rightarrow> string \<Rightarrow> reject_target \<Rightarrow> actor \<Rightarrow> string option \<Rightarrow> (transition_result \<times> landing_started list) proc" where
  "reject_facade en le ref to actor reason =
     thenP (run_tx (rejectReview en le ref to actor reason)) (\<lambda>res.
     thenP (run_tx (revocationAfterLanding en le (t_id (tres_ticket res)) actor
              (''rejected_to_'' @ status_name (reject_status to)))) (\<lambda>landed.
     run_tx (returnT (res, landed))))"

definition wontDo_facade ::
  "env \<Rightarrow> landing_env \<Rightarrow> string \<Rightarrow> actor \<Rightarrow> string option \<Rightarrow> (transition_result \<times> landing_started list) proc" where
  "wontDo_facade en le ref actor reason =
     thenP (run_tx (wontDo en le ref actor reason)) (\<lambda>res.
     thenP (run_tx (revocationAfterLanding en le (t_id (tres_ticket res)) actor ''wont_do'')) (\<lambda>landed.
     run_tx (returnT (res, landed))))"

section \<open>Board moves\<close>

definition BOARD_COLUMNS :: "string list" where
  "BOARD_COLUMNS = [''draft'', ''ready'', ''in_progress'', ''blocked'', ''in_review'', ''in_testing'',
     ''ready_for_merge'', ''done'']"

definition isBoardColumn :: "string \<Rightarrow> bool" where
  "isBoardColumn s = (s \<in> set BOARD_COLUMNS)"

fun columnFor :: "ticket_status \<Rightarrow> string option" where
  "columnFor Draft = Some ''draft''"
| "columnFor Refining = Some ''draft''"
| "columnFor Ready = Some ''ready''"
| "columnFor Claimed = Some ''in_progress''"
| "columnFor InProgress = Some ''in_progress''"
| "columnFor Blocked = Some ''blocked''"
| "columnFor Paused = Some ''blocked''"
| "columnFor InReview = Some ''in_review''"
| "columnFor InTesting = Some ''in_testing''"
| "columnFor ReadyForMerge = Some ''ready_for_merge''"
| "columnFor Done = Some ''done''"
| "columnFor Cancelled = None"
| "columnFor Failed = None"

text \<open>Every column is named after a status, so the column branch of the code adds no target.\<close>

definition resolveMoveTarget :: "string \<Rightarrow> ticket_status option" where
  "resolveMoveTarget target = find (\<lambda>s. status_name s = target) TICKET_STATUSES"

lemma columns_are_statuses: "isBoardColumn s \<Longrightarrow> resolveMoveTarget s \<noteq> None"
  by (auto simp: isBoardColumn_def BOARD_COLUMNS_def resolveMoveTarget_def TICKET_STATUSES_def)

lemma columnFor_board: "columnFor st = Some c \<Longrightarrow> isBoardColumn c"
  by (cases st) (auto simp: isBoardColumn_def BOARD_COLUMNS_def)

definition raw_move :: "env \<Rightarrow> ticket \<Rightarrow> ticket_status \<Rightarrow> actor \<Rightarrow> transition_result op" where
  "raw_move en t to actor =
     bindT (getT (\<lambda>db. t_status t = InProgress \<and> to = InReview \<and> \<not> hasActiveForTicket db (t_id t))) (\<lambda>unleased.
     transition en ((sysmove (t_id t) actor to ''board_move'' (if unleased then [UnleasedSubmit] else []))
       \<lparr>ti_expectedFromStatus := Some (t_status t)\<rparr>))"

definition moveTicket :: "env \<Rightarrow> landing_env \<Rightarrow> string \<Rightarrow> string \<Rightarrow> actor \<Rightarrow> transition_result proc" where
  "moveTicket en le ref target actor =
     thenP (run_tx (resolveRef ref)) (\<lambda>t.
     case resolveMoveTarget target of
       None \<Rightarrow> run_tx (throwT (DispatchError VALIDATION_ERROR))
     | Some to \<Rightarrow>
         if (t_status t = InReview \<or> t_status t = ReadyForMerge) \<and> (to = Ready \<or> to = Refining)
         then thenP (reject_facade en le (t_id t) (if to = Ready then RejectReady else RejectRefining) actor
                      (Some ''board_move'')) (\<lambda>(res, _). run_tx (returnT res))
         else run_tx (raw_move en t to actor))"

section \<open>Required CI\<close>

datatype ci_result_state = CiPending | CiPass | CiFail

fun ci_state_name :: "ci_result_state \<Rightarrow> string" where
  "ci_state_name CiPending = ''pending''"
| "ci_state_name CiPass = ''pass''"
| "ci_state_name CiFail = ''fail''"

text \<open>\<open>/^[0-9a-f]{7,64}$/\<close>\<close>

definition commit_id_ok :: "string \<Rightarrow> bool" where
  "commit_id_ok s = (7 \<le> length s \<and> length s \<le> 64 \<and> list_all is_lower_hex s)"

text \<open>The deduplicated candidate commits, in the order the code collects them.\<close>

definition dedup :: "'a list \<Rightarrow> 'a list" where
  "dedup xs = rev (remdups (rev xs))"

definition ciCandidateCommits :: "landing_env \<Rightarrow> db \<Rightarrow> ticket \<Rightarrow> string list" where
  "ciCandidateCommits le db t = dedup (
     map lower (filter (\<lambda>s. s \<noteq> []) (map rh_sha (le_reviewedHeads le db t)))
     @ filter commit_id_ok (map (\<lambda>s. lower (js_trim s))
         (concat (map (\<lambda>d. case rd_commit_sha d of None \<Rightarrow> [] | Some s \<Rightarrow> if s = [] then [] else [s])
            (filter (\<lambda>d. rd_ticket_id d = t_id t) (db_repo_deliveries db)))
          @ map (\<lambda>e. drop (length REVIEW_PIN_PREFIX) (the (ev_uri e)))
              (filter (\<lambda>e. ev_ticket_id e = t_id t \<and> ev_type e = Commit \<and> ev_recorded_by e = Some System
                 \<and> like_prefix REVIEW_PIN_PREFIX (ev_uri e)) (db_evidence db)))))"

definition detail_text :: "string option \<Rightarrow> string" where
  "detail_text d = take 2000 (js_trim (via_text d))"

definition ci_event ::
  "env \<Rightarrow> landing_env \<Rightarrow> string \<Rightarrow> string \<Rightarrow> ci_result_state \<Rightarrow> string option \<Rightarrow> actor \<Rightarrow> (ticket \<times> id) op" where
  "ci_event en le ref rawCommit state detail actor =
     bindT (throwIf (\<not> system_or_admin actor) (DispatchError ACTOR_NOT_PERMITTED)) (\<lambda>_.
     let commit = lower (js_trim rawCommit); d = detail_text detail in
     bindT (throwIf (\<not> commit_id_ok commit) (DispatchError VALIDATION_ERROR)) (\<lambda>_.
     bindT (resolveRef ref) (\<lambda>t.
     bindT (getT (\<lambda>db. list_ex (\<lambda>c. starts_with c commit \<or> starts_with commit c) (ciCandidateCommits le db t))) (\<lambda>known.
     bindT (throwIf (\<not> known) (DispatchError STATE_CONFLICT)) (\<lambda>_.
     bindT (ticketEvent en (t_id t) actor ''ticket.ci_result''
              ([(''commit'', JStr commit), (''state'', JStr (ci_state_name state))]
               @ (if d = [] then [] else [(''detail'', JStr d)]))) (\<lambda>ev.
     returnT (t, ev)))))))"

definition recordCiResult ::
  "env \<Rightarrow> landing_env \<Rightarrow> string \<Rightarrow> string \<Rightarrow> ci_result_state \<Rightarrow> string option \<Rightarrow> actor \<Rightarrow>
     (ci_result_state \<times> bool \<times> ticket_status \<times> id) proc" where
  "recordCiResult en le ref rawCommit state detail actor =
     thenP (run_tx (ci_event en le ref rawCommit state detail actor)) (\<lambda>(t, ev).
     if state = CiFail \<and> (t_status t = ReadyForMerge \<or> t_status t = InTesting)
     then thenP (run_tx (holdForHuman en (t_id t) ''ci_red''
            (''Required CI failed for '' @ take 12 (lower (js_trim rawCommit))
             @ (if detail_text detail = [] then [] else '': '' @ detail_text detail)) actor)) (\<lambda>r.
          run_tx (returnT (state, True, t_status (tres_ticket r), ev)))
     else run_tx (returnT (state, False, t_status t, ev)))"

definition ci_facade ::
  "env \<Rightarrow> landing_env \<Rightarrow> string \<Rightarrow> string \<Rightarrow> ci_result_state \<Rightarrow> string option \<Rightarrow> actor \<Rightarrow>
     ((ci_result_state \<times> bool \<times> ticket_status \<times> id) \<times> landing_started list) proc" where
  "ci_facade en le ref rawCommit state detail actor =
     thenP (recordCiResult en le ref rawCommit state detail actor) (\<lambda>res.
     thenP (run_tx (getT (\<lambda>db. resolve_ref db ref))) (\<lambda>found.
     thenP (case found of
              Some t \<Rightarrow> if state = CiFail then run_tx (revocationAfterLanding en le (t_id t) actor
                          (''ci_failed:'' @ take 12 rawCommit)) else run_tx (returnT [])
            | None \<Rightarrow> run_tx (returnT [])) (\<lambda>landed.
     run_tx (returnT (res, landed)))))"

definition recordCiRequired :: "env \<Rightarrow> string \<Rightarrow> string option \<Rightarrow> actor \<Rightarrow> id option op" where
  "recordCiRequired en ref detail actor =
     bindT (throwIf (\<not> system_or_admin actor) (DispatchError ACTOR_NOT_PERMITTED)) (\<lambda>_.
     bindT (resolveRef ref) (\<lambda>t.
     bindT (getT (\<lambda>db. list_ex (\<lambda>e. we_entity_type e = ''ticket'' \<and> we_entity_id e = t_id t
              \<and> we_event_type e = ''ticket.ci_required'') (db_events db))) (\<lambda>already.
     if already then returnT None
     else bindT (ticketEvent en (t_id t) actor ''ticket.ci_required''
              (if detail_text detail = [] then [] else [(''detail'', JStr (detail_text detail))])) (\<lambda>ev.
     returnT (Some ev)))))"

definition assertCiPassed :: "ticket \<Rightarrow> string option \<Rightarrow> unit op" where
  "assertCiPassed t candidate =
     bindT (getT (\<lambda>db. ciStatus db (t_id t) candidate)) (\<lambda>ci.
     throwIf (ci_required ci \<and> \<not> (candidate \<noteq> None \<and> ci_state ci = Some ''pass'')) (DispatchError POLICY_DENIED))"

end
