(* ===== verification/Approval.thy ===== *)
theory Approval
  imports Contract Merge
begin

text \<open>
  Approving a review (\<open>services/reviewGateService.ts\<close>): who may approve, the observed-risk hold of
  an automatic approval, the commits the approver saw against the heads of the delivery
  branches, the coverage of the candidate by the independent tester, and the tester-first
  route. What the service is constructed with (git probes, the policy predicate, the tester
  lane) is in \<open>gate_env\<close>; a probe that throws is the \<open>Inl\<close> or the \<open>None\<close> the code falls back to.
\<close>

section \<open>The gate's dependencies\<close>

datatype unavailable_kind = NoCheckout | UnreadableCheckout | NoDeliveryBranch | BranchMissing

record unavailable_repo =
  uw_repoId :: id
  uw_repo :: string
  uw_why :: string
  uw_kind :: "unavailable_kind option"

record gate_env =
  ga_landing :: landing_env
  ga_process :: process_env
  ga_unavailable :: "(db \<Rightarrow> ticket \<Rightarrow> string + unavailable_repo list) option"
  ga_testerLaneApplies :: "(db \<Rightarrow> ticket \<Rightarrow> bool) option"
  ga_agents :: bool
  ga_requireRegistered :: bool
  ga_policyAllows :: "(db \<Rightarrow> ticket \<Rightarrow> bool) option"
  ga_observedRisk :: "(db \<Rightarrow> ticket \<Rightarrow> observed_risk option) option"

record shown_commit =
  sc_repo :: "string option"
  sc_sha :: string

record approve_options =
  ap_commits :: "shown_commit list"
  ap_requireCommits :: bool

definition resolveReviewedHeads :: "gate_env \<Rightarrow> db \<Rightarrow> ticket \<Rightarrow> reviewed_head list" where
  "resolveReviewedHeads ga db t = le_reviewedHeads (ga_landing ga) db t"

definition unavailableWriteRepos :: "gate_env \<Rightarrow> db \<Rightarrow> ticket \<Rightarrow> unavailable_repo list" where
  "unavailableWriteRepos ga db t = (case ga_unavailable ga of
     None \<Rightarrow> []
   | Some resolver \<Rightarrow> (case resolver db t of
       Inr repos \<Rightarrow> repos
     | Inl message \<Rightarrow> [\<lparr>uw_repoId = [], uw_repo = ''(unknown)'',
         uw_why = ''the ticket'' @ [CHR 0x27] @ ''s write repositories could not be read ('' @ message @ '')'',
         uw_kind = None\<rparr>]))"

definition assertWriteReposAvailable :: "unavailable_repo list \<Rightarrow> unit op" where
  "assertWriteReposAvailable missing = throwIf (missing \<noteq> []) (DispatchError STATE_CONFLICT)"

definition deliveringAgentId :: "db \<Rightarrow> id \<Rightarrow> id option" where
  "deliveringAgentId db tid = (case rev (sort_key c_created_at (filter (\<lambda>c. c_ticket_id c = tid) (db_claims db))) of
     [] \<Rightarrow> None | c # _ \<Rightarrow> Some (c_agent_id c))"

section \<open>The commits the approver saw\<close>

definition shown_matches :: "reviewed_head list \<Rightarrow> shown_commit \<Rightarrow> reviewed_head \<Rightarrow> bool" where
  "shown_matches heads c h = (case sc_repo c of None \<Rightarrow> length heads = 1
     | Some r \<Rightarrow> r = rh_repoId h \<or> r = rh_repo h)"

definition shown_name :: "reviewed_head list \<Rightarrow> shown_commit \<Rightarrow> string" where
  "shown_name heads c = (case sc_repo c of
     None \<Rightarrow> (case heads of [] \<Rightarrow> ''(unnamed)'' | h # _ \<Rightarrow> rh_repoId h)
   | Some r \<Rightarrow> (case find (shown_matches heads c) heads of None \<Rightarrow> r | Some h \<Rightarrow> rh_repoId h))"

definition shown_sha :: "shown_commit \<Rightarrow> string" where
  "shown_sha c = lower (js_trim (sc_sha c))"

text \<open>The names that occur more than once, in the order of the map.\<close>

definition dupes :: "string list \<Rightarrow> string list" where
  "dupes names = filter (\<lambda>k. count_list names k > 1) (dedup names)"

text \<open>What moved: the repository, the commit shown for it and its head now.\<close>

definition moved_heads :: "reviewed_head list \<Rightarrow> shown_commit list \<Rightarrow> (string \<times> string option \<times> string option) list" where
  "moved_heads heads commits = concat (map (\<lambda>h.
     let sha = map_option shown_sha (find (\<lambda>c. shown_matches heads c h) commits) in
     if sha \<noteq> Some (rh_sha h) then [(rh_repo h, sha, Some (rh_sha h))] else []) heads)"

definition moved_unknown ::
  "reviewed_head list \<Rightarrow> shown_commit list \<Rightarrow> unavailable_repo list \<Rightarrow> (string \<times> string option \<times> string option) list" where
  "moved_unknown heads commits unavailable = concat (map (\<lambda>c.
     let isUnavailable = (case sc_repo c of None \<Rightarrow> False
           | Some r \<Rightarrow> list_ex (\<lambda>u. uw_repoId u = r \<or> uw_repo u = r) unavailable) in
     if \<not> list_ex (shown_matches heads c) heads \<and> \<not> isUnavailable
     then [(case sc_repo c of None \<Rightarrow> ''(unnamed)'' | Some r \<Rightarrow> r, Some (shown_sha c), None)] else []) commits)"

definition checkShownCommits ::
  "reviewed_head list \<Rightarrow> actor \<Rightarrow> approve_options \<Rightarrow> unavailable_repo list \<Rightarrow> thrown + reviewed_head list" where
  "checkShownCommits heads actor opts unavailable = (
     let commits = ap_commits opts in
     if commits = [] then
       (if ap_requireCommits opts \<and> heads \<noteq> [] then Inl (DispatchError STATE_CONFLICT)
        else Inr (if human_or_admin actor then heads else []))
     else if dupes (map (shown_name heads) commits) \<noteq> [] then Inl (DispatchError VALIDATION_ERROR)
     else if moved_heads heads commits @ moved_unknown heads commits unavailable \<noteq> []
       then Inl (DispatchError STATE_CONFLICT)
     else Inr heads)"

section \<open>Coverage by the tester\<close>

definition laneApplies :: "gate_env \<Rightarrow> db \<Rightarrow> ticket \<Rightarrow> bool" where
  "laneApplies ga db t =
     (if t_acceptance t then True else if \<not> t_can_be_tested t then False
      else case ga_testerLaneApplies ga of Some f \<Rightarrow> f db t | None \<Rightarrow> isTestingEnabled (ga_process ga))"

datatype uncovered = NoVerdict | VerdictFailed | OtherCommit | ContractChanged

record tester_coverage =
  cv_covered :: bool
  cv_why :: "uncovered option"
  cv_tested :: "string option"
  cv_head :: "string option"

text \<open>The last row that satisfies a condition, with its \<open>rowid\<close>.\<close>

definition last_row :: "('r \<Rightarrow> bool) \<Rightarrow> 'r list \<Rightarrow> (nat \<times> 'r) option" where
  "last_row P rows = find (\<lambda>(i, e). P e) (rev (enumerate 0 rows))"

definition entered_round :: "id \<Rightarrow> work_event \<Rightarrow> bool" where
  "entered_round tid e = (is_transition tid e \<and> json_text ''to'' (we_payload e) = Some ''in_review''
     \<and> json_text ''from'' (we_payload e) \<noteq> Some ''in_testing'')"

definition is_verdict :: "id \<Rightarrow> work_event \<Rightarrow> bool" where
  "is_verdict tid e = (we_entity_type e = ''ticket'' \<and> we_entity_id e = tid
     \<and> we_event_type e \<in> {''ticket.tester_passed'', ''ticket.tester_failed''})"

definition asSha :: "string option \<Rightarrow> string option" where
  "asSha v = (case v of None \<Rightarrow> None
     | Some s \<Rightarrow> if commit_id_ok (lower (js_trim s)) then Some (lower (js_trim s)) else None)"

definition same_commit :: "string \<Rightarrow> string \<Rightarrow> bool" where
  "same_commit a b = (starts_with a b \<or> starts_with b a)"

definition head_shas :: "reviewed_head list \<Rightarrow> string list" where
  "head_shas heads = filter (\<lambda>s. s \<noteq> []) (map (\<lambda>h. lower (rh_sha h)) heads)"

definition first_of :: "'a list \<Rightarrow> 'a option" where
  "first_of xs = (case xs of [] \<Rightarrow> None | x # _ \<Rightarrow> Some x)"

text \<open>The binding a verdict's evidence row carries.\<close>

definition binding_of :: "db \<Rightarrow> id \<Rightarrow> json option \<Rightarrow> json option" where
  "binding_of db tid p = (case json_text ''evidence_id'' p of None \<Rightarrow> None
     | Some eid \<Rightarrow> Option.bind (find (\<lambda>e. ev_id e = eid \<and> ev_ticket_id e = tid) (db_evidence db)) ev_payload_json)"

definition testerCoverage :: "env \<Rightarrow> db \<Rightarrow> ticket \<Rightarrow> reviewed_head list \<Rightarrow> tester_coverage" where
  "testerCoverage en db t heads = (
     let allHeads = head_shas heads; head = first_of allHeads; tid = t_id t in
     case last_row (is_verdict tid) (db_events db) of
       None \<Rightarrow> \<lparr>cv_covered = False, cv_why = Some NoVerdict, cv_tested = None, cv_head = head\<rparr>
     | Some (vrow, verdict) \<Rightarrow>
         if (case last_row (entered_round tid) (db_events db) of None \<Rightarrow> False | Some (rrow, _) \<Rightarrow> vrow < rrow)
         then \<lparr>cv_covered = False, cv_why = Some NoVerdict, cv_tested = None, cv_head = head\<rparr>
         else let p = we_payload verdict; binding = binding_of db tid p;
                  tested = orElse (asSha (json_text ''tested_head'' p)) (asSha (json_text ''tested_commit'' binding)) in
           if we_event_type verdict \<noteq> ''ticket.tester_passed''
           then \<lparr>cv_covered = False, cv_why = Some VerdictFailed, cv_tested = tested, cv_head = head\<rparr>
           else if allHeads \<noteq> [] \<and> (case tested of None \<Rightarrow> True | Some c \<Rightarrow> \<not> list_ex (\<lambda>h. same_commit h c) allHeads)
           then \<lparr>cv_covered = False, cv_why = Some OtherCommit, cv_tested = tested, cv_head = head\<rparr>
           else let recorded = orElse (json_text ''contract_hash'' binding) (json_text ''contract_hash'' p) in
             if truthy recorded \<and> recorded \<noteq> contractHash en db tid
             then \<lparr>cv_covered = False, cv_why = Some ContractChanged, cv_tested = tested, cv_head = head\<rparr>
             else \<lparr>cv_covered = True, cv_why = None, cv_tested = tested,
                    cv_head = orElse (Option.bind tested (\<lambda>c. find (\<lambda>h. same_commit h c) allHeads)) head\<rparr>)"

definition approveRoutesToTesting :: "env \<Rightarrow> gate_env \<Rightarrow> db \<Rightarrow> ticket \<Rightarrow> bool" where
  "approveRoutesToTesting en ga db t =
     (laneApplies ga db t \<and> \<not> cv_covered (testerCoverage en db t (resolveReviewedHeads ga db t)))"

section \<open>Required CI on approve\<close>

definition ciCandidateHead :: "gate_env \<Rightarrow> db \<Rightarrow> ticket \<Rightarrow> reviewed_head option" where
  "ciCandidateHead ga db t = first_of (resolveReviewedHeads ga db t)"

definition approveCiCandidate :: "gate_env \<Rightarrow> db \<Rightarrow> ticket \<Rightarrow> string option" where
  "approveCiCandidate ga db t = (if ci_required (ciStatus db (t_id t) None)
     then map_option rh_sha (ciCandidateHead ga db t) else None)"

definition approveCiHold :: "gate_env \<Rightarrow> db \<Rightarrow> ticket \<Rightarrow> (string option \<times> string option) option" where
  "approveCiHold ga db t = (
     let candidate = approveCiCandidate ga db t; ci = ciStatus db (t_id t) candidate in
     if \<not> ci_required ci \<or> (candidate \<noteq> None \<and> ci_state ci = Some ''pass'') then None
     else Some (ci_state ci, ci_commit ci))"

section \<open>Approving\<close>

definition policyGrantsAgentApprove :: "gate_env \<Rightarrow> db \<Rightarrow> string \<Rightarrow> bool" where
  "policyGrantsAgentApprove ga db ref = (case ga_policyAllows ga of None \<Rightarrow> False
     | Some allows \<Rightarrow> (case resolve_ref db ref of None \<Rightarrow> False | Some t \<Rightarrow> allows db t))"

definition agentApproveAllowed :: "gate_env \<Rightarrow> db \<Rightarrow> string \<Rightarrow> actor \<Rightarrow> bool" where
  "agentApproveAllowed ga db ref actor = (a_type actor = AgentActor \<and>
     (envFlagOn (ga_process ga ''DISPATCH_ALLOW_AGENT_APPROVE'') \<or> policyGrantsAgentApprove ga db ref))"

fun risk_name :: "risk_level \<Rightarrow> string" where
  "risk_name Low = ''low''"
| "risk_name Medium = ''medium''"
| "risk_name High = ''high''"
| "risk_name Critical = ''critical''"

definition escalation_payload :: "ticket \<Rightarrow> observed_risk option \<Rightarrow> (string \<times> json) list" where
  "escalation_payload t observed = (
     let level = (case observed of None \<Rightarrow> ''unknown'' | Some o' \<Rightarrow> risk_name (ob_level o'));
         reasons = (case observed of None \<Rightarrow> [''diff unavailable to observe'']
                    | Some o' \<Rightarrow> if ob_reasons o' \<noteq> [] then ob_reasons o' else [''diff unavailable to observe'']) in
     [(''declared'', JStr (risk_name (t_risk_level t))), (''observed'', JStr level),
      (''determinate'', JBool (case observed of None \<Rightarrow> False | Some o' \<Rightarrow> ob_determinate o')),
      (''reasons'', JArr (map JStr reasons)),
      (''files'', case observed of None \<Rightarrow> JNull | Some o' \<Rightarrow> JNum (ob_files o')),
      (''lines'', case observed of None \<Rightarrow> JNull | Some o' \<Rightarrow> JNum (ob_lines o'))]
     @ (case observed of None \<Rightarrow> [] | Some o' \<Rightarrow> if ob_holds o' = [] then []
        else [(''holds'', JArr (map JStr (ob_holds o')))]))"

definition escalates :: "gate_env \<Rightarrow> ticket \<Rightarrow> observed_risk option \<Rightarrow> bool" where
  "escalates ga t observed = (case observed of None \<Rightarrow> True
     | Some o' \<Rightarrow> shouldEscalate (ga_process ga) o' (t_risk_level t))"

definition enforceObservedRiskCeiling :: "env \<Rightarrow> gate_env \<Rightarrow> string \<Rightarrow> actor \<Rightarrow> unit proc" where
  "enforceObservedRiskCeiling en ga ref actor = (case ga_observedRisk ga of
     None \<Rightarrow> run_tx (returnT ())
   | Some resolver \<Rightarrow>
       thenP (run_tx (resolveRef ref)) (\<lambda>t.
       thenP (run_tx (getT (\<lambda>db. resolver db t))) (\<lambda>observed.
       if \<not> escalates ga t observed then run_tx (returnT ())
       else thenP (run_tx (ticketEvent en (t_id t) actor ''ticket.autoship_escalated'' (escalation_payload t observed))) (\<lambda>_.
            run_tx (throwT (DispatchError OBSERVED_RISK_ESCALATED))))))"

text \<open>The first part of \<open>approveReview\<close>: who may approve, and for an agent the repositories.\<close>

definition approve_admit :: "gate_env \<Rightarrow> string \<Rightarrow> actor \<Rightarrow> (bool \<times> unavailable_repo list) op" where
  "approve_admit ga ref actor =
     bindT (getT (\<lambda>db. agentApproveAllowed ga db ref actor)) (\<lambda>allowed.
     bindT (throwIf (\<not> human_or_admin actor \<and> \<not> allowed) (DispatchError ACTOR_NOT_PERMITTED)) (\<lambda>_.
     bindT (resolveRef ref) (\<lambda>covered.
     bindT (getT (\<lambda>db. unavailableWriteRepos ga db covered)) (\<lambda>unavailable.
     bindT (whenT allowed (assertWriteReposAvailable unavailable)) (\<lambda>_.
     returnT (allowed, unavailable))))))"

definition unregistered :: "gate_env \<Rightarrow> db \<Rightarrow> actor \<Rightarrow> bool" where
  "unregistered ga db actor = (a_type actor = AgentActor \<and> ga_requireRegistered ga \<and>
     (case a_id actor of None \<Rightarrow> True | Some i \<Rightarrow> \<not> ga_agents ga \<or> agent_findById db i = None))"

definition approves_own :: "db \<Rightarrow> ticket \<Rightarrow> actor \<Rightarrow> bool" where
  "approves_own db t actor = (case (deliveringAgentId db (t_id t), a_id actor) of
     (Some author, Some i) \<Rightarrow> lower (js_trim i) = lower author | _ \<Rightarrow> False)"

definition approve_patch :: "ticket \<Rightarrow> actor \<Rightarrow> ticket_patch option" where
  "approve_patch t actor = map_option (\<lambda>r. no_patch\<lparr>pt_reviewer := Some r\<rparr>) (reviewerPatch t actor)"

text \<open>The move an approval makes, and what it writes in the same transaction.\<close>

definition approve_to_testing ::
  "env \<Rightarrow> gate_env \<Rightarrow> ticket \<Rightarrow> actor \<Rightarrow> unavailable_repo list \<Rightarrow> reviewed_head list \<Rightarrow> transition_result op" where
  "approve_to_testing en ga t actor unavailable pins =
     bindT (getT (\<lambda>db. computeApprovedUnchanged (ga_landing ga) db t)) (\<lambda>unchanged.
     bindT (transition en ((sysmove (t_id t) actor InTesting ''review_approved_to_testing'' [TesterVerdict])
              \<lparr>ti_expectedFromStatus := Some InReview, ti_approvedUnchanged := Some unchanged,
               ti_patch := approve_patch t actor\<rparr>)) (\<lambda>res.
     bindT (assertWriteReposAvailable unavailable) (\<lambda>_.
     bindT (ticketEvent en (t_id t) actor ''ticket.routed_to_testing''
              ((''from'', JStr ''in_review'') # (if t_acceptance t then [(''acceptance'', JBool True)] else []))) (\<lambda>_.
     bindT (recordApprovalPins en t actor pins) (\<lambda>_.
     returnT res)))))"

definition approve_to_merge ::
  "env \<Rightarrow> gate_env \<Rightarrow> ticket \<Rightarrow> actor \<Rightarrow> unavailable_repo list \<Rightarrow> reviewed_head list \<Rightarrow> transition_result op" where
  "approve_to_merge en ga t actor unavailable pins =
     bindT (getT (\<lambda>db. computeApprovedUnchanged (ga_landing ga) db t)) (\<lambda>unchanged.
     bindT (getT (\<lambda>db. deliveryDiffProof en db t)) (\<lambda>deliveryDiff.
     bindT (transition en ((sysmove (t_id t) actor ReadyForMerge ''review_approved'' [ReviewApprove])
              \<lparr>ti_expectedFromStatus := Some InReview, ti_approvedUnchanged := Some unchanged,
               ti_deliveryDiff := Some deliveryDiff, ti_patch := approve_patch t actor\<rparr>)) (\<lambda>res.
     bindT (assertWriteReposAvailable unavailable) (\<lambda>_.
     bindT (recordApprovalPins en t actor pins) (\<lambda>_.
     returnT res)))))"

definition approve_decide ::
  "env \<Rightarrow> gate_env \<Rightarrow> string \<Rightarrow> actor \<Rightarrow> approve_options \<Rightarrow> unavailable_repo list \<Rightarrow> transition_result op" where
  "approve_decide en ga ref actor opts unavailable =
     bindT (resolveRef ref) (\<lambda>t.
     bindT (getT (\<lambda>db. approveCiCandidate ga db t)) (\<lambda>candidate.
     bindT (assertCiPassed t candidate) (\<lambda>_.
     bindT (getT (\<lambda>db. unregistered ga db actor)) (\<lambda>unreg.
     bindT (throwIf unreg (DispatchError ACTOR_NOT_PERMITTED)) (\<lambda>_.
     bindT (getT (\<lambda>db. approves_own db t actor)) (\<lambda>own.
     bindT (throwIf own (DispatchError ACTOR_NOT_PERMITTED)) (\<lambda>_.
     bindT (getT (\<lambda>db. resolveReviewedHeads ga db t)) (\<lambda>heads.
     bindT (liftT (checkShownCommits heads actor opts unavailable)) (\<lambda>pins.
     bindT (getT (\<lambda>db. laneApplies ga db t \<and> \<not> cv_covered (testerCoverage en db t heads))) (\<lambda>untested.
     bindT (throwIf (untested \<and> human_or_admin actor) (DispatchError STATE_CONFLICT)) (\<lambda>_.
     if untested then approve_to_testing en ga t actor unavailable pins
     else approve_to_merge en ga t actor unavailable pins)))))))))))"

definition approveReview ::
  "env \<Rightarrow> gate_env \<Rightarrow> string \<Rightarrow> actor \<Rightarrow> approve_options \<Rightarrow> transition_result proc" where
  "approveReview en ga ref actor opts =
     thenP (run_tx (approve_admit ga ref actor)) (\<lambda>(allowed, unavailable).
     thenP (if allowed then enforceObservedRiskCeiling en ga ref actor else run_tx (returnT ())) (\<lambda>_.
     run_tx (approve_decide en ga ref actor opts unavailable)))"

section \<open>Tester first\<close>

datatype route_why =
    NotInReview ticket_status
  | NotGated
  | HeadsUnreadable
  | AlreadyPassed "string option"
  | CiNotPassed "string option"
  | RouteThrew thrown

record tester_route =
  ro_ticketId :: id
  ro_number :: "nat option"
  ro_why :: "route_why option"
  ro_head :: "string option"

text \<open>Why a ticket is not sent to the tester (\<open>None\<close>: it is), and the coverage that was read.\<close>

definition testerRoutePlan :: "env \<Rightarrow> gate_env \<Rightarrow> db \<Rightarrow> ticket \<Rightarrow> route_why option \<times> tester_coverage option" where
  "testerRoutePlan en ga db t =
     (if t_status t \<noteq> InReview then (Some (NotInReview (t_status t)), None)
      else if \<not> laneApplies ga db t then (Some NotGated, None)
      else if unavailableWriteRepos ga db t \<noteq> [] then (Some HeadsUnreadable, None)
      else let coverage = testerCoverage en db t (resolveReviewedHeads ga db t) in
        if cv_covered coverage then (Some (AlreadyPassed (cv_tested coverage)), Some coverage)
        else let ci = ciStatus db (t_id t) (cv_head coverage) in
          if ci_required ci \<and> ci_state ci \<noteq> Some ''pass'' then (Some (CiNotPassed (ci_state ci)), Some coverage)
          else (None, Some coverage))"

definition routed_payload :: "ticket \<Rightarrow> tester_coverage \<Rightarrow> (string \<times> json) list" where
  "routed_payload t coverage =
     [(''from'', JStr ''in_review''), (''before_review'', JBool True), (''head'', jopt (cv_head coverage))]
     @ (case cv_tested coverage of Some c \<Rightarrow> if cv_why coverage = Some OtherCommit then [(''tested'', JStr c)] else []
        | None \<Rightarrow> [])
     @ (if t_acceptance t then [(''acceptance'', JBool True)] else [])"

definition routeToTester :: "env \<Rightarrow> gate_env \<Rightarrow> string \<Rightarrow> actor \<Rightarrow> tester_route op" where
  "routeToTester en ga ref actor =
     bindT (throwIf (\<not> system_or_admin actor) (DispatchError ACTOR_NOT_PERMITTED)) (\<lambda>_.
     bindT (resolveRef ref) (\<lambda>t.
     bindT (getT (\<lambda>db. testerRoutePlan en ga db t)) (\<lambda>plan.
     let out = (\<lambda>why. \<lparr>ro_ticketId = t_id t, ro_number = t_number t, ro_why = why,
           ro_head = Option.bind (snd plan) cv_head\<rparr>) in
     case plan of
       (None, Some coverage) \<Rightarrow>
         bindT (transition en ((sysmove (t_id t) actor InTesting ''tester_before_review'' [TesterVerdict])
                  \<lparr>ti_expectedFromStatus := Some InReview\<rparr>)) (\<lambda>_.
         bindT (ticketEvent en (t_id t) actor ''ticket.routed_to_testing'' (routed_payload t coverage)) (\<lambda>_.
         returnT (out None)))
     | (why, _) \<Rightarrow> returnT (out why))))"

definition in_review_ids :: "db \<Rightarrow> id list" where
  "in_review_ids db = map t_id (sort_key (\<lambda>t. case t_number t of None \<Rightarrow> 0 | Some n \<Rightarrow> Suc n)
     (filter (\<lambda>t. t_status t = InReview) (db_tickets db)))"

primrec routeEach :: "env \<Rightarrow> gate_env \<Rightarrow> actor \<Rightarrow> id list \<Rightarrow> tester_route list proc" where
  "routeEach en ga actor [] = run_tx (returnT [])"
| "routeEach en ga actor (i # is) =
     thenP (run_tx (catchT (routeToTester en ga i actor) (\<lambda>e. returnT
        \<lparr>ro_ticketId = i, ro_number = None, ro_why = Some (RouteThrew e), ro_head = None\<rparr>))) (\<lambda>r.
     thenP (routeEach en ga actor is) (\<lambda>rs. run_tx (returnT (r # rs))))"

definition routeAllToTester :: "env \<Rightarrow> gate_env \<Rightarrow> actor \<Rightarrow> tester_route list proc" where
  "routeAllToTester en ga actor =
     thenP (run_tx (bindT (throwIf (\<not> system_or_admin actor) (DispatchError ACTOR_NOT_PERMITTED)) (\<lambda>_.
        getT in_review_ids))) (routeEach en ga actor)"

text \<open>\<open>pendingTesterRoutes\<close>: how many tickets the sweep would send to the tester now.\<close>

definition pendingTesterRoutes :: "env \<Rightarrow> gate_env \<Rightarrow> db \<Rightarrow> nat" where
  "pendingTesterRoutes en ga db = length (filter (\<lambda>t. laneApplies ga db t \<and> fst (testerRoutePlan en ga db t) = None)
     (filter (\<lambda>t. t_status t = InReview) (db_tickets db)))"

section \<open>Merge runs the API started\<close>

text \<open>\<open>noteMergeStarted\<close> and \<open>mergeInFlight\<close>; \<open>runs\<close> is the status column of the run registry.\<close>

definition noteMergeStarted :: "env \<Rightarrow> string \<Rightarrow> id option \<Rightarrow> actor \<Rightarrow> unit op" where
  "noteMergeStarted en ref runId actor =
     bindT (resolveRef ref) (\<lambda>t.
     bindT (ticketEvent en (t_id t) actor ''ticket.merge_started'' [(''run_id'', jopt runId)]) (\<lambda>_.
     returnT ()))"

definition run_is_running :: "(id \<Rightarrow> string option) \<Rightarrow> work_event option \<Rightarrow> bool" where
  "run_is_running runs started = (case started of
     None \<Rightarrow> False
   | Some e \<Rightarrow> (case json_text ''run_id'' (we_payload e) of
       None \<Rightarrow> False
     | Some i \<Rightarrow> i \<noteq> [] \<and> runs i = Some ''running''))"

definition mergeInFlight :: "(id \<Rightarrow> string option) \<Rightarrow> db \<Rightarrow> ticket \<Rightarrow> bool" where
  "mergeInFlight runs db t = run_is_running runs (find (\<lambda>e. we_entity_type e = ''ticket'' \<and> we_entity_id e = t_id t
     \<and> we_event_type e = ''ticket.merge_started'') (rev (db_events db)))"

end
