(* ===== verification/Links.thy ===== *)
theory Links
  imports Repos Decisions Approval
begin

text \<open>
  The links the facade makes in one transaction (\<open>services/ticketLinksService.ts\<close>) and the
  membership of epics (\<open>services/epicAcceptance.ts\<close>): a ticket created with its repositories and
  scopes, and the dependency of an epic's acceptance ticket on each confirmed member, wired and
  withdrawn as the scope links change.
\<close>

section \<open>The acceptance ticket of an epic\<close>

definition EPIC_MEMBER_RELATIONS :: "ticket_scope_relation list" where
  "EPIC_MEMBER_RELATIONS = [ScPrimary, ScSecondary]"

text \<open>
  The number an \<open>epic.created\<close> event declares: \<open>createEpic\<close> writes a number or null there, and any
  other value counts as none.
\<close>

definition declared_number :: "work_event \<Rightarrow> nat option" where
  "declared_number e = (case we_payload e of Some (JObj fs) \<Rightarrow>
      (case map_of fs ''acceptance_ticket'' of Some (JNum n) \<Rightarrow> if n > 0 then Some (nat n) else None | _ \<Rightarrow> None)
    | _ \<Rightarrow> None)"

definition epic_created :: "work_event \<Rightarrow> bool" where
  "epic_created e = (we_entity_type e = ''scope_node'' \<and> we_event_type e = ''epic.created'')"

definition declaredAcceptanceNumber :: "db \<Rightarrow> id \<Rightarrow> nat option" where
  "declaredAcceptanceNumber db nid = (case last_row (\<lambda>e. epic_created e \<and> we_entity_id e = nid) (db_events db) of
     None \<Rightarrow> None | Some (_, e) \<Rightarrow> declared_number e)"

definition acceptance_numbered :: "db \<Rightarrow> nat \<Rightarrow> ticket option" where
  "acceptance_numbered db n = find (\<lambda>t. t_number t = Some n \<and> t_acceptance t) (db_tickets db)"

text \<open>The epic that declares a ticket as its own, the latest declaration winning.\<close>

definition declaredOwner :: "db \<Rightarrow> id \<Rightarrow> id option" where
  "declaredOwner db tid = map_option (\<lambda>(_, e). we_entity_id e) (last_row (\<lambda>e. epic_created e \<and>
     (case declared_number e of None \<Rightarrow> False
      | Some n \<Rightarrow> list_ex (\<lambda>t. t_id t = tid \<and> t_number t = Some n \<and> t_acceptance t) (db_tickets db))) (db_events db))"

text \<open>The acceptance tickets an epic holds by a confirmed link, lowest number first.\<close>

definition member_acceptance :: "db \<Rightarrow> id \<Rightarrow> ticket list" where
  "member_acceptance db nid = sort_key (\<lambda>t. case t_number t of None \<Rightarrow> 0 | Some n \<Rightarrow> Suc n)
     (concat (map (\<lambda>l. if ts_scope_node_id l = nid \<and> ts_relation l \<in> set EPIC_MEMBER_RELATIONS
        then filter (\<lambda>t. t_id t = ts_ticket_id l \<and> t_acceptance t) (db_tickets db) else []) (db_ticket_scopes db)))"

definition ownAcceptanceTicketId :: "db \<Rightarrow> id \<Rightarrow> id option" where
  "ownAcceptanceTicketId db nid = (case Option.bind (declaredAcceptanceNumber db nid) (acceptance_numbered db) of
     Some t \<Rightarrow> Some (t_id t)
   | None \<Rightarrow> map_option t_id (find (\<lambda>t. case declaredOwner db (t_id t) of None \<Rightarrow> True | Some o' \<Rightarrow> o' = nid) (member_acceptance db nid)))"

record epic_with_acceptance =
  ep_node_id :: id
  ep_name :: string
  ep_acceptance :: id

definition epicsWithOwnAcceptance :: "db \<Rightarrow> epic_with_acceptance list" where
  "epicsWithOwnAcceptance db = concat (map (\<lambda>n. case ownAcceptanceTicketId db (sn_id n) of None \<Rightarrow> []
       | Some acc \<Rightarrow> [\<lparr>ep_node_id = sn_id n, ep_name = sn_name n, ep_acceptance = acc\<rparr>])
     (sort_key sn_created_at (filter (\<lambda>n. sn_type n = NodeEpic) (db_scope_nodes db))))"

text \<open>The confirmed members that are to be built, with the time they were last done.\<close>

definition done_at :: "db \<Rightarrow> id \<Rightarrow> instant option" where
  "done_at db tid = (case map we_created_at (filter (\<lambda>e. is_transition tid e \<and> json_text ''to'' (we_payload e) = Some ''done'') (db_events db)) of
     [] \<Rightarrow> None | x # xs \<Rightarrow> Some (foldl max x xs))"

definition epicImplementationMembers :: "db \<Rightarrow> id \<Rightarrow> (ticket \<times> instant option) list" where
  "epicImplementationMembers db nid = map (\<lambda>t. (t, done_at db (t_id t)))
     (sort_key (\<lambda>t. case t_number t of None \<Rightarrow> 0 | Some n \<Rightarrow> Suc n)
       (concat (map (\<lambda>l. if ts_scope_node_id l = nid \<and> ts_relation l \<in> set EPIC_MEMBER_RELATIONS
          then filter (\<lambda>t. t_id t = ts_ticket_id l \<and> \<not> t_acceptance t \<and> t_status t \<noteq> Cancelled) (db_tickets db) else [])
        (db_ticket_scopes db))))"

section \<open>Membership and the dependency\<close>

text \<open>The acceptance ticket of an epic while it can still wait for a member.\<close>

definition open_final :: "db \<Rightarrow> id \<Rightarrow> id \<Rightarrow> ticket option" where
  "open_final db tid nid = (case node_findById db nid of None \<Rightarrow> None
     | Some n \<Rightarrow> if sn_type n \<noteq> NodeEpic then None
       else case ownAcceptanceTicketId db nid of None \<Rightarrow> None
         | Some fid \<Rightarrow> if fid = tid then None
           else case ticket_findById db fid of None \<Rightarrow> None
             | Some f \<Rightarrow> if t_status f = Done \<or> t_status f = Cancelled then None else Some f)"

definition wire_target :: "db \<Rightarrow> id \<Rightarrow> id \<Rightarrow> ticket_scope_relation \<Rightarrow> ticket option" where
  "wire_target db tid nid relation = (
     if relation \<notin> set EPIC_MEMBER_RELATIONS then None
     else case ticket_findById db tid of None \<Rightarrow> None
       | Some t \<Rightarrow> if t_acceptance t \<or> t_status t = Cancelled then None
         else case open_final db tid nid of None \<Rightarrow> None
           | Some f \<Rightarrow> if dep_exists db (t_id f) tid then None else Some f)"

text \<open>A member that waits on the acceptance ticket itself is not wired; its link stands.\<close>

definition wireEpicAcceptance :: "env \<Rightarrow> id \<Rightarrow> id \<Rightarrow> ticket_scope_relation \<Rightarrow> actor \<Rightarrow> unit op" where
  "wireEpicAcceptance en tid nid relation actor =
     bindT (getT (\<lambda>db. wire_target db tid nid relation)) (\<lambda>target.
     case target of None \<Rightarrow> returnT ()
     | Some f \<Rightarrow>
         bindT (catchT (bindT (addDependency en (t_id f) tid actor) (\<lambda>_. returnT True))
                  (\<lambda>e. if e = DispatchError INVALID_DEPENDENCY then returnT False else throwT e)) (\<lambda>added.
         whenT added (bindT (ticketEvent en (t_id f) actor ''epic.member_dependency_wired''
           [(''epic_node_id'', JStr nid), (''member_ticket_id'', JStr tid)]) (\<lambda>_. returnT ()))))"

definition last_marked :: "db \<Rightarrow> id \<Rightarrow> string \<Rightarrow> string \<Rightarrow> string \<Rightarrow> nat" where
  "last_marked db fid event_type field v = (case last_row (\<lambda>e. we_entity_type e = ''ticket'' \<and> we_entity_id e = fid
       \<and> we_event_type e = event_type \<and> json_text field (we_payload e) = Some v) (db_events db) of
     None \<Rightarrow> 0 | Some (i, _) \<Rightarrow> Suc i)"

definition still_member :: "db \<Rightarrow> id \<Rightarrow> id \<Rightarrow> bool" where
  "still_member db tid nid = list_ex (\<lambda>l. ts_ticket_id l = tid \<and> ts_scope_node_id l = nid
     \<and> ts_relation l \<in> set EPIC_MEMBER_RELATIONS) (db_ticket_scopes db)"

text \<open>The edge is withdrawn only when membership wired it and nobody removed it since.\<close>

definition unwire_target :: "db \<Rightarrow> id \<Rightarrow> id \<Rightarrow> ticket option" where
  "unwire_target db tid nid = (case open_final db tid nid of None \<Rightarrow> None
     | Some f \<Rightarrow>
         if still_member db tid nid \<or> \<not> dep_exists db (t_id f) tid then None
         else let wired = last_marked db (t_id f) ''epic.member_dependency_wired'' ''member_ticket_id'' tid in
           if wired = 0 \<or> last_marked db (t_id f) ''ticket.dependency_removed'' ''depends_on_ticket_id'' tid > wired then None
           else Some f)"

definition unwireEpicAcceptance :: "env \<Rightarrow> id \<Rightarrow> id \<Rightarrow> actor \<Rightarrow> unit op" where
  "unwireEpicAcceptance en tid nid actor =
     bindT (getT (\<lambda>db. unwire_target db tid nid)) (\<lambda>target.
     case target of None \<Rightarrow> returnT ()
     | Some f \<Rightarrow> bindT (removeDependency en (t_id f) tid actor) (\<lambda>_. returnT ()))"

section \<open>The operations of the facade\<close>

definition defined_link :: "ticket_scope_node option \<Rightarrow> ticket_scope_node op" where
  "defined_link l = (case l of None \<Rightarrow> throwT (DispatchError INTERNAL_ERROR) | Some x \<Rightarrow> returnT x)"

definition linkTicketScope :: "env \<Rightarrow> link_scope_input \<Rightarrow> actor \<Rightarrow> ticket_scope_node op" where
  "linkTicketScope en inp actor =
     bindT (scope_linkTicketScope en inp actor) (\<lambda>found.
     bindT (defined_link found) (\<lambda>link.
     bindT (wireEpicAcceptance en (ts_ticket_id link) (ts_scope_node_id link) (ts_relation link) actor) (\<lambda>_.
     bindT (unwireEpicAcceptance en (ts_ticket_id link) (ts_scope_node_id link) actor) (\<lambda>_.
     returnT link))))"

definition setPrimaryScope :: "env \<Rightarrow> string \<Rightarrow> id \<Rightarrow> actor \<Rightarrow> ticket_scope_node op" where
  "setPrimaryScope en ref nid actor =
     bindT (scope_setPrimaryScope en ref nid actor) (\<lambda>link.
     bindT (wireEpicAcceptance en (ts_ticket_id link) (ts_scope_node_id link) (ts_relation link) actor) (\<lambda>_.
     returnT link))"

definition removeTicketScope :: "env \<Rightarrow> string \<Rightarrow> id \<Rightarrow> actor \<Rightarrow> (id \<times> id \<times> id) op" where
  "removeTicketScope en ref nid actor =
     bindT (scope_removeTicketScope en ref nid actor) (\<lambda>(tid, n, ev).
     bindT (unwireEpicAcceptance en tid n actor) (\<lambda>_.
     returnT (tid, n, ev)))"

record ticket_links =
  tk_repo :: "string option"
  tk_scopeNodeIds :: "id list"
  tk_repoAccess :: "(string \<times> ticket_repo_access) list"

definition link_scopes :: "env \<Rightarrow> id \<Rightarrow> id list \<Rightarrow> actor \<Rightarrow> unit op" where
  "link_scopes en tid ids actor = forT (enumerate 0 ids) (\<lambda>(i, nid).
     bindT (linkTicketScope en \<lparr>lk_ticket_id = tid, lk_scope_node_id = nid, lk_relation = (if i = 0 then ScPrimary else ScSecondary),
       lk_confidence = None, lk_reasons = None\<rparr> actor) (\<lambda>_. returnT ()))"

definition link_accesses :: "env \<Rightarrow> id \<Rightarrow> (string \<times> ticket_repo_access) list \<Rightarrow> actor \<Rightarrow> unit op" where
  "link_accesses en tid accs actor = forT accs (\<lambda>(rid, acc).
     bindT (setTicketRepoAccess en \<lparr>ta_ticket_id = tid, ta_repo_id = rid, ta_access = acc, ta_relation = RelConfirmed,
       ta_source = SrcManual, ta_confidence = None, ta_reasons = None\<rparr> actor) (\<lambda>_. returnT ()))"

definition createTicketWithLinks :: "env \<Rightarrow> create_ticket_input \<Rightarrow> ticket_links \<Rightarrow> actor \<Rightarrow> ticket op" where
  "createTicketWithLinks en inp links actor =
     bindT (createTicket en inp actor) (\<lambda>t.
     bindT (case tk_repo links of None \<Rightarrow> returnT ()
       | Some repo \<Rightarrow> if repo = [] then returnT () else linkRepository en (t_id t) repo ''primary'' actor) (\<lambda>_.
     bindT (link_scopes en (t_id t) (tk_scopeNodeIds links) actor) (\<lambda>_.
     bindT (link_accesses en (t_id t) (tk_repoAccess links) actor) (\<lambda>_.
     returnT t))))"

text \<open>A decision linked by any reference of a ticket.\<close>

definition resolve_each :: "string list \<Rightarrow> id list op" where
  "resolve_each refs = (\<lambda>db. case those (map (resolve_ref db) refs) of
     None \<Rightarrow> Inl (DispatchError NOT_FOUND) | Some ts \<Rightarrow> Inr (map t_id ts, db))"

definition linked_createDecision :: "env \<Rightarrow> create_decision_input \<Rightarrow> actor \<Rightarrow> decision op" where
  "linked_createDecision en inp actor =
     bindT (case cd_ticketId inp of None \<Rightarrow> returnT None
       | Some ref \<Rightarrow> if ref = [] then returnT (cd_ticketId inp) else bindT (resolveRef ref) (\<lambda>t. returnT (Some (t_id t)))) (\<lambda>tid.
     bindT (resolve_each (cd_ticketIds inp)) (\<lambda>tids.
     createDecision en (inp\<lparr>cd_ticketId := tid, cd_ticketIds := tids\<rparr>) actor))"

end
