(* ===== verification/Pause.thy ===== *)
theory Pause
  imports Ticket_Inv
begin

text \<open>
  Pause on cap (\<open>services/pauseService.ts\<close>, with \<open>beginResume\<close> of
  \<open>services/ticketLifecycleService.ts\<close>): a delivery that hits a cap is parked with its resume
  context, a human asks for it to continue or stops it, and the loop resumes it under a new
  lease. The notification after the commit is not modelled (it cannot change the outcome).
\<close>

definition PAUSABLE_FROM :: "ticket_status list" where
  "PAUSABLE_FROM = [InProgress, InReview, Claimed]"

record pause_input =
  pi_reason :: pause_reason
  pi_branch_name :: "string option"
  pi_worktree_path :: "string option"
  pi_worktrees_json :: "string option"
  pi_repo :: "string option"
  pi_attempt :: "nat option"
  pi_turns :: "nat option"
  pi_spend :: "string option"

definition pause_ctx :: "pause_input \<Rightarrow> pause_context" where
  "pause_ctx inp = \<lparr>pc_reason = pi_reason inp, pc_branch_name = pi_branch_name inp,
     pc_worktree_path = pi_worktree_path inp, pc_worktrees_json = pi_worktrees_json inp,
     pc_repo = pi_repo inp, pc_attempt = (case pi_attempt inp of None \<Rightarrow> 0 | Some n \<Rightarrow> n),
     pc_turns = pi_turns inp, pc_spend = pi_spend inp\<rparr>"

definition pauseDelivery :: "env \<Rightarrow> string \<Rightarrow> pause_input \<Rightarrow> actor \<Rightarrow> transition_result op" where
  "pauseDelivery en ref inp actor =
     bindT (resolveRef ref) (\<lambda>t.
     bindT (throwIf (t_status t \<notin> set PAUSABLE_FROM) (DispatchError ILLEGAL_TRANSITION)) (\<lambda>_.
     bindT (transition en ((sysmove (t_id t) actor Paused (''paused_'' @ pause_reason_name (pi_reason inp))
              [PauseDelivery])\<lparr>ti_expectedFromStatus := Some (t_status t)\<rparr>)) (\<lambda>res.
     bindT (paused_upsert (t_id t) (pause_ctx inp) (en_now en)) (\<lambda>_.
     bindT (ticketEvent en (t_id t) actor ''ticket.paused''
              [(''reason'', JStr (pause_reason_name (pi_reason inp))),
               (''branch_name'', jopt (pi_branch_name inp)),
               (''worktree_path'', jopt (pi_worktree_path inp)),
               (''attempt'', JNum (int (pc_attempt (pause_ctx inp)))),
               (''turns'', case pi_turns inp of None \<Rightarrow> JNull | Some n \<Rightarrow> JNum (int n)),
               (''spend'', jopt (pi_spend inp))]) (\<lambda>_.
     returnT res)))))"

definition requestContinue :: "env \<Rightarrow> string \<Rightarrow> actor \<Rightarrow> (id \<times> id) op" where
  "requestContinue en ref actor =
     bindT (resolveRef ref) (\<lambda>t.
     bindT (throwIf (t_status t \<noteq> Paused) (DispatchError ILLEGAL_TRANSITION)) (\<lambda>_.
     bindT (getT (\<lambda>db. paused_find db (t_id t))) (\<lambda>ctx.
     bindT (throwIf (ctx = None) (DispatchError NOT_FOUND)) (\<lambda>_.
     bindT (setResumeRequested (t_id t) True (en_now en)) (\<lambda>_.
     bindT (ticketEvent en (t_id t) actor ''ticket.resume_requested'' []) (\<lambda>ev.
     returnT (t_id t, ev)))))))"

definition pause_beginResume :: "env \<Rightarrow> string \<Rightarrow> actor \<Rightarrow> (id \<times> id \<times> paused_delivery) op" where
  "pause_beginResume en ref actor =
     bindT (resolveRef ref) (\<lambda>t.
     bindT (throwIf (t_status t \<noteq> Paused) (DispatchError ILLEGAL_TRANSITION)) (\<lambda>_.
     bindT (getT (\<lambda>db. paused_find db (t_id t))) (\<lambda>ctx.
     bindT (throwIf (ctx = None) (DispatchError NOT_FOUND)) (\<lambda>_.
     bindT (transition en ((sysmove (t_id t) actor InProgress ''resume_delivery'' [ResumeDelivery])
              \<lparr>ti_expectedFromStatus := Some Paused\<rparr>)) (\<lambda>_.
     bindT (setResumeRequested (t_id t) False (en_now en)) (\<lambda>_.
     bindT (ticketEvent en (t_id t) actor ''ticket.resumed''
              [(''branch_name'', jopt (p_branch_name (the ctx))),
               (''attempt'', JNum (int (p_attempt (the ctx))))]) (\<lambda>ev.
     returnT (t_id t, ev, the ctx))))))))"

definition pause_stop :: "env \<Rightarrow> string \<Rightarrow> actor \<Rightarrow> string option \<Rightarrow> transition_result op" where
  "pause_stop en ref actor reason =
     bindT (resolveRef ref) (\<lambda>t.
     bindT (throwIf (t_status t \<noteq> Paused) (DispatchError ILLEGAL_TRANSITION)) (\<lambda>_.
     bindT (transition en ((sysmove (t_id t) actor Cancelled
              (case reason of None \<Rightarrow> ''paused_delivery_stopped''
               | Some r \<Rightarrow> if js_trim r \<noteq> [] then r else ''paused_delivery_stopped'') [WontDo])
              \<lparr>ti_expectedFromStatus := Some Paused\<rparr>)) (\<lambda>res.
     bindT (resetAcceptanceCriteria en (t_id t) actor) (\<lambda>_.
     bindT (paused_delete (t_id t)) (\<lambda>_.
     bindT (ticketEvent en (t_id t) actor ''ticket.paused_stopped'' [(''reason'', jopt reason)]) (\<lambda>_.
     returnT res))))))"

definition getContext :: "string \<Rightarrow> paused_delivery option op" where
  "getContext ref = bindT (resolveRef ref) (\<lambda>t. getT (\<lambda>db. paused_find db (t_id t)))"

definition clearContext :: "string \<Rightarrow> unit op" where
  "clearContext ref = bindT (resolveRef ref) (\<lambda>t. paused_delete (t_id t))"

text \<open>The resume with an optional lease, one transaction.\<close>

definition beginResume ::
  "env \<Rightarrow> string \<Rightarrow> actor \<Rightarrow> (id \<times> nat) option \<Rightarrow> (id \<times> id \<times> paused_delivery \<times> string option) op" where
  "beginResume en ref actor lease =
     bindT (pause_beginResume en ref actor) (\<lambda>(tid, ev, ctx).
     case lease of
       None \<Rightarrow> returnT (tid, ev, ctx, None)
     | Some (agentId, ttl) \<Rightarrow>
         bindT (leaseResumedDelivery en tid agentId ttl actor) (\<lambda>(token, _).
         returnT (tid, ev, ctx, Some token)))"

section \<open>The lifecycle invariant\<close>

lemma wp_paused_delete [wp_simps]:
  "wp (paused_delete i) Q db = Q () (db\<lparr>db_paused := filter (\<lambda>p. p_ticket_id p \<noteq> i) (db_paused db)\<rparr>)"
  by (simp add: paused_delete_def wp_modify)

definition put_context :: "id \<Rightarrow> pause_context \<Rightarrow> instant \<Rightarrow> db \<Rightarrow> db" where
  "put_context tid c now db = db\<lparr>db_paused :=
     (if paused_find db tid = None then db_paused db @ [paused_row tid c now now]
      else upd_rows (\<lambda>p. p_ticket_id p = tid) (\<lambda>p. paused_row tid c (p_created_at p) now)
             (db_paused db))\<rparr>"

lemma wp_paused_upsert [wp_simps]: "wp (paused_upsert tid c now) Q db = Q () (put_context tid c now db)"
  by (simp add: paused_upsert_def put_context_def wp_modify)

lemma find_row_upd_key:
  assumes "\<And>r. key r = k \<Longrightarrow> key (f r) = k"
  shows "find_row key j (upd_rows (\<lambda>r. key r = k) f rows) =
    (if j = k then map_option f (find_row key k rows) else find_row key j rows)"
  using assms by (induction rows) (auto simp: find_row_def upd_rows_def)

lemma paused_find_put:
  "paused_find (put_context tid c now db) j =
     (if j = tid then Some (paused_row tid c (case paused_find db tid of None \<Rightarrow> now | Some p \<Rightarrow> p_created_at p) now)
      else paused_find db j)"
proof (cases "paused_find db tid")
  case None
  have "find_row p_ticket_id k [paused_row tid c a b] = (if k = tid then Some (paused_row tid c a b) else None)" for k a b
    by (auto simp: find_row_def paused_row_def)
  with None show ?thesis
    by (simp add: put_context_def paused_find_def find_row_append split: option.split)
next
  case (Some p)
  then show ?thesis
    by (auto simp: put_context_def paused_find_def find_row_upd_key paused_row_def)
qed

lemma on_view_put_context:
  assumes "on_view db i f s"
  shows "on_view db i (\<lambda>v. (f v)\<lparr>v_context := True\<rparr>) (put_context i c now s)"
proof (rule on_view_trans [OF assms])
  let ?s = "put_context i c now s"
  have same: "ticket_findById ?s j = ticket_findById s j" "hasActiveForTicket ?s j = hasActiveForTicket s j"
    "keys_ok ?s = keys_ok s" for j
    by (simp_all add: put_context_def ticket_findById_def hasActiveForTicket_def)
  have "view ?s j = (if j = i then map_option (\<lambda>v. v\<lparr>v_context := True\<rparr>) (view s i) else view s j)" for j
    unfolding view_eq same paused_find_put by (simp add: option.map_comp comp_def)
  with same(3) on_view_keys [OF assms] show "on_view s i (\<lambda>v. v\<lparr>v_context := True\<rparr>) ?s"
    by (simp add: on_view_def)
qed

lemma on_view_drop_context:
  assumes "on_view db i f s"
  shows "on_view db i (\<lambda>v. (f v)\<lparr>v_context := False\<rparr>)
    (s\<lparr>db_paused := filter (\<lambda>p. p_ticket_id p \<noteq> i) (db_paused s)\<rparr>)"
  using on_view_paused [OF assms, of "filter (\<lambda>p. p_ticket_id p \<noteq> i) (db_paused s)"]
  by (simp add: find_row_filter_ne)

lemma sound_context: "sound v \<Longrightarrow> sound (v\<lparr>v_context := False\<rparr>)"
  by (simp add: sound_def)

lemma sound_paused: "sound ((goto Paused v)\<lparr>v_context := True\<rparr>)"
  by (simp add: sound_def goto_def REVIEW_LANE_STATUSES_def)

lemma healthy_pauseDelivery:
  assumes "healthy db" shows "wp (pauseDelivery en r inp actor) (\<lambda>_. healthy) db"
  unfolding pauseDelivery_def wp_simps add_event_simps
proof (intro allI impI, rule wp_transition_view [OF on_view_refl [OF healthy_keys [OF assms]]], simp)
  fix t :: ticket and s'
  let ?inp = "(sysmove (t_id t) actor Paused (''paused_'' @ pause_reason_name (pi_reason inp))
              [PauseDelivery])\<lparr>ti_expectedFromStatus := Some (t_status t)\<rparr>"
  assume "on_view db (t_id t) (\<lambda>v. goto (ti_toStatus ?inp) v) s'"
  then have "on_view db (t_id t) (\<lambda>v. (goto Paused v)\<lparr>v_context := True\<rparr>) (put_context (t_id t) (pause_ctx inp) (en_now en) s')"
    by (intro on_view_put_context) simp
  then show "healthy (put_context (t_id t) (pause_ctx inp) (en_now en) s')"
    by (rule healthy_on_view [OF assms]) (rule sound_paused)
qed

lemma healthy_on_view_id: "healthy db \<Longrightarrow> on_view db i (\<lambda>v. v) s \<Longrightarrow> healthy s"
  by (erule healthy_on_view) simp_all

lemma healthy_requestContinue:
  assumes "healthy db" shows "wp (requestContinue en r actor) (\<lambda>_. healthy) db"
  unfolding requestContinue_def wp_simps
  by (auto intro!: healthy_on_view_id [OF assms] on_view_resume on_view_refl healthy_keys [OF assms])

lemma sound_resumed:
  "sound v \<Longrightarrow> v_status v = Paused \<Longrightarrow> sound (goto InProgress v) \<and> sound ((goto InProgress v)\<lparr>v_leased := True\<rparr>)"
  by (auto simp: sound_def goto_def REVIEW_LANE_STATUSES_def)

lemma wp_pause_beginResume:
  assumes "healthy db"
    and "\<And>i ev ctx s. on_view db i (goto InProgress) s \<Longrightarrow> (\<And>v. view db i = Some v \<Longrightarrow> v_status v = Paused) \<Longrightarrow> Q (i, ev, ctx) s"
  shows "wp (pause_beginResume en r actor) Q db"
  unfolding pause_beginResume_def wp_simps add_event_simps
  by (intro allI impI, rule wp_transition_view [OF on_view_refl [OF healthy_keys [OF assms(1)]]])
    (auto intro!: assms(2) on_view_resume)

lemma healthy_beginResume:
  assumes "healthy db" shows "wp (beginResume en r actor lease) (\<lambda>_. healthy) db"
  unfolding beginResume_def wp_bind
proof (rule wp_pause_beginResume [OF assms])
  fix i :: id and ev ctx s
  assume v: "on_view db i (goto InProgress) s" and p: "\<And>v. view db i = Some v \<Longrightarrow> v_status v = Paused"
  have "healthy s" by (rule healthy_on_view [OF assms v]) (use p sound_resumed in blast)
  moreover have "wp (leaseResumedDelivery en i a ttl actor) (\<lambda>_. healthy) s" for a ttl
    by (rule healthy_leaseResumedDelivery [OF assms v]) (use p sound_resumed in blast)
  ultimately show "wp (case (i, ev, ctx) of (tid, ev, ctx) \<Rightarrow> case lease of
       None \<Rightarrow> returnT (tid, ev, ctx, None)
     | Some (agentId, ttl) \<Rightarrow>
         bindT (leaseResumedDelivery en tid agentId ttl actor) (\<lambda>(token, _).
         returnT (tid, ev, ctx, Some token))) (\<lambda>_. healthy) s"
    by (cases lease) (auto simp: wp_simps case_prod_beta)
qed

lemma healthy_drop_context:
  assumes "healthy db"
  shows "healthy (db\<lparr>db_paused := filter (\<lambda>p. p_ticket_id p \<noteq> i) (db_paused db)\<rparr>)"
  by (rule healthy_on_view [OF assms on_view_drop_context [OF on_view_refl [OF healthy_keys [OF assms]]]])
    (rule sound_context)

lemma healthy_clearContext:
  "healthy db \<Longrightarrow> wp (clearContext r) (\<lambda>_. healthy) db"
  unfolding clearContext_def wp_simps by (simp add: healthy_drop_context)

lemma healthy_pause_stop:
  assumes "healthy db" shows "wp (pause_stop en r actor why) (\<lambda>_. healthy) db"
  unfolding pause_stop_def wp_simps add_event_simps
  by (auto intro!: wp_transition_free [OF assms] on_view_refl healthy_keys [OF assms]
      wp_mono [OF healthy_resetAcceptanceCriteria] healthy_drop_context)

end
