(* ===== verification/Tester.thy ===== *)
theory Tester
  imports Approval
begin

text \<open>
  The verdicts of the independent tester (\<open>services/reviewGateService.ts\<close>): the binding a verdict
  carries and what an automated PASS must prove, passing and failing a ticket in testing, the
  replay of the tester's tests on the landed revision, and the runner's execution of a
  criterion's check command.
\<close>

section \<open>The binding of a verdict\<close>

record verdict_input =
  vi_tested_commit :: "string option"
  vi_contract_hash :: "string option"
  vi_replay :: "string option"
  vi_tests_commit :: "string option"

record verdict_binding =
  vb_tested_commit :: "string option"
  vb_contract_hash :: "string option"
  vb_replay :: "string option"
  vb_tests_commit :: "string option"

definition REPLAY_STATES :: "string list" where
  "REPLAY_STATES = [''passed'', ''failed'', ''skipped'']"

definition norm :: "string \<Rightarrow> string" where
  "norm s = lower (js_trim s)"

definition hash_ok :: "string \<Rightarrow> bool" where
  "hash_ok h = (length h = 64 \<and> list_all is_lower_hex h)"

definition well_shaped :: "verdict_input \<Rightarrow> bool" where
  "well_shaped inp = ((case vi_tested_commit inp of None \<Rightarrow> True | Some s \<Rightarrow> full_sha (norm s))
     \<and> (case vi_contract_hash inp of None \<Rightarrow> True | Some s \<Rightarrow> hash_ok (norm s))
     \<and> (case vi_replay inp of None \<Rightarrow> True | Some s \<Rightarrow> s \<in> set REPLAY_STATES)
     \<and> (case vi_tests_commit inp of None \<Rightarrow> True | Some s \<Rightarrow> norm s = ''none'' \<or> full_sha (norm s)))"

definition bound_input :: "verdict_input \<Rightarrow> verdict_binding" where
  "bound_input inp = \<lparr>vb_tested_commit = map_option norm (vi_tested_commit inp),
     vb_contract_hash = map_option norm (vi_contract_hash inp), vb_replay = vi_replay inp,
     vb_tests_commit = map_option norm (vi_tests_commit inp)\<rparr>"

text \<open>The four shape checks come first and throw the same error, so they are one condition here.\<close>

definition validatedBinding ::
  "verdict_input \<Rightarrow> bool \<Rightarrow> string option \<Rightarrow> bool \<Rightarrow> bool \<Rightarrow> thrown + verdict_binding" where
  "validatedBinding inp strict currentHash pass human = (
     let out = bound_input inp in
     if \<not> well_shaped inp then Inl (DispatchError VALIDATION_ERROR)
     else if truthy (vb_contract_hash out) \<and> truthy currentHash \<and> vb_contract_hash out \<noteq> currentHash
       then Inl (DispatchError CONTRACT_MISMATCH)
     else if strict \<and> pass \<and> (\<not> truthy (vb_tested_commit out) \<or> \<not> truthy (vb_contract_hash out)
               \<or> vb_replay out \<noteq> Some ''passed'') then Inl (DispatchError BINDING_REQUIRED)
     else if pass \<and> \<not> human \<and> vb_replay out \<noteq> Some ''passed'' then Inl (DispatchError BINDING_REQUIRED)
     else Inr out)"

definition field_opt :: "string \<Rightarrow> string option \<Rightarrow> (string \<times> json) list" where
  "field_opt k v = (case v of None \<Rightarrow> [] | Some s \<Rightarrow> [(k, JStr s)])"

definition binding_fields :: "verdict_binding \<Rightarrow> (string \<times> json) list" where
  "binding_fields b = field_opt ''tested_commit'' (vb_tested_commit b) @ field_opt ''contract_hash'' (vb_contract_hash b)
     @ field_opt ''replay'' (vb_replay b) @ field_opt ''tests_commit'' (vb_tests_commit b)"

section \<open>Acceptance evidence\<close>

definition ACCEPTANCE_EVIDENCE_PREFIX :: string where
  "ACCEPTANCE_EVIDENCE_PREFIX = ''gaffer-acceptance:''"

definition case_held :: "json \<Rightarrow> bool" where
  "case_held c = (json_field ''held'' c = Some (JBool True))"

definition acceptance_row_ok :: "acceptance_profile \<Rightarrow> verdict_binding \<Rightarrow> string option \<Rightarrow> evidence \<Rightarrow> bool" where
  "acceptance_row_ok profile binding contractNow r = (
     let p = ev_payload_json r;
         cases = (case Option.bind p (json_field ''cases'') of Some (JArr xs) \<Rightarrow> xs | _ \<Rightarrow> []) in
     ev_recorded_by r = Some System \<and> starts_with (via_text (ev_uri r)) ACCEPTANCE_EVIDENCE_PREFIX
     \<and> json_text ''profile'' p = Some (profile_name profile)
     \<and> Option.bind p (json_field ''passed'') = Some (JBool True)
     \<and> cases \<noteq> [] \<and> list_all case_held cases
     \<and> truthy (vb_tested_commit binding)
     \<and> (case Option.bind p (json_field ''tested_commit'') of None \<Rightarrow> ''undefined'' | Some v \<Rightarrow> js_String v)
         = via_text (vb_tested_commit binding)
     \<and> (truthy contractNow \<longrightarrow> json_text ''contract_hash'' p = contractNow))"

definition assertAcceptanceEvidence ::
  "db \<Rightarrow> ticket \<Rightarrow> string option \<Rightarrow> verdict_binding \<Rightarrow> string option \<Rightarrow> thrown + (acceptance_profile \<times> id) option" where
  "assertAcceptanceEvidence db t evidenceId binding contractNow = (
     let profile = contractProfile (parseTestContract (t_test_contract t)) in
     if profile = UnitProfile then Inr None
     else if profile \<notin> set EXECUTABLE_PROFILES \<or> \<not> truthy evidenceId
       then Inl (DispatchError ACCEPTANCE_EVIDENCE_REQUIRED)
     else case find (\<lambda>e. Some (ev_id e) = evidenceId) (evidence_listForTicket db (t_id t)) of
       None \<Rightarrow> Inl (DispatchError ACCEPTANCE_EVIDENCE_REQUIRED)
     | Some r \<Rightarrow> if acceptance_row_ok profile binding contractNow r then Inr (Some (profile, ev_id r))
                else Inl (DispatchError ACCEPTANCE_EVIDENCE_REQUIRED))"

section \<open>A PASS\<close>

record pass_input =
  pi_summary :: string
  pi_uri :: "string option"
  pi_verdict :: verdict_input
  pi_acceptance_evidence :: "string option"
  pi_tests :: "json option"
  pi_tester_agent :: "json option"

definition pass_tests :: "pass_input \<Rightarrow> actor \<Rightarrow> thrown + test_identity list option" where
  "pass_tests inp actor = (case pi_tests inp of
     None \<Rightarrow> Inr None
   | Some raw \<Rightarrow>
       if a_type actor \<noteq> System then Inl (DispatchError ACTOR_NOT_PERMITTED)
       else case parseTesterIdentities raw of
         None \<Rightarrow> Inl (DispatchError VALIDATION_ERROR)
       | Some parsed \<Rightarrow>
           if parsed \<noteq> [] \<and> \<not> full_sha (lower (via_text (vi_tests_commit (pi_verdict inp))))
           then Inl (DispatchError VALIDATION_ERROR) else Inr (Some parsed))"

definition pass_agent :: "pass_input \<Rightarrow> actor \<Rightarrow> thrown + (string \<times> string option) option" where
  "pass_agent inp actor = (case pi_tester_agent inp of
     None \<Rightarrow> Inr None
   | Some raw \<Rightarrow>
       if a_type actor \<noteq> System then Inl (DispatchError ACTOR_NOT_PERMITTED)
       else case parseTesterAgent raw of
         None \<Rightarrow> Inl (DispatchError VALIDATION_ERROR)
       | Some a \<Rightarrow> Inr (Some a))"

definition enteredTestingBeforeReview :: "db \<Rightarrow> id \<Rightarrow> bool" where
  "enteredTestingBeforeReview db tid = (case find (\<lambda>e. we_entity_type e = ''ticket'' \<and> we_entity_id e = tid
       \<and> we_event_type e = ''ticket.routed_to_testing'') (rev (db_events db)) of
     None \<Rightarrow> False
   | Some e \<Rightarrow> Option.bind (we_payload e) (json_field ''before_review'') \<in> {Some (JBool True), Some (JNum 1)})"

definition insert_test_output :: "env \<Rightarrow> id \<Rightarrow> string \<Rightarrow> string option \<Rightarrow> json \<Rightarrow> actor \<Rightarrow> id op" where
  "insert_test_output en tid summary uri payload actor =
     bindT (getT (\<lambda>db. en_uuid en EvidenceId (length (db_evidence db)))) (\<lambda>eid.
     bindT (evidence_insert \<lparr>ev_id = eid, ev_ticket_id = tid, ev_ac_id = None, ev_repo_id = None,
       ev_decision_id = None, ev_type = TestOutput, ev_summary = summary, ev_uri = uri,
       ev_payload_json = Some payload, ev_created_by = actor_label actor, ev_recorded_by = Some (a_type actor),
       ev_created_at = en_now en\<rparr>) (\<lambda>_.
     returnT eid))"

definition pass_payload ::
  "actor \<Rightarrow> verdict_binding \<Rightarrow> (acceptance_profile \<times> id) option \<Rightarrow> test_identity list option \<Rightarrow>
     (string \<times> string option) option \<Rightarrow> json" where
  "pass_payload actor binding acceptance tests agent = JObj (
     [(''verdict'', JStr ''pass''), (''provenance'', JStr (provenance_name (testerProvenance actor)))]
     @ binding_fields binding
     @ (case acceptance of None \<Rightarrow> []
        | Some (p, eid) \<Rightarrow> [(''acceptance'', JObj [(''profile'', JStr (profile_name p)), (''evidence_id'', JStr eid)])])
     @ (case tests of None \<Rightarrow> [] | Some ts \<Rightarrow> [(''tests'', JArr (map identity_json ts))])
     @ (case agent of None \<Rightarrow> []
        | Some (i, run) \<Rightarrow> [(''tester_agent'', JObj ((''id'', JStr i) # field_opt ''run'' run))]))"

definition passed_payload ::
  "id \<Rightarrow> bool \<Rightarrow> string option \<Rightarrow> verdict_binding \<Rightarrow> string option \<Rightarrow> (string \<times> json) list" where
  "passed_payload eid toReview testedHead binding contractNow =
     [(''evidence_id'', JStr eid)]
     @ (if toReview then [(''to'', JStr ''in_review''), (''before_review'', JBool True)] else [])
     @ (if truthy testedHead then [(''tested_head'', JStr (via_text testedHead))] else [])
     @ (if toReview \<and> \<not> truthy (vb_contract_hash binding) \<and> truthy contractNow
        then [(''contract_hash'', JStr (via_text contractNow))] else [])"

text \<open>
  The write transaction of a PASS, with what was read before it: whether the ticket returns to
  review, the diff proof, the candidate required CI is read for, and the head now.
\<close>

definition pass_apply ::
  "env \<Rightarrow> pass_input \<Rightarrow> actor \<Rightarrow> ticket \<Rightarrow> test_identity list option \<Rightarrow> (string \<times> string option) option \<Rightarrow> bool \<Rightarrow>
     delivery_diff_proof option \<Rightarrow> string option \<Rightarrow> string option \<Rightarrow> transition_result op" where
  "pass_apply en inp actor t tests agent toReview diff ciCandidate headNow = (
     let human = (testerProvenance actor = ByHuman) in
     bindT (throwIf (t_status t \<noteq> InTesting) (DispatchError ILLEGAL_TRANSITION)) (\<lambda>_.
     bindT (getT (\<lambda>db. contractHash en db (t_id t))) (\<lambda>contractNow.
     bindT (liftT (validatedBinding (pi_verdict inp) (t_acceptance t \<and> \<not> human) contractNow True human)) (\<lambda>binding.
     bindT (getT (\<lambda>db. if human then Inr None
              else assertAcceptanceEvidence db t (pi_acceptance_evidence inp) binding contractNow)) (\<lambda>checked.
     bindT (liftT checked) (\<lambda>acceptance.
     bindT (whenT (\<not> toReview) (assertCiPassed t ciCandidate)) (\<lambda>_.
     bindT (insert_test_output en (t_id t) (js_trim (pi_summary inp)) (pi_uri inp)
              (pass_payload actor binding acceptance tests agent) actor) (\<lambda>eid.
     bindT (transition en ((sysmove (t_id t) actor (if toReview then InReview else ReadyForMerge) ''tester_passed'' [TesterVerdict])
              \<lparr>ti_expectedFromStatus := Some InTesting, ti_deliveryDiff := diff\<rparr>)) (\<lambda>res.
     bindT (ticketEvent en (t_id t) actor ''ticket.tester_passed''
              (passed_payload eid toReview (orElse (vb_tested_commit binding) (map_option lower headNow)) binding contractNow)) (\<lambda>_.
     returnT res))))))))))"

definition testerPass :: "env \<Rightarrow> gate_env \<Rightarrow> string \<Rightarrow> pass_input \<Rightarrow> actor \<Rightarrow> transition_result op" where
  "testerPass en ga ref inp actor =
     bindT (throwIf (js_trim (pi_summary inp) = []) (DispatchError VALIDATION_ERROR)) (\<lambda>_.
     bindT (liftT (pass_tests inp actor)) (\<lambda>tests.
     bindT (liftT (pass_agent inp actor)) (\<lambda>agent.
     bindT (resolveRef ref) (\<lambda>t.
     bindT (getT (\<lambda>db. t_status t = InTesting \<and> enteredTestingBeforeReview db (t_id t))) (\<lambda>toReview.
     bindT (getT (\<lambda>db. if t_status t = InTesting \<and> \<not> toReview then Some (deliveryDiffProof en db t) else None)) (\<lambda>diff.
     bindT (getT (\<lambda>db. if toReview then None
              else case vi_tested_commit (pi_verdict inp) of Some c \<Rightarrow> Some c
                | None \<Rightarrow> if ci_required (ciStatus db (t_id t) None) then map_option rh_sha (ciCandidateHead ga db t) else None)) (\<lambda>ciCandidate.
     bindT (getT (\<lambda>db. if toReview then map_option rh_sha (ciCandidateHead ga db t) else None)) (\<lambda>headNow.
     pass_apply en inp actor t tests agent toReview diff ciCandidate headNow))))))))"

section \<open>A FAIL\<close>

record fail_input =
  fi_summary :: string
  fi_uri :: "string option"
  fi_to_ready :: bool
  fi_verdict :: verdict_input

definition fail_plan :: "nat \<Rightarrow> db \<Rightarrow> ticket \<Rightarrow> string list \<times> nat \<times> bool" where
  "fail_plan maxAttempts db t = (
     let landed = recordedLandingRepos db (t_id t);
         (nextAttempt, capReached) = (if landed \<noteq> [] then (t_attempt_count t, False)
                                      else capRetry (t_attempt_count t) maxAttempts) in
     (landed, nextAttempt, capReached))"

definition testerFail :: "env \<Rightarrow> gate_env \<Rightarrow> string \<Rightarrow> fail_input \<Rightarrow> actor \<Rightarrow> transition_result op" where
  "testerFail en ga ref inp actor = (
     let summary = js_trim (fi_summary inp); failTo = (if fi_to_ready inp then Ready else Refining);
         maxAttempts = le_maxAttempts (ga_landing ga); reason = ''tester_failed:'' @ summary in
     bindT (throwIf (summary = []) (DispatchError VALIDATION_ERROR)) (\<lambda>_.
     bindT (resolveRef ref) (\<lambda>t.
     bindT (throwIf (t_status t \<noteq> InTesting) (DispatchError ILLEGAL_TRANSITION)) (\<lambda>_.
     bindT (getT (\<lambda>db. contractHash en db (t_id t))) (\<lambda>currentHash.
     bindT (liftT (validatedBinding (fi_verdict inp) False currentHash False False)) (\<lambda>binding.
     bindT (insert_test_output en (t_id t) summary (fi_uri inp)
              (JObj ([(''verdict'', JStr ''fail''), (''provenance'', JStr (provenance_name (testerProvenance actor)))]
                 @ binding_fields binding)) actor) (\<lambda>eid.
     bindT (getT (\<lambda>db. fail_plan maxAttempts db t)) (\<lambda>(landed, nextAttempt, capReached).
     let holdLanded = (landed \<noteq> []) in
     bindT (transition en ((sysmove (t_id t) actor (if capReached \<or> holdLanded then Blocked else failTo)
              (if holdLanded then ''partly_landed:'' @ reason
               else if capReached then ''retry_cap_reached:'' @ reason else reason)
              (if capReached \<or> holdLanded then [Park] else [TesterVerdict]))
              \<lparr>ti_expectedFromStatus := Some InTesting,
               ti_patch := Some (no_patch\<lparr>pt_attempt_count := Some nextAttempt\<rparr>)\<rparr>)) (\<lambda>res.
     bindT (whenT holdLanded (bindT (partlyLandedHold en t landed (status_name failTo) reason actor)
              (\<lambda>_. returnT ()))) (\<lambda>_.
     bindT (whenT capReached (bindT (ticketEvent en (t_id t) actor ''ticket.parked_retry_cap''
              [(''attempt_count'', JNum (int nextAttempt)), (''max_attempts'', JNum (int maxAttempts)),
               (''reason'', JStr reason)]) (\<lambda>_. returnT ()))) (\<lambda>_.
     bindT (resetAcceptanceCriteria en (t_id t) actor) (\<lambda>_.
     bindT (setReviewFeedback (t_id t) (Some \<lparr>f_reason = reason, f_reviewer = a_id actor, f_at = en_now en,
        f_code = None, f_attempt = None, f_maxAttempts = None\<rparr>)) (\<lambda>_.
     bindT (ticketEvent en (t_id t) actor ''ticket.tester_failed'' [(''evidence_id'', JStr eid)]) (\<lambda>_.
     returnT res))))))))))))))"

section \<open>The replay on the landed revision\<close>

record replay_input =
  ri_commit :: string
  ri_pin :: string
  ri_files :: "string list"
  ri_tests :: "json option"
  ri_evidence :: "string option"
  ri_repo :: "string option"
  ri_via :: "string option"
  ri_note :: "string option"

definition replay_files :: "string list \<Rightarrow> string list" where
  "replay_files fs = dedup (filter (\<lambda>f. f \<noteq> []) (map js_trim fs))"

definition files_ok :: "string list \<Rightarrow> bool" where
  "files_ok fs = (length fs \<le> 500 \<and> list_all (\<lambda>f. length f \<le> 1000 \<and> CHR 0x0A \<notin> set f \<and> CHR 0x0D \<notin> set f
     \<and> CHR 0x00 \<notin> set f) fs)"

text \<open>\<open>replace(/[\r\n\t]+/g, " ")\<close>\<close>

definition line_break :: "char \<Rightarrow> bool" where
  "line_break c = (c = CHR 0x0D \<or> c = CHR 0x0A \<or> c = CHR 0x09)"

fun squash :: "bool \<Rightarrow> string \<Rightarrow> string" where
  "squash b [] = []"
| "squash b (c # cs) = (if line_break c then if b then squash True cs else CHR '' '' # squash True cs
     else c # squash False cs)"

definition replay_note :: "string option \<Rightarrow> string" where
  "replay_note n = take 500 (js_trim (squash False (via_text n)))"

definition replay_tests :: "json option \<Rightarrow> test_identity list option" where
  "replay_tests raw = parseTesterIdentities (case raw of None \<Rightarrow> JArr [] | Some JNull \<Rightarrow> JArr [] | Some v \<Rightarrow> v)"

text \<open>The PASS's identities that the replay does not prove.\<close>

definition unproven :: "test_identity list \<Rightarrow> test_identity list \<Rightarrow> test_identity list" where
  "unproven bound tests = filter (\<lambda>b. \<not> list_ex (\<lambda>t. sameTesterIdentity t b) tests) bound"

definition replay_repo :: "db \<Rightarrow> id \<Rightarrow> string option \<Rightarrow> thrown + id option" where
  "replay_repo db tid repo = (if truthy repo
     then (case find (\<lambda>r. Some (r_id r) = repo \<or> Some (r_name r) = repo) (db_repositories db) of
             None \<Rightarrow> Inl (DispatchError NOT_FOUND) | Some r \<Rightarrow> Inr (Some (r_id r)))
     else Inr (map_option tr_repo_id (first_of (sort_key (\<lambda>l. if tr_role l = RolePrimary then 0 else 1 :: nat)
            (filter (\<lambda>l. tr_ticket_id l = tid) (db_ticket_repos db))))))"

definition notReplayed :: "db \<Rightarrow> id \<Rightarrow> id option \<Rightarrow> string list" where
  "notReplayed db tid rid = sort (concat (map (\<lambda>l.
     if tr_ticket_id l = tid \<and> tr_access l = AccWrite \<and> Some (tr_repo_id l) \<noteq> rid
     then (case repo_findById db (tr_repo_id l) of None \<Rightarrow> [] | Some r \<Rightarrow> [r_name r]) else []) (db_ticket_repos db)))"

definition ellipsis :: string where
  "ellipsis = [CHR 0xE2, CHR 0x80, CHR 0xA6]"

definition replay_summary :: "string list \<Rightarrow> nat \<Rightarrow> bool \<Rightarrow> string \<Rightarrow> string \<Rightarrow> string option \<Rightarrow> string list \<Rightarrow> string \<Rightarrow> string" where
  "replay_summary files n identities commit pin via missed note =
     (if files \<noteq> [] then ''the independent tester'' @ [CHR 0x27] @ ''s '' @ show_nat (length files) @ '' test file(s) (''
        @ join_comma (take 5 files) @ (if length files > 5 then '', '' @ ellipsis else []) @ '') passed''
        @ (if identities then '', every one of the '' @ show_nat n @ '' test(s) its PASS bound''
           else '' (file-level evidence only: the PASS recorded no test identities)'')
      else ''NO tester test file was replayed (the repository'' @ [CHR 0x27] @ ''s own suite passed)'')
     @ '' on the landed revision '' @ commit @ '' (the merge of tested commit '' @ take 12 pin @ '')''
     @ (if truthy via then '' via '' @ via_text via else [])
     @ (if missed \<noteq> [] then ''; not replayed in '' @ join_comma missed else [])
     @ (if note \<noteq> [] then '' '' @ em_dash @ '' '' @ note else [])"

record replay_result =
  rr_ticketId :: id
  rr_identities :: bool
  rr_recorded :: bool

text \<open>The row and the event of a replay, once everything it claims is shown.\<close>

definition write_replay ::
  "env \<Rightarrow> ticket \<Rightarrow> replay_input \<Rightarrow> test_identity list \<Rightarrow> bound_pass \<Rightarrow> id option \<Rightarrow> actor \<Rightarrow> unit op" where
  "write_replay en t inp tests bound rid actor = (
     let commit = norm (ri_commit inp); pin = norm (ri_pin inp); files = replay_files (ri_files inp);
         note = replay_note (ri_note inp); identities = (bp_tests bound \<noteq> None) in
     bindT (getT (\<lambda>db. Option.bind rid (\<lambda>i. map_option r_name (repo_findById db i)))) (\<lambda>repoName.
     bindT (getT (\<lambda>db. notReplayed db (t_id t) rid)) (\<lambda>missed.
     bindT (getT (\<lambda>db. en_uuid en EvidenceId (length (db_evidence db)))) (\<lambda>eid.
     bindT (evidence_insert \<lparr>ev_id = eid, ev_ticket_id = t_id t, ev_ac_id = None, ev_repo_id = rid,
       ev_decision_id = None, ev_type = Commit,
       ev_summary = replay_summary files (length tests) identities commit pin (ri_via inp) missed note,
       ev_uri = Some (TESTER_REPLAY_PREFIX @ commit),
       ev_payload_json = Some (JObj ([(''kind'', JStr ''tester_replay''), (''tested'', JStr pin), (''pin'', JStr pin),
          (''files'', JArr (map JStr files)), (''tests'', JArr (map identity_json tests)),
          (''evidence'', JStr (if identities then ''identities'' else ''files'')), (''via'', jopt (ri_via inp)),
          (''repo'', jopt repoName), (''not_replayed_repos'', JArr (map JStr missed))]
          @ (if note = [] then [] else [(''note'', JStr note)])
          @ [(''tester_evidence_id'', JStr (bp_evidenceId bound))])),
       ev_created_by = ''dispatch'', ev_recorded_by = Some System, ev_created_at = en_now en\<rparr>) (\<lambda>_.
     bindT (ticketEvent en (t_id t) actor ''ticket.tester_replayed''
              [(''commit'', JStr commit), (''tested'', JStr pin), (''files'', JArr (map JStr files)),
               (''tests'', JNum (int (length tests))),
               (''evidence'', JStr (if identities then ''identities'' else ''files'')), (''via'', jopt (ri_via inp))]) (\<lambda>_.
     returnT ()))))))"

definition replay_checked :: "landing_env \<Rightarrow> db \<Rightarrow> ticket \<Rightarrow> replay_input \<Rightarrow> test_identity list \<Rightarrow> thrown + bound_pass \<times> id option" where
  "replay_checked le db t inp tests = (
     let pin = norm (ri_pin inp) in
     if t_status t \<noteq> ReadyForMerge then Inl (DispatchError ILLEGAL_TRANSITION)
     else case readBoundTesterPass db (t_id t) of
       None \<Rightarrow> Inl (DispatchError STATE_CONFLICT)
     | Some bound \<Rightarrow>
         if bp_provenance bound = Some ''human'' \<or> bp_testedCommit bound \<noteq> Some pin then Inl (DispatchError STATE_CONFLICT)
         else if ri_evidence inp \<noteq> None
              \<and> ri_evidence inp \<noteq> Some (if bp_tests bound \<noteq> None then ''identities'' else ''files'')
           then Inl (DispatchError STATE_CONFLICT)
         else if (case bp_tests bound of None \<Rightarrow> False | Some ts \<Rightarrow> unproven ts tests \<noteq> []) then Inl (DispatchError STATE_CONFLICT)
         else case replay_repo db (t_id t) (ri_repo inp) of
           Inl e \<Rightarrow> Inl e
         | Inr rid \<Rightarrow>
             if (case (if truthy rid then find (\<lambda>r. Some (lr_repoId r) = rid)
                         (ls_repos (computeLandingStatus (le_collate le) db (t_id t))) else None) of
                   None \<Rightarrow> False | Some r \<Rightarrow> lr_sha r \<noteq> pin) then Inl (DispatchError STATE_CONFLICT)
             else Inr (bound, rid))"

definition replay_shape_ok :: "replay_input \<Rightarrow> bool" where
  "replay_shape_ok inp = (full_sha (norm (ri_commit inp)) \<and> full_sha (norm (ri_pin inp)) \<and> files_ok (replay_files (ri_files inp))
     \<and> replay_tests (ri_tests inp) \<noteq> None
     \<and> (ri_evidence inp = None \<or> ri_evidence inp = Some ''identities'' \<or> ri_evidence inp = Some ''files''))"

definition recordTesterReplay :: "env \<Rightarrow> landing_env \<Rightarrow> string \<Rightarrow> replay_input \<Rightarrow> actor \<Rightarrow> replay_result op" where
  "recordTesterReplay en le ref inp actor =
     bindT (throwIf (a_type actor \<noteq> System) (DispatchError ACTOR_NOT_PERMITTED)) (\<lambda>_.
     bindT (throwIf (\<not> replay_shape_ok inp) (DispatchError VALIDATION_ERROR)) (\<lambda>_.
     let tests = the (replay_tests (ri_tests inp)); commit = norm (ri_commit inp) in
     bindT (throwIf (ri_via inp = Some ''pr-stale'') (DispatchError STATE_CONFLICT)) (\<lambda>_.
     bindT (resolveRef ref) (\<lambda>t.
     bindT (getT (\<lambda>db. replay_checked le db t inp tests)) (\<lambda>checked.
     bindT (liftT checked) (\<lambda>(bound, rid).
     bindT (getT (\<lambda>db. list_ex (\<lambda>e. ev_ticket_id e = t_id t \<and> ev_type e = Commit \<and> ev_recorded_by e = Some System
              \<and> ev_uri e = Some (TESTER_REPLAY_PREFIX @ commit)) (db_evidence db))) (\<lambda>existing.
     if existing then returnT \<lparr>rr_ticketId = t_id t, rr_identities = (bp_tests bound \<noteq> None), rr_recorded = False\<rparr>
     else bindT (throwIf (case le_landedOnDefault le of None \<Rightarrow> False
                | Some probe \<Rightarrow> truthy rid \<and> \<not> probe (the rid) commit) (DispatchError STATE_CONFLICT)) (\<lambda>_.
          bindT (write_replay en t inp tests bound rid actor) (\<lambda>_.
          returnT \<lparr>rr_ticketId = t_id t, rr_identities = (bp_tests bound \<noteq> None), rr_recorded = True\<rparr>)))))))))"

section \<open>The runner's check of a criterion\<close>

text \<open>The duration is in whole seconds here.\<close>

record ac_check_input =
  ck_ticket_id :: string
  ck_ac_id :: string
  ck_exit_code :: int
  ck_command :: string
  ck_output_tail :: "string option"
  ck_duration_s :: "int option"

definition ac_check_schema_ok :: "ac_check_input \<Rightarrow> bool" where
  "ac_check_schema_ok inp = (ck_ticket_id inp \<noteq> [] \<and> ck_ac_id inp \<noteq> [] \<and> 0 \<le> ck_exit_code inp \<and> ck_exit_code inp \<le> 255
     \<and> check_command_ok (ck_command inp)
     \<and> (case ck_output_tail inp of None \<Rightarrow> True | Some s \<Rightarrow> length s \<le> 8000)
     \<and> (case ck_duration_s inp of None \<Rightarrow> True | Some n \<Rightarrow> n \<ge> 0))"

definition recordAcCheck :: "env \<Rightarrow> ac_check_input \<Rightarrow> actor \<Rightarrow> (ac_status \<times> id \<times> id) op" where
  "recordAcCheck en inp actor =
     bindT (throwIf (\<not> ac_check_schema_ok inp) ZodError) (\<lambda>_.
     bindT (throwIf (a_type actor = AgentActor) (DispatchError ACTOR_NOT_PERMITTED)) (\<lambda>_.
     bindT (resolveRef (ck_ticket_id inp)) (\<lambda>t.
     bindT (getT (\<lambda>db. case ac_findById db (ck_ac_id inp) of None \<Rightarrow> None
              | Some ac \<Rightarrow> if ac_ticket_id ac = t_id t then Some ac else None)) (\<lambda>found.
     case found of
       None \<Rightarrow> throwT (DispatchError NOT_FOUND)
     | Some ac \<Rightarrow>
         bindT (throwIf (\<not> truthy (ac_check_command ac)) (DispatchError VALIDATION_ERROR)) (\<lambda>_.
         bindT (throwIf (Some (ck_command inp) \<noteq> ac_check_command ac) (DispatchError VALIDATION_ERROR)) (\<lambda>_.
         let passed = (ck_exit_code inp = 0); st = (if passed then AcSatisfied else AcFailed) in
         bindT (ac_setStatus (ac_id ac) st (Some AC_CHECK_VERIFIER) (en_now en)) (\<lambda>_.
         bindT (getT (\<lambda>db. en_uuid en EvidenceId (length (db_evidence db)))) (\<lambda>eid.
         bindT (evidence_insert \<lparr>ev_id = eid, ev_ticket_id = t_id t, ev_ac_id = Some (ac_id ac), ev_repo_id = None,
           ev_decision_id = None, ev_type = TestOutput,
           ev_summary = ''AC check '' @ (if passed then ''PASSED'' else ''FAILED'') @ '' (exit '' @ show_int (ck_exit_code inp)
             @ ''): '' @ ck_command inp, ev_uri = None,
           ev_payload_json = Some (JObj ([(''kind'', JStr ''ac_check''), (''passed'', JBool passed),
             (''exit_code'', JNum (ck_exit_code inp)), (''command'', JStr (ck_command inp))]
             @ field_opt ''output_tail'' (ck_output_tail inp)
             @ (case ck_duration_s inp of None \<Rightarrow> [] | Some n \<Rightarrow> [(''duration_s'', JNum n)]))),
           ev_created_by = actor_label actor, ev_recorded_by = Some (a_type actor), ev_created_at = en_now en\<rparr>) (\<lambda>_.
         bindT (ticketEvent en (t_id t) actor ''ac.checked''
                  [(''ac_id'', JStr (ac_id ac)), (''passed'', JBool passed), (''exit_code'', JNum (ck_exit_code inp)),
                   (''evidence_id'', JStr eid)]) (\<lambda>ev.
         returnT (st, eid, ev)))))))))))"

end
