(* ===== verification/Merge_Inv.thy ===== *)
theory Merge_Inv
  imports Merge
begin

text \<open>
  The lifecycle invariant of the landing, rejection and CI operations.
\<close>

section \<open>Landing\<close>

lemma healthy_evidence [simp]: "healthy (db\<lparr>db_evidence := x\<rparr>) = healthy db"
  by (simp add: healthy_def)

lemma wp_insert_commit [wp_simps]:
  "wp (insert_commit en tid rid s u p) Q db =
     wp (evidence_insert \<lparr>ev_id = en_uuid en EvidenceId (length (db_evidence db)), ev_ticket_id = tid, ev_ac_id = None,
       ev_repo_id = Some rid, ev_decision_id = None, ev_type = Commit, ev_summary = s, ev_uri = Some u,
       ev_payload_json = Some p, ev_created_by = ''dispatch'', ev_recorded_by = Some System,
       ev_created_at = en_now en\<rparr>) Q db"
  by (simp add: insert_commit_def wp_bind wp_get)

lemma healthy_insert_commit: "healthy db \<Longrightarrow> wp (insert_commit en tid rid s u p) (\<lambda>_. healthy) db"
  by (simp add: wp_simps)

lemma wp_option:
  "wp (case v of None \<Rightarrow> m | Some x \<Rightarrow> f x) Q db = (case v of None \<Rightarrow> wp m Q db | Some x \<Rightarrow> wp (f x) Q db)"
  by (cases v) simp_all

lemma healthy_beginLanding:
  "healthy db \<Longrightarrow> wp (beginLanding en le r inp actor) (\<lambda>_. healthy) db"
  unfolding beginLanding_def Let_def wp_simps by simp

lemma healthy_assertPrLanding: "healthy db \<Longrightarrow> wp (assertPrLanding le t rid sha via) (\<lambda>_. (=) db) db"
  unfolding assertPrLanding_def Let_def wp_simps by (simp add: wp_simps split: option.split)

lemma keepsT_landing:
  "keepsT healthy (writeEvent en et ei ac ty pl)" "keepsT healthy (insert_commit en tid rid txt u p)"
  "keepsT healthy (resolveRef r)"
  by (rule keepsT_I; simp add: wp_simps)+

lemma healthy_recordLanding:
  assumes "healthy db" shows "wp (recordLanding en le r inp actor) (\<lambda>_. healthy) db"
proof -
  have "keepsT healthy (assertPrLanding le t rid sha via)" for t rid sha via
    by (rule keepsT_I) (rule wp_mono [OF healthy_assertPrLanding], auto)
  then have "keepsT healthy (recordLanding en le r inp actor)"
    unfolding recordLanding_def write_landing_def Let_def by (intro frames keepsT_landing)
  then show ?thesis using assms by (rule keepsT_D)
qed

lemma healthy_finish_merge:
  assumes "healthy db" shows "wp (finish_merge en le t actor) (\<lambda>_. healthy) db"
  unfolding finish_merge_def wp_simps
  by (intro impI healthy_transition [OF assms]) simp_all

section \<open>Sending back and cancelling\<close>

lemma frees_reject [simp]: "frees_lease (reject_status to)" "frees_lease Blocked" "frees_lease Cancelled"
  by (cases to) (simp_all add: frees_lease_def REQUEUE_STATES_def)

lemma bindT_refuse:
  "bindT (refuseCancelOfLanded le t) f s =
     (if landed_anywhere le s (t_id t) \<noteq> [] then Inl (DispatchError PARTLY_LANDED) else f () s)"
  by (simp add: refuseCancelOfLanded_def bindT_def getT_def throwIf_def throwT_def returnT_def)

lemma wp_refuseCancel [wp_simps]:
  "wp (refuseCancelOfLanded le t) Q db = (landed_anywhere le db (t_id t) = [] \<longrightarrow> Q () db)"
  by (simp add: refuseCancelOfLanded_def wp_simps)

lemma healthy_recordRejectPins: "healthy db \<Longrightarrow> wp (recordRejectPins en t actor hs n) (\<lambda>_. healthy) db"
  unfolding recordRejectPins_def by (rule wp_forT) (auto intro: healthy_insert_commit)

lemma healthy_partlyLandedHold: "healthy db \<Longrightarrow> wp (partlyLandedHold en t landed to why actor) (\<lambda>_. healthy) db"
  by (simp add: partlyLandedHold_def Let_def wp_simps)

lemma healthy_wontDo:
  assumes "healthy db" shows "wp (wontDo en le r actor why) (\<lambda>_. healthy) db"
  unfolding wontDo_def wp_simps
  by (auto intro!: wp_transition_free [OF assms] on_view_refl healthy_keys [OF assms]
      wp_mono [OF healthy_resetAcceptanceCriteria])

text \<open>
  An operation every statement of which keeps the invariant keeps it, so for a rejection the
  statements are enough.
\<close>

lemma keepsT_healthy:
  "keepsT healthy (writeEvent en et ei ac ty pl)" "keepsT healthy (setReviewFeedback i fb)"
  "keepsT healthy (recordRejectPins en t ac hs n)" "keepsT healthy (resetAcceptanceCriteria en r ac)"
  "keepsT healthy (refuseCancelOfLanded le t)" "keepsT healthy (partlyLandedHold en t landed rt why ac)"
  by (rule keepsT_I; simp add: wp_simps healthy_recordRejectPins healthy_resetAcceptanceCriteria healthy_partlyLandedHold)+

lemma keepsT_transition: "frees_lease (ti_toStatus inp) \<Longrightarrow> keepsT healthy (transition en inp)"
  by (rule keepsT_I) (auto intro!: wp_transition_free on_view_refl healthy_keys)

lemma healthy_rejectReview:
  assumes "healthy db" shows "wp (rejectReview en le r to actor why) (\<lambda>_. healthy) db"
proof -
  have "keepsT healthy (rejectReview en le r to actor why)"
    unfolding rejectReview_def reject_apply_def Let_def resolveRef_def
    by (intro frames keepsT_healthy keepsT_transition) simp
  then show ?thesis using assms by (rule keepsT_D)
qed

lemma healthy_revocation: "healthy db \<Longrightarrow> wp (revocationAfterLanding en le i actor why) (\<lambda>_. healthy) db"
  unfolding revocationAfterLanding_def wp_simps by simp

section \<open>Board moves\<close>

text \<open>A move that no guard lets through writes nothing.\<close>

lemma wp_transition_refused:
  assumes "keys_ok db" and "\<And>t. ticket_findById db (ti_ticketId inp) = Some t \<Longrightarrow>
      violatedGuard (t_status t) (ti_toStatus inp) (ti_flags inp) = None \<Longrightarrow>
      (t_status t, ti_toStatus inp) \<in> set ALLOWED \<Longrightarrow>
      ti_expectedFromStatus inp = None \<or> ti_expectedFromStatus inp = Some (t_status t) \<Longrightarrow> False"
  shows "wp (transition en inp) Q db"
proof (rule wp_transition)
  show "distinct (map t_id (db_tickets db))" using assms(1) by (simp add: keys_ok_def)
  fix t p and r :: transition_result
  assume "ticket_findById db (ti_ticketId inp) = Some t" and c: "transition_check en inp db t = Inr p"
  with assms(2) transition_checkD [OF c] show "Q r (transition_effect en inp t db)" by blast
qed

lemma guarded_targets:
  assumes "violatedGuard from Claimed [] = None" and "(from, Claimed) \<in> set ALLOWED" shows False
  using assms by (cases "from") (simp_all add: ALLOWED_def violatedGuard_def GUARDED_EDGES_def edge_matches_def)

lemma guarded_review:
  assumes "violatedGuard from InReview [] = None" and "(from, InReview) \<in> set ALLOWED" shows False
  using assms by (cases "from") (simp_all add: ALLOWED_def violatedGuard_def GUARDED_EDGES_def edge_matches_def)

lemma healthy_raw_move:
  assumes "healthy db" shows "wp (raw_move en t to actor) (\<lambda>_. healthy) db"
proof -
  note k = healthy_keys [OF assms]
  consider "to = Claimed" | "to = InReview" "\<not> (t_status t = InProgress \<and> \<not> hasActiveForTicket db (t_id t))"
    | "to \<noteq> Claimed" "to = InReview \<longrightarrow> \<not> hasActiveForTicket db (t_id t)" by blast
  then show ?thesis
  proof cases
    case 1
    then show ?thesis unfolding raw_move_def wp_simps
      by (intro wp_transition_refused [OF k]) (auto dest: guarded_targets)
  next
    case 2
    then show ?thesis unfolding raw_move_def wp_simps
      by (intro wp_transition_refused [OF k]) (auto dest: guarded_review)
  next
    case 3
    then show ?thesis unfolding raw_move_def wp_simps
      by (intro healthy_transition [OF assms]) auto
  qed
qed

section \<open>Required CI\<close>

lemma healthy_ci_event: "healthy db \<Longrightarrow> wp (ci_event en le r c st d actor) (\<lambda>_. healthy) db"
  unfolding ci_event_def Let_def wp_simps by simp

lemma healthy_recordCiRequired: "healthy db \<Longrightarrow> wp (recordCiRequired en r d actor) (\<lambda>_. healthy) db"
  unfolding recordCiRequired_def wp_simps by (simp add: wp_simps)

end
