(* ===== verification/Gate_Inv.thy ===== *)
theory Gate_Inv
  imports Tester Merge_Inv
begin

text \<open>
  The lifecycle invariant of the approval and tester operations: every statement of them keeps
  it, so they do.
\<close>

lemma keepsT_moved:
  assumes "ti_toStatus inp \<noteq> Claimed" and "ti_toStatus inp \<noteq> InReview"
  shows "keepsT healthy (transition en inp)"
  by (rule keepsT_I, rule healthy_transition) (use assms in auto)

text \<open>A ticket in testing holds no lease, so its return to review cannot strand one.\<close>

lemma keepsT_from_testing:
  assumes "ti_toStatus inp \<noteq> Claimed" and "ti_expectedFromStatus inp = Some InTesting"
  shows "keepsT healthy (transition en inp)"
proof (rule keepsT_I)
  fix db assume db: "healthy db"
  show "wp (transition en inp) (\<lambda>_. healthy) db"
  proof (cases "hasActiveForTicket db (ti_ticketId inp)")
    case True
    have "False" if t: "ticket_findById db (ti_ticketId inp) = Some t" "t_status t = InTesting" for t
    proof -
      obtain v where v: "view db (ti_ticketId inp) = Some v" "v_status v = InTesting" "v_leased v"
        using find_view [OF t(1)] t(2) True by auto
      then show False using healthy_sound [OF db v(1)] by (simp add: sound_def)
    qed
    then show ?thesis using assms(2) by (intro wp_transition_refused [OF healthy_keys [OF db]]) auto
  next
    case False
    then show ?thesis using assms(1) by (intro healthy_transition [OF db]) auto
  qed
qed

lemma keepsT_reads:
  "keepsT healthy (resolveRef r)" "keepsT healthy (assertWriteReposAvailable u)" "keepsT healthy (assertCiPassed t c)"
  unfolding resolveRef_def assertWriteReposAvailable_def assertCiPassed_def by (intro frames)+

lemma keepsT_evidence: "keepsT healthy (evidence_insert e)"
  by (rule keepsT_I) (simp add: wp_simps)

lemma keepsT_pins: "keepsT healthy (recordApprovalPins en t a pins)"
  unfolding recordApprovalPins_def by (intro frames keepsT_landing)

lemma keepsT_test_output: "keepsT healthy (insert_test_output en i s u p a)"
  unfolding insert_test_output_def by (intro frames keepsT_evidence)

lemmas gate_keeps = frames keepsT_landing keepsT_reads keepsT_evidence keepsT_pins keepsT_test_output keepsT_healthy

lemma healthy_approve_admit: "keepsT healthy (approve_admit ga r a)"
  unfolding approve_admit_def by (intro gate_keeps)

lemma healthy_approve_decide: "keepsT healthy (approve_decide en ga r a opts u)"
  unfolding approve_decide_def approve_to_testing_def approve_to_merge_def
  by (intro gate_keeps keepsT_moved; simp)

lemma healthy_routeToTester: "keepsT healthy (routeToTester en ga r a)"
  unfolding routeToTester_def Let_def by (intro gate_keeps keepsT_moved; simp)

lemma healthy_testerPass: "keepsT healthy (testerPass en ga r inp a)"
  unfolding testerPass_def pass_apply_def Let_def by (intro gate_keeps keepsT_from_testing; simp)

lemma healthy_testerFail: "keepsT healthy (testerFail en ga r inp a)"
  unfolding testerFail_def Let_def by (intro gate_keeps keepsT_from_testing; simp)

lemma healthy_recordTesterReplay: "keepsT healthy (recordTesterReplay en le r inp a)"
  unfolding recordTesterReplay_def write_replay_def Let_def by (intro gate_keeps)

lemma keepsT_ac_setStatus: "keepsT healthy (ac_setStatus i st who now)"
  by (rule keepsT_I) (simp add: wp_simps ac_setStatus_def)

lemma healthy_recordAcCheck: "keepsT healthy (recordAcCheck en inp a)"
  unfolding recordAcCheck_def Let_def by (intro gate_keeps keepsT_ac_setStatus)

lemma healthy_noteMergeStarted: "keepsT healthy (noteMergeStarted en r i a)"
  unfolding noteMergeStarted_def by (intro gate_keeps)

end
