(* ===== verification/Frame.thy ===== *)
theory Frame
  imports Pause Decisions Gate_Inv
begin

text \<open>
  What the operations of the services leave alone. \<open>table_frame\<close> is the contract of a preorder on
  databases that the statements of the repositories respect, \<open>service_frame\<close> adds the transitions
  that are no cancellation; inside it every operation of the services is shown to stay within the
  preorder, from its statements. The theories that need a frame interpret the locale.
\<close>

section \<open>Statements\<close>

locale table_frame = preorder_frame R for R :: "db \<Rightarrow> db \<Rightarrow> bool" +
  assumes rows: "R s (s\<lparr>db_claims := x1\<rparr>)" "R s (s\<lparr>db_acs := x2\<rparr>)" "R s (s\<lparr>db_agents := x3\<rparr>)"
      "R s (s\<lparr>db_agent_caps := x4\<rparr>)" "R s (s\<lparr>db_required_caps := x5\<rparr>)"
      "R s (s\<lparr>db_decisions := x6\<rparr>)" "R s (s\<lparr>db_ticket_decisions := x7\<rparr>)"
      "R s (s\<lparr>db_evidence := x8\<rparr>)" "R s (s\<lparr>db_events := x9\<rparr>)" "R s (s\<lparr>db_rework := x10\<rparr>)"
      "R s (s\<lparr>db_acs := x2, db_evidence := x8\<rparr>)"
    and fields: "(\<And>t. t_id (f t) = t_id t) \<Longrightarrow> (\<And>t. t_number (f t) = t_number t) \<Longrightarrow>
      (\<And>t. t_status (f t) = t_status t) \<Longrightarrow> R s (s\<lparr>db_tickets := upd_rows P f (db_tickets s)\<rparr>)"
    and contexts: "p_ticket_id ` set ps \<subseteq> p_ticket_id ` set (db_paused s) \<Longrightarrow> R s (s\<lparr>db_paused := ps\<rparr>)"
begin

lemma framed_writeEvent [frames]: "framed R (writeEvent en et ei ac ty pl)"
  by (simp add: framed_def writeEvent_def Let_def rows)

lemma framed_statements [frames]:
  "framed R (claim_setStatus i st now)" "framed R (agent_touchLastSeen i now)"
  "framed R (agent_addCapability i cap)" "framed R (ac_setStatus i ast who now)" "framed R (ac_delete i)"
  "framed R (ac_update i txt me ch now)" "framed R (required_setForTicket i caps)"
  by (auto simp: claim_setStatus_def agent_touchLastSeen_def agent_addCapability_def ac_setStatus_def
      ac_delete_def ac_update_def required_setForTicket_def frame_refl intro!: framed_modify rows)

lemma framed_inserts [frames]:
  "framed R (claim_insert c)" "framed R (claim_extend i e now)" "framed R (agent_insert a)" "framed R (evidence_insert ev)"
  "framed R (rework_insert w)" "framed R (ac_insert ac)" "framed R (ac_resetForTicket i now)"
  "framed R (decision_insert d)" "framed R (decision_link t i r)" "framed R (decision_resolve i ds x y z now)"
  "framed R (releaseActiveForTicket i now)"
  by (auto simp: framed_def claim_insert_def claim_extend_def agent_insert_def evidence_insert_def rework_insert_def
      ac_insert_def ac_resetForTicket_def decision_insert_def decision_link_def decision_resolve_def
      releaseActiveForTicket_def release_rows_def Let_def rows frame_refl split: if_splits)

lemma framed_ticket_updates [frames]:
  "framed R (setReviewFeedback i fb)" "framed R (setHumanOwner i o')" "framed R (setAllowTestChanges i b now)"
  "framed R (setHumanDelivered i o')"
  by (auto simp: setReviewFeedback_def setHumanOwner_def setAllowTestChanges_def setHumanDelivered_def ticket_update_def
      intro!: framed_modify fields)

lemma framed_updateFields [frames]: "framed R (ticket_updateFields i v f now)"
  by (auto simp: framed_def ticket_updateFields_def Let_def apply_fields_def intro!: fields)

lemma framed_contexts [frames]: "framed R (setResumeRequested i b now)" "framed R (paused_delete i)"
  by (auto simp: setResumeRequested_def paused_delete_def set_upd_rows intro!: framed_modify contexts)

lemma framed_reads [frames]: "framed R (resolveRef r)" "framed R (preview en i to)"
    "framed R (resolveAcceptanceCriterion t x)" "framed R (getDecision d)"
    "framed R (findActiveAgent a)" "framed R (activeClaimForToken en tok)"
  by (auto simp: framed_def resolveRef_def preview_def resolveAcceptanceCriterion_def getDecision_def frame_refl
      findActiveAgent_def activeClaimForToken_def split: option.splits sum.splits if_splits)

lemma framed_assertClaim [frames]: "framed R (assertClaimOnTicket en tok i)"
  unfolding assertClaimOnTicket_def by (intro frames)

end

section \<open>Operations\<close>

locale service_frame = table_frame +
  assumes moves: "WontDo \<notin> set (ti_flags inp) \<Longrightarrow> framed R (transition en inp)"
begin

declare moves [frames]

lemma framed_returnLapsed [frames]: "framed R (returnLapsedResumeToPaused en t cid a)"
  unfolding returnLapsedResumeToPaused_def
  by (rule framed_branches) (intro frames; simp)

lemma framed_claims [frames]:
  "framed R (reapExpired en cand a)" "framed R (takeLease en tid ag ttl a)" "framed R (attemptClaim en cand ag ttl a)"
  unfolding attemptClaim_def reapExpired_def takeLease_def Let_def by (intro frames; simp)+

lemma framed_tryCandidates [frames]: "framed R (tryCandidates en ag ttl a cs)"
  by (induction cs) (simp_all add: frames)

lemma framed_claim_service [frames]:
  "framed R (registerAgent en ra a)" "framed R (claimNextTicket en agent ttl a)" "framed R (claimTicket en t agent ttl a)"
  "framed R (humanClaimTicket en t a)" "framed R (humanReleaseTicket en t a)" "framed R (heartbeat en tok)"
  "framed R (recordEvidence en re a)" "framed R (submitForReview en tok r why a)" "framed R (markBlocked en mtok r w a)"
  "framed R (releaseClaim en tok a)" "framed R (runnerRelease en rr a)" "framed R (recordReworkAttempt en ri a)"
  "framed R (revokeClaim en c a)" "framed R (leaseResumedDelivery en i agent ttl a)"
  unfolding registerAgent_def claimNextTicket_def claimTicket_def humanClaimTicket_def humanReleaseTicket_def
    heartbeat_def recordEvidence_def submitForReview_def markBlocked_def releaseClaim_def runnerRelease_def
    recordReworkAttempt_def revokeClaim_def leaseResumedDelivery_def Let_def
  by (intro frames; simp)+

lemma framed_expireStaleClaims [frames]: "framed R (expireStaleClaims en a)"
proof -
  have "framed R (expireOne en a c)" for c unfolding expireOne_def by (intro frames; simp)
  then have "framed R (expireAll en a cs)" for cs by (induction cs) (simp_all add: frames)
  then show ?thesis unfolding expireStaleClaims_def by (intro frames; simp)
qed

lemma framed_ticket_service [frames]:
  "framed R (addAcceptanceCriterion en aa a)" "framed R (editTicket en r tf a)" "framed R (editAcceptanceCriterion en r x ea a)"
  "framed R (removeAcceptanceCriterion en r x a)" "framed R (resetAcceptanceCriteria en r a)"
  "framed R (humanBlockTicket en r w a)" "framed R (humanUnblockTicket en r a to)"
  "framed R (setTicketAllowTestChanges en r b a why)" "framed R (grantReadyApproval en r a)"
  "framed R (setRequiredCapabilities en r caps a)"
  unfolding addAcceptanceCriterion_def editTicket_def editAcceptanceCriterion_def removeAcceptanceCriterion_def
    resetAcceptanceCriteria_def humanBlockTicket_def humanUnblockTicket_def setTicketAllowTestChanges_def
    grantReadyApproval_def setRequiredCapabilities_def recheckReadyGate_def checks_defs Let_def
  by (intro frames; simp)+

lemma framed_other_services [frames]:
  "framed R (requestContinue en r a)" "framed R (beginResume en r a lease)"
  "framed R (clearContext r)" "framed R (createDecision en cd a)" "framed R (resolveDecision en rs a)"
  "framed R (reopenForReview en r ro a)" "framed R (holdForHuman en r code w a)" "framed R (reopenFromWontDo en r rt a)"
  unfolding requestContinue_def beginResume_def pause_beginResume_def clearContext_def createDecision_def
    resolveDecision_def reopenForReview_def holdForHuman_def reopenFromWontDo_def Let_def
  by (intro frames; simp)+

lemma framed_insert_commit [frames]: "framed R (insert_commit en i rid txt u pl)"
  unfolding insert_commit_def by (intro frames; simp)

lemma framed_landing [frames]:
  "framed R (beginLanding en le r inp a)" "framed R (assertPrLanding le t rid sha via)"
  "framed R (finish_merge en le t a)" "framed R (refuseCancelOfLanded le t)"
  "framed R (partlyLandedHold en t landed to' why a)" "framed R (recordRejectPins en t a hs n)"
  "framed R (revocationAfterLanding en le i a why)" "framed R (raw_move en t to a)"
  "framed R (ci_event en le r c cst d a)" "framed R (recordCiRequired en r d a)"
  unfolding beginLanding_def assertPrLanding_def finish_merge_def refuseCancelOfLanded_def partlyLandedHold_def
    recordRejectPins_def revocationAfterLanding_def raw_move_def ci_event_def recordCiRequired_def Let_def
  by (intro frames; simp)+

lemma framed_reviews [frames]:
  "framed R (recordLanding en le r inp a)" "to \<noteq> RejectCancelled \<Longrightarrow> framed R (rejectReview en le r to a w)"
  unfolding recordLanding_def write_landing_def rejectReview_def reject_apply_def Let_def by (intro frames; simp)+

lemma framed_gate_parts [frames]:
  "framed R (assertWriteReposAvailable u)" "framed R (assertCiPassed t c)" "framed R (recordApprovalPins en t a pins)"
  "framed R (insert_test_output en i txt' u' pl a)"
  unfolding assertWriteReposAvailable_def assertCiPassed_def recordApprovalPins_def insert_test_output_def
  by (intro frames; simp)+

lemma framed_gate [frames]:
  "framed R (approve_admit ga r a)" "framed R (approve_decide en ga r a opts u)" "framed R (routeToTester en ga r a)"
  "framed R (testerPass en ga r pin a)" "framed R (testerFail en ga r fin a)"
  "framed R (recordTesterReplay en le r rin a)" "framed R (recordAcCheck en cin a)"
  "framed R (noteMergeStarted en r i a)"
  unfolding approve_admit_def approve_decide_def approve_to_testing_def approve_to_merge_def routeToTester_def
    testerPass_def pass_apply_def testerFail_def recordTesterReplay_def write_replay_def recordAcCheck_def
    noteMergeStarted_def Let_def
  by (intro frames; simp)+

end

end
