(* ===== verification/Map_Inv.thy ===== *)
theory Map_Inv
  imports Links Frame
begin

text \<open>
  The invariant of the whole database: the lifecycle of every ticket, the keys and references of
  the tables, the acyclic dependency graph, and the map (repositories, links and scopes). Every
  operation of the repository and scope services keeps it.
\<close>

section \<open>The map\<close>

definition map_ok :: "db \<Rightarrow> bool" where
  "map_ok db \<longleftrightarrow>
     distinct (map r_id (db_repositories db)) \<and> distinct (map r_name (db_repositories db)) \<and>
     distinct (map (\<lambda>l. (tr_ticket_id l, tr_repo_id l)) (db_ticket_repos db)) \<and>
     (\<forall>l \<in> set (db_ticket_repos db). tr_ticket_id l \<in> t_id ` set (db_tickets db) \<and> tr_repo_id l \<in> r_id ` set (db_repositories db)) \<and>
     distinct (map sn_id (db_scope_nodes db)) \<and>
     distinct (map (\<lambda>l. (ts_ticket_id l, ts_scope_node_id l)) (db_ticket_scopes db)) \<and>
     (\<forall>l \<in> set (db_ticket_scopes db). ts_ticket_id l \<in> t_id ` set (db_tickets db) \<and> ts_scope_node_id l \<in> sn_id ` set (db_scope_nodes db)) \<and>
     distinct (map ts_ticket_id (filter (\<lambda>l. ts_relation l = ScPrimary) (db_ticket_scopes db))) \<and>
     (\<forall>l \<in> set (db_scope_repos db). srp_scope_node_id l \<in> sn_id ` set (db_scope_nodes db) \<and> srp_repo_id l \<in> r_id ` set (db_repositories db)) \<and>
     (\<forall>e \<in> set (db_scope_edges db). se_from e \<in> sn_id ` set (db_scope_nodes db) \<and> se_to e \<in> sn_id ` set (db_scope_nodes db)) \<and>
     acyclic (set (contains_edges db))"

definition tidy :: "db \<Rightarrow> bool" where
  "tidy db = (acyclic (deps_rel db) \<and>
     p_ticket_id ` set (db_paused db) \<subseteq> t_id ` set (db_tickets db) \<and>
     distinct (filter (\<lambda>n. n \<noteq> None) (map t_number (db_tickets db))) \<and> map_ok db)"

definition well_formed :: "db \<Rightarrow> bool" where
  "well_formed db = (healthy db \<and> tidy db)"

text \<open>The tables of the map, which the other services leave alone.\<close>

definition same_map :: "db \<Rightarrow> db \<Rightarrow> bool" where
  "same_map s s' \<longleftrightarrow> db_repositories s' = db_repositories s \<and> db_ticket_repos s' = db_ticket_repos s \<and>
     db_scope_nodes s' = db_scope_nodes s \<and> db_scope_edges s' = db_scope_edges s \<and>
     db_scope_repos s' = db_scope_repos s \<and> db_ticket_scopes s' = db_ticket_scopes s"

lemma map_ok_same: "same_map s s' \<Longrightarrow> t_id ` set (db_tickets s) \<subseteq> t_id ` set (db_tickets s') \<Longrightarrow> map_ok s \<Longrightarrow> map_ok s'"
  by (simp add: map_ok_def same_map_def contains_edges_def) blast

lemma map_ok_add_event [simp]: "map_ok (add_event en et ei ac ty pl db) = map_ok db"
  by (simp add: map_ok_def contains_edges_def)

lemma tidy_add_event [simp]: "tidy (add_event en et ei ac ty pl db) = tidy db"
  by (simp add: tidy_def)

lemma well_formed_add_event [simp]: "well_formed (add_event en et ei ac ty pl db) = well_formed db"
  by (simp add: well_formed_def)

lemma well_formedD: "well_formed db \<Longrightarrow> healthy db" "well_formed db \<Longrightarrow> tidy db"
  by (simp_all add: well_formed_def)

lemma wp_well_formedI: "wp m (\<lambda>_. healthy) db \<Longrightarrow> wp m (\<lambda>_. tidy) db \<Longrightarrow> wp m (\<lambda>_. well_formed) db"
  unfolding well_formed_def [abs_def] by (rule wp_conj)

text \<open>A write to the map: what is left to show is that the map stays in order.\<close>

lemma core_map [simp]:
  "healthy (db\<lparr>db_repositories := a\<rparr>) = healthy db" "healthy (db\<lparr>db_ticket_repos := b\<rparr>) = healthy db"
  "healthy (db\<lparr>db_scope_nodes := c\<rparr>) = healthy db" "healthy (db\<lparr>db_scope_edges := d\<rparr>) = healthy db"
  "healthy (db\<lparr>db_scope_repos := e\<rparr>) = healthy db" "healthy (db\<lparr>db_ticket_scopes := f\<rparr>) = healthy db"
  "healthy (db\<lparr>db_scope_nodes := c, db_scope_edges := d\<rparr>) = healthy db"
  "deps_rel (db\<lparr>db_repositories := a\<rparr>) = deps_rel db" "deps_rel (db\<lparr>db_ticket_repos := b\<rparr>) = deps_rel db"
  "deps_rel (db\<lparr>db_scope_nodes := c\<rparr>) = deps_rel db" "deps_rel (db\<lparr>db_scope_edges := d\<rparr>) = deps_rel db"
  "deps_rel (db\<lparr>db_scope_repos := e\<rparr>) = deps_rel db" "deps_rel (db\<lparr>db_ticket_scopes := f\<rparr>) = deps_rel db"
  "deps_rel (db\<lparr>db_scope_nodes := c, db_scope_edges := d\<rparr>) = deps_rel db"
  by (simp_all add: healthy_def keys_ok_def view_def view_of_def ticket_findById_def hasActiveForTicket_def paused_find_def deps_rel_def)

text \<open>The keys and references of the map: an update that keeps them keeps it in order.\<close>

definition map_keys :: "db \<Rightarrow> _" where
  "map_keys db = (map r_id (db_repositories db), map r_name (db_repositories db),
     map (\<lambda>l. (tr_ticket_id l, tr_repo_id l)) (db_ticket_repos db), map sn_id (db_scope_nodes db),
     map (\<lambda>l. (ts_ticket_id l, ts_scope_node_id l, ts_relation l)) (db_ticket_scopes db),
     map (\<lambda>l. (srp_scope_node_id l, srp_repo_id l)) (db_scope_repos db),
     map (\<lambda>e. (se_from e, se_to e, se_relation e)) (db_scope_edges db), t_id ` set (db_tickets db))"

lemma map_ok_of_keys:
  "map_ok db = (case map_keys db of (ris, rns, trs, ns, tss, srs, es, tids) \<Rightarrow>
     distinct ris \<and> distinct rns \<and> distinct trs \<and> (\<forall>(t, r) \<in> set trs. t \<in> tids \<and> r \<in> set ris) \<and> distinct ns \<and>
     distinct (map (\<lambda>(t, n, rel). (t, n)) tss) \<and> (\<forall>(t, n, rel) \<in> set tss. t \<in> tids \<and> n \<in> set ns) \<and>
     distinct (map fst (filter (\<lambda>(t, n, rel). rel = ScPrimary) tss)) \<and> (\<forall>(n, r) \<in> set srs. n \<in> set ns \<and> r \<in> set ris) \<and>
     (\<forall>(a, b, rel) \<in> set es. a \<in> set ns \<and> b \<in> set ns) \<and> acyclic (set (map (\<lambda>(a, b, rel). (a, b)) (filter (\<lambda>(a, b, rel). rel = EdgeContains) es))))"
  unfolding map_keys_def prod.case
  by (simp add: map_ok_def contains_edges_def filter_map comp_def case_prod_unfold)

lemma map_ok_cong: "map_keys s = map_keys s' \<Longrightarrow> map_ok s = map_ok s'"
  by (simp add: map_ok_of_keys)

section \<open>Statements\<close>

lemma filter_upd_rows:
  "filter P (upd_rows Q f xs) = upd_rows Q f (filter P xs)" if "\<And>x. x \<in> set xs \<Longrightarrow> Q x \<Longrightarrow> P (f x) = P x"
  using that by (induction xs) (auto simp: upd_rows_def)

lemma keeps_rows:
  "keepsT well_formed (modifyT g)" if "\<And>db. well_formed db \<Longrightarrow> well_formed (g db)"
  using that by (auto simp: framed_def modifyT_def)

lemma wf_tables:
  "well_formed db \<Longrightarrow> map_ok (db\<lparr>db_repositories := a\<rparr>) \<Longrightarrow> well_formed (db\<lparr>db_repositories := a\<rparr>)"
  "well_formed db \<Longrightarrow> map_ok (db\<lparr>db_ticket_repos := b\<rparr>) \<Longrightarrow> well_formed (db\<lparr>db_ticket_repos := b\<rparr>)"
  "well_formed db \<Longrightarrow> map_ok (db\<lparr>db_scope_nodes := c\<rparr>) \<Longrightarrow> well_formed (db\<lparr>db_scope_nodes := c\<rparr>)"
  "well_formed db \<Longrightarrow> map_ok (db\<lparr>db_scope_edges := d\<rparr>) \<Longrightarrow> well_formed (db\<lparr>db_scope_edges := d\<rparr>)"
  "well_formed db \<Longrightarrow> map_ok (db\<lparr>db_scope_repos := e\<rparr>) \<Longrightarrow> well_formed (db\<lparr>db_scope_repos := e\<rparr>)"
  "well_formed db \<Longrightarrow> map_ok (db\<lparr>db_ticket_scopes := f\<rparr>) \<Longrightarrow> well_formed (db\<lparr>db_ticket_scopes := f\<rparr>)"
  "well_formed db \<Longrightarrow> map_ok (db\<lparr>db_scope_nodes := c, db_scope_edges := d\<rparr>) \<Longrightarrow> well_formed (db\<lparr>db_scope_nodes := c, db_scope_edges := d\<rparr>)"
  by (simp_all add: well_formed_def tidy_def)

lemma wf_map_ok: "well_formed db \<Longrightarrow> map_ok db"
  by (simp add: well_formed_def tidy_def)

lemma keeps_repo_insert: "keepsT well_formed (repo_insert r)"
  by (auto simp: framed_def repo_insert_def split: if_split_asm intro!: wf_tables) (auto dest!: wf_map_ok simp: map_ok_def contains_edges_def)

lemma keeps_keys:
  assumes "\<And>db. map_keys (g db) = map_keys db" and "\<And>db. well_formed db \<Longrightarrow> map_ok (g db) \<Longrightarrow> well_formed (g db)"
  shows "keepsT well_formed (modifyT g)"
  using assms by (intro keeps_rows) (blast dest: wf_map_ok intro: map_ok_cong [THEN iffD2])

lemma keeps_updates:
  "(\<And>r. r_id (f r) = r_id r) \<Longrightarrow> (\<And>r. r_name (f r) = r_name r) \<Longrightarrow> keepsT well_formed (repo_update i f)"
  "keepsT well_formed (node_update i p now)"
  "keepsT well_formed (modifyT (\<lambda>db. db\<lparr>db_scope_repos := upd_rows P (patch_scope_repo q now) (db_scope_repos db)\<rparr>))"
  unfolding repo_update_def node_update_def
  by (intro keeps_keys wf_tables; simp add: map_keys_def map_key_upd_rows patch_node_def patch_scope_repo_def)+

lemma map_ok_inserts:
  "map_ok s \<Longrightarrow> sn_id n \<notin> sn_id ` set (db_scope_nodes s) \<Longrightarrow> map_ok (s\<lparr>db_scope_nodes := db_scope_nodes s @ [n]\<rparr>)"
  "map_ok s \<Longrightarrow> srp_scope_node_id l \<in> sn_id ` set (db_scope_nodes s) \<Longrightarrow> srp_repo_id l \<in> r_id ` set (db_repositories s) \<Longrightarrow>
     map_ok (s\<lparr>db_scope_repos := db_scope_repos s @ [l]\<rparr>)"
  "map_ok s \<Longrightarrow> (tr_ticket_id k, tr_repo_id k) \<notin> (\<lambda>l. (tr_ticket_id l, tr_repo_id l)) ` set (db_ticket_repos s) \<Longrightarrow>
     tr_ticket_id k \<in> t_id ` set (db_tickets s) \<Longrightarrow> tr_repo_id k \<in> r_id ` set (db_repositories s) \<Longrightarrow>
     map_ok (s\<lparr>db_ticket_repos := db_ticket_repos s @ [k]\<rparr>)"
  by (simp_all add: map_ok_def contains_edges_def)

lemma keeps_inserts:
  "keepsT well_formed (node_insert n)" "keepsT well_formed (scopeRepo_insert l)"
proof -
  have "well_formed (s\<lparr>db_scope_nodes := db_scope_nodes s @ [n]\<rparr>)" if "well_formed s" "sn_id n \<notin> sn_id ` set (db_scope_nodes s)" for s
    using that by (intro wf_tables(3) map_ok_inserts(1) wf_map_ok)
  then show "keepsT well_formed (node_insert n)" by (simp add: framed_def node_insert_def)
  have "well_formed (s\<lparr>db_scope_repos := db_scope_repos s @ [l]\<rparr>)"
    if "well_formed s" "srp_scope_node_id l \<in> sn_id ` set (db_scope_nodes s)" "srp_repo_id l \<in> r_id ` set (db_repositories s)" for s
    using that by (intro wf_tables(5) map_ok_inserts(2) wf_map_ok)
  then show "keepsT well_formed (scopeRepo_insert l)" by (auto simp: framed_def scopeRepo_insert_def split: if_split_asm)
qed

text \<open>What the upserts write.\<close>

lemma put_link_shape:
  assumes "put_link tid rid f now s = Inr (x, s')"
  shows "tid \<in> t_id ` set (db_tickets s) \<and> rid \<in> r_id ` set (db_repositories s) \<and>
    s' = s\<lparr>db_ticket_repos := (if find (same_link tid rid) (db_ticket_repos s) = None then db_ticket_repos s @ [f (fresh_link tid rid now)]
      else upd_rows (same_link tid rid) (\<lambda>l. (f l)\<lparr>tr_updated_at := now\<rparr>) (db_ticket_repos s))\<rparr>"
proof (cases "tid \<notin> t_id ` set (db_tickets s) \<or> rid \<notin> r_id ` set (db_repositories s)")
  case True
  with assms show ?thesis by (simp add: put_link_def)
next
  case False
  with assms show ?thesis by (simp add: put_link_def split del: if_split)
qed

lemma upsert_shape:
  assumes "ticketScope_upsert l s = Inr (x, s')"
  shows "ts_ticket_id l \<in> t_id ` set (db_tickets s) \<and> ts_scope_node_id l \<in> sn_id ` set (db_scope_nodes s) \<and>
    (\<exists>f. s' = s\<lparr>db_ticket_scopes := f\<rparr>)"
proof (cases "ts_ticket_id l \<notin> t_id ` set (db_tickets s) \<or> ts_scope_node_id l \<notin> sn_id ` set (db_scope_nodes s)")
  case True
  with assms show ?thesis by (simp add: ticketScope_upsert_def)
next
  case False
  with assms have "s\<lparr>db_ticket_scopes := (if ticketScope_find s (ts_ticket_id l) (ts_scope_node_id l) = None then db_ticket_scopes s @ [l]
      else upd_rows (\<lambda>x. ts_ticket_id x = ts_ticket_id l \<and> ts_scope_node_id x = ts_scope_node_id l)
          (\<lambda>x. x\<lparr>ts_relation := ts_relation l, ts_confidence := ts_confidence l, ts_reasons := ts_reasons l,
             ts_updated_at := ts_updated_at l\<rparr>) (db_ticket_scopes s))\<rparr> = s'"
    by (simp add: ticketScope_upsert_def split del: if_split)
  with False show ?thesis by blast
qed

lemma keeps_put_link:
  assumes "\<And>l. tr_ticket_id (f l) = tr_ticket_id l" and "\<And>l. tr_repo_id (f l) = tr_repo_id l"
  shows "keepsT well_formed (put_link tid rid f now)"
proof (rule framedI, rule impI)
  fix s x s' assume run: "put_link tid rid f now s = Inr (x, s')" and wf: "well_formed s"
  let ?new = "if find (same_link tid rid) (db_ticket_repos s) = None then db_ticket_repos s @ [f (fresh_link tid rid now)]
    else upd_rows (same_link tid rid) (\<lambda>l. (f l)\<lparr>tr_updated_at := now\<rparr>) (db_ticket_repos s)"
  have s': "s' = s\<lparr>db_ticket_repos := ?new\<rparr>" and refs: "tid \<in> t_id ` set (db_tickets s)" "rid \<in> r_id ` set (db_repositories s)"
    using put_link_shape [OF run] by blast+
  have "map_ok s" using wf by (rule wf_map_ok)
  then have "map_ok s'"
  proof (cases "find (same_link tid rid) (db_ticket_repos s)")
    case None
    then have "(tid, rid) \<notin> (\<lambda>l. (tr_ticket_id l, tr_repo_id l)) ` set (db_ticket_repos s)"
      by (auto simp: find_None_iff same_link_def)
    moreover have "tr_ticket_id (f (fresh_link tid rid now)) = tid" "tr_repo_id (f (fresh_link tid rid now)) = rid"
      by (simp_all add: assms fresh_link_def)
    ultimately show ?thesis using map_ok_inserts(3) [OF \<open>map_ok s\<close>, of "f (fresh_link tid rid now)"] refs None unfolding s' by simp
  next
    case (Some l)
    then have "map_keys s' = map_keys s" unfolding s' by (simp add: map_keys_def map_key_upd_rows assms)
    from map_ok_cong [OF this] show ?thesis using \<open>map_ok s\<close> by simp
  qed
  then show "well_formed s'" unfolding s' by (rule wf_tables(2) [OF wf])
qed

lemma distinct_map_conj: "distinct (map f (filter R xs)) \<Longrightarrow> distinct (map f (filter (\<lambda>x. V x \<and> R x) xs))"
  by (induction xs) (auto split: if_split_asm)

lemma map_ok_deletes:
  "map_ok s \<Longrightarrow> map_ok (s\<lparr>db_scope_repos := filter P (db_scope_repos s)\<rparr>)"
  "map_ok s \<Longrightarrow> map_ok (s\<lparr>db_scope_edges := filter Q (db_scope_edges s)\<rparr>)"
  "map_ok s \<Longrightarrow> map_ok (s\<lparr>db_ticket_scopes := filter V (db_ticket_scopes s)\<rparr>)"
proof -
  show "map_ok s \<Longrightarrow> map_ok (s\<lparr>db_scope_repos := filter P (db_scope_repos s)\<rparr>)"
    by (simp add: map_ok_def contains_edges_def)
  have "acyclic (set (map h (filter R (filter Q es))))" if "acyclic (set (map h (filter R es)))" for h :: "scope_edge \<Rightarrow> id \<times> id" and R es
    using that by (rule acyclic_subset) auto
  then show "map_ok s \<Longrightarrow> map_ok (s\<lparr>db_scope_edges := filter Q (db_scope_edges s)\<rparr>)"
    by (simp add: map_ok_def contains_edges_def)
  show "map_ok s \<Longrightarrow> map_ok (s\<lparr>db_ticket_scopes := filter V (db_ticket_scopes s)\<rparr>)"
    by (simp add: map_ok_def contains_edges_def distinct_map_filter distinct_map_conj conj_commute [of _ "V _"])
qed

lemma keeps_deletes:
  "keepsT well_formed (modifyT (\<lambda>db. db\<lparr>db_scope_repos := filter P (db_scope_repos db)\<rparr>))"
  "keepsT well_formed (modifyT (\<lambda>db. db\<lparr>db_scope_edges := filter Q (db_scope_edges db)\<rparr>))"
  "keepsT well_formed (ticketScope_delete tid nid)"
  unfolding ticketScope_delete_def
  by (intro keeps_rows wf_tables map_ok_deletes wf_map_ok; assumption)+

lemma upd_rows_Cons: "upd_rows P f (x # xs) = (if P x then f x else x) # upd_rows P f xs"
  by (simp add: upd_rows_def)

text \<open>A link that is not primary, and the step of a primary one after the old one is demoted.\<close>

lemma map_ok_scope:
  assumes ok: "map_ok s" and refs: "ts_ticket_id l \<in> t_id ` set (db_tickets s)" "ts_scope_node_id l \<in> sn_id ` set (db_scope_nodes s)"
    and primary: "ts_relation l = ScPrimary \<Longrightarrow> \<forall>x \<in> set (db_ticket_scopes s). ts_ticket_id x = ts_ticket_id l \<longrightarrow> ts_relation x \<noteq> ScPrimary"
    and run: "ticketScope_upsert l s = Inr (u, s')"
  shows "map_ok s'"
proof -
  let ?here = "\<lambda>x. ts_ticket_id x = ts_ticket_id l \<and> ts_scope_node_id x = ts_scope_node_id l"
  let ?set = "\<lambda>x. x\<lparr>ts_relation := ts_relation l, ts_confidence := ts_confidence l, ts_reasons := ts_reasons l, ts_updated_at := ts_updated_at l\<rparr>"
  show ?thesis
  proof (cases "ticketScope_find s (ts_ticket_id l) (ts_scope_node_id l)")
    case None
    then have new: "\<forall>x \<in> set (db_ticket_scopes s). \<not> ?here x" by (simp add: ticketScope_find_def find_None_iff)
    have "s' = s\<lparr>db_ticket_scopes := db_ticket_scopes s @ [l]\<rparr>" using run None by (auto simp: ticketScope_upsert_def split: if_split_asm)
    then show ?thesis using ok refs new primary by (auto simp: map_ok_def contains_edges_def)
  next
    case (Some y)
    let ?rows = "upd_rows ?here ?set (db_ticket_scopes s)"
    have s': "s' = s\<lparr>db_ticket_scopes := ?rows\<rparr>" using run Some by (auto simp: ticketScope_upsert_def split: if_split_asm)
    have keys: "map (\<lambda>x. (ts_ticket_id x, ts_scope_node_id x)) ?rows = map (\<lambda>x. (ts_ticket_id x, ts_scope_node_id x)) (db_ticket_scopes s)"
      by (rule map_key_upd_rows) simp
    have refs': "\<forall>x \<in> set ?rows. ts_ticket_id x \<in> t_id ` set (db_tickets s) \<and> ts_scope_node_id x \<in> sn_id ` set (db_scope_nodes s)"
      using ok refs unfolding map_ok_def set_upd_rows by auto
    have once: "distinct (map (\<lambda>x. (ts_ticket_id x, ts_scope_node_id x)) xs) \<Longrightarrow>
        distinct (map ts_ticket_id (filter (\<lambda>x. ts_relation x = ScPrimary) xs)) \<Longrightarrow>
        (ts_relation l = ScPrimary \<Longrightarrow> \<forall>x \<in> set xs. ts_ticket_id x = ts_ticket_id l \<longrightarrow> ts_relation x \<noteq> ScPrimary) \<Longrightarrow>
        distinct (map ts_ticket_id (filter (\<lambda>x. ts_relation x = ScPrimary) (upd_rows ?here ?set xs)))" for xs
    proof (induction xs)
      case (Cons x xs)
      have tail: "distinct (map ts_ticket_id (filter (\<lambda>x. ts_relation x = ScPrimary) (upd_rows ?here ?set xs)))"
        using Cons by (auto split: if_split_asm)
      have "upd_rows ?here ?set xs = xs" if "?here x"
      proof -
        have "\<forall>y \<in> set xs. \<not> ?here y" using Cons.prems(1) that by force
        then show ?thesis by (auto simp: upd_rows_def intro!: map_idI)
      qed
      moreover have "ts_ticket_id ` {y \<in> set (upd_rows ?here ?set xs). ts_relation y = ScPrimary} \<subseteq>
          ts_ticket_id ` {y \<in> set xs. ts_relation y = ScPrimary} \<union> {i. i = ts_ticket_id l \<and> ts_relation l = ScPrimary}"
        by (auto simp: set_upd_rows)
      ultimately show ?case using Cons.prems tail
        by (cases "?here x") (auto simp: upd_rows_Cons split: if_split_asm)
    qed (simp add: upd_rows_def)
    show ?thesis
      using ok keys refs' once [of "db_ticket_scopes s"] primary unfolding s' by (auto simp: map_ok_def contains_edges_def)
  qed
qed

lemma keeps_scope_upsert:
  assumes "ts_relation l \<noteq> ScPrimary"
  shows "keepsT well_formed (ticketScope_upsert l)"
proof (rule framedI, rule impI)
  fix s x s' assume run: "ticketScope_upsert l s = Inr (x, s')" and wf: "well_formed s"
  have refs: "ts_ticket_id l \<in> t_id ` set (db_tickets s)" "ts_scope_node_id l \<in> sn_id ` set (db_scope_nodes s)"
    using upsert_shape [OF run] by blast+
  have "map_ok s'" using map_ok_scope [OF wf_map_ok [OF wf] refs _ run] assms by blast
  moreover obtain f where "s' = s\<lparr>db_ticket_scopes := f\<rparr>" using upsert_shape [OF run] by blast
  ultimately show "well_formed s'" using wf_tables(6) [OF wf] by blast
qed

text \<open>Demoting a ticket's primary link and setting another keeps one primary link a ticket.\<close>

definition demoted :: "id \<Rightarrow> instant \<Rightarrow> db \<Rightarrow> db" where
  "demoted tid now s = s\<lparr>db_ticket_scopes := upd_rows (\<lambda>x. ts_ticket_id x = tid \<and> ts_relation x = ScPrimary)
     (\<lambda>x. x\<lparr>ts_relation := ScSecondary, ts_updated_at := now\<rparr>) (db_ticket_scopes s)\<rparr>"

lemma demoted_none:
  assumes "x \<in> set (db_ticket_scopes (demoted tid now s))" and "ts_ticket_id x = tid"
  shows "ts_relation x \<noteq> ScPrimary"
proof -
  obtain y where "x = (if ts_ticket_id y = tid \<and> ts_relation y = ScPrimary then y\<lparr>ts_relation := ScSecondary, ts_updated_at := now\<rparr> else y)"
  proof -
    have "db_ticket_scopes (demoted tid now s) = map (\<lambda>y. if ts_ticket_id y = tid \<and> ts_relation y = ScPrimary
        then y\<lparr>ts_relation := ScSecondary, ts_updated_at := now\<rparr> else y) (db_ticket_scopes s)"
      by (simp add: demoted_def upd_rows_def)
    from assms(1) [unfolded this set_map] that show thesis by (elim imageE) blast
  qed
  then show ?thesis using assms(2) by (simp split: if_split_asm)
qed

lemma demoted_primaries:
  "filter (\<lambda>x. ts_relation x = ScPrimary) (db_ticket_scopes (demoted tid now s)) =
     filter (\<lambda>x. ts_ticket_id x \<noteq> tid \<and> ts_relation x = ScPrimary) (db_ticket_scopes s)"
proof -
  have "filter (\<lambda>x. ts_relation x = ScPrimary) (upd_rows (\<lambda>x. ts_ticket_id x = tid \<and> ts_relation x = ScPrimary)
      (\<lambda>x. x\<lparr>ts_relation := ScSecondary, ts_updated_at := now\<rparr>) xs) = filter (\<lambda>x. ts_ticket_id x \<noteq> tid \<and> ts_relation x = ScPrimary) xs" for xs
  proof (induction xs)
    case (Cons x xs)
    then show ?case
      by (cases "ts_ticket_id x = tid"; cases "ts_relation x = ScPrimary"; simp add: upd_rows_Cons)
  qed (simp add: upd_rows_def)
  then show ?thesis by (simp add: demoted_def)
qed

lemma wf_demoted:
  assumes "well_formed s"
  shows "well_formed (demoted tid now s)"
proof -
  have ok: "map_ok s" using assms by (rule wf_map_ok)
  then have "distinct (map ts_ticket_id (filter (\<lambda>x. ts_relation x = ScPrimary) (db_ticket_scopes (demoted tid now s))))"
    unfolding demoted_primaries by (simp add: map_ok_def distinct_map_conj)
  moreover have "map (\<lambda>x. (ts_ticket_id x, ts_scope_node_id x)) (db_ticket_scopes (demoted tid now s)) =
      map (\<lambda>x. (ts_ticket_id x, ts_scope_node_id x)) (db_ticket_scopes s)"
    by (simp add: demoted_def map_key_upd_rows)
  moreover have "\<forall>x \<in> set (db_ticket_scopes (demoted tid now s)). ts_ticket_id x \<in> t_id ` set (db_tickets s) \<and>
      ts_scope_node_id x \<in> sn_id ` set (db_scope_nodes s)"
    using ok by (auto simp: map_ok_def demoted_def set_upd_rows)
  moreover have "db_repositories (demoted tid now s) = db_repositories s" "db_ticket_repos (demoted tid now s) = db_ticket_repos s"
    "db_scope_nodes (demoted tid now s) = db_scope_nodes s" "db_scope_edges (demoted tid now s) = db_scope_edges s"
    "db_scope_repos (demoted tid now s) = db_scope_repos s" "db_tickets (demoted tid now s) = db_tickets s"
    "contains_edges (demoted tid now s) = contains_edges s"
    by (simp_all add: demoted_def contains_edges_def)
  ultimately have "map_ok (demoted tid now s)" using ok unfolding map_ok_def by presburger
  then show ?thesis unfolding demoted_def by (rule wf_tables(6) [OF assms])
qed

lemma wp_demote: "wp (demotePrimaries tid now) Q s = Q () (demoted tid now s)"
  by (simp add: demotePrimaries_def wp_modify demoted_def)

lemma keeps_primary:
  assumes "ts_ticket_id l = tid" and "well_formed s"
  shows "wp (ticketScope_upsert l) (\<lambda>_. well_formed) (demoted tid now s)"
proof (rule wpI)
  fix x s' assume run: "ticketScope_upsert l (demoted tid now s) = Inr (x, s')"
  note wf = wf_demoted [OF assms(2), of tid now]
  have "map_ok s'" using map_ok_scope [OF wf_map_ok [OF wf] _ _ _ run] upsert_shape [OF run] demoted_none assms(1) by blast
  moreover obtain f where "s' = (demoted tid now s)\<lparr>db_ticket_scopes := f\<rparr>" using upsert_shape [OF run] by blast
  ultimately show "well_formed s'" using wf_tables(6) [OF wf] by blast
qed

section \<open>The services of the map\<close>

lemma keeps_log:
  "keepsT well_formed (writeEvent en et ei ac ty pl)" "keepsT well_formed (ticketEvent en i ac ty tp)"
  "keepsT well_formed (nodeEvent en i ac ty tp)" "keepsT well_formed (repoEvent en i ac ty tp)"
  "keepsT well_formed (access_event en i rid u ac)"
  unfolding nodeEvent_def repoEvent_def access_event_def by (rule keepsT_I, simp add: wp_simps)+

lemma keeps_lookups:
  "keepsT well_formed (resolveRef ref)" "keepsT well_formed (getScopeNodeRow i)" "keepsT well_formed (need_repo g ref)"
  "keepsT well_formed (getScopeRepo i)" "keepsT well_formed (getScopeEdge i)" "keepsT well_formed (need_ticket i)"
  unfolding resolveRef_def getScopeNodeRow_def need_repo_def getScopeRepo_def getScopeEdge_def need_ticket_def
  by (intro frames)+

lemmas keeps_map = keeps_log keeps_lookups keeps_inserts keeps_repo_insert keeps_updates keeps_deletes

lemma keeps_scope_service:
  "keepsT well_formed (createScopeNode en ni a)" "keepsT well_formed (updateScopeNode en i nu a)"
  "keepsT well_formed (linkScopeRepo en si a)" "keepsT well_formed (updateScopeRepo en i sp a)"
  "keepsT well_formed (unlinkScopeRepo en i a)" "keepsT well_formed (deleteScopeEdge en i a)"
  "keepsT well_formed (scope_removeTicketScope en ref i a)"
  unfolding createScopeNode_def updateScopeNode_def linkScopeRepo_def updateScopeRepo_def unlinkScopeRepo_def
    deleteScopeEdge_def scope_removeTicketScope_def
  by (intro frames keeps_map)+

text \<open>The cycle guard of an edge, and the two link counts that guard a delete.\<close>

lemma map_ok_new_edge:
  assumes "map_ok s" and "se_from e \<in> sn_id ` set (db_scope_nodes s)" and "se_to e \<in> sn_id ` set (db_scope_nodes s)"
    and "se_relation e = EdgeContains \<Longrightarrow> \<not> containsCycleWouldForm s (se_to e) (se_from e)"
  shows "map_ok (s\<lparr>db_scope_edges := db_scope_edges s @ [e]\<rparr>)"
proof -
  have "contains_edges (s\<lparr>db_scope_edges := db_scope_edges s @ [e]\<rparr>) =
      contains_edges s @ (if se_relation e = EdgeContains then [(se_from e, se_to e)] else [])"
    by (simp add: contains_edges_def)
  moreover have "acyclic (insert (se_from e, se_to e) (set (contains_edges s)))" if "se_relation e = EdgeContains"
    using assms(1) assms(4) [OF that] by (simp add: map_ok_def containsCycleWouldForm_def graph_walk_iff del: graph_walk.simps)
  ultimately show ?thesis using assms(1-3) by (cases "se_relation e = EdgeContains") (simp_all add: map_ok_def)
qed

lemma keeps_createScopeEdge: "keepsT well_formed (createScopeEdge en ei a)"
proof (rule keepsT_I)
  fix s assume wf: "well_formed s"
  have ins: "wp (edge_insert (edge_row en s ei)) (\<lambda>_. well_formed) s"
    if "ei_relation ei = EdgeContains \<longrightarrow> \<not> containsCycleWouldForm s (ei_to ei) (ei_from ei)"
  proof (rule wpI)
    fix x s' assume "edge_insert (edge_row en s ei) s = Inr (x, s')"
    then have refs: "ei_from ei \<in> sn_id ` set (db_scope_nodes s)" "ei_to ei \<in> sn_id ` set (db_scope_nodes s)"
      and s': "s' = s\<lparr>db_scope_edges := db_scope_edges s @ [edge_row en s ei]\<rparr>"
      by (auto simp: edge_insert_def edge_row_def split: if_split_asm)
    have "map_ok s'" unfolding s'
      using map_ok_new_edge [OF wf_map_ok [OF wf], of "edge_row en s ei"] refs that by (simp add: edge_row_def)
    then show "well_formed s'" unfolding s' by (rule wf_tables(4) [OF wf])
  qed
  have log: "wp (nodeEvent en i a ty pl) (\<lambda>_. well_formed) s'" if "well_formed s'" for i ty pl s'
    using keeps_log(3) that by (rule keepsT_D)
  have node: "wp (getScopeNodeRow i) Q s" if "\<And>n. Q n s" for i Q
    using that by (simp add: wp_def getScopeNodeRow_def split: option.splits)
  show "wp (createScopeEdge en ei a) (\<lambda>_. well_formed) s"
    unfolding createScopeEdge_def wp_simps
    by (intro impI node) (rule wp_mono [OF ins], blast, rule log)
qed

lemma keeps_deleteScopeNode: "keepsT well_formed (deleteScopeNode en i a)"
proof (rule keepsT_I)
  fix s assume wf: "well_formed s"
  have del: "well_formed (s\<lparr>db_scope_nodes := filter (\<lambda>n. sn_id n \<noteq> i) (db_scope_nodes s),
      db_scope_edges := filter (\<lambda>e. se_from e \<noteq> i \<and> se_to e \<noteq> i) (db_scope_edges s)\<rparr>)"
    if free: "scopeRepo_countForNode s i = 0" "ticketScope_countForNode s i = 0"
  proof (rule wf_tables(7) [OF wf])
    let ?s = "s\<lparr>db_scope_nodes := filter (\<lambda>n. sn_id n \<noteq> i) (db_scope_nodes s),
      db_scope_edges := filter (\<lambda>e. se_from e \<noteq> i \<and> se_to e \<noteq> i) (db_scope_edges s)\<rparr>"
    have unused: "\<forall>l \<in> set (db_scope_repos s). srp_scope_node_id l \<noteq> i" "\<forall>l \<in> set (db_ticket_scopes s). ts_scope_node_id l \<noteq> i"
      using free by (simp_all add: scopeRepo_countForNode_def ticketScope_countForNode_def filter_empty_conv)
    have "set (contains_edges ?s) \<subseteq> set (contains_edges s)" by (auto simp: contains_edges_def)
    then have "acyclic (set (contains_edges ?s))"
      using wf_map_ok [OF wf] by (auto simp: map_ok_def intro: acyclic_subset)
    moreover have "sn_id ` {n \<in> set (db_scope_nodes s). sn_id n \<noteq> i} = sn_id ` set (db_scope_nodes s) - {i}" by auto
    ultimately show "map_ok ?s" using wf_map_ok [OF wf] unused by (simp add: map_ok_def distinct_map_filter)
  qed
  have log: "wp (nodeEvent en i a ty pl) (\<lambda>_. well_formed) s'" if "well_formed s'" for ty pl s'
    using keeps_log(3) that by (rule keepsT_D)
  have node: "wp (getScopeNodeRow i) Q s" if "\<And>n. Q n s" for Q
    using that by (simp add: wp_def getScopeNodeRow_def split: option.splits)
  show "wp (deleteScopeNode en i a) (\<lambda>_. well_formed) s"
    unfolding deleteScopeNode_def node_delete_def wp_simps
    by (intro impI node log del) simp_all
qed

lemma keeps_setPrimary: "keepsT well_formed (scope_setPrimaryScope en ref i a)"
proof (rule keepsT_I)
  fix s assume wf: "well_formed s"
  have node: "wp (getScopeNodeRow i) Q s" if "\<And>n. Q n s" for Q
    using that by (simp add: wp_def getScopeNodeRow_def split: option.splits)
  show "wp (scope_setPrimaryScope en ref i a) (\<lambda>_. well_formed) s"
    unfolding scope_setPrimaryScope_def Let_def wp_simps wp_demote well_formed_add_event
    by (intro allI impI node keeps_primary [OF _ wf]) simp
qed

lemma keeps_implicit: "keepsT well_formed (recordImplicitRepoScopes en tid rid a)"
  unfolding recordImplicitRepoScopes_def implicit_node_def
  by (intro frames keeps_map keeps_scope_service keeps_scope_upsert; simp)

lemma keeps_linkTicketScope: "keepsT well_formed (scope_linkTicketScope en lk a)"
  unfolding scope_linkTicketScope_def Let_def
  by (cases "lk_relation lk = ScPrimary"; simp only: if_True if_False simp_thms)
    (intro frames keeps_map keeps_setPrimary keeps_scope_upsert; simp)+

lemmas keeps_links = keeps_implicit keeps_linkTicketScope

lemma keeps_repo_service:
  "keepsT well_formed (registerRepository en rg a)" "keepsT well_formed (setRepoHidden en ref b a)"
  "keepsT well_formed (setRepoDefaultBranch en ref br a)" "keepsT well_formed (setRepoCommands en ref rc a)"
  "keepsT well_formed (linkRepository en tid ref role a)"
  unfolding registerRepository_def setRepoHidden_def setRepoDefaultBranch_def setRepoCommands_def linkRepository_def
    linkTicket_def Let_def
  by (intro frames keeps_map keeps_put_link keeps_links; simp)+

lemma keeps_access_service:
  "keepsT well_formed (applyTicketRepoAccess en ta a)" "keepsT well_formed (setTicketRepoAccess en ta a)"
  "keepsT well_formed (inheritBootstrapRepoAccess en ref rref a)" "keepsT well_formed (applyMonoFallback en ref a)"
  unfolding applyTicketRepoAccess_def setTicketRepoAccess_def inheritBootstrapRepoAccess_def applyMonoFallback_def
    upsertAccess_def Let_def
  by (intro frames keeps_map keeps_put_link; simp)+

end
