(* ===== verification/Event_Chain.thy ===== *)
theory Event_Chain
  imports Store
begin

text \<open>
  The tamper-evident event log (\<open>events/eventChain.ts\<close>, \<open>events/eventWriter.ts\<close>,
  \<open>services/eventLogService.ts\<close>): the hash columns of \<open>work_events\<close>, the walk that verifies
  them, the backfill of rows that have none and the logged repair. SHA-256 is a parameter
  \<open>sha\<close>, and nothing is assumed of it: a theorem that needs it to be collision free says
  instead which two inputs taken from the logs collide.
\<close>

section \<open>Rows and hashes\<close>

definition EVENT_CHAIN_GENESIS :: string where
  "EVENT_CHAIN_GENESIS = replicate 64 (CHR ''0'')"

record chained_event_fields =
  cf_id :: string
  cf_entity_type :: string
  cf_entity_id :: string
  cf_actor_type :: string
  cf_actor_id :: "string option"
  cf_event_type :: string
  cf_payload_json :: "string option"
  cf_correlation_id :: "string option"
  cf_created_at :: string

record chain_row =
  ch_seq :: nat
  ch_fields :: chained_event_fields
  ch_prev_hash :: "string option"
  ch_hash :: "string option"

text \<open>The text under the hash: the JSON array of the previous hash and the covered columns.\<close>

definition hash_text :: "string \<Rightarrow> chained_event_fields \<Rightarrow> string" where
  "hash_text prev f = stringify (JArr (map jopt [Some prev, Some (cf_id f), Some (cf_entity_type f),
     Some (cf_entity_id f), Some (cf_actor_type f), cf_actor_id f, Some (cf_event_type f),
     cf_payload_json f, cf_correlation_id f, Some (cf_created_at f)]))"

definition eventHash :: "(string \<Rightarrow> string) \<Rightarrow> string \<Rightarrow> chained_event_fields \<Rightarrow> string" where
  "eventHash sha prev f = sha (hash_text prev f)"

definition latestEventHash :: "chain_row list \<Rightarrow> string" where
  "latestEventHash rows = (case rev rows of
     [] \<Rightarrow> EVENT_CHAIN_GENESIS
   | r # _ \<Rightarrow> (case ch_hash r of None \<Rightarrow> EVENT_CHAIN_GENESIS | Some h \<Rightarrow> h))"

text \<open>The insert of \<open>writeEvent\<close>; SQLite gives the row the next \<open>rowid\<close>.\<close>

definition append_event ::
  "(string \<Rightarrow> string) \<Rightarrow> chained_event_fields \<Rightarrow> chain_row list \<Rightarrow> chain_row list" where
  "append_event sha f rows = (let prev = latestEventHash rows in
     rows @ [\<lparr>ch_seq = (case rev rows of [] \<Rightarrow> 1 | r # _ \<Rightarrow> ch_seq r + 1), ch_fields = f,
              ch_prev_hash = Some prev, ch_hash = Some (eventHash sha prev f)\<rparr>])"

datatype chain_reason = Unhashed | Link | Content

fun chain_reason_name :: "chain_reason \<Rightarrow> string" where
  "chain_reason_name Unhashed = ''unhashed''"
| "chain_reason_name Link = ''link''"
| "chain_reason_name Content = ''content''"

record chain_verification =
  cv_ok :: bool
  cv_checked :: nat
  cv_brokenAtSeq :: "nat option"
  cv_brokenEventId :: "string option"
  cv_reason :: "chain_reason option"
  cv_headHash :: "string option"

definition broken :: "nat \<Rightarrow> chain_row \<Rightarrow> chain_reason \<Rightarrow> chain_verification" where
  "broken checked row reason = \<lparr>cv_ok = False, cv_checked = checked, cv_brokenAtSeq = Some (ch_seq row),
     cv_brokenEventId = Some (cf_id (ch_fields row)), cv_reason = Some reason, cv_headHash = None\<rparr>"

text \<open>The loop of \<open>verifyEventChain\<close> with its two variables.\<close>

fun verify_from :: "(string \<Rightarrow> string) \<Rightarrow> string \<Rightarrow> nat \<Rightarrow> chain_row list \<Rightarrow> chain_verification" where
  "verify_from sha expectedPrev checked [] = \<lparr>cv_ok = True, cv_checked = checked, cv_brokenAtSeq = None,
     cv_brokenEventId = None, cv_reason = None, cv_headHash = Some expectedPrev\<rparr>"
| "verify_from sha expectedPrev checked (row # rows) =
     (case (ch_hash row, ch_prev_hash row) of
        (Some h, Some p) \<Rightarrow>
          if p \<noteq> expectedPrev then broken (checked + 1) row Link
          else if eventHash sha p (ch_fields row) \<noteq> h then broken (checked + 1) row Content
          else verify_from sha h (checked + 1) rows
      | _ \<Rightarrow> broken (checked + 1) row Unhashed)"

definition verifyEventChain :: "(string \<Rightarrow> string) \<Rightarrow> chain_row list \<Rightarrow> chain_verification" where
  "verifyEventChain sha rows = verify_from sha EVENT_CHAIN_GENESIS 0 rows"

section \<open>Backfill and repair\<close>

definition unhashed :: "chain_row \<Rightarrow> bool" where
  "unhashed r = (ch_hash r = None \<or> ch_prev_hash r = None)"

fun backfill_from :: "(string \<Rightarrow> string) \<Rightarrow> string \<Rightarrow> chain_row list \<Rightarrow> chain_row list \<times> nat" where
  "backfill_from sha prev [] = ([], 0)"
| "backfill_from sha prev (row # rows) =
     (if \<not> unhashed row then
        let (rest, n) = backfill_from sha (the (ch_hash row)) rows in (row # rest, n)
      else
        let h = eventHash sha prev (ch_fields row);
            (rest, n) = backfill_from sha h rows in
        (row\<lparr>ch_prev_hash := Some prev, ch_hash := Some h\<rparr> # rest, n + 1))"

definition backfillEventChain :: "(string \<Rightarrow> string) \<Rightarrow> chain_row list \<Rightarrow> chain_row list \<times> nat" where
  "backfillEventChain sha rows =
     (if filter unhashed rows = [] then (rows, 0) else backfill_from sha EVENT_CHAIN_GENESIS rows)"

record rechain_result =
  rc_rechained :: nat
  rc_oldHead :: string
  rc_newHead :: string
  rc_verification :: chain_verification

definition rechainEventLog :: "env \<Rightarrow> actor \<Rightarrow> chain_row list \<Rightarrow> chain_row list \<times> rechain_result" where
  "rechainEventLog en actor rows = (
     let before = verifyEventChain (en_sha256 en) rows;
         oldHead = latestEventHash rows;
         (filled, rechained) = backfillEventChain (en_sha256 en) rows;
         newHead = latestEventHash filled;
         rows' = append_event (en_sha256 en) \<lparr>cf_id = en_uuid en EventId (length filled),
            cf_entity_type = ''event_log'', cf_entity_id = ''work_events'',
            cf_actor_type = actor_type_name (a_type actor), cf_actor_id = a_id actor,
            cf_event_type = ''events.rechained'',
            cf_payload_json = Some (stringify (JObj [(''rechained'', JNum (int rechained)),
              (''old_head'', JStr oldHead), (''new_head'', JStr newHead),
              (''was_broken_at_seq'', case cv_brokenAtSeq before of None \<Rightarrow> JNull | Some n \<Rightarrow> JNum (int n)),
              (''was_reason'', jopt (map_option chain_reason_name (cv_reason before)))])),
            cf_correlation_id = en_correlation en, cf_created_at = toISOString (en_now en)\<rparr> filled
     in (rows', \<lparr>rc_rechained = rechained, rc_oldHead = oldHead, rc_newHead = newHead,
                 rc_verification = verifyEventChain (en_sha256 en) rows'\<rparr>))"

section \<open>The log behind the event table\<close>

text \<open>The stored columns of an event of the model, and the log its table holds.\<close>

definition stored_fields :: "work_event \<Rightarrow> chained_event_fields" where
  "stored_fields e = \<lparr>cf_id = we_id e, cf_entity_type = we_entity_type e, cf_entity_id = we_entity_id e,
     cf_actor_type = actor_type_name (we_actor_type e), cf_actor_id = we_actor_id e,
     cf_event_type = we_event_type e, cf_payload_json = map_option stringify (we_payload e),
     cf_correlation_id = we_correlation_id e, cf_created_at = toISOString (we_created_at e)\<rparr>"

definition stored_log :: "(string \<Rightarrow> string) \<Rightarrow> work_event list \<Rightarrow> chain_row list" where
  "stored_log sha es = fold (\<lambda>e. append_event sha (stored_fields e)) es []"

definition envCorrelationId :: "string option \<Rightarrow> string option \<Rightarrow> string option" where
  "envCorrelationId dispatchVar tickVar = (
     let raw = js_trim (case orElse dispatchVar tickVar of None \<Rightarrow> [] | Some s \<Rightarrow> s) in
     if raw = [] then None else Some (take 128 raw))"

definition listEvents :: "db \<Rightarrow> string \<Rightarrow> id \<Rightarrow> work_event list" where
  "listEvents db entityType entityId =
     filter (\<lambda>e. we_entity_type e = entityType \<and> we_entity_id e = entityId) (db_events db)"

section \<open>What a verified log is\<close>

lemma hash_text_inj: "hash_text p f = hash_text q g \<Longrightarrow> p = q \<and> f = g"
  unfolding hash_text_def by (drule stringify_fields_inj) simp

text \<open>\<open>linked\<close> is the specification: every row links to the one before it and hashes to its stored value.\<close>

fun linked :: "(string \<Rightarrow> string) \<Rightarrow> string \<Rightarrow> chain_row list \<Rightarrow> bool" where
  "linked sha p [] = True"
| "linked sha p (r # rs) = (ch_prev_hash r = Some p \<and> ch_hash r = Some (eventHash sha p (ch_fields r)) \<and>
     linked sha (eventHash sha p (ch_fields r)) rs)"

fun head_from :: "string \<Rightarrow> chain_row list \<Rightarrow> string" where
  "head_from p [] = p"
| "head_from p (r # rs) = head_from (case ch_hash r of None \<Rightarrow> EVENT_CHAIN_GENESIS | Some h \<Rightarrow> h) rs"

lemma head_from_snoc:
  "head_from p (rs @ [r]) = (case ch_hash r of None \<Rightarrow> EVENT_CHAIN_GENESIS | Some h \<Rightarrow> h)"
  by (induction rs arbitrary: p) simp_all

lemma latestEventHash_eq: "latestEventHash rs = head_from EVENT_CHAIN_GENESIS rs"
  by (cases rs rule: rev_cases) (simp_all add: latestEventHash_def head_from_snoc)

lemma linked_snoc:
  "linked sha p (rs @ [r]) \<longleftrightarrow> linked sha p rs \<and> ch_prev_hash r = Some (head_from p rs) \<and>
     ch_hash r = Some (eventHash sha (head_from p rs) (ch_fields r))"
  by (induction rs arbitrary: p) (simp_all cong: conj_cong)

lemma verify_from_ok:
  "cv_ok (verify_from sha p n rs) \<longleftrightarrow> linked sha p rs"
proof (induction rs arbitrary: p n)
  case Nil
  then show ?case by simp
next
  case (Cons r rs)
  then show ?case
    by (cases "ch_hash r"; cases "ch_prev_hash r") (auto simp: broken_def)
qed

lemma verify_from_head:
  "linked sha p rs \<Longrightarrow> cv_headHash (verify_from sha p n rs) = Some (head_from p rs) \<and>
     cv_checked (verify_from sha p n rs) = n + length rs"
  by (induction rs arbitrary: p n) auto

lemma verify_ok_iff: "cv_ok (verifyEventChain sha rs) \<longleftrightarrow> linked sha EVENT_CHAIN_GENESIS rs"
  by (simp add: verifyEventChain_def verify_from_ok)

lemma verify_from_append:
  "linked sha p rs \<Longrightarrow> verify_from sha p n (rs @ qs) = verify_from sha (head_from p rs) (n + length rs) qs"
  by (induction rs arbitrary: p n) auto

lemma linked_append_event:
  "linked sha EVENT_CHAIN_GENESIS rs \<Longrightarrow> linked sha EVENT_CHAIN_GENESIS (append_event sha f rs)"
  by (simp add: append_event_def Let_def linked_snoc latestEventHash_eq)

lemma linked_stored_log: "linked sha EVENT_CHAIN_GENESIS (stored_log sha es)"
proof -
  have "linked sha EVENT_CHAIN_GENESIS (fold (\<lambda>e. append_event sha (stored_fields e)) es rs)"
    if "linked sha EVENT_CHAIN_GENESIS rs" for rs
    using that by (induction es arbitrary: rs) (simp_all add: linked_append_event)
  then show ?thesis by (simp add: stored_log_def)
qed

text \<open>
  C31. Every event the services append through \<open>writeEvent\<close> extends the stored log by
  \<open>append_event\<close>, and the log behind any event table the model reaches verifies clean: all its
  rows are checked and the reported head is the hash the next event will link to.
\<close>

theorem event_log_verifies:
  "cv_ok (verifyEventChain sha (stored_log sha (db_events db))) \<and>
   cv_checked (verifyEventChain sha (stored_log sha (db_events db))) = length (db_events db) \<and>
   cv_headHash (verifyEventChain sha (stored_log sha (db_events db))) =
     Some (latestEventHash (stored_log sha (db_events db))) \<and>
   (case writeEvent en et ei ac ty pl db of Inl _ \<Rightarrow> False | Inr (i, db') \<Rightarrow>
      stored_log sha (db_events db') =
        append_event sha (stored_fields (last (db_events db'))) (stored_log sha (db_events db)))"
proof -
  have len: "length (fold (\<lambda>e. append_event sha (stored_fields e)) es rs) = length rs + length es" for es rs
    by (induction es arbitrary: rs) (simp_all add: append_event_def Let_def)
  show ?thesis
    using verify_from_head [OF linked_stored_log, of sha 0 "db_events db"]
    by (simp add: verify_ok_iff linked_stored_log verifyEventChain_def [of sha "stored_log sha (db_events db)"] latestEventHash_eq verify_from_ok)
      (simp add: stored_log_def len writeEvent_def Let_def)
qed

section \<open>Tampering\<close>

text \<open>Two rows of the logs whose hashed texts differ but hash alike.\<close>

definition row_text :: "chain_row \<Rightarrow> string" where
  "row_text r = hash_text (the (ch_prev_hash r)) (ch_fields r)"

definition collide :: "(string \<Rightarrow> string) \<Rightarrow> chain_row list \<Rightarrow> chain_row list \<Rightarrow> bool" where
  "collide sha xs ys =
     (\<exists>x \<in> set xs. \<exists>y \<in> set ys. row_text x \<noteq> row_text y \<and> sha (row_text x) = sha (row_text y))"

definition hits_genesis :: "(string \<Rightarrow> string) \<Rightarrow> chain_row list \<Rightarrow> bool" where
  "hits_genesis sha xs = (\<exists>x \<in> set xs. sha (row_text x) = EVENT_CHAIN_GENESIS)"

definition content :: "chain_row \<Rightarrow> chained_event_fields \<times> string option \<times> string option" where
  "content r = (ch_fields r, ch_prev_hash r, ch_hash r)"

lemma linked_head_unique:
  assumes "linked sha EVENT_CHAIN_GENESIS xs" and "linked sha EVENT_CHAIN_GENESIS ys"
    and "head_from EVENT_CHAIN_GENESIS xs = head_from EVENT_CHAIN_GENESIS ys"
  shows "map content xs = map content ys \<or> collide sha xs ys \<or> hits_genesis sha (xs @ ys)"
  using assms
proof (induction xs arbitrary: ys rule: rev_induct)
  case Nil
  then show ?case
    by (cases ys rule: rev_cases)
      (auto simp: linked_snoc head_from_snoc hits_genesis_def row_text_def eventHash_def)
next
  case (snoc x xs)
  let ?g = EVENT_CHAIN_GENESIS
  have x: "ch_prev_hash x = Some (head_from ?g xs)" "ch_hash x = Some (sha (row_text x))"
    using snoc.prems(1) by (auto simp: linked_snoc row_text_def eventHash_def)
  show ?case
  proof (cases ys rule: rev_cases)
    case Nil
    with x snoc.prems show ?thesis by (auto simp: head_from_snoc hits_genesis_def)
  next
    case (snoc ys' y)
    then have y: "ch_prev_hash y = Some (head_from ?g ys')" "ch_hash y = Some (sha (row_text y))"
      using snoc.prems(2) by (auto simp: linked_snoc row_text_def eventHash_def)
    have sha: "sha (row_text x) = sha (row_text y)"
      using snoc.prems(3) x y snoc by (simp add: head_from_snoc)
    show ?thesis
    proof (cases "row_text x = row_text y")
      case False
      with sha snoc show ?thesis by (auto simp: collide_def)
    next
      case True
      then have eq: "head_from ?g xs = head_from ?g ys'" "ch_fields x = ch_fields y"
        using hash_text_inj x(1) y(1) by (auto simp: row_text_def)
      have "map content xs = map content ys' \<or> collide sha xs ys' \<or> hits_genesis sha (xs @ ys')"
        by (rule snoc.IH) (use snoc.prems snoc eq in \<open>simp_all add: linked_snoc\<close>)
      moreover have "content x = content y" using x y eq True by (simp add: content_def)
      ultimately show ?thesis using snoc by (auto simp: collide_def hits_genesis_def)
    qed
  qed
qed

text \<open>
  C30. The recorded head anchors the log: two logs that both verify clean and report the same
  head hash hold the same rows (columns and hash columns), unless two of their own rows hash
  alike although the hashed texts differ, or one hashes to the genesis constant.
\<close>

theorem tamper_evident:
  assumes "cv_ok (verifyEventChain sha xs)" and "cv_ok (verifyEventChain sha ys)"
    and "cv_headHash (verifyEventChain sha xs) = cv_headHash (verifyEventChain sha ys)"
  shows "map content xs = map content ys \<or> collide sha xs ys \<or> hits_genesis sha (xs @ ys)"
proof (rule linked_head_unique)
  show "linked sha EVENT_CHAIN_GENESIS xs" "linked sha EVENT_CHAIN_GENESIS ys"
    using assms(1,2) by (simp_all add: verify_ok_iff)
  with assms(3) verify_from_head show "head_from EVENT_CHAIN_GENESIS xs = head_from EVENT_CHAIN_GENESIS ys"
    by (simp add: verifyEventChain_def)
qed

definition sample_fields :: "string \<Rightarrow> chained_event_fields" where
  "sample_fields i = \<lparr>cf_id = i, cf_entity_type = ''ticket'', cf_entity_id = ''t1'', cf_actor_type = ''human'',
     cf_actor_id = None, cf_event_type = ''ticket.created'', cf_payload_json = None,
     cf_correlation_id = None, cf_created_at = ''1970-01-01T00:00:00.000Z''\<rparr>"

lemma genesis_not_h: "''h'' \<noteq> EVENT_CHAIN_GENESIS"
proof
  assume "''h'' = EVENT_CHAIN_GENESIS"
  then have "length ''h'' = length EVENT_CHAIN_GENESIS" by simp
  then show False by (simp add: EVENT_CHAIN_GENESIS_def)
qed

text \<open>With a constant hash the theorem points at the two rows that collide.\<close>

theorem tamper_evident_witness:
  "cv_ok (verifyEventChain (\<lambda>_. ''h'') (append_event (\<lambda>_. ''h'') (sample_fields ''e1'') [])) \<and>
   collide (\<lambda>_. ''h'') (append_event (\<lambda>_. ''h'') (sample_fields ''e1'') [])
     (append_event (\<lambda>_. ''h'') (sample_fields ''e2'') [])"
  using tamper_evident [of "\<lambda>_. ''h''" "append_event (\<lambda>_. ''h'') (sample_fields ''e1'') []"
      "append_event (\<lambda>_. ''h'') (sample_fields ''e2'') []"]
  by (simp add: append_event_def latestEventHash_def verifyEventChain_def eventHash_def content_def
      sample_fields_def hits_genesis_def genesis_not_h Let_def)

text \<open>
  Rewriting the columns of one stored row is found: the walk stops at exactly that row, after
  checking everything before it, and says the content was altered. The alternative is a
  second text with the same hash.
\<close>

theorem rewritten_row_found:
  assumes "cv_ok (verifyEventChain sha (rs @ r # qs))" and "f \<noteq> ch_fields r"
  shows "verifyEventChain sha (rs @ r\<lparr>ch_fields := f\<rparr> # qs) = broken (length rs + 1) (r\<lparr>ch_fields := f\<rparr>) Content \<or>
    (row_text (r\<lparr>ch_fields := f\<rparr>) \<noteq> row_text r \<and> sha (row_text (r\<lparr>ch_fields := f\<rparr>)) = sha (row_text r))"
proof -
  have "linked sha EVENT_CHAIN_GENESIS ((rs @ [r]) @ qs)" using assms(1) by (simp add: verify_ok_iff)
  moreover have "linked sha p (as @ bs) \<Longrightarrow> linked sha p as" for p as bs
    by (induction as arbitrary: p) simp_all
  ultimately have l: "linked sha EVENT_CHAIN_GENESIS rs" "ch_prev_hash r = Some (head_from EVENT_CHAIN_GENESIS rs)"
    "ch_hash r = Some (sha (row_text r))"
    using linked_snoc [of sha EVENT_CHAIN_GENESIS rs r] by (force simp: row_text_def eventHash_def)+
  have "row_text (r\<lparr>ch_fields := f\<rparr>) \<noteq> row_text r"
    using assms(2) hash_text_inj by (fastforce simp: row_text_def)
  then show ?thesis
    using l unfolding verifyEventChain_def verify_from_append [OF l(1)]
    by (auto simp: eventHash_def row_text_def)
qed

theorem rewritten_row_found_witness:
  "verifyEventChain (\<lambda>s. s) ([] @ (hd (append_event (\<lambda>s. s) (sample_fields ''e1'') []))\<lparr>ch_fields := sample_fields ''e2''\<rparr> # [])
     = broken (length [] + 1) ((hd (append_event (\<lambda>s. s) (sample_fields ''e1'') []))\<lparr>ch_fields := sample_fields ''e2''\<rparr>) Content"
  using rewritten_row_found [of "\<lambda>s. s" "[]" "hd (append_event (\<lambda>s. s) (sample_fields ''e1'') [])" "[]" "sample_fields ''e2''"]
  by (simp add: append_event_def latestEventHash_def verifyEventChain_def eventHash_def sample_fields_def
      Let_def row_text_def)

text \<open>
  Deleting a stored row that has a successor is found at the successor, as a broken link;
  the alternative is a row whose hash is the hash it links to. Deleting the newest rows
  leaves a log that verifies, but its head differs from the recorded one (with the same
  alternatives as before): only an anchored head shows a truncation.
\<close>

theorem deleted_row_found:
  assumes "cv_ok (verifyEventChain sha (rs @ r # q # qs))"
  shows "(verifyEventChain sha (rs @ q # qs) = broken (length rs + 1) q Link \<or>
      sha (row_text r) = the (ch_prev_hash r)) \<and>
    cv_ok (verifyEventChain sha rs) \<and>
    (cv_headHash (verifyEventChain sha rs) \<noteq> cv_headHash (verifyEventChain sha (rs @ r # q # qs)) \<or>
     collide sha rs (rs @ r # q # qs) \<or> hits_genesis sha (rs @ rs @ r # q # qs))"
proof -
  let ?g = EVENT_CHAIN_GENESIS
  have pre: "linked sha p (as @ bs) \<Longrightarrow> linked sha p as" for p as bs
    by (induction as arbitrary: p) simp_all
  have all: "linked sha ?g (rs @ r # q # qs)" using assms by (simp add: verify_ok_iff)
  then have rq: "linked sha ?g (rs @ [r])" "linked sha ?g ((rs @ [r]) @ [q])"
    using pre [of ?g "rs @ [r]" "q # qs"] pre [of ?g "rs @ [r, q]" qs] by simp_all
  then have rs: "linked sha ?g rs" and q: "ch_prev_hash q = Some (sha (row_text r))" "ch_hash q \<noteq> None"
    and r: "the (ch_prev_hash r) = head_from ?g rs"
    unfolding linked_snoc head_from_snoc by (auto simp: row_text_def eventHash_def)
  have "verifyEventChain sha (rs @ q # qs) = broken (length rs + 1) q Link \<or> sha (row_text r) = the (ch_prev_hash r)"
    unfolding verifyEventChain_def verify_from_append [OF rs] using q r by auto
  moreover have "cv_ok (verifyEventChain sha rs)" using rs by (simp add: verify_ok_iff)
  moreover have "map content rs \<noteq> map content (rs @ r # q # qs)"
    by (metis length_append length_map less_add_Suc1 list.size(4) nat_less_le add_Suc_right)
  ultimately show ?thesis
    using linked_head_unique [OF rs all] verify_from_head [OF rs] verify_from_head [OF all]
    by (auto simp: verifyEventChain_def)
qed

lemma hash_text_not_genesis: "hash_text p f \<noteq> EVENT_CHAIN_GENESIS"
proof
  assume "hash_text p f = EVENT_CHAIN_GENESIS"
  then have "hd (hash_text p f) = hd EVENT_CHAIN_GENESIS" by simp
  then show False by (simp add: hash_text_def EVENT_CHAIN_GENESIS_def hd_replicate)
qed

text \<open>The second of two rows, left alone in the log.\<close>

theorem deleted_row_found_witness:
  "let log = append_event (\<lambda>s. s) (sample_fields ''e2'') (append_event (\<lambda>s. s) (sample_fields ''e1'') []) in
     cv_reason (verifyEventChain (\<lambda>s. s) [log ! 1]) = Some Link"
  using deleted_row_found [of "\<lambda>s. s" "[]"
      "append_event (\<lambda>s. s) (sample_fields ''e2'') (append_event (\<lambda>s. s) (sample_fields ''e1'') []) ! 0"
      "append_event (\<lambda>s. s) (sample_fields ''e2'') (append_event (\<lambda>s. s) (sample_fields ''e1'') []) ! 1" "[]"]
  by (simp add: append_event_def latestEventHash_def verifyEventChain_def eventHash_def sample_fields_def
      Let_def row_text_def broken_def hash_text_not_genesis)

section \<open>Backfill\<close>

lemma backfill_from_spec:
  "(\<forall>r \<in> set (fst (backfill_from sha p rs)). \<not> unhashed r) \<and>
   snd (backfill_from sha p rs) = length (filter unhashed rs) \<and>
   length (fst (backfill_from sha p rs)) = length rs \<and>
   list_all2 (\<lambda>r r'. ch_seq r' = ch_seq r \<and> ch_fields r' = ch_fields r \<and> (\<not> unhashed r \<longrightarrow> r' = r))
     rs (fst (backfill_from sha p rs))"
  by (induction rs arbitrary: p) (auto simp: Let_def unhashed_def case_prod_beta)

lemma backfill_from_linked:
  "list_all unhashed rs \<Longrightarrow> linked sha p (fst (backfill_from sha p rs))"
  by (induction rs arbitrary: p) (auto simp: Let_def case_prod_beta)

text \<open>
  The backfill hashes exactly the rows that had no hash and reports their number, keeps
  every column and every row that had one (it never rewrites history), leaves a second run
  nothing to do, and gives a log that was never hashed a chain that verifies.
\<close>

theorem backfill_fills_gaps:
  "(\<forall>r \<in> set (fst (backfillEventChain sha rs)). \<not> unhashed r) \<and>
   snd (backfillEventChain sha rs) = length (filter unhashed rs) \<and>
   list_all2 (\<lambda>r r'. ch_seq r' = ch_seq r \<and> ch_fields r' = ch_fields r \<and> (\<not> unhashed r \<longrightarrow> r' = r))
     rs (fst (backfillEventChain sha rs)) \<and>
   backfillEventChain sha (fst (backfillEventChain sha rs)) = (fst (backfillEventChain sha rs), 0) \<and>
   (list_all unhashed rs \<longrightarrow> cv_ok (verifyEventChain sha (fst (backfillEventChain sha rs))))"
proof (cases "filter unhashed rs = []")
  case True
  then have "\<not> unhashed r" if "r \<in> set rs" for r using that by (simp add: filter_empty_conv)
  with True show ?thesis
    by (cases rs) (auto simp: backfillEventChain_def list_all2_same verify_ok_iff)
next
  case False
  then have eq: "backfillEventChain sha rs = backfill_from sha EVENT_CHAIN_GENESIS rs"
    by (simp add: backfillEventChain_def)
  note spec = backfill_from_spec [of sha EVENT_CHAIN_GENESIS rs]
  have "filter unhashed (fst (backfill_from sha EVENT_CHAIN_GENESIS rs)) = []"
    using spec by (simp add: filter_empty_conv)
  with spec show ?thesis
    unfolding eq by (simp add: backfillEventChain_def verify_ok_iff backfill_from_linked)
qed

text \<open>A log of two rows that were never hashed.\<close>

theorem backfill_fills_gaps_witness:
  "let row = (\<lambda>n i. \<lparr>ch_seq = n, ch_fields = sample_fields i, ch_prev_hash = None, ch_hash = None\<rparr>) in
     cv_ok (verifyEventChain (\<lambda>s. s) (fst (backfillEventChain (\<lambda>s. s) [row 1 ''e1'', row 2 ''e2''])))"
  using backfill_fills_gaps [of "\<lambda>s. s"
      "[\<lparr>ch_seq = 1, ch_fields = sample_fields ''e1'', ch_prev_hash = None, ch_hash = None\<rparr>,
        \<lparr>ch_seq = 2, ch_fields = sample_fields ''e2'', ch_prev_hash = None, ch_hash = None\<rparr>]"]
  by (simp add: unhashed_def)

end
