(* ===== verification/System.thy ===== *)
theory System
  imports Map_Inv Event_Chain
begin

text \<open>
  The control plane as a transition system: one command per modelled operation of the facade,
  run in one transaction against the database (the landing commands: in a sequence of them),
  and the states reachable from an empty
  database by any sequence of commands, by any actors and at any times. \<open>well_formed\<close> is the invariant
  of the whole database; every command keeps it.
\<close>

section \<open>Commands\<close>

datatype command =
    RegisterAgent register_agent_input
  | ClaimNext id nat
  | ClaimOne id id nat
  | HumanClaimCmd id
  | HumanReleaseCmd id
  | Heartbeat string
  | RecordEvidence record_evidence_input
  | Submit string string "string option"
  | MarkBlocked "string option" string string
  | Release string
  | RunnerReleaseCmd runner_release_input
  | Rework rework_input
  | ExpireStale
  | Revoke id
  | CreateTicket create_ticket_input
  | AddAc add_ac_input
  | EditTicket string ticket_fields
  | EditAc string string edit_ac_input
  | RemoveAc string string
  | ResetAcs string
  | HumanBlockCmd string string
  | HumanUnblock string "unblock_target option"
  | AddDependency string string
  | RemoveDependency string string
  | AllowTestChanges string bool "string option"
  | GrantReady string
  | AssignReviewer string string
  | SetCapabilities string "string list"
  | PauseCmd string pause_input
  | ContinueCmd string
  | BeginResume string "(id \<times> nat) option"
  | StopPaused string "string option"
  | ClearContext string
  | CreateDecision create_decision_input
  | ResolveDecision resolve_decision_input
  | Reopen string reopen_input
  | Hold string string string
  | ReopenWontDo string reopen_target

text \<open>Run an operation for its effect.\<close>

definition effect :: "'a op \<Rightarrow> unit op" where
  "effect m = bindT m (\<lambda>_. returnT ())"

fun exec :: "env \<Rightarrow> actor \<Rightarrow> command \<Rightarrow> unit op" where
  "exec en a (RegisterAgent inp) = effect (registerAgent en inp a)"
| "exec en a (ClaimNext ag ttl) = effect (claimNextTicket en ag ttl a)"
| "exec en a (ClaimOne t ag ttl) = effect (claimTicket en t ag ttl a)"
| "exec en a (HumanClaimCmd t) = effect (humanClaimTicket en t a)"
| "exec en a (HumanReleaseCmd t) = effect (humanReleaseTicket en t a)"
| "exec en a (Heartbeat tok) = effect (heartbeat en tok)"
| "exec en a (RecordEvidence inp) = effect (recordEvidence en inp a)"
| "exec en a (Submit tok r why) = effect (submitForReview en tok r why a)"
| "exec en a (MarkBlocked tok r why) = effect (markBlocked en tok r why a)"
| "exec en a (Release tok) = effect (releaseClaim en tok a)"
| "exec en a (RunnerReleaseCmd inp) = effect (runnerRelease en inp a)"
| "exec en a (Rework inp) = effect (recordReworkAttempt en inp a)"
| "exec en a ExpireStale = effect (expireStaleClaims en a)"
| "exec en a (Revoke c) = effect (revokeClaim en c a)"
| "exec en a (CreateTicket inp) = effect (createTicket en inp a)"
| "exec en a (AddAc inp) = effect (addAcceptanceCriterion en inp a)"
| "exec en a (EditTicket r inp) = effect (editTicket en r inp a)"
| "exec en a (EditAc r x inp) = effect (editAcceptanceCriterion en r x inp a)"
| "exec en a (RemoveAc r x) = effect (removeAcceptanceCriterion en r x a)"
| "exec en a (ResetAcs r) = effect (resetAcceptanceCriteria en r a)"
| "exec en a (HumanBlockCmd r why) = effect (humanBlockTicket en r why a)"
| "exec en a (HumanUnblock r to) = effect (humanUnblockTicket en r a to)"
| "exec en a (AddDependency r s) = effect (addDependency en r s a)"
| "exec en a (RemoveDependency r s) = effect (removeDependency en r s a)"
| "exec en a (AllowTestChanges r b why) = effect (setTicketAllowTestChanges en r b a why)"
| "exec en a (GrantReady r) = effect (grantReadyApproval en r a)"
| "exec en a (AssignReviewer r who) = effect (assignReviewer en r who a)"
| "exec en a (SetCapabilities r caps) = effect (setRequiredCapabilities en r caps a)"
| "exec en a (PauseCmd r inp) = effect (pauseDelivery en r inp a)"
| "exec en a (ContinueCmd r) = effect (requestContinue en r a)"
| "exec en a (BeginResume r lease) = effect (beginResume en r a lease)"
| "exec en a (StopPaused r why) = effect (pause_stop en r a why)"
| "exec en a (ClearContext r) = effect (clearContext r)"
| "exec en a (CreateDecision inp) = effect (createDecision en inp a)"
| "exec en a (ResolveDecision inp) = effect (resolveDecision en inp a)"
| "exec en a (Reopen r inp) = effect (reopenForReview en r inp a)"
| "exec en a (Hold r code why) = effect (holdForHuman en r code why a)"
| "exec en a (ReopenWontDo r to) = effect (reopenFromWontDo en r to a)"

text \<open>
  The end of a review: operations of the facade that are several transactions, or that read
  the git probes. A throw of one keeps what its earlier transactions committed.
\<close>

datatype landing_command =
    BeginLanding string landing_input
  | RecordLanding string landing_input
  | Merged string
  | Reject string reject_target "string option"
  | CancelCmd string "string option"
  | Move string string
  | CiRequired string "string option"
  | CiResult string string ci_result_state "string option"

definition discard :: "'a proc \<Rightarrow> unit proc" where
  "discard m = thenP m (\<lambda>_. run_tx (returnT ()))"

fun run_landing :: "env \<Rightarrow> landing_env \<Rightarrow> actor \<Rightarrow> landing_command \<Rightarrow> unit proc" where
  "run_landing en le a (BeginLanding r inp) = discard (run_tx (beginLanding en le r inp a))"
| "run_landing en le a (RecordLanding r inp) = discard (run_tx (recordLanding en le r inp a))"
| "run_landing en le a (Merged r) = discard (markMerged en le r a)"
| "run_landing en le a (Reject r to why) = discard (reject_facade en le r to a why)"
| "run_landing en le a (CancelCmd r why) = discard (wontDo_facade en le r a why)"
| "run_landing en le a (Move r target) = discard (moveTicket en le r target a)"
| "run_landing en le a (CiRequired r d) = discard (run_tx (recordCiRequired en r d a))"
| "run_landing en le a (CiResult r c st d) = discard (ci_facade en le r c st d a)"

text \<open>The approval of a review and the verdicts of the tester.\<close>

datatype gate_command =
    Approve string approve_options
  | RouteTester string
  | RouteAll
  | TesterPass string pass_input
  | TesterFail string fail_input
  | TesterReplay string replay_input
  | AcCheck ac_check_input
  | MergeStarted string "id option"

fun run_gate :: "env \<Rightarrow> gate_env \<Rightarrow> actor \<Rightarrow> gate_command \<Rightarrow> unit proc" where
  "run_gate en ga a (Approve r opts) = discard (approveReview en ga r a opts)"
| "run_gate en ga a (RouteTester r) = discard (run_tx (routeToTester en ga r a))"
| "run_gate en ga a RouteAll = discard (routeAllToTester en ga a)"
| "run_gate en ga a (TesterPass r inp) = discard (run_tx (testerPass en ga r inp a))"
| "run_gate en ga a (TesterFail r inp) = discard (run_tx (testerFail en ga r inp a))"
| "run_gate en ga a (TesterReplay r inp) = discard (run_tx (recordTesterReplay en (ga_landing ga) r inp a))"
| "run_gate en ga a (AcCheck inp) = discard (run_tx (recordAcCheck en inp a))"
| "run_gate en ga a (MergeStarted r i) = discard (run_tx (noteMergeStarted en r i a))"

text \<open>The map: repositories, scopes and the links of tickets, each one transaction.\<close>

datatype map_command =
    RegisterRepo register_repo_input
  | HideRepo string bool
  | SetBranch string string
  | SetCommands string repo_commands
  | LinkRepo id string string
  | SetAccess repo_access_input
  | InheritAccess string string
  | MonoFallback string
  | CreateNode scope_node_input
  | UpdateNode id scope_node_patch
  | DeleteNode id
  | LinkNodeRepo scope_repo_input
  | UpdateNodeRepo id scope_repo_patch
  | UnlinkNodeRepo id
  | CreateEdge scope_edge_input
  | DeleteEdge id
  | LinkScope link_scope_input
  | PrimaryScope string id
  | RemoveScope string id
  | CreateLinked create_ticket_input ticket_links
  | DecideLinked create_decision_input

fun run_map :: "env \<Rightarrow> actor \<Rightarrow> map_command \<Rightarrow> unit op" where
  "run_map en a (RegisterRepo inp) = effect (registerRepository en inp a)"
| "run_map en a (HideRepo r b) = effect (setRepoHidden en r b a)"
| "run_map en a (SetBranch r b) = effect (setRepoDefaultBranch en r b a)"
| "run_map en a (SetCommands r cs) = effect (setRepoCommands en r cs a)"
| "run_map en a (LinkRepo t r role) = effect (linkRepository en t r role a)"
| "run_map en a (SetAccess inp) = effect (setTicketRepoAccess en inp a)"
| "run_map en a (InheritAccess t r) = effect (inheritBootstrapRepoAccess en t r a)"
| "run_map en a (MonoFallback t) = effect (applyMonoFallback en t a)"
| "run_map en a (CreateNode inp) = effect (createScopeNode en inp a)"
| "run_map en a (UpdateNode i p) = effect (updateScopeNode en i p a)"
| "run_map en a (DeleteNode i) = effect (deleteScopeNode en i a)"
| "run_map en a (LinkNodeRepo inp) = effect (linkScopeRepo en inp a)"
| "run_map en a (UpdateNodeRepo i p) = effect (updateScopeRepo en i p a)"
| "run_map en a (UnlinkNodeRepo i) = effect (unlinkScopeRepo en i a)"
| "run_map en a (CreateEdge inp) = effect (createScopeEdge en inp a)"
| "run_map en a (DeleteEdge i) = effect (deleteScopeEdge en i a)"
| "run_map en a (LinkScope inp) = effect (linkTicketScope en inp a)"
| "run_map en a (PrimaryScope r i) = effect (setPrimaryScope en r i a)"
| "run_map en a (RemoveScope r i) = effect (removeTicketScope en r i a)"
| "run_map en a (CreateLinked inp links) = effect (createTicketWithLinks en inp links a)"
| "run_map en a (DecideLinked inp) = effect (linked_createDecision en inp a)"

inductive step :: "db \<Rightarrow> db \<Rightarrow> bool" where
  ran: "exec en a c db = Inr ((), db') \<Longrightarrow> step db db'"
| settled: "run_landing en le a lc db = (r, db') \<Longrightarrow> step db db'"
| gated: "run_gate en ga a gc db = (r, db') \<Longrightarrow> step db db'"
| mapped: "run_map en a mc db = Inr ((), db') \<Longrightarrow> step db db'"

inductive_cases stepE: "step db db'"

section \<open>Calm operations\<close>

text \<open>
  An operation is calm when it leaves the dependency edges, the ids and numbers of the tickets
  and the set of paused tickets alone, or only shrinks the last. 
\<close>

definition ticket_keys :: "db \<Rightarrow> (id \<times> nat option) list" where
  "ticket_keys db = map (\<lambda>t. (t_id t, t_number t)) (db_tickets db)"

definition calm :: "db \<Rightarrow> db \<Rightarrow> bool" where
  "calm s s' = (db_dependencies s' = db_dependencies s \<and> ticket_keys s' = ticket_keys s \<and>
     p_ticket_id ` set (db_paused s') \<subseteq> p_ticket_id ` set (db_paused s) \<and> same_map s s')"

abbreviation calmT :: "'a op \<Rightarrow> bool" where
  "calmT m \<equiv> framed calm m"

lemma calm_ticket_rows:
  assumes "\<And>t. t_id (f t) = t_id t" and "\<And>t. t_number (f t) = t_number t"
  shows "calm s (s\<lparr>db_tickets := upd_rows P f (db_tickets s)\<rparr>)"
  unfolding calm_def ticket_keys_def same_map_def
  by (simp add: map_key_upd_rows [where key = "\<lambda>t. (t_id t, t_number t)"] assms)

interpretation calm: preorder_frame calm
proof
  show "calm s s" for s by (simp add: calm_def same_map_def)
  show "calm s t \<Longrightarrow> calm t u \<Longrightarrow> calm s u" for s t u unfolding calm_def same_map_def by (metis subset_trans)
qed

interpretation calm: table_frame calm
  by unfold_locales (auto simp: calm_def ticket_keys_def same_map_def intro!: map_key_upd_rows)

text \<open>Every transition is calm, also one that carries the flag that allows a cancellation.\<close>

lemma calm_updateStatus: "calmT (ticket_updateStatus i to v p now)"
  by (auto simp: framed_def ticket_updateStatus_def Let_def apply_status_def intro!: calm_ticket_rows)

lemma calm_transition: "calmT (transition en inp)"
proof -
  have "calmT (transition_writes en inp t policy)" for t policy
    unfolding transition_writes_def Let_def by (intro frames calm_updateStatus)
  then show ?thesis
    by (auto simp: framed_def transition_def split: option.splits sum.splits)
qed

interpretation calm: service_frame calm
  by unfold_locales (rule calm_transition)

lemma calm_others:
  "calmT (pause_stop en r a why)" "calmT (rejectReview en le r rt a w)" "calmT (wontDo en le r a w)"
  "calmT (assignReviewer en r who a)"
  unfolding pause_stop_def rejectReview_def reject_apply_def wontDo_def assignReviewer_def checks_defs Let_def
  by (intro calm_transition calm_updateStatus frames)+

section \<open>The invariant\<close>

lemma ticket_keys_project:
  "ticket_keys s' = ticket_keys s \<Longrightarrow> map t_id (db_tickets s') = map t_id (db_tickets s) \<and>
     map t_number (db_tickets s') = map t_number (db_tickets s)"
proof -
  assume "ticket_keys s' = ticket_keys s"
  then have "map fst (ticket_keys s') = map fst (ticket_keys s)" "map snd (ticket_keys s') = map snd (ticket_keys s)"
    by simp_all
  then show ?thesis by (simp add: ticket_keys_def comp_def)
qed

lemma tidy_calm:
  assumes "tidy s" and "calm s s'"
  shows "tidy s'"
proof -
  have keys: "map t_id (db_tickets s') = map t_id (db_tickets s)" "map t_number (db_tickets s') = map t_number (db_tickets s)"
    using assms(2) ticket_keys_project unfolding calm_def by blast+
  then have "t_id ` set (db_tickets s') = t_id ` set (db_tickets s)" by (metis set_map)
  moreover have "deps_rel s' = deps_rel s" using assms(2) by (simp add: calm_def deps_rel_def)
  moreover have "map_ok s'"
    using assms calculation(1) by (intro map_ok_same [of s s']) (simp_all add: calm_def tidy_def)
  ultimately show ?thesis
    using keys assms unfolding tidy_def calm_def by (metis subset_trans)
qed

lemma wp_well_formed_calm:
  assumes "well_formed db" and "wp m (\<lambda>_. healthy) db" and "calmT m"
  shows "wp m (\<lambda>_. well_formed) db"
  using assms unfolding well_formed_def by (auto simp: wp_def framed_def split: sum.splits prod.splits intro: tidy_calm)

lemma wp_effect [wp_simps]: "wp (effect m) (\<lambda>_. Q) s = wp m (\<lambda>_. Q) s"
  by (simp add: effect_def wp_simps)

lemmas healthy_claim_service = healthy_registerAgent healthy_claimNextTicket healthy_claimTicket
  healthy_humanClaimTicket healthy_humanReleaseTicket healthy_heartbeat healthy_recordEvidence
  healthy_submitForReview healthy_markBlocked healthy_releaseClaim healthy_runnerRelease
  healthy_recordReworkAttempt healthy_expireStaleClaims healthy_revokeClaim

lemmas healthy_ticket_service = healthy_addAcceptanceCriterion healthy_editTicket
  healthy_editAcceptanceCriterion healthy_removeAcceptanceCriterion healthy_resetAcceptanceCriteria
  healthy_humanBlockTicket healthy_humanUnblockTicket healthy_setTicketAllowTestChanges
  healthy_grantReadyApproval healthy_assignReviewer healthy_setRequiredCapabilities

lemmas healthy_other_services = healthy_requestContinue healthy_beginResume healthy_pause_stop
  healthy_clearContext healthy_createDecision healthy_resolveDecision healthy_reopenForReview
  healthy_holdForHuman healthy_reopenFromWontDo

text \<open>The four commands that are not calm, one by one.\<close>

lemma map_ok_new_ticket: "map_ok s \<Longrightarrow> map_ok (s\<lparr>db_tickets := db_tickets s @ [t]\<rparr>)"
  by (rule map_ok_same [of s]) (auto simp: same_map_def)

lemma map_ok_dependencies: "map_ok (s\<lparr>db_dependencies := x\<rparr>) = map_ok s"
  by (simp add: map_ok_def contains_edges_def)

lemma well_formed_createTicket:
  assumes "well_formed db" shows "wp (createTicket en inp a) (\<lambda>_. well_formed) db"
proof (rule wp_well_formedI)
  show "wp (createTicket en inp a) (\<lambda>_. healthy) db"
    using assms by (intro healthy_createTicket) (auto simp: well_formed_def tidy_def)
  show "wp (createTicket en inp a) (\<lambda>_. tidy) db"
    using well_formedD(2) [OF assms] unfolding createTicket_def wp_simps
    by (auto simp: tidy_def deps_rel_def map_ok_new_ticket)
qed

lemma well_formed_dependencies:
  assumes "well_formed db"
  shows "wp (addDependency en r s a) (\<lambda>_. well_formed) db" and "wp (removeDependency en r s a) (\<lambda>_. well_formed) db"
proof -
  let ?P = "\<lambda>s. db_paused s = db_paused db \<and> db_tickets s = db_tickets db \<and> map_ok s = map_ok db"
  have rest: "wp (addDependency en r s a) (\<lambda>_. ?P) db" "wp (removeDependency en r s a) (\<lambda>_. ?P) db"
    unfolding addDependency_def removeDependency_def wp_simps by (auto simp: map_ok_dependencies)
  have tidy: "tidy s" if "acyclic (deps_rel s) \<and> ?P s" for s
    using that well_formedD(2) [OF assms] by (simp add: tidy_def)
  have ac: "acyclic (deps_rel db)" using well_formedD(2) [OF assms] by (simp add: tidy_def)
  show "wp (addDependency en r s a) (\<lambda>_. well_formed) db"
    by (rule wp_well_formedI [OF healthy_addDependency [OF well_formedD(1) [OF assms]]])
      (rule wp_mono [OF wp_conj [OF acyclic_addDependency [OF ac] rest(1)]], erule tidy)
  show "wp (removeDependency en r s a) (\<lambda>_. well_formed) db"
    by (rule wp_well_formedI [OF healthy_removeDependency [OF well_formedD(1) [OF assms]]])
      (rule wp_mono [OF wp_conj [OF acyclic_removeDependency [OF ac] rest(2)]], erule tidy)
qed

lemma tidy_put_context:
  assumes "tidy s" and "i \<in> t_id ` set (db_tickets s)"
  shows "tidy (put_context i c now s)"
proof -
  have "p_ticket_id ` set (db_paused (put_context i c now s)) \<subseteq> insert i (p_ticket_id ` set (db_paused s))"
    by (auto simp: put_context_def set_upd_rows paused_row_def)
  also have "\<dots> \<subseteq> t_id ` set (db_tickets s)" using assms by (simp add: tidy_def)
  finally have "p_ticket_id ` set (db_paused (put_context i c now s)) \<subseteq> t_id ` set (db_tickets s)" .
  moreover have "deps_rel (put_context i c now s) = deps_rel s" "db_tickets (put_context i c now s) = db_tickets s"
    by (simp_all add: put_context_def deps_rel_def)
  moreover have "map_ok (put_context i c now s) = map_ok s" by (simp add: put_context_def map_ok_def contains_edges_def)
  ultimately show ?thesis using assms by (simp add: tidy_def)
qed

lemma well_formed_pauseDelivery:
  assumes "well_formed db" shows "wp (pauseDelivery en r inp a) (\<lambda>_. well_formed) db"
proof (rule wp_well_formedI [OF healthy_pauseDelivery [OF well_formedD(1) [OF assms]]])
  have tr: "wp (transition en i') (\<lambda>_. calm db) db" for i'
    using calm_transition by (auto simp: wp_def framed_def split: sum.splits prod.splits)
  have put: "tidy (put_context (t_id t) c now s)" if s: "calm db s" and t: "resolve_ref db r = Some t" for t c now s
  proof (rule tidy_put_context [OF tidy_calm [OF well_formedD(2) [OF assms] s]])
    have "map t_id (db_tickets s) = map t_id (db_tickets db)"
      using s ticket_keys_project unfolding calm_def by blast
    moreover have "t_id t \<in> set (map t_id (db_tickets db))" using resolve_ref_mem [OF t] by simp
    ultimately show "t_id t \<in> t_id ` set (db_tickets s)" by (metis set_map)
  qed
  show "wp (pauseDelivery en r inp a) (\<lambda>_. tidy) db"
    unfolding pauseDelivery_def wp_simps tidy_add_event
    by (intro allI impI, rule wp_mono [OF tr]) (rule put)
qed

text \<open>Every command keeps the invariant.\<close>

lemma well_formed_exec: "well_formed db \<Longrightarrow> wp (exec en a c) (\<lambda>_. well_formed) db"
  by (cases c)
    (simp_all add: wp_effect well_formed_createTicket well_formed_dependencies well_formed_pauseDelivery wp_well_formed_calm frames calm_others
      well_formedD
      healthy_claim_service healthy_ticket_service healthy_other_services)

lemma keeps_well_formed:
  assumes "\<And>db. healthy db \<Longrightarrow> wp m (\<lambda>_. healthy) db" and "calmT m"
  shows "keepsT well_formed m"
  by (rule keepsT_I) (use assms in \<open>auto intro: wp_well_formed_calm well_formedD\<close>)

lemma keeps_landing:
  "keepsT well_formed (beginLanding en le r inp a)" "keepsT well_formed (recordLanding en le r inp a)"
  "keepsT well_formed (finish_merge en le t a)" "keepsT well_formed (rejectReview en le r rt a w)"
  "keepsT well_formed (wontDo en le r a w)" "keepsT well_formed (revocationAfterLanding en le i a w')"
  "keepsT well_formed (raw_move en t to a)" "keepsT well_formed (ci_event en le r c cst d a)"
  "keepsT well_formed (recordCiRequired en r d a)" "keepsT well_formed (holdForHuman en r code w' a)"
  "keepsT well_formed (resolveRef r)"
  by (rule keeps_well_formed; simp add: frames calm_others healthy_beginLanding healthy_recordLanding healthy_finish_merge
      healthy_rejectReview healthy_wontDo healthy_revocation healthy_raw_move healthy_ci_event healthy_recordCiRequired
      healthy_holdForHuman wp_simps)+

lemma well_formed_landing: "framedP (\<lambda>s s'. well_formed s \<longrightarrow> well_formed s') (run_landing en le a c)"
  by (cases c; simp only: run_landing.simps discard_def markMerged_def settle_from_git_def reject_facade_def
      wontDo_facade_def moveTicket_def ci_facade_def recordCiResult_def)
    (intro frames keeps_landing)+

text \<open>An operation that keeps the lifecycle invariant and is calm keeps the whole invariant.\<close>

lemma keeps_both: "keepsT healthy m \<Longrightarrow> calmT m \<Longrightarrow> keepsT well_formed m"
  by (rule keeps_well_formed) (auto dest: keepsT_D)

lemma keeps_gate:
  "keepsT well_formed (approve_admit ga r a)" "keepsT well_formed (approve_decide en ga r a opts u)"
  "keepsT well_formed (routeToTester en ga r a)" "keepsT well_formed (testerPass en ga r pin a)"
  "keepsT well_formed (testerFail en ga r fin a)" "keepsT well_formed (recordTesterReplay en le r rin a)"
  "keepsT well_formed (recordAcCheck en cin a)" "keepsT well_formed (writeEvent en et ei ac ty pl)"
  "keepsT well_formed (noteMergeStarted en r i a)"
  by (intro keeps_both healthy_approve_admit healthy_approve_decide healthy_routeToTester healthy_testerPass
      healthy_testerFail healthy_recordTesterReplay healthy_recordAcCheck healthy_noteMergeStarted keepsT_landing; intro frames)+

lemma well_formed_routeEach: "framedP (\<lambda>s s'. well_formed s \<longrightarrow> well_formed s') (routeEach en ga a is)"
  by (induction "is") (simp_all only: routeEach.simps, (intro frames keeps_gate | assumption)+)

lemma well_formed_gate: "framedP (\<lambda>s s'. well_formed s \<longrightarrow> well_formed s') (run_gate en ga a c)"
  by (cases c; simp only: run_gate.simps discard_def approveReview_def enforceObservedRiskCeiling_def routeAllToTester_def)
    (intro frames keeps_gate keeps_landing well_formed_routeEach)+

text \<open>The facade over the map, with the dependency of an acceptance ticket it wires.\<close>

lemma keeps_calls:
  "keepsT well_formed (createTicket en inp a)" "keepsT well_formed (addDependency en r s a)"
  "keepsT well_formed (removeDependency en r s a)" "keepsT well_formed (createDecision en cd a)"
  using well_formed_createTicket well_formed_dependencies
  by (blast intro: keepsT_I keeps_well_formed healthy_createDecision frames)+

lemma keeps_membership:
  "keepsT well_formed (wireEpicAcceptance en tid nid rel a)" "keepsT well_formed (unwireEpicAcceptance en tid nid a)"
  "keepsT well_formed (defined_link l)"
  unfolding wireEpicAcceptance_def unwireEpicAcceptance_def defined_link_def
  by (intro frames keeps_calls keeps_map)+

lemma keeps_resolve_each: "keepsT well_formed (resolve_each refs)"
  by (auto simp: framed_def resolve_each_def split: option.splits)

lemma keeps_facade:
  "keepsT well_formed (linkTicketScope en lk a)" "keepsT well_formed (setPrimaryScope en ref i a)"
  "keepsT well_formed (removeTicketScope en ref i a)" "keepsT well_formed (linked_createDecision en cd a)"
  unfolding linkTicketScope_def setPrimaryScope_def removeTicketScope_def linked_createDecision_def
  by (intro frames keeps_membership keeps_resolve_each keeps_links keeps_setPrimary keeps_scope_service keeps_calls keeps_map)+

lemma keeps_createTicketWithLinks: "keepsT well_formed (createTicketWithLinks en inp links a)"
  unfolding createTicketWithLinks_def link_scopes_def link_accesses_def
  by (intro frames keeps_facade keeps_calls keeps_repo_service keeps_access_service)

lemma well_formed_map: "keepsT well_formed (run_map en a c)"
  by (cases c; simp only: run_map.simps effect_def)
    (intro frames keeps_facade keeps_createTicketWithLinks keeps_repo_service keeps_access_service keeps_scope_service
      keeps_createScopeEdge keeps_deleteScopeNode)+

section \<open>Reachable states\<close>

text \<open>A transition system with an invariant, and what follows for every reachable state.\<close>

locale invariant_system =
  fixes init :: "'s \<Rightarrow> bool" and trans :: "'s \<Rightarrow> 's \<Rightarrow> bool" and inv :: "'s \<Rightarrow> bool"
  assumes init_inv: "init s \<Longrightarrow> inv s"
    and trans_inv: "inv s \<Longrightarrow> trans s s' \<Longrightarrow> inv s'"
begin

lemma reachable_inv: "trans\<^sup>*\<^sup>* s s' \<Longrightarrow> inv s \<Longrightarrow> inv s'"
  by (induction rule: rtranclp_induct) (auto intro: trans_inv)

lemma reachable_from_init: "init s \<Longrightarrow> trans\<^sup>*\<^sup>* s s' \<Longrightarrow> inv s'"
  using reachable_inv init_inv by blast

end

definition reachable :: "db \<Rightarrow> bool" where
  "reachable db = step\<^sup>*\<^sup>* empty_db db"

lemma well_formed_empty: "well_formed empty_db"
  by (simp add: well_formed_def tidy_def healthy_def keys_ok_def one_active_def empty_db_def view_def ticket_findById_def
      find_row_def deps_rel_def acyclic_def map_ok_def contains_edges_def)

interpretation dispatch: invariant_system "\<lambda>s. s = empty_db" step well_formed
proof
  show "s = empty_db \<Longrightarrow> well_formed s" for s by (simp add: well_formed_empty)
  show "well_formed s \<Longrightarrow> step s s' \<Longrightarrow> well_formed s'" for s s'
    by (erule stepE) (blast intro: wp_Inr [OF well_formed_exec] framedPD [OF well_formed_landing, rule_format]
        framedPD [OF well_formed_gate, rule_format] framedD [OF well_formed_map, rule_format])+
qed

lemma reachable_wf: "reachable db \<Longrightarrow> well_formed db"
  unfolding reachable_def by (rule dispatch.reachable_from_init [OF refl])

lemma reachable_step: "reachable db \<Longrightarrow> exec en a c db = Inr ((), db') \<Longrightarrow> reachable db'"
  unfolding reachable_def by (meson rtranclp.rtrancl_into_rtrancl step.ran)

lemma reachable_landing: "reachable db \<Longrightarrow> run_landing en le a c db = (r, db') \<Longrightarrow> reachable db'"
  unfolding reachable_def by (meson rtranclp.rtrancl_into_rtrancl step.settled)

lemma reachable_map: "reachable db \<Longrightarrow> run_map en a c db = Inr ((), db') \<Longrightarrow> reachable db'"
  unfolding reachable_def by (meson rtranclp.rtrancl_into_rtrancl step.mapped)

lemma reachable_gate: "reachable db \<Longrightarrow> run_gate en ga a c db = (r, db') \<Longrightarrow> reachable db'"
  unfolding reachable_def by (meson rtranclp.rtrancl_into_rtrancl step.gated)

end
