(* ===== verification/Gate_Props.thy ===== *)
theory Gate_Props
  imports Lifecycle
begin

text \<open>
  The properties of the state machine: \<open>transition\<close> refines the abstract step on views, raw moves stay out of the delivery and review lanes, and a ticket
  is done only through an approved review and a landing.
\<close>

section \<open>Sample states\<close>

definition sample_human :: actor where
  "sample_human = \<lparr>a_type = Human, a_id = Some ''ann''\<rparr>"

definition one_ticket :: "ticket \<Rightarrow> db" where
  "one_ticket t = empty_db\<lparr>db_tickets := [t]\<rparr>"

lemma find_one_ticket [simp]: "ticket_findById (one_ticket t) i = (if t_id t = i then Some t else None)"
  by (simp add: ticket_findById_def find_row_def one_ticket_def)

lemma keys_one_ticket [simp]: "keys_ok (one_ticket t)"
  by (simp add: keys_ok_def one_active_def one_ticket_def empty_db_def)

lemma distinct_one_ticket [simp]: "distinct (map t_id (db_tickets (one_ticket t)))"
  by (simp add: one_ticket_def)

lemma sample_ticket_simps [simp]:
  "t_id (sample_ticket i n st) = i" "t_status (sample_ticket i n st) = st"
  "t_number (sample_ticket i n st) = Some n" "t_human_owner (sample_ticket i n st) = None"
  "t_human_delivered (sample_ticket i n st) = None"
  by (simp_all add: sample_ticket_def)

lemma move_simps [simp]:
  "ti_ticketId (move i a to fs) = i" "ti_toStatus (move i a to fs) = to" "ti_flags (move i a to fs) = fs"
  "ti_actor (move i a to fs) = a" "ti_expectedFromStatus (move i a to fs) = None" "ti_patch (move i a to fs) = None"
  by (simp_all add: move_def)

section \<open>The transition and the abstract step\<close>

text \<open>
  C4. Refinement: a transition that returns is the abstract step \<open>goto\<close> on the view of its
  ticket (status, human ownership, by-hand delivery, lease, pause context), along an allowed
  edge whose guard holds, and it changes the view of no other ticket.
\<close>

theorem transition_refines_goto:
  assumes "keys_ok db" and "transition en inp db = Inr (r, db')"
  shows "\<exists>v. view db (ti_ticketId inp) = Some v \<and> view db' (ti_ticketId inp) = Some (goto (ti_toStatus inp) v) \<and>
    (v_status v, ti_toStatus inp) \<in> set ALLOWED \<and>
    violatedGuard (v_status v) (ti_toStatus inp) (ti_flags inp) = None \<and>
    (\<forall>j. j \<noteq> ti_ticketId inp \<longrightarrow> view db' j = view db j) \<and> keys_ok db'"
proof -
  have "wp (transition en inp) (\<lambda>r db'. \<exists>v. view db (ti_ticketId inp) = Some v \<and>
      view db' (ti_ticketId inp) = Some (goto (ti_toStatus inp) v) \<and>
      (v_status v, ti_toStatus inp) \<in> set ALLOWED \<and>
      violatedGuard (v_status v) (ti_toStatus inp) (ti_flags inp) = None \<and>
      (\<forall>j. j \<noteq> ti_ticketId inp \<longrightarrow> view db' j = view db j) \<and> keys_ok db') db"
    by (rule wp_transition_view [OF on_view_refl [OF assms(1)] refl]) (simp add: on_view_def)
  from wp_Inr [OF this assms(2)] show ?thesis .
qed

lemma sample_move_runs:
  "transition sample_env (move ''t1'' sample_human Refining []) (one_ticket (sample_ticket ''t1'' 1 Draft)) =
     Inr (\<lparr>tres_ticket = moved sample_env (move ''t1'' sample_human Refining []) (sample_ticket ''t1'' 1 Draft) (sample_ticket ''t1'' 1 Draft),
           tres_eventId = en_uuid sample_env EventId (length (db_events (one_ticket (sample_ticket ''t1'' 1 Draft)))),
           tres_policy = None\<rparr>,
          transition_effect sample_env (move ''t1'' sample_human Refining []) (sample_ticket ''t1'' 1 Draft) (one_ticket (sample_ticket ''t1'' 1 Draft)))"
proof -
  have "transition_check sample_env (move ''t1'' sample_human Refining []) (one_ticket (sample_ticket ''t1'' 1 Draft)) (sample_ticket ''t1'' 1 Draft) = Inr None"
    by (simp add: transition_check_def ALLOWED_def violatedGuard_def GUARDED_EDGES_def edge_matches_def)
  then show ?thesis by (simp add: transition_eq)
qed

theorem transition_refines_goto_witness:
  "\<exists>v. view (one_ticket (sample_ticket ''t1'' 1 Draft)) ''t1'' = Some v \<and>
     view (transition_effect sample_env (move ''t1'' sample_human Refining []) (sample_ticket ''t1'' 1 Draft)
       (one_ticket (sample_ticket ''t1'' 1 Draft))) ''t1'' = Some (goto Refining v)"
  using transition_refines_goto [OF keys_one_ticket sample_move_runs] by auto

section \<open>Raw moves\<close>

lemma raw_targets:
  assumes "transition_check en inp db t = Inr p" and "ti_flags inp = []"
  shows "ti_toStatus inp \<in> {Draft, Refining, Ready, Blocked, Failed}"
  using transition_checkD(1,3) [OF assms(1)] assms(2)
  by (cases "t_status t"; cases "ti_toStatus inp")
    (simp_all add: ALLOWED_def violatedGuard_def GUARDED_EDGES_def edge_matches_def)

text \<open>
  A transition that carries no opt-in flag, such as a board drag, can only park a ticket
  (draft, refining, blocked, failed) or queue it, and it queues it only through the ready
  gate of its policy pack. It never claims, starts, submits, tests, approves, lands, cancels
  or pauses anything.
\<close>

theorem raw_move_safe:
  assumes "transition en inp db = Inr (r, db')" and "ti_flags inp = []"
  shows "ti_toStatus inp \<in> {Draft, Refining, Ready, Blocked, Failed} \<and>
    (ti_toStatus inp = Ready \<longrightarrow> (\<exists>t. ticket_findById db (ti_ticketId inp) = Some t \<and>
       pr_allowed (evaluate en db t GateReady (ti_deliveryDiff inp))))"
proof -
  obtain t p where t: "ticket_findById db (ti_ticketId inp) = Some t" "transition_check en inp db t = Inr p"
    using assms(1) by (auto simp: transition_def split: option.splits sum.splits)
  have "ti_toStatus inp \<in> {Draft, Refining, Ready, Blocked, Failed}" using t(2) assms(2) by (rule raw_targets)
  moreover have "pr_allowed (evaluate en db t GateReady (ti_deliveryDiff inp))" if "ti_toStatus inp = Ready"
    using t(2) that assms(2) by (auto simp: transition_check_def Let_def split: if_split_asm)
  ultimately show ?thesis using t(1) by blast
qed

theorem raw_move_safe_witness:
  "ti_toStatus (move ''t1'' sample_human Refining []) \<in> {Draft, Refining, Ready, Blocked, Failed}"
  using raw_move_safe [OF sample_move_runs] by simp

section \<open>The way to done\<close>

text \<open>
  C2. A ticket becomes done only from ready_for_merge and only for a caller that marks it
  merged. It becomes ready_for_merge only by an approving reviewer from in_review or by the
  tester's verdict from in_testing, and then, unless the system overrides the gate, the done
  gate of its policy pack passed on the state it was approved in.
\<close>

theorem done_only_through_review:
  assumes "transition en inp db = Inr (r, db')"
  shows "\<exists>t. ticket_findById db (ti_ticketId inp) = Some t \<and>
    (ti_toStatus inp = Done \<longrightarrow> t_status t = ReadyForMerge \<and> MarkMerged \<in> set (ti_flags inp)) \<and>
    (ti_toStatus inp = ReadyForMerge \<longrightarrow>
       (t_status t = InReview \<and> ReviewApprove \<in> set (ti_flags inp) \<or>
        t_status t = InTesting \<and> TesterVerdict \<in> set (ti_flags inp)) \<and>
       (SystemOverride \<in> set (ti_flags inp) \<or> pr_allowed (evaluate en db t GateDone (ti_deliveryDiff inp))))"
proof -
  obtain t p where t: "ticket_findById db (ti_ticketId inp) = Some t" "transition_check en inp db t = Inr p"
    using assms by (auto simp: transition_def split: option.splits sum.splits)
  note edge = transition_checkD(1,3) [OF t(2)]
  have "t_status t = ReadyForMerge \<and> MarkMerged \<in> set (ti_flags inp)" if "ti_toStatus inp = Done"
    using edge that
    by (cases "t_status t") (auto simp: ALLOWED_def violatedGuard_def GUARDED_EDGES_def edge_matches_def split: if_split_asm)
  moreover have "t_status t = InReview \<and> ReviewApprove \<in> set (ti_flags inp) \<or>
        t_status t = InTesting \<and> TesterVerdict \<in> set (ti_flags inp)" if "ti_toStatus inp = ReadyForMerge"
    using edge that
    by (cases "t_status t") (auto simp: ALLOWED_def violatedGuard_def GUARDED_EDGES_def edge_matches_def split: if_split_asm)
  moreover have "SystemOverride \<in> set (ti_flags inp) \<or> pr_allowed (evaluate en db t GateDone (ti_deliveryDiff inp))"
    if "ti_toStatus inp = ReadyForMerge"
    using t(2) that by (auto simp: transition_check_def Let_def split: if_split_asm)
  ultimately show ?thesis using t(1) by blast
qed

lemma sample_merge_runs:
  "\<exists>r db'. transition sample_env (move ''t1'' sample_human Done [MarkMerged]) (one_ticket (sample_ticket ''t1'' 1 ReadyForMerge)) = Inr (r, db')"
proof -
  have "transition_check sample_env (move ''t1'' sample_human Done [MarkMerged]) (one_ticket (sample_ticket ''t1'' 1 ReadyForMerge))
      (sample_ticket ''t1'' 1 ReadyForMerge) = Inr None"
    by (simp add: transition_check_def ALLOWED_def violatedGuard_def GUARDED_EDGES_def edge_matches_def)
  then show ?thesis by (simp add: transition_eq)
qed

theorem done_only_through_review_witness:
  "\<exists>t. ticket_findById (one_ticket (sample_ticket ''t1'' 1 ReadyForMerge)) ''t1'' = Some t \<and> t_status t = ReadyForMerge"
proof -
  obtain r db' where "transition sample_env (move ''t1'' sample_human Done [MarkMerged])
      (one_ticket (sample_ticket ''t1'' 1 ReadyForMerge)) = Inr (r, db')"
    using sample_merge_runs by blast
  from done_only_through_review [OF this] show ?thesis by simp
qed

end
