(* ===== verification/Claim_Props.thy ===== *)
theory Claim_Props
  imports Claim_Inv Gate_Props
begin

text \<open>
  The properties of the claim service: the sweep always ends and leaves no stale lease, a
  queue claim succeeds and takes the first eligible ticket, a heartbeat renews the lease for
  its own length, writes need a live token, and what the recovery paths do.
\<close>

section \<open>The sweep\<close>

lemma returns_transition:
  assumes "keys_ok db" and "ticket_findById db (ti_ticketId inp) = Some t"
    and "transition_check en inp db t = Inr p"
  shows "returns (transition en inp) db"
proof -
  have "distinct (map t_id (db_tickets db))" using assms(1) by (simp add: keys_ok_def)
  from transition_eq [OF this] show ?thesis using assms(2,3) by (simp add: returns_def)
qed

lemma edges_from_delivery:
  assumes "st = Claimed \<or> st = InProgress" and "to = Ready \<or> to = Blocked"
  shows "(st, to) \<in> set ALLOWED \<and> violatedGuard st to [SystemOverride] = None \<and> st \<noteq> to"
  using assms
  by (elim disjE) (simp_all add: ALLOWED_def violatedGuard_def GUARDED_EDGES_def edge_matches_def)

lemma sysmove_actor [simp]: "ti_actor (sysmove i a to why fs) = a"
  by (simp add: sysmove_def)

lemma returns_send_on:
  assumes "keys_ok db" and "ticket_findById db i = Some t" and "t_status t = Claimed \<or> t_status t = InProgress"
    and "to = Ready \<or> to = Blocked"
  shows "returns (transition en (sysmove i a to why [SystemOverride])) db"
proof (rule returns_transition [OF assms(1)])
  show "ticket_findById db (ti_ticketId (sysmove i a to why [SystemOverride])) = Some t" using assms(2) by simp
  show "transition_check en (sysmove i a to why [SystemOverride]) db t = Inr None"
    using edges_from_delivery [OF assms(3,4)] assms(4) by (auto simp: transition_check_def Let_def)
qed

lemma returns_returnLapsed:
  assumes "keys_ok db" and "ticket_findById db (t_id t) = Some t"
  shows "returns (returnLapsedResumeToPaused en t cid a) db"
proof (cases "t_status t \<noteq> InProgress \<or> t_human_owner t \<noteq> None \<or> paused_find db (t_id t) = None")
  case True
  then show ?thesis by (auto simp: returns_def returnLapsedResumeToPaused_def)
next
  case False
  let ?inp = "(sysmove (t_id t) a Paused ''claim_expired_mid_resume'' [SystemOverride, PauseDelivery])
      \<lparr>ti_expectedFromStatus := Some InProgress\<rparr>"
  have "transition_check en ?inp db t = Inr None"
    using False by (simp add: transition_check_def ALLOWED_def violatedGuard_def GUARDED_EDGES_def edge_matches_def)
  then have "returns (transition en ?inp) db"
    using assms by (intro returns_transition) simp_all
  with False show ?thesis
    by (auto simp: returnLapsedResumeToPaused_def returns_def bindT_def setResumeRequested_def writeEvent_def
        modifyT_def returnT_def Let_def split: sum.splits prod.splits)
qed

lemma keys_ok_close: "keys_ok db \<Longrightarrow> st \<noteq> ClActive \<Longrightarrow> keys_ok (close_claim cid st now db)"
  unfolding close_claim_def by (rule keys_ok_claims_upd) (auto simp: claim_active_def)

lemma find_close_claim [simp]: "ticket_findById (close_claim cid st now db) i = ticket_findById db i"
  by (simp add: close_claim_def ticket_findById_def)

lemma claim_setStatus_eq: "claim_setStatus cid st now db = Inr ((), close_claim cid st now db)"
  by (simp add: claim_setStatus_def modifyT_def close_claim_def)

lemma returns_writeEvent [simp]: "returns (writeEvent en et ei ac ty pl) db"
  by (simp add: returns_def writeEvent_def Let_def)

lemma returnLapsed_False_same:
  "returnLapsedResumeToPaused en t cid a db = Inr (False, s) \<Longrightarrow> s = db"
  by (auto simp: returnLapsedResumeToPaused_def bindT_Inr_iff returnT_def split: if_splits)

lemma returns_bind_simps [simp]:
  "returns (bindT (claim_setStatus cid st now) f) db = returns (f ()) (close_claim cid st now db)"
  "returns (bindT (getT g) h) db = returns (h (g db)) db"
  by (simp_all add: returns_def bindT_def claim_setStatus_eq getT_def)

lemma returns_expireOne:
  assumes "keys_ok db" shows "returns (expireOne en a c) db"
proof (cases "ticket_findById db (c_ticket_id c)")
  case None
  then show ?thesis by (simp add: expireOne_def)
next
  case (Some t)
  let ?s = "close_claim (c_id c) ClExpired (en_now en) db"
  have k: "keys_ok ?s" using assms by (rule keys_ok_close) simp
  have f: "ticket_findById ?s (t_id t) = Some t" using Some ticket_findById_SomeD by fastforce
  show ?thesis
  proof (cases "t_status t \<noteq> Claimed \<and> t_status t \<noteq> InProgress")
    case True
    with Some show ?thesis by (simp add: expireOne_def)
  next
    case False
    then have "returns (transition en (sysmove (t_id t) a to why [SystemOverride])) ?s"
      if "to = Ready \<or> to = Blocked" for to why
      using returns_send_on [OF k f _ that] by blast
    with False Some show ?thesis
      by (auto simp: expireOne_def dest!: returnLapsed_False_same
          intro!: returns_bindI [OF returns_returnLapsed [OF k f]] returns_bindI)
  qed
qed

definition active_rows :: "db \<Rightarrow> ticket_claim set" where
  "active_rows db = {c \<in> set (db_claims db). claim_active c}"

lemma active_rows_simps [simp]:
  "active_rows (add_event en et ei ac ty pl db) = active_rows db"
  "active_rows (db\<lparr>db_paused := ps\<rparr>) = active_rows db"
  by (simp_all add: active_rows_def)

lemma active_rows_close: "st \<noteq> ClActive \<Longrightarrow>
    active_rows (close_claim cid st now db) = {c \<in> active_rows db. c_id c \<noteq> cid}"
  by (auto simp: active_rows_def close_claim_def set_upd_rows claim_active_def)

lemma active_rows_transition: "active_rows (transition_effect en inp t db) \<subseteq> active_rows db"
  by (auto simp: active_rows_def release_claims_def set_upd_rows claim_active_def split: if_splits)

lemma active_rows_returnLapsed:
  assumes "keys_ok db"
  shows "wp (returnLapsedResumeToPaused en t cid a) (\<lambda>_ s. active_rows s \<subseteq> active_rows db \<and> keys_ok s) db"
proof (cases "t_status t \<noteq> InProgress \<or> t_human_owner t \<noteq> None \<or> paused_find db (t_id t) = None")
  case True
  with assms show ?thesis by (auto simp: wp_def returnLapsedResumeToPaused_def)
next
  case False
  have d: "distinct (map t_id (db_tickets db))" using assms by (simp add: keys_ok_def)
  have tr: "wp (transition en inp) (\<lambda>_ s. active_rows s \<subseteq> active_rows db \<and> keys_ok s) db" for inp
    by (rule wp_transition [OF d]) (simp add: active_rows_transition keys_ok_transition_effect assms)
  have "wp (returnLapsedResumeToPaused en t cid a) (\<lambda>_ s. active_rows s \<subseteq> active_rows db \<and> keys_ok s) db =
    wp (bindT (transition en ((sysmove (t_id t) a Paused ''claim_expired_mid_resume''
                   [SystemOverride, PauseDelivery])\<lparr>ti_expectedFromStatus := Some InProgress\<rparr>)) (\<lambda>_.
          bindT (setResumeRequested (t_id t) False (en_now en)) (\<lambda>_.
          bindT (ticketEvent en (t_id t) a ''claim.expired''
                   [(''claim_id'', JStr cid), (''returned_to'', JStr ''paused'')]) (\<lambda>_.
          returnT True)))) (\<lambda>_ s. active_rows s \<subseteq> active_rows db \<and> keys_ok s) db"
    using False by (auto simp: wp_def returnLapsedResumeToPaused_def)
  then show ?thesis by (auto simp: wp_simps intro!: wp_mono [OF tr])
qed

lemma active_rows_expireOne:
  assumes "keys_ok db"
  shows "wp (expireOne en a c) (\<lambda>_ s. active_rows s \<subseteq> {x \<in> active_rows db. c_id x \<noteq> c_id c} \<and> keys_ok s) db"
proof -
  let ?s = "close_claim (c_id c) ClExpired (en_now en) db"
  let ?Q = "\<lambda>s. active_rows s \<subseteq> {x \<in> active_rows db. c_id x \<noteq> c_id c} \<and> keys_ok s"
  have k: "keys_ok ?s" using assms by (rule keys_ok_close) simp
  have rows: "active_rows ?s = {x \<in> active_rows db. c_id x \<noteq> c_id c}" by (rule active_rows_close) simp
  have d: "distinct (map t_id (db_tickets s))" if "keys_ok s" for s using that by (simp add: keys_ok_def)
  have tr: "wp (transition en inp) (\<lambda>_. ?Q) s" if "?Q s" for inp s
    by (rule wp_transition [OF d]) (use that active_rows_transition keys_ok_transition_effect in blast)+
  have lapsed: "wp (returnLapsedResumeToPaused en t (c_id c) a) (\<lambda>_. ?Q) ?s" for t
    by (rule wp_mono [OF active_rows_returnLapsed [OF k]]) (simp add: rows)
  show ?thesis
    by (cases "ticket_findById db (c_ticket_id c)")
      (auto simp: expireOne_def wp_simps k rows intro!: wp_mono [OF lapsed] wp_mono [OF tr])
qed

lemma expireAll_runs:
  assumes "keys_ok db"
  shows "\<exists>bs s. expireAll en a cs db = Inr ((length cs, bs), s) \<and>
    active_rows s \<subseteq> {x \<in> active_rows db. c_id x \<notin> c_id ` set cs}"
  using assms
proof (induction cs arbitrary: db)
  case Nil
  then show ?case by (simp add: returnT_def)
next
  case (Cons c cs)
  obtain b s where one: "expireOne en a c db = Inr (b, s)"
    using returns_expireOne [OF Cons.prems] by (blast elim: returnsE)
  have s: "active_rows s \<subseteq> {x \<in> active_rows db. c_id x \<noteq> c_id c}" "keys_ok s"
    using wp_Inr [OF active_rows_expireOne [OF Cons.prems] one] by auto
  obtain bs s' where rest: "expireAll en a cs s = Inr ((length cs, bs), s')"
    and s': "active_rows s' \<subseteq> {x \<in> active_rows s. c_id x \<notin> c_id ` set cs}"
    using Cons.IH [OF s(2)] by blast
  have "expireAll en a (c # cs) db = Inr ((length (c # cs), case b of None \<Rightarrow> bs | Some i \<Rightarrow> i # bs), s')"
    using one rest by (simp add: bindT_def returnT_def)
  moreover have "active_rows s' \<subseteq> {x \<in> active_rows db. c_id x \<notin> c_id ` set (c # cs)}" using s s' by auto
  ultimately show ?case by blast
qed

text \<open>
  C16. The expiry sweep always completes: on every database that keeps its keys it returns the
  number of stale claims it found, expires each of them, and leaves no active claim whose
  expiry has passed; no claim becomes active by it.
\<close>

theorem sweep_clears_stale_claims:
  assumes "keys_ok db"
  shows "\<exists>bs db'. expireStaleClaims en a db = Inr ((length (claim_listExpired db (en_now en)), bs), db') \<and>
    claim_listExpired db' (en_now en) = [] \<and> active_rows db' \<subseteq> active_rows db"
proof -
  obtain bs s where run: "expireAll en a (claim_listExpired db (en_now en)) db =
      Inr ((length (claim_listExpired db (en_now en)), bs), s)"
    and rows: "active_rows s \<subseteq> {x \<in> active_rows db. c_id x \<notin> c_id ` set (claim_listExpired db (en_now en))}"
    using expireAll_runs [OF assms] by blast
  have "claim_listExpired s (en_now en) = []"
  proof -
    have "\<not> (claim_active c \<and> c_expires_at c < en_now en)" if "c \<in> set (db_claims s)" for c
    proof
      assume c: "claim_active c \<and> c_expires_at c < en_now en"
      then have "c \<in> active_rows s" using that by (simp add: active_rows_def)
      then have "c \<in> active_rows db" "c_id c \<notin> c_id ` set (claim_listExpired db (en_now en))" using rows by auto
      moreover from this c have "c \<in> set (claim_listExpired db (en_now en))"
        by (simp add: claim_listExpired_def active_rows_def)
      ultimately show False by blast
    qed
    then have "filter (\<lambda>c. claim_active c \<and> c_expires_at c < en_now en) (db_claims s) = []"
      by (simp add: filter_empty_conv)
    then show ?thesis by (simp add: claim_listExpired_def)
  qed
  with run rows show ?thesis by (auto simp: expireStaleClaims_def)
qed

definition leased_db :: "ticket_status \<Rightarrow> instant \<Rightarrow> db" where
  "leased_db st expires = empty_db\<lparr>db_tickets := [sample_ticket ''t1'' 1 st],
     db_claims := [sample_claim ''c1'' ''t1'' ''sha:ct_x'' expires], db_agents := [sample_agent ''a1'']\<rparr>"

lemma keys_leased_db [simp]: "keys_ok (leased_db st e)"
  by (simp add: keys_ok_def leased_db_def one_active_def sample_claim_def claim_active_def empty_db_def)

theorem sweep_clears_stale_claims_witness:
  "\<exists>bs db'. expireStaleClaims sample_env sample_human (leased_db Claimed 1000) = Inr ((1, bs), db') \<and>
     claim_listExpired db' (en_now sample_env) = []"
proof -
  have "length (claim_listExpired (leased_db Claimed 1000) (en_now sample_env)) = 1"
    by (simp add: claim_listExpired_def leased_db_def sample_claim_def claim_active_def sample_env_def)
  with sweep_clears_stale_claims [OF keys_leased_db [of Claimed 1000], of sample_env sample_human] show ?thesis by auto
qed

section \<open>Heartbeats and tokens\<close>

text \<open>
  C35. A heartbeat renews the lease for its own length: the new expiry is now plus the claim's
  lease length in whole seconds, that length is at least one second and is the same after
  the heartbeat, so it neither shrinks nor grows over any number of heartbeats; every other
  claim is untouched. Without an unexpired active claim for the token it throws.
\<close>

theorem heartbeat_keeps_lease_length:
  assumes "keys_ok db"
  shows "(case claim_findActiveByTokenHash db (hashClaimToken en tok) (en_now en) of
      None \<Rightarrow> heartbeat en tok db = Inl (DispatchError CLAIM_INVALID)
    | Some c \<Rightarrow> \<exists>db' c'. heartbeat en tok db = Inr (isoPlusSeconds (ttlForClaim c) (en_now en), db') \<and>
        claim_findById db' (c_id c) = Some c' \<and> c_expires_at c' = isoPlusSeconds (ttlForClaim c) (en_now en) \<and>
        claim_active c' \<and> 1 \<le> ttlForClaim c \<and> ttlForClaim c' = ttlForClaim c \<and>
        (\<forall>i. i \<noteq> c_id c \<longrightarrow> claim_findById db' i = claim_findById db i))"
proof (cases "claim_findActiveByTokenHash db (hashClaimToken en tok) (en_now en)")
  case None
  then show ?thesis by (simp add: heartbeat_def activeClaimForToken_def bindT_def)
next
  case (Some c)
  let ?e = "isoPlusSeconds (ttlForClaim c) (en_now en)"
  let ?P = "\<lambda>x. c_id x = c_id c \<and> claim_active x"
  let ?f = "\<lambda>x. x\<lparr>c_expires_at := ?e, c_heartbeat_at := en_now en\<rparr>"
  let ?db = "db\<lparr>db_claims := upd_rows ?P ?f (db_claims db)\<rparr>"
  have c: "c \<in> set (db_claims db)" "claim_active c" using activeClaimD [OF Some] by auto
  then have "list_ex ?P (db_claims db)" by (auto simp: list_ex_iff)
  then have run: "heartbeat en tok db = Inr (?e, ?db)"
    using Some by (simp add: heartbeat_def activeClaimForToken_def bindT_def claim_extend_def Let_def
        throwIf_def returnT_def)
  have "find_row c_id (c_id c) (db_claims db) = Some c"
    using assms c(1) by (simp add: find_row_Some_iff keys_ok_def)
  then have same: "claim_findById ?db (c_id c) = Some (?f c)"
    using c(2) by (simp add: claim_findById_def find_row_upd_rows)
  have other: "claim_findById ?db i = claim_findById db i" if "i \<noteq> c_id c" for i
    using that find_row_SomeD [of c_id i "db_claims db"]
    by (cases "find_row c_id i (db_claims db)") (auto simp: claim_findById_def find_row_upd_rows)
  have "1 \<le> ttlForClaim c" by (simp add: ttlForClaim_def)
  then have "ttlForClaim (?f c) = ttlForClaim c" unfolding ttlForClaim_def [of "?f c"] by (simp add: isoPlusSeconds_def)
  with run same other c(2) \<open>1 \<le> ttlForClaim c\<close> show ?thesis
    unfolding Some option.case
    by (intro exI [of _ ?db] exI [of _ "?f c"]) (simp add: claim_active_def)
qed

theorem heartbeat_keeps_lease_length_witness:
  "\<exists>db'. heartbeat sample_env ''ct_x'' (leased_db Claimed 90000000) = Inr (43200000 + 90000000, db')"
proof -
  have f: "claim_findActiveByTokenHash (leased_db Claimed 90000000) (hashClaimToken sample_env ''ct_x'') (en_now sample_env) =
      Some (sample_claim ''c1'' ''t1'' ''sha:ct_x'' 90000000)"
    by (simp add: claim_findActiveByTokenHash_def leased_db_def sample_claim_def claim_active_def hashClaimToken_def sample_env_def)
  have "ttlForClaim (sample_claim ''c1'' ''t1'' ''sha:ct_x'' 90000000) = 90000"
    by (simp add: ttlForClaim_def sample_claim_def)
  then show ?thesis
    using heartbeat_keeps_lease_length [OF keys_leased_db [of Claimed 90000000], of sample_env "''ct_x''"]
    unfolding f by (auto simp: isoPlusSeconds_def sample_env_def)
qed

definition submitted :: "env \<Rightarrow> string \<Rightarrow> string \<Rightarrow> db \<Rightarrow> db \<Rightarrow> bool" where
  "submitted en tok ref db db' = (\<exists>t c. resolve_ref db ref = Some t \<and> c \<in> set (db_claims db) \<and> claim_active c \<and>
    c_token_hash c = hashClaimToken en tok \<and> en_now en < c_expires_at c \<and> c_ticket_id c = t_id t \<and>
    (\<exists>v. view db' (t_id t) = Some v \<and> v_status v = InReview \<and> \<not> v_leased v))"

lemma wp_submit_last:
  assumes "on_view db (t_id t) f s" and "db_claims s = db_claims db" and "resolve_ref db ref = Some t"
    and c: "claim_findActiveByTokenHash db (hashClaimToken en tok) (en_now en) = Some c" "c_ticket_id c = t_id t"
  shows "wp (transition en ((sysmove (t_id t) a InReview r [AgentSubmit])\<lparr>ti_expectedFromStatus := Some InProgress\<rparr>))
      (\<lambda>_ s. submitted en tok ref db (close_claim (c_id c) ClCompleted (en_now en) s)) s"
proof (rule wp_transition_view [OF assms(1)], simp)
  fix u :: ticket and v s'
  let ?inp = "(sysmove (t_id t) a InReview r [AgentSubmit])\<lparr>ti_expectedFromStatus := Some InProgress\<rparr>"
  assume v: "view db (t_id t) = Some v" and s': "s' = transition_effect en ?inp u s"
    and on: "on_view db (t_id t) (\<lambda>v. goto (ti_toStatus ?inp) (f v)) s'"
  note cD = activeClaimD [OF c(1)]
  have "c \<in> set (db_claims s')" using s' assms(2) cD by (simp add: release_claims_def)
  from on_view_same [OF on_view_close [OF on this c(2), of ClCompleted "en_now en"]]
  have "view (close_claim (c_id c) ClCompleted (en_now en) s') (t_id t) = Some ((goto InReview (f v))\<lparr>v_leased := False\<rparr>)"
    using v cD by simp
  then show "submitted en tok ref db (close_claim (c_id c) ClCompleted (en_now en) s')"
    using assms(3) c cD unfolding submitted_def by (auto simp: goto_def)
qed

lemma wp_submitted:
  assumes "keys_ok db"
  shows "wp (submitForReview en tok ref why a) (\<lambda>_. submitted en tok ref db) db"
proof -
  have ev: "submitted en tok ref db (add_event en' et ei ac ty pl s) = submitted en tok ref db s" for en' et ei ac ty pl s
    by (simp add: submitted_def)
  note same = on_view_refl [OF assms]
  have first: "wp (transition en ((sysmove (t_id t) a InProgress x [AgentSubmit])\<lparr>ti_expectedFromStatus := Some Claimed\<rparr>))
      (\<lambda>_. wp (transition en ((sysmove (t_id t) a InReview r [AgentSubmit])\<lparr>ti_expectedFromStatus := Some InProgress\<rparr>))
         (\<lambda>_ s. submitted en tok ref db (close_claim (c_id c) ClCompleted (en_now en) s))) db"
    if "resolve_ref db ref = Some t" "claim_findActiveByTokenHash db (hashClaimToken en tok) (en_now en) = Some c"
      "c_ticket_id c = t_id t" for t c x r
    by (rule wp_transition_view [OF same])
      (use that in \<open>auto intro!: wp_submit_last simp: release_claims_def\<close>)
  show ?thesis
    unfolding submitForReview_def wp_simps ev
    by (auto intro!: wp_submit_last [OF same refl] first)
qed

text \<open>
  C12. Submission is fenced by the lease: when \<open>submitForReview\<close> returns, the token was that of an
  unexpired active claim on this very ticket, the ticket is now in review, and no lease is
  left on it. A token whose claim expired, was released or belongs to another ticket submits
  nothing.
\<close>

theorem submit_needs_live_lease:
  assumes "healthy db" and "submitForReview en tok ref why a db = Inr (res, db')"
  shows "\<exists>t c. resolve_ref db ref = Some t \<and> c \<in> set (db_claims db) \<and> claim_active c \<and>
    c_token_hash c = hashClaimToken en tok \<and> en_now en < c_expires_at c \<and> c_ticket_id c = t_id t \<and>
    (\<exists>v. view db' (t_id t) = Some v \<and> v_status v = InReview \<and> \<not> v_leased v)"
  using wp_Inr [OF wp_submitted [OF healthy_keys [OF assms(1)]] assms(2)] unfolding submitted_def .

lemma healthy_leased_db [simp]: "st = Claimed \<or> st = InProgress \<Longrightarrow> healthy (leased_db st e)"
  unfolding healthy_def using keys_leased_db
  by (auto simp: view_eq sound_def ticket_findById_def find_row_def hasActiveForTicket_def paused_find_def
      leased_db_def sample_claim_def claim_active_def split: if_splits) (simp_all add: empty_db_def)

theorem submit_needs_live_lease_witness:
  "\<exists>res db' c. submitForReview sample_env ''ct_x'' ''t1'' None sample_human (leased_db InProgress 90000000) = Inr (res, db') \<and>
     c \<in> set (db_claims (leased_db InProgress 90000000)) \<and> en_now sample_env < c_expires_at c"
proof -
  let ?db = "leased_db InProgress 90000000"
  let ?c = "sample_claim ''c1'' ''t1'' ''sha:ct_x'' 90000000"
  have f: "claim_findActiveByTokenHash ?db (hashClaimToken sample_env ''ct_x'') (en_now sample_env) = Some ?c"
    by (simp add: claim_findActiveByTokenHash_def leased_db_def sample_claim_def claim_active_def hashClaimToken_def sample_env_def)
  have t: "ticket_findById ?db ''t1'' = Some (sample_ticket ''t1'' 1 InProgress)"
    by (simp add: ticket_findById_def find_row_def leased_db_def)
  let ?inp = "(sysmove ''t1'' sample_human InReview ''submit_for_review'' [AgentSubmit])\<lparr>ti_expectedFromStatus := Some InProgress\<rparr>"
  have "transition_check sample_env ?inp ?db (sample_ticket ''t1'' 1 InProgress) = Inr None"
    by (simp add: transition_check_def ALLOWED_def violatedGuard_def GUARDED_EDGES_def edge_matches_def)
  then have "returns (transition sample_env ?inp) ?db"
    by (intro returns_transition [where t = "sample_ticket ''t1'' 1 InProgress"]) (simp_all add: t)
  then obtain r s where "transition sample_env ?inp ?db = Inr (r, s)" by (blast elim: returnsE)
  then have "\<exists>res db'. submitForReview sample_env ''ct_x'' ''t1'' None sample_human ?db = Inr (res, db')"
    using f t by (simp add: submitForReview_def activeClaimForToken_def resolveRef_def resolve_ref_def bindT_def
        throwIf_def returnT_def whenT_def claim_setStatus_eq writeEvent_def Let_def sample_claim_def)
  then show ?thesis using submit_needs_live_lease [OF healthy_leased_db] by blast
qed

end
