(* ===== verification/Queue_Props.thy ===== *)
theory Queue_Props
  imports Claim_Props
begin

text \<open>
  The properties of the queue: what the candidate queries select and in which order, that a
  queue claim succeeds on the first candidate, and where the two claim paths differ.
\<close>

section \<open>The candidate queries\<close>

text \<open>The capabilities the query binds: a declared list, or one that no ticket can ask for.\<close>

abbreviation bound_capabilities :: "candidate_criteria \<Rightarrow> string set" where
  "bound_capabilities cr \<equiv> set (if cc_capabilities cr \<noteq> [] then cc_capabilities cr else [CHR 0x00 # ''__none__''])"

text \<open>
  C15. The candidate scan is exact and ordered: it lists a ticket iff it is ready, or in delivery
  with an active lease that has lapsed; every active lease of it has lapsed; nobody has taken it
  over by hand; it is not scheduled for later; its risk is within the ceiling; it asks only for
  capabilities the agent has; every decision that blocks it is accepted, rejected or superseded;
  and every ticket it depends on is done. Each ticket is listed once, by descending priority and
  then by age.
\<close>

theorem candidate_scan_exact:
  assumes "distinct (map t_id (db_tickets db))"
  shows "set (map cr_id (candidateTickets db now cr)) = {t_id t | t. t \<in> set (db_tickets db) \<and>
      (t_status t = Ready \<or> t_status t \<in> {Claimed, InProgress} \<and>
        (\<exists>c \<in> set (db_claims db). c_ticket_id c = t_id t \<and> c_status c = ClActive)) \<and>
      (\<forall>c \<in> set (db_claims db). c_ticket_id c = t_id t \<and> c_status c = ClActive \<longrightarrow> c_expires_at c \<le> now) \<and>
      t_human_owner t = None \<and> (\<forall>due. t_scheduled_after t = Some due \<longrightarrow> due \<le> now) \<and>
      riskRank (t_risk_level t) \<le> cc_maxRiskRank cr \<and>
      (\<forall>cap. (t_id t, cap) \<in> set (db_required_caps db) \<longrightarrow> cap \<in> bound_capabilities cr) \<and>
      (\<forall>td \<in> set (db_ticket_decisions db). \<forall>d \<in> set (db_decisions db).
         td_ticket_id td = t_id t \<and> td_relation td = RBlocks \<and> d_id d = td_decision_id td \<longrightarrow>
         d_status d \<in> {DsAccepted, DsRejected, DsSuperseded}) \<and>
      (\<forall>dep \<in> set (db_dependencies db). \<forall>u \<in> set (db_tickets db).
         dep_ticket_id dep = t_id t \<and> dep_depends_on dep = t_id u \<longrightarrow> t_status u = Done)} \<and>
    distinct (map cr_id (candidateTickets db now cr)) \<and>
    sorted_wrt (\<lambda>a b. cr_priority a > cr_priority b \<or>
      cr_priority a = cr_priority b \<and> cr_created_at a \<le> cr_created_at b) (candidateTickets db now cr)"
    (is "_ = {t_id t | t. t \<in> _ \<and> ?claimable t} \<and> _")
proof (intro conjI)
  have active: "claim_active c \<longleftrightarrow> c_status c = ClActive" for c by (cases "c_status c") (simp_all add: claim_active_def)
  have "candidate_where db now (cc_maxRiskRank cr)
        (if cc_capabilities cr \<noteq> [] then cc_capabilities cr else [CHR 0x00 # ''__none__'']) t \<longleftrightarrow> ?claimable t" for t
    unfolding candidate_where_def queue_ready_def lease_free_def expired_claims_def list_ex_iff filter_empty_conv
      decision_settled_def active
    by (cases "t_scheduled_after t") (auto simp: not_less)
  then show "set (map cr_id (candidateTickets db now cr)) = {t_id t | t. t \<in> set (db_tickets db) \<and> ?claimable t}"
    unfolding set_map set_candidateTickets by (auto simp: image_image)
  let ?ts = "sort_key (\<lambda>t. (- t_priority t, t_created_at t)) (filter (candidate_where db now (cc_maxRiskRank cr)
      (if cc_capabilities cr \<noteq> [] then cc_capabilities cr else [CHR 0x00 # ''__none__''])) (db_tickets db))"
  have eq: "candidateTickets db now cr = map (candidate_of db now) ?ts"
    by (simp add: candidateTickets_def Let_def)
  have "distinct (map t_id ?ts)" using assms by (auto simp: distinct_map elim: inj_on_subset)
  then show "distinct (map cr_id (candidateTickets db now cr))"
    unfolding eq by (simp add: comp_def)
  have "sorted_wrt (\<lambda>a b. (- t_priority a, t_created_at a) \<le> (- t_priority b, t_created_at b)) ?ts"
    using sorted_sort_key [of "\<lambda>t. (- t_priority t, t_created_at t)"] unfolding sorted_map .
  then show "sorted_wrt (\<lambda>a b. cr_priority a > cr_priority b \<or>
      cr_priority a = cr_priority b \<and> cr_created_at a \<le> cr_created_at b) (candidateTickets db now cr)"
    unfolding eq sorted_wrt_map
    by (rule sorted_wrt_mono_rel [rotated]) (auto simp: candidate_of_def less_eq_prod_def)
qed

theorem candidate_scan_exact_witness:
  "set (map cr_id (candidateTickets (one_ticket (sample_ticket ''t1'' 1 Ready)) 0 \<lparr>cc_maxRiskRank = 0, cc_capabilities = []\<rparr>)) = {''t1''}"
  using candidate_scan_exact [OF distinct_one_ticket [of "sample_ticket ''t1'' 1 Ready"],
      of 0 "\<lparr>cc_maxRiskRank = 0, cc_capabilities = []\<rparr>"]
  by (simp add: one_ticket_def empty_db_def sample_ticket_def)

text \<open>
  For an agent that declares at least one capability the per-ticket query answers as the
  scan does: it returns the candidate row of a ticket iff the scan lists that row.
\<close>

theorem candidate_queries_agree:
  assumes "distinct (map t_id (db_tickets db))" and "cc_capabilities cr \<noteq> []"
  shows "candidateForTicket db tid now cr = Some c \<longleftrightarrow>
    c \<in> set (candidateTickets db now cr) \<and> cr_id c = tid"
proof -
  let ?P = "\<lambda>t. t_id t = tid \<and> candidate_where db now (cc_maxRiskRank cr) (cc_capabilities cr) t"
  have uniq: "t = u" if "t \<in> set (db_tickets db)" "u \<in> set (db_tickets db)" "t_id t = t_id u" for t u
    using distinct_keyD [OF assms(1)] that by blast
  have "find ?P (db_tickets db) = Some t \<longleftrightarrow> t \<in> set (db_tickets db) \<and> ?P t" for t
  proof
    assume "find ?P (db_tickets db) = Some t"
    then show "t \<in> set (db_tickets db) \<and> ?P t" by (auto simp: find_Some_iff)
  next
    assume t: "t \<in> set (db_tickets db) \<and> ?P t"
    then obtain u where "find ?P (db_tickets db) = Some u" by (cases "find ?P (db_tickets db)") (auto simp: find_None_iff)
    moreover from this have "u \<in> set (db_tickets db)" "t_id u = tid" by (auto simp: find_Some_iff)
    ultimately show "find ?P (db_tickets db) = Some t" using t uniq by metis
  qed
  then show ?thesis
    using assms(2) unfolding set_candidateTickets by (auto simp: candidateForTicket_def Let_def)
qed

theorem candidate_queries_agree_witness:
  "\<exists>c. candidateForTicket (one_ticket (sample_ticket ''t1'' 1 Ready)) ''t1'' 0 \<lparr>cc_maxRiskRank = 0, cc_capabilities = [''py'']\<rparr> = Some c"
  using candidate_queries_agree [OF distinct_one_ticket [of "sample_ticket ''t1'' 1 Ready"],
      of "\<lparr>cc_maxRiskRank = 0, cc_capabilities = [''py'']\<rparr>" "''t1''" 0
        "candidate_of (one_ticket (sample_ticket ''t1'' 1 Ready)) 0 (sample_ticket ''t1'' 1 Ready)"]
  by (simp add: set_candidateTickets candidate_where_def queue_ready_def lease_free_def)
    (simp add: one_ticket_def empty_db_def sample_ticket_def)

definition sentinel_db :: db where
  "sentinel_db = (one_ticket (sample_ticket ''t1'' 1 Ready))\<lparr>db_required_caps := [(''t1'', CHR 0x00 # ''__none__'')]\<rparr>"

text \<open>
  For an agent that declares no capability the two queries differ: they stand in for the
  empty list with different sentinels, and the scan's sentinel is a capability a ticket can
  require (it survives the trimming of \<open>setRequiredCapabilities\<close>). Such a ticket is offered by
  the scan to an agent without any capability and refused by the per-ticket query.
\<close>

theorem capability_sentinel_differs:
  "map cr_id (candidateTickets sentinel_db 0 \<lparr>cc_maxRiskRank = 0, cc_capabilities = []\<rparr>) = [''t1''] \<and>
   candidateForTicket sentinel_db ''t1'' 0 \<lparr>cc_maxRiskRank = 0, cc_capabilities = []\<rparr> = None \<and>
   js_trim (CHR 0x00 # ''__none__'') = CHR 0x00 # ''__none__''"
proof (intro conjI)
  show "map cr_id (candidateTickets sentinel_db 0 \<lparr>cc_maxRiskRank = 0, cc_capabilities = []\<rparr>) = [''t1'']"
    by (simp add: candidateTickets_def candidate_where_def queue_ready_def lease_free_def sentinel_db_def one_ticket_def
        empty_db_def sample_ticket_def candidate_of_def)
  show "candidateForTicket sentinel_db ''t1'' 0 \<lparr>cc_maxRiskRank = 0, cc_capabilities = []\<rparr> = None"
    by (simp add: candidateForTicket_def candidate_where_def sentinel_db_def one_ticket_def)
  show "js_trim (CHR 0x00 # ''__none__'') = CHR 0x00 # ''__none__''"
    by (simp add: js_trim_def js_ws_def)
qed

section \<open>A queue claim succeeds\<close>

lemma claim_gate_passes:
  assumes "blockingForTicket db (t_id t) = []"
  shows "pr_allowed (evaluate en db t GateClaim d)"
  using assms by (simp add: evaluate_def evaluatePolicy_def policyContext_def claim_failures_def
      hasUnresolvedHumanRequired_def)

lemma candidate_ready_no_claim:
  assumes "healthy db" and "ticket_findById db (t_id t) = Some t" and "t_status t = Ready"
  shows "\<not> hasActiveForTicket db (t_id t)" and "cr_expired_claim_id (candidate_of db now t) = None"
proof -
  obtain v where v: "view db (t_id t) = Some v" "v_status v = Ready" "v_leased v = hasActiveForTicket db (t_id t)"
    using find_view [OF assms(2)] assms(3) by auto
  with healthy_sound [OF assms(1) v(1)] show free: "\<not> hasActiveForTicket db (t_id t)" by (auto simp: sound_def)
  then have "expired_claims db (t_id t) now = []"
    by (auto simp: expired_claims_def hasActiveForTicket_def list_ex_iff filter_empty_conv)
  then show "cr_expired_claim_id (candidate_of db now t) = None" by (simp add: candidate_of_def)
qed

lemma takeLease_runs:
  assumes "healthy db" and t: "ticket_findById db (t_id t) = Some t" "t_status t = Ready"
    and "blockingForTicket db (t_id t) = []" and "g_id ag \<in> g_id ` set (db_agents db)"
    and "en_uuid en ClaimId (length (db_claims db)) \<notin> c_id ` set (db_claims db)"
  shows "\<exists>res db'. takeLease en (t_id t) ag ttl a db = Inr (Some res, db') \<and> cl_ticketId res = t_id t \<and>
    cl_claimToken res = newClaimToken en (length (db_claims db)) \<and>
    mk_claim en db (t_id t) ag ttl \<in> set (db_claims db') \<and>
    (\<exists>v. view db' (t_id t) = Some v \<and> v_status v = Claimed \<and> v_leased v)"
proof -
  let ?c = "mk_claim en db (t_id t) ag ttl"
  let ?s = "db\<lparr>db_claims := db_claims db @ [?c]\<rparr>"
  let ?inp = "(sysmove (t_id t) a Claimed ''claim_next'' [AgentClaim])\<lparr>ti_expectedFromStatus := Some Ready\<rparr>"
  have keys: "keys_ok db" using assms(1) by (rule healthy_keys)
  have free: "\<not> hasActiveForTicket db (t_id t)" using candidate_ready_no_claim [OF assms(1) t] by simp
  have cid: "c_id ?c = en_uuid en ClaimId (length (db_claims db))" "c_agent_id ?c = g_id ag"
    by (simp_all add: mk_claim_def Let_def)
  have ins: "claim_insert ?c db = Inr ((), ?s)"
    unfolding claim_insert_Inr using free assms(5,6) cid t ticket_findById_SomeD [OF t(1)] by auto
  have on: "on_view db (t_id t) (\<lambda>v. v\<lparr>v_leased := True\<rparr>) ?s"
    by (rule on_view_insert [OF on_view_refl [OF keys] ins]) simp_all
  have ks: "keys_ok ?s" using on by (rule on_view_keys)
  have f: "ticket_findById ?s (t_id t) = Some t" using t(1) by (simp add: ticket_findById_def)
  have "blockingForTicket ?s (t_id t) = []" using assms(4) by (simp add: blockingForTicket_def)
  from claim_gate_passes [OF this] have "\<exists>p. transition_check en ?inp ?s t = Inr p"
    using t(2) by (simp add: transition_check_def ALLOWED_def violatedGuard_def GUARDED_EDGES_def edge_matches_def Let_def)
  then obtain p where p: "transition_check en ?inp ?s t = Inr p" ..
  have d: "distinct (map t_id (db_tickets ?s))" using ks unfolding keys_ok_def by blast
  let ?e = "transition_effect en ?inp t ?s"
  obtain r where tr: "transition en ?inp ?s = Inr (r, ?e)"
    using transition_eq [OF d, of en ?inp] f p by simp
  have "on_view db (t_id t) (\<lambda>v. goto Claimed (v\<lparr>v_leased := True\<rparr>)) ?e"
    using on_view_transition [OF on f, of ?inp en] by simp
  moreover obtain v where "view db (t_id t) = Some v" using find_view [OF t(1)] by blast
  ultimately have v: "\<exists>v. view ?e (t_id t) = Some v \<and> v_status v = Claimed \<and> v_leased v"
    by (auto dest!: on_view_same simp: goto_def)
  then obtain w where w: "view ?e (t_id t) = Some w" by blast
  obtain u where uf: "ticket_findById ?e (t_id t) = Some u" using view_SomeD(1) [OF w] by blast
  have ui: "t_id u = t_id t" using ticket_findById_SomeD [OF uf] by simp
  have row: "?c \<in> set (db_claims ?e)" by (simp add: release_claims_def)
  have caught: "bindT (catchT (bindT (claim_insert ?c) (\<lambda>_. returnT True)) h) f db = f True ?s"
    "bindT (catchT (bindT (transition en ?inp) (\<lambda>_. returnT True)) h) f ?s = f True ?e"
    for h and f :: "bool \<Rightarrow> claim_result option op"
    by (simp_all add: catchT_def bindT_def ins tr returnT_def)
  have "\<exists>res db'. takeLease en (t_id t) ag ttl a db = Inr (Some res, db') \<and> cl_ticketId res = t_id t \<and>
      cl_claimToken res = newClaimToken en (length (db_claims db)) \<and>
      (\<exists>pl. db' = add_event en ''ticket'' (t_id t) a ''claim.created'' pl ?e)"
    by (simp add: takeLease_def caught uf ui bindT_writeEvent)
      (auto simp: returnT_def add_event_def)
  with v row show ?thesis by fastforce
qed

lemma agent_touch_eq:
  "agent_touchLastSeen i now db = Inr ((), db\<lparr>db_agents := upd_rows (\<lambda>a. g_id a = i)
     (\<lambda>a. a\<lparr>g_last_seen_at := Some now, g_updated_at := now\<rparr>) (db_agents db)\<rparr>)"
  by (simp add: agent_touchLastSeen_def modifyT_def)

lemma scan_agents [simp]:
  "candidateTickets (db\<lparr>db_agents := x\<rparr>) now cr = candidateTickets db now cr"
  "criteria_of (db\<lparr>db_agents := x\<rparr>) ag = criteria_of db ag"
  "candidateForTicket (db\<lparr>db_agents := x\<rparr>) i now cr = candidateForTicket db i now cr"
  by (simp_all add: candidateTickets_def candidateForTicket_def candidate_where_def [abs_def] queue_ready_def lease_free_def
      expired_claims_def candidate_of_def [abs_def] criteria_of_def agent_capabilities_def Let_def)

lemma attemptClaim_ready:
  assumes "cr_expired_claim_id c = None"
  shows "attemptClaim en c ag ttl a db = takeLease en (cr_id c) ag ttl a db"
  using assms by (simp add: attemptClaim_def reapExpired_def)

text \<open>
  The queue makes progress: when the first candidate of an active agent is a ready ticket,
  \<open>claimNextTicket\<close> returns that ticket (the highest priority, oldest claimable one), the ticket
  is claimed, and the token handed out belongs to a new active claim of this agent that
  expires after the requested time. Only the fresh claim id is assumed of the randomness.
\<close>

theorem claim_next_succeeds:
  assumes "healthy db" and ag: "agent_findById db agentId = Some ag" "g_status ag = AgActive"
    and cs: "candidateTickets db (en_now en) (criteria_of db ag) = c # cs"
    and t: "ticket_findById db (cr_id c) = Some t" "t_status t = Ready"
    and fresh: "en_uuid en ClaimId (length (db_claims db)) \<notin> c_id ` set (db_claims db)"
  shows "\<exists>res db'. claimNextTicket en agentId ttl a db = Inr (Some res, db') \<and> cl_ticketId res = cr_id c \<and>
    (\<exists>k \<in> set (db_claims db'). c_ticket_id k = cr_id c \<and> c_agent_id k = g_id ag \<and> claim_active k \<and>
       c_token_hash k = hashClaimToken en (cl_claimToken res) \<and> c_expires_at k = isoPlusSeconds ttl (en_now en)) \<and>
    (\<exists>v. view db' (cr_id c) = Some v \<and> v_status v = Claimed \<and> v_leased v)"
proof -
  let ?db = "db\<lparr>db_agents := upd_rows (\<lambda>a. g_id a = g_id ag)
     (\<lambda>a. a\<lparr>g_last_seen_at := Some (en_now en), g_updated_at := en_now en\<rparr>) (db_agents db)\<rparr>"
  have "c \<in> set (candidateTickets db (en_now en) (criteria_of db ag))" using cs by simp
  then obtain u where u: "u \<in> set (db_tickets db)" "c = candidate_of db (en_now en) u"
      "blockingForTicket db (t_id u) = []"
    unfolding set_candidateTickets using candidate_where_settled by blast
  have i: "cr_id c = t_id u" using u(2) by simp
  have "u = t"
    using t(1) u(1) i healthy_keys [OF assms(1)] distinct_keyD [of t_id "db_tickets db" u t] ticket_findById_SomeD [OF t(1)]
    by (simp add: keys_ok_def)
  note u = u [unfolded this] and i = i [unfolded this]
  have f: "ticket_findById ?db (t_id t) = Some t" using t(1) i by (simp add: ticket_findById_def)
  have h: "healthy ?db" using assms(1) by simp
  have b: "blockingForTicket ?db (t_id t) = []" using u(3) by (simp add: blockingForTicket_def)
  have ex: "cr_expired_claim_id c = None"
    unfolding u(2) using candidate_ready_no_claim [OF assms(1) _ t(2)] t(1) i by simp
  have "map g_id (db_agents ?db) = map g_id (db_agents db)" by (simp add: map_key_upd_rows [where key = g_id])
  then have "g_id ` set (db_agents ?db) = g_id ` set (db_agents db)" by (metis set_map)
  then have g: "g_id ag \<in> g_id ` set (db_agents ?db)"
    using find_row_SomeD [OF ag(1) [unfolded agent_findById_def]] by auto
  obtain res db' where run: "takeLease en (t_id t) ag ttl a ?db = Inr (Some res, db')" "cl_ticketId res = t_id t"
      "cl_claimToken res = newClaimToken en (length (db_claims ?db))"
      "mk_claim en ?db (t_id t) ag ttl \<in> set (db_claims db')"
      "\<exists>v. view db' (t_id t) = Some v \<and> v_status v = Claimed \<and> v_leased v"
    using takeLease_runs [OF h f t(2) b g, of en ttl a] fresh by auto
  have "claimNextTicket en agentId ttl a db = tryCandidates en ag ttl a (c # cs) ?db"
    using ag cs by (simp add: claimNextTicket_def findActiveAgent_def bindT_def agent_touch_eq getT_def)
  also have "\<dots> = Inr (Some res, db')"
    using run(1) by (simp add: bindT_def attemptClaim_ready [OF ex] i returnT_def)
  finally show ?thesis
    using run(2-5) i by (intro exI [of _ res] exI [of _ db'] conjI bexI [OF _ run(4)]) (simp_all add: mk_claim_def Let_def claim_active_def)
qed

definition queue_db :: db where
  "queue_db = (one_ticket (sample_ticket ''t1'' 1 Ready))\<lparr>db_agents := [sample_agent ''a1'']\<rparr>"

lemma queue_db_facts:
  "healthy queue_db" "agent_findById queue_db ''a1'' = Some (sample_agent ''a1'')"
  "candidateTickets queue_db (en_now sample_env) (criteria_of queue_db (sample_agent ''a1'')) =
     [candidate_of queue_db (en_now sample_env) (sample_ticket ''t1'' 1 Ready)]"
  "ticket_findById queue_db ''t1'' = Some (sample_ticket ''t1'' 1 Ready)"
proof -
  show "healthy queue_db"
    by (auto simp: healthy_def queue_db_def view_eq sound_def hasActiveForTicket_def one_ticket_def paused_find_def find_row_def empty_db_def
        keys_ok_def one_active_def ticket_findById_def split: if_splits)
  show "agent_findById queue_db ''a1'' = Some (sample_agent ''a1'')"
    by (simp add: agent_findById_def queue_db_def find_row_def sample_agent_def)
  show "candidateTickets queue_db (en_now sample_env) (criteria_of queue_db (sample_agent ''a1'')) =
     [candidate_of queue_db (en_now sample_env) (sample_ticket ''t1'' 1 Ready)]"
    by (simp add: candidateTickets_def candidate_where_def queue_ready_def lease_free_def queue_db_def one_ticket_def
        empty_db_def sample_ticket_def criteria_of_def sample_agent_def)
  show "ticket_findById queue_db ''t1'' = Some (sample_ticket ''t1'' 1 Ready)"
    by (simp add: queue_db_def ticket_findById_def find_row_def one_ticket_def)
qed

theorem claim_next_succeeds_witness:
  "\<exists>res db'. claimNextTicket sample_env ''a1'' 3600 sample_human queue_db = Inr (Some res, db') \<and> cl_ticketId res = ''t1''"
proof -
  have "g_status (sample_agent ''a1'') = AgActive" by (simp add: sample_agent_def)
  moreover have "en_uuid sample_env ClaimId (length (db_claims queue_db)) \<notin> c_id ` set (db_claims queue_db)"
    by (simp add: queue_db_def one_ticket_def empty_db_def)
  ultimately show ?thesis
    using claim_next_succeeds [OF queue_db_facts(1,2) _ queue_db_facts(3), of "sample_ticket ''t1'' 1 Ready" 3600 sample_human]
      queue_db_facts(4) by auto
qed

end
