(* ===== verification/Ticket_Props.thy ===== *)
theory Ticket_Props
  imports System Queue_Props
begin

text \<open>
  The properties of the ticket service: a created ticket is found under its id and number, the
  contract is frozen outside the editable states and an edit never leaves a queued ticket
  below its ready gate, the cycle guard refuses exactly the edges that would close a cycle, a
  new dependency takes the ticket out of the queue, and unblocking undoes blocking.
\<close>

section \<open>Creation\<close>

lemma nextNumber_above:
  "u \<in> set (db_tickets db) \<Longrightarrow> t_number u = Some n \<Longrightarrow> n < ticket_nextNumber db"
proof -
  have "t_number u = Some n \<Longrightarrow> u \<in> set ts \<Longrightarrow>
      n \<le> foldr (\<lambda>t m. case t_number t of None \<Rightarrow> m | Some k \<Rightarrow> max k m) ts 0" for ts
    by (induction ts) (auto split: option.split simp: le_max_iff_disj)
  then show "u \<in> set (db_tickets db) \<Longrightarrow> t_number u = Some n \<Longrightarrow> n < ticket_nextNumber db"
    by (simp add: ticket_nextNumber_def less_Suc_eq_le)
qed

lemma find_append_None: "(\<And>x. x \<in> set xs \<Longrightarrow> \<not> P x) \<Longrightarrow> find P (xs @ [y]) = (if P y then Some y else None)"
  by (induction xs) auto

text \<open>
  A ticket that \<open>createTicket\<close> returns is a draft with a number above every number in use; it
  is found under its id, and its printed number resolves to it (unless that text is itself
  some ticket's id). Every ticket that was there before is found as before.
\<close>

theorem created_ticket_found:
  assumes "createTicket en inp a db = Inr (t, db')"
  shows "t_status t = Draft \<and> ticket_findById db' (t_id t) = Some t \<and>
    (\<exists>n. t_number t = Some n \<and> (\<forall>u \<in> set (db_tickets db). \<forall>k. t_number u = Some k \<longrightarrow> k < n) \<and>
       (ticket_findById db' (show_nat n) = None \<longrightarrow> resolve_ref db' (show_nat n) = Some t)) \<and>
    (\<forall>i. i \<noteq> t_id t \<longrightarrow> ticket_findById db' i = ticket_findById db i)"
proof -
  let ?n = "ticket_nextNumber db"
  have t: "t = new_ticket en inp a db" and fresh: "t_id t \<notin> t_id ` set (db_tickets db)"
    and rows: "db_tickets db' = db_tickets db @ [t]"
    using assms by (auto simp: createTicket_def bindT_Inr_iff throwIf_def getT_def ticket_insert_def writeEvent_def
        returnT_def throwT_def Let_def split: if_splits)
  have num: "t_number t = Some ?n" "t_status t = Draft" by (simp_all add: t new_ticket_def)
  have "ticket_findById db' i = (if i = t_id t then Some t else ticket_findById db i)" for i
    using fresh find_row_None_iff [of t_id "t_id t" "db_tickets db"] unfolding ticket_findById_def rows find_row_append
    by (auto simp: find_row_def split: option.split)
  moreover have "ticket_findByNumber db' ?n = Some t"
    using nextNumber_above unfolding ticket_findByNumber_def rows
    by (subst find_append_None) (force simp: num)+
  moreover have "0 < ?n" by (simp add: ticket_nextNumber_def)
  ultimately show ?thesis
    using num nextNumber_above by (auto simp: resolve_ref_def strip_ref_show_nat js_Number_show_nat)
qed

definition first_input :: create_ticket_input where
  "first_input = \<lparr>ct_title = ''Fix'', ct_description = ''It'', ct_priority = 0, ct_risk_level = Low,
     ct_policy_pack = SoloLoose, ct_source = None, ct_created_by = None, ct_bootstrap = False,
     ct_acceptance = False, ct_delivery_budget_usd = None\<rparr>"

lemma first_input_runs:
  "\<exists>t db'. createTicket sample_env first_input sample_human empty_db = Inr (t, db') \<and> db_tickets db' = [t] \<and> t_status t = Draft"
  by (simp add: createTicket_def first_input_def create_schema_ok_def one_line_ok_def
       js_trim_def js_ws_def has_control_def opt_ok_def bindT_def throwIf_def getT_def ticket_insert_def new_ticket_def
       empty_db_def writeEvent_def returnT_def Let_def)

theorem created_ticket_found_witness:
  "\<exists>t db'. createTicket sample_env first_input sample_human empty_db = Inr (t, db') \<and>
     ticket_findById db' (t_id t) = Some t \<and> t_status t = Draft"
  using first_input_runs created_ticket_found by metis

section \<open>The contract\<close>

text \<open>The ticket a command edits the contract of.\<close>

fun contract_ref :: "command \<Rightarrow> string option" where
  "contract_ref (AddAc inp) = Some (aa_ticket_id inp)"
| "contract_ref (EditTicket r f) =
     (if tf_title f = None \<and> tf_description f = None \<and> tf_policy_pack f = None then None else Some r)"
| "contract_ref (EditAc r x inp) = Some r"
| "contract_ref (RemoveAc r x) = Some r"
| "contract_ref _ = None"

definition contract_kept :: "env \<Rightarrow> string \<Rightarrow> db \<Rightarrow> db \<Rightarrow> bool" where
  "contract_kept en ref db db' = (\<exists>t. resolve_ref db ref = Some t \<and> t_status t \<in> {Draft, Refining, Ready, Blocked} \<and>
     (t_status t = Ready \<longrightarrow> (\<exists>u. ticket_findById db' (t_id t) = Some u \<and> pr_allowed (evaluate en db' u GateReady None))))"

lemma contract_keptI:
  assumes "resolve_ref db ref = Some t" and "t_status t \<in> set CONTRACT_EDITABLE_STATUSES"
    and "t_status t \<noteq> Ready \<or> (\<exists>u. ticket_findById db' (t_id t) = Some u \<and> pr_allowed (evaluate en db' u GateReady None))"
  shows "contract_kept en ref db db'"
  using assms by (auto simp: contract_kept_def CONTRACT_EDITABLE_STATUSES_def)

lemma wp_contract_edit:
  assumes "contract_ref c = Some ref"
  shows "wp (exec en a c) (\<lambda>_. contract_kept en ref db) db"
proof -
  note ops = addAcceptanceCriterion_def editTicket_def editAcceptanceCriterion_def removeAcceptanceCriterion_def
    ac_delete_def ac_update_def checks_defs Let_def
  show ?thesis
    using assms
    by (cases c)
      (simp_all add: wp_effect ops wp_bind wp_the_row wp_return,
       auto simp: wp_simps wp_the_row checks_defs trim_fields_def intro!: contract_keptI split: if_split_asm)
qed

text \<open>
  C26. The contract freeze: an edit of a ticket's title, description, policy pack or acceptance
  criteria succeeds only on a draft, refining, ready or blocked ticket; and when the ticket
  is ready, it still passes the ready gate of its policy pack after the edit (an edit that
  would break the gate is rolled back).
\<close>

theorem contract_freeze:
  assumes "contract_ref c = Some ref" and "exec en a c db = Inr ((), db')"
  shows "\<exists>t. resolve_ref db ref = Some t \<and> t_status t \<in> {Draft, Refining, Ready, Blocked} \<and>
     (t_status t = Ready \<longrightarrow> (\<exists>u. ticket_findById db' (t_id t) = Some u \<and> pr_allowed (evaluate en db' u GateReady None)))"
  using wp_Inr [OF wp_contract_edit [OF assms(1)] assms(2)] unfolding contract_kept_def .

theorem contract_freeze_witness:
  "\<exists>db'. exec sample_env sample_human (EditTicket ''t1'' \<lparr>tf_title = None, tf_description = Some ''More'', tf_policy_pack = None,
     tf_priority = None\<rparr>) (one_ticket (sample_ticket ''t1'' 1 Draft)) = Inr ((), db') \<and>
     (\<exists>t. resolve_ref (one_ticket (sample_ticket ''t1'' 1 Draft)) ''t1'' = Some t \<and> t_status t \<in> {Draft, Refining, Ready, Blocked})"
proof -
  let ?db = "one_ticket (sample_ticket ''t1'' 1 Draft)"
  let ?c = "EditTicket ''t1'' \<lparr>tf_title = None, tf_description = Some ''More'', tf_policy_pack = None, tf_priority = None\<rparr>"
  have "\<exists>db'. exec sample_env sample_human ?c ?db = Inr ((), db')"
    by (simp add: effect_def editTicket_def edit_schema_ok_def opt_ok_def trim_fields_def resolveRef_def resolve_ref_def
        bindT_def throwIf_def returnT_def assertContractEditable_def CONTRACT_EDITABLE_STATUSES_def edit_changes_def
        ticket_updateFields_def recheckReadyGate_def getT_def Let_def writeEvent_def)
      (simp add: ticket_findById_def one_ticket_def find_row_def upd_rows_def sample_ticket_def apply_fields_def)
  then show ?thesis using contract_freeze [of ?c "''t1''" sample_env sample_human ?db] by auto
qed

section \<open>Dependencies\<close>

lemma dep_insert_eq:
  "dep_insert d db = (if dep_exists db (dep_ticket_id d) (dep_depends_on d) then Inl SqlitePrimaryKey
     else if dep_ticket_id d \<notin> t_id ` set (db_tickets db) \<or> dep_depends_on d \<notin> t_id ` set (db_tickets db) then Inl SqliteForeignKey
     else Inr ((), db\<lparr>db_dependencies := db_dependencies db @ [d]\<rparr>))"
  by (simp add: dep_insert_def)

lemma addDependency_eq:
  assumes "resolve_ref db r = Some t" and "resolve_ref db s = Some u" and "r \<noteq> []" and "s \<noteq> []"
    and "\<not> dep_exists db (t_id t) (t_id u)"
  shows "addDependency en r s a db = (if (t_id u, t_id t) \<in> (deps_rel db)\<^sup>* then Inl (DispatchError INVALID_DEPENDENCY)
    else bindT (ticketEvent en (t_id t) a ''ticket.dependency_added''
              [(''depends_on_ticket_id'', JStr (t_id u)),
               (''depends_on_number'', case t_number u of None \<Rightarrow> JNull | Some n \<Rightarrow> JNum (int n))]) (\<lambda>ev.
        returnT (t_id t, t_id u, ev)) (db\<lparr>db_dependencies := db_dependencies db @
          [\<lparr>dep_ticket_id = t_id t, dep_depends_on = t_id u, dep_created_at = en_now en\<rparr>]\<rparr>))"
proof -
  have "t_id t \<in> t_id ` set (db_tickets db)" "t_id u \<in> t_id ` set (db_tickets db)"
    using resolve_ref_mem assms(1,2) by blast+
  then show ?thesis
    using assms by (simp add: addDependency_def bindT_resolveRef dependencyCycleWouldForm_iff bindT_def [of "dep_insert _"]
        dep_insert_eq)
qed

text \<open>
  C27. The cycle guard is exact. For two tickets without that edge yet, \<open>addDependency\<close> throws
  INVALID_DEPENDENCY iff the second already reaches the first through dependencies (or is the
  first); otherwise it returns, adds exactly this edge, and an acyclic graph stays acyclic.
\<close>

theorem cycle_guard_exact:
  assumes "resolve_ref db r = Some t" and "resolve_ref db s = Some u" and "r \<noteq> []" and "s \<noteq> []"
    and "\<not> dep_exists db (t_id t) (t_id u)"
  shows "if (t_id u, t_id t) \<in> (deps_rel db)\<^sup>* then addDependency en r s a db = Inl (DispatchError INVALID_DEPENDENCY)
    else (\<exists>ev db'. addDependency en r s a db = Inr ((t_id t, t_id u, ev), db') \<and>
      deps_rel db' = insert (t_id t, t_id u) (deps_rel db) \<and> db_tickets db' = db_tickets db \<and>
      (acyclic (deps_rel db) \<longrightarrow> acyclic (deps_rel db')))"
  unfolding addDependency_eq [OF assms]
  by (auto simp: bindT_def writeEvent_def returnT_def Let_def deps_rel_def)

definition two_tickets :: "ticket_status \<Rightarrow> ticket_status \<Rightarrow> db" where
  "two_tickets st st' = empty_db\<lparr>db_tickets := [sample_ticket ''t1'' 1 st, sample_ticket ''t2'' 2 st']\<rparr>"

lemma resolve_two_tickets [simp]:
  "resolve_ref (two_tickets st st') ''t1'' = Some (sample_ticket ''t1'' 1 st)"
  "resolve_ref (two_tickets st st') ''t2'' = Some (sample_ticket ''t2'' 2 st')"
  by (simp_all add: resolve_ref_def ticket_findById_def find_row_def two_tickets_def)

theorem cycle_guard_exact_witness:
  "\<exists>ev db'. addDependency sample_env ''t1'' ''t2'' sample_human (two_tickets Draft Draft) = Inr ((''t1'', ''t2'', ev), db') \<and>
     deps_rel db' = {(''t1'', ''t2'')}"
proof -
  have d: "deps_rel (two_tickets Draft Draft) = {}" "\<not> dep_exists (two_tickets Draft Draft) ''t1'' ''t2''"
    by (simp_all add: two_tickets_def deps_rel_def empty_db_def dep_exists_def)
  show ?thesis
    using cycle_guard_exact [of "two_tickets Draft Draft" "''t1''" _ "''t2''" _ sample_env sample_human, OF resolve_two_tickets]
    by (auto simp: d)
qed

text \<open>
  A new dependency holds the ticket back: once \<open>addDependency\<close> returns for a prerequisite that
  is not done, neither candidate query offers the ticket, at any time and to any agent, and a
  targeted claim by an active agent throws DEPENDENCY_BLOCKED.
\<close>

theorem dependency_holds_back:
  assumes "addDependency en r s a db = Inr (res, db')" and "resolve_ref db r = Some t" and "resolve_ref db s = Some u"
    and "t_status u \<noteq> Done" and "keys_ok db"
  shows "candidateForTicket db' (t_id t) now cr = None \<and> t_id t \<notin> cr_id ` set (candidateTickets db' now cr) \<and>
    (\<forall>ag. agent_findById db' (g_id ag) = Some ag \<and> g_status ag = AgActive \<longrightarrow>
       claimTicket en' (t_id t) (g_id ag) ttl a' db' = Inl (DispatchError DEPENDENCY_BLOCKED))"
proof -
  have d: "db_dependencies db' = db_dependencies db @ [\<lparr>dep_ticket_id = t_id t, dep_depends_on = t_id u, dep_created_at = en_now en\<rparr>]"
    and tk: "db_tickets db' = db_tickets db"
    using assms(1-3) unfolding addDependency_def
    by (auto simp: bindT_resolveRef bindT_def [of "dep_insert _"] dep_insert_eq bindT_writeEvent returnT_def split: if_splits)
  have "u \<in> set (db_tickets db')" using resolve_ref_mem [OF assms(3)] tk by simp
  then have un: "hasUnsatisfiedDependencies db' (t_id t)"
    using assms(4) by (auto simp: hasUnsatisfiedDependencies_def d list_ex_iff)
  have none: "\<not> candidate_where db' n r' caps w" if "t_id w = t_id t" for n r' caps w
    using un that candidate_where_deps by metis
  have cand: "candidateForTicket db' (t_id t) n c = None" for n c
    by (auto simp: candidateForTicket_def Let_def find_None_iff none)
  have "claimTicket en' (t_id t) (g_id ag) ttl a' db' = Inl (DispatchError DEPENDENCY_BLOCKED)"
    if ag: "agent_findById db' (g_id ag) = Some ag" "g_status ag = AgActive" for ag
  proof -
    have f: "ticket_findById db' (t_id t) = Some t"
      using resolve_ref_find [OF assms(5,2)] by (simp add: ticket_findById_def tk)
    have un': "hasUnsatisfiedDependencies (db'\<lparr>db_agents := x\<rparr>) (t_id t)" for x
      using un by (simp add: hasUnsatisfiedDependencies_def)
    show ?thesis
      using f ag un' by (simp add: claimTicket_def findActiveAgent_def bindT_def agent_touch_eq getT_def throwT_def cand
          unsatisfiedDependencies_Nil_iff)
  qed
  moreover have "t_id t \<notin> cr_id ` set (candidateTickets db' now cr)"
    unfolding set_candidateTickets using none by auto
  ultimately show ?thesis using cand by blast
qed

theorem dependency_holds_back_witness:
  "\<exists>res db'. addDependency sample_env ''t1'' ''t2'' sample_human (two_tickets Ready Draft) = Inr (res, db') \<and>
     candidateForTicket db' ''t1'' 0 \<lparr>cc_maxRiskRank = 3, cc_capabilities = []\<rparr> = None"
proof -
  let ?db = "two_tickets Ready Draft"
  have d: "deps_rel ?db = {}" "\<not> dep_exists ?db ''t1'' ''t2''"
    by (simp_all add: two_tickets_def deps_rel_def empty_db_def dep_exists_def)
  have k: "keys_ok ?db" by (simp add: keys_ok_def two_tickets_def one_active_def empty_db_def)
  have "\<exists>res db'. addDependency sample_env ''t1'' ''t2'' sample_human ?db = Inr (res, db')"
    using addDependency_eq [OF resolve_two_tickets(1,2), of Ready Draft sample_env sample_human]
    by (simp add: d bindT_def writeEvent_def Let_def returnT_def)
  then show ?thesis using dependency_holds_back [OF _ resolve_two_tickets _ k] by fastforce
qed

section \<open>Block and unblock\<close>

lemma insort_key_last: "k x \<le> k e \<Longrightarrow> insort_key k x (ys @ [e]) = insort_key k x ys @ [e]"
  by (induction ys) auto

lemma sort_key_last:
  "(\<And>x. x \<in> set xs \<Longrightarrow> k x \<le> k e) \<Longrightarrow> sort_key k (xs @ [e]) = sort_key k xs @ [e]"
  by (induction xs) (auto simp: insort_key_last)

lemma find_upd_rows:
  "(\<And>x. Q (f x) = Q x) \<Longrightarrow> find Q (upd_rows P f xs) = map_option (\<lambda>x. if P x then f x else x) (find Q xs)"
  by (induction xs) (auto simp: upd_rows_def)

lemma resolve_ref_upd:
  assumes "\<And>t. t_id (f t) = t_id t" and "\<And>t. t_number (f t) = t_number t"
    and "db_tickets s = upd_rows P f (db_tickets db)"
  shows "resolve_ref s r = map_option (\<lambda>t. if P t then f t else t) (resolve_ref db r)"
  using assms by (auto simp: resolve_ref_def ticket_findById_def ticket_findByNumber_def find_row_def find_upd_rows
      split: option.split)

lemma resolve_ref_add_event [simp]: "resolve_ref (add_event en et ei ac ty pl db) r = resolve_ref db r"
  by (simp add: resolve_ref_def ticket_findById_def ticket_findByNumber_def split: option.split)

lemma resolve_ref_moved:
  assumes "keys_ok db" and "resolve_ref db r = Some t"
  shows "resolve_ref (transition_effect en inp t db) r = Some (moved en inp t t)"
  by (subst resolve_ref_upd [where db = db and P = "\<lambda>x. t_id x = t_id t" and f = "moved en inp t"])
    (simp_all add: transition_effect_def assms)

lemma block_events_moved:
  "block_events (transition_effect en inp t db) (t_id t) = block_events db (t_id t) @
     (if ti_toStatus inp = Blocked then [transition_event en inp t db] else [])"
  by (cases "ti_toStatus inp") (simp_all add: block_events_def transition_effect_def transition_event_def transition_payload_def)

lemma block_events_other [simp]:
  "ty \<noteq> ''ticket.transitioned'' \<Longrightarrow> block_events (add_event en et ei ac ty pl db) i = block_events db i"
  by (simp add: block_events_def add_event_def)

lemma blockedFrom_moved:
  assumes "\<And>e. e \<in> set (db_events db) \<Longrightarrow> we_created_at e \<le> en_now en" and "ti_toStatus inp = Blocked"
  shows "blockedFrom (transition_effect en inp t db) (t_id t) = Some (JStr (status_name (t_status t)))"
proof -
  let ?e = "transition_event en inp t db"
  have "sort_key we_created_at (block_events db (t_id t) @ [?e]) = sort_key we_created_at (block_events db (t_id t)) @ [?e]"
    by (rule sort_key_last) (use assms(1) in \<open>auto simp: block_events_def transition_event_def\<close>)
  then show ?thesis
    using assms(2) by (simp add: blockedFrom_def block_events_moved)
      (simp add: transition_event_def transition_payload_def)
qed

lemma find_moved:
  assumes "ticket_findById db i = Some t"
  shows "ticket_findById (transition_effect en inp t db) i = Some (moved en inp t t)"
  using findById_upd [where f = "moved en inp t" and db = db and i = i and j = i] assms ticket_findById_SomeD [OF assms]
  by (simp add: transition_effect_def ticket_findById_def)

lemma wp_transition_ref:
  assumes "keys_ok db" and "resolve_ref db r = Some t" and "ti_ticketId inp = t_id t"
    and "\<And>res. Q res (transition_effect en inp t db)"
  shows "wp (transition en inp) Q db"
proof (rule wp_transition)
  show "distinct (map t_id (db_tickets db))" using assms(1) by (simp add: keys_ok_def)
  fix u policy res assume "ticket_findById db (ti_ticketId inp) = Some u"
  then show "Q res (transition_effect en inp u db)" using resolve_ref_find [OF assms(1,2)] assms(3,4) by simp
qed

lemma humanBlock_effect:
  assumes "keys_ok db"
  shows "wp (humanBlockTicket en r why a) (\<lambda>res s. \<exists>t pl. resolve_ref db r = Some t \<and> fst res = t_id t \<and>
     fst (snd res) = t_status t \<and> s = add_event en ''ticket'' (t_id t) a ''ticket.blocked'' pl
       (transition_effect en (sysmove (t_id t) a Blocked (js_trim why) [HumanBlock]) t db)) db"
  unfolding humanBlockTicket_def checks_defs Let_def wp_simps
  by (auto intro!: wp_transition_ref [OF assms])

text \<open>
  Unblocking undoes blocking: when a human blocks a draft or refining ticket and no event of
  the log is stamped later than the block, a human unblock without a target always succeeds
  and puts the ticket back into the status it was blocked from.
\<close>

theorem unblock_restores:
  assumes "keys_ok db" and "humanBlockTicket en r why a db = Inr ((i, from, ev), db1)" and "from \<in> {Draft, Refining}"
    and "\<And>e. e \<in> set (db_events db) \<Longrightarrow> we_created_at e \<le> en_now en" and "human_or_admin b"
  shows "\<exists>ev' db2 t. humanUnblockTicket en' r b None db1 = Inr ((i, from, ev'), db2) \<and>
    ticket_findById db2 i = Some t \<and> t_status t = from"
proof -
  let ?m = "\<lambda>i. sysmove i a Blocked (js_trim why) [HumanBlock]"
  obtain t pl where t: "resolve_ref db r = Some t" "i = t_id t" "from = t_status t"
    and db1: "db1 = add_event en ''ticket'' (t_id t) a ''ticket.blocked'' pl (transition_effect en (?m (t_id t)) t db)"
    using wp_Inr [OF humanBlock_effect [OF assms(1)] assms(2)] by auto
  let ?u = "moved en (?m i) t t"
  let ?inp = "sysmove i b from ''unblock'' [HumanBlock]"
  have k: "keys_ok db1" using assms(1) by (simp add: db1 keys_ok_transition_effect)
  have ref: "resolve_ref db1 r = Some ?u"
    using resolve_ref_moved [OF assms(1) t(1)] t(2) by (simp add: db1)
  have find: "ticket_findById db1 i = Some ?u" using resolve_ref_find [OF k ref] t(2) by simp
  have to: "unblock_to None (blockedFrom db1 i) = from"
    using blockedFrom_moved [of db en "?m i" t] assms(3,4) t by (auto simp: db1 blockedFrom_def unblock_to_def)
  have "transition_check en' ?inp db1 ?u = Inr None"
    using assms(3,5) by (auto simp: transition_check_def ALLOWED_def violatedGuard_def GUARDED_EDGES_def edge_matches_def
        human_or_admin_def Let_def)
  then have "\<exists>x. transition en' ?inp db1 = Inr (x, transition_effect en' ?inp ?u db1)"
    using transition_eq [of db1 en' ?inp] k find by (simp add: keys_ok_def)
  moreover have "ticket_findById (transition_effect en' ?inp ?u db1) i = Some (moved en' ?inp ?u ?u)"
    using find_moved [OF find] .
  ultimately show ?thesis
    using ref to t(2) assms(5)
    by (auto simp: humanUnblockTicket_def assertHumanOrAdmin_def bindT_resolveRef bindT_def [of "transition _ _"] bindT_writeEvent
       returnT_def ticket_findById_def intro!: exI [of _ "moved en' ?inp ?u ?u"])
qed

theorem unblock_restores_witness:
  "\<exists>ev db1 ev' db2. humanBlockTicket sample_env ''t1'' ''wait'' sample_human (one_ticket (sample_ticket ''t1'' 1 Refining)) =
       Inr ((''t1'', Refining, ev), db1) \<and>
     humanUnblockTicket sample_env ''t1'' sample_human None db1 = Inr ((''t1'', Refining, ev'), db2)"
proof -
  let ?db = "one_ticket (sample_ticket ''t1'' 1 Refining)"
  let ?inp = "sysmove ''t1'' sample_human Blocked ''wait'' [HumanBlock]"
  have trim: "js_trim ''wait'' = ''wait''" by (simp add: js_trim_def js_ws_def)
  have "transition_check sample_env ?inp ?db (sample_ticket ''t1'' 1 Refining) = Inr None"
    by (simp add: transition_check_def ALLOWED_def violatedGuard_def GUARDED_EDGES_def edge_matches_def sample_human_def)
  then have "\<exists>x s. transition sample_env ?inp ?db = Inr (x, s)" by (simp add: transition_eq)
  then have "\<exists>ev db1. humanBlockTicket sample_env ''t1'' ''wait'' sample_human ?db = Inr ((''t1'', Refining, ev), db1)"
    by (auto simp: humanBlockTicket_def assertHumanOrAdmin_def human_or_admin_def sample_human_def trim Let_def
        resolveRef_def resolve_ref_def bindT_def writeEvent_def throwIf_def returnT_def)
  then obtain ev db1 where run: "humanBlockTicket sample_env ''t1'' ''wait'' sample_human ?db = Inr ((''t1'', Refining, ev), db1)" by blast
  have none: "db_events (one_ticket t) = []" for t by (simp add: one_ticket_def empty_db_def)
  have "human_or_admin sample_human" by (simp add: human_or_admin_def sample_human_def)
  then have "\<exists>ev' db2 t. humanUnblockTicket sample_env ''t1'' sample_human None db1 = Inr ((''t1'', Refining, ev'), db2) \<and>
      ticket_findById db2 ''t1'' = Some t \<and> t_status t = Refining"
    by (intro unblock_restores [OF keys_one_ticket run]) (simp_all add: none)
  with run show ?thesis by blast
qed

section \<open>Claimability and the queue\<close>

definition later_ticket :: ticket where
  "later_ticket = (sample_ticket ''t1'' 1 Ready)\<lparr>t_scheduled_after := Some 90000000\<rparr>"

text \<open>
  \<open>isClaimableNow\<close> does not look at the schedule: a ready ticket that is scheduled for
  tomorrow is reported claimable now, although no candidate query offers it to any agent.
\<close>

theorem claimable_now_ignores_schedule:
  "isClaimableNow sample_env (one_ticket later_ticket) later_ticket \<and>
   candidateForTicket (one_ticket later_ticket) ''t1'' (en_now sample_env) cr = None \<and>
   candidateTickets (one_ticket later_ticket) (en_now sample_env) cr = []"
proof -
  have none: "\<not> candidate_where (one_ticket later_ticket) (en_now sample_env) r caps later_ticket" for r caps
    by (simp add: candidate_where_def later_ticket_def sample_env_def)
  have "isClaimableNow sample_env (one_ticket later_ticket) later_ticket"
    by (simp add: isClaimableNow_def claimability_def later_ticket_def bindT_def resolveRef_def resolve_ref_def
        claimability_of_def getT_def unsatisfiedDependencies_Nil_iff hasUnsatisfiedDependencies_def one_ticket_def
        ticket_findById_def find_row_def blockingForTicket_def)
      (simp add: empty_db_def)
  with none show ?thesis by (simp add: candidateForTicket_def candidateTickets_def one_ticket_def Let_def)
qed

end
