(* ===== verification/Recovery_Props.thy ===== *)
theory Recovery_Props
  imports Ticket_Props
begin

text \<open>
  The properties of evidence, of the recovery of lapsed deliveries and of the paths around
  the gates: what an evidence record changes, where a resumed delivery goes when its lease
  lapses, what a raw move does to a lease, and what a targeted claim and a runner release do
  on the states their descriptions leave out.
\<close>

section \<open>Evidence\<close>

text \<open>
  Recording evidence: when \<open>recordEvidence\<close> returns, the caller held a live claim on the
  ticket, was a human, or wrote a note for the review of this very ticket; one evidence row
  was added; and the acceptance criteria are untouched, except that the named criterion is
  satisfied by the caller when the record is not a review note. A reviewer's note never
  satisfies a criterion.
\<close>

theorem evidence_recorded:
  assumes "recordEvidence en inp a db = Inr (res, db')" and "resolve_ref db (re_ticket_id inp) = Some t"
  shows "(truthy (re_claimToken inp) \<or> a_type a = Human \<or> is_review_note inp a t) \<and>
    length (db_evidence db') = length (db_evidence db) + 1 \<and> db_tickets db' = db_tickets db \<and>
    db_acs db' = (case re_ac_id inp of None \<Rightarrow> db_acs db
      | Some i \<Rightarrow> if is_review_note inp a t then db_acs db
          else upd_rows (\<lambda>x. ac_id x = i) (\<lambda>x. x\<lparr>ac_status := AcSatisfied, ac_verified_by := Some (actor_label a),
                 ac_verified_at := Some (en_now en), ac_updated_at := en_now en\<rparr>) (db_acs db))"
proof -
  have "wp (recordEvidence en inp a) (\<lambda>_ db'. (truthy (re_claimToken inp) \<or> a_type a = Human \<or> is_review_note inp a t) \<and>
    length (db_evidence db') = length (db_evidence db) + 1 \<and> db_tickets db' = db_tickets db \<and>
    db_acs db' = (case re_ac_id inp of None \<Rightarrow> db_acs db
      | Some i \<Rightarrow> if is_review_note inp a t then db_acs db
          else upd_rows (\<lambda>x. ac_id x = i) (\<lambda>x. x\<lparr>ac_status := AcSatisfied, ac_verified_by := Some (actor_label a),
                 ac_verified_at := Some (en_now en), ac_updated_at := en_now en\<rparr>) (db_acs db))) db"
    using assms(2) unfolding recordEvidence_def Let_def ac_setStatus_def
    by (cases "re_ac_id inp") (auto simp: wp_simps)
  from wp_Inr [OF this assms(1)] show ?thesis .
qed

definition note_input :: record_evidence_input where
  "note_input = \<lparr>re_claimToken = None, re_reviewOf = None, re_ticket_id = ''t1'', re_ac_id = None, re_repo_id = None,
     re_evidence_type = ManualNote, re_summary = ''ok'', re_uri = None, re_payload = None\<rparr>"

theorem evidence_recorded_witness:
  "\<exists>res db'. recordEvidence sample_env note_input sample_human (one_ticket (sample_ticket ''t1'' 1 InReview)) = Inr (res, db') \<and>
     length (db_evidence db') = length (db_evidence (one_ticket (sample_ticket ''t1'' 1 InReview))) + 1"
proof -
  let ?db = "one_ticket (sample_ticket ''t1'' 1 InReview)"
  have r: "resolve_ref (one_ticket (sample_ticket ''t1'' n InReview)) (re_ticket_id note_input) = Some (sample_ticket ''t1'' n InReview)"
    for n by (simp add: resolve_ref_def note_input_def)
  have rows: "db_evidence (one_ticket t) = []" "db_tickets (one_ticket t) = [t]" for t
    by (simp_all add: one_ticket_def empty_db_def)
  have ok: "evidence_schema_ok note_input" "re_ac_id note_input = None" "\<not> truthy (re_claimToken note_input)"
    by (simp_all add: evidence_schema_ok_def note_input_def js_trim_def js_ws_def truthy_def)
  have "\<exists>res db'. recordEvidence sample_env note_input sample_human ?db = Inr (res, db')"
    using ok
    by (simp add: recordEvidence_def Let_def sample_human_def bindT_def evidence_insert_def throwIf_def returnT_def getT_def
        writeEvent_def resolveRef_def r rows) (simp add: note_input_def)
  then show ?thesis using evidence_recorded [OF _ r] by blast
qed

section \<open>Raw moves and leases\<close>

text \<open>
  A move without opt-in flags ends the agent's lease on the ticket, whatever its status was,
  except a move to failed, which keeps it. So a board drag out of claimed or in_progress is
  not refused: it takes the ticket from the agent that holds it.
\<close>

theorem raw_move_lease:
  assumes "transition en inp db = Inr (r, db')" and "ti_flags inp = []" and "keys_ok db"
  shows "hasActiveForTicket db' (ti_ticketId inp) \<longleftrightarrow>
    hasActiveForTicket db (ti_ticketId inp) \<and> ti_toStatus inp = Failed"
proof -
  obtain t p where t: "ticket_findById db (ti_ticketId inp) = Some t" "transition_check en inp db t = Inr p"
    using assms(1) by (auto simp: transition_def split: option.splits sum.splits)
  have "ti_toStatus inp \<in> {Draft, Refining, Ready, Blocked, Failed}" using t(2) assms(2) by (rule raw_targets)
  then have "frees_lease (ti_toStatus inp) \<longleftrightarrow> ti_toStatus inp \<noteq> Failed"
    by (auto simp: frees_lease_def REQUEUE_STATES_def)
  moreover have "db' = transition_effect en inp t db"
    using transition_eq [of db en inp] assms(1,3) t by (simp add: keys_ok_def)
  moreover have "t_id t = ti_ticketId inp" using ticket_findById_SomeD [OF t(1)] by simp
  ultimately show ?thesis
    by (auto simp: transition_effect_def hasActiveForTicket_def active_release_claims)
qed

theorem raw_move_lease_witness:
  "\<exists>r db'. transition sample_env (move ''t1'' sample_human Failed []) (leased_db InProgress 90000000) = Inr (r, db') \<and>
     hasActiveForTicket db' ''t1''"
proof -
  let ?db = "leased_db InProgress 90000000"
  have t: "ticket_findById ?db ''t1'' = Some (sample_ticket ''t1'' 1 InProgress)"
    by (simp add: ticket_findById_def find_row_def leased_db_def)
  have "transition_check sample_env (move ''t1'' sample_human Failed []) ?db (sample_ticket ''t1'' 1 InProgress) = Inr None"
    by (simp add: transition_check_def ALLOWED_def violatedGuard_def GUARDED_EDGES_def edge_matches_def)
  then have "returns (transition sample_env (move ''t1'' sample_human Failed [])) ?db"
    by (intro returns_transition) (simp_all add: t)
  then obtain r db' where run: "transition sample_env (move ''t1'' sample_human Failed []) ?db = Inr (r, db')"
    by (blast elim: returnsE)
  have "hasActiveForTicket ?db ''t1''"
    by (simp add: hasActiveForTicket_def leased_db_def sample_claim_def claim_active_def)
  with run raw_move_lease [OF run] show ?thesis by simp
qed

section \<open>A resumed delivery whose lease lapses\<close>

lemma paused_find_resume:
  "find_row p_ticket_id i (upd_rows (\<lambda>p. p_ticket_id p = i) (\<lambda>p. p\<lparr>p_resume_requested := b, p_updated_at := now\<rparr>) ps) =
     map_option (\<lambda>p. p\<lparr>p_resume_requested := b, p_updated_at := now\<rparr>) (find_row p_ticket_id i ps)"
  by (simp add: find_row_upd_key)

lemma returnLapsed_runs:
  assumes "keys_ok db" and t: "ticket_findById db (t_id t) = Some t" "t_status t = InProgress" "t_human_owner t = None"
    and p: "paused_find db (t_id t) = Some p"
  shows "\<exists>s. returnLapsedResumeToPaused en t cid a db = Inr (True, s) \<and> 
    ticket_findById s (t_id t) = Some (moved en ((sysmove (t_id t) a Paused ''claim_expired_mid_resume'' [SystemOverride, PauseDelivery])
        \<lparr>ti_expectedFromStatus := Some InProgress\<rparr>) t t) \<and> \<not> hasActiveForTicket s (t_id t) \<and>
    paused_find s (t_id t) = Some (p\<lparr>p_resume_requested := False, p_updated_at := en_now en\<rparr>)"
proof -
  let ?inp = "(sysmove (t_id t) a Paused ''claim_expired_mid_resume'' [SystemOverride, PauseDelivery])
      \<lparr>ti_expectedFromStatus := Some InProgress\<rparr>"
  let ?e = "transition_effect en ?inp t db"
  have "transition_check en ?inp db t = Inr None"
    using t by (simp add: transition_check_def ALLOWED_def violatedGuard_def GUARDED_EDGES_def edge_matches_def)
  then obtain x where tr: "transition en ?inp db = Inr (x, ?e)"
    using transition_eq [of db en ?inp] assms(1) t(1) by (auto simp: keys_ok_def)
  have f: "ticket_findById ?e (t_id t) = Some (moved en ?inp t t)"
    using find_moved [OF t(1)] .
  have l: "\<not> hasActiveForTicket ?e (t_id t)"
    by (simp add: transition_effect_def hasActiveForTicket_def active_release_claims)
  have c: "db_paused ?e = db_paused db" by (simp add: transition_effect_def keeps_context_def)
  show ?thesis
    using t(2,3) p f l tr
    by (auto simp: returnLapsedResumeToPaused_def bindT_def [of "transition _ _"] setResumeRequested_def bindT_writeEvent returnT_def
        ticket_findById_def hasActiveForTicket_def paused_find_def c paused_find_resume)
qed

text \<open>
  A resumed delivery whose lease lapses goes back to the human's gate: the sweep of that
  claim closes it, parks the ticket as paused without any lease, keeps its pause context (the
  preserved worktree) and clears the resume request, so no agent picks it up on its own.
\<close>

theorem lapsed_resume_returns_to_paused:
  assumes "keys_ok db" and "ticket_findById db (c_ticket_id c) = Some t" and "t_status t = InProgress"
    and "t_human_owner t = None" and "paused_find db (c_ticket_id c) = Some p"
  shows "\<exists>db' u. expireOne en a c db = Inr (None, db') \<and> ticket_findById db' (c_ticket_id c) = Some u \<and> t_status u = Paused \<and>
    \<not> hasActiveForTicket db' (c_ticket_id c) \<and>
    paused_find db' (c_ticket_id c) = Some (p\<lparr>p_resume_requested := False, p_updated_at := en_now en\<rparr>)"
proof -
  let ?s = "close_claim (c_id c) ClExpired (en_now en) db"
  have i: "c_ticket_id c = t_id t" using ticket_findById_SomeD [OF assms(2)] by simp
  have k: "keys_ok ?s" using assms(1) by (rule keys_ok_close) simp
  have f: "ticket_findById ?s (t_id t) = Some t" using assms(2) i by simp
  have p: "paused_find ?s (t_id t) = Some p" using assms(5) i by (simp add: close_claim_def paused_find_def)
  from returnLapsed_runs [OF k f assms(3,4) p, of en "c_id c" a] show ?thesis
    using f assms(3) i by (auto simp: expireOne_def bindT_def claim_setStatus_eq getT_def returnT_def)
qed

definition sample_pause :: paused_delivery where
  "sample_pause = \<lparr>p_ticket_id = ''t1'', p_reason = CapHit, p_branch_name = Some ''b'', p_worktree_path = None,
     p_worktrees_json = None, p_repo = None, p_attempt = 1, p_turns = None, p_spend = None,
     p_resume_requested = True, p_created_at = 0, p_updated_at = 0\<rparr>"

text \<open>A resumed delivery under a lease that ran out.\<close>

definition resumed_db :: db where
  "resumed_db = (leased_db InProgress 1000)\<lparr>db_paused := [sample_pause]\<rparr>"

lemma resumed_db_facts:
  "keys_ok resumed_db" "ticket_findById resumed_db ''t1'' = Some (sample_ticket ''t1'' 1 InProgress)"
  "paused_find resumed_db ''t1'' = Some sample_pause"
  using keys_leased_db [of InProgress 1000]
  by (simp_all add: resumed_db_def) (simp_all add: ticket_findById_def find_row_def leased_db_def paused_find_def sample_pause_def)

theorem lapsed_resume_returns_to_paused_witness:
  "\<exists>db' u. expireOne sample_env sample_human (sample_claim ''c1'' ''t1'' ''sha:ct_x'' 1000) resumed_db = Inr (None, db') \<and>
     ticket_findById db' ''t1'' = Some u \<and> t_status u = Paused"
  using lapsed_resume_returns_to_paused [OF resumed_db_facts(1), of "sample_claim ''c1'' ''t1'' ''sha:ct_x'' 1000"
      "sample_ticket ''t1'' 1 InProgress" sample_pause sample_env sample_human] resumed_db_facts(2,3)
  by (auto simp: sample_claim_def)

section \<open>A targeted claim loses the recovery\<close>

lemma resumed_candidate:
  "candidate_where resumed_db (en_now sample_env) 2 caps (sample_ticket ''t1'' 1 InProgress)"
  "cr_expired_claim_id (candidate_of resumed_db (en_now sample_env) (sample_ticket ''t1'' 1 InProgress)) = Some ''c1''"
  by (simp_all add: candidate_where_def queue_ready_def lease_free_def expired_claims_def candidate_of_def resumed_db_def leased_db_def
      sample_claim_def claim_active_def sample_env_def sample_ticket_def) (simp_all add: empty_db_def)

lemma resumed_reap:
  assumes "cr_expired_claim_id cand = Some ''c1''" and "cr_id cand = ''t1''"
  shows "\<exists>s. reapExpired sample_env cand a (resumed_db\<lparr>db_agents := ags\<rparr>) = Inr (True, s) \<and>
    (\<exists>u. ticket_findById s ''t1'' = Some u \<and> t_status u = Paused)"
proof -
  let ?s = "close_claim ''c1'' ClExpired (en_now sample_env) (resumed_db\<lparr>db_agents := ags\<rparr>)"
  let ?t = "sample_ticket ''t1'' 1 InProgress"
  have k: "keys_ok ?s" using resumed_db_facts(1) by (intro keys_ok_close) simp_all
  have f: "ticket_findById ?s (t_id ?t) = Some ?t" using resumed_db_facts(2) by (simp add: ticket_findById_def close_claim_def)
  have p: "paused_find ?s (t_id ?t) = Some sample_pause"
    using resumed_db_facts(3) by (simp add: close_claim_def paused_find_def)
  from returnLapsed_runs [OF k f _ _ p, of sample_env "''c1''" a] show ?thesis
    using assms f by (auto simp: reapExpired_def bindT_def claim_setStatus_eq getT_def returnT_def)
qed

text \<open>
  A targeted claim can throw the recovery away. On an example of a resumed delivery whose lease lapsed,
  \<open>claimTicket\<close> throws TICKET_NOT_CLAIMABLE after it parked the ticket, and the throw rolls the
  parking back, so the ticket stays in_progress under its dead lease. \<open>claimNextTicket\<close> on the
  same state claims nothing and commits the parking.
\<close>

lemma targeted_claim_loses_recovery:
  "claimTicket sample_env ''t1'' ''a1'' 3600 sample_human resumed_db = Inl (DispatchError TICKET_NOT_CLAIMABLE) \<and>
   (\<exists>db'. claimNextTicket sample_env ''a1'' 3600 sample_human resumed_db = Inr (None, db') \<and>
      (\<exists>u. ticket_findById db' ''t1'' = Some u \<and> t_status u = Paused))"
proof -
  let ?ag = "sample_agent ''a1''"
  let ?t = "sample_ticket ''t1'' 1 InProgress"
  have ag: "agent_findById resumed_db ''a1'' = Some ?ag" "g_status ?ag = AgActive" "g_id ?ag = ''a1''"
    by (simp_all add: agent_findById_def resumed_db_def leased_db_def find_row_def sample_agent_def)
  have cr: "cc_maxRiskRank (criteria_of resumed_db ?ag) = 2" by (simp add: criteria_of_def sample_agent_def)
  have rows: "db_tickets resumed_db = [?t]" by (simp add: resumed_db_def leased_db_def)
  let ?c = "candidate_of resumed_db (en_now sample_env) ?t"
  have one: "candidateForTicket resumed_db ''t1'' (en_now sample_env) (criteria_of resumed_db ?ag) = Some ?c"
    and all: "candidateTickets resumed_db (en_now sample_env) (criteria_of resumed_db ?ag) = [?c]"
    using resumed_candidate(1) by (simp_all add: candidateForTicket_def candidateTickets_def rows cr Let_def)
  obtain s where s: "reapExpired sample_env ?c sample_human (resumed_db\<lparr>db_agents := upd_rows (\<lambda>a. g_id a = ''a1'')
      (\<lambda>a. a\<lparr>g_last_seen_at := Some (en_now sample_env), g_updated_at := en_now sample_env\<rparr>) (db_agents resumed_db)\<rparr>) = Inr (True, s)"
    "\<exists>u. ticket_findById s ''t1'' = Some u \<and> t_status u = Paused"
    using resumed_reap [OF resumed_candidate(2)] by fastforce
  have "claimTicket sample_env ''t1'' ''a1'' 3600 sample_human resumed_db = Inl (DispatchError TICKET_NOT_CLAIMABLE)"
    using ag s(1) one resumed_db_facts(2)
    by (simp add: claimTicket_def findActiveAgent_def bindT_def agent_touch_eq getT_def attemptClaim_def returnT_def throwT_def)
  moreover have "claimNextTicket sample_env ''a1'' 3600 sample_human resumed_db = Inr (None, s)"
    using ag s(1) all
    by (simp add: claimNextTicket_def findActiveAgent_def bindT_def agent_touch_eq getT_def attemptClaim_def returnT_def)
  ultimately show ?thesis using s(2) by blast
qed

section \<open>A runner release skips the ready gate\<close>

text \<open>
  \<open>runnerRelease\<close> does not check that the ticket is in delivery: a draft of the strict pack
  that fails its ready gate is put into the queue by a release without a claim token, by any
  actor.
\<close>

theorem runner_release_skips_gate:
  "let t = (sample_ticket ''t1'' 1 Draft)\<lparr>t_policy_pack := Strict\<rparr>; db = one_ticket t in
   \<not> pr_allowed (evaluate sample_env db t GateReady None) \<and>
   (\<exists>ev db' u. runnerRelease sample_env \<lparr>rr_ticket_id = ''t1'', rr_to = ToReady, rr_claimToken = None, rr_reason = None,
        rr_reasonCode = None, rr_attempt = None, rr_maxAttempts = None, rr_pausedUntil = None\<rparr> a db = Inr ((Ready, ev), db') \<and>
      ticket_findById db' ''t1'' = Some u \<and> t_status u = Ready)"
proof -
  let ?t = "(sample_ticket ''t1'' 1 Draft)\<lparr>t_policy_pack := Strict\<rparr>"
  let ?inp = "sysmove ''t1'' a Ready ''runner_release_ready'' [SystemOverride, RunnerRelease]"
  have denied: "\<not> pr_allowed (evaluate sample_env (one_ticket ?t) ?t GateReady None)"
    unfolding evaluate_def allowed_iff
    by (simp add: ready_failures_Nil_iff policyContext_def ac_listForTicket_def) (simp add: one_ticket_def empty_db_def)
  have "transition_check sample_env ?inp (one_ticket ?t) ?t = Inr None"
    by (simp add: transition_check_def ALLOWED_def violatedGuard_def GUARDED_EDGES_def edge_matches_def)
  then have "transition sample_env ?inp (one_ticket ?t) =
      Inr (\<lparr>tres_ticket = moved sample_env ?inp ?t ?t, tres_eventId = en_uuid sample_env EventId (length (db_events (one_ticket ?t))),
        tres_policy = None\<rparr>, transition_effect sample_env ?inp ?t (one_ticket ?t))"
    by (simp add: transition_eq)
  moreover have "ticket_findById (transition_effect sample_env ?inp ?t (one_ticket ?t)) ''t1'' = Some (moved sample_env ?inp ?t ?t)"
    by (simp add: transition_effect_def ticket_findById_def one_ticket_def find_row_def upd_rows_def)
  ultimately show ?thesis
    using denied by (simp add: runnerRelease_def bindT_def resolveRef_def resolve_ref_def truthy_def whenT_def returnT_def Let_def)
qed

end
