(* ===== verification/Pause_Props.thy ===== *)
theory Pause_Props
  imports Recovery_Props
begin

text \<open>
  The properties of pause on cap: a paused delivery keeps its context, and a human's continue
  always gets it back to work with that context.
\<close>

section \<open>Pause and resume\<close>

lemma pause_effect:
  assumes "keys_ok db"
  shows "wp (pauseDelivery en r inp a) (\<lambda>_ s. \<exists>t m pl. resolve_ref db r = Some t \<and> t_status t \<in> set PAUSABLE_FROM \<and>
     ti_toStatus m = Paused \<and>
     s = add_event en ''ticket'' (t_id t) a ''ticket.paused'' pl (put_context (t_id t) (pause_ctx inp) (en_now en)
       (transition_effect en m t db))) db"
  unfolding pauseDelivery_def wp_simps
  by (auto intro!: wp_transition_ref [OF assms]) (rule exI, rule conjI [rotated], rule exI, rule refl, simp)

text \<open>The ticket behind \<open>r\<close> is paused with context \<open>p\<close>.\<close>

definition is_paused :: "db \<Rightarrow> string \<Rightarrow> id \<Rightarrow> paused_delivery \<Rightarrow> bool" where
  "is_paused db r i p = (keys_ok db \<and> (\<exists>t. resolve_ref db r = Some t \<and> t_id t = i \<and> t_status t = Paused) \<and>
     \<not> hasActiveForTicket db i \<and> paused_find db i = Some p)"

text \<open>
  What a pause is given to keep, and what a resume hands back: the ticket, the reason, the branch,
  the worktrees, the repository, the attempt, the turns and the spend.
\<close>

type_synonym delivery_context =
  "id \<times> pause_reason \<times> string option \<times> string option \<times> string option \<times> string option \<times> nat \<times> nat option \<times> string option"

definition given_context :: "id \<Rightarrow> pause_input \<Rightarrow> delivery_context" where
  "given_context i inp = (i, pi_reason inp, pi_branch_name inp, pi_worktree_path inp, pi_worktrees_json inp, pi_repo inp,
     (case pi_attempt inp of None \<Rightarrow> 0 | Some n \<Rightarrow> n), pi_turns inp, pi_spend inp)"

definition resume_context :: "paused_delivery \<Rightarrow> delivery_context" where
  "resume_context p = (p_ticket_id p, p_reason p, p_branch_name p, p_worktree_path p, p_worktrees_json p, p_repo p,
     p_attempt p, p_turns p, p_spend p)"

lemma resolve_ref_tickets: "db_tickets s = db_tickets s' \<Longrightarrow> resolve_ref s r = resolve_ref s' r"
  by (simp add: resolve_ref_def ticket_findById_def ticket_findByNumber_def split: option.split)

lemma pause_is_paused:
  assumes "keys_ok db" and "pauseDelivery en r inp a db = Inr (res, s)"
  shows "\<exists>i p. is_paused s r i p \<and> resume_context p = given_context i inp"
proof -
  obtain t m pl where t: "resolve_ref db r = Some t" "ti_toStatus m = Paused"
    and s: "s = add_event en ''ticket'' (t_id t) a ''ticket.paused'' pl (put_context (t_id t) (pause_ctx inp) (en_now en)
       (transition_effect en m t db))"
    using wp_Inr [OF pause_effect [OF assms(1)] assms(2)] by blast
  let ?e = "transition_effect en m t db"
  have tk: "db_tickets s = db_tickets ?e" "db_claims s = db_claims ?e" by (simp_all add: s put_context_def)
  have "keys_ok s" using assms(1) by (simp add: s put_context_def keys_ok_transition_effect)
  moreover have "resolve_ref s r = Some (moved en m t t)"
    using resolve_ref_moved [OF assms(1) t(1)] resolve_ref_tickets [OF tk(1)] by simp
  moreover have "\<not> hasActiveForTicket s (t_id t)"
    by (simp add: hasActiveForTicket_def tk(2) t(2) active_release_claims frees_lease_def transition_effect_def)
  moreover have "\<exists>c n. paused_find s (t_id t) = Some (paused_row (t_id t) (pause_ctx inp) c n)"
    using paused_find_put [of "t_id t" "pause_ctx inp" "en_now en" ?e "t_id t"] by (auto simp: s paused_find_def)
  ultimately show ?thesis
    using t(2) unfolding is_paused_def by (fastforce simp: paused_row_def pause_ctx_def resume_context_def given_context_def)
qed

lemma continue_runs:
  assumes "is_paused db r i p"
  shows "\<exists>x s. requestContinue en r a db = Inr (x, s) \<and>
    is_paused s r i (p\<lparr>p_resume_requested := True, p_updated_at := en_now en\<rparr>) \<and>
    i \<in> p_ticket_id ` set (listResumeRequested s)"
proof -
  let ?s = "db\<lparr>db_paused := upd_rows (\<lambda>p. p_ticket_id p = i) (\<lambda>p. p\<lparr>p_resume_requested := True, p_updated_at := en_now en\<rparr>) (db_paused db)\<rparr>"
  obtain t where t: "resolve_ref db r = Some t" "t_id t = i" "t_status t = Paused" and p: "paused_find db i = Some p"
    using assms by (auto simp: is_paused_def)
  have "\<exists>x pl. requestContinue en r a db = Inr (x, add_event en ''ticket'' i a ''ticket.resume_requested'' pl ?s)"
    using t p by (auto simp: requestContinue_def bindT_resolveRef setResumeRequested_def bindT_writeEvent returnT_def add_event_def)
  moreover have "is_paused (add_event en ''ticket'' i a ty pl ?s) r i (p\<lparr>p_resume_requested := True, p_updated_at := en_now en\<rparr>)" for ty pl
    using assms p resolve_ref_tickets [of ?s db]
    by (auto simp: is_paused_def paused_find_def paused_find_resume hasActiveForTicket_def)
  moreover have "i \<in> p_ticket_id ` set (listResumeRequested (add_event en ''ticket'' i a ty pl ?s))" for ty pl
    using find_row_SomeD [OF p [unfolded paused_find_def]]
    by (intro image_eqI [where x = "p\<lparr>p_resume_requested := True, p_updated_at := en_now en\<rparr>"])
      (auto simp: listResumeRequested_def set_upd_rows)
  ultimately show ?thesis by blast
qed

lemma resume_runs:
  assumes "is_paused db r i p"
  shows "\<exists>ev s t. pause_beginResume en r a db = Inr ((i, ev, p), s) \<and> ticket_findById s i = Some t \<and> t_status t = InProgress \<and>
     paused_find s i = Some (p\<lparr>p_resume_requested := False, p_updated_at := en_now en\<rparr>)"
proof -
  obtain t where t: "resolve_ref db r = Some t" "t_id t = i" "t_status t = Paused" and p: "paused_find db i = Some p" and k: "keys_ok db"
    using assms by (auto simp: is_paused_def)
  let ?inp = "(sysmove i a InProgress ''resume_delivery'' [ResumeDelivery])\<lparr>ti_expectedFromStatus := Some Paused\<rparr>"
  let ?e = "transition_effect en ?inp t db"
  have f: "ticket_findById db i = Some t" using resolve_ref_find [OF k t(1)] t(2) by simp
  have "transition_check en ?inp db t = Inr None"
    using t by (simp add: transition_check_def ALLOWED_def violatedGuard_def GUARDED_EDGES_def edge_matches_def)
  then obtain x where tr: "transition en ?inp db = Inr (x, ?e)"
    using transition_eq [of db en ?inp] k f by (auto simp: keys_ok_def)
  have m: "ticket_findById ?e i = Some (moved en ?inp t t)" using find_moved [OF f] .
  have c: "db_paused ?e = db_paused db" by (simp add: transition_effect_def keeps_context_def)
  show ?thesis
    using t p tr m
    by (auto simp: pause_beginResume_def bindT_resolveRef bindT_def [of "transition _ _"] setResumeRequested_def bindT_writeEvent returnT_def
        ticket_findById_def paused_find_def c paused_find_resume)
qed

text \<open>
  C28. Pause and continue round trip: a paused delivery has lost its lease and its whole context
  (reason, branch, worktrees, repository, attempt, turns, spend) is stored; in any state where
  that ticket is still paused with that context, a request to continue succeeds and the ticket
  shows up for the loop; and in any state where it is still paused with the request on record, the
  resume succeeds, hands back the context of the pause, field by field, and the ticket is in
  progress again.
\<close>

theorem pause_continue_resume:
  assumes "keys_ok db" and "pauseDelivery en r inp a db = Inr (res, db1)"
  shows "\<exists>i p. is_paused db1 r i p \<and> \<not> hasActiveForTicket db1 i \<and> resume_context p = given_context i inp \<and>
    (\<forall>db2. is_paused db2 r i p \<longrightarrow> (\<exists>x db3 p3. requestContinue en2 r a2 db2 = Inr (x, db3) \<and>
       i \<in> p_ticket_id ` set (listResumeRequested db3) \<and> is_paused db3 r i p3 \<and>
       (\<forall>db4. is_paused db4 r i p3 \<longrightarrow> (\<exists>ev q db5 t. pause_beginResume en3 r a3 db4 = Inr ((i, ev, q), db5) \<and>
          resume_context q = given_context i inp \<and> ticket_findById db5 i = Some t \<and> t_status t = InProgress))))"
proof -
  obtain i p where p: "is_paused db1 r i p" "resume_context p = given_context i inp"
    using pause_is_paused [OF assms] by blast
  let ?p = "p\<lparr>p_resume_requested := True, p_updated_at := en_now en2\<rparr>"
  have kept: "resume_context ?p = given_context i inp" using p(2) by (simp add: resume_context_def)
  have resume: "\<exists>ev q db5 t. pause_beginResume en3 r a3 db4 = Inr ((i, ev, q), db5) \<and>
      resume_context q = given_context i inp \<and> ticket_findById db5 i = Some t \<and> t_status t = InProgress"
    if "is_paused db4 r i ?p" for db4 using resume_runs [OF that, of en3 a3] kept by blast
  have "\<exists>x db3. requestContinue en2 r a2 db2 = Inr (x, db3) \<and> i \<in> p_ticket_id ` set (listResumeRequested db3) \<and> is_paused db3 r i ?p"
    if "is_paused db2 r i p" for db2 using continue_runs [OF that, of en2 a2] by blast
  moreover have "\<not> hasActiveForTicket db1 i" using p(1) by (simp add: is_paused_def)
  ultimately show ?thesis using p resume by blast
qed

definition cap_input :: pause_input where
  "cap_input = \<lparr>pi_reason = CapHit, pi_branch_name = Some ''b'', pi_worktree_path = None, pi_worktrees_json = None,
     pi_repo = None, pi_attempt = Some 1, pi_turns = None, pi_spend = None\<rparr>"

theorem pause_continue_resume_witness:
  "\<exists>res db1 x db2. pauseDelivery sample_env ''t1'' cap_input sample_human (leased_db InProgress 90000000) = Inr (res, db1) \<and>
     requestContinue sample_env ''t1'' sample_human db1 = Inr (x, db2) \<and>
     (\<exists>i ev q db3. pause_beginResume sample_env ''t1'' sample_human db2 = Inr ((i, ev, q), db3) \<and> resume_context q = given_context i cap_input)"
proof -
  let ?db = "leased_db InProgress 90000000"
  have t: "ticket_findById ?db ''t1'' = Some (sample_ticket ''t1'' n InProgress)" if "n = 1" for n
    using that by (simp add: ticket_findById_def find_row_def leased_db_def)
  let ?inp = "(sysmove ''t1'' sample_human Paused (''paused_'' @ pause_reason_name CapHit) [PauseDelivery])\<lparr>ti_expectedFromStatus := Some InProgress\<rparr>"
  have "transition_check sample_env ?inp ?db (sample_ticket ''t1'' 1 InProgress) = Inr None"
    by (simp add: transition_check_def ALLOWED_def violatedGuard_def GUARDED_EDGES_def edge_matches_def)
  then have "returns (transition sample_env ?inp) ?db"
    by (intro returns_transition [where t = "sample_ticket ''t1'' 1 InProgress"]) (simp_all add: t)
  then obtain y s where tr: "transition sample_env ?inp ?db = Inr (y, s)" by (blast elim: returnsE)
  have "\<exists>res db1. pauseDelivery sample_env ''t1'' cap_input sample_human ?db = Inr (res, db1)"
    using tr by (simp add: pauseDelivery_def bindT_def resolveRef_def resolve_ref_def t PAUSABLE_FROM_def cap_input_def
        throwIf_def returnT_def paused_upsert_def modifyT_def writeEvent_def Let_def)
  then obtain res db1 where run: "pauseDelivery sample_env ''t1'' cap_input sample_human ?db = Inr (res, db1)" by blast
  obtain i p where p: "is_paused db1 ''t1'' i p"
    and continue: "\<And>db2. is_paused db2 ''t1'' i p \<Longrightarrow> \<exists>x db3 p3. requestContinue sample_env ''t1'' sample_human db2 = Inr (x, db3) \<and>
       is_paused db3 ''t1'' i p3 \<and> (\<forall>db4. is_paused db4 ''t1'' i p3 \<longrightarrow> (\<exists>ev q db5. pause_beginResume sample_env ''t1'' sample_human db4 = Inr ((i, ev, q), db5) \<and>
          resume_context q = given_context i cap_input))"
    using pause_continue_resume [OF keys_leased_db run, of sample_env sample_human sample_env sample_human] by metis
  from continue [OF p] run show ?thesis by blast
qed

end
