(* ===== verification/Decision_Props.thy ===== *)
theory Decision_Props
  imports Pause_Props
begin

text \<open>
  The property of decisions: one that needs a human holds its tickets back until it is
  resolved, and it is resolved once.
\<close>

section \<open>Decisions\<close>

abbreviation decision_row :: "id \<Rightarrow> id \<Rightarrow> decision_relation \<Rightarrow> ticket_decision" where
  "decision_row tid did rel \<equiv> \<lparr>td_ticket_id = tid, td_decision_id = did, td_relation = rel\<rparr>"

lemma wp_link_all:
  "wp (forT tids (\<lambda>tid. decision_link tid did rel)) (\<lambda>_ s'. db_decisions s' = db_decisions s \<and>
     set (db_ticket_decisions s) \<union> (\<lambda>tid. decision_row tid did rel) ` set tids \<subseteq> set (db_ticket_decisions s')) s"
proof (induction tids arbitrary: s)
  case Nil
  then show ?case by (simp add: wp_return)
next
  case (Cons tid tids)
  have "wp (decision_link tid did rel) (\<lambda>_ s'. db_decisions s' = db_decisions s \<and>
      insert (decision_row tid did rel) (set (db_ticket_decisions s)) \<subseteq> set (db_ticket_decisions s')) s"
    by (auto simp: wp_def decision_link_def Let_def)
  then show ?case
    unfolding forT.simps wp_bind by (rule wp_mono) (rule wp_mono [OF Cons.IH], auto)
qed

lemma created_decision:
  assumes "createDecision en inp a db = Inr (d, s)"
  shows "db_decisions s = db_decisions db @ [d] \<and> d_id d \<notin> d_id ` set (db_decisions db) \<and> \<not> decision_settled (d_status d) \<and>
    (\<forall>i \<in> set (linked_tickets inp). decision_row i (d_id d) (decision_link_relation d) \<in> set (db_ticket_decisions s))"
proof -
  have "wp (createDecision en inp a) (\<lambda>d s. db_decisions s = db_decisions db @ [d] \<and> d_id d \<notin> d_id ` set (db_decisions db) \<and>
     \<not> decision_settled (d_status d) \<and>
    (\<forall>i \<in> set (linked_tickets inp). decision_row i (d_id d) (decision_link_relation d) \<in> set (db_ticket_decisions s))) db"
    unfolding createDecision_def wp_simps add_event_simps
    by (intro impI wp_mono [OF wp_link_all]) (auto simp: new_decision_def decision_settled_def)
  from wp_Inr [OF this assms] show ?thesis .
qed

lemma resolve_runs:
  assumes "decision_findById db (rs_decisionId inp) = Some d" and "\<not> decision_settled (d_status d)"
  shows "\<exists>s. resolveDecision en inp a db = Inr (the (decision_findById s (d_id d)), s) \<and>
    (\<exists>f. db_decisions s = upd_rows (\<lambda>x. d_id x = d_id d) f (db_decisions db) \<and>
       (\<forall>x. d_id (f x) = d_id x \<and> d_status (f x) = resolution_status (rs_status inp)))"
proof -
  have "d \<in> set (db_decisions db)" using assms(1) find_row_SomeD by (fastforce simp: decision_findById_def)
  then have hit: "list_ex (\<lambda>x. d_id x = d_id d) (db_decisions db)" by (auto simp: list_ex_iff)
  let ?f = "\<lambda>x. x\<lparr>d_status := resolution_status (rs_status inp), d_resolved_answer := rs_answer inp,
      d_rationale := orElse (rs_rationale inp) (d_rationale x), d_resolved_by := Some (actor_label a),
      d_resolved_at := Some (en_now en), d_updated_at := en_now en\<rparr>"
  let ?s = "add_event en ''decision'' (d_id d) a ''decision.resolved''
      (Some (JObj [(''status'', JStr (resolution_name (rs_status inp))), (''answer'', jopt (rs_answer inp))]))
      (db\<lparr>db_decisions := upd_rows (\<lambda>x. d_id x = d_id d) ?f (db_decisions db)\<rparr>)"
  have "resolveDecision en inp a db = Inr (the (decision_findById ?s (d_id d)), ?s)"
    using assms hit by (simp add: resolveDecision_def bindT_def getDecision_def decision_resolve_def decision_settled_def writeEvent_def
        throwIf_def returnT_def getT_def add_event_def Let_def)
  then show ?thesis by (intro exI [of _ ?s] conjI exI [of _ ?f]) simp_all
qed

text \<open>
  C29. A decision that needs a human holds its tickets back until it is resolved, once: after
  \<open>createDecision\<close> with such a severity no candidate query offers a linked ticket to any agent
  at any time; resolving the decision then succeeds and removes it from what blocks the
  ticket; and resolving it again, either way, throws STATE_CONFLICT.
\<close>

theorem decision_holds_until_resolved:
  assumes "createDecision en inp a db = Inr (d, db1)" and "d_severity d \<notin> {LogOnly, AgentCanChoose}"
    and "i \<in> set (linked_tickets inp)"
  shows "candidateForTicket db1 i now cr = None \<and> i \<notin> cr_id ` set (candidateTickets db1 now cr) \<and>
    (\<exists>x db2. resolveDecision env' \<lparr>rs_decisionId = d_id d, rs_status = how, rs_answer = ans, rs_rationale = why\<rparr> b db1 = Inr (x, db2) \<and>
       d_id d \<notin> d_id ` set (blockingForTicket db2 i) \<and>
       resolveDecision env'' \<lparr>rs_decisionId = d_id d, rs_status = how', rs_answer = ans', rs_rationale = why'\<rparr> b' db2 =
         Inl (DispatchError STATE_CONFLICT))"
proof -
  note c = created_decision [OF assms(1)]
  have rel: "decision_link_relation d = RBlocks" using assms(2) by (simp add: decision_link_relation_def)
  have "blockingForTicket db1 i \<noteq> []"
    unfolding blockingForTicket_Nil_iff using c assms(3) rel by force
  then have none: "\<not> candidate_where db1 n r caps t" if "t_id t = i" for n r caps t
    using candidate_where_settled that by blast
  have cand: "candidateForTicket db1 i now cr = None"
    by (auto simp: candidateForTicket_def Let_def find_None_iff none)
  have scan: "i \<notin> cr_id ` set (candidateTickets db1 now cr)"
    unfolding set_candidateTickets using none by auto
  have "decision_findById db1 (d_id d) = Some d"
    using c find_row_None_iff [of d_id "d_id d" "db_decisions db"]
    by (simp add: decision_findById_def find_row_append) (simp add: find_row_def)
  then obtain s f where s: "resolveDecision env' \<lparr>rs_decisionId = d_id d, rs_status = how, rs_answer = ans, rs_rationale = why\<rparr> b db1 =
        Inr (the (decision_findById s (d_id d)), s)"
      and f: "db_decisions s = upd_rows (\<lambda>x. d_id x = d_id d) f (db_decisions db1)"
        "\<And>x. d_id (f x) = d_id x" "\<And>x. d_status (f x) = resolution_status how"
    using resolve_runs [of db1 "\<lparr>rs_decisionId = d_id d, rs_status = how, rs_answer = ans, rs_rationale = why\<rparr>" d env' b] c by auto
  have settled: "decision_settled (resolution_status how)" by (cases how) (simp_all add: decision_settled_def)
  then have "d_id d \<notin> d_id ` set (blockingForTicket s i)"
    by (auto simp: blockingForTicket_def f set_upd_rows)
  moreover have "decision_findById s (d_id d) = Some (f d)"
    using \<open>decision_findById db1 (d_id d) = Some d\<close> f by (simp add: decision_findById_def find_row_upd_key)
  then have "resolveDecision env'' \<lparr>rs_decisionId = d_id d, rs_status = how', rs_answer = ans', rs_rationale = why'\<rparr> b' s =
      Inl (DispatchError STATE_CONFLICT)"
    using settled f(3) [of d] by (auto simp: resolveDecision_def bindT_def getDecision_def throwIf_def throwT_def decision_settled_def)
  ultimately show ?thesis using cand scan s by blast
qed

definition ask_input :: create_decision_input where
  "ask_input = \<lparr>cd_title = ''Colour'', cd_question = ''Red?'', cd_severity = Some HumanRequired, cd_ticketId = Some ''t1'', cd_ticketIds = []\<rparr>"

theorem decision_holds_until_resolved_witness:
  "\<exists>d db1 x db2. createDecision sample_env ask_input sample_human (one_ticket (sample_ticket ''t1'' 1 Ready)) = Inr (d, db1) \<and>
     candidateForTicket db1 ''t1'' 0 \<lparr>cc_maxRiskRank = 3, cc_capabilities = []\<rparr> = None \<and>
     resolveDecision sample_env \<lparr>rs_decisionId = d_id d, rs_status = Accept, rs_answer = None, rs_rationale = None\<rparr> sample_human db1 = Inr (x, db2)"
proof -
  let ?db = "one_ticket (sample_ticket ''t1'' 1 Ready)"
  have l: "''t1'' \<in> set (linked_tickets ask_input)" "linked_tickets ask_input = [''t1'']"
    by (simp_all add: linked_tickets_def ask_input_def)
  have ne: "js_trim (cd_title ask_input) \<noteq> []" "js_trim (cd_question ask_input) \<noteq> []"
    by (simp_all add: ask_input_def js_trim_def js_ws_def)
  have rows: "db_decisions (one_ticket t) = []" "db_ticket_decisions (one_ticket t) = []" "db_tickets (one_ticket t) = [t]" for t
    by (simp_all add: one_ticket_def empty_db_def)
  have run: "\<exists>db1. createDecision sample_env ask_input sample_human ?db = Inr (new_decision sample_env ask_input ?db, db1)"
    by (simp add: createDecision_def ne l(2) bindT_def throwIf_def returnT_def getT_def decision_insert_def decision_link_def Let_def
        writeEvent_def rows)
  then obtain db1 where run: "createDecision sample_env ask_input sample_human ?db = Inr (new_decision sample_env ask_input ?db, db1)" ..
  have "d_severity (new_decision sample_env ask_input ?db) \<notin> {LogOnly, AgentCanChoose}" by (simp add: new_decision_def ask_input_def)
  from decision_holds_until_resolved [OF run this l(1), where now = 0 and cr = "\<lparr>cc_maxRiskRank = 3, cc_capabilities = []\<rparr>"
      and env' = sample_env and how = Accept and ans = None and why = None and b = sample_human] run
  show ?thesis by blast
qed

end
