(* ===== verification/Landing_Props.thy ===== *)
theory Landing_Props
  imports System
begin

text \<open>
  The properties of landing: what it takes to mark a ticket merged, which landings may start
  and be recorded, and that a ticket whose change landed is not cancelled. 
\<close>

section \<open>What the landing status depends on\<close>

text \<open>
  The status is a function of the evidence, of the repositories and their links, of the last
  transition off the approval's path and of the ticket's branch.
\<close>

definition same_landing :: "id \<Rightarrow> db \<Rightarrow> db \<Rightarrow> bool" where
  "same_landing tid s s' = (db_evidence s' = db_evidence s \<and> db_repositories s' = db_repositories s \<and>
     db_ticket_repos s' = db_ticket_repos s \<and> db_repo_deliveries s' = db_repo_deliveries s \<and>
     last_off_path s' tid = last_off_path s tid \<and>
     Option.bind (ticket_findById s' tid) t_branch_name = Option.bind (ticket_findById s tid) t_branch_name)"

lemma same_landing_reads:
  assumes "same_landing tid s s'"
  shows "review_pins s' tid = review_pins s tid" "write_repos s' tid = write_repos s tid"
    "repo_state s' tid r pin = repo_state s tid r pin" "stale s' tid since = stale s tid since"
    "recordedLandingRepos s' tid = recordedLandingRepos s tid"
proof -
  have e: "system_commits s' tid pre = system_commits s tid pre" for pre
    using assms by (simp add: same_landing_def system_commits_def)
  have r: "repo_findById s' = repo_findById s" "find_link s' = find_link s" "delivery_find s' = delivery_find s"
    using assms by (simp_all add: same_landing_def repo_findById_def [abs_def] find_link_def [abs_def] delivery_find_def [abs_def])
  show "review_pins s' tid = review_pins s tid" "recordedLandingRepos s' tid = recordedLandingRepos s tid"
    by (simp_all add: review_pins_def recordedLandingRepos_def evidence_repo_def e r)
  show "write_repos s' tid = write_repos s tid"
    using assms unfolding write_repos_def r by (simp add: same_landing_def)
  have b: "landing_branch s' tid rid = landing_branch s tid rid" for rid
    using assms unfolding landing_branch_def r same_landing_def by (elim conjE) (simp only:)
  show "repo_state s' tid r pin = repo_state s tid r pin"
    unfolding repo_state_def isLanded_def landed_vias_def landing_pr_def b r e ..
  show "stale s' tid since = stale s tid since"
    using assms by (simp add: stale_def same_landing_def)
qed

lemma same_landing_pins:
  assumes "same_landing tid s s'"
  shows "pin_states s' tid seen ps = pin_states s tid seen ps"
  by (induction ps arbitrary: seen) (auto simp: same_landing_reads [OF assms])

lemma same_landing_status:
  assumes "same_landing tid s s'"
  shows "computeLandingStatus coll s' tid = computeLandingStatus coll s tid"
  unfolding computeLandingStatus_def same_landing_pins [OF assms] same_landing_reads [OF assms] ..

text \<open>A transition along the approval's path without a patch changes none of it.\<close>

lemma transition_to:
  "json_text ''to'' (we_payload (transition_event en inp t db)) = Some (status_name (ti_toStatus inp))"
  by (simp add: transition_event_def transition_payload_def json_text_def)

lemma same_landing_transition:
  assumes "status_name (ti_toStatus inp) \<in> set APPROVAL_PATH" and "ti_patch inp = None"
  shows "same_landing tid db (transition_effect en inp t db)"
proof -
  have "Option.bind (ticket_findById (transition_effect en inp t db) tid) t_branch_name =
      Option.bind (ticket_findById db tid) t_branch_name"
    using findById_upd [where f = "moved en inp t" and db = db and i = "t_id t" and j = tid] assms(2)
    by (cases "ticket_findById db tid")
      (auto simp: transition_effect_def ticket_findById_def moved_def apply_status_def no_patch_def Let_def)
  moreover have "last_off_path (transition_effect en inp t db) tid = last_off_path db tid"
    using assms(1) transition_to [of en inp t db] by (simp add: last_off_path_def transition_effect_def)
  ultimately show ?thesis by (simp add: same_landing_def) (simp add: transition_effect_def)
qed

section \<open>What the landing status says\<close>

lemma pin_states_mem:
  "r \<in> set (pin_states db tid seen ps) \<Longrightarrow> \<exists>rp sha. r = repo_state db tid rp (Some sha)"
  by (induction ps arbitrary: seen) (fastforce split: if_split_asm)+

definition landing_row :: "db \<Rightarrow> id \<Rightarrow> id \<Rightarrow> string \<Rightarrow> evidence \<Rightarrow> bool" where
  "landing_row db tid rid sha e = (e \<in> set (db_evidence db) \<and> ev_ticket_id e = tid \<and> ev_type e = Commit
     \<and> ev_recorded_by e = Some System \<and> ev_repo_id e = Some rid \<and> shaOf (ev_uri e) LANDING_PREFIX = Some sha)"

lemma isLandedD: "isLanded db tid rid sha pr \<Longrightarrow> \<exists>e. landing_row db tid rid sha e"
  by (auto simp: isLanded_def landed_vias_def system_commits_def Let_def filter_empty_conv landing_row_def)

lemma status_landedD:
  assumes "r \<in> set (ls_repos (computeLandingStatus coll db tid))" and "lr_landed r"
  shows "lr_pinned r \<and> (\<exists>e. landing_row db tid (lr_repoId r) (lr_sha r) e)"
proof -
  from assms(1) obtain rp pin where r: "r = repo_state db tid rp pin"
    by (auto simp: computeLandingStatus_def Let_def dest: pin_states_mem)
  with assms(2) show ?thesis by (cases pin) (auto simp: repo_state_def dest: isLandedD)
qed

lemma pending_0:
  "ls_pending (computeLandingStatus coll db tid) = 0 \<longleftrightarrow>
     (\<forall>r \<in> set (ls_repos (computeLandingStatus coll db tid)). lr_landed r)"
proof -
  have "length xs - length (filter P xs) = 0 \<longleftrightarrow> (\<forall>x \<in> set xs. P x)" for P and xs :: "'a list"
    by (induction xs) (auto simp: Suc_diff_le)
  moreover have "ls_pending st = length (ls_repos st) - length (filter lr_landed (ls_repos st))"
    if "st = computeLandingStatus coll db tid" for st
    using that unfolding computeLandingStatus_def Let_def by (simp only: landing_status.select_convs)
  ultimately show ?thesis by metis
qed

lemma status_repos_set:
  "set (ls_repos (computeLandingStatus coll db tid)) = (let pinned = pin_states db tid [] (review_pins db tid) in
     set pinned \<union> (if pinned = [] then {} else (\<lambda>r. repo_state db tid r None) `
       {r \<in> set (write_repos db tid). r_id r \<notin> lr_repoId ` set pinned}))"
  by (simp add: computeLandingStatus_def Let_def)

lemma status_covers_writes:
  assumes "ls_repos (computeLandingStatus coll db tid) \<noteq> []" and "w \<in> set (write_repos db tid)"
  shows "r_id w \<in> lr_repoId ` set (ls_repos (computeLandingStatus coll db tid))"
proof -
  let ?pinned = "pin_states db tid [] (review_pins db tid)"
  have "?pinned \<noteq> []" using assms(1) status_repos_set [of coll db tid] by (auto simp: Let_def split: if_splits)
  moreover have "lr_repoId (repo_state db tid w None) = r_id w" by (simp add: repo_state_def)
  ultimately show ?thesis
    using assms(2) unfolding status_repos_set Let_def by (cases "r_id w \<in> lr_repoId ` set ?pinned") force+
qed

section \<open>A worked example\<close>

definition sample_repo :: repository where
  "sample_repo = \<lparr>r_id = ''r1'', r_name = ''app'', r_local_path = None, r_remote_url = None, r_default_branch = ''main'',
     r_stack = None, r_risk_level = Low, r_test_command = None, r_lint_command = None, r_coverage_command = None,
     r_hidden = False, r_created_at = 0, r_updated_at = 0\<rparr>"

definition sample_sha :: string where
  "sample_sha = replicate 40 (CHR ''a'')"

text \<open>A SYSTEM commit row of ticket \<open>t1\<close> in \<open>app\<close>.\<close>

definition sample_row :: "id \<Rightarrow> string \<Rightarrow> evidence" where
  "sample_row i pre = \<lparr>ev_id = i, ev_ticket_id = ''t1'', ev_ac_id = None, ev_repo_id = Some ''r1'', ev_decision_id = None,
     ev_type = Commit, ev_summary = ''row'', ev_uri = Some (pre @ sample_sha), ev_payload_json = None,
     ev_created_by = ''dispatch'', ev_recorded_by = Some System, ev_created_at = 0\<rparr>"

definition sample_le :: landing_env where
  "sample_le = \<lparr>le_collate = (\<lambda>s. s), le_landedOnDefault = Some (\<lambda>_ _. True), le_changeOnRefs = None,
     le_reviewedHeads = (\<lambda>_ _. []), le_approvalShas = (\<lambda>_ _. None), le_maxAttempts = 3\<rparr>"

definition sample_link :: ticket_repo where
  "sample_link = \<lparr>tr_ticket_id = ''t1'', tr_repo_id = ''r1'', tr_role = RolePrimary, tr_branch_name = None,
     tr_pr_url = None, tr_access = AccWrite, tr_relation = RelConfirmed, tr_source = SrcManual,
       tr_confidence = None, tr_reasons = None, tr_created_at = 0, tr_updated_at = 0\<rparr>"

text \<open>An approved ticket with one pinned write repository, landed or not.\<close>

definition approved_db :: "ticket_status \<Rightarrow> evidence list \<Rightarrow> db" where
  "approved_db st rows = empty_db\<lparr>db_tickets := [sample_ticket ''t1'' 1 st], db_repositories := [sample_repo],
     db_ticket_repos := [sample_link], db_evidence := sample_row ''pin'' REVIEW_PIN_PREFIX # rows\<rparr>"

abbreviation landed_rows :: "evidence list" where
  "landed_rows \<equiv> [sample_row ''land'' LANDING_PREFIX]"

definition sample_runner :: actor where
  "sample_runner = \<lparr>a_type = System, a_id = None\<rparr>"

definition sample_landing :: landing_input where
  "sample_landing = \<lparr>li_repo = ''app'', li_commit = sample_sha, li_approval = None, li_via = Some ''local''\<rparr>"

lemma sample_resolve: "n = 1 \<Longrightarrow> resolve_ref (approved_db st rows) ''t1'' = Some (sample_ticket ''t1'' n st)"
  by (simp add: resolve_ref_def ticket_findById_def find_row_def approved_db_def sample_ticket_def)

lemma sample_plan:
  "find_repo (computeLandingStatus (\<lambda>s. s) (approved_db st []) ''t1'') ''app'' =
     Some (repo_state (approved_db st []) ''t1'' sample_repo (Some sample_sha))"
  "ls_pending (computeLandingStatus (\<lambda>s. s) (approved_db st landed_rows) ''t1'') = 0"
  "ls_repos (computeLandingStatus (\<lambda>s. s) (approved_db st landed_rows) ''t1'') \<noteq> []"
  "recordedLandingRepos (approved_db st landed_rows) ''t1'' = [''app'']" "recordedLandingRepos (approved_db st []) ''t1'' = []"
  "full_sha sample_sha" "landing_sha sample_sha = sample_sha"
  by code_simp+

lemma sample_quiet:
  "ci_required (ciStatus (approved_db st rows) i c) = False" "approvalRef (approved_db st rows) i = None"
  "landingsStarted le (approved_db st rows) i = []"
  by (simp_all add: ciStatus_def ci_results_def approved_db_def empty_db_def approvalRef_def landingsStarted_def started_events_def)

lemma sample_fields:
  "t_status (sample_ticket i n st) = st" "t_id (sample_ticket i n st) = i"
  "lr_sha (repo_state db i sample_repo (Some s)) = s" "lr_repoId (repo_state db i sample_repo p) = ''r1''"
  "le_collate sample_le = (\<lambda>s. s)" "le_landedOnDefault sample_le = Some (\<lambda>_ _. True)"
  "system_or_admin sample_runner" "distinct (map t_id (db_tickets (approved_db st rows)))"
  by (simp_all add: sample_ticket_def repo_state_def sample_repo_def sample_le_def sample_runner_def system_or_admin_def
      approved_db_def)

lemmas sample_facts = bindT_resolveRef [OF sample_resolve [OF refl]] sample_resolve [OF refl] sample_plan sample_quiet sample_fields

section \<open>Done means landed\<close>

lemma tickets_kept:
  "keepsT (\<lambda>s. db_tickets s = T) (writeEvent en et ei ac ty pl)"
  "keepsT (\<lambda>s. db_tickets s = T) (insert_commit en tid rid sm u p)"
  "keepsT (\<lambda>s. db_tickets s = T) (resolveRef r)"
  by (rule keepsT_I; simp add: wp_simps)+

lemma settle_tickets: "framedP (\<lambda>s s'. db_tickets s = T \<longrightarrow> db_tickets s' = T) (settle_from_git en le tid st)"
  unfolding settle_from_git_def recordLanding_def write_landing_def assertPrLanding_def Let_def by (intro frames tickets_kept)

lemma finish_mergeD:
  assumes "distinct (map t_id (db_tickets db))" and "finish_merge en le t actor db = Inr (res, db')"
  shows "\<exists>u inp. ticket_findById db (t_id t) = Some u \<and> t_status u = ReadyForMerge \<and> tres_ticket res = moved en inp u u \<and>
    ti_toStatus inp = Done \<and> ti_patch inp = None \<and> db' = transition_effect en inp u db \<and>
    ls_pending (computeLandingStatus (le_collate le) db (t_id t)) = 0"
proof -
  define inp where "inp = (sysmove (t_id t) actor Done ''merge_completed'' [MarkMerged])
    \<lparr>ti_expectedFromStatus := Some ReadyForMerge, ti_approvedUnchanged := map_option Some (computeApprovedUnchanged le db t)\<rparr>"
  from assms(2) have tr: "transition en inp db = Inr (res, db')"
    and p: "ls_pending (computeLandingStatus (le_collate le) db (t_id t)) = 0"
    by (auto simp: finish_merge_def inp_def split: if_split_asm)
  then obtain u pol where u: "ticket_findById db (t_id t) = Some u" "transition_check en inp db u = Inr pol"
    "tres_ticket res = moved en inp u u" "db' = transition_effect en inp u db"
    using transition_eq [OF assms(1), of en inp] by (auto simp: inp_def sysmove_def move_def split: option.splits sum.splits)
  moreover have "t_status u = ReadyForMerge"
    using transition_checkD(4) [OF u(2)] by (simp add: inp_def)
  moreover have "ti_toStatus inp = Done" "ti_patch inp = None" by (simp_all add: inp_def sysmove_def move_def)
  ultimately show ?thesis using p by blast
qed

text \<open>
  C3. Done means landed. When marking a ticket merged returns, the ticket was ready_for_merge and is
  done, and for every repository of its landing plan there is a landing row, written by the system,
  of exactly the approved commit; unless the plan is empty, it covers every repository the ticket
  may write. An approval that pinned no commit (an agent's that named none) leaves an empty plan:
  then nothing is required to have landed.
\<close>

theorem merged_means_landed:
  assumes "distinct (map t_id (db_tickets db))" and "markMerged en le ref actor db = (Inr res, db')"
  shows "\<exists>t. resolve_ref db ref = Some t \<and> system_or_admin actor \<and> t_status t = ReadyForMerge \<and>
    ticket_findById db' (t_id t) = Some (tres_ticket res) \<and> t_status (tres_ticket res) = Done \<and>
    (let plan = set (ls_repos (computeLandingStatus (le_collate le) db' (t_id t))) in
      (\<forall>r \<in> plan. lr_pinned r \<and> (\<exists>e. landing_row db' (t_id t) (lr_repoId r) (lr_sha r) e)) \<and>
      (plan \<noteq> {} \<longrightarrow> (\<forall>w \<in> set (write_repos db' (t_id t)). r_id w \<in> lr_repoId ` plan)))"
proof -
  from assms(2) obtain t s where t: "system_or_admin actor" "resolve_ref db ref = Some t"
    and settle: "settle_from_git en le (t_id t) (computeLandingStatus (le_collate le) db (t_id t)) db = (Inr (), s)"
    and fin: "finish_merge en le t actor s = Inr (res, db')"
    by (auto simp: markMerged_def thenP_Inr run_tx_Inr resolveRef_def getT_def split: if_split_asm option.splits)
  have same: "db_tickets s = db_tickets db" using framedPD [OF settle_tickets settle] by blast
  then have d: "distinct (map t_id (db_tickets s))" using assms(1) by simp
  obtain u inp where u: "ticket_findById s (t_id t) = Some u" "t_status u = ReadyForMerge" "tres_ticket res = moved en inp u u"
    "ti_toStatus inp = Done" "ti_patch inp = None" "db' = transition_effect en inp u s"
    and none: "ls_pending (computeLandingStatus (le_collate le) s (t_id t)) = 0"
    using finish_mergeD [OF d fin] by blast
  have "u = t" using u(1) same resolve_ref_mem [OF t(2)] assms(1)
    by (auto simp: ticket_findById_def find_row_Some_iff dest: distinct_keyD)
  moreover have "ticket_findById db' (t_id t) = Some (moved en inp u u)"
    using u(1,6) \<open>u = t\<close> findById_upd [where f = "moved en inp u" and db = s and i = "t_id t" and j = "t_id t"]
    by (simp add: transition_effect_def ticket_findById_def)
  moreover have st: "computeLandingStatus (le_collate le) db' (t_id t) = computeLandingStatus (le_collate le) s (t_id t)"
    unfolding u(6) by (rule same_landing_status [OF same_landing_transition]) (simp_all add: u(4,5) APPROVAL_PATH_def)
  moreover have "\<forall>r \<in> set (ls_repos (computeLandingStatus (le_collate le) db' (t_id t))). lr_landed r"
    using none unfolding st pending_0 .
  ultimately show ?thesis
    using t u status_landedD [where db = db' and coll = "le_collate le" and tid = "t_id t"]
      status_covers_writes [where db = db' and coll = "le_collate le" and tid = "t_id t"] unfolding Let_def
    by (intro exI [of _ t] conjI) auto
qed

lemma sample_merge:
  "\<exists>res db'. markMerged sample_env sample_le ''t1'' sample_runner (approved_db ReadyForMerge landed_rows) = (Inr res, db')"
proof -
  have "case transition sample_env ((sysmove ''t1'' sample_runner Done ''merge_completed'' [MarkMerged])
       \<lparr>ti_expectedFromStatus := Some ReadyForMerge, ti_approvedUnchanged := None\<rparr>) (approved_db ReadyForMerge landed_rows) of
     Inl _ \<Rightarrow> False | Inr _ \<Rightarrow> True" by code_simp
  moreover have "le_approvalShas sample_le = (\<lambda>_ _. None)" by (simp add: sample_le_def)
  ultimately have fin: "\<exists>res db'. finish_merge sample_env sample_le t sample_runner (approved_db ReadyForMerge landed_rows) = Inr (res, db')"
    if "t_id t = ''t1''" for t
    using that by (auto simp: finish_merge_def computeApprovedUnchanged_def sample_facts split: sum.splits)
  show ?thesis
    using fin [of "sample_ticket ''t1'' 1 ReadyForMerge"]
    by (auto simp: markMerged_def thenP_Inr run_tx_Inr sample_facts resolveRef_def settle_from_git_def getT_def returnT_def)
qed

theorem merged_means_landed_witness:
  "\<exists>res db'. markMerged sample_env sample_le ''t1'' sample_runner (approved_db ReadyForMerge landed_rows) = (Inr res, db') \<and>
     t_status (tres_ticket res) = Done"
  using sample_merge merged_means_landed [OF sample_fields(8)] by metis

section \<open>Starting a landing\<close>

lemma to_lower_idem [simp]: "to_lower (to_lower c) = to_lower c"
proof -
  have "of_char (char_of (of_char c + 32 :: nat) :: char) = (of_char c + 32 :: nat)" if "of_char c \<le> (222 :: nat)"
    using that by simp
  then show ?thesis by (auto simp: to_lower_def ascii_lower_def Let_def)
qed


lemma lower_idem [simp]: "lower (lower s) = lower s"
  by (simp add: lower_def)

lemma lower_landing_sha [simp]: "lower (landing_sha c) = landing_sha c"
  by (simp add: landing_sha_def)

lemma full_sha_nonempty: "full_sha s \<Longrightarrow> s \<noteq> []"
  by (auto simp: full_sha_def)

lemma find_repoD: "find_repo st x = Some r \<Longrightarrow> r \<in> set (ls_repos st) \<and> (lr_repoId r = x \<or> lr_repo r = x)"
  by (auto simp: find_repo_def find_Some_iff)

lemma status_pinned:
  assumes "r \<in> set (ls_repos (computeLandingStatus coll db tid))" and "lr_sha r \<noteq> []"
  shows "lr_pinned r"
proof -
  from assms(1) obtain rp pin where "r = repo_state db tid rp pin"
    by (auto simp: computeLandingStatus_def Let_def dest: pin_states_mem)
  with assms(2) show ?thesis by (cases pin) (auto simp: repo_state_def)
qed


text \<open>The event a landing starts with is the record \<open>startedOnApproval\<close> looks for.\<close>

lemma approvalRef_other [simp]:
  "ty \<noteq> ''ticket.transitioned'' \<Longrightarrow> approvalRef (add_event en et ei ac ty pl db) tid = approvalRef db tid"
  by (simp add: approvalRef_def add_event_def is_transition_def)











section \<open>Recording a landing\<close>

lemma shaOf_landing: "full_sha s \<Longrightarrow> lower s = s \<Longrightarrow> shaOf (Some (LANDING_PREFIX @ s)) LANDING_PREFIX = Some s"
  by (simp add: shaOf_def)

text \<open>The row a landing is recorded by.\<close>

definition landing_written :: "env \<Rightarrow> landing_env \<Rightarrow> ticket \<Rightarrow> landing_input \<Rightarrow> id \<Rightarrow> db \<Rightarrow> db \<Rightarrow> bool" where
  "landing_written en le t inp rid db db' = (\<exists>e. db_evidence db' = db_evidence db @ [e] \<and> db_tickets db' = db_tickets db \<and>
     landing_row db' (t_id t) rid (landing_sha (li_commit inp)) e \<and> via_of e = via_text (li_via inp) \<and>
     (if via_text (li_via inp) \<in> set UNVERIFIABLE_LANDING_VIAS then recorded_pr db t rid \<noteq> []
      else \<forall>probe. le_landedOnDefault le = Some probe \<longrightarrow> probe rid (landing_sha (li_commit inp))))"

lemma wp_assertPrLanding: "wp (assertPrLanding le t rid sha via) (\<lambda>_ s. s = db \<and> recorded_pr db t rid \<noteq> []) db"
  unfolding assertPrLanding_def Let_def wp_simps by (auto simp: wp_simps split: option.split)

lemma via_of_landing:
  "ev_payload_json e = Some (JObj [(''kind'', JStr ''landing''), (''repo'', JStr nm), (''via'', jopt v)]) \<Longrightarrow> via_of e = via_text v"
  by (cases v) (simp_all add: via_of_def json_text_def via_text_def)

lemma wp_write_landing:
  assumes "full_sha (landing_sha (li_commit inp))"
  shows "wp (write_landing en le t inp actor rid name)
    (\<lambda>(tid, nm, rec) s. rec \<and> tid = t_id t \<and> nm = name \<and> landing_written en le t inp rid db s) db"
proof -
  let ?sha = "landing_sha (li_commit inp)" and ?via = "via_text (li_via inp)"
  let ?Q = "\<lambda>(tid, nm, rec) s. rec \<and> tid = t_id t \<and> nm = name \<and> landing_written en le t inp rid db s"
  have written: "wp (bindT (throwIf (case le_landedOnDefault le of None \<Rightarrow> False
              | Some probe \<Rightarrow> ?via \<notin> set UNVERIFIABLE_LANDING_VIAS \<and> \<not> probe rid ?sha) e) (\<lambda>_.
     bindT (insert_commit en (t_id t) rid sm (LANDING_PREFIX @ ?sha)
              (JObj [(''kind'', JStr ''landing''), (''repo'', JStr name), (''via'', jopt (li_via inp))])) (\<lambda>_.
     bindT (ticketEvent en (t_id t) actor ty pl) (\<lambda>_. returnT (t_id t, name, True))))) ?Q db"
    if "?via \<in> set UNVERIFIABLE_LANDING_VIAS \<longrightarrow> recorded_pr db t rid \<noteq> []" for e sm ty pl
    using that shaOf_landing [OF assms] unfolding wp_simps
    by (auto simp: landing_written_def landing_row_def via_of_landing split: option.splits)
  show ?thesis
  proof (cases "?via \<in> set UNVERIFIABLE_LANDING_VIAS")
    case True
    then show ?thesis unfolding write_landing_def Let_def wp_bind wp_when
      by (auto intro!: wp_mono [OF wp_assertPrLanding] written [unfolded wp_bind])
  next
    case False
    then show ?thesis unfolding write_landing_def Let_def wp_bind wp_when
      using written [unfolded wp_bind] by simp
  qed
qed

text \<open>
  C13. Only an approved commit is recorded as landed, and only once something shows it there. A
  call that records a landing adds exactly one landing row, of exactly the named commit: the
  approved, not yet landed commit of that repository while the ticket is ready_for_merge, or one
  whose landing was started on its approval before the ticket was moved away; with a local
  landing git's probe must show it on the default branch, with a pull request one must be on
  record. A call that records nothing changes nothing.
\<close>

theorem landing_recorded_approved:
  assumes "recordLanding en le ref inp actor db = Inr ((tid, name, rec), db')"
  shows "system_or_admin actor \<and> full_sha (landing_sha (li_commit inp)) \<and>
    (\<exists>t. resolve_ref db ref = Some t \<and> t_id t = tid \<and>
      (if rec then \<exists>rid. landing_written en le t inp rid db db' \<and>
         (if t_status t = ReadyForMerge
          then \<exists>r \<in> set (ls_repos (computeLandingStatus (le_collate le) db tid)). lr_repoId r = rid \<and> lr_repo r = name
                 \<and> lr_pinned r \<and> lr_sha r = landing_sha (li_commit inp) \<and> \<not> lr_landed r
          else startedOnApproval db tid (li_repo inp) (landing_sha (li_commit inp)) = Some (rid, name))
       else db' = db))"
proof -
  let ?sha = "landing_sha (li_commit inp)"
  let ?started = "\<lambda>t. if t_status t = ReadyForMerge then None else startedOnApproval db (t_id t) (li_repo inp) ?sha"
  let ?target = "\<lambda>t. case ?started t of Some (rid, name) \<Rightarrow> Some (rid, name, ?sha, False)
     | None \<Rightarrow> map_option (\<lambda>r. (lr_repoId r, lr_repo r, lr_sha r, lr_landed r))
         (find_repo (computeLandingStatus (le_collate le) db (t_id t)) (li_repo inp))"
  obtain t where t: "system_or_admin actor" "full_sha ?sha" "resolve_ref db ref = Some t"
    and st: "t_status t = ReadyForMerge \<or> ?started t \<noteq> None"
    and run: "db' = db \<and> tid = t_id t \<and> \<not> rec \<or> (\<exists>rid nm. ?target t = Some (rid, nm, ?sha, False) \<and>
        write_landing en le t inp actor rid nm db = Inr ((tid, name, rec), db'))"
    using assms unfolding recordLanding_def Let_def
    by (auto simp: bindT_resolved returnT_def throwT_def split: if_split_asm option.splits prod.splits) 
  from run show ?thesis
  proof (elim disjE conjE exE)
    fix rid nm assume target: "?target t = Some (rid, nm, ?sha, False)"
      and w: "write_landing en le t inp actor rid nm db = Inr ((tid, name, rec), db')"
    have w': "rec" "tid = t_id t" "name = nm" "landing_written en le t inp rid db db'"
      using wp_Inr [OF wp_write_landing [OF t(2)] w] by simp_all
    show ?thesis
    proof (cases "t_status t = ReadyForMerge")
      case True
      with target obtain r where r: "find_repo (computeLandingStatus (le_collate le) db (t_id t)) (li_repo inp) = Some r"
        "lr_repoId r = rid" "lr_repo r = nm" "lr_sha r = ?sha" "\<not> lr_landed r" by auto
      then have "r \<in> set (ls_repos (computeLandingStatus (le_collate le) db (t_id t)))" using find_repoD by blast
      moreover from this have "lr_pinned r" using r(4) status_pinned full_sha_nonempty [OF t(2)] by metis
      ultimately show ?thesis using t w' True r by auto
    next
      case False
      with target st have "startedOnApproval db (t_id t) (li_repo inp) ?sha = Some (rid, nm)" by (auto split: option.splits)
      then show ?thesis using t w' False by auto
    qed
  qed (use t in auto)
qed

theorem landing_recorded_approved_witness:
  "\<exists>db'. recordLanding sample_env sample_le ''t1'' sample_landing sample_runner (approved_db ReadyForMerge []) =
      Inr ((''t1'', ''app'', True), db') \<and> length (db_evidence db') = length (db_evidence (approved_db ReadyForMerge [])) + 1"
proof -
  have "case recordLanding sample_env sample_le ''t1'' sample_landing sample_runner (approved_db ReadyForMerge []) of
      Inl _ \<Rightarrow> False | Inr (r, _) \<Rightarrow> r = (''t1'', ''app'', True)" by code_simp
  then obtain db' where run: "recordLanding sample_env sample_le ''t1'' sample_landing sample_runner (approved_db ReadyForMerge []) =
      Inr ((''t1'', ''app'', True), db')" by (auto split: sum.splits prod.splits)
  from landing_recorded_approved [OF this] run show ?thesis by (auto simp: landing_written_def)
qed

text \<open>
  Recording the same landing twice is not idempotent for a repository with a pull request on record:
  a local landing of it does not count as landed, so the second call writes a second row.
\<close>

theorem local_landing_repeats:
  "let db = (approved_db ReadyForMerge [])\<lparr>db_ticket_repos := [sample_link\<lparr>tr_pr_url := Some ''https://pr/1''\<rparr>]\<rparr>;
       record_it = recordLanding sample_env sample_le ''t1'' sample_landing sample_runner in
   case bindT record_it (\<lambda>(_, _, first). bindT record_it (\<lambda>(_, _, second). returnT (first, second))) db of
     Inl _ \<Rightarrow> False
   | Inr (r, db') \<Rightarrow> r = (True, True) \<and> length (db_evidence db') = length (db_evidence db) + 2"
  by code_simp

end
