(* ===== verification/Cancel_Props.thy ===== *)
theory Cancel_Props
  imports Landing_Props
begin

text \<open>
  Who may cancel a ticket. \<open>spares X\<close> is the frame of an operation that cancels no ticket outside
  \<open>X\<close>; every command but the stop of a paused delivery spares all tickets, or refuses to cancel
  one whose change landed.
\<close>

section \<open>The frame\<close>

definition cancelled :: "db \<Rightarrow> id set" where
  "cancelled db = t_id ` {t \<in> set (db_tickets db). t_status t = Cancelled}"

definition spares :: "id set \<Rightarrow> db \<Rightarrow> db \<Rightarrow> bool" where
  "spares X s s' = (cancelled s' \<subseteq> cancelled s \<union> X)"

interpretation spare: preorder_frame "spares X" for X
  by unfold_locales (auto simp: spares_def)

lemma cancelled_fields:
  assumes "\<And>t. t_id (f t) = t_id t" and "\<And>t. t_status (f t) = t_status t"
  shows "cancelled (s\<lparr>db_tickets := upd_rows P f (db_tickets s)\<rparr>) \<subseteq> cancelled s"
  using assms by (auto simp: cancelled_def set_upd_rows split: if_split_asm)
interpretation spare: table_frame "spares X" for X
proof
  show "spares X s (s\<lparr>db_tickets := upd_rows P f (db_tickets s)\<rparr>)"
    if "\<And>t. t_id (f t) = t_id t" "\<And>t. t_status (f t) = t_status t" for f s P
    using cancelled_fields [of f, OF that] by (fastforce simp: spares_def)
qed (simp_all add: spares_def cancelled_def)

lemma spare_updateStatus: "framed (spares (if to = Cancelled then {i} else {})) (ticket_updateStatus i to v p now)"
  by (auto simp: framed_def spares_def cancelled_def ticket_updateStatus_def Let_def apply_status_def set_upd_rows image_iff
      split: if_split_asm)

lemma spare_mono: "framed (spares X) m \<Longrightarrow> X \<subseteq> Y \<Longrightarrow> framed (spares Y) m"
  by (fastforce simp: framed_def spares_def)

lemma spare_writes: "framed (spares (if ti_toStatus inp = Cancelled then {t_id t} else {})) (transition_writes en inp t pol)"
  unfolding transition_writes_def Let_def by (intro frames spare_updateStatus)

lemma cancel_needs_flag: "violatedGuard from Cancelled fl = None \<Longrightarrow> WontDo \<in> set fl"
  by (cases "from") (auto simp: violatedGuard_def GUARDED_EDGES_def edge_matches_def split: if_split_asm)

lemma transition_runsE:
  assumes "transition en inp s = Inr (x, s')"
  obtains t pol where "ticket_findById s (ti_ticketId inp) = Some t" "t_id t = ti_ticketId inp"
    "transition_check en inp s t = Inr pol" "transition_writes en inp t pol s = Inr (x, s')"
  using assms by (auto simp: transition_def split: option.splits sum.splits dest: ticket_findById_SomeD)

interpretation spare: service_frame "spares X" for X
proof
  fix inp :: transition_input and en assume fl: "WontDo \<notin> set (ti_flags inp)"
  show "framed (spares X) (transition en inp)"
  proof (rule framedI)
    fix s x s' assume "transition en inp s = Inr (x, s')"
    then obtain t pol where t: "transition_check en inp s t = Inr pol" "transition_writes en inp t pol s = Inr (x, s')"
      by (rule transition_runsE)
    have "ti_toStatus inp \<noteq> Cancelled" using transition_checkD(3) [OF t(1)] cancel_needs_flag fl by metis
    then show "spares X s s'" using framedD [OF spare_writes t(2)] by (auto simp: spares_def)
  qed
qed

lemma spare_transition: "framed (spares {ti_ticketId inp}) (transition en inp)"
proof (rule framedI)
  fix s x s' assume "transition en inp s = Inr (x, s')"
  then obtain t pol where t: "t_id t = ti_ticketId inp" "transition_writes en inp t pol s = Inr (x, s')"
    by (rule transition_runsE)
  then show "spares {ti_ticketId inp} s s'"
    using framedD [OF spare_writes t(2)] by (auto simp: spares_def split: if_split_asm)
qed

section \<open>The commands\<close>

lemma framed_wpI: "(\<And>s. wp m (\<lambda>_. R s) s) \<Longrightarrow> framed R m"
  by (rule framedI) (blast dest: wp_Inr)

lemma cancelled_same: "db_tickets s' = db_tickets s \<Longrightarrow> spares X s s'"
  by (simp add: spares_def cancelled_def)

lemma cancelled_restamp:
  assumes "t \<in> set (db_tickets s)"
  shows "spares X s (s\<lparr>db_tickets := upd_rows (\<lambda>x. t_id x = t_id t \<and> Q x) (apply_status (t_status t) p now) (db_tickets s)\<rparr>)"
  using assms by (auto simp: spares_def cancelled_def set_upd_rows apply_status_def split: if_split_asm)

lemma spare_assignReviewer: "framed (spares X) (assignReviewer en r who a)"
proof (rule framed_wpI)
  fix s
  have ev: "spares X s (add_event en et ei ac ty pl s') = spares X s s'" for et ei ac ty pl s'
    by (simp add: spares_def cancelled_def)
  show "wp (assignReviewer en r who a) (\<lambda>_. spares X s) s"
    unfolding assignReviewer_def checks_defs Let_def wp_simps by (auto simp: ev intro!: cancelled_restamp resolve_ref_mem)
qed

lemma spare_others:
  "framed (spares X) (createTicket en ct a)" "framed (spares X) (addDependency en r q a)"
  "framed (spares X) (removeDependency en r q a)" "framed (spares X) (pauseDelivery en r inp a)"
proof -
  have "framed (spares X) (paused_upsert i c now)" for i c now
    unfolding paused_upsert_def by (rule spare.framed_modify) (simp add: cancelled_same)
  then show "framed (spares X) (pauseDelivery en r inp a)" unfolding pauseDelivery_def Let_def by (intro frames; simp)
  show "framed (spares X) (createTicket en ct a)"
    by (rule framed_wpI) (auto simp: createTicket_def wp_simps spares_def cancelled_def new_ticket_def)
  show "framed (spares X) (addDependency en r q a)" "framed (spares X) (removeDependency en r q a)"
    by (rule framed_wpI; auto simp: addDependency_def removeDependency_def wp_simps intro!: cancelled_same)+
qed

lemma spare_exec: "\<forall>r why. c \<noteq> StopPaused r why \<Longrightarrow> framed (spares {}) (exec en a c)"
  by (cases c) (simp_all add: effect_def frames spare_assignReviewer spare_others)

text \<open>The tickets whose change is on no default branch, as far as the database and git show.\<close>

definition unlanded :: "landing_env \<Rightarrow> db \<Rightarrow> id set" where
  "unlanded le db = {i. landed_anywhere le db i = []}"

lemma spare_cancel: "ti_ticketId inp \<in> X \<Longrightarrow> framed (spares X) (transition en inp)"
  by (rule spare_mono [OF spare_transition]) simp

lemma wontDo_unlanded: "wp (wontDo en le r a why) (\<lambda>_. spares (unlanded le s) s) s"
  unfolding wontDo_def wp_simps
proof (intro allI impI)
  fix t :: ticket
  assume "landed_anywhere le s (t_id t) = []"
  then have "framed (spares (unlanded le s)) (bindT (transition en ((sysmove (t_id t) a Cancelled (nonblank why ''wont_do'') [WontDo])
              \<lparr>ti_expectedFromStatus := Some (t_status t)\<rparr>)) (\<lambda>res.
     bindT (resetAcceptanceCriteria en (t_id t) a) (\<lambda>_. returnT res)))"
    by (intro spare_cancel frames) (simp add: sysmove_def move_def unlanded_def)
  from framed_wp [OF this, unfolded wp_simps]
  show "wp (transition en (sysmove (t_id t) a Cancelled (nonblank why ''wont_do'') [WontDo]\<lparr>ti_expectedFromStatus := Some (t_status t)\<rparr>))
     (\<lambda>x. wp (resetAcceptanceCriteria en (t_id t) a) (\<lambda>_. spares (unlanded le s) s)) s" .
qed

lemma rejectReview_unlanded: "wp (rejectReview en le r to a why) (\<lambda>_. spares (unlanded le s) s) s"
proof (cases "to = RejectCancelled")
  case False
  then show ?thesis by (intro framed_wp frames)
next
  case True
  have "framed (spares X) (reject_apply en le t to a why hs)" if "t_id t \<in> X" for t hs X
    unfolding reject_apply_def Let_def
    by (intro spare_cancel frames) (simp add: that sysmove_def move_def)
  from framed_wp [OF this]
  show ?thesis unfolding rejectReview_def wp_simps using True by (auto simp: unlanded_def wp_simps)
qed

lemma spare_trans: "spares X s t \<Longrightarrow> spares X t u \<Longrightarrow> spares X s u"
  by (rule spare.frame_trans)

lemma facade_unlanded:
  assumes "wp m (\<lambda>_. spares X s) s" and "\<And>x. framedP (spares X) (f x)" and "thenP (run_tx m) f s = (r, s')"
  shows "spares X s s'"
  using assms(3)
proof (cases rule: thenPE)
  case (1 e)
  then show ?thesis by (auto elim: run_txE intro: spare.frame_refl)
next
  case (2 x t)
  then have "spares X s t" using assms(1) by (auto simp: run_tx_Inr dest: wp_Inr)
  with framedPD [OF assms(2) 2(2)] show ?thesis by (rule spare_trans [rotated])
qed

lemma facades_unlanded:
  "reject_facade en le r to a why s = (v, s') \<Longrightarrow> spares (unlanded le s) s s'"
  "wontDo_facade en le r a why s = (v, s') \<Longrightarrow> spares (unlanded le s) s s'"
  unfolding reject_facade_def wontDo_facade_def
  by (erule facade_unlanded [rotated 2], rule rejectReview_unlanded wontDo_unlanded, intro frames)+

lemma spare_landing:
  assumes "run_landing en le a c s = (r, s')" shows "spares (unlanded le s) s s'"
proof -
  have drop: "\<exists>v. m s = (v, s')" if "discard m s = (r, s')" for m :: "'a proc"
    using that unfolding discard_def by (auto elim!: thenPE simp: run_tx_Inr returnT_def run_tx_def)
  have frame: "framedP (spares X) (run_landing en le a c)" if "\<forall>x to y. c \<noteq> Reject x to y" "\<forall>x y. c \<noteq> CancelCmd x y" for X
    using that by (cases c; simp only: run_landing.simps discard_def markMerged_def settle_from_git_def reject_facade_def
        moveTicket_def ci_facade_def recordCiResult_def) (intro frames; simp)+
  consider (reject) x to y where "c = Reject x to y" | (cancel) x y where "c = CancelCmd x y"
    | (other) "\<forall>x to y. c \<noteq> Reject x to y" "\<forall>x y. c \<noteq> CancelCmd x y" by blast
  then show ?thesis
    by cases (use assms drop facades_unlanded framedPD [OF frame assms] in \<open>fastforce+\<close>)
qed

text \<open>An approval and a verdict of the tester cancel nothing.\<close>

lemma spare_routeEach: "framedP (spares X) (routeEach en ga a is)"
  by (induction "is") (simp_all only: routeEach.simps, (intro frames | assumption)+)

lemma spare_gate: "framedP (spares X) (run_gate en ga a c)"
  by (cases c; simp only: run_gate.simps discard_def approveReview_def enforceObservedRiskCeiling_def routeAllToTester_def)
    (intro frames spare_routeEach)+

text \<open>
  C9. A ticket whose change landed is not cancelled. A ticket that a command other than the
  stop of a paused delivery newly cancels had no landing on record and no started landing that
  git shows on a default branch; a send-back or a board drag of a landed ticket therefore never
  ends in \<open>cancelled\<close>.
\<close>

theorem cancel_only_unlanded:
  assumes "exec en a c db = Inr ((), db') \<and> (\<forall>r why. c \<noteq> StopPaused r why) \<or> run_landing en le a lc db = (res, db')
      \<or> run_gate en ga a gc db = (res, db')"
    and "i \<in> cancelled db'" and "i \<notin> cancelled db"
  shows "landed_anywhere le db i = [] \<and> recordedLandingRepos db i = []"
proof -
  from assms(1) have "spares (unlanded le db) db db'"
  proof (elim disjE conjE)
    assume "exec en a c db = Inr ((), db')" "\<forall>r why. c \<noteq> StopPaused r why"
    then have "spares {} db db'" using framedD [OF spare_exec] by blast
    then show ?thesis by (auto simp: spares_def)
  qed (auto intro: spare_landing framedPD [OF spare_gate])
  then have "i \<in> unlanded le db" using assms(2,3) by (auto simp: spares_def)
  then have "landed_anywhere le db i = []" by (simp add: unlanded_def)
  moreover from this have "set (recordedLandingRepos db i) = {}"
    unfolding landed_anywhere_def by (simp only: sort_key_simps set_empty [symmetric] set_sort set_remdups set_append) simp
  ultimately show ?thesis by simp
qed

text \<open>Cancelling an unlanded ticket under review runs, and cancels it.\<close>

lemma sample_cancel:
  "\<exists>res db'. wontDo sample_env sample_le ''t1'' sample_runner None (approved_db InReview []) = Inr (res, db') \<and> ''t1'' \<in> cancelled db'"
proof -
  have "case bindT (transition sample_env ((sysmove ''t1'' sample_runner Cancelled (nonblank None ''wont_do'') [WontDo])
              \<lparr>ti_expectedFromStatus := Some InReview\<rparr>)) (\<lambda>res.
     bindT (resetAcceptanceCriteria sample_env ''t1'' sample_runner) (\<lambda>_. returnT res)) (approved_db InReview []) of Inl _ \<Rightarrow> False
     | Inr (res, db) \<Rightarrow> ''t1'' \<in> cancelled db" by code_simp
  then show ?thesis
    by (simp add: wontDo_def bindT_refuse landed_anywhere_def sample_facts split: sum.splits prod.splits)
qed

theorem cancel_only_unlanded_witness:
  "\<exists>res db'. run_landing sample_env sample_le sample_runner (CancelCmd ''t1'' None) (approved_db InReview []) = (res, db') \<and>
     ''t1'' \<in> cancelled db' \<and> landed_anywhere sample_le (approved_db InReview []) ''t1'' = []"
proof -
  let ?db = "approved_db InReview []"
  obtain res s where w: "wontDo sample_env sample_le ''t1'' sample_runner None ?db = Inr (res, s)" "''t1'' \<in> cancelled s"
    using sample_cancel by blast
  obtain r db' where run: "run_landing sample_env sample_le sample_runner (CancelCmd ''t1'' None) ?db = (r, db')" by fastforce
  have "framedP (\<lambda>u u'. db_tickets u = T \<longrightarrow> db_tickets u' = T) (thenP (thenP (run_tx (revocationAfterLanding sample_env sample_le
      i sample_runner ''wont_do'')) (\<lambda>landed. run_tx (returnT (res, landed)))) (\<lambda>_. run_tx (returnT ())))" for i T
    unfolding revocationAfterLanding_def by (intro frames tickets_kept)
  moreover have "thenP (thenP (run_tx (revocationAfterLanding sample_env sample_le (t_id (tres_ticket res)) sample_runner ''wont_do''))
      (\<lambda>landed. run_tx (returnT (res, landed)))) (\<lambda>_. run_tx (returnT ())) s = (r, db')"
    using run w(1) by (simp add: wontDo_facade_def discard_def thenP_def run_tx_def)
  ultimately have "db_tickets db' = db_tickets s" by (blast dest: framedPD)
  then have new: "''t1'' \<in> cancelled db'" using w(2) by (simp add: cancelled_def)
  moreover have "''t1'' \<notin> cancelled ?db" by code_simp
  ultimately show ?thesis using cancel_only_unlanded [OF disjI2 [OF disjI1 [OF run]]] run by blast
qed

section \<open>The stop of a paused delivery\<close>

text \<open>
  An example of the exception: stopping a paused delivery does not read the landing record. A ticket
  that landed, was reopened for review and then paused is cancelled by it, while \<open>wontDo\<close> refuses.
\<close>

lemma stop_cancels_landed:
  "recordedLandingRepos (approved_db Paused landed_rows) ''t1'' = [''app''] \<and>
   wontDo sample_env sample_le ''t1'' sample_runner why (approved_db Paused landed_rows) = Inl (DispatchError PARTLY_LANDED) \<and>
   (case pause_stop sample_env ''t1'' sample_runner None (approved_db Paused landed_rows) of
      Inl _ \<Rightarrow> False
    | Inr (res, db) \<Rightarrow> t_status (tres_ticket res) = Cancelled \<and> recordedLandingRepos db ''t1'' = [''app''])"
proof (intro conjI)
  show "wontDo sample_env sample_le ''t1'' sample_runner why (approved_db Paused landed_rows) = Inl (DispatchError PARTLY_LANDED)"
    by (simp add: wontDo_def bindT_refuse landed_anywhere_def sample_facts)
  show "case pause_stop sample_env ''t1'' sample_runner None (approved_db Paused landed_rows) of
      Inl _ \<Rightarrow> False
    | Inr (res, db) \<Rightarrow> t_status (tres_ticket res) = Cancelled \<and> recordedLandingRepos db ''t1'' = [''app'']" by code_simp
qed (rule sample_plan)

end
