(* ===== verification/Approval_Props.thy ===== *)
theory Approval_Props
  imports Landing_Props
begin

text \<open>
  The properties of an approval: which commits it may name, what it takes for one to be
  accepted, and that the commits it pins are the landing plan.
\<close>

lemma find_SomeD: "find P xs = Some x \<Longrightarrow> x \<in> set xs \<and> P x"
  by (induction xs) (auto split: if_splits)

section \<open>The commits the approver saw\<close>

text \<open>Heads that no name or id confuses with each other.\<close>

definition unambiguous :: "reviewed_head list \<Rightarrow> bool" where
  "unambiguous heads = (distinct (map rh_repoId heads) \<and> distinct (map rh_repo heads) \<and>
     (\<forall>h \<in> set heads. \<forall>k \<in> set heads. rh_repoId h = rh_repo k \<longrightarrow> h = k))"

lemma unambiguousD:
  assumes "unambiguous heads" and "h \<in> set heads" "k \<in> set heads"
    and "shown_matches heads c h" "shown_matches heads c k"
  shows "h = k"
proof (cases "sc_repo c")
  case None
  then have "length heads = 1" using assms(4) by (simp add: shown_matches_def)
  with assms(2,3) show ?thesis by (auto simp: length_Suc_conv)
next
  case (Some r)
  with assms(4,5) have "r = rh_repoId h \<or> r = rh_repo h" "r = rh_repoId k \<or> r = rh_repo k"
    by (simp_all add: shown_matches_def)
  with assms(1-3) show ?thesis unfolding unambiguous_def by (metis distinct_keyD)
qed

lemma shown_name_head:
  assumes "unambiguous heads" and "h \<in> set heads" and "shown_matches heads c h"
  shows "shown_name heads c = rh_repoId h"
proof (cases "sc_repo c")
  case None
  then have "length heads = 1" using assms(3) by (simp add: shown_matches_def)
  with assms(2) None show ?thesis by (auto simp: length_Suc_conv shown_name_def)
next
  case (Some r)
  obtain k where k: "find (shown_matches heads c) heads = Some k"
    using assms(2,3) by (cases "find (shown_matches heads c) heads") (auto simp: find_None_iff)
  then have "k \<in> set heads" "shown_matches heads c k" by (auto simp: find_Some_iff)
  then have "k = h" using unambiguousD [OF assms(1) _ assms(2) _ assms(3)] by blast
  with k Some show ?thesis by (simp add: shown_name_def)
qed

lemma set_dedup [simp]: "set (dedup xs) = set xs"
  by (simp add: dedup_def)

lemma count_list_distinct: "distinct xs \<Longrightarrow> count_list xs x \<le> 1"
  by (induction xs) auto

lemma dupes_Nil: "dupes xs = [] \<longleftrightarrow> distinct xs"
proof
  assume "dupes xs = []"
  then have *: "\<And>x. x \<in> set xs \<Longrightarrow> count_list xs x \<le> 1"
    by (simp add: dupes_def filter_empty_conv not_less)
  show "distinct xs"
    using * 
  proof (induction xs)
    case (Cons a xs)
    have "count_list xs a = 0" using Cons.prems [of a] by simp
    moreover have "count_list xs x \<le> 1" if "x \<in> set xs" for x using Cons.prems [of x] that by (simp split: if_splits)
    ultimately show ?case using Cons.IH by (simp add: count_list_0_iff)
  qed simp
qed (auto simp: dupes_def filter_empty_conv not_less dest: count_list_distinct)

text \<open>Every head is named with its own commit, and every commit names a head or an unavailable repository.\<close>

definition shown_complete :: "reviewed_head list \<Rightarrow> shown_commit list \<Rightarrow> unavailable_repo list \<Rightarrow> bool" where
  "shown_complete heads commits unavailable =
     ((\<forall>h \<in> set heads. \<exists>c \<in> set commits. shown_matches heads c h \<and> shown_sha c = rh_sha h) \<and>
      (\<forall>c \<in> set commits. (\<exists>h \<in> set heads. shown_matches heads c h) \<or>
         (\<exists>u \<in> set unavailable. sc_repo c = Some (uw_repoId u) \<or> sc_repo c = Some (uw_repo u))))"

lemma collected_Nil: "concat (map (\<lambda>x. if P x then [f x] else []) xs) = [] \<longleftrightarrow> (\<forall>x \<in> set xs. \<not> P x)"
  by (induction xs) auto

lemma moved_heads_Nil:
  assumes "unambiguous heads" and "distinct (map (shown_name heads) commits)"
  shows "moved_heads heads commits = [] \<longleftrightarrow>
    (\<forall>h \<in> set heads. \<exists>c \<in> set commits. shown_matches heads c h \<and> shown_sha c = rh_sha h)"
proof -
  have "map_option shown_sha (find (\<lambda>c. shown_matches heads c h) commits) = Some (rh_sha h) \<longleftrightarrow>
      (\<exists>c \<in> set commits. shown_matches heads c h \<and> shown_sha c = rh_sha h)" if h: "h \<in> set heads" for h
  proof (cases "find (\<lambda>c. shown_matches heads c h) commits")
    case None
    then have "\<not> (\<exists>c \<in> set commits. shown_matches heads c h)" by (simp add: find_None_iff)
    moreover have "map_option shown_sha (find (\<lambda>c. shown_matches heads c h) commits) \<noteq> Some (rh_sha h)" unfolding None by simp
    ultimately show ?thesis by blast
  next
    case (Some c)
    then have c: "c \<in> set commits" "shown_matches heads c h" by (auto simp: find_Some_iff)
    have "d = c" if "d \<in> set commits" "shown_matches heads d h" for d
      using shown_name_head [OF assms(1) h] c that distinct_keyD [OF assms(2) that(1) c(1)] by simp
    then have "(\<exists>d \<in> set commits. shown_matches heads d h \<and> shown_sha d = rh_sha h) \<longleftrightarrow> shown_sha c = rh_sha h" using c by blast
    then show ?thesis unfolding Some by simp
  qed
  then show ?thesis unfolding moved_heads_def Let_def collected_Nil by blast
qed

lemma moved_unknown_Nil:
  "moved_unknown heads commits unavailable = [] \<longleftrightarrow>
    (\<forall>c \<in> set commits. (\<exists>h \<in> set heads. shown_matches heads c h) \<or>
         (\<exists>u \<in> set unavailable. sc_repo c = Some (uw_repoId u) \<or> sc_repo c = Some (uw_repo u)))"
proof -
  have "(case sc_repo c of None \<Rightarrow> False | Some r \<Rightarrow> list_ex (\<lambda>u. uw_repoId u = r \<or> uw_repo u = r) unavailable) \<longleftrightarrow>
      (\<exists>u \<in> set unavailable. sc_repo c = Some (uw_repoId u) \<or> sc_repo c = Some (uw_repo u))" for c
    by (cases "sc_repo c") (auto simp: list_ex_iff)
  then show ?thesis unfolding moved_unknown_def Let_def collected_Nil list_ex_iff by blast
qed

text \<open>
  C25. An approval names exactly what is there. With commits named and heads whose names and ids
  are told apart, the check answers: a duplicate name is invalid; otherwise it accepts, and pins
  the heads, exactly when every write repository's head is named with the commit it has now and
  every named commit belongs to such a head or to a repository that is unavailable; and else it
  refuses as stale. The answer depends on the set of commits named, not on their order.
\<close>

theorem shown_commits_exact:
  assumes "unambiguous heads" and "ap_commits opts \<noteq> []"
  shows "checkShownCommits heads actor opts unavailable =
    (if \<not> distinct (map (shown_name heads) (ap_commits opts)) then Inl (DispatchError VALIDATION_ERROR)
     else if shown_complete heads (ap_commits opts) unavailable then Inr heads
     else Inl (DispatchError STATE_CONFLICT))"
proof (cases "distinct (map (shown_name heads) (ap_commits opts))")
  case True
  from moved_heads_Nil [OF assms(1) this] moved_unknown_Nil [of heads "ap_commits opts" unavailable]
  have "moved_heads heads (ap_commits opts) @ moved_unknown heads (ap_commits opts) unavailable = [] \<longleftrightarrow>
      shown_complete heads (ap_commits opts) unavailable" unfolding shown_complete_def append_is_Nil_conv by blast
  with True assms(2) show ?thesis unfolding checkShownCommits_def Let_def dupes_Nil by simp
qed (use assms(2) in \<open>simp add: checkShownCommits_def Let_def dupes_Nil\<close>)

definition sample_head :: reviewed_head where
  "sample_head = \<lparr>rh_repoId = ''r1'', rh_repo = ''app'', rh_branch = ''work'', rh_sha = sample_sha\<rparr>"

definition sample_options :: approve_options where
  "sample_options = \<lparr>ap_commits = [\<lparr>sc_repo = Some ''app'', sc_sha = sample_sha\<rparr>], ap_requireCommits = True\<rparr>"

theorem shown_commits_exact_witness:
  "checkShownCommits [sample_head] sample_runner sample_options [] = Inr [sample_head]"
proof -
  have "unambiguous [sample_head]" by (simp add: unambiguous_def)
  moreover have "ap_commits sample_options \<noteq> []" by (simp add: sample_options_def)
  moreover have "distinct (map (shown_name [sample_head]) (ap_commits sample_options))"
    by (simp add: sample_options_def)
  moreover have "shown_complete [sample_head] (ap_commits sample_options) []"
    by (simp add: shown_complete_def) code_simp
  ultimately show ?thesis using shown_commits_exact [of "[sample_head]" sample_options] by simp
qed

section \<open>A worked example\<close>

text \<open>A ticket delivered by hand, in review, whose one write repository has a head.\<close>

definition review_db :: db where
  "review_db = empty_db\<lparr>db_tickets := [(sample_ticket ''t1'' 1 InReview)\<lparr>t_human_delivered := Some ''bob''\<rparr>],
     db_repositories := [sample_repo], db_ticket_repos := [sample_link]\<rparr>"

definition sample_ga :: gate_env where
  "sample_ga = \<lparr>ga_landing = sample_le\<lparr>le_reviewedHeads := (\<lambda>_ _. [sample_head])\<rparr>, ga_process = (\<lambda>_. None), ga_unavailable = None,
     ga_testerLaneApplies = None, ga_agents = True, ga_requireRegistered = True, ga_policyAllows = None, ga_observedRisk = None\<rparr>"

definition sample_ann :: actor where
  "sample_ann = \<lparr>a_type = Human, a_id = Some ''ann''\<rparr>"

lemma sample_approval:
  "case approveReview sample_env sample_ga ''t1'' sample_ann sample_options review_db of
     (Inr res, db') \<Rightarrow> t_status (tres_ticket res) = ReadyForMerge | _ \<Rightarrow> False"
  by code_simp

section \<open>What an approval takes\<close>

text \<open>For an agent: nothing its diff shows holds the approval for a person.\<close>

definition risk_clear :: "gate_env \<Rightarrow> db \<Rightarrow> ticket \<Rightarrow> bool" where
  "risk_clear ga db t = (\<forall>resolver. ga_observedRisk ga = Some resolver \<longrightarrow>
     (\<exists>observed. resolver db t = Some observed \<and> \<not> shouldEscalate (ga_process ga) observed (t_risk_level t)))"

lemma enforce_returns:
  assumes "enforceObservedRiskCeiling en ga ref actor db = (Inr x, db')" and "resolve_ref db ref = Some t"
  shows "db' = db \<and> risk_clear ga db t"
proof (cases "ga_observedRisk ga")
  case None
  then show ?thesis using assms(1) by (simp add: enforceObservedRiskCeiling_def risk_clear_def run_tx_def returnT_def)
next
  case (Some resolver)
  then show ?thesis using assms
    by (auto simp: enforceObservedRiskCeiling_def risk_clear_def run_tx_Inr thenP_Inr resolveRef_def getT_def returnT_def throwT_def
        escalates_def split: if_splits option.splits)
qed

lemma approve_admitD:
  assumes "approve_admit ga ref actor db = Inr ((allowed, unavailable), db')"
  shows "db' = db \<and> allowed = agentApproveAllowed ga db ref actor \<and> (human_or_admin actor \<or> allowed) \<and>
    (\<exists>t. resolve_ref db ref = Some t \<and> unavailable = unavailableWriteRepos ga db t)"
  using assms unfolding approve_admit_def
  by (auto simp: whenT_def assertWriteReposAvailable_def bindT_Inr_iff returnT_def throwIf_def throwT_def getT_def
      resolveRef_def split: if_splits option.splits)

lemma approveReviewD:
  assumes "approveReview en ga ref actor opts db = (Inr res, db')"
  obtains t where "resolve_ref db ref = Some t"
    and "human_or_admin actor \<or> agentApproveAllowed ga db ref actor \<and> risk_clear ga db t"
    and "approve_decide en ga ref actor opts (unavailableWriteRepos ga db t) db = Inr (res, db')"
proof -
  obtain allowed unavailable s s' where admit: "approve_admit ga ref actor db = Inr ((allowed, unavailable), s)"
    and risk: "(if allowed then enforceObservedRiskCeiling en ga ref actor else run_tx (returnT ())) s = (Inr (), s')"
    and decide: "approve_decide en ga ref actor opts unavailable s' = Inr (res, db')"
    using assms unfolding approveReview_def by (auto simp: thenP_Inr run_tx_Inr)
  from approve_admitD [OF admit] obtain t where t: "s = db" "resolve_ref db ref = Some t"
    "allowed = agentApproveAllowed ga db ref actor" "human_or_admin actor \<or> allowed" "unavailable = unavailableWriteRepos ga db t"
    by blast
  have "s' = db \<and> (allowed \<longrightarrow> risk_clear ga db t)"
    using risk t(1) enforce_returns [OF _ t(2)] by (cases allowed) (auto simp: run_tx_def returnT_def)
  with that t decide show ?thesis by auto
qed

lemma approveCiHold_None:
  "approveCiHold ga db t = None \<longleftrightarrow> \<not> (ci_required (ciStatus db (t_id t) (approveCiCandidate ga db t)) \<and>
     \<not> (approveCiCandidate ga db t \<noteq> None \<and> ci_state (ciStatus db (t_id t) (approveCiCandidate ga db t)) = Some ''pass''))"
  by (auto simp: approveCiHold_def Let_def)

text \<open>The candidate of an approval the tester gates and has not passed.\<close>

abbreviation untested :: "env \<Rightarrow> gate_env \<Rightarrow> db \<Rightarrow> ticket \<Rightarrow> bool" where
  "untested \<equiv> approveRoutesToTesting"

lemma bindT_assertCiPassed:
  "bindT (assertCiPassed t (approveCiCandidate ga db t)) f db =
     (if approveCiHold ga db t = None then f () db else Inl (DispatchError POLICY_DENIED))"
  unfolding approveCiHold_None by (auto simp: assertCiPassed_def bindT_def getT_def throwIf_def throwT_def returnT_def)

text \<open>The last part of \<open>approveReview\<close> in closed form.\<close>

lemma approve_decide_eq:
  assumes "resolve_ref db ref = Some t"
  shows "approve_decide en ga ref actor opts unavailable db =
    (if approveCiHold ga db t \<noteq> None then Inl (DispatchError POLICY_DENIED)
     else if unregistered ga db actor \<or> approves_own db t actor then Inl (DispatchError ACTOR_NOT_PERMITTED)
     else case checkShownCommits (resolveReviewedHeads ga db t) actor opts unavailable of
       Inl e \<Rightarrow> Inl e
     | Inr pins \<Rightarrow>
         if untested en ga db t then
           if human_or_admin actor then Inl (DispatchError STATE_CONFLICT)
           else approve_to_testing en ga t actor unavailable pins db
         else approve_to_merge en ga t actor unavailable pins db)"
  unfolding approve_decide_def bindT_resolveRef [OF assms] approveRoutesToTesting_def
  by (cases "checkShownCommits (resolveReviewedHeads ga db t) actor opts unavailable") (auto simp: bindT_assertCiPassed)

lemma approve_decideD:
  assumes "approve_decide en ga ref actor opts unavailable db = Inr (res, db')"
  shows "\<exists>t pins. resolve_ref db ref = Some t \<and> approveCiHold ga db t = None \<and> \<not> unregistered ga db actor \<and>
    \<not> approves_own db t actor \<and> checkShownCommits (resolveReviewedHeads ga db t) actor opts unavailable = Inr pins \<and>
    (untested en ga db t \<longrightarrow> \<not> human_or_admin actor) \<and>
    (if untested en ga db t then approve_to_testing en ga t actor unavailable pins
     else approve_to_merge en ga t actor unavailable pins) db = Inr (res, db')"
proof -
  obtain t where t: "resolve_ref db ref = Some t" using assms unfolding approve_decide_def bindT_resolved by blast
  with assms show ?thesis unfolding approve_decide_eq [OF t]
    by (cases "approveCiHold ga db t") (auto split: if_splits sum.splits)
qed

text \<open>The rows an approval pins.\<close>

definition pin_row :: "env \<Rightarrow> id \<Rightarrow> reviewed_head \<Rightarrow> evidence \<Rightarrow> bool" where
  "pin_row en tid h e = (ev_ticket_id e = tid \<and> ev_type e = Commit \<and> ev_recorded_by e = Some System \<and>
     ev_repo_id e = Some (rh_repoId h) \<and> ev_uri e = Some (REVIEW_PIN_PREFIX @ rh_sha h) \<and> ev_created_at e = en_now en)"

lemma wp_insert_pin:
  assumes "\<And>e. pin_row en tid h e \<Longrightarrow> rh_repoId h \<in> r_id ` set (db_repositories s) \<Longrightarrow> Q () (s\<lparr>db_evidence := db_evidence s @ [e]\<rparr>)"
  shows "wp (insert_commit en tid (rh_repoId h) sm (REVIEW_PIN_PREFIX @ rh_sha h) pl) Q s"
  unfolding wp_simps by (intro impI assms) (auto simp: pin_row_def evidence_insert_def split: if_splits)

lemma wp_recordApprovalPins:
  "wp (recordApprovalPins en t actor pins) (\<lambda>_ s'. \<exists>rows. s' = s\<lparr>db_evidence := db_evidence s @ rows\<rparr> \<and>
     list_all2 (pin_row en (t_id t)) pins rows \<and> (\<forall>h \<in> set pins. rh_repoId h \<in> r_id ` set (db_repositories s))) s"
proof (induction pins arbitrary: s)
  case Nil
  then show ?case by (simp add: recordApprovalPins_def wp_simps)
next
  case (Cons h pins)
  have step: "recordApprovalPins en t actor (h # pins) = bindT (insert_commit en (t_id t) (rh_repoId h)
       ((if a_type actor = AgentActor then ''agent review'' else ''human review'') @ '' ('' @ actor_label actor
        @ '') approved commit '' @ rh_sha h @ '' of '' @ rh_branch h @ '' in '' @ rh_repo h)
       (REVIEW_PIN_PREFIX @ rh_sha h)
       (JObj [(''kind'', JStr ''review_pin''), (''approver_type'', JStr (actor_type_name (a_type actor))),
              (''repo'', JStr (rh_repo h))])) (\<lambda>_. recordApprovalPins en t actor pins)"
    by (simp add: recordApprovalPins_def)
  show ?case
    unfolding step wp_bind
  proof (rule wp_insert_pin)
    fix e assume e: "pin_row en (t_id t) h e" "rh_repoId h \<in> r_id ` set (db_repositories s)"
    show "wp (recordApprovalPins en t actor pins) (\<lambda>_ s'. \<exists>rows. s' = s\<lparr>db_evidence := db_evidence s @ rows\<rparr> \<and>
       list_all2 (pin_row en (t_id t)) (h # pins) rows \<and> (\<forall>h \<in> set (h # pins). rh_repoId h \<in> r_id ` set (db_repositories s)))
       (s\<lparr>db_evidence := db_evidence s @ [e]\<rparr>)"
    proof (rule wp_mono [OF Cons.IH])
      fix s' assume "\<exists>rows. s' = s\<lparr>db_evidence := db_evidence s @ [e]\<rparr>\<lparr>db_evidence := db_evidence (s\<lparr>db_evidence := db_evidence s @ [e]\<rparr>) @ rows\<rparr> \<and>
         list_all2 (pin_row en (t_id t)) pins rows \<and> (\<forall>h \<in> set pins. rh_repoId h \<in> r_id ` set (db_repositories (s\<lparr>db_evidence := db_evidence s @ [e]\<rparr>)))"
      then obtain rows where "s' = s\<lparr>db_evidence := db_evidence s @ e # rows\<rparr>" "list_all2 (pin_row en (t_id t)) pins rows"
        "\<forall>h \<in> set pins. rh_repoId h \<in> r_id ` set (db_repositories s)" by auto
      then show "\<exists>rows. s' = s\<lparr>db_evidence := db_evidence s @ rows\<rparr> \<and> list_all2 (pin_row en (t_id t)) (h # pins) rows \<and>
          (\<forall>h \<in> set (h # pins). rh_repoId h \<in> r_id ` set (db_repositories s))"
        using e by (intro exI [of _ "e # rows"]) simp
    qed
  qed
qed

text \<open>What the two moves of an approval do to the database.\<close>

definition approved_by :: "env \<Rightarrow> ticket \<Rightarrow> ticket_status \<Rightarrow> reviewed_head list \<Rightarrow> db \<Rightarrow> transition_result \<Rightarrow> db \<Rightarrow> bool" where
  "approved_by en t to pins db res db' = (t_status t = InReview \<and> t_status (tres_ticket res) = to \<and> t_id (tres_ticket res) = t_id t \<and>
     (\<exists>rows. db_evidence db' = db_evidence db @ rows \<and> list_all2 (pin_row en (t_id t)) pins rows) \<and>
     db_repositories db' = db_repositories db \<and> last_off_path db' (t_id t) = last_off_path db (t_id t) \<and>
     (\<forall>h \<in> set pins. rh_repoId h \<in> r_id ` set (db_repositories db)))"

lemma effect_tables:
  "db_evidence (transition_effect en inp t db) = db_evidence db"
  "db_repositories (transition_effect en inp t db) = db_repositories db"
  by (simp_all add: transition_effect_def)

lemma off_path_kept:
  "last_off_path (db\<lparr>db_evidence := x\<rparr>) tid = last_off_path db tid"
  "status_name (ti_toStatus inp) \<in> set APPROVAL_PATH \<Longrightarrow> last_off_path (transition_effect en inp t db) tid = last_off_path db tid"
  "ty \<noteq> ''ticket.transitioned'' \<Longrightarrow> last_off_path (add_event en et ei ac ty pl db) tid = last_off_path db tid"
  using transition_to [of en inp t db]
  by (simp_all add: last_off_path_def transition_effect_def add_event_def is_transition_def)

text \<open>The pins are recorded on the state the move leaves.\<close>

lemma wp_pins_approved:
  assumes "t_status t = InReview" "t_status (tres_ticket res) = to" "t_id (tres_ticket res) = t_id t"
    and "db_evidence s = db_evidence db" "db_repositories s = db_repositories db"
    and "last_off_path s (t_id t) = last_off_path db (t_id t)"
  shows "wp (recordApprovalPins en t actor pins) (\<lambda>_ s'. approved_by en t to pins db res s') s"
  by (rule wp_mono [OF wp_recordApprovalPins]) (use assms in \<open>auto simp: approved_by_def off_path_kept(1)\<close>)

lemma wp_approve_to_merge:
  assumes "distinct (map t_id (db_tickets db))" and "ticket_findById db (t_id t) = Some t"
  shows "wp (approve_to_merge en ga t actor unavailable pins)
    (\<lambda>res s. unavailable = [] \<and> approved_by en t ReadyForMerge pins db res s) db"
  unfolding approve_to_merge_def wp_bind wp_get
proof (rule wp_transition [OF assms(1)])
  fix u policy and res :: transition_result
  let ?inp = "(sysmove (t_id t) actor ReadyForMerge ''review_approved'' [ReviewApprove])
              \<lparr>ti_expectedFromStatus := Some InReview, ti_approvedUnchanged := Some (computeApprovedUnchanged (ga_landing ga) db t),
               ti_deliveryDiff := Some (deliveryDiffProof en db t), ti_patch := approve_patch t actor\<rparr>"
  assume u: "ticket_findById db (ti_ticketId ?inp) = Some u" "transition_check en ?inp db u = Inr policy"
    and res: "tres_ticket res = moved en ?inp u u"
  have ut: "u = t" using u(1) assms(2) by simp
  have st: "t_status t = InReview" using transition_checkD(4) [OF u(2)] ut by simp
  show "wp (assertWriteReposAvailable unavailable) (\<lambda>x. wp (recordApprovalPins en t actor pins)
     (\<lambda>x. wp (returnT res) (\<lambda>res s. unavailable = [] \<and> approved_by en t ReadyForMerge pins db res s))) (transition_effect en ?inp u db)"
    unfolding assertWriteReposAvailable_def wp_simps
    by (intro impI wp_mono [OF wp_pins_approved [where res = res and db = db]])
      (use st res ut in \<open>simp_all add: effect_tables off_path_kept APPROVAL_PATH_def\<close>)
qed

lemma wp_approve_to_testing:
  assumes "distinct (map t_id (db_tickets db))" and "ticket_findById db (t_id t) = Some t"
  shows "wp (approve_to_testing en ga t actor unavailable pins)
    (\<lambda>res s. unavailable = [] \<and> approved_by en t InTesting pins db res s) db"
  unfolding approve_to_testing_def wp_bind wp_get
proof (rule wp_transition [OF assms(1)])
  fix u policy and res :: transition_result
  let ?inp = "(sysmove (t_id t) actor InTesting ''review_approved_to_testing'' [TesterVerdict])
              \<lparr>ti_expectedFromStatus := Some InReview, ti_approvedUnchanged := Some (computeApprovedUnchanged (ga_landing ga) db t),
               ti_patch := approve_patch t actor\<rparr>"
  assume u: "ticket_findById db (ti_ticketId ?inp) = Some u" "transition_check en ?inp db u = Inr policy"
    and res: "tres_ticket res = moved en ?inp u u"
  have ut: "u = t" using u(1) assms(2) by simp
  have st: "t_status t = InReview" using transition_checkD(4) [OF u(2)] ut by simp
  show "wp (assertWriteReposAvailable unavailable) (\<lambda>x. wp (ticketEvent en (t_id t) actor ''ticket.routed_to_testing''
              ((''from'', JStr ''in_review'') # (if t_acceptance t then [(''acceptance'', JBool True)] else [])))
     (\<lambda>x. wp (recordApprovalPins en t actor pins)
     (\<lambda>x. wp (returnT res) (\<lambda>res s. unavailable = [] \<and> approved_by en t InTesting pins db res s)))) (transition_effect en ?inp u db)"
    unfolding assertWriteReposAvailable_def wp_simps
    by (intro impI wp_mono [OF wp_pins_approved [where res = res and db = db]])
      (use st res ut in \<open>simp_all add: effect_tables off_path_kept APPROVAL_PATH_def\<close>)
qed

lemma approval_took:
  assumes "approveReview en ga ref actor opts db = (Inr res, db')" and "distinct (map t_id (db_tickets db))"
    and "resolve_ref db ref = Some t"
  shows "human_or_admin actor \<or> agentApproveAllowed ga db ref actor \<and> risk_clear ga db t"
    and "\<not> approves_own db t actor \<and> \<not> unregistered ga db actor"
    and "unavailableWriteRepos ga db t = [] \<and> approveCiHold ga db t = None"
    and "approveRoutesToTesting en ga db t \<Longrightarrow> \<not> human_or_admin actor"
    and "t_status (tres_ticket res) = (if approveRoutesToTesting en ga db t then InTesting else ReadyForMerge)"
    and "t_status t = InReview \<and> t_id (tres_ticket res) = t_id t"
proof -
  from assms(1,3) have who: "human_or_admin actor \<or> agentApproveAllowed ga db ref actor \<and> risk_clear ga db t"
    and dec: "approve_decide en ga ref actor opts (unavailableWriteRepos ga db t) db = Inr (res, db')"
    by (auto elim!: approveReviewD)
  let ?to = "if approveRoutesToTesting en ga db t then InTesting else ReadyForMerge"
  from approve_decideD [OF dec] assms(3) obtain pins where d: "approveCiHold ga db t = None" "\<not> unregistered ga db actor"
    "\<not> approves_own db t actor" "approveRoutesToTesting en ga db t \<longrightarrow> \<not> human_or_admin actor"
    "(if approveRoutesToTesting en ga db t then approve_to_testing en ga t actor (unavailableWriteRepos ga db t) pins
      else approve_to_merge en ga t actor (unavailableWriteRepos ga db t) pins) db = Inr (res, db')" by auto
  have found: "ticket_findById db (t_id t) = Some t"
    using resolve_ref_mem [OF assms(3)] assms(2) by (simp add: ticket_findById_def find_row_Some_iff)
  have "unavailableWriteRepos ga db t = [] \<and> approved_by en t ?to pins db res db'"
    using d(5) wp_Inr [OF wp_approve_to_testing [OF assms(2) found]] wp_Inr [OF wp_approve_to_merge [OF assms(2) found]]
    by (auto split: if_splits)
  with who d show "human_or_admin actor \<or> agentApproveAllowed ga db ref actor \<and> risk_clear ga db t"
    "\<not> approves_own db t actor \<and> \<not> unregistered ga db actor" "unavailableWriteRepos ga db t = [] \<and> approveCiHold ga db t = None"
    "approveRoutesToTesting en ga db t \<Longrightarrow> \<not> human_or_admin actor" "t_status (tres_ticket res) = ?to"
    "t_status t = InReview \<and> t_id (tres_ticket res) = t_id t"
    by (auto simp: approved_by_def)
qed

text \<open>
  C10. What an approval takes. An approval that goes through was made on a ticket in review, by a
  person, or by an agent while the operator's flag or a stored policy allows it and the observed
  risk of the delivery does not hold it; nobody approves under the id of the agent that
  delivered, an agent that must be registered is, every write repository's head could be read,
  and required CI passed on the candidate. A candidate the tester gates and has not passed goes
  to the tester, and only on an agent's approval; every other approval makes the ticket
  ready_for_merge.
\<close>

theorem approval_takes:
  assumes "approveReview en ga ref actor opts db = (Inr res, db')" and "distinct (map t_id (db_tickets db))"
  shows "\<exists>t. resolve_ref db ref = Some t \<and> t_status t = InReview \<and> t_id (tres_ticket res) = t_id t \<and>
    (human_or_admin actor \<or> agentApproveAllowed ga db ref actor \<and> risk_clear ga db t) \<and>
    \<not> approves_own db t actor \<and> \<not> unregistered ga db actor \<and> unavailableWriteRepos ga db t = [] \<and> approveCiHold ga db t = None \<and>
    (approveRoutesToTesting en ga db t \<longrightarrow> a_type actor = AgentActor) \<and>
    t_status (tres_ticket res) = (if approveRoutesToTesting en ga db t then InTesting else ReadyForMerge)"
proof -
  from assms(1) obtain t where t: "resolve_ref db ref = Some t" by (rule approveReviewD)
  from approval_took [OF assms t] t show ?thesis by (auto simp: agentApproveAllowed_def)
qed

lemma sample_approved:
  obtains res db' where "approveReview sample_env sample_ga ''t1'' sample_ann sample_options review_db = (Inr res, db')"
  using sample_approval by (auto split: prod.splits sum.splits)

lemma review_db_keys: "distinct (map t_id (db_tickets review_db))"
  by (simp add: review_db_def)

theorem approval_takes_witness:
  "\<exists>t res db'. approveReview sample_env sample_ga ''t1'' sample_ann sample_options review_db = (Inr res, db') \<and>
     resolve_ref review_db ''t1'' = Some t \<and> t_status t = InReview"
proof (rule sample_approved)
  fix res db' assume "approveReview sample_env sample_ga ''t1'' sample_ann sample_options review_db = (Inr res, db')"
  with approval_takes [OF this review_db_keys] show ?thesis by blast
qed

section \<open>An approval is a landing plan\<close>

lemma insort_key_append: "(\<And>y. y \<in> set ys \<Longrightarrow> f x \<le> f y) \<Longrightarrow> ys \<noteq> [] \<Longrightarrow> insort_key f x (zs @ ys) = insort_key f x zs @ ys"
  by (induction zs) (cases ys; simp)+

lemma sort_key_append_last:
  assumes "\<And>x. x \<in> set xs \<Longrightarrow> f x \<le> n" and "\<And>y. y \<in> set ys \<Longrightarrow> f y = n"
  shows "sort_key f (xs @ ys) = sort_key f xs @ (ys :: 'a list)"
  using assms(1)
proof (induction xs)
  case Nil
  have "sorted (map f ys)" by (simp add: sorted_map sorted_wrt_iff_nth_less assms(2))
  then show ?case by (simp add: sort_key_id_if_sorted)
next
  case (Cons x xs)
  then show ?case using assms(2) by (cases "ys = []") (auto simp: insort_key_append)
qed

lemma pin_states_seen: "x \<in> set (pin_states db tid seen ps) \<Longrightarrow> lr_repoId x \<notin> set seen"
  by (induction ps arbitrary: seen) (fastforce simp: repo_state_def split: if_split_asm)+

text \<open>The first pin of a repository decides its state.\<close>

lemma pin_states_first:
  assumes "r_id r \<notin> r_id ` snd ` set ps" and "\<not> stale db tid (ev_created_at e)" and "shaOf (ev_uri e) REVIEW_PIN_PREFIX = Some sha"
  shows "r_id r \<notin> set seen \<Longrightarrow> {x \<in> set (pin_states db tid seen (ps @ (e, r) # qs)). lr_repoId x = r_id r} = {repo_state db tid r (Some sha)}"
  using assms(1)
proof (induction ps arbitrary: seen)
  case Nil
  then show ?case using assms(2,3) pin_states_seen [of _ db tid "r_id r # seen" qs] by (auto simp: repo_state_def)
next
  case (Cons p ps)
  obtain f q where p: "p = (f, q)" by force
  have q: "r_id q \<noteq> r_id r" using Cons.prems(2) by (auto simp: p)
  have IH: "{x \<in> set (pin_states db tid sn (ps @ (e, r) # qs)). lr_repoId x = r_id r} = {repo_state db tid r (Some sha)}"
    if "r_id r \<notin> set sn" for sn using Cons that by auto
  have other: "{x \<in> insert (repo_state db tid q pin) X. lr_repoId x = r_id r} = {x \<in> X. lr_repoId x = r_id r}" for pin X
    using q by (auto simp: repo_state_def)
  have "r_id r \<notin> set (r_id q # seen)" using q Cons.prems(1) by simp
  from IH [OF this] IH [OF Cons.prems(1)] show ?case
    by (simp only: p append_Cons pin_states.simps list.set other split: if_split) simp
qed

lemma full_sha_lower: "full_sha s \<Longrightarrow> lower s = s"
proof -
  have "is_lower_hex c \<Longrightarrow> to_lower c = c" for c
    by (auto simp: is_lower_hex_def to_lower_def ascii_lower_def Let_def)
  then show "full_sha s \<Longrightarrow> lower s = s" by (simp add: full_sha_def lower_def list_all_iff map_idI)
qed

lemma shaOf_pin: "full_sha s \<Longrightarrow> shaOf (Some (REVIEW_PIN_PREFIX @ s)) REVIEW_PIN_PREFIX = Some s"
  by (simp add: shaOf_def full_sha_lower)

lemma newest_pins:
  assumes "approved_by en t to pins db res db'" and "\<forall>e \<in> set (db_evidence db). ev_created_at e \<le> en_now en"
  shows "\<exists>rows. list_all2 (pin_row en (t_id t)) pins rows \<and> review_pins db' (t_id t) =
    concat (map (\<lambda>e. case evidence_repo db' e of None \<Rightarrow> [] | Some r \<Rightarrow> [(e, r)]) (rev rows)) @
    concat (map (\<lambda>e. case evidence_repo db' e of None \<Rightarrow> [] | Some r \<Rightarrow> [(e, r)])
      (rev (sort_key ev_created_at (system_commits db (t_id t) REVIEW_PIN_PREFIX))))"
proof -
  from assms(1) obtain rows where rows: "db_evidence db' = db_evidence db @ rows" "list_all2 (pin_row en (t_id t)) pins rows"
    by (auto simp: approved_by_def)
  have row: "\<exists>h. pin_row en (t_id t) h e" if "e \<in> set rows" for e
    using rows(2) that by (auto simp: list_all2_conv_all_nth in_set_conv_nth)
  have "filter (\<lambda>e. ev_ticket_id e = t_id t \<and> ev_type e = Commit \<and> ev_recorded_by e = Some System \<and> ev_repo_id e \<noteq> None
      \<and> like_prefix REVIEW_PIN_PREFIX (ev_uri e)) rows = rows"
    using row by (fastforce simp: filter_id_conv pin_row_def like_prefix_def)
  then have "system_commits db' (t_id t) REVIEW_PIN_PREFIX = system_commits db (t_id t) REVIEW_PIN_PREFIX @ rows"
    by (simp add: system_commits_def rows(1))
  moreover have "sort_key ev_created_at (system_commits db (t_id t) REVIEW_PIN_PREFIX @ rows) =
      sort_key ev_created_at (system_commits db (t_id t) REVIEW_PIN_PREFIX) @ rows"
    by (rule sort_key_append_last [where n = "en_now en"]) (use assms(2) row in \<open>auto simp: system_commits_def pin_row_def\<close>)
  ultimately show ?thesis using rows(2) by (intro exI [of _ rows]) (simp add: review_pins_def)
qed

lemma evidence_repo_id: "evidence_repo db e = Some r \<Longrightarrow> ev_repo_id e = Some (r_id r)"
  by (cases "ev_repo_id e") (auto simp: evidence_repo_def repo_findById_def dest: find_row_SomeD)

lemma pinned_state:
  assumes "approved_by en t to pins db res db'" and "\<forall>e \<in> set (db_evidence db). ev_created_at e \<le> en_now en"
    and "distinct (map rh_repoId pins)" and "h \<in> set pins" and "full_sha (rh_sha h)" and "\<not> stale db' (t_id t) (en_now en)"
  shows "\<exists>r. r_id r = rh_repoId h \<and> {x \<in> set (pin_states db' (t_id t) [] (review_pins db' (t_id t))). lr_repoId x = rh_repoId h} =
    {repo_state db' (t_id t) r (Some (rh_sha h))}"
proof -
  let ?g = "\<lambda>e. case evidence_repo db' e of None \<Rightarrow> [] | Some r \<Rightarrow> [(e, r)]"
  obtain rows old where rows: "list_all2 (pin_row en (t_id t)) pins rows"
    "review_pins db' (t_id t) = concat (map ?g (rev rows)) @ old" using newest_pins [OF assms(1,2)] by blast
  have ids: "map ev_repo_id rows = map (\<lambda>h. Some (rh_repoId h)) pins"
    using rows(1) by (induction rule: list_all2_induct) (auto simp: pin_row_def)
  obtain e where e: "e \<in> set rows" "pin_row en (t_id t) h e"
    using rows(1) assms(4) by (metis in_set_conv_nth list_all2_conv_all_nth)
  then obtain a b where ab: "rows = a @ e # b" by (auto simp: in_set_conv_decomp)
  have repo: "ev_repo_id e = Some (rh_repoId h)" using e(2) by (simp add: pin_row_def)
  have "rh_repoId h \<in> r_id ` set (db_repositories db')" using assms(1,4) by (auto simp: approved_by_def)
  then obtain r where r: "repo_findById db' (rh_repoId h) = Some r" "r_id r = rh_repoId h"
    by (cases "repo_findById db' (rh_repoId h)") (auto simp: repo_findById_def find_row_None_iff dest: find_row_SomeD)
  have g: "?g e = [(e, r)]" using r(1) repo by (simp add: evidence_repo_def)
  have "distinct (map ev_repo_id rows)" unfolding ids using assms(3) by (simp add: distinct_map inj_on_def)
  then have "Some (rh_repoId h) \<notin> ev_repo_id ` set b" using repo by (simp add: ab)
  then have "ev_repo_id x \<noteq> Some (rh_repoId h)" if "x \<in> set b" for x using that by (metis imageI)
  then have other: "r_id r \<notin> r_id ` snd ` set (concat (map ?g (rev b)))"
    using r(2) by (auto split: option.splits dest: evidence_repo_id [OF sym])
  have pins: "review_pins db' (t_id t) = concat (map ?g (rev b)) @ (e, r) # (concat (map ?g (rev a)) @ old)"
    unfolding rows(2) ab by (simp add: g)
  have "{x \<in> set (pin_states db' (t_id t) [] (concat (map ?g (rev b)) @ (e, r) # (concat (map ?g (rev a)) @ old))). lr_repoId x = r_id r} =
      {repo_state db' (t_id t) r (Some (rh_sha h))}"
    by (rule pin_states_first [OF other]) (use assms(5,6) e(2) in \<open>simp_all add: pin_row_def shaOf_pin\<close>)
  then show ?thesis using r(2) unfolding pins by auto
qed

lemma status_of_pinned:
  assumes "{x \<in> set (pin_states db tid [] (review_pins db tid)). lr_repoId x = i} = {s}"
  shows "{x \<in> set (ls_repos (computeLandingStatus coll db tid)). lr_repoId x = i} = {s}"
proof -
  let ?pinned = "pin_states db tid [] (review_pins db tid)"
  have "s \<in> set ?pinned" "lr_repoId s = i" using assms by auto
  then have "i \<in> lr_repoId ` set ?pinned" by blast
  moreover have "lr_repoId (repo_state db tid r None) = r_id r" for r by (simp add: repo_state_def)
  ultimately have "lr_repoId x \<noteq> i" if "x \<in> (\<lambda>r. repo_state db tid r None) `
      {r \<in> set (write_repos db tid). r_id r \<notin> lr_repoId ` set ?pinned}" for x using that by fastforce
  moreover have "?pinned \<noteq> []" using \<open>s \<in> set ?pinned\<close> by auto
  ultimately show ?thesis using assms unfolding status_repos_set Let_def by auto
qed

text \<open>
  An approval is a landing plan. After a person's approval every head the approval covered is
  in the ticket's landing plan exactly once, pinned at exactly the commit that was the head of
  its delivery branch, whatever was approved or landed before. (Git ids are full hashes, the
  heads belong to different repositories, and the clock did not run backwards since the ticket
  came to review.)
\<close>

lemma approval_plans_landing:
  assumes "approveReview en ga ref actor opts db = (Inr res, db')" and "distinct (map t_id (db_tickets db))"
    and "human_or_admin actor" and "resolve_ref db ref = Some t"
    and "distinct (map rh_repoId (resolveReviewedHeads ga db t))"
    and "\<forall>h \<in> set (resolveReviewedHeads ga db t). full_sha (rh_sha h)"
    and "\<forall>e \<in> set (db_evidence db). ev_created_at e \<le> en_now en"
    and "\<forall>e. last_off_path db (t_id t) = Some e \<longrightarrow>
      json_text ''to'' (we_payload e) = Some ''in_review'' \<and> we_created_at e \<le> en_now en"
  shows "\<forall>h \<in> set (resolveReviewedHeads ga db t). \<exists>r.
    {x \<in> set (ls_repos (computeLandingStatus coll db' (t_id t))). lr_repoId x = rh_repoId h} = {r} \<and>
    lr_pinned r \<and> lr_sha r = rh_sha h"
proof
  fix h assume h: "h \<in> set (resolveReviewedHeads ga db t)"
  from assms(1) obtain u where u: "resolve_ref db ref = Some u"
    and dec: "approve_decide en ga ref actor opts (unavailableWriteRepos ga db u) db = Inr (res, db')"
    by (rule approveReviewD)
  have ut: "u = t" using u assms(4) by simp
  from approve_decideD [OF dec] obtain v pins where v: "resolve_ref db ref = Some v"
    and pins: "checkShownCommits (resolveReviewedHeads ga db v) actor opts (unavailableWriteRepos ga db u) = Inr pins"
    and un: "untested en ga db v \<longrightarrow> \<not> human_or_admin actor"
    and run: "(if untested en ga db v then approve_to_testing en ga v actor (unavailableWriteRepos ga db u) pins
      else approve_to_merge en ga v actor (unavailableWriteRepos ga db u) pins) db = Inr (res, db')" by blast
  have vt: "v = t" using v assms(4) by simp
  have run: "approve_to_merge en ga t actor (unavailableWriteRepos ga db u) pins db = Inr (res, db')"
    using run un assms(3) unfolding vt by simp
  have pins: "pins = resolveReviewedHeads ga db t"
    using pins assms(3) unfolding vt by (auto simp: checkShownCommits_def Let_def split: if_splits)
  have found: "ticket_findById db (t_id t) = Some t"
    using resolve_ref_mem [OF assms(4)] assms(2) by (simp add: ticket_findById_def find_row_Some_iff)
  have ok: "approved_by en t ReadyForMerge pins db res db'"
    using wp_Inr [OF wp_approve_to_merge [OF assms(2) found] run] by blast
  have "\<not> stale db' (t_id t) (en_now en)"
    using ok assms(8) by (cases "last_off_path db (t_id t)") (auto simp: stale_def approved_by_def)
  with pinned_state [OF ok assms(7)] assms(5,6) h pins obtain r where r: "r_id r = rh_repoId h"
    "{x \<in> set (pin_states db' (t_id t) [] (review_pins db' (t_id t))). lr_repoId x = rh_repoId h} = {repo_state db' (t_id t) r (Some (rh_sha h))}"
    by blast
  from status_of_pinned [OF r(2)]
  show "\<exists>r. {x \<in> set (ls_repos (computeLandingStatus coll db' (t_id t))). lr_repoId x = rh_repoId h} = {r} \<and>
    lr_pinned r \<and> lr_sha r = rh_sha h" by (auto simp: repo_state_def)
qed

end
