(* ===== verification/Tester_Props.thy ===== *)
theory Tester_Props
  imports Approval_Props
begin

text \<open>
  The properties of the tester lane: what a verdict must prove, that a PASS covers exactly the
  commit and the contract it was about, that a replay proves every test the PASS bound, and
  which tickets the tester-first sweep sends to the tester.
\<close>

section \<open>Test identities\<close>

lemma js_trim_idem [simp]: "js_trim (js_trim s) = js_trim s"
proof -
  have lead: "dropWhile P (rev (dropWhile P (rev xs))) = rev (dropWhile P (rev xs))"
    if "xs = [] \<or> \<not> P (hd xs)" for P and xs :: "'a list"
  proof (cases "rev (dropWhile P (rev xs))")
    case Nil
    then show ?thesis by (simp only: dropWhile.simps)
  next
    case (Cons y ys)
    obtain zs where "xs = rev (dropWhile P (rev xs)) @ zs"
      by (metis rev_append rev_rev_ident takeWhile_dropWhile_id)
    then have "hd xs = y" using Cons by (metis append_Cons list.sel(1))
    moreover have "xs \<noteq> []" using Cons by auto
    ultimately show ?thesis using that Cons by simp
  qed
  let ?a = "dropWhile js_ws s" and ?b = "rev (dropWhile js_ws (rev (dropWhile js_ws s)))"
  have "?a = [] \<or> \<not> js_ws (hd ?a)" by (metis hd_dropWhile)
  then have "dropWhile js_ws ?b = ?b" by (rule lead)
  then show ?thesis by (simp add: js_trim_def dropWhile_idem)
qed

lemma json_text_identity:
  "json_text ''file'' (Some (identity_json i)) = Some (te_file i)" "json_text ''name'' (Some (identity_json i)) = Some (te_name i)"
  by (simp_all add: json_text_def identity_json_def)

lemma parse_position_identity:
  assumes "\<And>n. te_line i = Some n \<Longrightarrow> n > 0" and "\<And>n. te_column i = Some n \<Longrightarrow> n > 0"
  shows "parse_position ''line'' (identity_json i) = Some (te_line i)"
    "parse_position ''column'' (identity_json i) = Some (te_column i)"
  using assms by (auto simp: parse_position_def identity_json_def split: option.splits)

lemma parse_position_pos: "parse_position k o' = Some (Some n) \<Longrightarrow> n > 0"
  by (auto simp: parse_position_def split: option.splits json.splits if_splits)

lemma parse_identity_stable:
  assumes "parse_identity t = Some i"
  shows "parse_identity (identity_json i) = Some i"
proof -
  let ?file = "js_trim (via_text (json_text ''file'' (Some t)))" and ?name = "via_text (json_text ''name'' (Some t))"
  obtain l c where lc: "parse_position ''line'' t = Some l" "parse_position ''column'' t = Some c"
    and i: "i = \<lparr>te_file = ?file, te_name = ?name, te_line = l, te_column = c\<rparr>"
    and ok: "?file \<noteq> []" "?name \<noteq> []" "length ?file \<le> 1000" "length ?name \<le> 2000" "CHR 0x00 \<notin> set ?file"
      "CHR 0x00 \<notin> set ?name" "CHR 0x0D \<notin> set ?file" "CHR 0x0A \<notin> set ?file"
    using assms by (auto simp: parse_identity_def Let_def not_less split: if_splits option.splits)
  have "parse_position ''line'' (identity_json i) = Some l" "parse_position ''column'' (identity_json i) = Some c"
    using parse_position_identity [of i] lc by (auto simp: i dest: parse_position_pos)
  then show ?thesis
    using ok unfolding parse_identity_def json_text_identity Let_def by (simp add: i via_text_def)
qed

text \<open>A list in which no later identity names a test an earlier one names.\<close>

abbreviation apart :: "test_identity list \<Rightarrow> bool" where
  "apart \<equiv> sorted_wrt (\<lambda>x y. \<not> sameTesterIdentity x y)"

lemma parse_identities_result:
  "parse_identities out ts = Some res \<Longrightarrow> apart out \<Longrightarrow>
     \<exists>new. res = out @ new \<and> apart res \<and> length new \<le> length ts \<and> (\<forall>i \<in> set new. parse_identity (identity_json i) = Some i)"
proof (induction ts arbitrary: out)
  case (Cons t ts)
  obtain i where i: "parse_identity t = Some i" using Cons.prems(1) by (auto split: option.splits)
  let ?out = "if list_ex (\<lambda>x. sameTesterIdentity x i) out then out else out @ [i]"
  have run: "parse_identities ?out ts = Some res" using Cons.prems(1) i by simp
  have ap: "apart ?out" using Cons.prems(2) by (auto simp: sorted_wrt_append list_ex_iff)
  obtain new where new: "res = ?out @ new" "apart res" "length new \<le> length ts" "\<forall>i \<in> set new. parse_identity (identity_json i) = Some i"
    using Cons.IH [OF run ap] by blast
  then show ?case using parse_identity_stable [OF i]
    by (intro exI [of _ "if list_ex (\<lambda>x. sameTesterIdentity x i) out then new else i # new"]) (auto split: if_splits)
qed simp

lemma parse_identities_all:
  "\<forall>i \<in> set new. parse_identity (identity_json i) = Some i \<Longrightarrow> apart (out @ new) \<Longrightarrow>
     parse_identities out (map identity_json new) = Some (out @ new)"
proof (induction new arbitrary: out)
  case (Cons i new)
  have "\<not> list_ex (\<lambda>x. sameTesterIdentity x i) out"
    using Cons.prems(2) by (auto simp: sorted_wrt_append list_ex_iff)
  then show ?case using Cons.IH [of "out @ [i]"] Cons.prems by simp
qed simp

text \<open>
  The identities a PASS stores are the ones the landing reads. When a list of test
  identities is accepted, the list written to the record is accepted again and gives the same
  identities in the same order; no two of them name the same test.
\<close>

theorem identities_round_trip:
  assumes "parseTesterIdentities raw = Some ts"
  shows "parseTesterIdentities (JArr (map identity_json ts)) = Some ts \<and> apart ts"
proof -
  obtain xs where xs: "length xs \<le> MAX_TESTER_IDENTITIES" "parse_identities [] xs = Some ts"
    using assms by (auto simp: parseTesterIdentities_def not_less split: json.splits if_splits)
  from parse_identities_result [OF xs(2)] have "apart ts" "length ts \<le> length xs"
    "\<forall>i \<in> set ts. parse_identity (identity_json i) = Some i" by auto
  then show ?thesis using xs(1) parse_identities_all [of ts "[]"] by (simp add: parseTesterIdentities_def)
qed

definition sample_tests :: json where
  "sample_tests = JArr [JObj [(''file'', JStr '' a.test.ts ''), (''name'', JStr ''adds''), (''line'', JNum 3)],
     JObj [(''file'', JStr ''a.test.ts''), (''name'', JStr ''adds'')]]"

definition sample_identity :: test_identity where
  "sample_identity = \<lparr>te_file = ''a.test.ts'', te_name = ''adds'', te_line = Some 3, te_column = None\<rparr>"

theorem identities_round_trip_witness:
  "parseTesterIdentities sample_tests = Some [sample_identity] \<and>
   parseTesterIdentities (JArr (map identity_json [sample_identity])) = Some [sample_identity]"
proof -
  have "parseTesterIdentities sample_tests = Some [sample_identity]" by code_simp
  with identities_round_trip [OF this] show ?thesis by blast
qed

section \<open>What a verdict must prove\<close>

lemma bindT_liftT_Inr: "bindT (liftT r) f s = Inr y \<longleftrightarrow> (\<exists>x. r = Inr x \<and> f x s = Inr y)"
  by (cases r) simp_all

lemma validatedBindingD:
  assumes "validatedBinding inp strict currentHash pass human = Inr b"
  shows "b = bound_input inp" and "well_shaped inp"
    and "truthy (vb_contract_hash b) \<Longrightarrow> truthy currentHash \<Longrightarrow> vb_contract_hash b = currentHash"
    and "strict \<Longrightarrow> pass \<Longrightarrow> truthy (vb_tested_commit b) \<and> truthy (vb_contract_hash b)"
    and "pass \<Longrightarrow> \<not> human \<Longrightarrow> vb_replay b = Some ''passed''"
  using assms by (auto simp: validatedBinding_def Let_def split: if_splits)

lemma assertAcceptanceD:
  assumes "assertAcceptanceEvidence db t eid b h = Inr acc" and "contractProfile (parseTestContract (t_test_contract t)) \<noteq> UnitProfile"
  shows "\<exists>r \<in> set (db_evidence db). ev_ticket_id r = t_id t \<and> Some (ev_id r) = eid \<and>
    contractProfile (parseTestContract (t_test_contract t)) \<in> set EXECUTABLE_PROFILES \<and>
    acceptance_row_ok (contractProfile (parseTestContract (t_test_contract t))) b h r"
proof -
  from assms obtain r where r: "find (\<lambda>e. Some (ev_id e) = eid) (evidence_listForTicket db (t_id t)) = Some r"
    "acceptance_row_ok (contractProfile (parseTestContract (t_test_contract t))) b h r"
    "contractProfile (parseTestContract (t_test_contract t)) \<in> set EXECUTABLE_PROFILES"
    by (auto simp: assertAcceptanceEvidence_def Let_def split: if_splits option.splits)
  then show ?thesis by (auto simp: evidence_listForTicket_def dest!: find_SomeD)
qed

text \<open>What a PASS leaves: one evidence row, the move and the event that names the row.\<close>

definition pass_left ::
  "env \<Rightarrow> ticket \<Rightarrow> json \<Rightarrow> bool \<Rightarrow> string option \<Rightarrow> verdict_binding \<Rightarrow> db \<Rightarrow> transition_result \<Rightarrow> db \<Rightarrow> bool" where
  "pass_left en t payload toReview testedHead b db res db' = (
     t_status (tres_ticket res) = (if toReview then InReview else ReadyForMerge) \<and> t_id (tres_ticket res) = t_id t \<and>
     (\<exists>row te pe. db_evidence db' = db_evidence db @ [row] \<and> ev_id row \<notin> ev_id ` set (db_evidence db) \<and>
        ev_ticket_id row = t_id t \<and> ev_type row = TestOutput \<and> ev_payload_json row = Some payload \<and> ev_created_at row = en_now en \<and>
        db_events db' = db_events db @ [te, pe] \<and> is_transition (t_id t) te \<and>
        json_text ''to'' (we_payload te) = Some (status_name (if toReview then InReview else ReadyForMerge)) \<and>
        json_text ''from'' (we_payload te) = Some ''in_testing'' \<and>
        we_entity_type pe = ''ticket'' \<and> we_entity_id pe = t_id t \<and> we_event_type pe = ''ticket.tester_passed'' \<and>
        we_payload pe = Some (JObj (passed_payload (ev_id row) toReview testedHead b (contractHash en db (t_id t))))) \<and>
     contractHash en db' (t_id t) = contractHash en db (t_id t))"

lemma contractHash_effect:
  "contractHash en (transition_effect en' inp u db) i = contractHash en db i"
proof -
  have "contract_parts (transition_effect en' inp u db) (if t_id u = i then moved en' inp u t else t) = contract_parts db t" for t
    by (simp add: contract_parts_def transition_effect_def moved_def apply_status_def Let_def)
  moreover have "ticket_findById (transition_effect en' inp u db) i =
      map_option (\<lambda>t. if t_id t = t_id u then moved en' inp u t else t) (ticket_findById db i)"
    by (simp add: ticket_findById_def transition_effect_def find_row_upd_rows)
  ultimately show ?thesis
    by (cases "ticket_findById db i") (auto simp: contractHash_def ticket_findById_def dest: find_row_SomeD)
qed

lemma contractHash_frame:
  "contractHash en (db\<lparr>db_evidence := x\<rparr>) i = contractHash en db i"
  "contractHash en (add_event en' et ei ac ty pl db) i = contractHash en db i"
  by (simp_all add: contractHash_def ticket_findById_def contract_parts_def add_event_def split: option.split)

lemma wp_insert_test_output:
  assumes "\<And>row. ev_id row = en_uuid en EvidenceId (length (db_evidence s)) \<Longrightarrow> ev_id row \<notin> ev_id ` set (db_evidence s) \<Longrightarrow>
      ev_ticket_id row = i \<Longrightarrow> ev_type row = TestOutput \<Longrightarrow> ev_payload_json row = Some p \<Longrightarrow> ev_created_at row = en_now en \<Longrightarrow>
      Q (ev_id row) (s\<lparr>db_evidence := db_evidence s @ [row]\<rparr>)"
  shows "wp (insert_test_output en i sm u p a) Q s"
  unfolding insert_test_output_def wp_simps
  by (intro impI assms [of "\<lparr>ev_id = en_uuid en EvidenceId (length (db_evidence s)), ev_ticket_id = i, ev_ac_id = None, ev_repo_id = None,
       ev_decision_id = None, ev_type = TestOutput, ev_summary = sm, ev_uri = u,
       ev_payload_json = Some p, ev_created_by = actor_label a, ev_recorded_by = Some (a_type a),
       ev_created_at = en_now en\<rparr>", simplified]) (auto simp: evidence_insert_def split: if_splits)

lemma wp_pass_move:
  assumes "distinct (map t_id (db_tickets db))" and "ticket_findById db (t_id t) = Some t"
    and "toReview \<longrightarrow> to = InReview" "\<not> toReview \<longrightarrow> to = ReadyForMerge"
  shows "wp (bindT (insert_test_output en (t_id t) sm u p actor) (\<lambda>eid.
     bindT (transition en ((sysmove (t_id t) actor to ''tester_passed'' [TesterVerdict])
              \<lparr>ti_expectedFromStatus := Some InTesting, ti_deliveryDiff := diff\<rparr>)) (\<lambda>res.
     bindT (ticketEvent en (t_id t) actor ''ticket.tester_passed''
              (passed_payload eid toReview th b (contractHash en db (t_id t)))) (\<lambda>_.
     returnT res)))) (pass_left en t p toReview th b db) db"
  unfolding wp_bind
proof (rule wp_insert_test_output)
  fix row :: evidence assume row: "ev_id row \<notin> ev_id ` set (db_evidence db)" "ev_ticket_id row = t_id t" "ev_type row = TestOutput"
    "ev_payload_json row = Some p" "ev_created_at row = en_now en"
  let ?s = "db\<lparr>db_evidence := db_evidence db @ [row]\<rparr>"
  let ?inp = "(sysmove (t_id t) actor to ''tester_passed'' [TesterVerdict])
              \<lparr>ti_expectedFromStatus := Some InTesting, ti_deliveryDiff := diff\<rparr>"
  show "wp (transition en ?inp) (\<lambda>res. wp (ticketEvent en (t_id t) actor ''ticket.tester_passed''
              (passed_payload (ev_id row) toReview th b (contractHash en db (t_id t)))) (\<lambda>_. wp (returnT res) (pass_left en t p toReview th b db))) ?s"
  proof (rule wp_transition)
    show "distinct (map t_id (db_tickets ?s))" using assms(1) by simp
    fix v policy and res :: transition_result
    assume v: "ticket_findById ?s (ti_ticketId ?inp) = Some v" "transition_check en ?inp ?s v = Inr policy"
      and res: "tres_ticket res = moved en ?inp v v"
    have vt: "v = t" using v(1) assms(2) by (simp add: ticket_findById_def)
    have st: "t_status t = InTesting" using transition_checkD(4) [OF v(2)] vt by simp
    let ?pl = "passed_payload (ev_id row) toReview th b (contractHash en db (t_id t))"
    let ?e = "transition_effect en ?inp v ?s" and ?te = "transition_event en ?inp v ?s"
    let ?pe = "\<lparr>we_id = en_uuid en EventId (length (db_events ?e)), we_entity_type = ''ticket'', we_entity_id = t_id t,
      we_actor_type = a_type actor, we_actor_id = a_id actor, we_event_type = ''ticket.tester_passed'',
      we_payload = Some (JObj ?pl), we_correlation_id = en_correlation en, we_created_at = en_now en\<rparr>"
    let ?out = "add_event en ''ticket'' (t_id t) actor ''ticket.tester_passed'' (Some (JObj ?pl)) ?e"
    have to: "to = (if toReview then InReview else ReadyForMerge)" using assms(3,4) by simp
    have hash: "contractHash en ?out (t_id t) = contractHash en db (t_id t)"
      by (simp only: contractHash_effect contractHash_frame)
    have tables: "db_evidence ?out = db_evidence db @ [row]" "db_events ?out = db_events db @ [?te, ?pe]"
      by (simp_all add: transition_effect_def add_event_def)
    have te: "is_transition (t_id t) ?te" "json_text ''to'' (we_payload ?te) = Some (status_name to)"
      "json_text ''from'' (we_payload ?te) = Some ''in_testing''"
      using st by (simp_all add: vt transition_event_def is_transition_def transition_payload_def json_text_def)
    have "pass_left en t p toReview th b db res ?out"
      unfolding pass_left_def hash tables
      using row res te by (intro conjI exI [of _ row] exI [of _ ?te] exI [of _ ?pe]) (simp_all add: vt to)
    then show "wp (ticketEvent en (t_id t) actor ''ticket.tester_passed'' ?pl)
       (\<lambda>_. wp (returnT res) (pass_left en t p toReview th b db)) ?e"
      by (simp only: wp_simps)
  qed
qed

definition pass_to_review :: "db \<Rightarrow> ticket \<Rightarrow> bool" where
  "pass_to_review db t = (t_status t = InTesting \<and> enteredTestingBeforeReview db (t_id t))"

text \<open>The commit whose required CI a PASS that goes to merge must show.\<close>

definition pass_candidate :: "gate_env \<Rightarrow> db \<Rightarrow> ticket \<Rightarrow> pass_input \<Rightarrow> string option" where
  "pass_candidate ga db t inp = (case vi_tested_commit (pi_verdict inp) of Some c \<Rightarrow> Some c
     | None \<Rightarrow> if ci_required (ciStatus db (t_id t) None) then map_option rh_sha (ciCandidateHead ga db t) else None)"

definition tested_head :: "gate_env \<Rightarrow> db \<Rightarrow> ticket \<Rightarrow> pass_input \<Rightarrow> string option" where
  "tested_head ga db t inp = orElse (vb_tested_commit (bound_input (pi_verdict inp)))
     (map_option lower (if pass_to_review db t then map_option rh_sha (ciCandidateHead ga db t) else None))"

lemma bindT_throwIf_Inr: "bindT (throwIf b e) f s = Inr y \<longleftrightarrow> \<not> b \<and> f () s = Inr y"
  by (simp add: throwIf_def)

lemma bindT_unless_ci_Inr:
  "bindT (whenT (\<not> r) (assertCiPassed t c)) f db = Inr y \<longleftrightarrow>
     (r \<or> \<not> ci_required (ciStatus db (t_id t) c) \<or> c \<noteq> None \<and> ci_state (ciStatus db (t_id t) c) = Some ''pass'') \<and> f () db = Inr y"
  by (auto simp: whenT_def assertCiPassed_def bindT_def getT_def throwIf_def throwT_def returnT_def)

lemma pass_applyD:
  assumes "pass_apply en inp actor t tests agent toReview diff c headNow db = Inr (res, db')"
    and "distinct (map t_id (db_tickets db))" and "ticket_findById db (t_id t) = Some t"
  shows "\<exists>b acc. t_status t = InTesting \<and>
    validatedBinding (pi_verdict inp) (t_acceptance t \<and> testerProvenance actor \<noteq> ByHuman) (contractHash en db (t_id t)) True
      (testerProvenance actor = ByHuman) = Inr b \<and>
    (if testerProvenance actor = ByHuman then Inr None
      else assertAcceptanceEvidence db t (pi_acceptance_evidence inp) b (contractHash en db (t_id t))) = Inr acc \<and>
    (toReview \<or> \<not> ci_required (ciStatus db (t_id t) c) \<or> c \<noteq> None \<and> ci_state (ciStatus db (t_id t) c) = Some ''pass'') \<and>
    pass_left en t (pass_payload actor b acc tests agent) toReview (orElse (vb_tested_commit b) (map_option lower headNow)) b db res db'"
proof -
  have move: "toReview \<longrightarrow> (if toReview then InReview else ReadyForMerge) = InReview"
    "\<not> toReview \<longrightarrow> (if toReview then InReview else ReadyForMerge) = ReadyForMerge" by simp_all
  show ?thesis
    using assms(1) wp_Inr [OF wp_pass_move [OF assms(2,3) move]]
    unfolding pass_apply_def Let_def bindT_throwIf_Inr bindT_liftT_Inr bindT_get bindT_unless_ci_Inr by blast
qed

lemma testerPassD:
  assumes "testerPass en ga ref inp actor db = Inr (res, db')" and "distinct (map t_id (db_tickets db))"
  obtains t tests agent acc where "resolve_ref db ref = Some t" "t_status t = InTesting"
    and "pass_tests inp actor = Inr tests" "pass_agent inp actor = Inr agent"
    and "validatedBinding (pi_verdict inp) (t_acceptance t \<and> testerProvenance actor \<noteq> ByHuman) (contractHash en db (t_id t)) True
      (testerProvenance actor = ByHuman) = Inr (bound_input (pi_verdict inp))"
    and "if testerProvenance actor = ByHuman then acc = None
      else assertAcceptanceEvidence db t (pi_acceptance_evidence inp) (bound_input (pi_verdict inp)) (contractHash en db (t_id t)) = Inr acc"
    and "pass_to_review db t \<or> (\<forall>c. c = ciStatus db (t_id t) (pass_candidate ga db t inp) \<longrightarrow>
      ci_required c \<longrightarrow> pass_candidate ga db t inp \<noteq> None \<and> ci_state c = Some ''pass'')"
    and "pass_left en t (pass_payload actor (bound_input (pi_verdict inp)) acc tests agent) (pass_to_review db t)
      (tested_head ga db t inp) (bound_input (pi_verdict inp)) db res db'"
proof -
  let ?human = "testerProvenance actor = ByHuman"
  from assms(1) obtain tests agent t where t: "pass_tests inp actor = Inr tests" "pass_agent inp actor = Inr agent" "resolve_ref db ref = Some t"
    and run: "pass_apply en inp actor t tests agent (pass_to_review db t)
        (if t_status t = InTesting \<and> \<not> pass_to_review db t then Some (deliveryDiffProof en db t) else None)
        (if pass_to_review db t then None else pass_candidate ga db t inp)
        (if pass_to_review db t then map_option rh_sha (ciCandidateHead ga db t) else None) db = Inr (res, db')"
    unfolding testerPass_def bindT_throwIf_Inr bindT_liftT_Inr bindT_resolved bindT_get pass_to_review_def pass_candidate_def by blast
  have found: "ticket_findById db (t_id t) = Some t"
    using resolve_ref_mem [OF t(3)] assms(2) by (simp add: ticket_findById_def find_row_Some_iff)
  from pass_applyD [OF run assms(2) found] obtain b acc where st: "t_status t = InTesting"
    and b: "validatedBinding (pi_verdict inp) (t_acceptance t \<and> \<not> ?human) (contractHash en db (t_id t)) True ?human = Inr b"
    and acc: "(if ?human then Inr None else assertAcceptanceEvidence db t (pi_acceptance_evidence inp) b (contractHash en db (t_id t))) = Inr acc"
    and ci: "pass_to_review db t \<or> (\<forall>c. c = ciStatus db (t_id t) (pass_candidate ga db t inp) \<longrightarrow>
      ci_required c \<longrightarrow> pass_candidate ga db t inp \<noteq> None \<and> ci_state c = Some ''pass'')"
    and left: "pass_left en t (pass_payload actor b acc tests agent) (pass_to_review db t) (orElse (vb_tested_commit b) (map_option lower
      (if pass_to_review db t then map_option rh_sha (ciCandidateHead ga db t) else None))) b db res db'"
    by (cases "pass_to_review db t") auto
  have bb: "b = bound_input (pi_verdict inp)" by (rule validatedBindingD(1) [OF b])
  have "if ?human then acc = None
      else assertAcceptanceEvidence db t (pi_acceptance_evidence inp) (bound_input (pi_verdict inp)) (contractHash en db (t_id t)) = Inr acc"
    using acc by (simp add: bb split: if_split_asm)
  with that [OF t(3) st t(1,2)] b ci left show thesis unfolding bb tested_head_def by blast
qed

lemma resolved_found:
  "resolve_ref db ref = Some t \<Longrightarrow> distinct (map t_id (db_tickets db)) \<Longrightarrow> ticket_findById db (t_id t) = Some t"
  using resolve_ref_mem [of db ref t] by (simp add: ticket_findById_def find_row_Some_iff)

lemma contractHash_found: "resolve_ref db ref = Some t \<Longrightarrow> distinct (map t_id (db_tickets db)) \<Longrightarrow>
    contractHash en db (t_id t) = Some (en_sha256 en (join_with NUL (contract_parts db t)))"
  using resolved_found [of db ref t] by (simp add: contractHash_def)

lemma truthy_Some: "truthy (Some s) \<longleftrightarrow> s \<noteq> []"
  by (simp add: truthy_def)

text \<open>What an automated PASS of a ticket rests on.\<close>

definition pass_proof :: "env \<Rightarrow> db \<Rightarrow> ticket \<Rightarrow> verdict_binding \<Rightarrow> string option \<Rightarrow> bool" where
  "pass_proof en db t b eid = (let profile = contractProfile (parseTestContract (t_test_contract t)) in
     vb_replay b = Some ''passed'' \<and>
     (t_acceptance t \<longrightarrow> (\<exists>c. vb_tested_commit b = Some c \<and> full_sha c) \<and> vb_contract_hash b = contractHash en db (t_id t)) \<and>
     (profile \<noteq> UnitProfile \<longrightarrow> profile \<in> set EXECUTABLE_PROFILES \<and>
        (\<exists>r \<in> set (db_evidence db). ev_ticket_id r = t_id t \<and> Some (ev_id r) = eid \<and> ev_recorded_by r = Some System \<and>
           json_text ''profile'' (ev_payload_json r) = Some (profile_name profile) \<and>
           Option.bind (ev_payload_json r) (json_field ''passed'') = Some (JBool True) \<and>
           json_text ''contract_hash'' (ev_payload_json r) = contractHash en db (t_id t))))"

lemma acceptance_row_okD:
  assumes "acceptance_row_ok profile b (Some h) r" and "h \<noteq> []"
  shows "ev_recorded_by r = Some System \<and> json_text ''profile'' (ev_payload_json r) = Some (profile_name profile) \<and>
    Option.bind (ev_payload_json r) (json_field ''passed'') = Some (JBool True) \<and>
    json_text ''contract_hash'' (ev_payload_json r) = Some h"
  using assms by (simp add: acceptance_row_ok_def Let_def truthy_Some)

text \<open>
  C7. No automated PASS without proof. A PASS that returns found its ticket in testing. Unless a
  person gave it, the verdict carries a replay that passed; for an acceptance ticket it names
  the full id of the tested commit and the hash of the contract as it is now; for a contract
  with a profile, the profile is one the runner executes and the evidence row the verdict names
  is the ticket's, was recorded by the system, passed, and is about this contract. A PASS that
  goes on to merge has a passed result for its candidate where CI is required; one for a ticket
  tested before its review returns to review. (Hashes are not empty.)
\<close>

theorem automated_pass_proven:
  assumes "testerPass en ga ref inp actor db = Inr (res, db')" and "distinct (map t_id (db_tickets db))"
    and "\<forall>s. en_sha256 en s \<noteq> []"
  shows "\<exists>t. resolve_ref db ref = Some t \<and> t_status t = InTesting \<and>
    (testerProvenance actor \<noteq> ByHuman \<longrightarrow> pass_proof en db t (bound_input (pi_verdict inp)) (pi_acceptance_evidence inp)) \<and>
    t_status (tres_ticket res) = (if enteredTestingBeforeReview db (t_id t) then InReview else ReadyForMerge) \<and>
    (\<not> enteredTestingBeforeReview db (t_id t) \<longrightarrow> ci_required (ciStatus db (t_id t) (pass_candidate ga db t inp)) \<longrightarrow>
      pass_candidate ga db t inp \<noteq> None \<and> ci_state (ciStatus db (t_id t) (pass_candidate ga db t inp)) = Some ''pass'')"
proof (rule testerPassD [OF assms(1,2)])
  let ?b = "bound_input (pi_verdict inp)" and ?human = "testerProvenance actor = ByHuman"
  fix t tests agent acc
  assume t: "resolve_ref db ref = Some t" "t_status t = InTesting"
    and b: "validatedBinding (pi_verdict inp) (t_acceptance t \<and> \<not> ?human) (contractHash en db (t_id t)) True ?human = Inr ?b"
    and acc: "if ?human then acc = None
      else assertAcceptanceEvidence db t (pi_acceptance_evidence inp) ?b (contractHash en db (t_id t)) = Inr acc"
    and ci: "pass_to_review db t \<or> (\<forall>c. c = ciStatus db (t_id t) (pass_candidate ga db t inp) \<longrightarrow>
      ci_required c \<longrightarrow> pass_candidate ga db t inp \<noteq> None \<and> ci_state c = Some ''pass'')"
    and left: "pass_left en t (pass_payload actor ?b acc tests agent) (pass_to_review db t) (tested_head ga db t inp) ?b db res db'"
  let ?h = "en_sha256 en (join_with NUL (contract_parts db t))"
  have h: "contractHash en db (t_id t) = Some ?h" "?h \<noteq> []" using contractHash_found [OF t(1) assms(2)] assms(3) by simp_all
  have "pass_proof en db t ?b (pi_acceptance_evidence inp)" if "\<not> ?human"
  proof -
    have "vb_tested_commit ?b = Some c \<Longrightarrow> full_sha c" for c
      using validatedBindingD(2) [OF b] by (auto simp: bound_input_def well_shaped_def)
    then have "(\<exists>c. vb_tested_commit ?b = Some c \<and> full_sha c) \<and> vb_contract_hash ?b = Some ?h" if "t_acceptance t"
      using validatedBindingD(3,4) [OF b] that \<open>\<not> ?human\<close> h by (auto simp: truthy_def split: option.splits)
    moreover have "vb_replay ?b = Some ''passed''" using validatedBindingD(5) [OF b] that by simp
    moreover have acc: "assertAcceptanceEvidence db t (pi_acceptance_evidence inp) ?b (Some ?h) = Inr acc" using acc that h(1) by simp
    ultimately show ?thesis
      using assertAcceptanceD [OF acc] acceptance_row_okD [OF _ h(2)] unfolding pass_proof_def Let_def h(1) by blast
  qed
  then show ?thesis using t ci left by (auto simp: pass_left_def pass_to_review_def)
qed

definition testing_db :: db where
  "testing_db = empty_db\<lparr>db_tickets := [sample_ticket ''t1'' 1 InTesting],
     db_events := [\<lparr>we_id = ''e0'', we_entity_type = ''ticket'', we_entity_id = ''t1'', we_actor_type = System, we_actor_id = None,
       we_event_type = ''ticket.routed_to_testing'', we_payload = Some (JObj [(''before_review'', JBool True)]),
       we_correlation_id = None, we_created_at = 0\<rparr>]\<rparr>"

definition sample_verdict :: pass_input where
  "sample_verdict = \<lparr>pi_summary = ''ok'', pi_uri = None, pi_verdict = \<lparr>vi_tested_commit = Some sample_sha, vi_contract_hash = None,
     vi_replay = Some ''passed'', vi_tests_commit = None\<rparr>, pi_acceptance_evidence = None, pi_tests = None, pi_tester_agent = None\<rparr>"

lemma sample_pass:
  "case testerPass sample_env sample_ga ''t1'' sample_verdict sample_runner testing_db of
     Inr (res, db') \<Rightarrow> t_status (tres_ticket res) = InReview \<and>
       contractHash sample_env db' ''t1'' = contractHash sample_env testing_db ''t1'' | Inl _ \<Rightarrow> False"
  by code_simp

lemma sample_passed:
  obtains res db' where "testerPass sample_env sample_ga ''t1'' sample_verdict sample_runner testing_db = Inr (res, db')"
  using sample_pass by (auto split: prod.splits sum.splits)

lemma testing_db_keys: "distinct (map t_id (db_tickets testing_db))"
  by (simp add: testing_db_def)

lemma sample_hash: "en_sha256 sample_env s \<noteq> []"
  by (simp add: sample_env_def)

theorem automated_pass_proven_witness:
  "\<exists>t res db'. testerPass sample_env sample_ga ''t1'' sample_verdict sample_runner testing_db = Inr (res, db') \<and>
     resolve_ref testing_db ''t1'' = Some t \<and> t_status t = InTesting \<and>
     pass_proof sample_env testing_db t (bound_input (pi_verdict sample_verdict)) None"
proof (rule sample_passed)
  fix res db' assume run: "testerPass sample_env sample_ga ''t1'' sample_verdict sample_runner testing_db = Inr (res, db')"
  from automated_pass_proven [OF run testing_db_keys] sample_hash run show ?thesis
    by (auto simp: sample_verdict_def sample_runner_def testerProvenance_def)
qed

section \<open>What a PASS covers\<close>

lemma last_row_Nil [simp]: "last_row P [] = None"
  by (simp add: last_row_def)

lemma last_row_snoc [simp]: "last_row P (xs @ [y]) = (if P y then Some (length xs, y) else last_row P xs)"
  by (simp add: last_row_def enumerate_append_eq)

lemma last_row_none: "\<forall>y \<in> set ys. \<not> P y \<Longrightarrow> last_row P (xs @ ys) = last_row P xs"
proof (induction ys rule: rev_induct)
  case (snoc y ys)
  then show ?case using last_row_snoc [of P "xs @ ys" y] by simp
qed simp

lemma last_row_bound: "last_row P xs = Some (i, x) \<Longrightarrow> i < length xs"
  by (induction xs rule: rev_induct) (auto split: if_split_asm)

lemma asSha_full: "full_sha s \<Longrightarrow> asSha (Some s) = Some s"
proof -
  assume s: "full_sha s"
  have "is_lower_hex c \<Longrightarrow> \<not> js_ws c" for c
    by (auto simp: is_lower_hex_def js_ws_def Let_def)
  then have plain: "\<forall>c \<in> set s. \<not> js_ws c" using s by (auto simp: full_sha_def list_all_iff)
  have "\<forall>c \<in> set xs. \<not> js_ws c \<Longrightarrow> dropWhile js_ws xs = xs" for xs by (cases xs) auto
  from this [of s] this [of "rev s"] plain have "js_trim s = s" by (simp add: js_trim_def)
  then show ?thesis using s full_sha_lower [OF s] by (auto simp: asSha_def commit_id_ok_def full_sha_def)
qed

lemma passed_payload_reads:
  "json_text ''evidence_id'' (Some (JObj (passed_payload eid r th b h))) = Some eid"
  "json_text ''tested_head'' (Some (JObj (passed_payload eid r th b h))) = (if truthy th then Some (via_text th) else None)"
  "json_text ''contract_hash'' (Some (JObj (passed_payload eid r th b h))) =
     (if r \<and> \<not> truthy (vb_contract_hash b) \<and> truthy h then Some (via_text h) else None)"
  by (auto simp: json_text_def passed_payload_def)

lemma pass_payload_reads:
  "json_text ''tested_commit'' (Some (pass_payload actor b acc tests agent)) = vb_tested_commit b"
  "json_text ''contract_hash'' (Some (pass_payload actor b acc tests agent)) = vb_contract_hash b"
  by (cases "vb_tested_commit b"; cases "vb_contract_hash b"; cases "vb_replay b";
      simp add: json_text_def pass_payload_def binding_fields_def field_opt_def split: option.split prod.split)+

text \<open>Rows written later that are neither a verdict nor the start of a review round.\<close>

definition later :: "id \<Rightarrow> db \<Rightarrow> db \<Rightarrow> bool" where
  "later tid db db' = (\<exists>es rows. db_events db' = db_events db @ es \<and> db_evidence db' = db_evidence db @ rows \<and>
     (\<forall>e \<in> set es. \<not> is_verdict tid e \<and> \<not> entered_round tid e))"

lemma find_fresh: "P x \<Longrightarrow> \<forall>y \<in> set xs. \<not> P y \<Longrightarrow> find P (xs @ x # ys) = Some x"
  by (induction xs) auto

lemma coverage_of_pass:
  assumes "pass_left en t (pass_payload actor b acc tests agent) True th b db res db1" and "later (t_id t) db1 db2" and "t_id u = t_id t"
    and "\<And>c. th = Some c \<Longrightarrow> full_sha c" and "vb_tested_commit b \<noteq> None \<Longrightarrow> th = vb_tested_commit b"
    and "if truthy (vb_contract_hash b) then vb_contract_hash b = contractHash en db (t_id t)
         else vb_contract_hash b = None \<and> truthy (contractHash en db (t_id t))"
  shows "cv_covered (testerCoverage en db2 u heads) \<longleftrightarrow>
    (head_shas heads = [] \<or> (\<exists>c h. th = Some c \<and> h \<in> set (head_shas heads) \<and> same_commit h c)) \<and>
    contractHash en db2 (t_id t) = contractHash en db (t_id t)"
proof -
  from assms(1) obtain row te pe where row: "db_evidence db1 = db_evidence db @ [row]" "ev_id row \<notin> ev_id ` set (db_evidence db)"
      "ev_ticket_id row = t_id t" "ev_payload_json row = Some (pass_payload actor b acc tests agent)"
    and ev: "db_events db1 = db_events db @ [te, pe]" "is_transition (t_id t) te" "json_text ''from'' (we_payload te) = Some ''in_testing''"
    and pe: "we_entity_type pe = ''ticket''" "we_entity_id pe = t_id t" "we_event_type pe = ''ticket.tester_passed''"
      "we_payload pe = Some (JObj (passed_payload (ev_id row) True th b (contractHash en db (t_id t))))"
    unfolding pass_left_def by blast
  from assms(2) obtain es rows where later: "db_events db2 = (db_events db @ [te] @ [pe]) @ es" "db_evidence db2 = db_evidence db @ row # rows"
    "\<forall>e \<in> set es. \<not> is_verdict (t_id t) e \<and> \<not> entered_round (t_id t) e" by (auto simp: later_def ev row(1))
  have v: "last_row (is_verdict (t_id t)) (db_events db2) = Some (Suc (length (db_events db)), pe)"
  proof -
    have "last_row (is_verdict (t_id t)) (db_events db2) = last_row (is_verdict (t_id t)) ((db_events db @ [te]) @ [pe])"
      unfolding later(1) append_assoc [symmetric] by (rule last_row_none) (use later(3) in blast)
    then show ?thesis unfolding last_row_snoc using pe by (simp add: is_verdict_def)
  qed
  have "\<not> entered_round (t_id t) te" "\<not> entered_round (t_id t) pe" using ev pe by (simp_all add: entered_round_def is_transition_def)
  then have r: "last_row (entered_round (t_id t)) (db_events db2) = last_row (entered_round (t_id t)) (db_events db)"
    unfolding later(1) append_assoc by (intro last_row_none) (use later(3) in auto)
  have fresh: "\<not> (case last_row (entered_round (t_id t)) (db_events db2) of None \<Rightarrow> False | Some (i, _) \<Rightarrow> Suc (length (db_events db)) < i)"
    unfolding r by (auto split: option.splits dest: last_row_bound)
  have "find (\<lambda>e. ev_id e = ev_id row \<and> ev_ticket_id e = t_id t) (db_evidence db @ row # rows) = Some row"
    using row(2,3) by (intro find_fresh) (auto, metis imageI)
  then have bind: "binding_of db2 (t_id t) (we_payload pe) = Some (pass_payload actor b acc tests agent)"
    by (simp add: binding_of_def pe(4) passed_payload_reads later(2) row(4))
  let ?p = "we_payload pe" and ?bind = "Some (pass_payload actor b acc tests agent)"
  have tested: "orElse (asSha (json_text ''tested_head'' ?p)) (asSha (json_text ''tested_commit'' ?bind)) = th"
  proof (cases th)
    case None
    then have "vb_tested_commit b = None" using assms(5) by (cases "vb_tested_commit b") auto
    then show ?thesis unfolding pe(4) passed_payload_reads pass_payload_reads by (simp add: None truthy_def asSha_def)
  next
    case (Some c)
    then have "full_sha c" by (rule assms(4))
    moreover from this have "c \<noteq> []" by (auto simp: full_sha_def)
    ultimately show ?thesis unfolding pe(4) passed_payload_reads by (simp add: Some truthy_def via_text_def asSha_full)
  qed
  have recorded: "orElse (json_text ''contract_hash'' ?bind) (json_text ''contract_hash'' ?p) = contractHash en db (t_id t)"
    "truthy (contractHash en db (t_id t))"
    using assms(6) unfolding pe(4) passed_payload_reads pass_payload_reads
    by (auto simp: truthy_def via_text_def split: option.splits if_split_asm)
  have unmatched: "(case th of None \<Rightarrow> True | Some c \<Rightarrow> \<not> list_ex (\<lambda>h. same_commit h c) (head_shas heads)) \<longleftrightarrow>
      \<not> (\<exists>c h. th = Some c \<and> h \<in> set (head_shas heads) \<and> same_commit h c)"
    by (cases th) (auto simp: list_ex_iff)
  show ?thesis
    unfolding testerCoverage_def Let_def assms(3) v option.case prod.case bind tested recorded(1) unmatched
    using fresh recorded(2) pe(3) by auto
qed

text \<open>
  C21. A PASS covers what was tested and nothing else. After a PASS that returns a ticket to review
  and until the next verdict or the next round, the candidate is covered exactly when one of its
  heads is the tested commit (or it has no head) and the contract hashes to what it hashed to
  when the verdict was given. So an edit of the contract sends the ticket back to the tester, and
  so do new commits once no write repository's head is the tested commit any more; one matching
  head covers the candidate, even when the head of another write repository has moved. (Git ids
  are full hashes, hashes are not empty.)
\<close>

theorem pass_covers:
  assumes "testerPass en ga ref inp actor db = Inr (res, db1)" and "distinct (map t_id (db_tickets db))"
    and "t_status (tres_ticket res) = InReview" and "resolve_ref db ref = Some t"
    and "\<forall>s. en_sha256 en s \<noteq> []" and "\<forall>h \<in> set (resolveReviewedHeads ga db t). full_sha (rh_sha h)"
    and "later (t_id t) db1 db2" and "t_id u = t_id t"
  shows "cv_covered (testerCoverage en db2 u heads) \<longleftrightarrow>
    (head_shas heads = [] \<or> (\<exists>c h. tested_head ga db t inp = Some c \<and> h \<in> set (head_shas heads) \<and> same_commit h c)) \<and>
    contractHash en db2 (t_id t) = contractHash en db (t_id t)"
proof (rule testerPassD [OF assms(1,2)])
  let ?b = "bound_input (pi_verdict inp)" and ?human = "testerProvenance actor = ByHuman"
  fix v tests agent acc
  assume v: "resolve_ref db ref = Some v"
    and b: "validatedBinding (pi_verdict inp) (t_acceptance v \<and> \<not> ?human) (contractHash en db (t_id v)) True ?human = Inr ?b"
    and left: "pass_left en v (pass_payload actor ?b acc tests agent) (pass_to_review db v) (tested_head ga db v inp) ?b db res db1"
  have vt: "v = t" using v assms(4) by simp
  have rev: "pass_to_review db t" using left assms(3) by (auto simp: pass_left_def vt split: if_split_asm)
  have hash: "truthy (contractHash en db (t_id t))" using contractHash_found [OF assms(4,2)] assms(5) by (simp add: truthy_Some)
  have shape: "vb_tested_commit ?b = Some c \<Longrightarrow> full_sha c" "vb_contract_hash ?b = Some c \<Longrightarrow> hash_ok c" for c
    using validatedBindingD(2) [OF b] by (auto simp: bound_input_def well_shaped_def)
  have "first_of (resolveReviewedHeads ga db t) = Some h \<Longrightarrow> full_sha (rh_sha h)" for h
    using assms(6) by (auto simp: first_of_def split: list.splits)
  then have full: "tested_head ga db t inp = Some c \<Longrightarrow> full_sha c" for c
    using shape(1) full_sha_lower by (auto simp: tested_head_def rev ciCandidateHead_def split: option.splits)
  have named: "vb_tested_commit ?b \<noteq> None \<Longrightarrow> tested_head ga db t inp = vb_tested_commit ?b" by (auto simp: tested_head_def)
  have "truthy (vb_contract_hash ?b) \<or> vb_contract_hash ?b = None"
    using shape(2) by (cases "vb_contract_hash ?b") (auto simp: truthy_Some hash_ok_def)
  then have "if truthy (vb_contract_hash ?b) then vb_contract_hash ?b = contractHash en db (t_id t)
         else vb_contract_hash ?b = None \<and> truthy (contractHash en db (t_id t))"
    using validatedBindingD(3) [OF b] hash by (auto simp: vt)
  from coverage_of_pass [OF left [unfolded vt, simplified rev] assms(7,8) full named this] show ?thesis .
qed

theorem pass_covers_witness:
  "\<exists>res db'. testerPass sample_env sample_ga ''t1'' sample_verdict sample_runner testing_db = Inr (res, db') \<and>
     cv_covered (testerCoverage sample_env db' (sample_ticket ''t1'' 1 InReview) [sample_head]) \<and>
     \<not> cv_covered (testerCoverage sample_env db' (sample_ticket ''t1'' 1 InReview) [sample_head\<lparr>rh_sha := ''deadbeef''\<rparr>])"
proof (rule sample_passed)
  fix res db' assume run: "testerPass sample_env sample_ga ''t1'' sample_verdict sample_runner testing_db = Inr (res, db')"
  let ?t = "sample_ticket ''t1'' 1 InTesting" and ?u = "sample_ticket ''t1'' 1 InReview"
  have st: "t_status (tres_ticket res) = InReview" using sample_pass run by simp
  have t: "resolve_ref testing_db ''t1'' = Some ?t"
    by (simp add: resolve_ref_def ticket_findById_def find_row_def testing_db_def sample_ticket_def)
  have id: "t_id ?t = ''t1''" "t_id ?u = t_id ?t" by (simp_all add: sample_ticket_def)
  have same: "later (t_id ?t) db' db'" by (simp add: later_def)
  have heads: "\<forall>h \<in> set (resolveReviewedHeads sample_ga testing_db ?t). full_sha (rh_sha h)"
    by (simp add: resolveReviewedHeads_def sample_ga_def sample_head_def sample_plan(6))
  have hash: "contractHash sample_env db' (t_id ?t) = contractHash sample_env testing_db (t_id ?t)"
    unfolding id(1) using sample_pass run by simp
  have tested: "tested_head sample_ga testing_db ?t sample_verdict = Some sample_sha" by code_simp
  have shas: "head_shas [sample_head] = [sample_sha]" "head_shas [sample_head\<lparr>rh_sha := ''deadbeef''\<rparr>] = [''deadbeef'']" by code_simp+
  have apart: "same_commit sample_sha sample_sha" "\<not> same_commit ''deadbeef'' sample_sha" by code_simp+
  show ?thesis
    using run pass_covers [OF run testing_db_keys st t _ heads same id(2)] sample_hash hash tested shas apart by auto
qed

section \<open>What a replay proves\<close>

text \<open>The row of a replay, as the landing reads it.\<close>

definition replay_row :: "env \<Rightarrow> ticket \<Rightarrow> replay_input \<Rightarrow> test_identity list \<Rightarrow> bool \<Rightarrow> evidence \<Rightarrow> bool" where
  "replay_row en t inp tests ids row = (ev_ticket_id row = t_id t \<and> ev_type row = Commit \<and> ev_recorded_by row = Some System \<and>
     ev_uri row = Some (TESTER_REPLAY_PREFIX @ norm (ri_commit inp)) \<and> ev_created_at row = en_now en \<and>
     json_text ''kind'' (ev_payload_json row) = Some ''tester_replay'' \<and>
     field_string ''tested'' (ev_payload_json row) = norm (ri_pin inp) \<and>
     Option.bind (ev_payload_json row) (json_field ''tests'') = Some (JArr (map identity_json tests)) \<and>
     json_text ''evidence'' (ev_payload_json row) = Some (if ids then ''identities'' else ''files''))"

lemma wp_write_replay:
  "wp (write_replay en t inp tests bound rid actor) (\<lambda>_ s'. \<exists>row. db_evidence s' = db_evidence s @ [row] \<and>
     replay_row en t inp tests (bp_tests bound \<noteq> None) row) s"
  unfolding write_replay_def Let_def wp_simps
  by (auto simp: replay_row_def json_text_def field_string_def add_event_def)

lemma recordTesterReplayD:
  assumes "recordTesterReplay en le ref inp actor db = Inr (res, db')" and "rr_recorded res"
  obtains t tests bound rid row where "a_type actor = System" "replay_shape_ok inp" "replay_tests (ri_tests inp) = Some tests"
    and "resolve_ref db ref = Some t" "replay_checked le db t inp tests = Inr (bound, rid)"
    and "\<And>probe i. le_landedOnDefault le = Some probe \<Longrightarrow> rid = Some i \<Longrightarrow> i \<noteq> [] \<Longrightarrow> probe i (norm (ri_commit inp))"
    and "db_evidence db' = db_evidence db @ [row]" "replay_row en t inp tests (bp_tests bound \<noteq> None) row"
proof -
  let ?tests = "the (replay_tests (ri_tests inp))"
  from assms(1) obtain t bound rid where sys: "a_type actor = System" "replay_shape_ok inp" and t: "resolve_ref db ref = Some t"
    and ok: "replay_checked le db t inp ?tests = Inr (bound, rid)"
    and run: "(if list_ex (\<lambda>e. ev_ticket_id e = t_id t \<and> ev_type e = Commit \<and> ev_recorded_by e = Some System
              \<and> ev_uri e = Some (TESTER_REPLAY_PREFIX @ norm (ri_commit inp))) (db_evidence db)
       then returnT \<lparr>rr_ticketId = t_id t, rr_identities = (bp_tests bound \<noteq> None), rr_recorded = False\<rparr>
       else bindT (throwIf (case le_landedOnDefault le of None \<Rightarrow> False
                | Some probe \<Rightarrow> truthy rid \<and> \<not> probe (the rid) (norm (ri_commit inp))) (DispatchError STATE_CONFLICT)) (\<lambda>_.
          bindT (write_replay en t inp ?tests bound rid actor) (\<lambda>_.
          returnT \<lparr>rr_ticketId = t_id t, rr_identities = (bp_tests bound \<noteq> None), rr_recorded = True\<rparr>))) db = Inr (res, db')"
    unfolding recordTesterReplay_def Let_def bindT_throwIf_Inr bindT_liftT_Inr bindT_get bindT_resolved by (auto simp: bindT_get)
  have "res = \<lparr>rr_ticketId = t_id t, rr_identities = (bp_tests bound \<noteq> None), rr_recorded = False\<rparr> \<Longrightarrow> False" using assms(2) by simp
  with run have probe: "\<not> (case le_landedOnDefault le of None \<Rightarrow> False
                | Some probe \<Rightarrow> truthy rid \<and> \<not> probe (the rid) (norm (ri_commit inp)))"
    and run: "bindT (write_replay en t inp ?tests bound rid actor) (\<lambda>_.
          returnT \<lparr>rr_ticketId = t_id t, rr_identities = (bp_tests bound \<noteq> None), rr_recorded = True\<rparr>) db = Inr (res, db')"
    by (auto simp: bindT_throwIf_Inr returnT_def split: if_split_asm)
  from run obtain s where s: "write_replay en t inp ?tests bound rid actor db = Inr ((), s)" "db' = s"
    by (auto simp: bindT_Inr_iff returnT_def)
  from wp_Inr [OF wp_write_replay s(1)] obtain row where "db_evidence db' = db_evidence db @ [row]"
    "replay_row en t inp ?tests (bp_tests bound \<noteq> None) row" unfolding s(2) by blast
  moreover have "replay_tests (ri_tests inp) = Some ?tests" using sys(2) by (auto simp: replay_shape_ok_def)
  moreover have "le_landedOnDefault le = Some p \<Longrightarrow> rid = Some i \<Longrightarrow> i \<noteq> [] \<Longrightarrow> p i (norm (ri_commit inp))" for p i
    using probe by (simp add: truthy_Some)
  ultimately show thesis using that sys t ok by blast
qed

lemma replay_read_back:
  fixes db :: db
  assumes "db_evidence db' = db_evidence db @ [row]" and "replay_row en t inp tests ids row"
    and "\<forall>e \<in> set (db_evidence db). ev_created_at e \<le> en_now en" and "replay_shape_ok inp" and "replay_tests (ri_tests inp) = Some tests"
  shows "\<exists>r. readTesterReplay db' (t_id t) (Some (norm (ri_pin inp))) = Some r \<and> rp_commit r = norm (ri_commit inp) \<and>
    rp_tests r = tests \<and> (rp_identities r \<longleftrightarrow> ids) \<and> rp_at r = en_now en"
proof -
  let ?P = "\<lambda>e. ev_ticket_id e = t_id t \<and> ev_type e = Commit \<and> ev_recorded_by e = Some System \<and> like_prefix TESTER_REPLAY_PREFIX (ev_uri e)"
  have sha: "full_sha (norm (ri_commit inp))" "full_sha (norm (ri_pin inp))" using assms(4) by (simp_all add: replay_shape_ok_def)
  then have ne: "norm (ri_pin inp) \<noteq> []" by (auto simp: full_sha_def)
  have commit: "replay_commit row = norm (ri_commit inp)"
    using assms(2) full_sha_lower [OF sha(1)] by (simp add: replay_commit_def replay_row_def via_text_def)
  have "?P row" using assms(2) by (simp add: replay_row_def like_prefix_def)
  then have "replay_rows db' (t_id t) = row # replay_rows db (t_id t)"
    using sort_key_append_last [of "filter ?P (db_evidence db)" ev_created_at "en_now en" "[row]"] assms(2,3)
    by (simp add: replay_rows_def assms(1) replay_row_def)
  moreover have "parseTesterIdentities (JArr (map identity_json tests)) = Some tests"
    using identities_round_trip assms(5) unfolding replay_tests_def by blast
  ultimately show ?thesis
    using assms(2) sha(1) commit ne by (simp add: readTesterReplay_def Let_def replay_row_def)
qed

lemma replay_checkedD:
  assumes "replay_checked le db t inp tests = Inr (bound, rid)"
  shows "t_status t = ReadyForMerge" "readBoundTesterPass db (t_id t) = Some bound" "bp_provenance bound \<noteq> Some ''human''"
    "bp_testedCommit bound = Some (norm (ri_pin inp))" "bp_tests bound = Some ts \<Longrightarrow> unproven ts tests = []"
  using assms by (auto simp: replay_checked_def Let_def split: if_split_asm option.split_asm sum.split_asm)

text \<open>
  C24. A recorded replay proves the tests of the PASS. When a replay is recorded, the system
  recorded it for an approved ticket whose PASS was not a person's and was bound to the replayed
  pin; the probe, where there is one, found the commit on the default branch; and the landing
  reads back a replay of that commit which, where the PASS bound identities, is one of
  identities and runs every test the PASS bound. (The clock did not run backwards.)
\<close>

theorem replay_proves:
  assumes "recordTesterReplay en le ref inp actor db = Inr (res, db')" and "rr_recorded res"
    and "\<forall>e \<in> set (db_evidence db). ev_created_at e \<le> en_now en"
  shows "\<exists>t bound r. a_type actor = System \<and> resolve_ref db ref = Some t \<and> t_status t = ReadyForMerge \<and>
    readBoundTesterPass db (t_id t) = Some bound \<and> bp_provenance bound \<noteq> Some ''human'' \<and>
    bp_testedCommit bound = Some (norm (ri_pin inp)) \<and>
    readTesterReplay db' (t_id t) (bp_testedCommit bound) = Some r \<and> rp_commit r = norm (ri_commit inp) \<and> rp_at r = en_now en \<and>
    (\<forall>ts. bp_tests bound = Some ts \<longrightarrow> rp_identities r \<and> (\<forall>b \<in> set ts. \<exists>x \<in> set (rp_tests r). sameTesterIdentity x b))"
proof (rule recordTesterReplayD [OF assms(1,2)])
  fix t tests bound rid row
  assume run: "a_type actor = System" "replay_shape_ok inp" "replay_tests (ri_tests inp) = Some tests" "resolve_ref db ref = Some t"
    and ok: "replay_checked le db t inp tests = Inr (bound, rid)"
    and row: "db_evidence db' = db_evidence db @ [row]" "replay_row en t inp tests (bp_tests bound \<noteq> None) row"
  obtain r where r: "readTesterReplay db' (t_id t) (Some (norm (ri_pin inp))) = Some r" "rp_commit r = norm (ri_commit inp)"
    "rp_tests r = tests" "rp_identities r \<longleftrightarrow> bp_tests bound \<noteq> None" "rp_at r = en_now en"
    using replay_read_back [OF row assms(3) run(2,3)] by blast
  have "\<exists>x \<in> set (rp_tests r). sameTesterIdentity x b" if "bp_tests bound = Some ts" "b \<in> set ts" for ts b
    using replay_checkedD(5) [OF ok that(1)] that(2) r(3) by (auto simp: unproven_def filter_empty_conv list_ex_iff)
  then show ?thesis using run(1,4) replay_checkedD [OF ok] r by auto
qed

definition replay_db :: db where
  "replay_db = empty_db\<lparr>db_tickets := [sample_ticket ''t1'' 1 ReadyForMerge], db_repositories := [sample_repo],
     db_ticket_repos := [sample_link],
     db_evidence := [\<lparr>ev_id = ''v0'', ev_ticket_id = ''t1'', ev_ac_id = None, ev_repo_id = None, ev_decision_id = None,
       ev_type = TestOutput, ev_summary = ''ok'', ev_uri = None,
       ev_payload_json = Some (JObj [(''verdict'', JStr ''pass''), (''provenance'', JStr ''system''), (''tested_commit'', JStr sample_sha),
         (''tests'', JArr [identity_json sample_identity])]),
       ev_created_by = ''system'', ev_recorded_by = Some System, ev_created_at = 0\<rparr>],
     db_events := [\<lparr>we_id = ''e0'', we_entity_type = ''ticket'', we_entity_id = ''t1'', we_actor_type = System, we_actor_id = None,
       we_event_type = ''ticket.tester_passed'', we_payload = Some (JObj [(''evidence_id'', JStr ''v0'')]),
       we_correlation_id = None, we_created_at = 0\<rparr>]\<rparr>"

definition sample_replay :: replay_input where
  "sample_replay = \<lparr>ri_commit = sample_sha, ri_pin = sample_sha, ri_files = [''a.test.ts''], ri_tests = Some sample_tests,
     ri_evidence = Some ''identities'', ri_repo = None, ri_via = None, ri_note = None\<rparr>"

lemma sample_replayed:
  "case recordTesterReplay sample_env sample_le ''t1'' sample_replay sample_runner replay_db of
     Inr (res, db') \<Rightarrow> rr_recorded res | Inl _ \<Rightarrow> False"
  by code_simp

theorem replay_proves_witness:
  "\<exists>res db' t r. recordTesterReplay sample_env sample_le ''t1'' sample_replay sample_runner replay_db = Inr (res, db') \<and>
     resolve_ref replay_db ''t1'' = Some t \<and> readTesterReplay db' (t_id t) (Some (norm sample_sha)) = Some r \<and> rp_commit r = norm sample_sha"
proof -
  obtain res db' where run: "recordTesterReplay sample_env sample_le ''t1'' sample_replay sample_runner replay_db = Inr (res, db')"
    and rec: "rr_recorded res" using sample_replayed by (auto split: prod.splits sum.splits)
  have clock: "\<forall>e \<in> set (db_evidence replay_db). ev_created_at e \<le> en_now sample_env"
    by (simp add: replay_db_def sample_env_def)
  have pin: "ri_pin sample_replay = sample_sha" "ri_commit sample_replay = sample_sha" by (simp_all add: sample_replay_def)
  from replay_proves [OF run rec clock] show ?thesis using run unfolding pin by metis
qed

section \<open>Which tickets go to the tester\<close>

text \<open>A ticket the tester-first sweep must send on, in terms of what the gate reads.\<close>

definition needs_tester :: "env \<Rightarrow> gate_env \<Rightarrow> db \<Rightarrow> ticket \<Rightarrow> bool" where
  "needs_tester en ga db t = (t_status t = InReview \<and> approveRoutesToTesting en ga db t \<and> unavailableWriteRepos ga db t = [] \<and>
     (let head = first_of (head_shas (resolveReviewedHeads ga db t)); ci = ciStatus db (t_id t) head in
       ci_required ci \<longrightarrow> ci_state ci = Some ''pass''))"

lemma uncovered_head:
  "\<not> cv_covered (testerCoverage en db t heads) \<Longrightarrow> cv_head (testerCoverage en db t heads) = first_of (head_shas heads)"
  by (auto simp: testerCoverage_def Let_def split: option.splits if_split_asm)

lemma testerRoutePlan_None: "fst (testerRoutePlan en ga db t) = None \<longleftrightarrow> needs_tester en ga db t"
  using uncovered_head [of en db t "resolveReviewedHeads ga db t"]
  by (auto simp: testerRoutePlan_def needs_tester_def approveRoutesToTesting_def Let_def)

lemma testerRoutePlan_coverage:
  "testerRoutePlan en ga db t = (None, c) \<Longrightarrow> \<exists>coverage. c = Some coverage"
  by (auto simp: testerRoutePlan_def Let_def split: if_split_asm)

abbreviation to_tester :: "id \<Rightarrow> actor \<Rightarrow> transition_input" where
  "to_tester i actor \<equiv> (sysmove i actor InTesting ''tester_before_review'' [TesterVerdict])\<lparr>ti_expectedFromStatus := Some InReview\<rparr>"

lemma to_tester_allowed:
  assumes "t_status t = InReview"
  shows "transition_check en (to_tester i actor) db t = Inr None"
proof -
  have "violatedGuard InReview InTesting [TesterVerdict] = None" by code_simp
  then show ?thesis using assms by (simp add: transition_check_def Let_def ALLOWED_def)
qed

lemma route_run:
  assumes "distinct (map t_id (db_tickets db))" and "system_or_admin actor" and "resolve_ref db ref = Some t"
    and "testerRoutePlan en ga db t = (None, Some coverage)"
  shows "\<exists>out. routeToTester en ga ref actor db = Inr (out, add_event en ''ticket'' (t_id t) actor ''ticket.routed_to_testing''
      (Some (JObj (routed_payload t coverage))) (transition_effect en (to_tester (t_id t) actor) t db)) \<and> ro_why out = None"
proof -
  have st: "t_status t = InReview" using testerRoutePlan_None [of en ga db t] assms(4) by (simp add: needs_tester_def)
  have run: "bindT (transition en (to_tester (t_id t) actor)) k db =
      k \<lparr>tres_ticket = moved en (to_tester (t_id t) actor) t t, tres_eventId = en_uuid en EventId (length (db_events db)), tres_policy = None\<rparr>
        (transition_effect en (to_tester (t_id t) actor) t db)" for k
    using transition_eq [OF assms(1), of en "to_tester (t_id t) actor"] resolved_found [OF assms(3,1)] to_tester_allowed [OF st]
    by (simp add: bindT_def)
  show ?thesis unfolding routeToTester_def
    using assms(2,4) by (simp add: run bindT_resolveRef [OF assms(3)] bindT_writeEvent returnT_def add_event_def)
qed

lemma routed_rows:
  assumes "ticket_findById db (t_id t) = Some t"
  shows "\<exists>u. ticket_findById (add_event en ''ticket'' (t_id t) actor ''ticket.routed_to_testing'' (Some (JObj (routed_payload t coverage)))
      (transition_effect en (to_tester (t_id t) actor) t db)) (t_id t) = Some u \<and> t_status u = InTesting"
    and "enteredTestingBeforeReview (add_event en ''ticket'' (t_id t) actor ''ticket.routed_to_testing'' (Some (JObj (routed_payload t coverage)))
      (transition_effect en (to_tester (t_id t) actor) t db)) (t_id t)"
  using assms by (simp_all add: ticket_findById_def transition_effect_def add_event_def find_row_upd_rows sysmove_def move_def
      enteredTestingBeforeReview_def routed_payload_def)

text \<open>
  C23. The sweep sends exactly the tickets the tester must see. Asked by the system or an
  administrator about a ticket, the route always answers. The answer is that the ticket goes to
  the tester exactly when it is in review, an approval of it would be held for the tester, every
  write repository can be read and no required CI result is missing for its head; then the
  ticket is in testing and marked as tested before its review, so a PASS returns it there.
  In every other case nothing is written and the answer says why.
\<close>

theorem tester_route_exact:
  assumes "distinct (map t_id (db_tickets db))" and "system_or_admin actor" and "resolve_ref db ref = Some t"
  shows "\<exists>out db'. routeToTester en ga ref actor db = Inr (out, db') \<and> (ro_why out = None \<longleftrightarrow> needs_tester en ga db t) \<and>
    (if needs_tester en ga db t
     then (\<exists>u. ticket_findById db' (t_id t) = Some u \<and> t_status u = InTesting) \<and> enteredTestingBeforeReview db' (t_id t)
     else db' = db)"
proof (cases "testerRoutePlan en ga db t")
  case (Pair why c)
  show ?thesis
  proof (cases why)
    case None
    then obtain coverage where plan: "testerRoutePlan en ga db t = (None, Some coverage)"
      using Pair testerRoutePlan_coverage [of en ga db t c] by auto
    from testerRoutePlan_None [of en ga db t] plan have "needs_tester en ga db t" by simp
    then show ?thesis using route_run [OF assms plan] routed_rows [OF resolved_found [OF assms(3,1)]] by metis
  next
    case (Some w)
    have "\<not> needs_tester en ga db t" using testerRoutePlan_None [of en ga db t] Pair Some by simp
    then show ?thesis using assms(2) Pair Some unfolding routeToTester_def
      by (simp add: bindT_resolveRef [OF assms(3)] returnT_def)
  qed
qed

definition queued_db :: db where
  "queued_db = review_db\<lparr>db_tickets := [(sample_ticket ''t1'' 1 InReview)\<lparr>t_acceptance := True\<rparr>]\<rparr>"

theorem tester_route_exact_witness:
  "\<exists>out db' u. routeToTester sample_env sample_ga ''t1'' sample_runner queued_db = Inr (out, db') \<and>
     ticket_findById db' ''t1'' = Some u \<and> t_status u = InTesting"
proof -
  let ?t = "(sample_ticket ''t1'' 1 InReview)\<lparr>t_acceptance := True\<rparr>"
  have t: "resolve_ref queued_db ''t1'' = Some ?t" "t_id ?t = ''t1''"
    by (simp_all add: resolve_ref_def ticket_findById_def find_row_def queued_db_def sample_ticket_def)
  have keys: "distinct (map t_id (db_tickets queued_db))" by (simp add: queued_db_def)
  have who: "system_or_admin sample_runner" by (simp add: system_or_admin_def sample_runner_def)
  have "needs_tester sample_env sample_ga queued_db ?t" by code_simp
  with tester_route_exact [OF keys who t(1), of sample_env sample_ga] show ?thesis unfolding t(2) by auto
qed

end
