(* ===== verification/Heads.thy ===== *)
theory Heads
  imports Approval
begin

text \<open>
  A ticket's delivery as git sees it (\<open>services/ticketGitService.ts\<close>): the delivery head of every
  write repository and the repositories whose head cannot be read, the delivery and merge
  commits of an approval, whether a commit or its change is on a default branch, the observed
  risk the gate reads, and the wiring of the review gate with these reads (\<open>core.ts\<close>). The diff
  with its risk annotations and the parser of the runner's integrity flag are arguments.
\<close>

section \<open>Delivery heads\<close>

definition resolveBranchHead :: "env \<Rightarrow> string \<Rightarrow> string \<Rightarrow> string option" where
  "resolveBranchHead en localPath branch = (
     let res = en_git en localPath [''rev-parse'', ''--verify'', ''--quiet'', ''refs/heads/'' @ branch @ ''^{commit}''];
         sha = (if gr_status res = Some 0 then lower (js_trim (gr_stdout res)) else []) in
     if full_sha sha then Some sha else None)"

text \<open>The head of one write repository, or why it cannot be read.\<close>

definition head_branch :: "db \<Rightarrow> ticket \<Rightarrow> repository \<Rightarrow> string option" where
  "head_branch db t r = orElse (ticketRepoBranch db (t_id t) (r_id r))
     (orElse (Option.bind (delivery_find db (t_id t) (r_id r)) rd_branch_name) (t_branch_name t))"

definition miss :: "repository \<Rightarrow> unavailable_kind \<Rightarrow> string \<Rightarrow> unavailable_repo" where
  "miss r kind why = \<lparr>uw_repoId = r_id r, uw_repo = r_name r, uw_why = why, uw_kind = Some kind\<rparr>"

definition write_repo_head :: "env \<Rightarrow> db \<Rightarrow> ticket \<Rightarrow> repository \<Rightarrow> unavailable_repo + reviewed_head" where
  "write_repo_head en db t r = (
     let path = via_text (r_local_path r); branch = via_text (head_branch db t r) in
     if path = [] then Inl (miss r NoCheckout ''it has no checkout on this machine'')
     else if \<not> en_exists en path then Inl (miss r UnreadableCheckout (''its checkout '' @ path @ '' cannot be read''))
     else if js_trim branch = [] then Inl (miss r NoDeliveryBranch ''it has no delivery branch'')
     else case resolveBranchHead en path branch of
       Some sha \<Rightarrow> Inr \<lparr>rh_repoId = r_id r, rh_repo = r_name r, rh_branch = branch, rh_sha = sha\<rparr>
     | None \<Rightarrow> Inl (miss r BranchMissing (''its delivery branch '' @ branch @ '' cannot be resolved'')))"

definition writeRepoHeads :: "env \<Rightarrow> db \<Rightarrow> ticket \<Rightarrow> reviewed_head list \<times> unavailable_repo list" where
  "writeRepoHeads en db t = (
     let entries = map (\<lambda>(tr, r). write_repo_head en db t r) (active_write_links db (t_id t)) in
     (concat (map (\<lambda>e. case e of Inr h \<Rightarrow> [h] | Inl _ \<Rightarrow> []) entries),
      concat (map (\<lambda>e. case e of Inl u \<Rightarrow> [u] | Inr _ \<Rightarrow> []) entries)))"

definition resolveApprovedHeads :: "env \<Rightarrow> db \<Rightarrow> ticket \<Rightarrow> reviewed_head list" where
  "resolveApprovedHeads en db t = fst (writeRepoHeads en db t)"

record ordered_head =
  oh_repoId :: id
  oh_repo :: string
  oh_sha :: "string option"
  oh_why :: "string option"

definition orderedWriteRepoHeads :: "env \<Rightarrow> db \<Rightarrow> ticket \<Rightarrow> ordered_head list" where
  "orderedWriteRepoHeads en db t = (
     let (heads, unavailable) = writeRepoHeads en db t in
     concat (map (\<lambda>(tr, r).
       case find (\<lambda>x. rh_repoId x = r_id r) heads of
         Some h \<Rightarrow> [\<lparr>oh_repoId = rh_repoId h, oh_repo = rh_repo h, oh_sha = Some (rh_sha h), oh_why = None\<rparr>]
       | None \<Rightarrow> (case find (\<lambda>x. uw_repoId x = r_id r) unavailable of
           Some u \<Rightarrow> [\<lparr>oh_repoId = uw_repoId u, oh_repo = uw_repo u, oh_sha = None, oh_why = Some (uw_why u)\<rparr>]
         | None \<Rightarrow> [])) (active_write_links db (t_id t))))"

record comment_context =
  cc_repoId :: id
  cc_repo :: string
  cc_localPath :: string
  cc_baseBranch :: string
  cc_branch :: string
  cc_head :: "string option"

definition commentRepoContexts :: "env \<Rightarrow> db \<Rightarrow> ticket \<Rightarrow> comment_context list" where
  "commentRepoContexts en db t = concat (map (\<lambda>(tr, r).
     let path = via_text (r_local_path r); branch = via_text (head_branch db t r) in
     if path = [] \<or> \<not> en_exists en path then []
     else if js_trim branch = [] then []
     else [\<lparr>cc_repoId = r_id r, cc_repo = r_name r, cc_localPath = path, cc_baseBranch = base_branch r,
            cc_branch = branch, cc_head = resolveBranchHead en path branch\<rparr>]) (active_write_links db (t_id t)))"

text \<open>The head the review diff of a repository is pinned to (\<open>computeTicketDiff\<close>).\<close>

definition shownHead :: "env \<Rightarrow> diff_entry \<Rightarrow> string option" where
  "shownHead en e = (case e of
     Unavailable _ _ _ _ \<Rightarrow> None
   | Target d \<Rightarrow> (case dt_branch d of
       None \<Rightarrow> None
     | Some b \<Rightarrow> if dt_isBootstrap d \<or> b = [] then None else resolveBranchHead en (dt_localPath d) b))"

section \<open>The delivery and the merge commit\<close>

definition approval_pair :: "env \<Rightarrow> db \<Rightarrow> ticket \<Rightarrow> repository \<Rightarrow> approval_shas" where
  "approval_pair en db t r = (
     let delivery = delivery_find db (t_id t) (r_id r);
         deliverySha = Option.bind delivery rd_commit_sha;
         branch = via_text (orElse (Option.bind delivery rd_branch_name)
            (orElse (ticketRepoBranch db (t_id t) (r_id r)) (t_branch_name t)));
         path = via_text (r_local_path r) in
     if \<not> truthy deliverySha \<or> branch = [] \<or> path = [] \<or> \<not> en_exists en path
     then \<lparr>as_deliverySha = deliverySha, as_mergeSha = None\<rparr>
     else let res = en_git en path [''rev-parse'', branch];
              out = js_trim (gr_stdout res) in
       \<lparr>as_deliverySha = deliverySha, as_mergeSha = (if gr_status res = Some 0 \<and> out \<noteq> [] then Some out else None)\<rparr>)"

definition known :: "approval_shas \<Rightarrow> bool" where
  "known p = (as_deliverySha p \<noteq> None \<and> as_mergeSha p \<noteq> None)"

definition resolveApprovalShas :: "env \<Rightarrow> db \<Rightarrow> ticket \<Rightarrow> approval_shas option" where
  "resolveApprovalShas en db t = (
     let pairs = map (\<lambda>(tr, r). approval_pair en db t r) (active_write_links db (t_id t)) in
     if pairs = [] then None
     else case find (\<lambda>p. known p \<and> as_deliverySha p \<noteq> as_mergeSha p) pairs of
       Some edited \<Rightarrow> Some edited
     | None \<Rightarrow> if list_ex (\<lambda>p. \<not> known p) pairs then Some \<lparr>as_deliverySha = None, as_mergeSha = None\<rparr>
               else first_of pairs)"

section \<open>On the default branch\<close>

definition checkout :: "env \<Rightarrow> db \<Rightarrow> id \<Rightarrow> (repository \<times> string) option" where
  "checkout en db rid = (case repo_findById db rid of
     None \<Rightarrow> None
   | Some r \<Rightarrow> (let path = via_text (r_local_path r) in
       if path = [] \<or> \<not> en_exists en path then None else Some (r, path)))"

definition commitOnDefaultBranch :: "env \<Rightarrow> db \<Rightarrow> id \<Rightarrow> string \<Rightarrow> bool" where
  "commitOnDefaultBranch en db rid sha = (case checkout en db rid of
     None \<Rightarrow> False
   | Some (r, path) \<Rightarrow> gr_status (en_git en path
       [''merge-base'', ''--is-ancestor'', sha, ''refs/heads/'' @ base_branch r]) = Some 0)"

definition ends_with :: "string \<Rightarrow> string \<Rightarrow> bool" where
  "ends_with s p = (length p \<le> length s \<and> drop (length s - length p) s = p)"

definition ref_names :: "env \<Rightarrow> string \<Rightarrow> string \<Rightarrow> string \<Rightarrow> string list" where
  "ref_names en cwd def r = (
     if r = ''default'' then [''refs/heads/'' @ def]
     else let listed = en_git en cwd [''for-each-ref'', ''--format=%(refname)'', ''refs/remotes/''] in
       if gr_status listed = Some 0
       then filter (\<lambda>n. ends_with n (''/'' @ def) \<and> length (split_on (CHR ''/'') n) = 4)
              (map js_trim (split_on (CHR 0x0A) (gr_stdout listed)))
       else [])"

text \<open>Whether one ref carries the change of a commit; \<open>None\<close> when the ref does not exist.\<close>

definition ref_carries :: "env \<Rightarrow> string \<Rightarrow> string \<Rightarrow> string \<Rightarrow> bool option" where
  "ref_carries en cwd sha ref = (
     let tip = en_git en cwd [''rev-parse'', ''--verify'', ''--quiet'', ref @ ''^{commit}''] in
     if gr_status tip \<noteq> Some 0 \<or> js_trim (gr_stdout tip) = [] then None
     else if gr_status (en_git en cwd [''merge-base'', ''--is-ancestor'', sha, ref]) = Some 0 then Some True
     else let tree = en_git en cwd [''rev-parse'', ''--verify'', ''--quiet'', ref @ ''^{tree}''];
              merged = en_git en cwd [''merge-tree'', ''--write-tree'', ref, sha] in
       Some (gr_status tree = Some 0 \<and> gr_status merged = Some 0
         \<and> js_trim (hd (split_on (CHR 0x0A) (gr_stdout merged))) = js_trim (gr_stdout tree)))"

definition changeOnRefs :: "env \<Rightarrow> db \<Rightarrow> id \<Rightarrow> string \<Rightarrow> string list \<Rightarrow> bool option" where
  "changeOnRefs en db rid sha refs = (case checkout en db rid of
     None \<Rightarrow> None
   | Some (r, cwd) \<Rightarrow>
       let answers = map (ref_carries en cwd sha) (concat (map (ref_names en cwd (base_branch r)) refs)) in
       if Some True \<in> set answers then Some True
       else if list_ex (\<lambda>a. a \<noteq> None) answers then Some False else None)"

section \<open>Observed risk\<close>

definition latestDodSummary :: "db \<Rightarrow> id \<Rightarrow> string option" where
  "latestDodSummary db tid = map_option ev_summary (newest (filter (\<lambda>e. ev_ticket_id e = tid \<and> ev_type e = TestOutput
     \<and> like_prefix ''DoD: '' (Some (ev_summary e)) \<and> ev_recorded_by e \<noteq> Some AgentActor) (db_evidence db)))"

definition observedRiskFor ::
  "process_env \<Rightarrow> (string option \<Rightarrow> string list) \<Rightarrow> db \<Rightarrow> ticket \<Rightarrow> repo_diff list \<Rightarrow> observed_risk" where
  "observedRiskFor pe integrityHolds db t repos = (
     let observed = observedRisk pe repos in
     if t_allow_test_changes t then observed
     else withRunnerIntegrityHolds observed (integrityHolds (latestDodSummary db (t_id t))))"

definition writeRepoIdsForTicket :: "db \<Rightarrow> ticket \<Rightarrow> id list" where
  "writeRepoIdsForTicket db t = map (\<lambda>(tr, r). r_id r) (active_write_links db (t_id t))"

section \<open>The wiring of the gate\<close>

text \<open>
  What \<open>core.ts\<close> constructs the review gate with. \<open>co_diff\<close> is the review diff of a ticket (a
  throw is \<open>None\<close>) and \<open>co_integrity\<close> is \<open>runnerIntegrityHolds\<close>. The landing probes read the
  repositories of the state they are asked in.
\<close>

record core_env =
  co_process :: process_env
  co_collate :: "string \<Rightarrow> string"
  co_maxAttempts :: nat
  co_requireRegistered :: bool
  co_laneMode :: testing_lane_mode
  co_policy :: policy_lookup
  co_diff :: "db \<Rightarrow> ticket \<Rightarrow> repo_diff list option"
  co_integrity :: "string option \<Rightarrow> string list"

definition core_landing :: "core_env \<Rightarrow> env \<Rightarrow> db \<Rightarrow> landing_env" where
  "core_landing co en db = \<lparr>le_collate = co_collate co, le_landedOnDefault = Some (commitOnDefaultBranch en db),
     le_changeOnRefs = Some (changeOnRefs en db), le_reviewedHeads = resolveApprovedHeads en,
     le_approvalShas = resolveApprovalShas en, le_maxAttempts = co_maxAttempts co\<rparr>"

definition core_gate :: "core_env \<Rightarrow> env \<Rightarrow> db \<Rightarrow> gate_env" where
  "core_gate co en db = \<lparr>ga_landing = core_landing co en db, ga_process = co_process co,
     ga_unavailable = Some (\<lambda>db t. Inr (snd (writeRepoHeads en db t))),
     ga_testerLaneApplies = Some (\<lambda>db t. tl_on (testerLane db t (co_laneMode co))),
     ga_agents = True, ga_requireRegistered = co_requireRegistered co,
     ga_policyAllows = Some (\<lambda>db t. policyGrantsAuto (co_policy co) (writeRepoIdsForTicket db t) (t_risk_level t) GateApprove),
     ga_observedRisk = Some (\<lambda>db t. map_option (observedRiskFor (co_process co) (co_integrity co) db t) (co_diff co db t))\<rparr>"

end
