(* ===== verification/Heads_Props.thy ===== *)
theory Heads_Props
  imports Approval_Props Heads
begin

text \<open>
  The properties of the delivery heads: every write repository has a head or a reason, an
  approval through the wired gate pins every one of them, and the head it pins is the one the
  review diff showed.
\<close>

section \<open>The write repositories of a ticket\<close>

text \<open>The keys of the link and repository tables.\<close>

definition links_ok :: "db \<Rightarrow> bool" where
  "links_ok db = (distinct (map (\<lambda>l. (tr_ticket_id l, tr_repo_id l)) (db_ticket_repos db)) \<and> distinct (map r_id (db_repositories db)))"

lemma filter_id_single:
  "distinct (map r_id rs) \<Longrightarrow> filter (\<lambda>r. r_id r = i) rs = (case find_row r_id i rs of None \<Rightarrow> [] | Some r \<Rightarrow> [r])"
proof (induction rs)
  case (Cons r rs)
  have "filter (\<lambda>x. r_id x = i) rs = []" if "r_id r = i" using Cons.prems that by (auto simp: filter_empty_conv) (metis imageI)
  then show ?case using Cons by (auto simp: find_row_def)
qed (simp add: find_row_def)

lemma distinct_linked:
  assumes "distinct (map r_id rs)" and "distinct (map (\<lambda>l. (tr_ticket_id l, tr_repo_id l)) ls)"
  shows "distinct (map (\<lambda>(tr, r). r_id r) (concat (map (\<lambda>tr. if tr_ticket_id tr = tid
    then map (Pair tr) (filter (\<lambda>r. r_id r = tr_repo_id tr) rs) else []) ls)))"
  using assms(2)
proof (induction ls)
  case (Cons l ls)
  have "\<forall>x \<in> set ls. tr_ticket_id x = tid \<longrightarrow> tr_ticket_id l = tid \<longrightarrow> tr_repo_id x \<noteq> tr_repo_id l" using Cons.prems by force
  moreover have "distinct (map (r_id \<circ> snd \<circ> Pair l) (filter (\<lambda>r. r_id r = tr_repo_id l) rs))"
    unfolding filter_id_single [OF assms(1)] by (simp split: option.splits)
  ultimately show ?case using Cons by (auto simp: comp_def split: if_split_asm)
qed simp

lemma distinct_write_links:
  assumes "links_ok db"
  shows "distinct (map (\<lambda>(tr, r). r_id r) (active_write_links db tid))"
proof -
  have "distinct (map (\<lambda>(tr, r). r_id r) (concat (map (\<lambda>tr. if tr_ticket_id tr = tid
    then map (Pair tr) (filter (\<lambda>r. r_id r = tr_repo_id tr) (db_repositories db)) else []) (db_ticket_repos db))))"
    using assms distinct_linked by (auto simp: links_ok_def)
  then have "distinct (map (\<lambda>(tr, r). r_id r) (repo_listForTicket db tid))"
    unfolding repo_listForTicket_def distinct_map by simp
  then show ?thesis unfolding active_write_links_def by (rule distinct_map_filter)
qed

section \<open>A head or a reason\<close>

lemma write_repo_headD:
  "write_repo_head en db t r = Inr h \<Longrightarrow> rh_repoId h = r_id r \<and> rh_repo h = r_name r \<and> full_sha (rh_sha h) \<and>
     resolveBranchHead en (via_text (r_local_path r)) (via_text (head_branch db t r)) = Some (rh_sha h)"
  "write_repo_head en db t r = Inl u \<Longrightarrow> uw_repoId u = r_id r \<and> uw_repo u = r_name r"
  by (auto simp: write_repo_head_def miss_def resolveBranchHead_def Let_def split: if_split_asm option.split_asm)

text \<open>The entries of \<open>writeRepoHeads\<close> in the order of the links.\<close>

definition entries :: "env \<Rightarrow> db \<Rightarrow> ticket \<Rightarrow> (unavailable_repo + reviewed_head) list" where
  "entries en db t = map (\<lambda>(tr, r). write_repo_head en db t r) (active_write_links db (t_id t))"

definition entry_id :: "unavailable_repo + reviewed_head \<Rightarrow> id" where
  "entry_id e = (case e of Inl u \<Rightarrow> uw_repoId u | Inr h \<Rightarrow> rh_repoId h)"

lemma entry_ids: "map entry_id (entries en db t) = map (\<lambda>(tr, r). r_id r) (active_write_links db (t_id t))"
  unfolding entries_def map_map
  by (rule map_cong [OF refl]) (auto simp: entry_id_def split: sum.split dest: write_repo_headD)

lemma writeRepoHeads_entries:
  "fst (writeRepoHeads en db t) = concat (map (\<lambda>e. case e of Inr h \<Rightarrow> [h] | Inl _ \<Rightarrow> []) (entries en db t))"
  "snd (writeRepoHeads en db t) = concat (map (\<lambda>e. case e of Inl u \<Rightarrow> [u] | Inr _ \<Rightarrow> []) (entries en db t))"
  by (simp_all add: writeRepoHeads_def entries_def Let_def)

lemma heads_set:
  "h \<in> set (fst (writeRepoHeads en db t)) \<longleftrightarrow> Inr h \<in> set (entries en db t)"
  "u \<in> set (snd (writeRepoHeads en db t)) \<longleftrightarrow> Inl u \<in> set (entries en db t)"
  by (auto simp: writeRepoHeads_entries split: sum.splits)

lemma part_ids:
  "map rh_repoId (concat (map (\<lambda>e. case e of Inr h \<Rightarrow> [h] | Inl _ \<Rightarrow> []) es)) = map entry_id (filter (\<lambda>e. \<not> isl e) es)"
  "map uw_repoId (concat (map (\<lambda>e. case e of Inl u \<Rightarrow> [u] | Inr _ \<Rightarrow> []) es)) = map entry_id (filter isl es)"
  by (induction es) (auto simp: entry_id_def split: sum.splits)

lemma distinct_heads:
  "links_ok db \<Longrightarrow> distinct (map rh_repoId (fst (writeRepoHeads en db t)))"
  unfolding writeRepoHeads_entries part_ids by (intro distinct_map_filter) (simp add: entry_ids distinct_write_links)

lemma core_reads [simp]:
  "resolveReviewedHeads (core_gate co en d) db t = fst (writeRepoHeads en db t)"
  "unavailableWriteRepos (core_gate co en d) db t = snd (writeRepoHeads en db t)"
  by (simp_all add: resolveReviewedHeads_def unavailableWriteRepos_def core_gate_def core_landing_def resolveApprovedHeads_def)

text \<open>When no repository is unavailable, every write link has its head.\<close>

lemma all_heads:
  assumes "snd (writeRepoHeads en db t) = []" and "(tr, r) \<in> set (active_write_links db (t_id t))"
  shows "\<exists>h \<in> set (fst (writeRepoHeads en db t)). rh_repoId h = r_id r \<and>
    resolveBranchHead en (via_text (r_local_path r)) (via_text (head_branch db t r)) = Some (rh_sha h)"
proof -
  have mem: "write_repo_head en db t r \<in> set (entries en db t)" using assms(2) by (force simp: entries_def)
  show ?thesis
  proof (cases "write_repo_head en db t r")
    case (Inl u)
    then show ?thesis using mem assms(1) heads_set(2) [of u en db t] by simp
  next
    case (Inr h)
    then show ?thesis using mem heads_set(1) [of h en db t] write_repo_headD(1) [OF Inr] by auto
  qed
qed

lemma concat_singles: "(\<And>x. x \<in> set xs \<Longrightarrow> \<exists>y. g x = [y] \<and> f y = k x) \<Longrightarrow> map f (concat (map g xs)) = map k xs"
  by (induction xs) force+

lemma split_ids: "distinct (map f es) \<Longrightarrow> distinct (map f (filter (\<lambda>e. \<not> P e) es) @ map f (filter P es)) \<and>
    set (map f (filter (\<lambda>e. \<not> P e) es) @ map f (filter P es)) = f ` set es"
  by (induction es) (auto; metis imageI)+

lemma ordered_ids:
  "map oh_repoId (orderedWriteRepoHeads en db t) = map (\<lambda>(tr, r). r_id r) (active_write_links db (t_id t))"
proof -
  obtain heads missing where parts: "writeRepoHeads en db t = (heads, missing)" by force
  have "\<exists>y. (case find (\<lambda>x. rh_repoId x = r_id r) heads of
         Some h \<Rightarrow> [\<lparr>oh_repoId = rh_repoId h, oh_repo = rh_repo h, oh_sha = Some (rh_sha h), oh_why = None\<rparr>]
       | None \<Rightarrow> (case find (\<lambda>x. uw_repoId x = r_id r) missing of
           Some u \<Rightarrow> [\<lparr>oh_repoId = uw_repoId u, oh_repo = uw_repo u, oh_sha = None, oh_why = Some (uw_why u)\<rparr>]
         | None \<Rightarrow> [])) = [y] \<and> oh_repoId y = r_id r" if "(tr, r) \<in> set (active_write_links db (t_id t))" for tr r
  proof (cases "write_repo_head en db t r")
    case (Inl u)
    then have "u \<in> set missing" using that heads_set(2) [of u en db t] by (force simp: entries_def parts)
    then have "find (\<lambda>x. uw_repoId x = r_id r) missing \<noteq> None" using write_repo_headD(2) [OF Inl] by (auto simp: find_None_iff)
    then show ?thesis by (auto split: option.splits dest: find_SomeD)
  next
    case (Inr h)
    then have "h \<in> set heads" using that heads_set(1) [of h en db t] by (force simp: entries_def parts)
    then have "find (\<lambda>x. rh_repoId x = r_id r) heads \<noteq> None" using write_repo_headD(1) [OF Inr] by (auto simp: find_None_iff)
    then show ?thesis by (auto split: option.splits dest: find_SomeD)
  qed
  then show ?thesis unfolding orderedWriteRepoHeads_def parts Let_def prod.case by (intro concat_singles) auto
qed

text \<open>
  Every write repository has a head or a reason. The heads and the unavailable repositories
  the gate reads are together exactly the ticket's active write repositories, none twice and
  none in both; every head is the full commit id git gives for that repository's delivery
  branch; and the ordered list has one entry for each repository, in the order of the links.
\<close>

theorem heads_partition:
  assumes "links_ok db"
  shows "let heads = resolveApprovedHeads en db t; missing = unavailableWriteRepos (core_gate co en db) db t;
      repos = map (\<lambda>(tr, r). r_id r) (active_write_links db (t_id t)) in
    distinct (map rh_repoId heads @ map uw_repoId missing) \<and> set (map rh_repoId heads @ map uw_repoId missing) = set repos \<and>
    (\<forall>h \<in> set heads. \<exists>(tr, r) \<in> set (active_write_links db (t_id t)). rh_repoId h = r_id r \<and> full_sha (rh_sha h) \<and>
      resolveBranchHead en (via_text (r_local_path r)) (via_text (head_branch db t r)) = Some (rh_sha h)) \<and>
    map oh_repoId (orderedWriteRepoHeads en db t) = repos"
proof -
  let ?ids = "map rh_repoId (fst (writeRepoHeads en db t)) @ map uw_repoId (snd (writeRepoHeads en db t))"
  have "distinct (map entry_id (entries en db t))" by (simp only: entry_ids distinct_write_links [OF assms])
  from split_ids [OF this, of isl] have ids: "distinct ?ids" "set ?ids = entry_id ` set (entries en db t)"
    unfolding writeRepoHeads_entries part_ids by auto
  moreover have "entry_id ` set (entries en db t) = set (map (\<lambda>(tr, r). r_id r) (active_write_links db (t_id t)))"
    using arg_cong [OF entry_ids, of set en db t] by simp
  moreover have "\<exists>(tr, r) \<in> set (active_write_links db (t_id t)). rh_repoId h = r_id r \<and> full_sha (rh_sha h) \<and>
      resolveBranchHead en (via_text (r_local_path r)) (via_text (head_branch db t r)) = Some (rh_sha h)"
    if "h \<in> set (fst (writeRepoHeads en db t))" for h
    using that heads_set(1) [of h en db t] by (force simp: entries_def dest: write_repo_headD [OF sym])
  ultimately show ?thesis by (simp only: Let_def core_reads resolveApprovedHeads_def ordered_ids) blast
qed

definition sample_git :: env where
  "sample_git = sample_env\<lparr>en_exists := (\<lambda>_. True),
     en_git := (\<lambda>_ _. \<lparr>gr_status = Some 0, gr_stdout = sample_sha @ [CHR 0x0A], gr_truncated = False\<rparr>)\<rparr>"

definition sample_core :: core_env where
  "sample_core = \<lparr>co_process = (\<lambda>_. None), co_collate = (\<lambda>s. s), co_maxAttempts = 3, co_requireRegistered = True,
     co_laneMode = LaneOff, co_policy = (\<lambda>_ _ _. None), co_diff = (\<lambda>_ _. None), co_integrity = (\<lambda>_. [])\<rparr>"

definition wired_ticket :: ticket where
  "wired_ticket = (sample_ticket ''t1'' 1 InReview)\<lparr>t_human_delivered := Some ''bob'', t_branch_name := Some ''work''\<rparr>"

definition wired_repo :: repository where
  "wired_repo = sample_repo\<lparr>r_local_path := Some ''/app''\<rparr>"

definition wired_db :: db where
  "wired_db = review_db\<lparr>db_tickets := [wired_ticket], db_repositories := [wired_repo]\<rparr>"

lemma wired_ok: "links_ok wired_db"
  by (simp add: links_ok_def wired_db_def review_db_def)

theorem heads_partition_witness:
  "map rh_repoId (resolveApprovedHeads sample_git wired_db (hd (db_tickets wired_db))) = [''r1''] \<and>
   map oh_repoId (orderedWriteRepoHeads sample_git wired_db (hd (db_tickets wired_db))) = [''r1'']"
proof -
  have "map rh_repoId (resolveApprovedHeads sample_git wired_db (hd (db_tickets wired_db))) = [''r1'']"
    "map (\<lambda>(tr, r). r_id r) (active_write_links wired_db (t_id (hd (db_tickets wired_db)))) = [''r1'']" by code_simp+
  with heads_partition [OF wired_ok, of sample_git "hd (db_tickets wired_db)" sample_core] show ?thesis by (simp add: Let_def)
qed

section \<open>An approval covers every write repository\<close>

text \<open>
  C6. A person's approval covers every write repository. With the gate wired as the application wires
  it, after a person's approval every active write repository of the ticket is in the landing
  plan exactly once, pinned at the commit git gave for its delivery branch, so none can be left
  behind when the ticket lands; a repository whose head cannot be read refuses the approval.
  (The tables keep their keys, and the clock did not run backwards since the ticket came to
  review.)
\<close>

theorem approval_covers_every_repo:
  assumes "approveReview en (core_gate co en db) ref actor opts db = (Inr res, db')"
    and "distinct (map t_id (db_tickets db))" and "links_ok db" and "human_or_admin actor" and "resolve_ref db ref = Some t"
    and "\<forall>e \<in> set (db_evidence db). ev_created_at e \<le> en_now en"
    and "\<forall>e. last_off_path db (t_id t) = Some e \<longrightarrow>
      json_text ''to'' (we_payload e) = Some ''in_review'' \<and> we_created_at e \<le> en_now en"
  shows "\<forall>(tr, r) \<in> set (active_write_links db (t_id t)). \<exists>x sha.
    resolveBranchHead en (via_text (r_local_path r)) (via_text (head_branch db t r)) = Some sha \<and>
    {y \<in> set (ls_repos (computeLandingStatus (co_collate co) db' (t_id t))). lr_repoId y = r_id r} = {x} \<and>
    lr_pinned x \<and> lr_sha x = sha"
proof (clarify)
  fix tr r assume link: "(tr, r) \<in> set (active_write_links db (t_id t))"
  let ?heads = "fst (writeRepoHeads en db t)"
  have "snd (writeRepoHeads en db t) = []" using approval_took(3) [OF assms(1,2,5)] by simp
  from all_heads [OF this link] obtain h where h: "h \<in> set ?heads" "rh_repoId h = r_id r"
    "resolveBranchHead en (via_text (r_local_path r)) (via_text (head_branch db t r)) = Some (rh_sha h)" by blast
  have full: "\<forall>h \<in> set ?heads. full_sha (rh_sha h)"
    by (auto simp: heads_set entries_def dest: write_repo_headD [OF sym])
  from approval_plans_landing [OF assms(1,2,4,5), unfolded core_reads, OF distinct_heads [OF assms(3)] full assms(6,7), of "co_collate co"] h
  show "\<exists>x sha. resolveBranchHead en (via_text (r_local_path r)) (via_text (head_branch db t r)) = Some sha \<and>
    {y \<in> set (ls_repos (computeLandingStatus (co_collate co) db' (t_id t))). lr_repoId y = r_id r} = {x} \<and>
    lr_pinned x \<and> lr_sha x = sha" by metis
qed

lemma wired_approval:
  "case approveReview sample_git (core_gate sample_core sample_git wired_db) ''t1'' sample_ann sample_options wired_db of
     (Inr res, db') \<Rightarrow> t_status (tres_ticket res) = ReadyForMerge | _ \<Rightarrow> False"
  by code_simp

theorem approval_covers_every_repo_witness:
  "\<exists>res db' x. approveReview sample_git (core_gate sample_core sample_git wired_db) ''t1'' sample_ann sample_options wired_db = (Inr res, db') \<and>
     {y \<in> set (ls_repos (computeLandingStatus (\<lambda>s. s) db' ''t1'')). lr_repoId y = ''r1''} = {x} \<and> lr_sha x = sample_sha"
proof -
  obtain res db' where run: "approveReview sample_git (core_gate sample_core sample_git wired_db) ''t1'' sample_ann sample_options wired_db = (Inr res, db')"
    using wired_approval by (auto split: prod.splits sum.splits)
  have t: "resolve_ref wired_db ''t1'' = Some wired_ticket" "t_id wired_ticket = ''t1''"
    by (simp_all add: resolve_ref_def ticket_findById_def find_row_def wired_db_def wired_ticket_def sample_ticket_def)
  have keys: "distinct (map t_id (db_tickets wired_db))" by (simp add: wired_db_def)
  have who: "human_or_admin sample_ann" by (simp add: sample_ann_def human_or_admin_def)
  have links: "active_write_links wired_db ''t1'' = [(sample_link, wired_repo)]" by code_simp
  have sha: "resolveBranchHead sample_git (via_text (r_local_path wired_repo)) (via_text (head_branch wired_db wired_ticket wired_repo)) = Some sample_sha"
    by code_simp
  have collate: "co_collate sample_core = (\<lambda>s. s)" "r_id wired_repo = ''r1''"
    by (simp_all add: sample_core_def wired_repo_def sample_repo_def)
  have "\<forall>e \<in> set (db_evidence wired_db). ev_created_at e \<le> en_now sample_git" "last_off_path wired_db (t_id wired_ticket) = None"
    by (simp_all add: wired_db_def review_db_def empty_db_def last_off_path_def)
  then have "\<exists>x sha. resolveBranchHead sample_git (via_text (r_local_path wired_repo)) (via_text (head_branch wired_db wired_ticket wired_repo)) = Some sha \<and>
      {y \<in> set (ls_repos (computeLandingStatus (co_collate sample_core) db' (t_id wired_ticket))). lr_repoId y = r_id wired_repo} = {x} \<and>
      lr_pinned x \<and> lr_sha x = sha"
    using approval_covers_every_repo [OF run keys wired_ok who t(1)] by (simp add: t(2) links)
  then show ?thesis using run unfolding t(2) collate sha by auto
qed

section \<open>The head shown is the head approved\<close>

text \<open>A branch name the code does not have to trim, or none.\<close>

definition trimmed :: "string option \<Rightarrow> bool" where
  "trimmed v = (case v of None \<Rightarrow> True | Some s \<Rightarrow> s \<noteq> [] \<and> js_trim s = s)"

lemma nonEmpty_trimmed: "trimmed v \<Longrightarrow> nonEmpty v = v"
  by (auto simp: trimmed_def nonEmpty_def split: option.splits)

lemma delivery_branch_trimmed:
  assumes "trimmed (ticketRepoBranch db (t_id t) (r_id r))" and "trimmed (Option.bind (delivery_find db (t_id t) (r_id r)) rd_branch_name)"
    and "trimmed (t_branch_name t)"
  shows "delivery_branch db t r = head_branch db t r \<and> trimmed (head_branch db t r)"
  using assms by (auto simp: delivery_branch_def head_branch_def nonEmpty_trimmed split: option.splits)

text \<open>
  The head shown is the head approved. For a repository whose recorded branch names have no
  blank or surrounding space and whose path is not blank, the commit the review diff is pinned
  to is exactly the head an approval compares and pins; where the one cannot be read, neither
  can the other.
\<close>

theorem shown_head_approved:
  assumes "trimmed (ticketRepoBranch db (t_id t) (r_id r))" and "trimmed (Option.bind (delivery_find db (t_id t) (r_id r)) rd_branch_name)"
    and "trimmed (t_branch_name t)" and "r_local_path r = None \<or> js_trim (the (r_local_path r)) \<noteq> []"
  shows "shownHead en (resolve_target en db t r) = (case write_repo_head en db t r of Inr h \<Rightarrow> Some (rh_sha h) | Inl _ \<Rightarrow> None)"
proof -
  have branch: "delivery_branch db t r = head_branch db t r" "trimmed (head_branch db t r)"
    using delivery_branch_trimmed [OF assms(1-3)] by simp_all
  have "js_trim [] = []" by (simp add: js_trim_def)
  then have path: "\<And>p. r_local_path r = Some p \<Longrightarrow> p \<noteq> [] \<and> js_trim p \<noteq> []" using assms(4) by auto
  show ?thesis
  proof (cases "r_local_path r")
    case None
    then show ?thesis by (simp add: write_repo_head_def resolve_target_def shownHead_def via_text_def Let_def)
  next
    case (Some p)
    then show ?thesis using path [OF Some] branch(2)
      by (cases "head_branch db t r")
        (auto simp: write_repo_head_def resolve_target_def mk_target_def branch(1) shownHead_def via_text_def trimmed_def Let_def
          split: option.split)
  qed
qed

theorem shown_head_approved_witness:
  "shownHead sample_git (resolve_target sample_git wired_db wired_ticket wired_repo) = Some sample_sha \<and>
   (case write_repo_head sample_git wired_db wired_ticket wired_repo of Inr h \<Rightarrow> rh_sha h = sample_sha | Inl _ \<Rightarrow> False)"
proof -
  have "trimmed (ticketRepoBranch wired_db (t_id wired_ticket) (r_id wired_repo))"
    "trimmed (Option.bind (delivery_find wired_db (t_id wired_ticket) (r_id wired_repo)) rd_branch_name)"
    "trimmed (t_branch_name wired_ticket)" "r_local_path wired_repo = None \<or> js_trim (the (r_local_path wired_repo)) \<noteq> []" by code_simp+
  from shown_head_approved [OF this, of sample_git]
  have eq: "shownHead sample_git (resolve_target sample_git wired_db wired_ticket wired_repo) =
      (case write_repo_head sample_git wired_db wired_ticket wired_repo of Inr h \<Rightarrow> Some (rh_sha h) | Inl _ \<Rightarrow> None)" .
  have "case write_repo_head sample_git wired_db wired_ticket wired_repo of Inr h \<Rightarrow> rh_sha h = sample_sha | Inl _ \<Rightarrow> False" by code_simp
  then show ?thesis unfolding eq by (auto split: sum.splits)
qed

text \<open>
  A blank branch name on the link is skipped by the review diff, which goes on to the ticket's,
  and is taken as the branch by the approval, which then finds no delivery branch.
\<close>

definition blank_db :: db where
  "blank_db = wired_db\<lparr>db_ticket_repos := [sample_link\<lparr>tr_branch_name := Some []\<rparr>]\<rparr>"

lemma blank_branch_differs:
  "shownHead sample_git (resolve_target sample_git blank_db wired_ticket wired_repo) = Some sample_sha"
  "write_repo_head sample_git blank_db wired_ticket wired_repo = Inl (miss wired_repo NoDeliveryBranch ''it has no delivery branch'')"
  by code_simp+

section \<open>Which repository comes first\<close>

definition lib_repo :: repository where
  "lib_repo = wired_repo\<lparr>r_id := ''r2'', r_name := ''lib'', r_local_path := Some ''/lib''\<rparr>"

definition two_repos_db :: db where
  "two_repos_db = wired_db\<lparr>db_repositories := [wired_repo, lib_repo],
     db_ticket_repos := [sample_link, sample_link\<lparr>tr_repo_id := ''r2'', tr_role := RoleAffected\<rparr>]\<rparr>"

text \<open>
  The first write repository is not always the primary one. The links are ordered by the text
  of their role, and \<open>affected\<close> comes before \<open>primary\<close>. For a ticket with a primary and an affected
  write repository the candidate of required CI, documented as the primary repository's head,
  is the head of the affected one.
\<close>

theorem affected_repo_first:
  "map tr_role (db_ticket_repos two_repos_db) = [RolePrimary, RoleAffected] \<and>
   map rh_repo (resolveApprovedHeads sample_git two_repos_db wired_ticket) = [''lib'', ''app''] \<and>
   map_option rh_repo (ciCandidateHead (core_gate sample_core sample_git two_repos_db) two_repos_db wired_ticket) = Some ''lib''"
proof -
  have roles: "map tr_role (db_ticket_repos two_repos_db) = [RolePrimary, RoleAffected]" by code_simp
  have heads: "map rh_repo (fst (writeRepoHeads sample_git two_repos_db wired_ticket)) = [''lib'', ''app'']" by code_simp
  then show ?thesis
    unfolding ciCandidateHead_def core_reads resolveApprovedHeads_def roles by (auto simp: first_of_def map_eq_Cons_conv)
qed

end
