(* ===== verification/Outcome.thy ===== *)
theory Outcome
  imports Heads Tester
begin

text \<open>
  What the application says about an approval and a landing before and after it happens: the
  outcome of a human or an agent approval and the facts it is decided from
  (\<open>services/approveOutcome.ts\<close>, \<open>services/landingFactsService.ts\<close>), the state of an approved change
  (\<open>services/landingState.ts\<close>) and the outcome of a send-back (\<open>services/rejectOutcome.ts\<close>). The
  usage pause the runner's pause file holds and the rows of the run registry are arguments.
  Characters outside ASCII are written as their UTF-8 bytes.
\<close>

definition apos :: string where
  "apos = [CHR 0x27]"

definition middle_dot :: string where
  "middle_dot = [CHR 0xC2, CHR 0xB7]"

section \<open>The outcome of an approval\<close>

datatype approve_kind =
    HeldCi | HeldRepoUnavailable | HeldUntested | HeldTestModified | ToTester | LandNow | LandNextTick | WaitsForMerge

datatype review_mode = ReviewHuman | ReviewAgent | ReviewBoth

datatype pause_kind = UsageLimit | RateLimit

record unavailable_fact =
  uf_repo :: string
  uf_why :: string
  uf_fix :: "string option"

record untested_fact =
  un_why :: "uncovered option"
  un_tested :: "string option"
  un_head :: "string option"

record approve_facts =
  af_agent :: bool
  af_testModifiedHolds :: "string list"
  af_ciHold :: "(string option \<times> string option) option"
  af_unavailableRepos :: "unavailable_fact list"
  af_toTester :: bool
  af_untested :: "untested_fact option"
  af_testedCommit :: "string option"
  af_acceptance :: bool
  af_autoMerge :: bool
  af_mergeCommand :: bool
  af_mergeLane :: bool
  af_mergeGateEarned :: bool
  af_reviewMode :: review_mode
  af_prMode :: bool
  af_prUrl :: "string option"
  af_prMergeMethod :: string
  af_landsRepo :: "string option"
  af_baseBranch :: "string option"
  af_alsoLandsRepos :: "string list"
  af_noCheckoutRepos :: "string list"
  af_pause :: "(string \<times> pause_kind) option"

record agent_hold =
  ah_label :: string
  ah_sentence :: string
  ah_holds :: "string list"

datatype landing_via = ViaPr | ViaLocal

record approve_outcome =
  ao_kind :: approve_kind
  ao_approvable :: bool
  ao_to_status :: "ticket_status option"
  ao_label :: string
  ao_confirm_label :: string
  ao_done_label :: string
  ao_sentence :: string
  ao_via :: "landing_via option"
  ao_pr_url :: "string option"
  ao_lands_repo :: "string option"
  ao_also_lands_repos :: "string list"
  ao_not_landed_repos :: "string list"
  ao_review_mode :: review_mode
  ao_agent_hold :: "agent_hold option"

definition TEST_HOLD_LABEL :: string where
  "TEST_HOLD_LABEL = ''Approve held: tests changed, a person must allow it''"

definition andList :: "string list \<Rightarrow> string" where
  "andList xs = (if length xs \<le> 1 then concat xs else join_with '', '' (butlast xs) @ '' and '' @ last xs)"

definition short :: "string option \<Rightarrow> string" where
  "short s = take 12 (via_text s)"

definition landingClause :: "approve_facts \<Rightarrow> string" where
  "landingClause f = (
     let onto = (if truthy (af_baseBranch f) then '' onto '' @ via_text (af_baseBranch f) else []);
         repo = (if truthy (af_landsRepo f) then via_text (af_landsRepo f) @ onto else ''the default branch'') in
     if truthy (af_prUrl f) then (''it merges '' @ repo @ '' through its pull request (gh pr merge, '' @ (af_prMergeMethod f) @ '')'')
     else if af_prMode f then (''it merges '' @ repo @ '' locally (no pull request was recorded for this delivery)'')
     else (''it merges '' @ repo @ '' locally''))"

definition partialClause :: "approve_facts \<Rightarrow> string" where
  "partialClause f = (
     if \<not> truthy (af_landsRepo f) then []
     else (if af_alsoLandsRepos f = [] then []
        else '' '' @ andList (af_alsoLandsRepos f) @ '' '' @ (if length (af_alsoLandsRepos f) = 1 then ''lands'' else ''land'')
          @ '' after it the same way, each through the merge gate on its own default branch.''
          @ ('' A repo that fails is held with the landed ones recorded (Approved '' @ middle_dot @ '' partly landed), and the next landing merges only the rest.''))
       @ (if af_noCheckoutRepos f = [] then []
        else '' '' @ andList (af_noCheckoutRepos f) @ '' '' @ (if length (af_noCheckoutRepos f) = 1 then ''has'' else ''have'')
          @ '' no checkout on this machine, so no landing path can merge ''
          @ (if length (af_noCheckoutRepos f) = 1 then ''it'' else ''them'') @ ''.''))"

fun pause_name :: "pause_kind \<Rightarrow> string" where
  "pause_name RateLimit = ''rate limit''"
| "pause_name UsageLimit = ''usage limit''"

definition pauseClause :: "approve_facts \<Rightarrow> string" where
  "pauseClause f = (case af_pause f of None \<Rightarrow> []
     | Some (until, kind) \<Rightarrow> ('' The runner is paused for the '' @ (pause_name kind) @ '' until '' @ until)
         @ '' and runs no tick before then, so the merge lane lands it on the first tick after.'')"

definition bothClause :: "approve_facts \<Rightarrow> string" where
  "bothClause f = (if af_reviewMode f = ReviewBoth
     then ('' Review mode is both: this click is the human confirmation; the reviewer agent'' @ apos @ ''s screen never approves on its own.'')
     else [])"

definition testedClause :: "approve_facts \<Rightarrow> string" where
  "testedClause f = (if truthy (af_testedCommit f)
     then ('' You approve tested commit '' @ (short (af_testedCommit f)) @ '': the independent tester passed it before your review.'')
     else [])"

definition afterPass :: "approve_facts \<Rightarrow> string" where
  "afterPass f = (if (af_autoMerge f \<or> af_mergeGateEarned f) \<and> af_mergeLane f then (''the runner'' @ apos @ ''s merge lane lands it'')
     else ''it waits for Merge now'')"

definition agentHold :: "approve_facts \<Rightarrow> agent_hold option" where
  "agentHold f = (if af_testModifiedHolds f = [] then None
     else Some \<lparr>ah_label = TEST_HOLD_LABEL,
       ah_sentence = (''The delivery changed the tests that gate it ('' @ (join_with ''; '' (af_testModifiedHolds f)) @ '').'')
         @ ('' An agent'' @ apos @ ''s or auto approval is refused until a person approves it or allows test changes on the ticket.''),
       ah_holds = af_testModifiedHolds f\<rparr>)"

definition testChangesClause :: "agent_hold option \<Rightarrow> string" where
  "testChangesClause hold = (if hold = None then []
     else ('' The tests that gate it changed: your approval is not held by that (only an agent'' @ apos @ ''s or auto approval is), and the Flags below the button name what changed.''))"

text \<open>The sentences of the refusals.\<close>

definition ci_sentence :: "string option \<Rightarrow> string option \<Rightarrow> string" where
  "ci_sentence state commit = (
     let at_commit = (if truthy commit then '' for '' @ short commit else []) in
     case state of
       None \<Rightarrow> (''CI required: not reported'' @ at_commit @ ''. The server refuses approval until a passing result is recorded for this commit.'')
     | Some s \<Rightarrow> (''Required CI has not passed'' @ at_commit @ '' ('' @ s @ ''). The server refuses approval until a passing result is recorded for this commit.''))"

definition unavailable_sentence :: "unavailable_fact list \<Rightarrow> string" where
  "unavailable_sentence missing =
     join_with ''; '' (map (\<lambda>m. uf_repo m @ '': '' @ uf_why m) missing)
     @ ''. An approval covers every repository this ticket writes to ''
     @ ''(one approved commit each, and the ticket is done only when every one has landed), so the server refuses it until ''
     @ (if length missing = 1 then (''that repository'' @ apos @ ''s'') else (''each repository'' @ apos @ ''s'')) @ '' delivery head can be read. ''
     @ (if list_all (\<lambda>m. truthy (uf_fix m)) missing
        then (''To approve: '' @ (join_with ''; '' (map (\<lambda>m. via_text (uf_fix m)) missing)) @ ''; then review again.'')
        else ''Restore the checkout or the delivery branch and review again, or make the repository read-only on the ticket.'')"

definition untested_sentence :: "untested_fact \<Rightarrow> string" where
  "untested_sentence u = (
     let head = (if truthy (un_head u) then '' '' @ short (un_head u) else []) in
     (case un_why u of
        Some OtherCommit \<Rightarrow> (''Not tested on this commit: the independent tester passed '' @ (if truthy (un_tested u) then short (un_tested u) else ''another commit''))
          @ ('', and the branch is now at'' @ head @ ''.'')
      | Some VerdictFailed \<Rightarrow> (''Not tested on this commit: the independent tester'' @ apos @ ''s latest verdict is a FAIL.'')
      | Some ContractChanged \<Rightarrow> (''Not tested on this contract: the ticket'' @ apos @ ''s title, description, criteria or test contract changed after the tester passed it.'')
      | _ \<Rightarrow> (''Not tested on this commit yet: the independent tester has not passed'' @ (if head = [] then '' it'' else head) @ ''.''))
     @ '' The server refuses approval of a commit the tester did not pass; the runner sends it to the tester, and it comes back here after a PASS.'')"

text \<open>The fields every outcome starts from: a refusal that lands nothing.\<close>

definition outcome_base :: "approve_facts \<Rightarrow> approve_outcome" where
  "outcome_base f = \<lparr>ao_kind = HeldCi, ao_approvable = False, ao_to_status = None, ao_label = [], ao_confirm_label = [],
     ao_done_label = ''Approve held'', ao_sentence = [], ao_via = None, ao_pr_url = af_prUrl f, ao_lands_repo = None,
     ao_also_lands_repos = [], ao_not_landed_repos = [], ao_review_mode = af_reviewMode f,
     ao_agent_hold = (if af_agent f then None else agentHold f)\<rparr>"

definition with_labels :: "string \<Rightarrow> string \<Rightarrow> string \<Rightarrow> string \<Rightarrow> approve_outcome \<Rightarrow> approve_outcome" where
  "with_labels label confirm finished sentence o' = o'\<lparr>ao_label := label, ao_confirm_label := confirm,
     ao_done_label := finished, ao_sentence := sentence\<rparr>"

definition with_landing :: "approve_facts \<Rightarrow> approve_outcome \<Rightarrow> approve_outcome" where
  "with_landing f o' = o'\<lparr>ao_via := Some (if truthy (af_prUrl f) then ViaPr else ViaLocal), ao_lands_repo := af_landsRepo f,
     ao_also_lands_repos := (if truthy (af_landsRepo f) then af_alsoLandsRepos f else []),
     ao_not_landed_repos := af_noCheckoutRepos f\<rparr>"

definition refused :: "approve_facts \<Rightarrow> approve_kind \<Rightarrow> string \<Rightarrow> string \<Rightarrow> approve_outcome" where
  "refused f kind label sentence = with_labels label label ''Approve held'' sentence ((outcome_base f)\<lparr>ao_kind := kind\<rparr>)"

definition admitted :: "approve_facts \<Rightarrow> approve_kind \<Rightarrow> ticket_status \<Rightarrow> approve_outcome" where
  "admitted f kind to = (outcome_base f)\<lparr>ao_kind := kind, ao_approvable := True, ao_to_status := Some to\<rparr>"

text \<open>The part of the decision after the refusals.\<close>

definition decide_admitted :: "approve_facts \<Rightarrow> approve_outcome" where
  "decide_admitted f = (
     let tests = (if af_agent f then [] else testChangesClause (agentHold f) @ testedClause f); both = bothClause f in
     if af_toTester f then
       with_labels ''Approve and send to tester'' ''Confirm: send to tester'' ''Sent to tester''
         (''It moves to In testing, not to merge. ''
          @ (if af_acceptance f then (''An epic'' @ apos @ ''s acceptance ticket always goes to the independent tester.'')
             else ''The independent tester gates this ticket and has not passed this commit.'')
          @ '' A PASS takes it to Ready for merge, where '' @ afterPass f @ ''.'' @ both @ tests)
         (admitted f ToTester InTesting)
     else if af_autoMerge f \<and> af_mergeCommand f then
       with_labels ''Approve and land now'' ''Confirm and land now'' ''Landing now''
         (''Auto-merge on approval is on: the merge runner starts now, runs the landing check and the merge gate, then ''
          @ landingClause f @ ''.'' @ partialClause f @ both @ tests)
         (with_landing f (admitted f LandNow ReadyForMerge))
     else if (af_autoMerge f \<or> af_mergeGateEarned f) \<and> af_mergeLane f then
       with_labels ''Approve, lands on next tick'' ''Confirm: lands on next tick'' ''Waits for the merge lane''
         (''It moves to Ready for merge. ''
          @ (if af_autoMerge f then ''Auto-merge on approval is on but this server has no merge command''
             else ''An earned merge grant covers this ticket'')
          @ ('', so the runner'' @ apos @ ''s merge lane lands it at the start of its next tick (while the runner is running): '')
          @ landingClause f @ ''.'' @ pauseClause f @ partialClause f @ both @ tests)
         (with_landing f (admitted f LandNextTick ReadyForMerge))
     else
       with_labels ''Approve, merge is a separate click'' ''Confirm approval'' ''Waits for Merge now''
         (''It waits in Ready for merge: ''
          @ (if af_autoMerge f then (''Auto-merge on approval is on, but there is no merge command and the runner'' @ apos @ ''s merge lane is off'')
             else ''Auto-merge on approval is off'')
          @ '', so it lands only when someone presses Merge now.'' @ both @ tests)
         (admitted f WaitsForMerge ReadyForMerge))"

definition decideApproveOutcome :: "approve_facts \<Rightarrow> approve_outcome" where
  "decideApproveOutcome f = (case af_ciHold f of
     Some (state, commit) \<Rightarrow> refused f HeldCi
       (if state = None then ''Approve held: CI required, not reported'' else ''Approve held: CI not passed'') (ci_sentence state commit)
   | None \<Rightarrow>
       if af_unavailableRepos f \<noteq> [] then refused f HeldRepoUnavailable
         (''Approve held: '' @ andList (map uf_repo (af_unavailableRepos f)) @ '' unavailable'') (unavailable_sentence (af_unavailableRepos f))
       else case (if af_agent f then None else af_untested f) of
         Some u \<Rightarrow> refused f HeldUntested ''Approve held: not tested on this commit'' (untested_sentence u)
       | None \<Rightarrow> (case (if af_agent f then agentHold f else None) of
           Some hold \<Rightarrow> refused f HeldTestModified TEST_HOLD_LABEL (ah_sentence hold)
         | None \<Rightarrow> decide_admitted f))"

datatype merge_skip = AutoMergeOff | NotConfigured | SpawnError | OtherSkip

text \<open>
  \<open>settleApproveOutcome\<close>: the merge of the approve response, when there was one, was triggered or
  skipped.
\<close>

definition settleApproveOutcome :: "approve_facts \<Rightarrow> string \<Rightarrow> (bool \<times> merge_skip option) option \<Rightarrow> approve_outcome" where
  "settleApproveOutcome facts toStatus merge = (
     let free = facts\<lparr>af_ciHold := None, af_unavailableRepos := [], af_untested := None\<rparr>;
         went = free\<lparr>af_toTester := False\<rparr>; predicted = decideApproveOutcome went in
     if toStatus = ''in_testing'' then decideApproveOutcome (free\<lparr>af_toTester := True\<rparr>)
     else case merge of
       None \<Rightarrow> predicted
     | Some (triggered, skipped) \<Rightarrow>
         if triggered then decideApproveOutcome (went\<lparr>af_autoMerge := True, af_mergeCommand := True\<rparr>)
         else if skipped = Some AutoMergeOff then decideApproveOutcome (went\<lparr>af_autoMerge := False\<rparr>)
         else if skipped = Some NotConfigured then decideApproveOutcome (went\<lparr>af_mergeCommand := False\<rparr>)
         else if skipped = Some SpawnError then
           (let fallback = decideApproveOutcome (went\<lparr>af_mergeCommand := False\<rparr>) in
            fallback\<lparr>ao_sentence := ''The merge runner could not start. '' @ ao_sentence fallback\<rparr>)
         else predicted)"

section \<open>The facts of an approval\<close>

definition unavailableRepoRemedy :: "unavailable_repo \<Rightarrow> nat option \<Rightarrow> string" where
  "unavailableRepoRemedy m ticketNumber = (
     let n = (case ticketNumber of None \<Rightarrow> ''<ticket>'' | Some k \<Rightarrow> show_nat k); repo = uw_repo m;
         readOnly = (''or, if this ticket should not change '' @ repo @ '', make it read-only on the ticket (`runner/gaffer wg ticket repo-access set '' @ n @ '' '' @ repo @ '' --access read`)'') in
     case uw_kind m of
       Some NoCheckout \<Rightarrow> (''attach '' @ repo @ apos @ ''s checkout on this machine (register the repository with its local path, `runner/gaffer wg repo add -n '' @ repo @ '' --path <dir>`), '' @ readOnly)
     | Some UnreadableCheckout \<Rightarrow> (''restore '' @ repo @ apos @ ''s checkout at its registered path (or register the path it lives at now), '' @ readOnly)
     | Some NoDeliveryBranch \<Rightarrow> (''restore '' @ repo @ apos @ ''s delivery branch (or deliver to it again), '' @ readOnly)
     | Some BranchMissing \<Rightarrow> (''restore '' @ repo @ apos @ ''s delivery branch (or deliver to it again), '' @ readOnly)
     | None \<Rightarrow> (''make '' @ repo @ apos @ ''s delivery head readable again, '' @ readOnly))"

definition testerApproveFacts ::
  "env \<Rightarrow> gate_env \<Rightarrow> db \<Rightarrow> ticket \<Rightarrow> bool \<Rightarrow> bool \<Rightarrow> bool \<times> untested_fact option \<times> string option" where
  "testerApproveFacts en ga db t agent reads = (
     if \<not> reads \<or> \<not> laneApplies ga db t then (False, None, None)
     else let cov = testerCoverage en db t (resolveReviewedHeads ga db t) in
       if cv_covered cov then (False, None, cv_tested cov)
       else (True, if agent then None else Some \<lparr>un_why = cv_why cov, un_tested = cv_tested cov, un_head = cv_head cov\<rparr>, None))"

record outcome_options =
  oo_mergeCommand :: bool
  oo_reads :: bool
  oo_agent :: bool
  oo_pause :: "(string \<times> pause_kind) option"

definition env_or :: "process_env \<Rightarrow> string \<Rightarrow> string \<Rightarrow> string" where
  "env_or pe k d = lower (js_trim (case pe k of None \<Rightarrow> d | Some s \<Rightarrow> s))"

definition merge_lane_on :: "process_env \<Rightarrow> bool" where
  "merge_lane_on pe = (env_or pe ''GAFFER_MERGE_LANE'' ''1'' \<notin> {''0'', ''false'', ''no'', ''off''})"

definition review_mode_of :: "process_env \<Rightarrow> review_mode" where
  "review_mode_of pe = (let m = env_or pe ''REVIEW_MODE'' ''human'' in
     if m = ''agent'' then ReviewAgent else if m = ''both'' then ReviewBoth else ReviewHuman)"

definition merge_method :: "process_env \<Rightarrow> string" where
  "merge_method pe = (let m = env_or pe ''GAFFER_PR_MERGE_METHOD'' [] in
     if m \<in> {''merge'', ''squash'', ''rebase''} then m else ''merge'')"

definition merge_gate_earned :: "core_env \<Rightarrow> db \<Rightarrow> ticket \<Rightarrow> bool" where
  "merge_gate_earned co db t =
     isAutonomyAllowed (co_policy co) (writeRepoIdsForTicket db t) (t_risk_level t) GateMerge (co_process co)"

definition or_text :: "string option \<Rightarrow> string option \<Rightarrow> string option" where
  "or_text a b = (if truthy a then a else if truthy b then b else None)"

definition ticketRepoPrUrl :: "db \<Rightarrow> id \<Rightarrow> id \<Rightarrow> string option" where
  "ticketRepoPrUrl db tid rid =
     Option.bind (find (\<lambda>tr. tr_ticket_id tr = tid \<and> tr_repo_id tr = rid) (db_ticket_repos db)) tr_pr_url"

definition holds_fact :: "core_env \<Rightarrow> db \<Rightarrow> ticket \<Rightarrow> string list" where
  "holds_fact co db t = (case co_diff co db t of
     Some repos \<Rightarrow> ob_holds (observedRiskFor (co_process co) (co_integrity co) db t repos)
   | None \<Rightarrow> [''the delivery diff could not be read to check its tests''])"

definition approveOutcomeFacts :: "core_env \<Rightarrow> env \<Rightarrow> db \<Rightarrow> ticket \<Rightarrow> outcome_options \<Rightarrow> approve_facts" where
  "approveOutcomeFacts co en db t opts = (
     let ga = core_gate co en db; pe = co_process co;
         writes = map snd (active_write_links db (t_id t));
         local = filter (\<lambda>r. truthy (r_local_path r)) writes;
         lands = first_of local;
         (toTester, untested, tested) = testerApproveFacts en ga db t (oo_agent opts) (oo_reads opts) in
     \<lparr>af_agent = oo_agent opts,
      af_testModifiedHolds = (if oo_reads opts then holds_fact co db t else []),
      af_ciHold = (if oo_reads opts then approveCiHold ga db t else None),
      af_unavailableRepos = (if oo_reads opts then map (\<lambda>m. \<lparr>uf_repo = uw_repo m, uf_why = uw_why m,
          uf_fix = Some (unavailableRepoRemedy m (t_number t))\<rparr>) (unavailableWriteRepos ga db t) else []),
      af_toTester = toTester, af_untested = untested, af_testedCommit = tested,
      af_acceptance = t_acceptance t, af_autoMerge = envFlagOn (pe ''AUTO_MERGE''),
      af_mergeCommand = oo_mergeCommand opts, af_mergeLane = merge_lane_on pe,
      af_mergeGateEarned = merge_gate_earned co db t,
      af_reviewMode = review_mode_of pe, af_prMode = envFlagOn (pe ''GAFFER_CREATE_PR''),
      af_prUrl = (case lands of Some r \<Rightarrow> or_text (ticketRepoPrUrl db (t_id t) (r_id r)) (t_pr_url t)
                  | None \<Rightarrow> or_text (t_pr_url t) None),
      af_prMergeMethod = merge_method pe,
      af_landsRepo = map_option r_name lands,
      af_baseBranch = Option.bind lands (\<lambda>r. if r_default_branch r = [] then None else Some (r_default_branch r)),
      af_alsoLandsRepos = map r_name (tl local),
      af_noCheckoutRepos = map r_name (filter (\<lambda>r. \<not> truthy (r_local_path r)) writes),
      af_pause = oo_pause opts\<rparr>)"

definition approveOutcome :: "core_env \<Rightarrow> env \<Rightarrow> db \<Rightarrow> ticket \<Rightarrow> outcome_options \<Rightarrow> approve_outcome" where
  "approveOutcome co en db t opts = decideApproveOutcome (approveOutcomeFacts co en db t opts)"

section \<open>The outcome of a send-back\<close>

datatype reject_kind = RoToRefining | RoToReady | RoParkedRetryCap | RoHeldPartlyLanded

record reject_facts =
  rf_ticketNumber :: "nat option"
  rf_toReady :: bool
  rf_attemptCount :: nat
  rf_maxAttempts :: nat
  rf_landedRepos :: "string list"
  rf_requirements :: nat

record reject_outcome =
  rj_kind :: reject_kind
  rj_label :: string
  rj_sentence :: string
  rj_to_status :: ticket_status
  rj_attempt :: nat
  rj_max_attempts :: nat
  rj_ac_reset :: bool
  rj_requirements :: nat

definition rejectOutcome :: "reject_facts \<Rightarrow> reject_outcome" where
  "rejectOutcome f = (
     let ref = (case rf_ticketNumber f of None \<Rightarrow> ''This ticket'' | Some n \<Rightarrow> ''#'' @ show_nat n);
         n = rf_requirements f; reqs = show_nat n @ '' numbered requirement'' @ (if n = 1 then [] else ''s'');
         attempt = rf_attemptCount f + 1; reset = ''Its acceptance criteria reset to not met.'';
         cap = show_nat (rf_maxAttempts f);
         out = (\<lambda>kind to sentence. \<lparr>rj_kind = kind, rj_label = ''Fix these ('' @ show_nat n @ '')'', rj_sentence = sentence,
           rj_to_status = to, rj_attempt = attempt, rj_max_attempts = rf_maxAttempts f, rj_ac_reset = True, rj_requirements = n\<rparr>) in
     if rf_landedRepos f \<noteq> [] then out RoHeldPartlyLanded Blocked
       (''Part of this change already landed ('' @ (join_with '', '' (rf_landedRepos f)) @ ''), so '' @ ref @ '' is held for a person (blocked) with your '' @ reqs @ '' instead of going back to the queue. '' @ reset)
     else if attempt \<ge> rf_maxAttempts f then out RoParkedRetryCap Blocked
       (''This was attempt '' @ (show_nat attempt) @ '' of '' @ cap @ '', the last the cap allows, so '' @ ref @ '' is parked for a person (blocked) with your '' @ reqs @ '' instead of going back to the queue. '' @ reset)
     else if rf_toReady f then out RoToReady Ready
       (ref @ '' goes back to Ready with your '' @ reqs @ ''; the next delivery (attempt '' @ (show_nat (attempt + 1)) @ '' of '' @ cap @ '') gets them in its prompt. '' @ reset)
     else out RoToRefining Refining
       (ref @ '' goes back to Refining with your '' @ reqs @ ''; you look at it there, and the next delivery (attempt '' @ (show_nat (attempt + 1)) @ '' of '' @ cap @ '') gets them in its prompt. '' @ reset))"

text \<open>The facts of the host's \<open>rejectOutcome\<close>; the number of open must-fix comments is an argument.\<close>

definition rejectOutcomeFacts :: "db \<Rightarrow> ticket \<Rightarrow> nat \<Rightarrow> bool \<Rightarrow> nat \<Rightarrow> reject_facts" where
  "rejectOutcomeFacts db t maxAttempts toReady requirements = \<lparr>rf_ticketNumber = t_number t, rf_toReady = toReady,
     rf_attemptCount = t_attempt_count t, rf_maxAttempts = maxAttempts,
     rf_landedRepos = recordedLandingRepos db (t_id t), rf_requirements = requirements\<rparr>"

end
