(* ===== verification/Landing_State.thy ===== *)
theory Landing_State
  imports Outcome Event_Chain
begin

text \<open>
  Where an approved change is (\<open>services/landingState.ts\<close>) and the facts the label is decided from
  (\<open>services/landingFactsService.ts\<close>): the hold on the landing, the repositories landed so far, a
  merge run that is still running, and whether the runner's merge lane lands it. The usage
  pause and the status column of the run registry are arguments.
\<close>

section \<open>The label\<close>

datatype landing_kind = KHeld | KLanding | KPartlyLanded | KLandsNextTick | KWaitingForMerge

datatype landing_hold = HoldMoved | HoldUnpinned | HoldMergeGate | HoldCi

record landing_facts =
  lf_status :: ticket_status
  lf_hold :: "landing_hold option"
  lf_mergeRunning :: bool
  lf_landedRepos :: "string list"
  lf_writeRepos :: "string list"
  lf_movedRepos :: "string list"
  lf_unpinnedRepos :: "string list"
  lf_pause :: "(string \<times> pause_kind) option"
  lf_autoMerge :: bool
  lf_mergeLane :: bool
  lf_mergeGateEarned :: bool
  lf_approver :: string

record landing_state =
  lst_kind :: landing_kind
  lst_label :: string
  lst_detail :: string
  lst_hold :: "landing_hold option"
  lst_paused_until :: "string option"

fun hold_label :: "landing_hold \<Rightarrow> string" where
  "hold_label HoldMoved = (''Held '' @ middle_dot @ '' moved since review'')"
| "hold_label HoldUnpinned = (''Held '' @ middle_dot @ '' approval does not cover every repository'')"
| "hold_label HoldMergeGate = (''Held '' @ middle_dot @ '' merge gate failed'')"
| "hold_label HoldCi = (''Held '' @ middle_dot @ '' CI red'')"

fun hold_detail :: "landing_hold \<Rightarrow> string" where
  "hold_detail HoldMoved = (''The branch moved since the review approved it; no landing path merges commits nobody reviewed. Send it back to review (Back to review on its ticket page, or `gaffer wg ticket reopen-for-review <n> --reason '' @ ellipsis @ '' --resolution '' @ ellipsis @ '' --as admin`) and approve the new commits.'')"
| "hold_detail HoldUnpinned = (''A write repository on this ticket has no approved commit (its delivery head could not be read when the ticket was approved), so no landing path can land it and the ticket can never be done as approved. Send it back to review (Back to review on its ticket page, or `gaffer wg ticket reopen-for-review <n> --reason '' @ ellipsis @ '' --resolution '' @ ellipsis @ '' --as admin`) and approve every repository together.'')"
| "hold_detail HoldMergeGate = ''The merge onto the current default branch failed its gates; the default branch was not touched. The merge gate runs on every landing path (the merge lane, Merge now, gaffer merge), so none lands it until a person looks.''"
| "hold_detail HoldCi = ''Required CI failed for the commit that would land; no landing path merges it until CI passes or a person looks.''"

definition still_pending :: "landing_facts \<Rightarrow> string list" where
  "still_pending f = filter (\<lambda>r. r \<notin> set (lf_landedRepos f)) (lf_writeRepos f)"

definition partly :: "landing_facts \<Rightarrow> bool" where
  "partly f = (lf_landedRepos f \<noteq> [] \<and> length (lf_landedRepos f) < length (lf_writeRepos f))"

definition partWords :: "landing_facts \<Rightarrow> string" where
  "partWords f = (if \<not> partly f then []
     else ('' Partly landed: '' @ (join_with '', '' (lf_landedRepos f)) @ '' landed; '' @ (join_with '', '' (still_pending f)) @ '' held.''))"

definition laneLands :: "landing_facts \<Rightarrow> bool" where
  "laneLands f = (lf_mergeLane f \<and> (lf_mergeGateEarned f \<or> (lf_autoMerge f \<and> lf_approver f \<in> {''human'', ''admin''})))"

definition mk_state :: "landing_kind \<Rightarrow> string \<Rightarrow> string \<Rightarrow> landing_state" where
  "mk_state kind label detail = \<lparr>lst_kind = kind, lst_label = label, lst_detail = detail, lst_hold = None, lst_paused_until = None\<rparr>"

text \<open>The label of an approved ticket that nothing holds.\<close>

definition free_state :: "landing_facts \<Rightarrow> landing_state" where
  "free_state f = (
     if lf_mergeRunning f then mk_state KLanding (''Approved '' @ middle_dot @ '' landing'') ''The merge runner is landing it now.''
     else if partly f then mk_state KPartlyLanded (''Approved '' @ middle_dot @ '' partly landed'')
       (((join_with '', '' (lf_landedRepos f)) @ '' landed; '' @ (join_with '', '' (still_pending f)) @ '' not yet landed (pending, still on the delivery branch). '')
        @ (if laneLands f
           then (''The runner'' @ apos @ ''s merge lane lands the rest on its next tick (the merge gate and the tester replay run per repository), or Merge now lands the rest at once'')
           else ''Nothing lands the rest on its own (the merge policy holds this approval now): Merge now lands the rest'')
        @ ''; a landed repo is never merged again, and the ticket is done when every repository has landed.'')
     else if laneLands f then
       (let why = (if lf_mergeGateEarned f then (''An earned merge grant covers it: the runner'' @ apos @ ''s merge lane lands it on its next tick.'')
             else (''Auto-merge on approval is on: the runner'' @ apos @ ''s merge lane lands this human approval on its next tick.'')) in
        case lf_pause f of
          Some (until, kind) \<Rightarrow> (mk_state KLandsNextTick (''Approved '' @ middle_dot @ '' lands next tick (paused: '' @ (pause_name kind) @ '')'')
            (why @ '' The runner is paused for the '' @ (pause_name kind) @ '' until '' @ until @ '' and runs no tick before then; it lands on the first tick after.''))
            \<lparr>lst_paused_until := Some until\<rparr>
        | None \<Rightarrow> mk_state KLandsNextTick (''Approved '' @ middle_dot @ '' lands next tick'') why)
     else mk_state KWaitingForMerge (''Approved '' @ middle_dot @ '' waiting for Merge now'')
       (if lf_autoMerge f
        then (''Nothing lands it on its own (an agent'' @ apos @ ''s approval needs an earned merge grant, or the merge lane is off): press Merge now.'')
        else ''Auto-merge on approval is off: it lands when someone presses Merge now.''))"

definition decideLandingState :: "landing_facts \<Rightarrow> landing_state option" where
  "decideLandingState f = (case (if lf_status f \<in> {ReadyForMerge, Blocked} then lf_hold f else None) of
     Some hold \<Rightarrow>
       let movedNow = (if hold = HoldMoved \<and> lf_movedRepos f \<noteq> [] then ('' Moved: '' @ (join_with '', '' (lf_movedRepos f)) @ ''.'')
             else if hold = HoldUnpinned \<and> lf_unpinnedRepos f \<noteq> [] then ('' Not approved: '' @ (join_with '', '' (lf_unpinnedRepos f)) @ ''.'')
             else []) in
       Some \<lparr>lst_kind = KHeld, lst_label = hold_label hold, lst_detail = hold_detail hold @ movedNow @ partWords f,
         lst_hold = Some hold, lst_paused_until = None\<rparr>
   | None \<Rightarrow> if lf_status f \<noteq> ReadyForMerge then None else Some (free_state f))"

section \<open>The facts\<close>

definition to_of :: "work_event \<Rightarrow> string" where
  "to_of e = via_text (json_text ''to'' (we_payload e))"

definition reason_of :: "work_event \<Rightarrow> string" where
  "reason_of e = via_text (json_text ''reason'' (we_payload e))"

definition transitions :: "db \<Rightarrow> id \<Rightarrow> work_event list" where
  "transitions db tid = filter (\<lambda>e. we_event_type e = ''ticket.transitioned'') (listEvents db ''ticket'' tid)"

definition lastInto :: "db \<Rightarrow> id \<Rightarrow> string \<Rightarrow> work_event option" where
  "lastInto db tid st = find (\<lambda>e. to_of e = st) (rev (transitions db tid))"

text \<open>The events after the last one that satisfies a condition, or all of them.\<close>

definition after_last :: "('a \<Rightarrow> bool) \<Rightarrow> 'a list \<Rightarrow> 'a list" where
  "after_last P xs = rev (takeWhile (\<lambda>x. \<not> P x) (rev xs))"

definition after_entry :: "db \<Rightarrow> id \<Rightarrow> work_event list" where
  "after_entry db tid =
     after_last (\<lambda>e. we_event_type e = ''ticket.transitioned'' \<and> to_of e = ''ready_for_merge'') (listEvents db ''ticket'' tid)"

definition recorded_since :: "db \<Rightarrow> id \<Rightarrow> string list" where
  "recorded_since db tid = map (\<lambda>e. field_string ''evidence_id'' (we_payload e))
     (filter (\<lambda>e. we_event_type e = ''evidence.recorded'') (after_entry db tid))"

text \<open>The approval on the ticket's current path to merge.\<close>

definition approver_of :: "db \<Rightarrow> id \<Rightarrow> string" where
  "approver_of db tid = (case filter (\<lambda>e. reason_of e \<in> {''review_approved'', ''review_approved_to_testing''})
        (after_last (\<lambda>e. to_of e = ''in_review'') (transitions db tid)) of
     [] \<Rightarrow> [] | es \<Rightarrow> actor_type_name (we_actor_type (last es)))"

definition moved_repos :: "landing_status \<Rightarrow> reviewed_head list \<Rightarrow> string list" where
  "moved_repos landing heads = map lr_repo (filter (\<lambda>r. \<not> lr_landed r \<and> lr_pinned r \<and>
     (case find (\<lambda>x. rh_repoId x = lr_repoId r) heads of None \<Rightarrow> False | Some h \<Rightarrow> rh_sha h \<noteq> lr_sha r)) (ls_repos landing))"

text \<open>An approval with one pin for the whole ticket: compared with the first head.\<close>

definition legacy_moved :: "db \<Rightarrow> id \<Rightarrow> reviewed_head option \<Rightarrow> string list" where
  "legacy_moved db tid head = (
     let pin = find (\<lambda>e. ev_repo_id e = None \<and> ev_recorded_by e = Some System \<and> starts_with (via_text (ev_uri e)) REVIEW_PIN_PREFIX)
           (rev (evidence_listForTicket db tid));
         pinned = (case pin of None \<Rightarrow> [] | Some e \<Rightarrow> lower (drop (length REVIEW_PIN_PREFIX) (via_text (ev_uri e)))) in
     case head of None \<Rightarrow> []
     | Some h \<Rightarrow> if pinned \<noteq> [] \<and> \<not> starts_with (rh_sha h) pinned \<and> \<not> starts_with pinned (rh_sha h) then [rh_repo h] else [])"

definition landedAndWriteRepos :: "landing_status \<Rightarrow> string list \<Rightarrow> string list \<times> string list" where
  "landedAndWriteRepos landing writes = (if ls_repos landing = [] then ([], writes)
     else (map lr_repo (filter lr_landed (ls_repos landing)), map lr_repo (ls_repos landing)))"

definition write_names :: "db \<Rightarrow> id \<Rightarrow> string list" where
  "write_names db tid = map (\<lambda>(tr, r). r_name r) (active_write_links db tid)"

definition blocked_hold :: "db \<Rightarrow> id \<Rightarrow> landing_hold option" where
  "blocked_hold db tid = (case lastInto db tid ''blocked'' of None \<Rightarrow> None
     | Some e \<Rightarrow> if reason_of e = ''held:merge_gate_red'' then Some HoldMergeGate
                else if reason_of e = ''held:ci_red'' then Some HoldCi else None)"

definition no_facts :: "ticket_status \<Rightarrow> landing_hold option \<Rightarrow> landing_facts" where
  "no_facts st hold = \<lparr>lf_status = st, lf_hold = hold, lf_mergeRunning = False, lf_landedRepos = [], lf_writeRepos = [],
     lf_movedRepos = [], lf_unpinnedRepos = [], lf_pause = None, lf_autoMerge = False, lf_mergeLane = False,
     lf_mergeGateEarned = False, lf_approver = []\<rparr>"

definition approved_hold :: "db \<Rightarrow> ticket \<Rightarrow> landing_status \<Rightarrow> reviewed_head option \<Rightarrow> string list \<Rightarrow> landing_hold option" where
  "approved_hold db t landing head movedNow = (
     if movedNow \<noteq> [] then Some HoldMoved
     else if ls_unpinned landing \<noteq> [] then Some HoldUnpinned
     else if list_ex (\<lambda>e. starts_with (ev_summary e) ''MERGE GATE FAILED'' \<and> ev_id e \<in> set (recorded_since db (t_id t)))
            (evidence_listForTicket db (t_id t)) then Some HoldMergeGate
     else case head of None \<Rightarrow> None
       | Some h \<Rightarrow> if ci_state (ciStatus db (t_id t) (Some (rh_sha h))) = Some ''fail'' then Some HoldCi else None)"

definition landingFacts ::
  "core_env \<Rightarrow> env \<Rightarrow> (id \<Rightarrow> string option) \<Rightarrow> (string \<times> pause_kind) option \<Rightarrow> db \<Rightarrow> ticket \<Rightarrow> landing_facts option" where
  "landingFacts co en runs pause db t = (
     let landing = computeLandingStatus (co_collate co) db (t_id t); writes = write_names db (t_id t);
         (landed, write) = landedAndWriteRepos landing writes in
     if t_status t = Blocked then
       (case blocked_hold db (t_id t) of
          None \<Rightarrow> Some (no_facts Blocked None)
        | Some h \<Rightarrow> Some ((no_facts Blocked (Some h))\<lparr>lf_landedRepos := landed, lf_writeRepos := write\<rparr>))
     else if t_status t \<noteq> ReadyForMerge then None
     else let heads = resolveApprovedHeads en db t; head = first_of heads;
              movedNow = moved_repos landing heads
                @ (if ls_repos landing = [] then legacy_moved db (t_id t) head else []) in
       Some \<lparr>lf_status = ReadyForMerge, lf_hold = approved_hold db t landing head movedNow,
         lf_mergeRunning = run_is_running runs (find (\<lambda>e. we_event_type e = ''ticket.merge_started'') (rev (after_entry db (t_id t)))),
         lf_landedRepos = landed, lf_writeRepos = write, lf_movedRepos = movedNow, lf_unpinnedRepos = ls_unpinned landing,
         lf_pause = pause, lf_autoMerge = envFlagOn (co_process co ''AUTO_MERGE''), lf_mergeLane = merge_lane_on (co_process co),
         lf_mergeGateEarned = merge_gate_earned co db t, lf_approver = approver_of db (t_id t)\<rparr>)"

definition landingState ::
  "core_env \<Rightarrow> env \<Rightarrow> (id \<Rightarrow> string option) \<Rightarrow> (string \<times> pause_kind) option \<Rightarrow> db \<Rightarrow> ticket \<Rightarrow> landing_state option" where
  "landingState co en runs pause db t = Option.bind (landingFacts co en runs pause db t) decideLandingState"

end
