(* ===== verification/Outcome_Props.thy ===== *)
theory Outcome_Props
  imports Heads_Props Landing_State
begin

text \<open>
  The properties of what the application announces: the outcome of an approval is what the gate
  does, and the outcome of a send-back is what the gate does, but for the attempt it counts; and
  an announcement that the landing label does not keep.
\<close>

section \<open>The decision in closed form\<close>

lemmas outcome_defs = refused_def admitted_def with_labels_def with_landing_def outcome_base_def

definition would_hold :: "approve_facts \<Rightarrow> bool" where
  "would_hold f = (af_ciHold f \<noteq> None \<or> af_unavailableRepos f \<noteq> [] \<or> (if af_agent f then af_testModifiedHolds f \<noteq> [] else af_untested f \<noteq> None))"

lemma decide_admitted_fields:
  "ao_approvable (decide_admitted f)" "ao_to_status (decide_admitted f) = Some (if af_toTester f then InTesting else ReadyForMerge)"
  by (simp_all add: decide_admitted_def outcome_defs Let_def)

lemma refused_fields:
  "\<not> ao_approvable (refused f k l s)" "ao_to_status (refused f k l s) = None" "ao_kind (refused f k l s) = k"
  by (simp_all add: outcome_defs)

lemma decide_held: "would_hold f \<Longrightarrow> \<exists>k l s. decideApproveOutcome f = refused f k l s"
  by (auto simp: decideApproveOutcome_def would_hold_def agentHold_def split: option.splits prod.splits if_split_asm)

lemma decide_free: "\<not> would_hold f \<Longrightarrow> decideApproveOutcome f = decide_admitted f"
  by (auto simp: decideApproveOutcome_def would_hold_def agentHold_def split: option.splits prod.splits)

lemma decide_approvable: "ao_approvable (decideApproveOutcome f) \<longleftrightarrow> \<not> would_hold f"
  using decide_held [of f] decide_free [of f] decide_admitted_fields(1) [of f] refused_fields(1) by metis

section \<open>The outcome is what the gate does\<close>

lemma facts_of_gate:
  assumes "oo_reads opts"
  shows "af_ciHold (approveOutcomeFacts co en db t opts) = approveCiHold (core_gate co en db) db t"
    and "af_unavailableRepos (approveOutcomeFacts co en db t opts) = [] \<longleftrightarrow> unavailableWriteRepos (core_gate co en db) db t = []"
    and "af_toTester (approveOutcomeFacts co en db t opts) \<longleftrightarrow> approveRoutesToTesting en (core_gate co en db) db t"
    and "\<not> oo_agent opts \<Longrightarrow> af_untested (approveOutcomeFacts co en db t opts) \<noteq> None \<longleftrightarrow> approveRoutesToTesting en (core_gate co en db) db t"
    and "af_testModifiedHolds (approveOutcomeFacts co en db t opts) = holds_fact co db t"
    and "af_agent (approveOutcomeFacts co en db t opts) = oo_agent opts"
  using assms by (auto simp: approveOutcomeFacts_def testerApproveFacts_def approveRoutesToTesting_def Let_def split: if_split_asm)

lemma risk_clear_holds: "risk_clear (core_gate co en db) db t \<Longrightarrow> holds_fact co db t = []"
  by (auto simp: risk_clear_def core_gate_def holds_fact_def shouldEscalate_def split: option.splits if_split_asm)

lemma human_approve_atomic:
  assumes "a_type actor \<noteq> AgentActor" and "approveReview en ga ref actor opts db = (Inl e, db')"
  shows "db' = db"
proof -
  have "\<not> agentApproveAllowed ga db ref actor" using assms(1) by (simp add: agentApproveAllowed_def)
  with assms(2) show ?thesis unfolding approveReview_def
    by (auto simp: thenP_def run_tx_def returnT_def split: sum.splits prod.splits if_splits dest: approve_admitD)
qed

text \<open>Evidence ids are fresh, as random ones are: no two calls agree, and none is in use.\<close>

definition ids_fresh :: "env \<Rightarrow> db \<Rightarrow> bool" where
  "ids_fresh en db \<longleftrightarrow> inj (en_uuid en EvidenceId) \<and>
     (\<forall>n \<ge> length (db_evidence db). en_uuid en EvidenceId n \<notin> ev_id ` set (db_evidence db))"

lemma ids_fresh_later: "db_evidence s = db_evidence db \<Longrightarrow> ids_fresh en s = ids_fresh en db"
  by (simp add: ids_fresh_def)

lemma pins_run:
  assumes "ids_fresh en s" and "\<forall>h \<in> set pins. rh_repoId h \<in> r_id ` set (db_repositories s)" and "t_id t \<in> t_id ` set (db_tickets s)"
  shows "\<exists>s'. recordApprovalPins en t actor pins s = Inr ((), s')"
  using assms
proof (induction pins arbitrary: s)
  case Nil
  then show ?case by (simp add: recordApprovalPins_def returnT_def)
next
  case (Cons h pins)
  obtain e where e: "insert_commit en (t_id t) (rh_repoId h)
       ((if a_type actor = AgentActor then ''agent review'' else ''human review'') @ '' ('' @ actor_label actor
        @ '') approved commit '' @ rh_sha h @ '' of '' @ rh_branch h @ '' in '' @ rh_repo h) (REVIEW_PIN_PREFIX @ rh_sha h)
       (JObj [(''kind'', JStr ''review_pin''), (''approver_type'', JStr (actor_type_name (a_type actor))), (''repo'', JStr (rh_repo h))]) s =
       Inr ((), s\<lparr>db_evidence := db_evidence s @ [e]\<rparr>)" "ev_id e = en_uuid en EvidenceId (length (db_evidence s))"
    using Cons.prems by (auto simp: insert_commit_def evidence_insert_def ids_fresh_def)
  have "ids_fresh en (s\<lparr>db_evidence := db_evidence s @ [e]\<rparr>)"
    using Cons.prems(1) e(2) by (auto simp: ids_fresh_def dest: injD)
  from Cons.IH [OF this] Cons.prems e(1) show ?case by (simp add: recordApprovalPins_def bindT_def)
qed

lemma heads_have_repos: "h \<in> set (fst (writeRepoHeads en db t)) \<Longrightarrow> rh_repoId h \<in> r_id ` set (db_repositories db)"
  by (auto simp: heads_set entries_def active_write_links_def repo_listForTicket_def split: if_split_asm dest: write_repo_headD [OF sym])

text \<open>A move to ready_for_merge by an approval: the only check left is the policy of the done gate.\<close>

lemma merge_move_check:
  "transition_check en ((sysmove i actor ReadyForMerge why [ReviewApprove])\<lparr>ti_expectedFromStatus := Some InReview,
      ti_approvedUnchanged := u, ti_deliveryDiff := d, ti_patch := p\<rparr>) db t =
   (if t_status t \<noteq> InReview then Inl (DispatchError STATE_CONFLICT)
    else if pr_allowed (evaluate en db t GateDone d) then Inr (Some (evaluate en db t GateDone d)) else Inl (DispatchError POLICY_DENIED))"
  by (auto simp: transition_check_def sysmove_def move_def ALLOWED_def violatedGuard_def GUARDED_EDGES_def edge_matches_def Let_def)

lemma effect_ids:
  assumes "ticket_findById db i = Some t" shows "i \<in> t_id ` set (db_tickets (transition_effect en inp t db))"
proof -
  have "map t_id (db_tickets (transition_effect en inp t db)) = map t_id (db_tickets db)"
    unfolding transition_effect_def by (simp add: map_key_upd_rows)
  then have "t_id ` set (db_tickets (transition_effect en inp t db)) = t_id ` set (db_tickets db)" by (metis set_map)
  moreover have "t \<in> set (db_tickets db)" "t_id t = i"
    using find_row_SomeD [OF assms [unfolded ticket_findById_def]] by blast+
  ultimately show ?thesis by blast
qed

lemma approve_to_merge_runs:
  assumes "distinct (map t_id (db_tickets db))" and "ticket_findById db (t_id t) = Some t" and "ids_fresh en db"
    and "\<forall>h \<in> set pins. rh_repoId h \<in> r_id ` set (db_repositories db)"
    and "t_status t = InReview" and "pr_allowed (evaluate en db t GateDone (Some (deliveryDiffProof en db t)))"
  shows "\<exists>res db'. approve_to_merge en ga t actor [] pins db = Inr (res, db')"
proof -
  let ?inp = "(sysmove (t_id t) actor ReadyForMerge ''review_approved'' [ReviewApprove])
              \<lparr>ti_expectedFromStatus := Some InReview, ti_approvedUnchanged := Some (computeApprovedUnchanged (ga_landing ga) db t),
               ti_deliveryDiff := Some (deliveryDiffProof en db t), ti_patch := approve_patch t actor\<rparr>"
  have "ti_ticketId ?inp = t_id t" by (simp add: sysmove_def move_def)
  then obtain x where move: "transition en ?inp db = Inr (x, transition_effect en ?inp t db)"
    using transition_eq [OF assms(1), of en ?inp] assms(2,5,6) by (simp add: merge_move_check)
  have "t_id t \<in> t_id ` set (db_tickets (transition_effect en ?inp t db))" using effect_ids [OF assms(2)] .
  moreover have "db_evidence (transition_effect en ?inp t db) = db_evidence db" "db_repositories (transition_effect en ?inp t db) = db_repositories db"
    by (simp_all add: effect_tables)
  ultimately obtain s where "recordApprovalPins en t actor pins (transition_effect en ?inp t db) = Inr ((), s)"
    using pins_run [of en "transition_effect en ?inp t db" pins t actor] assms(3,4)
      ids_fresh_later [of "transition_effect en ?inp t db" db en] by auto
  with move show ?thesis
    by (simp add: approve_to_merge_def assertWriteReposAvailable_def bindT_def [of "transition _ _"] bindT_def [of "recordApprovalPins _ _ _ _"] returnT_def)
qed

text \<open>A person's approval goes through exactly when nothing of this holds it.\<close>

lemma human_approval_iff:
  assumes "resolve_ref db ref = Some t" and "distinct (map t_id (db_tickets db))" and "human_or_admin actor" and "ids_fresh en db"
  shows "(\<exists>res db'. approveReview en (core_gate co en db) ref actor aopts db = (Inr res, db')) \<longleftrightarrow>
    approveCiHold (core_gate co en db) db t = None \<and> unavailableWriteRepos (core_gate co en db) db t = [] \<and>
    \<not> approveRoutesToTesting en (core_gate co en db) db t \<and> t_status t = InReview \<and> \<not> approves_own db t actor \<and>
    (\<exists>pins. checkShownCommits (resolveReviewedHeads (core_gate co en db) db t) actor aopts [] = Inr pins) \<and>
    pr_allowed (evaluate en db t GateDone (Some (deliveryDiffProof en db t)))"
    (is "?run \<longleftrightarrow> ?conds")
proof -
  let ?ga = "core_gate co en db"
  have agent: "a_type actor \<noteq> AgentActor" using assms(3) by (auto simp: human_or_admin_def)
  then have no: "\<not> agentApproveAllowed ?ga db ref actor" "\<not> unregistered ?ga db actor"
    by (simp_all add: agentApproveAllowed_def unregistered_def)
  have "approve_admit ?ga ref actor db = Inr ((False, unavailableWriteRepos ?ga db t), db)"
    using assms(1,3) no(1) by (simp add: approve_admit_def bindT_resolveRef returnT_def)
  then have run: "approveReview en ?ga ref actor aopts db = run_tx (approve_decide en ?ga ref actor aopts (unavailableWriteRepos ?ga db t)) db"
    by (simp add: approveReview_def thenP_def run_tx_def returnT_def)
  have decide: "?run \<longleftrightarrow> (\<exists>res db'. approve_decide en ?ga ref actor aopts (unavailableWriteRepos ?ga db t) db = Inr (res, db'))"
    unfolding run by (auto simp: run_tx_Inr)
  have found: "ticket_findById db (t_id t) = Some t"
    using resolve_ref_mem [OF assms(1)] assms(2) by (simp add: ticket_findById_def find_row_Some_iff)
  show ?thesis
  proof
    assume ?run
    then obtain res db' where ok: "approveReview en ?ga ref actor aopts db = (Inr res, db')" by blast
    note took = approval_took [OF ok assms(2,1)]
    from ok obtain pins where pins: "checkShownCommits (resolveReviewedHeads ?ga db t) actor aopts [] = Inr pins"
      and merge: "approve_to_merge en ?ga t actor [] pins db = Inr (res, db')"
      using decide approve_decideD [of en ?ga ref actor aopts _ db] took(3,4) assms(1,3) unfolding run run_tx_Inr
      by (fastforce split: if_split_asm)
    have "pr_allowed (evaluate en db t GateDone (Some (deliveryDiffProof en db t)))"
    proof -
      define move where "move = (sysmove (t_id t) actor ReadyForMerge ''review_approved'' [ReviewApprove])
              \<lparr>ti_expectedFromStatus := Some InReview, ti_approvedUnchanged := Some (computeApprovedUnchanged (ga_landing ?ga) db t),
               ti_deliveryDiff := Some (deliveryDiffProof en db t), ti_patch := approve_patch t actor\<rparr>"
      obtain y s where "transition en move db = Inr (y, s)"
        using merge unfolding approve_to_merge_def move_def by (auto simp: bindT_Inr_iff getT_def)
      moreover have "ti_ticketId move = t_id t" by (simp add: move_def sysmove_def Transition.move_def)
      ultimately obtain policy where "transition_check en move db t = Inr policy"
        using transition_eq [OF assms(2), of en move] found by (auto split: sum.split_asm)
      then show ?thesis unfolding move_def by (simp add: merge_move_check split: if_split_asm)
    qed
    with took assms(3) pins show ?conds by blast
  next
    assume c: ?conds
    then obtain pins where pins: "checkShownCommits (resolveReviewedHeads ?ga db t) actor aopts [] = Inr pins" by blast
    have "set pins \<subseteq> set (resolveReviewedHeads ?ga db t)"
      using pins by (auto simp: checkShownCommits_def Let_def split: if_split_asm)
    then have repos: "\<forall>h \<in> set pins. rh_repoId h \<in> r_id ` set (db_repositories db)" using heads_have_repos by fastforce
    from c have policy: "t_status t = InReview" "pr_allowed (evaluate en db t GateDone (Some (deliveryDiffProof en db t)))" by blast+
    from approve_to_merge_runs [OF assms(2) found assms(4) repos this] c pins no(2)
    show ?run unfolding decide approve_decide_eq [OF assms(1)] by simp
  qed
qed

text \<open>
  C22. The outcome shown is what the gate does. It is shown as approvable exactly when required CI
  does not hold it, every write repository's head can be read, and nothing holds the tests (for an
  agent) or the tester has nothing to do (for a person). A person's approval of the wired gate goes
  through exactly when the outcome is approvable, the ticket is in review, the person is not the
  deliverer, the commits shown are the current ones and the policy's done gate allows it; so none of
  the refusals of the outcome is missing and none is made up. Any approval that goes through, an
  agent's too when the outcome is asked for an agent, was shown as approvable and moves the ticket
  to the status shown; a refused approval of a person changes nothing. (Evidence ids are fresh.)
\<close>

theorem approve_outcome_true:
  assumes "resolve_ref db ref = Some t" and "distinct (map t_id (db_tickets db))"
    and "oo_reads opts" and "oo_agent opts \<longleftrightarrow> a_type actor = AgentActor" and "ids_fresh en db"
  shows "(ao_approvable (approveOutcome co en db t opts) \<longleftrightarrow>
      approveCiHold (core_gate co en db) db t = None \<and> unavailableWriteRepos (core_gate co en db) db t = [] \<and>
      (if a_type actor = AgentActor then holds_fact co db t = [] else \<not> approveRoutesToTesting en (core_gate co en db) db t)) \<and>
    (human_or_admin actor \<longrightarrow>
      ((\<exists>res db'. approveReview en (core_gate co en db) ref actor aopts db = (Inr res, db')) \<longleftrightarrow>
        ao_approvable (approveOutcome co en db t opts) \<and> t_status t = InReview \<and> \<not> approves_own db t actor \<and>
        (\<exists>pins. checkShownCommits (resolveReviewedHeads (core_gate co en db) db t) actor aopts [] = Inr pins) \<and>
        pr_allowed (evaluate en db t GateDone (Some (deliveryDiffProof en db t))))) \<and>
    (case approveReview en (core_gate co en db) ref actor aopts db of
      (Inr res, db') \<Rightarrow> ao_approvable (approveOutcome co en db t opts) \<and>
        ao_to_status (approveOutcome co en db t opts) = Some (t_status (tres_ticket res))
    | (Inl e, db') \<Rightarrow> a_type actor \<noteq> AgentActor \<longrightarrow> db' = db)"
proof (intro conjI)
  let ?ga = "core_gate co en db" and ?f = "approveOutcomeFacts co en db t opts"
  show shown: "ao_approvable (approveOutcome co en db t opts) \<longleftrightarrow> approveCiHold ?ga db t = None \<and> unavailableWriteRepos ?ga db t = [] \<and>
      (if a_type actor = AgentActor then holds_fact co db t = [] else \<not> approveRoutesToTesting en ?ga db t)"
    using facts_of_gate [OF assms(3), of co en db t] assms(4)
    unfolding approveOutcome_def decide_approvable would_hold_def by (cases "approveCiHold ?ga db t") auto
  show "human_or_admin actor \<longrightarrow> ((\<exists>res db'. approveReview en ?ga ref actor aopts db = (Inr res, db')) \<longleftrightarrow>
        ao_approvable (approveOutcome co en db t opts) \<and> t_status t = InReview \<and> \<not> approves_own db t actor \<and>
        (\<exists>pins. checkShownCommits (resolveReviewedHeads ?ga db t) actor aopts [] = Inr pins) \<and>
        pr_allowed (evaluate en db t GateDone (Some (deliveryDiffProof en db t))))"
    unfolding shown using human_approval_iff [OF assms(1,2) _ assms(5), of actor co aopts] by (auto simp: human_or_admin_def)
  show "case approveReview en ?ga ref actor aopts db of
      (Inr res, db') \<Rightarrow> ao_approvable (approveOutcome co en db t opts) \<and>
        ao_to_status (approveOutcome co en db t opts) = Some (t_status (tres_ticket res))
    | (Inl e, db') \<Rightarrow> a_type actor \<noteq> AgentActor \<longrightarrow> db' = db"
  proof (cases "approveReview en ?ga ref actor aopts db")
    case (Pair r db')
    show ?thesis
    proof (cases r)
      case (Inl e)
      then show ?thesis using Pair human_approve_atomic by auto
    next
      case (Inr res)
      have run: "approveReview en ?ga ref actor aopts db = (Inr res, db')" using Pair Inr by simp
      note took = approval_took [OF run assms(2,1)]
      have "human_or_admin actor \<longleftrightarrow> \<not> oo_agent opts" using took(1) assms(4) by (auto simp: human_or_admin_def agentApproveAllowed_def)
      then have free: "\<not> would_hold ?f"
        using took risk_clear_holds [of co en db t] facts_of_gate [OF assms(3), of co en db t] assms(4)
        by (auto simp: would_hold_def human_or_admin_def)
      then show ?thesis using Pair Inr took(5) facts_of_gate(3) [OF assms(3), of co en db t]
        unfolding approveOutcome_def decide_free [OF free] by (simp add: decide_admitted_fields)
    qed
  qed
qed

lemma wired_fields:
  "resolve_ref wired_db ''t1'' = Some wired_ticket" "distinct (map t_id (db_tickets wired_db))" "a_type sample_ann \<noteq> AgentActor"
  by (simp_all add: resolve_ref_def ticket_findById_def find_row_def wired_db_def wired_ticket_def sample_ticket_def sample_ann_def)

definition shown_options :: outcome_options where
  "shown_options = \<lparr>oo_mergeCommand = False, oo_reads = True, oo_agent = False, oo_pause = None\<rparr>"

lemma wired_ids: "ids_fresh sample_git wired_db"
  using js_Number_show_nat by (auto simp: ids_fresh_def sample_git_def sample_env_def wired_db_def review_db_def empty_db_def inj_def) (metis option.inject)

theorem approve_outcome_true_witness:
  "ao_approvable (approveOutcome sample_core sample_git wired_db wired_ticket shown_options) \<and>
   ao_to_status (approveOutcome sample_core sample_git wired_db wired_ticket shown_options) = Some ReadyForMerge"
proof -
  have "oo_reads shown_options" "oo_agent shown_options \<longleftrightarrow> a_type sample_ann = AgentActor"
    by (simp_all add: shown_options_def sample_ann_def)
  from approve_outcome_true [OF wired_fields(1,2) this wired_ids, of sample_core sample_options]
  show ?thesis using wired_approval by (auto split: prod.splits sum.splits)
qed

section \<open>An announcement the label does not keep\<close>

text \<open>
  For an agent's approval without an earned merge grant, with automatic merging on, the outcome
  announces the next tick and the label then says that the ticket waits: the merge lane lands only
  what a person approved.
\<close>

definition agent_facts :: approve_facts where
  "agent_facts = (approveOutcomeFacts sample_core sample_git wired_db wired_ticket (shown_options\<lparr>oo_agent := True\<rparr>))
     \<lparr>af_testModifiedHolds := [], af_autoMerge := True, af_mergeLane := True, af_mergeGateEarned := False\<rparr>"

definition agent_label :: landing_facts where
  "agent_label = (no_facts ReadyForMerge None)\<lparr>lf_autoMerge := True, lf_mergeLane := True, lf_approver := ''agent''\<rparr>"

lemma agent_outcome_differs:
  "ao_kind (decideApproveOutcome agent_facts) = LandNextTick \<and> map_option lst_kind (decideLandingState agent_label) = Some KWaitingForMerge"
  by code_simp

section \<open>The outcome of a send-back\<close>

lemma moved_attempt:
  "t_attempt_count (moved en inp t x) = (case Option.bind (ti_patch inp) pt_attempt_count of None \<Rightarrow> t_attempt_count x | Some n \<Rightarrow> n)"
  by (simp add: moved_def apply_status_def no_patch_def Let_def split: option.split)

lemma reject_apply_moves:
  assumes "reject_apply en le t to actor why pins db = Inr (res, db')" and "reject_plan (le_maxAttempts le) db t to = (landed, requeue, n, capped)"
  obtains inp s where "transition en inp db = Inr (res, s)" and "ti_ticketId inp = t_id t"
    and "ti_toStatus inp = (if capped \<or> landed \<noteq> [] then Blocked else reject_status to)"
    and "Option.bind (ti_patch inp) pt_attempt_count = (if requeue then Some n else None)"
proof -
  let ?patch = "reject_patch t actor (if requeue then Some n else None)"
  have "Option.bind ?patch pt_attempt_count = (if requeue then Some n else None)"
    by (auto simp: reject_patch_def no_patch_def)
  with assms that show thesis
    unfolding reject_apply_def Let_def by (auto simp: bindT_Inr_iff returnT_def)
qed

text \<open>
  C37. The outcome of a send-back is what the gate does. A send-back that goes through leaves the
  ticket in the status the outcome shows and, when nothing of the
  change has landed, with the attempt it shows. When part of the change has landed
  the ticket keeps its attempt, and the outcome shows one more.
\<close>

theorem reject_outcome_true:
  assumes "rejectReview en le ref to actor why db = Inr (res, db')" and "to \<noteq> RejectCancelled"
    and "resolve_ref db ref = Some t" and "distinct (map t_id (db_tickets db))"
  shows "let shown = rejectOutcome (rejectOutcomeFacts db t (le_maxAttempts le) (to = RejectReady) n) in
    t_status (tres_ticket res) = rj_to_status shown \<and>
    rj_attempt shown = t_attempt_count t + 1 \<and>
    t_attempt_count (tres_ticket res) = (if recordedLandingRepos db (t_id t) = [] then rj_attempt shown else t_attempt_count t)"
proof -
  have found: "ticket_findById db (t_id t) = Some t"
    using resolve_ref_mem [OF assms(3)] assms(4) by (simp add: ticket_findById_def find_row_Some_iff)
  from assms(1-3) obtain pins where run: "reject_apply en le t to actor why pins db = Inr (res, db')"
    by (auto simp: rejectReview_def tx_defs resolveRef_def split: if_split_asm)
  obtain landed requeue k capped where plan: "reject_plan (le_maxAttempts le) db t to = (landed, requeue, k, capped)" by (metis prod_cases4)
  obtain inp s where inp: "transition en inp db = Inr (res, s)" "ti_ticketId inp = t_id t"
    "ti_toStatus inp = (if capped \<or> landed \<noteq> [] then Blocked else reject_status to)"
    "Option.bind (ti_patch inp) pt_attempt_count = (if requeue then Some k else None)"
    by (rule reject_apply_moves [OF run plan])
  from inp(1) have "tres_ticket res = moved en inp t t"
    by (auto simp: transition_eq [OF assms(4)] inp(2) found split: sum.splits)
  then have "t_status (tres_ticket res) = ti_toStatus inp"
    "t_attempt_count (tres_ticket res) = (if requeue then k else t_attempt_count t)" by (simp_all add: moved_attempt inp(4))
  moreover have "reject_status to = (if to = RejectReady then Ready else Refining)" using assms(2) by (cases to) simp_all
  ultimately show ?thesis
    using plan assms(2) unfolding inp(3)
    by (auto simp: rejectOutcome_def rejectOutcomeFacts_def reject_plan_def capRetry_def Let_def split: if_split_asm)
qed

text \<open>The change of \<open>t1\<close> has landed: sent back to refining it is held, at the attempt it had.\<close>

lemma sample_send_back:
  "case rejectReview sample_env sample_le ''t1'' RejectRefining sample_runner None (approved_db ReadyForMerge landed_rows) of
     Inr (res, db') \<Rightarrow> True | Inl _ \<Rightarrow> False"
  by code_simp

theorem reject_outcome_true_witness:
  "\<exists>res db'. rejectReview sample_env sample_le ''t1'' RejectRefining sample_runner None (approved_db ReadyForMerge landed_rows) = Inr (res, db') \<and>
     t_status (tres_ticket res) = Blocked \<and> t_attempt_count (tres_ticket res) = 0 \<and>
     rj_attempt (rejectOutcome (rejectOutcomeFacts (approved_db ReadyForMerge landed_rows) (sample_ticket ''t1'' 1 ReadyForMerge) 3 False 2)) = 1"
proof -
  obtain res db' where run: "rejectReview sample_env sample_le ''t1'' RejectRefining sample_runner None (approved_db ReadyForMerge landed_rows) = Inr (res, db')"
    using sample_send_back by (auto split: sum.splits)
  have "rj_to_status (rejectOutcome (rejectOutcomeFacts (approved_db ReadyForMerge landed_rows) (sample_ticket ''t1'' 1 ReadyForMerge) 3 False 2)) = Blocked"
    by code_simp
  moreover have "t_attempt_count (sample_ticket ''t1'' 1 ReadyForMerge) = 0" "le_maxAttempts sample_le = 3"
    by (simp_all add: sample_ticket_def sample_le_def)
  ultimately show ?thesis
    using reject_outcome_true [OF run _ sample_resolve [OF refl] sample_fields(8), of 2] run sample_plan(4)
    by (simp add: Let_def sample_fields)
qed

end
