(* ===== verification/Membership.thy ===== *)
theory Membership
  imports System Ticket_Props Tester_Props
begin

text \<open>
  Membership of epics: a ticket confirmed into an epic makes the epic's open acceptance ticket wait
  for it, and taking it out again withdraws exactly that dependency.
\<close>

section \<open>What the acceptance ticket of an epic depends on\<close>

lemma concat_map_filter: "(\<And>x. x \<in> set xs \<Longrightarrow> \<not> P x \<Longrightarrow> f x = []) \<Longrightarrow> concat (map f xs) = concat (map f (filter P xs))"
  by (induction xs) auto

text \<open>Links of a ticket that is no acceptance ticket do not matter, nor do events that create no epic.\<close>

lemma member_acceptance_other:
  assumes "db_tickets s' = db_tickets s" and "\<forall>x \<in> set (db_tickets s). t_id x = i \<longrightarrow> \<not> t_acceptance x"
    and "filter (\<lambda>l. ts_ticket_id l \<noteq> i) (db_ticket_scopes s') = filter (\<lambda>l. ts_ticket_id l \<noteq> i) (db_ticket_scopes s)"
  shows "member_acceptance s' nid = member_acceptance s nid"
proof -
  let ?f = "\<lambda>l. if ts_scope_node_id l = nid \<and> ts_relation l \<in> set EPIC_MEMBER_RELATIONS
    then filter (\<lambda>t. t_id t = ts_ticket_id l \<and> t_acceptance t) (db_tickets s) else []"
  have "concat (map ?f rows) = concat (map ?f (filter (\<lambda>l. ts_ticket_id l \<noteq> i) rows))" for rows
    using assms(2) by (intro concat_map_filter) (auto simp: filter_empty_conv)
  from this [of "db_ticket_scopes s'"] this [of "db_ticket_scopes s"]
  have "concat (map ?f (db_ticket_scopes s')) = concat (map ?f (db_ticket_scopes s))" unfolding assms(3) by (rule trans [OF _ sym])
  then show ?thesis unfolding member_acceptance_def assms(1) by (rule arg_cong)
qed

lemma own_acceptance_kept:
  assumes "db_tickets s' = db_tickets s" and "db_events s' = db_events s @ es" and "\<forall>e \<in> set es. \<not> epic_created e"
    and "member_acceptance s' nid = member_acceptance s nid"
  shows "ownAcceptanceTicketId s' nid = ownAcceptanceTicketId s nid"
proof -
  have last: "last_row (\<lambda>e. epic_created e \<and> Q e) (db_events s') = last_row (\<lambda>e. epic_created e \<and> Q e) (db_events s)" for Q
    unfolding assms(2) using assms(3) by (intro last_row_none) blast
  have "acceptance_numbered s' = acceptance_numbered s" "declaredOwner s' = declaredOwner s"
    "declaredAcceptanceNumber s' = declaredAcceptanceNumber s"
    unfolding fun_eq_iff acceptance_numbered_def declaredOwner_def declaredAcceptanceNumber_def last assms(1) by simp_all
  note eqs = this
  show ?thesis unfolding ownAcceptanceTicketId_def eqs assms(4) by (rule refl)
qed

lemma own_acceptance_ticket:
  assumes "ownAcceptanceTicketId db nid = Some i"
  shows "\<exists>f \<in> set (db_tickets db). t_id f = i \<and> t_acceptance f"
proof -
  have "t \<in> set (db_tickets db) \<and> t_acceptance t" if "acceptance_numbered db n = Some t" for n t
    using that by (auto simp: acceptance_numbered_def find_Some_iff)
  moreover have "t \<in> set (db_tickets db) \<and> t_acceptance t" if "find P (member_acceptance db nid) = Some t" for P t
    using find_SomeD [OF that] by (auto simp: member_acceptance_def split: if_split_asm)
  ultimately show ?thesis using assms
    by (auto simp: ownAcceptanceTicketId_def bind_eq_Some_conv split: option.split_asm)
qed

text \<open>The acceptance ticket an open epic makes wait, under a step that keeps what it reads.\<close>

lemma open_final_kept:
  assumes "db_tickets s' = db_tickets s" and "db_scope_nodes s' = db_scope_nodes s"
    and "ownAcceptanceTicketId s' nid = ownAcceptanceTicketId s nid"
  shows "open_final s' tid nid = open_final s tid nid"
proof -
  have "ticket_findById s' = ticket_findById s" by (simp add: fun_eq_iff ticket_findById_def assms(1))
  then show ?thesis unfolding open_final_def node_findById_def assms(2,3) by (rule ssubst) (rule refl)
qed

lemma open_finalD:
  assumes "open_final s tid nid = Some f"
  shows "ownAcceptanceTicketId s nid = Some (t_id f)" and "t_id f \<noteq> tid" and "ticket_findById s (t_id f) = Some f"
  using assms by (auto simp: open_final_def ticket_findById_def dest: find_row_SomeD split: option.split_asm if_split_asm)

lemma dep_exists_rel: "dep_exists s a b \<longleftrightarrow> (a, b) \<in> deps_rel s"
  by (auto simp: dep_exists_def deps_rel_def list_ex_iff)

section \<open>The link\<close>

lemma filter_upd_off:
  assumes "\<And>x. P x \<Longrightarrow> \<not> Q x" and "\<And>x. P x \<Longrightarrow> \<not> Q (f x)"
  shows "filter Q (upd_rows P f xs) = filter Q xs"
  using assms by (induction xs) (auto simp: upd_rows_def)

lemma upsert_tables:
  assumes "ticketScope_upsert l s = Inr (u, s')"
  shows "db_tickets s' = db_tickets s" "db_scope_nodes s' = db_scope_nodes s" "db_dependencies s' = db_dependencies s"
    "db_events s' = db_events s"
  using upsert_shape [OF assms] by auto

lemma upsert_rows:
  assumes "ticketScope_upsert l s = Inr (u, s')"
  shows "filter (\<lambda>x. ts_ticket_id x \<noteq> ts_ticket_id l) (db_ticket_scopes s') = filter (\<lambda>x. ts_ticket_id x \<noteq> ts_ticket_id l) (db_ticket_scopes s) \<and>
    (\<exists>x \<in> set (db_ticket_scopes s'). ts_ticket_id x = ts_ticket_id l \<and> ts_scope_node_id x = ts_scope_node_id l \<and> ts_relation x = ts_relation l) \<and>
    (ticketScope_find s (ts_ticket_id l) (ts_scope_node_id l) = None \<longrightarrow> db_ticket_scopes s' = db_ticket_scopes s @ [l])"
proof (cases "ticketScope_find s (ts_ticket_id l) (ts_scope_node_id l)")
  case None
  then have "s' = s\<lparr>db_ticket_scopes := db_ticket_scopes s @ [l]\<rparr>" using assms by (auto simp: ticketScope_upsert_def split: if_split_asm)
  then show ?thesis by simp
next
  case (Some y)
  let ?here = "\<lambda>x. ts_ticket_id x = ts_ticket_id l \<and> ts_scope_node_id x = ts_scope_node_id l"
  let ?set = "\<lambda>x. x\<lparr>ts_relation := ts_relation l, ts_confidence := ts_confidence l, ts_reasons := ts_reasons l, ts_updated_at := ts_updated_at l\<rparr>"
  have s': "s' = s\<lparr>db_ticket_scopes := upd_rows ?here ?set (db_ticket_scopes s)\<rparr>"
    using assms Some by (auto simp: ticketScope_upsert_def split: if_split_asm)
  have "y \<in> set (db_ticket_scopes s)" "?here y" using find_SomeD [OF Some [unfolded ticketScope_find_def]] by simp_all
  then have "?set y \<in> set (upd_rows ?here ?set (db_ticket_scopes s))" by (auto simp: set_upd_rows)
  moreover have "?here (?set y)" "ts_relation (?set y) = ts_relation l" using \<open>?here y\<close> by simp_all
  moreover have "filter (\<lambda>x. ts_ticket_id x \<noteq> ts_ticket_id l) (upd_rows ?here ?set (db_ticket_scopes s)) =
      filter (\<lambda>x. ts_ticket_id x \<noteq> ts_ticket_id l) (db_ticket_scopes s)"
    by (rule filter_upd_off) auto
  ultimately show ?thesis using Some unfolding s' by (auto intro!: bexI [of _ "?set y"])
qed


lemma bindT_node:
  "bindT (getScopeNodeRow i) f db = Inr y \<longleftrightarrow> (\<exists>n. node_findById db i = Some n \<and> sn_id n = i \<and> f n db = Inr y)"
  by (auto simp: bindT_def getScopeNodeRow_def node_findById_def dest: find_row_SomeD split: option.splits)


lemma bindT_event: "bindT (writeEvent en et ei ac ty pl) f s = f (en_uuid en EventId (length (db_events s))) (add_event en et ei ac ty pl s)"
  by (simp add: bindT_def writeEvent_def add_event_def Let_def)

lemma returnT_eq: "returnT x s = Inr (x, s)"
  by (simp add: returnT_def)


lemma scope_link_secondary:
  assumes "scope_linkTicketScope en inp a db = Inr (x, s1)" and "lk_relation inp = ScSecondary"
  shows "\<exists>t l s2 pl. resolve_ref db (lk_ticket_id inp) = Some t \<and> x = Some l \<and> ts_ticket_id l = t_id t \<and>
    ts_scope_node_id l = lk_scope_node_id inp \<and> ts_relation l = ScSecondary \<and> ticketScope_upsert l db = Inr ((), s2) \<and>
    s1 = add_event en ''ticket'' (t_id t) a ''ticket.scope_linked'' pl s2"
  using assms unfolding scope_linkTicketScope_def
  by (auto simp: bindT_resolved bindT_node bindT_Inr_iff [of "ticketScope_upsert _"] bindT_event Let_def returnT_def
      split: if_split_asm)



section \<open>The dependency\<close>

lemma bindT_catch: "bindT (catchT m h) f s = (case m s of Inl e \<Rightarrow> bindT (h e) f s | Inr (x, s') \<Rightarrow> f x s')"
  by (auto simp: bindT_def catchT_def split: sum.splits prod.splits)

lemma wire_outcomes:
  assumes "wireEpicAcceptance en tid nid rel a s = Inr (u, s2)"
  shows "wire_target s tid nid rel = None \<and> s2 = s \<or>
    (\<exists>f. wire_target s tid nid rel = Some f \<and> addDependency en (t_id f) tid a s = Inl (DispatchError INVALID_DEPENDENCY) \<and> s2 = s) \<or>
    (\<exists>f r s'. wire_target s tid nid rel = Some f \<and> addDependency en (t_id f) tid a s = Inr (r, s') \<and>
      s2 = add_event en ''ticket'' (t_id f) a ''epic.member_dependency_wired''
        (Some (JObj [(''epic_node_id'', JStr nid), (''member_ticket_id'', JStr tid)])) s')"
proof (cases "wire_target s tid nid rel")
  case None
  then show ?thesis using assms by (simp add: wireEpicAcceptance_def returnT_def)
next
  case (Some f)
  show ?thesis
  proof (cases "addDependency en (t_id f) tid a s")
    case (Inl e)
    then show ?thesis using assms Some
      by (auto simp: wireEpicAcceptance_def bindT_catch bindT_def [of "addDependency _ _ _ _"] whenT_def
          returnT_eq split: if_split_asm)
  next
    case (Inr r)
    then show ?thesis using assms Some
      by (cases r) (auto simp: wireEpicAcceptance_def bindT_catch bindT_def [of "addDependency _ _ _ _"]
          whenT_def returnT_eq bindT_event)
  qed
qed

lemma wire_targetD:
  assumes "wire_target s tid nid rel = Some f"
  shows "rel \<in> set EPIC_MEMBER_RELATIONS" and "open_final s tid nid = Some f" and "(t_id f, tid) \<notin> deps_rel s"
    and "\<exists>t. ticket_findById s tid = Some t \<and> \<not> t_acceptance t \<and> t_status t \<noteq> Cancelled"
  using assms by (auto simp: wire_target_def dep_exists_rel split: option.split_asm if_split_asm)

text \<open>A dependency that was added: its edge and its event.\<close>

lemma added_dependency:
  assumes "addDependency en fid tid a s = Inr (r, s')" and "ticket_findById s fid = Some f" and "ticket_findById s tid = Some t"
    and "(fid, tid) \<notin> deps_rel s"
  shows "(tid, fid) \<notin> (deps_rel s)\<^sup>* \<and> (\<exists>pl. s' = add_event en ''ticket'' fid a ''ticket.dependency_added'' pl
    (s\<lparr>db_dependencies := db_dependencies s @ [\<lparr>dep_ticket_id = fid, dep_depends_on = tid, dep_created_at = en_now en\<rparr>]\<rparr>))"
proof -
  have ids: "t_id f = fid" "t_id t = tid" using assms(2,3) by (auto simp: ticket_findById_def dest: find_row_SomeD)
  have "fid \<noteq> []" "tid \<noteq> []" using assms(1) by (auto simp: addDependency_def)
  moreover have "resolve_ref s fid = Some f" "resolve_ref s tid = Some t" using assms(2,3) by (simp_all add: resolve_ref_def)
  moreover have "\<not> dep_exists s (t_id f) (t_id t)" using assms(4) by (simp add: ids dep_exists_rel)
  ultimately show ?thesis
    using assms(1) addDependency_eq [of s fid f tid t en a]
    by (auto simp: ids bindT_event returnT_def split: if_split_asm)
qed


lemma bindT_defined: "bindT (defined_link v) f s = Inr y \<longleftrightarrow> (\<exists>l. v = Some l \<and> f l s = Inr y)"
  by (cases v) (simp_all add: defined_link_def)

lemma linkTicketScopeD:
  assumes "linkTicketScope en inp a db = Inr (l, db')"
  shows "\<exists>s1 s2. scope_linkTicketScope en inp a db = Inr (Some l, s1) \<and>
    wireEpicAcceptance en (ts_ticket_id l) (ts_scope_node_id l) (ts_relation l) a s1 = Inr ((), s2) \<and>
    unwireEpicAcceptance en (ts_ticket_id l) (ts_scope_node_id l) a s2 = Inr ((), db')"
  using assms unfolding linkTicketScope_def
  by (auto simp: bindT_Inr_iff [of "scope_linkTicketScope _ _ _"] bindT_defined bindT_Inr_iff [of "wireEpicAcceptance _ _ _ _ _"]
      bindT_Inr_iff [of "unwireEpicAcceptance _ _ _ _"] returnT_eq)

section \<open>The acceptance ticket waits\<close>



text \<open>An epic with its acceptance ticket \<open>t9\<close>, and the ticket \<open>t1\<close> that is to join it.\<close>

definition epic_node :: scope_node where
  "epic_node = \<lparr>sn_id = ''e1'', sn_name = ''Epic'', sn_type = NodeEpic, sn_description = None, sn_risk_level = Low, sn_owner = None,
     sn_tags = None, sn_lore_tags = None, sn_created_at = 0, sn_updated_at = 0\<rparr>"

definition epic_db :: db where
  "epic_db = empty_db\<lparr>db_tickets := [sample_ticket ''t1'' 1 Ready, (sample_ticket ''t9'' 2 Ready)\<lparr>t_acceptance := True\<rparr>],
     db_scope_nodes := [epic_node],
     db_ticket_scopes := [\<lparr>ts_ticket_id = ''t9'', ts_scope_node_id = ''e1'', ts_relation = ScSecondary, ts_confidence = None,
       ts_reasons = None, ts_created_at = 0, ts_updated_at = 0\<rparr>]\<rparr>"

definition join_epic :: link_scope_input where
  "join_epic = \<lparr>lk_ticket_id = ''#1'', lk_scope_node_id = ''e1'', lk_relation = ScSecondary, lk_confidence = None, lk_reasons = None\<rparr>"

lemma well_formed_epic: "well_formed epic_db"
proof -
  have "healthy epic_db"
    by (auto simp: healthy_def keys_ok_def one_active_def epic_db_def empty_db_def view_def view_of_def sound_def ticket_findById_def
        find_row_def hasActiveForTicket_def paused_find_def sample_ticket_def)
  then show ?thesis
    by (simp add: well_formed_def tidy_def map_ok_def contains_edges_def epic_db_def empty_db_def deps_rel_def sample_ticket_def
        epic_node_def acyclic_def)
qed

lemma sample_join: "case linkTicketScope sample_env join_epic sample_human epic_db of Inr _ \<Rightarrow> True | Inl _ \<Rightarrow> False"
  by code_simp

lemma epic_db_facts:
  "resolve_ref epic_db ''#1'' = Some (sample_ticket ''t1'' 1 Ready)"
  "map_option t_id (open_final epic_db ''t1'' ''e1'') = Some ''t9''" "deps_rel epic_db = {}"
  by code_simp+


section \<open>Leaving the epic\<close>

lemma removed_scope:
  assumes "resolve_ref s ref = Some t" and "ticketScope_find s (t_id t) nid = Some x"
  shows "\<exists>ev. scope_removeTicketScope en ref nid a s = Inr ((t_id t, nid, ev),
    add_event en ''ticket'' (t_id t) a ''ticket.scope_unlinked'' (Some (JObj [(''scope_node_id'', JStr nid)]))
      (s\<lparr>db_ticket_scopes := filter (\<lambda>l. \<not> (ts_ticket_id l = t_id t \<and> ts_scope_node_id l = nid)) (db_ticket_scopes s)\<rparr>))"
  using assms by (simp add: scope_removeTicketScope_def bindT_resolveRef ticketScope_delete_def bindT_event returnT_eq)

lemma bindT_dep_delete: "bindT (dep_delete a b) f s = f (dep_exists s a b)
    (s\<lparr>db_dependencies := filter (\<lambda>d. \<not> (dep_ticket_id d = a \<and> dep_depends_on d = b)) (db_dependencies s)\<rparr>)"
  by (simp add: bindT_def dep_delete_def)

lemma removed_dependency:
  assumes "ticket_findById s fid = Some f" and "ticket_findById s tid = Some t" and "dep_exists s fid tid"
  shows "\<exists>r. removeDependency en fid tid a s = Inr (r, add_event en ''ticket'' fid a ''ticket.dependency_removed''
      (Some (JObj [(''depends_on_ticket_id'', JStr tid)]))
      (s\<lparr>db_dependencies := filter (\<lambda>d. \<not> (dep_ticket_id d = fid \<and> dep_depends_on d = tid)) (db_dependencies s)\<rparr>))"
proof -
  have ids: "t_id f = fid" "t_id t = tid" using assms(1,2) by (auto simp: ticket_findById_def dest: find_row_SomeD)
  have "resolve_ref s fid = Some f" "resolve_ref s tid = Some t" using assms(1,2) by (simp_all add: resolve_ref_def)
  then show ?thesis using assms(3)
    by (simp add: removeDependency_def bindT_resolveRef ids bindT_dep_delete bindT_event returnT_eq)
qed

lemma resolve_of_tickets: "db_tickets s = db_tickets s' \<Longrightarrow> resolve_ref s r = resolve_ref s' r"
  by (simp add: resolve_ref_def ticket_findById_def ticket_findByNumber_def split: option.split)

text \<open>The dependency a membership wired is found again as long as nobody removed one since.\<close>

lemma wired_marks:
  assumes "db_events s = db_events db @ [e1, e2, e3, e4]" and "we_entity_type e3 = ''ticket''" and "we_entity_id e3 = fid"
    and "we_event_type e3 = ''epic.member_dependency_wired''" and "json_text ''member_ticket_id'' (we_payload e3) = Some tid"
    and "\<forall>e \<in> {e1, e2, e4}. we_event_type e \<notin> {''ticket.dependency_removed'', ''epic.member_dependency_wired''}"
  shows "last_marked s fid ''epic.member_dependency_wired'' ''member_ticket_id'' tid = length (db_events db) + 3 \<and>
    last_marked s fid ''ticket.dependency_removed'' ''depends_on_ticket_id'' tid \<le> length (db_events db)"
proof -
  let ?rows = "db_events db @ [e1, e2, e3]"
  have rows: "db_events s = ?rows @ [e4]" by (simp add: assms(1))
  have rows3: "?rows = (db_events db @ [e1, e2]) @ [e3]" by simp
  have wired: "last_row P (db_events s) = Some (length (db_events db) + 2, e3)" if "P e3" "\<not> P e4" for P
    unfolding rows rows3 last_row_snoc using that by simp
  have removed: "last_row P (db_events s) = last_row P (db_events db)" if "\<not> P e1" "\<not> P e2" "\<not> P e3" "\<not> P e4" for P
    unfolding assms(1) by (rule last_row_none) (use that in auto)
  show ?thesis
    unfolding last_marked_def using assms(2-6)
    by (subst wired, simp, simp, subst removed) (auto dest: last_row_bound split: option.split)
qed

text \<open>Taking a fresh link out again, at any later state that differs only in dependencies and events.\<close>

lemma leave_scope:
  assumes "resolve_ref db ref = Some t" and "ticketScope_find db (t_id t) nid = None"
    and "db_tickets s = db_tickets db" and "db_scope_nodes s = db_scope_nodes db"
    and "db_ticket_scopes s = db_ticket_scopes db @ [l]" and "ts_ticket_id l = t_id t" and "ts_scope_node_id l = nid"
    and "db_events s = db_events db @ es" and "\<forall>e \<in> set es. we_entity_type e = ''ticket''"
  shows "\<exists>s' ev e. scope_removeTicketScope en ref nid a s = Inr ((t_id t, nid, ev), s') \<and> db_tickets s' = db_tickets db \<and>
    db_ticket_scopes s' = db_ticket_scopes db \<and> db_dependencies s' = db_dependencies s \<and> db_events s' = db_events s @ [e] \<and>
    we_event_type e = ''ticket.scope_unlinked'' \<and> open_final s' (t_id t) nid = open_final db (t_id t) nid \<and> \<not> still_member s' (t_id t) nid"
proof -
  have none: "\<forall>x \<in> set (db_ticket_scopes db). \<not> (ts_ticket_id x = t_id t \<and> ts_scope_node_id x = nid)"
    using assms(2) by (auto simp: ticketScope_find_def find_None_iff)
  have ref: "resolve_ref s ref = Some t" using assms(1) resolve_of_tickets [OF assms(3)] by simp
  have "ticketScope_find s (t_id t) nid = Some l"
    unfolding ticketScope_find_def assms(5) by (subst find_append_None) (use none assms(6,7) in auto)
  from removed_scope [OF ref this, of en a] obtain ev pl where run: "scope_removeTicketScope en ref nid a s = Inr ((t_id t, nid, ev),
    add_event en ''ticket'' (t_id t) a ''ticket.scope_unlinked'' pl
      (s\<lparr>db_ticket_scopes := filter (\<lambda>l. \<not> (ts_ticket_id l = t_id t \<and> ts_scope_node_id l = nid)) (db_ticket_scopes s)\<rparr>))" by blast
  let ?s = "add_event en ''ticket'' (t_id t) a ''ticket.scope_unlinked'' pl
      (s\<lparr>db_ticket_scopes := filter (\<lambda>l. \<not> (ts_ticket_id l = t_id t \<and> ts_scope_node_id l = nid)) (db_ticket_scopes s)\<rparr>)"
  have "filter (\<lambda>l. \<not> (ts_ticket_id l = t_id t \<and> ts_scope_node_id l = nid)) (db_ticket_scopes s) = db_ticket_scopes db"
    using none by (simp add: assms(5-7) filter_id_conv)
  then have scopes: "db_ticket_scopes ?s = db_ticket_scopes db" by simp
  obtain e where e: "db_events ?s = db_events s @ [e]" "we_event_type e = ''ticket.scope_unlinked''" "we_entity_type e = ''ticket''"
    by (simp add: add_event_def)
  have tickets: "db_tickets ?s = db_tickets db" by (simp add: assms(3))
  have "member_acceptance ?s nid = member_acceptance db nid" unfolding member_acceptance_def scopes tickets by (rule refl)
  moreover have "\<forall>x \<in> set (es @ [e]). \<not> epic_created x" using assms(9) e(3) by (auto simp: epic_created_def)
  moreover have "db_events ?s = db_events db @ (es @ [e])" by (simp only: e(1) assms(8) append_assoc)
  ultimately have "ownAcceptanceTicketId ?s nid = ownAcceptanceTicketId db nid" by (intro own_acceptance_kept [OF tickets])
  then have "open_final ?s (t_id t) nid = open_final db (t_id t) nid"
    by (intro open_final_kept) (simp_all add: assms(3,4))
  moreover have "\<not> still_member ?s (t_id t) nid" using none by (auto simp: still_member_def scopes list_ex_iff)
  ultimately show ?thesis using run e scopes assms(3) by (intro exI conjI; (assumption | simp))
qed

lemma linked_fresh:
  assumes "scope_linkTicketScope en inp a db = Inr (Some l, s1)" and "lk_relation inp = ScSecondary"
    and "resolve_ref db (lk_ticket_id inp) = Some t" and "ticketScope_find db (t_id t) (lk_scope_node_id inp) = None"
  shows "ts_ticket_id l = t_id t \<and> ts_scope_node_id l = lk_scope_node_id inp \<and> ts_relation l = ScSecondary \<and>
    db_tickets s1 = db_tickets db \<and> db_scope_nodes s1 = db_scope_nodes db \<and> db_dependencies s1 = db_dependencies db \<and>
    db_ticket_scopes s1 = db_ticket_scopes db @ [l] \<and>
    (\<exists>e. db_events s1 = db_events db @ [e] \<and> we_entity_type e = ''ticket'' \<and> we_event_type e = ''ticket.scope_linked'')"
proof -
  from scope_link_secondary [OF assms(1,2)] assms(3) obtain s2 pl where l: "ts_ticket_id l = t_id t"
      "ts_scope_node_id l = lk_scope_node_id inp" "ts_relation l = ScSecondary" and up: "ticketScope_upsert l db = Inr ((), s2)"
    and s1: "s1 = add_event en ''ticket'' (t_id t) a ''ticket.scope_linked'' pl s2" by auto
  have "db_ticket_scopes s2 = db_ticket_scopes db @ [l]" using upsert_rows [OF up] l assms(4) by simp
  then show ?thesis using l by (simp add: s1 upsert_tables [OF up] add_event_def)
qed

lemma removeTicketScope_eq:
  assumes "scope_removeTicketScope en ref nid a s = Inr ((tid, nid, ev), s')"
  shows "removeTicketScope en ref nid a s = map_sum id (\<lambda>(u, s''). ((tid, nid, ev), s'')) (unwireEpicAcceptance en tid nid a s')"
  using assms by (cases "unwireEpicAcceptance en tid nid a s'")
    (auto simp: removeTicketScope_def bindT_def [of "scope_removeTicketScope _ _ _ _"] bindT_def [of "unwireEpicAcceptance _ _ _ _"] returnT_eq)

text \<open>The way out of an epic whose acceptance ticket the link made wait.\<close>

lemma leave_wired:
  assumes "resolve_ref db ref = Some t" and "ticketScope_find db (t_id t) nid = None"
    and same: "db_tickets s = db_tickets db" "db_scope_nodes s = db_scope_nodes db"
      "db_ticket_scopes s = db_ticket_scopes db @ [l]" "ts_ticket_id l = t_id t" "ts_scope_node_id l = nid"
    and deps: "db_dependencies s = db_dependencies db @ [\<lparr>dep_ticket_id = t_id f, dep_depends_on = t_id t, dep_created_at = now\<rparr>]"
    and new: "(t_id f, t_id t) \<notin> deps_rel db"
    and events: "db_events s = db_events db @ [e, ea, ew]" "we_entity_type e = ''ticket''" "we_event_type e = ''ticket.scope_linked''"
      "we_entity_type ea = ''ticket''" "we_event_type ea = ''ticket.dependency_added''" "we_entity_type ew = ''ticket''"
      "we_entity_id ew = t_id f" "we_event_type ew = ''epic.member_dependency_wired''"
      "json_text ''member_ticket_id'' (we_payload ew) = Some (t_id t)"
    and fin: "open_final db (t_id t) nid = Some f" and found: "ticket_findById db (t_id t) = Some t"
  shows "\<exists>r db2. removeTicketScope en ref nid a s = Inr (r, db2) \<and> db_ticket_scopes db2 = db_ticket_scopes db \<and>
    db_dependencies db2 = db_dependencies db \<and> db_tickets db2 = db_tickets db"
proof -
  obtain s' ev e4 where out: "scope_removeTicketScope en ref nid a s = Inr ((t_id t, nid, ev), s')"
      "db_tickets s' = db_tickets db" "db_ticket_scopes s' = db_ticket_scopes db" "db_dependencies s' = db_dependencies s"
      "db_events s' = db_events s @ [e4]" "we_event_type e4 = ''ticket.scope_unlinked''"
      "open_final s' (t_id t) nid = Some f" "\<not> still_member s' (t_id t) nid"
    using leave_scope [OF assms(1,2) same events(1), of en a] events(2,4,6) fin by auto
  have dep: "dep_exists s' (t_id f) (t_id t)" by (simp add: dep_exists_def out(4) deps)
  have marks: "last_marked s' (t_id f) ''epic.member_dependency_wired'' ''member_ticket_id'' (t_id t) = length (db_events db) + 3 \<and>
      last_marked s' (t_id f) ''ticket.dependency_removed'' ''depends_on_ticket_id'' (t_id t) \<le> length (db_events db)"
    using events out(5,6) by (intro wired_marks [of _ _ e ea ew e4]) simp_all
  have "unwire_target s' (t_id t) nid = Some f" using out(7,8) dep marks by (simp add: unwire_target_def Let_def)
  moreover have "ticket_findById s' (t_id f) = Some f" "ticket_findById s' (t_id t) = Some t"
    using open_finalD(3) [OF fin] found by (simp_all add: ticket_findById_def out(2))
  ultimately obtain s4 where un: "unwireEpicAcceptance en (t_id t) nid a s' = Inr ((), s4)" "db_tickets s4 = db_tickets db"
      "db_ticket_scopes s4 = db_ticket_scopes db"
      "db_dependencies s4 = filter (\<lambda>d. \<not> (dep_ticket_id d = t_id f \<and> dep_depends_on d = t_id t)) (db_dependencies s)"
    using removed_dependency [of s' "t_id f" f "t_id t" t en a, OF _ _ dep] out
    by (auto simp: unwireEpicAcceptance_def bindT_def [of "removeDependency _ _ _ _"] returnT_eq)
  have "db_dependencies s4 = db_dependencies db" using new unfolding deps_rel_def un(4) deps by (force simp: filter_id_conv)
  then show ?thesis using removeTicketScope_eq [OF out(1)] un by simp
qed

text \<open>
  C39. Joining an epic and leaving it again. A confirmed secondary link of a ticket the node did not have,
  followed by the removal of the link under any spelling of the ticket, leaves the links and the
  dependencies as they were before, whether the link made an acceptance ticket wait or not,
  provided the epic's own acceptance ticket did not depend on the ticket already.
\<close>

theorem membership_round_trip:
  assumes "linkTicketScope en inp a db = Inr (l, db1)" and "well_formed db" and "lk_relation inp = ScSecondary"
    and "resolve_ref db (lk_ticket_id inp) = Some t" and "ticketScope_find db (t_id t) (lk_scope_node_id inp) = None"
    and "\<forall>fid. ownAcceptanceTicketId db (lk_scope_node_id inp) = Some fid \<longrightarrow> (fid, t_id t) \<notin> deps_rel db"
    and "resolve_ref db ref = Some t"
  shows "\<exists>r db2. removeTicketScope en' ref (lk_scope_node_id inp) a' db1 = Inr (r, db2) \<and>
    db_ticket_scopes db2 = db_ticket_scopes db \<and> db_dependencies db2 = db_dependencies db \<and> db_tickets db2 = db_tickets db"
proof -
  let ?nid = "lk_scope_node_id inp"
  from linkTicketScopeD [OF assms(1)] obtain s1 s2 where link: "scope_linkTicketScope en inp a db = Inr (Some l, s1)"
    and wire: "wireEpicAcceptance en (ts_ticket_id l) (ts_scope_node_id l) (ts_relation l) a s1 = Inr ((), s2)"
    and unwire: "unwireEpicAcceptance en (ts_ticket_id l) (ts_scope_node_id l) a s2 = Inr ((), db1)" by blast
  note linked = linked_fresh [OF link assms(3,4,5)]
  then have l: "ts_ticket_id l = t_id t" "ts_scope_node_id l = ?nid" "ts_relation l = ScSecondary"
    and same: "db_tickets s1 = db_tickets db" "db_scope_nodes s1 = db_scope_nodes db" "db_dependencies s1 = db_dependencies db"
    and rows: "db_ticket_scopes s1 = db_ticket_scopes db @ [l]" by blast+
  obtain e where e: "db_events s1 = db_events db @ [e]" "we_entity_type e = ''ticket''" "we_event_type e = ''ticket.scope_linked''"
    using linked by blast
  have deps: "deps_rel s1 = deps_rel db" by (simp add: deps_rel_def same)
  have member: "still_member s (t_id t) ?nid" if "db_ticket_scopes s = db_ticket_scopes s1" for s
    by (simp add: still_member_def that rows l EPIC_MEMBER_RELATIONS_def)
  have keep: "db1 = s2" if "db_ticket_scopes s2 = db_ticket_scopes s1"
    using unwire member [OF that] by (simp add: unwireEpicAcceptance_def l unwire_target_def returnT_eq split: option.split_asm)
  show ?thesis
  proof (cases "s2 = s1")
    case True
    obtain s' ev where out: "scope_removeTicketScope en' ref ?nid a' s1 = Inr ((t_id t, ?nid, ev), s')"
        "db_tickets s' = db_tickets db" "db_ticket_scopes s' = db_ticket_scopes db" "db_dependencies s' = db_dependencies s1"
        "open_final s' (t_id t) ?nid = open_final db (t_id t) ?nid"
      using leave_scope [OF assms(7,5) same(1,2) rows l(1,2) e(1), of en' a'] e(2) by auto
    have "\<not> dep_exists s' (t_id f) (t_id t)" if "open_final db (t_id t) ?nid = Some f" for f
      using assms(6) open_finalD(1) [OF that] out(4) deps by (simp add: dep_exists_rel deps_rel_def same)
    then have "unwire_target s' (t_id t) ?nid = None" by (simp add: unwire_target_def out(5) split: option.split)
    then have "removeTicketScope en' ref ?nid a' db1 = Inr ((t_id t, ?nid, ev), s')"
      using keep True removeTicketScope_eq [OF out(1)] by (simp add: unwireEpicAcceptance_def returnT_eq)
    then show ?thesis using out same by auto
  next
    case False
    from wire_outcomes [OF wire [unfolded l]] False obtain f r s3 where target: "wire_target s1 (t_id t) ?nid ScSecondary = Some f"
      and add: "addDependency en (t_id f) (t_id t) a s1 = Inr (r, s3)"
      and s2: "s2 = add_event en ''ticket'' (t_id f) a ''epic.member_dependency_wired''
        (Some (JObj [(''epic_node_id'', JStr ?nid), (''member_ticket_id'', JStr (t_id t))])) s3" by auto
    have keys: "distinct (map t_id (db_tickets db))" using healthy_keys [OF well_formedD(1) [OF assms(2)]] by (simp add: keys_ok_def)
    have found: "ticket_findById db (t_id t) = Some t" by (rule resolved_found [OF assms(4) keys])
    then have t: "ticket_findById s1 (t_id t) = Some t" by (simp add: ticket_findById_def same)
    then have plain: "\<not> t_acceptance t" using wire_targetD(4) [OF target] by simp
    have f: "ticket_findById s1 (t_id f) = Some f" and new: "(t_id f, t_id t) \<notin> deps_rel s1"
      using open_finalD(3) [OF wire_targetD(2) [OF target]] wire_targetD(3) [OF target] by blast+
    have "x = t" if "x \<in> set (db_tickets db)" "t_id x = t_id t" for x
      using that resolve_ref_mem [OF assms(4)] keys by (auto simp: distinct_map dest: inj_onD)
    then have "member_acceptance s1 ?nid = member_acceptance db ?nid"
      using plain by (intro member_acceptance_other [OF same(1), where i = "t_id t"]) (blast, simp add: rows l)
    then have "ownAcceptanceTicketId s1 ?nid = ownAcceptanceTicketId db ?nid"
      by (intro own_acceptance_kept [of _ _ "[e]"]) (simp_all add: same e epic_created_def)
    from open_final_kept [OF same(1,2) this] have fin: "open_final db (t_id t) ?nid = Some f" using wire_targetD(2) [OF target] by simp
    from added_dependency [OF add f t new] obtain pl where s3: "s3 = add_event en ''ticket'' (t_id f) a ''ticket.dependency_added'' pl
      (s1\<lparr>db_dependencies := db_dependencies s1 @ [\<lparr>dep_ticket_id = t_id f, dep_depends_on = t_id t, dep_created_at = en_now en\<rparr>]\<rparr>)" by blast
    have tables2: "db_tickets s2 = db_tickets db" "db_scope_nodes s2 = db_scope_nodes db" "db_ticket_scopes s2 = db_ticket_scopes db @ [l]"
      "db_dependencies s2 = db_dependencies db @ [\<lparr>dep_ticket_id = t_id f, dep_depends_on = t_id t, dep_created_at = en_now en\<rparr>]"
      by (simp_all add: s2 s3 same rows)
    obtain ea ew where events2: "db_events s2 = db_events db @ [e, ea, ew]" "we_entity_type ea = ''ticket''"
        "we_event_type ea = ''ticket.dependency_added''" "we_entity_type ew = ''ticket''" "we_entity_id ew = t_id f"
        "we_event_type ew = ''epic.member_dependency_wired''" "json_text ''member_ticket_id'' (we_payload ew) = Some (t_id t)"
      by (simp add: s2 s3 add_event_def e json_text_def)
    have "(t_id f, t_id t) \<notin> deps_rel db" using new by (simp add: deps)
    from leave_wired [OF assms(7,5) tables2(1,2,3) l(1,2) tables2(4) this events2(1) e(2,3) events2(2-7) fin found, of en' a']
    show ?thesis using keep by (simp add: tables2 rows)
  qed
qed

theorem membership_round_trip_witness:
  "\<exists>l db1 r db2. linkTicketScope sample_env join_epic sample_human epic_db = Inr (l, db1) \<and>
     removeTicketScope sample_env ''T-1'' ''e1'' sample_human db1 = Inr (r, db2) \<and> db_dependencies db2 = [] \<and> length (db_ticket_scopes db2) = 1"
proof -
  obtain l db1 where run: "linkTicketScope sample_env join_epic sample_human epic_db = Inr (l, db1)"
    using sample_join by (auto split: sum.splits)
  have "resolve_ref epic_db ''T-1'' = Some (sample_ticket ''t1'' 1 Ready)" "ticketScope_find epic_db ''t1'' ''e1'' = None" by code_simp+
  moreover have "t_id (sample_ticket ''t1'' 1 Ready) = ''t1''" by (simp add: sample_ticket_def)
  ultimately show ?thesis
    using membership_round_trip [OF run well_formed_epic, of "sample_ticket ''t1'' 1 Ready" "''T-1''" sample_env sample_human] run
    by (simp add: epic_db_facts join_epic_def) (auto simp: epic_db_def empty_db_def)
qed

end
