(* ===== verification/Access.thy ===== *)
theory Access
  imports Store
begin

text \<open>
  Access scopes (\<open>services/accessScope.ts\<close>): the one evaluation every scoped credential goes
  through. A scope has two axes, tickets granted by name and repositories that grant every ticket
  inside them; an axis that is not set grants nothing on its own, and a scope with neither axis
  is unscoped. The module is pure: no database, no environment.
\<close>

section \<open>Scopes\<close>

record access_scope =
  scp_repos :: "id list option"
  scp_tickets :: "id list option"

record scope_ticket =
  sct_id :: id
  sct_number :: "nat option"
  sct_repos :: "id list"

definition isScoped :: "access_scope option \<Rightarrow> bool" where
  "isScoped scope = (case scope of None \<Rightarrow> False | Some s \<Rightarrow> scp_repos s \<noteq> None \<or> scp_tickets s \<noteq> None)"

datatype denial_reason = OutsideTicketScope | OutsideRepoScope | NoRepos | FactoryWide | AdminRequired

datatype granted_via = ViaUnscoped | ViaTicket | ViaRepo

datatype scope_decision = Granted granted_via | Denied denial_reason "id list"

text \<open>\<open>[...new Set(xs)]\<close>: the elements in the order of their first occurrence.\<close>

definition unique_of :: "'a list \<Rightarrow> 'a list" where
  "unique_of xs = rev (remdups (rev xs))"

definition evaluateRepoScope :: "access_scope option \<Rightarrow> id list \<Rightarrow> scope_decision" where
  "evaluateRepoScope scope repoIds = (
     if \<not> isScoped scope then Granted ViaUnscoped
     else let granted = (case Option.bind scope scp_repos of None \<Rightarrow> [] | Some rs \<Rightarrow> rs) in
       if repoIds = [] then Denied NoRepos []
       else let outside = unique_of (filter (\<lambda>r. r \<notin> set granted) repoIds) in
         if outside \<noteq> [] then Denied OutsideRepoScope outside else Granted ViaRepo)"

definition evaluateTicketScope :: "access_scope option \<Rightarrow> scope_ticket \<Rightarrow> scope_decision" where
  "evaluateTicketScope scope ticket = (
     if \<not> isScoped scope then Granted ViaUnscoped
     else if (case Option.bind scope scp_tickets of None \<Rightarrow> False | Some ts \<Rightarrow> sct_id ticket \<in> set ts) then Granted ViaTicket
     else if Option.bind scope scp_repos = None then Denied OutsideTicketScope []
     else case evaluateRepoScope scope (sct_repos ticket) of
       Granted _ \<Rightarrow> Granted ViaRepo
     | Denied reason outside \<Rightarrow> Denied reason outside)"

section \<open>Actions\<close>

record access =
  acc_readOnly :: bool
  acc_admin :: bool
  acc_scope :: "access_scope option"

definition OPERATOR_ACCESS :: access where
  "OPERATOR_ACCESS = \<lparr>acc_readOnly = False, acc_admin = True, acc_scope = None\<rparr>"

datatype access_action =
    ReadTicket scope_ticket | WriteTicket scope_ticket | CreateTicketOn "id list" | WriteRepo "id list option"
  | WriteFactory | ReadFactory

datatype access_decision = AccessAllowed | AccessReadOnly | AccessDenied denial_reason "id list"

fun isWriteAction :: "access_action \<Rightarrow> bool" where
  "isWriteAction (ReadTicket t) = False"
| "isWriteAction (WriteTicket t) = True"
| "isWriteAction (CreateTicketOn rs) = True"
| "isWriteAction (WriteRepo rs) = True"
| "isWriteAction WriteFactory = True"
| "isWriteAction ReadFactory = False"

fun from_scope :: "scope_decision \<Rightarrow> access_decision" where
  "from_scope (Granted v) = AccessAllowed"
| "from_scope (Denied reason outside) = AccessDenied reason outside"

definition authorizeAccess :: "access \<Rightarrow> access_action \<Rightarrow> access_decision" where
  "authorizeAccess acc action = (
     if acc_readOnly acc \<and> isWriteAction action then AccessReadOnly
     else let scoped = isScoped (acc_scope acc) in
       case action of
         ReadTicket t \<Rightarrow> from_scope (evaluateTicketScope (acc_scope acc) t)
       | WriteTicket t \<Rightarrow> from_scope (evaluateTicketScope (acc_scope acc) t)
       | CreateTicketOn repos \<Rightarrow> from_scope (evaluateRepoScope (acc_scope acc) repos)
       | WriteRepo repos \<Rightarrow>
           if \<not> acc_admin acc then AccessDenied AdminRequired []
           else if \<not> scoped then AccessAllowed
           else (case repos of None \<Rightarrow> AccessDenied FactoryWide []
             | Some rs \<Rightarrow> from_scope (evaluateRepoScope (acc_scope acc) rs))
       | WriteFactory \<Rightarrow> if scoped then AccessDenied FactoryWide [] else AccessAllowed
       | ReadFactory \<Rightarrow> if scoped then AccessDenied FactoryWide [] else AccessAllowed)"

section \<open>What a refusal says\<close>

record denial_labels =
  dl_scope :: string
  dl_ticket :: "string option"
  dl_outsideRepos :: "string list"

text \<open>The reason is absent for a write by a read-only credential.\<close>

definition describeDenial :: "denial_reason option \<Rightarrow> denial_labels \<Rightarrow> string" where
  "describeDenial reason labels = (
     let t = (case dl_ticket labels of None \<Rightarrow> ''this request'' | Some s \<Rightarrow> s) in
     case reason of
       None \<Rightarrow> ''This token is read-scoped; mutating routes are not permitted.''
     | Some AdminRequired \<Rightarrow> ''Repository-level changes (registering, linking or hiding a repo, its branch or commands, onboarding, a ticket'' @ [CHR 0x27] @ ''s repo access, settings) need an admin principal.''
     | Some FactoryWide \<Rightarrow> ''This credential is scoped to '' @ dl_scope labels @ ''; factory-wide reads and changes are outside it.''
     | Some NoRepos \<Rightarrow> ''This credential is scoped to '' @ dl_scope labels @ ''; '' @ t @ '' names no repository, so its repo scope cannot cover it.''
     | Some OutsideRepoScope \<Rightarrow> ''This credential is scoped to '' @ dl_scope labels @ ''; '' @ t @ '' also touches ''
         @ (let names = join_with '', '' (dl_outsideRepos labels) in if names = [] then ''another repository'' else names) @ ''.''
     | Some OutsideTicketScope \<Rightarrow> ''This credential is scoped to '' @ dl_scope labels @ ''; '' @ t @ '' is not one of them.'')"

section \<open>Dependencies outside the scope\<close>

text \<open>A dependency row as a scoped holder sees it: whole, or without the other ticket's title.\<close>

datatype seen_dependency = SeenDependency dependency_view | OutsideDependency id "nat option" ticket_status bool

definition hideOutOfScopeDependencies :: "dependency_view list \<Rightarrow> (id \<Rightarrow> bool) option \<Rightarrow> seen_dependency list" where
  "hideOutOfScopeDependencies deps visible = (case visible of
     None \<Rightarrow> map SeenDependency deps
   | Some see \<Rightarrow> map (\<lambda>d. if see (dv_depends_on d) then SeenDependency d
       else OutsideDependency (dv_depends_on d) (dv_number d) (dv_status d) (dv_satisfied d)) deps)"

section \<open>What the evaluation grants\<close>

lemma set_unique_of [simp]: "set (unique_of xs) = set xs"
  by (simp add: unique_of_def)

lemma unique_of_Nil_iff [simp]: "unique_of xs = [] \<longleftrightarrow> xs = []"
  by (simp add: unique_of_def)

lemma distinct_unique_of [simp]: "distinct (unique_of xs)"
  by (simp add: unique_of_def)

definition granted :: "scope_decision \<Rightarrow> bool" where
  "granted d = (case d of Granted _ \<Rightarrow> True | Denied _ _ \<Rightarrow> False)"

lemma granted_simps [simp]: "granted (Granted v)" "\<not> granted (Denied r xs)"
  by (simp_all add: granted_def)

lemma from_scope_Allowed [simp]: "from_scope d = AccessAllowed \<longleftrightarrow> granted d"
  by (cases d) simp_all

text \<open>The grants of a scope as sets: an axis that is not set grants nothing.\<close>

definition repo_grant :: "access_scope option \<Rightarrow> id set" where
  "repo_grant scope = (case Option.bind scope scp_repos of None \<Rightarrow> {} | Some rs \<Rightarrow> set rs)"

definition ticket_grant :: "access_scope option \<Rightarrow> id set" where
  "ticket_grant scope = (case Option.bind scope scp_tickets of None \<Rightarrow> {} | Some ts \<Rightarrow> set ts)"

lemma repo_scope_granted:
  "granted (evaluateRepoScope scope rs) \<longleftrightarrow> \<not> isScoped scope \<or> rs \<noteq> [] \<and> set rs \<subseteq> repo_grant scope"
  by (auto simp: evaluateRepoScope_def repo_grant_def Let_def filter_empty_conv split: option.splits)

lemma ticket_scope_granted:
  "granted (evaluateTicketScope scope t) \<longleftrightarrow> \<not> isScoped scope \<or> sct_id t \<in> ticket_grant scope \<or>
     sct_repos t \<noteq> [] \<and> set (sct_repos t) \<subseteq> repo_grant scope"
proof (cases "Option.bind scope scp_repos")
  case None
  then show ?thesis
    by (auto simp: evaluateTicketScope_def ticket_grant_def repo_grant_def split: option.splits)
next
  case (Some rs)
  then show ?thesis
    using repo_scope_granted [of scope "sct_repos t"]
    by (auto simp: evaluateTicketScope_def ticket_grant_def split: option.splits scope_decision.splits)
qed

text \<open>The closed form of the decision.\<close>

definition may :: "access \<Rightarrow> access_action \<Rightarrow> bool" where
  "may acc action \<longleftrightarrow> \<not> (acc_readOnly acc \<and> isWriteAction action) \<and> (case action of
     ReadTicket t \<Rightarrow> granted (evaluateTicketScope (acc_scope acc) t)
   | WriteTicket t \<Rightarrow> granted (evaluateTicketScope (acc_scope acc) t)
   | CreateTicketOn rs \<Rightarrow> granted (evaluateRepoScope (acc_scope acc) rs)
   | WriteRepo rs \<Rightarrow> acc_admin acc \<and> (\<not> isScoped (acc_scope acc) \<or> (\<exists>xs. rs = Some xs \<and> granted (evaluateRepoScope (acc_scope acc) xs)))
   | WriteFactory \<Rightarrow> \<not> isScoped (acc_scope acc)
   | ReadFactory \<Rightarrow> \<not> isScoped (acc_scope acc))"

lemma authorize_may: "authorizeAccess acc action = AccessAllowed \<longleftrightarrow> may acc action"
  by (cases action) (auto simp: authorizeAccess_def may_def Let_def repo_scope_granted split: option.splits)

section \<open>Narrower credentials\<close>

text \<open>
  One credential is within another when it is at least as read-only, no more an admin, and its
  scope is the other's or grants a subset of it. An unscoped credential is within no scoped one.
\<close>

definition within_scope :: "access_scope option \<Rightarrow> access_scope option \<Rightarrow> bool" where
  "within_scope a b \<longleftrightarrow> \<not> isScoped b \<or>
     isScoped a \<and> repo_grant a \<subseteq> repo_grant b \<and> ticket_grant a \<subseteq> ticket_grant b"

definition within_access :: "access \<Rightarrow> access \<Rightarrow> bool" where
  "within_access a b \<longleftrightarrow> (acc_readOnly b \<longrightarrow> acc_readOnly a) \<and> (acc_admin a \<longrightarrow> acc_admin b) \<and> within_scope (acc_scope a) (acc_scope b)"

lemma granted_within:
  assumes "within_scope a b"
  shows "granted (evaluateRepoScope a rs) \<Longrightarrow> granted (evaluateRepoScope b rs)"
    and "granted (evaluateTicketScope a t) \<Longrightarrow> granted (evaluateTicketScope b t)"
    and "\<not> isScoped a \<Longrightarrow> \<not> isScoped b"
  using assms by (auto simp: within_scope_def repo_scope_granted ticket_scope_granted)

lemma may_within: "within_access a b \<Longrightarrow> may a action \<Longrightarrow> may b action"
  using granted_within [of "acc_scope a" "acc_scope b"]
  by (auto simp: may_def within_access_def split: access_action.splits)

text \<open>
  The contract a list of checks rests on: every check of a request is made with the same
  credential, and a wider credential passes every check a narrower one passes.
\<close>

locale access_order =
  fixes inside :: "'c \<Rightarrow> 'c \<Rightarrow> bool" and allows :: "'c \<Rightarrow> 'act \<Rightarrow> bool"
  assumes wider_allows: "inside a b \<Longrightarrow> allows a x \<Longrightarrow> allows b x"
begin

lemma all_wider: "inside a b \<Longrightarrow> list_all (allows a) xs \<Longrightarrow> list_all (allows b) xs"
  by (auto simp: list_all_iff intro: wider_allows)

end

interpretation credentials: access_order within_access "\<lambda>acc action. authorizeAccess acc action = AccessAllowed"
  by unfold_locales (auto simp: authorize_may intro: may_within)

end
