(* ===== verification/Principals.thy ===== *)
theory Principals
  imports Access Contract Decisions
begin

text \<open>
  Per-principal credentials: their table (\<open>repositories/principalRepository.ts\<close>), what a stored
  principal may do (\<open>services/principalService.ts\<close>), and minting, revoking, resolving and checking
  them (\<open>services/principalAdminService.ts\<close>). A credential is stored as the SHA-256 of its token;
  its scope is a column of JSON text per axis, which the model holds as the parsed value, or as
  unreadable when the text does not parse. Random identifiers are an argument beside the
  environment.
\<close>

section \<open>The table\<close>

datatype principal_capability = FullCapability | ReadCapability

datatype principal_actor = HumanPrincipal | AdminPrincipal

text \<open>The content of a JSON text column that is not NULL.\<close>

datatype json_column = Unreadable | Readable json

record principal =
  pl_id :: id
  pl_name :: string
  pl_token_hash :: string
  pl_capability :: principal_capability
  pl_actor_type :: principal_actor
  pl_actor_id :: string
  pl_created_by :: "string option"
  pl_created_at :: instant
  pl_last_used_at :: "instant option"
  pl_revoked_at :: "instant option"
  pl_scope_repos :: "json_column option"
  pl_scope_tickets :: "json_column option"

record scope_view =
  sv_repos :: "(id \<times> string option) list option"
  sv_tickets :: "(id \<times> nat option) list option"

record principal_view =
  pv_id :: id
  pv_name :: string
  pv_capability :: principal_capability
  pv_actor_type :: principal_actor
  pv_actor_id :: string
  pv_created_by :: "string option"
  pv_created_at :: instant
  pv_last_used_at :: "instant option"
  pv_revoked_at :: "instant option"
  pv_scope :: "scope_view option"

record access_db =
  ad_db :: db
  ad_principals :: "principal list"

type_synonym 'a access_op = "(access_db, thrown, 'a) tx"

text \<open>An operation of the control plane on the same database.\<close>

definition on_db :: "'a op \<Rightarrow> 'a access_op" where
  "on_db m = (\<lambda>s. case m (ad_db s) of Inl e \<Rightarrow> Inl e | Inr (x, d) \<Rightarrow> Inr (x, s\<lparr>ad_db := d\<rparr>))"

text \<open>A corrupt scope grants nothing: an axis that does not parse to an array is the empty one.\<close>

definition idList :: "json_column option \<Rightarrow> id list option" where
  "idList col = (case col of
     None \<Rightarrow> None
   | Some (Readable (JArr vs)) \<Rightarrow> Some (concat (map (\<lambda>v. case v of JStr s \<Rightarrow> [s] | _ \<Rightarrow> []) vs))
   | Some _ \<Rightarrow> Some [])"

definition scope_column :: "id list option \<Rightarrow> json_column option" where
  "scope_column axis = map_option (\<lambda>ids. Readable (JArr (map JStr ids))) axis"

definition shown_principal :: "db \<Rightarrow> principal \<Rightarrow> principal_view" where
  "shown_principal db p = (
     let repos = idList (pl_scope_repos p); tickets = idList (pl_scope_tickets p) in
     \<lparr>pv_id = pl_id p, pv_name = pl_name p, pv_capability = pl_capability p, pv_actor_type = pl_actor_type p,
      pv_actor_id = pl_actor_id p, pv_created_by = pl_created_by p, pv_created_at = pl_created_at p,
      pv_last_used_at = pl_last_used_at p, pv_revoked_at = pl_revoked_at p,
      pv_scope = (if repos = None \<and> tickets = None then None
        else Some \<lparr>sv_repos = map_option (map (\<lambda>i. (i, map_option r_name (repo_findById db i)))) repos,
               sv_tickets = map_option (map (\<lambda>i. (i, Option.bind (ticket_findById db i) t_number))) tickets\<rparr>)\<rparr>)"

definition principal_get :: "access_db \<Rightarrow> id \<Rightarrow> principal_view option" where
  "principal_get s i = map_option (shown_principal (ad_db s)) (find_row pl_id i (ad_principals s))"

definition principal_getByName :: "access_db \<Rightarrow> string \<Rightarrow> principal_view option" where
  "principal_getByName s n = map_option (shown_principal (ad_db s)) (find_row pl_name n (ad_principals s))"

definition principal_list :: "access_db \<Rightarrow> principal_view list" where
  "principal_list s = map (shown_principal (ad_db s)) (sort_key (\<lambda>p. (- pl_created_at p, pl_name p)) (ad_principals s))"

definition active_principal :: "access_db \<Rightarrow> string \<Rightarrow> principal option" where
  "active_principal s h = find (\<lambda>p. pl_token_hash p = h \<and> pl_revoked_at p = None) (ad_principals s)"

definition findActiveByHash :: "access_db \<Rightarrow> string \<Rightarrow> principal_view option" where
  "findActiveByHash s h = map_option (shown_principal (ad_db s)) (active_principal s h)"

record principal_insert =
  pn_id :: id
  pn_name :: string
  pn_tokenHash :: string
  pn_capability :: principal_capability
  pn_actorType :: principal_actor
  pn_actorId :: string
  pn_createdBy :: "string option"
  pn_now :: instant
  pn_scopeRepos :: "id list option"
  pn_scopeTickets :: "id list option"

definition principal_row :: "principal_insert \<Rightarrow> principal" where
  "principal_row inp = \<lparr>pl_id = pn_id inp, pl_name = pn_name inp, pl_token_hash = pn_tokenHash inp,
     pl_capability = pn_capability inp, pl_actor_type = pn_actorType inp, pl_actor_id = pn_actorId inp,
     pl_created_by = pn_createdBy inp, pl_created_at = pn_now inp, pl_last_used_at = None, pl_revoked_at = None,
     pl_scope_repos = scope_column (pn_scopeRepos inp), pl_scope_tickets = scope_column (pn_scopeTickets inp)\<rparr>"

text \<open>The insert, with the keys of the table, and the row it reads back.\<close>

definition insert_principal :: "principal_insert \<Rightarrow> principal_view access_op" where
  "insert_principal inp = (\<lambda>s. let row = principal_row inp in
     if pl_id row \<in> pl_id ` set (ad_principals s) then Inl SqlitePrimaryKey
     else if pl_name row \<in> pl_name ` set (ad_principals s) \<or> pl_token_hash row \<in> pl_token_hash ` set (ad_principals s) then Inl SqliteUnique
     else Inr (shown_principal (ad_db s) row, s\<lparr>ad_principals := ad_principals s @ [row]\<rparr>))"

definition principal_revoke :: "id \<Rightarrow> instant \<Rightarrow> unit access_op" where
  "principal_revoke i now = modifyT (\<lambda>s. s\<lparr>ad_principals :=
     upd_rows (\<lambda>p. pl_id p = i \<and> pl_revoked_at p = None) (\<lambda>p. p\<lparr>pl_revoked_at := Some now\<rparr>) (ad_principals s)\<rparr>)"

definition principal_touch :: "id \<Rightarrow> instant \<Rightarrow> access_db \<Rightarrow> access_db" where
  "principal_touch i now s = s\<lparr>ad_principals := upd_rows (\<lambda>p. pl_id p = i) (\<lambda>p. p\<lparr>pl_last_used_at := Some now\<rparr>) (ad_principals s)\<rparr>"

section \<open>What a principal may do\<close>

definition PRINCIPAL_TOKEN_PREFIX :: string where
  "PRINCIPAL_TOKEN_PREFIX = ''gfp_''"

definition mintPrincipalToken :: "env \<Rightarrow> nat \<Rightarrow> string" where
  "mintPrincipalToken en n = PRINCIPAL_TOKEN_PREFIX @ en_token en n"

definition hashPrincipalToken :: "env \<Rightarrow> string \<Rightarrow> string" where
  "hashPrincipalToken en token = en_sha256 en token"

definition looksLikePrincipalToken :: "string \<Rightarrow> bool" where
  "looksLikePrincipalToken credential = (starts_with credential PRINCIPAL_TOKEN_PREFIX \<and> 20 \<le> length credential)"

fun principal_actor_type :: "principal_actor \<Rightarrow> actor_type" where
  "principal_actor_type HumanPrincipal = Human"
| "principal_actor_type AdminPrincipal = Admin"

definition principalActor :: "principal_view \<Rightarrow> actor" where
  "principalActor p = \<lparr>a_type = principal_actor_type (pv_actor_type p), a_id = Some (pv_actor_id p)\<rparr>"

definition principalScope :: "principal_view \<Rightarrow> access_scope option" where
  "principalScope p = map_option (\<lambda>v. \<lparr>scp_repos = map_option (map fst) (sv_repos v),
     scp_tickets = map_option (map fst) (sv_tickets v)\<rparr>) (pv_scope p)"

definition principalAccess :: "principal_view \<Rightarrow> access" where
  "principalAccess p = \<lparr>acc_readOnly = (pv_capability p = ReadCapability), acc_admin = (pv_actor_type p = AdminPrincipal),
     acc_scope = principalScope p\<rparr>"

text \<open>\<open>PRINCIPAL_NAME_RE\<close>.\<close>

definition principal_name_ok :: "string \<Rightarrow> bool" where
  "principal_name_ok s = ref_ok ''._@-'' 63 s"

section \<open>Minting and revoking\<close>

record new_principal =
  np_name :: string
  np_capability :: "principal_capability option"
  np_actorType :: "principal_actor option"
  np_actorId :: "string option"
  np_repos :: "string list"
  np_tickets :: "string list"

text \<open>Each reference resolved, in order; the first that does not resolve ends it.\<close>

fun resolve_all :: "('r \<Rightarrow> 'x option) \<Rightarrow> 'r list \<Rightarrow> 'x list option" where
  "resolve_all f [] = Some []"
| "resolve_all f (r # rs) = (case f r of None \<Rightarrow> None
     | Some x \<Rightarrow> map_option ((#) x) (resolve_all f rs))"

definition scope_axis :: "(string \<Rightarrow> id option) \<Rightarrow> string list \<Rightarrow> id list option access_op" where
  "scope_axis find_id refs = (if refs = [] then returnT None
     else case resolve_all find_id refs of
       None \<Rightarrow> throwT (DispatchError NOT_FOUND)
     | Some ids \<Rightarrow> returnT (Some (unique_of ids)))"

text \<open>The identity a principal speaks for: never a registered agent's.\<close>

definition principal_identity :: "new_principal \<Rightarrow> string" where
  "principal_identity inp = (let name = js_trim (np_name inp);
     a = js_trim (case np_actorId inp of None \<Rightarrow> name | Some x \<Rightarrow> x) in if a = [] then name else a)"

definition agent_identity :: "db \<Rightarrow> string \<Rightarrow> bool" where
  "agent_identity db a = list_ex (\<lambda>g. sql_lower (g_id g) = sql_lower a) (db_agents db)"

fun capability_name :: "principal_capability \<Rightarrow> string" where
  "capability_name FullCapability = ''full''"
| "capability_name ReadCapability = ''read''"

definition repo_label :: "db \<Rightarrow> id \<Rightarrow> json" where
  "repo_label db i = (case repo_findById db i of None \<Rightarrow> JNull | Some r \<Rightarrow> JStr (r_name r))"

definition ticket_label :: "db \<Rightarrow> id \<Rightarrow> json" where
  "ticket_label db i = (case Option.bind (ticket_findById db i) t_number of None \<Rightarrow> JNull | Some n \<Rightarrow> JNum (int n))"

definition created_payload :: "db \<Rightarrow> principal_insert \<Rightarrow> (string \<times> json) list" where
  "created_payload db row = [(''name'', JStr (pn_name row)), (''capability'', JStr (capability_name (pn_capability row))),
      (''actor_type'', JStr (actor_type_name (principal_actor_type (pn_actorType row)))), (''actor_id'', JStr (pn_actorId row))]
     @ (case pn_scopeRepos row of None \<Rightarrow> [] | Some ids \<Rightarrow> [(''scope_repos'', JArr (map (repo_label db) ids))])
     @ (case pn_scopeTickets row of None \<Rightarrow> [] | Some ids \<Rightarrow> [(''scope_tickets'', JArr (map (ticket_label db) ids))])"

text \<open>The row of a new principal, the \<open>n\<close>-th of its table.\<close>

definition minted_row ::
  "env \<Rightarrow> (nat \<Rightarrow> id) \<Rightarrow> new_principal \<Rightarrow> actor \<Rightarrow> nat \<Rightarrow> id list option \<Rightarrow> id list option \<Rightarrow> principal_insert" where
  "minted_row en ids inp actor n scopeRepos scopeTickets = \<lparr>pn_id = ids n, pn_name = js_trim (np_name inp),
     pn_tokenHash = hashPrincipalToken en (mintPrincipalToken en n),
     pn_capability = (case np_capability inp of None \<Rightarrow> FullCapability | Some c \<Rightarrow> c),
     pn_actorType = (case np_actorType inp of None \<Rightarrow> HumanPrincipal | Some a \<Rightarrow> a),
     pn_actorId = principal_identity inp, pn_createdBy = Some (actor_label actor), pn_now = en_now en,
     pn_scopeRepos = scopeRepos, pn_scopeTickets = scopeTickets\<rparr>"

definition createPrincipal ::
  "env \<Rightarrow> (nat \<Rightarrow> id) \<Rightarrow> new_principal \<Rightarrow> actor \<Rightarrow> (principal_view \<times> string) access_op" where
  "createPrincipal en ids inp actor = (
     let name = js_trim (np_name inp); actorId = principal_identity inp in
     bindT (throwIf (\<not> principal_name_ok name) (DispatchError VALIDATION_ERROR)) (\<lambda>_.
     bindT (getT (\<lambda>s. principal_getByName s name)) (\<lambda>taken.
     bindT (throwIf (taken \<noteq> None) (DispatchError DUPLICATE)) (\<lambda>_.
     bindT (getT (\<lambda>s. agent_identity (ad_db s) actorId)) (\<lambda>agent.
     bindT (throwIf agent (DispatchError DUPLICATE)) (\<lambda>_.
     bindT (getT ad_db) (\<lambda>db.
     bindT (scope_axis (\<lambda>ref. map_option r_id (repo_by_name_or_id db ref)) (np_repos inp)) (\<lambda>scopeRepos.
     bindT (scope_axis (\<lambda>ref. map_option t_id (resolve_ref db ref)) (np_tickets inp)) (\<lambda>scopeTickets.
     bindT (getT (\<lambda>s. length (ad_principals s))) (\<lambda>n.
     let row = minted_row en ids inp actor n scopeRepos scopeTickets in
     bindT (insert_principal row) (\<lambda>p.
     bindT (on_db (writeEvent en ''principal'' (pv_id p) actor ''principal.created'' (Some (JObj (created_payload db row))))) (\<lambda>_.
     returnT (p, mintPrincipalToken en n)))))))))))))"

definition principal_by_ref :: "access_db \<Rightarrow> string \<Rightarrow> principal_view option" where
  "principal_by_ref s ref = (case principal_get s ref of Some p \<Rightarrow> Some p | None \<Rightarrow> principal_getByName s ref)"

definition getPrincipal :: "string \<Rightarrow> principal_view access_op" where
  "getPrincipal ref = (\<lambda>s. case principal_by_ref s ref of
     None \<Rightarrow> Inl (DispatchError NOT_FOUND) | Some p \<Rightarrow> Inr (p, s))"

definition revokePrincipal :: "env \<Rightarrow> string \<Rightarrow> actor \<Rightarrow> principal_view access_op" where
  "revokePrincipal en ref actor =
     bindT (getPrincipal ref) (\<lambda>row.
     bindT (throwIf (pv_revoked_at row \<noteq> None) (DispatchError NO_OP)) (\<lambda>_.
     bindT (principal_revoke (pv_id row) (en_now en)) (\<lambda>_.
     bindT (on_db (writeEvent en ''principal'' (pv_id row) actor ''principal.revoked'' (Some (JObj [(''name'', JStr (pv_name row))])))) (\<lambda>_.
     (\<lambda>s. case principal_get s (pv_id row) of
        None \<Rightarrow> Inl (DispatchError NOT_FOUND) | Some after \<Rightarrow> Inr (after, s))))))"

section \<open>Tickets in scope\<close>

text \<open>The repositories a ticket is judged on: the confirmed write ones, else every linked one.\<close>

definition scope_writes :: "db \<Rightarrow> id \<Rightarrow> id list" where
  "scope_writes db tid = map (\<lambda>(tr, r). r_id r) (filter (\<lambda>(tr, r). tr_access tr = AccWrite \<and>
     tr_relation tr \<in> {RelConfirmed, RelImplicitSingleRepo}) (repo_listForTicket db tid))"

definition scope_linked :: "db \<Rightarrow> id \<Rightarrow> id list" where
  "scope_linked db tid = map (\<lambda>(tr, r). r_id r) (filter (\<lambda>(tr, r). tr_relation tr \<noteq> RelRejected) (repo_listForTicket db tid))"

definition scopeTicketFor :: "db \<Rightarrow> id \<Rightarrow> nat option \<Rightarrow> scope_ticket" where
  "scopeTicketFor db i n = \<lparr>sct_id = i, sct_number = n,
     sct_repos = (if scope_writes db i \<noteq> [] then scope_writes db i else scope_linked db i)\<rparr>"

definition scopeTicket :: "string \<Rightarrow> scope_ticket op" where
  "scopeTicket ref = bindT (resolveRef ref) (\<lambda>t. getT (\<lambda>db. scopeTicketFor db (t_id t) (t_number t)))"

definition ticketVisibility :: "db \<Rightarrow> principal_view \<Rightarrow> (id \<Rightarrow> bool) option" where
  "ticketVisibility db p = (if \<not> isScoped (acc_scope (principalAccess p)) then None
     else Some (\<lambda>i. case ticket_findById db i of None \<Rightarrow> False
       | Some t \<Rightarrow> granted (evaluateTicketScope (acc_scope (principalAccess p)) (scopeTicketFor db (t_id t) (t_number t)))))"

definition decisionTicketIds :: "id \<Rightarrow> id list op" where
  "decisionTicketIds i = bindT (getDecision i) (\<lambda>_. getT (\<lambda>db.
     unique_of (map td_ticket_id (filter (\<lambda>l. td_decision_id l = i) (db_ticket_decisions db)))))"

section \<open>The check\<close>

text \<open>What a refusal carries: its code, its sentence and the details.\<close>

record access_refusal =
  xr_code :: dispatch_error_code
  xr_message :: string
  xr_reason :: "denial_reason option"
  xr_ticket :: "string option"
  xr_outside :: "string list"

definition number_or_id :: "nat option \<Rightarrow> id \<Rightarrow> string" where
  "number_or_id n i = (case n of None \<Rightarrow> i | Some k \<Rightarrow> show_nat k)"

definition scope_label :: "scope_view option \<Rightarrow> string" where
  "scope_label scope = (
     let repos = (case Option.bind scope sv_repos of None \<Rightarrow> []
           | Some rs \<Rightarrow> [''repos '' @ join_with '', '' (map (\<lambda>(i, n). case n of None \<Rightarrow> i | Some x \<Rightarrow> x) rs)]);
         tickets = (case Option.bind scope sv_tickets of None \<Rightarrow> []
           | Some ts \<Rightarrow> [''tickets '' @ join_with '', '' (map (\<lambda>(i, n). ''#'' @ number_or_id n i) ts)]);
         label = join_with '' and '' (repos @ tickets) in
     if label = [] then ''no scope'' else label)"

fun action_ticket :: "access_action \<Rightarrow> scope_ticket option" where
  "action_ticket (ReadTicket t) = Some t"
| "action_ticket (WriteTicket t) = Some t"
| "action_ticket _ = None"

fun creates_ticket :: "access_action \<Rightarrow> bool" where
  "creates_ticket (CreateTicketOn rs) = True"
| "creates_ticket _ = False"

definition access_refused :: "db \<Rightarrow> principal_view \<Rightarrow> access_action \<Rightarrow> denial_reason \<Rightarrow> id list \<Rightarrow> access_refusal" where
  "access_refused db p action reason outsideRepos = (
     let ticket = action_ticket action;
         outside = map (\<lambda>i. case repo_findById db i of None \<Rightarrow> i | Some r \<Rightarrow> r_name r) outsideRepos in
     \<lparr>xr_code = SCOPE_DENIED,
      xr_message = describeDenial (Some reason) \<lparr>dl_scope = scope_label (pv_scope p),
        dl_ticket = (case ticket of Some t \<Rightarrow> Some (''ticket #'' @ number_or_id (sct_number t) (sct_id t))
          | None \<Rightarrow> if creates_ticket action then Some ''the new ticket'' else None),
        dl_outsideRepos = outside\<rparr>,
      xr_reason = Some reason, xr_ticket = map_option (\<lambda>t. number_or_id (sct_number t) (sct_id t)) ticket, xr_outside = outside\<rparr>)"

definition assertPrincipalAccess :: "db \<Rightarrow> principal_view \<Rightarrow> access_action \<Rightarrow> access_refusal + unit" where
  "assertPrincipalAccess db p action = (case authorizeAccess (principalAccess p) action of
     AccessAllowed \<Rightarrow> Inr ()
   | AccessReadOnly \<Rightarrow> Inl \<lparr>xr_code = READ_ONLY_TOKEN,
       xr_message = describeDenial None \<lparr>dl_scope = [], dl_ticket = None, dl_outsideRepos = []\<rparr>,
       xr_reason = None, xr_ticket = None, xr_outside = []\<rparr>
   | AccessDenied reason outside \<Rightarrow> Inl (access_refused db p action reason outside))"

section \<open>Authentication\<close>

text \<open>
  The active principal of a bearer credential. The use is stamped at most once a minute; a
  stamp that fails is ignored.
\<close>

definition resolvePrincipalToken :: "env \<Rightarrow> string \<Rightarrow> access_db \<Rightarrow> (principal_view \<times> actor) option \<times> access_db" where
  "resolvePrincipalToken en token s = (case findActiveByHash s (hashPrincipalToken en token) of
     None \<Rightarrow> (None, s)
   | Some row \<Rightarrow> (Some (row, principalActor row),
       if (case pv_last_used_at row of None \<Rightarrow> True | Some u \<Rightarrow> en_now en - u > 60000) then principal_touch (pv_id row) (en_now en) s else s))"

end
