(* ===== verification/Api_Gate.thy ===== *)
theory Api_Gate
  imports Principals Claim_Store Autonomy
begin

text \<open>
  The gate of the REST surface: the credential tiers of a request (\<open>api/auth.ts\<close>), the
  authorisation of a named principal's request (\<open>api/scopeGate.ts\<close>), and the order in which the
  server applies them before any route runs (\<open>route\<close> of \<open>api/server.ts\<close>). The HMAC of
  \<open>node:crypto\<close>, the parsed body and the answer of the Host check are arguments; the use of a
  principal's token is stamped as often as the code resolves it.
\<close>

section \<open>Credential tiers\<close>

record auth_env =
  au_env :: env
  au_process :: process_env
  au_hmac :: "string \<Rightarrow> string \<Rightarrow> string"
  au_resolver :: bool

record api_request =
  rq_authorization :: "string option"
  rq_hostAllowed :: bool
  rq_method :: string
  rq_segments :: "string list"
  rq_all :: bool
  rq_body :: "thrown + json"

definition apiToken :: "auth_env \<Rightarrow> string" where
  "apiToken au = js_trim (via_text (au_process au ''DISPATCH_API_TOKEN''))"

definition READ_SCOPE_LABEL :: string where
  "READ_SCOPE_LABEL = ''gaffer-api-read-scope.v1''"

definition deriveReadToken :: "auth_env \<Rightarrow> string \<Rightarrow> string" where
  "deriveReadToken au full = au_hmac au full READ_SCOPE_LABEL"

definition tokenMatches :: "auth_env \<Rightarrow> string \<Rightarrow> string \<Rightarrow> bool" where
  "tokenMatches au provided expected \<longleftrightarrow> en_sha256 (au_env au) provided = en_sha256 (au_env au) expected"

text \<open>The credential of \<open>/^Bearer\s+(.+)$/i\<close>, trimmed, or the empty string.\<close>

definition bearer :: "api_request \<Rightarrow> string" where
  "bearer rq = (
     let header = js_trim (via_text (rq_authorization rq)); rest = drop 6 header; cred = dropWhile js_ws rest in
     if lower (take 6 header) = ''bearer'' \<and> rest \<noteq> [] \<and> js_ws (hd rest) \<and> cred \<noteq> []
        \<and> CHR 0x0A \<notin> set cred \<and> CHR 0x0D \<notin> set cred then js_trim cred else [])"

type_synonym 'a resolved = "access_db \<Rightarrow> 'a \<times> access_db"

definition requestPrincipal :: "auth_env \<Rightarrow> api_request \<Rightarrow> (principal_view \<times> actor) option resolved" where
  "requestPrincipal au rq s = (
     let full = apiToken au; provided = bearer rq in
     if \<not> au_resolver au then (None, s)
     else if provided = [] \<or> \<not> looksLikePrincipalToken provided then (None, s)
     else if full \<noteq> [] \<and> (tokenMatches au provided full \<or> tokenMatches au provided (deriveReadToken au full)) then (None, s)
     else resolvePrincipalToken (au_env au) provided s)"

definition requestCapability :: "auth_env \<Rightarrow> api_request \<Rightarrow> principal_capability option resolved" where
  "requestCapability au rq s = (
     let full = apiToken au; provided = bearer rq in
     if full = [] then (Some FullCapability, s)
     else if provided = [] then (None, s)
     else if tokenMatches au provided full then (Some FullCapability, s)
     else if tokenMatches au provided (deriveReadToken au full) then (Some ReadCapability, s)
     else let (p, s') = requestPrincipal au rq s in (map_option (\<lambda>(v, a). pv_capability v) p, s'))"

definition isMutationAuthorized :: "auth_env \<Rightarrow> api_request \<Rightarrow> bool resolved" where
  "isMutationAuthorized au rq s = (if apiToken au = [] then (True, s)
     else let (c, s') = requestCapability au rq s in (c = Some FullCapability, s'))"

definition isAdminRequest :: "auth_env \<Rightarrow> api_request \<Rightarrow> bool resolved" where
  "isAdminRequest au rq s = (
     let full = apiToken au; provided = bearer rq in
     if full = [] then (True, s)
     else if provided = [] then (False, s)
     else if tokenMatches au provided full then (True, s)
     else let (p, s') = requestPrincipal au rq s in
       (case p of None \<Rightarrow> False | Some (v, a) \<Rightarrow> pv_capability v = FullCapability \<and> pv_actor_type v = AdminPrincipal, s'))"

definition hasValidBearer :: "auth_env \<Rightarrow> api_request \<Rightarrow> bool resolved" where
  "hasValidBearer au rq s = (if apiToken au = [] then (False, s)
     else let (c, s') = requestCapability au rq s in (c \<noteq> None, s'))"

definition isRequestAuthorized :: "auth_env \<Rightarrow> api_request \<Rightarrow> bool resolved" where
  "isRequestAuthorized au rq s = (if apiToken au = [] then (True, s) else hasValidBearer au rq s)"

section \<open>The requests of a principal\<close>

datatype gate_error = GateRefusal access_refusal | GateThrown thrown

type_synonym checked = "gate_error + unit"

definition check :: "db \<Rightarrow> principal_view \<Rightarrow> access_action \<Rightarrow> checked" where
  "check db p action = (case assertPrincipalAccess db p action of Inl r \<Rightarrow> Inl (GateRefusal r) | Inr u \<Rightarrow> Inr u)"

definition check_ticket :: "db \<Rightarrow> principal_view \<Rightarrow> (scope_ticket \<Rightarrow> access_action) \<Rightarrow> string \<Rightarrow> checked" where
  "check_ticket db p mk ref = (case scopeTicket ref db of Inl e \<Rightarrow> Inl (GateThrown e) | Inr (t, _) \<Rightarrow> check db p (mk t))"

definition both :: "checked \<Rightarrow> checked \<Rightarrow> checked" where
  "both a b = (case a of Inl e \<Rightarrow> Inl e | Inr _ \<Rightarrow> b)"

fun each_check :: "('a \<Rightarrow> checked) \<Rightarrow> 'a list \<Rightarrow> checked" where
  "each_check f [] = Inr ()"
| "each_check f (x # xs) = both (f x) (each_check f xs)"

text \<open>A use of the body: a body that was refused throws, and a property of \<open>null\<close> is an internal error.\<close>

definition with_body :: "api_request \<Rightarrow> (json \<Rightarrow> checked) \<Rightarrow> checked" where
  "with_body rq f = (case rq_body rq of Inl e \<Rightarrow> Inl (GateThrown e)
     | Inr JNull \<Rightarrow> Inl (GateThrown (DispatchError INTERNAL_ERROR))
     | Inr b \<Rightarrow> f b)"

definition body_field :: "string \<Rightarrow> json \<Rightarrow> json option" where
  "body_field k b = (case b of JObj fs \<Rightarrow> map_of fs k | _ \<Rightarrow> None)"

definition text_of :: "json option \<Rightarrow> string list" where
  "text_of v = (case v of Some (JStr s) \<Rightarrow> [s] | _ \<Rightarrow> [])"

definition items_of :: "json option \<Rightarrow> json list" where
  "items_of v = (case v of Some (JArr vs) \<Rightarrow> vs | _ \<Rightarrow> [])"

definition repoId_of :: "db \<Rightarrow> string \<Rightarrow> id" where
  "repoId_of db ref = (case repo_findById db ref of Some r \<Rightarrow> r_id r
     | None \<Rightarrow> (case repo_findByName db ref of Some r \<Rightarrow> r_id r | None \<Rightarrow> ref))"

definition segment :: "api_request \<Rightarrow> nat \<Rightarrow> string option" where
  "segment rq n = (if n < length (rq_segments rq) then Some (rq_segments rq ! n) else None)"

definition decision_check :: "db \<Rightarrow> principal_view \<Rightarrow> bool \<Rightarrow> id \<Rightarrow> checked" where
  "decision_check db p reading i = (case decisionTicketIds i db of
     Inl e \<Rightarrow> Inl (GateThrown e)
   | Inr (ids, _) \<Rightarrow>
       if ids = [] then check db p (if reading then ReadFactory else WriteFactory)
       else each_check (check_ticket db p (if reading then ReadTicket else WriteTicket)) ids)"

definition principal_scoped :: "principal_view \<Rightarrow> bool" where
  "principal_scoped p = isScoped (principalScope p)"

definition scope_link :: "db \<Rightarrow> principal_view \<Rightarrow> checked" where
  "scope_link db p = (if principal_scoped p then check db p WriteFactory else Inr ())"

definition OPEN_API_READS :: "string list" where
  "OPEN_API_READS = [''whoami'', ''squad'', ''club'', ''openapi.json'', ''board'', ''human-queue'']"

definition read_gate :: "db \<Rightarrow> principal_view \<Rightarrow> api_request \<Rightarrow> checked" where
  "read_gate db p rq = (
     let n = length (rq_segments rq); second = segment rq 1; third = segment rq 2; factory = check db p ReadFactory in
     if \<not> principal_scoped p then Inr ()
     else if segment rq 0 = Some ''tickets'' then
       (if second = Some ''details'' \<and> n = 2 then Inr ()
        else case second of None \<Rightarrow> Inr () | Some ref \<Rightarrow> check_ticket db p ReadTicket ref)
     else if segment rq 0 = Some ''scope'' then
       (if second = Some ''repos'' \<and> n = 2 \<and> rq_all rq then Inr () else factory)
     else if segment rq 0 = Some ''claims'' then (if second = None then Inr () else factory)
     else if segment rq 0 = Some ''decisions'' then
       (case second of None \<Rightarrow> Inr () | Some i \<Rightarrow> if n = 2 then decision_check db p True i else factory)
     else if segment rq 0 \<in> {Some ''repositories'', Some ''agents''} then (if n = 1 then Inr () else factory)
     else if segment rq 0 = Some ''api'' then
       (if n = 2 \<and> via_text second \<in> set OPEN_API_READS then Inr ()
        else if n = 3 \<and> second = Some ''events'' \<and> third = Some ''stream'' then Inr ()
        else factory)
     else factory)"

text \<open>The repositories a new ticket names in its body, read access included.\<close>

definition named_repos :: "json \<Rightarrow> string list" where
  "named_repos b = text_of (body_field ''repo'' b)
     @ concat (map (\<lambda>r. text_of (body_field ''repo_id'' r)) (items_of (body_field ''repoIds'' b)))"

definition create_gate :: "db \<Rightarrow> principal_view \<Rightarrow> json \<Rightarrow> checked" where
  "create_gate db p b = both (check db p (CreateTicketOn (map (repoId_of db) (named_repos b))))
     (if items_of (body_field ''scopeNodeIds'' b) \<noteq> [] then scope_link db p else Inr ())"

text \<open>The repositories a change of a ticket's repository links names.\<close>

definition linked_repos :: "json \<Rightarrow> string list" where
  "linked_repos b = text_of (body_field ''repo_id'' b)
     @ concat (map (\<lambda>r. case r of JStr s \<Rightarrow> [s] | _ \<Rightarrow> text_of (body_field ''repo_id'' r)) (items_of (body_field ''repos'' b)))"

definition ticket_write_gate :: "db \<Rightarrow> principal_view \<Rightarrow> api_request \<Rightarrow> string \<Rightarrow> checked" where
  "ticket_write_gate db p rq ref = both (check_ticket db p WriteTicket ref) (
     let third = segment rq 2 in
     if third \<in> {Some ''scopes'', Some ''primary-scope''} then scope_link db p
     else if third = Some ''dependencies'' then
       (case segment rq 3 of
          Some other \<Rightarrow> check_ticket db p ReadTicket other
        | None \<Rightarrow> with_body rq (\<lambda>b. case body_field ''depends_on'' b of
            Some (JStr s) \<Rightarrow> check_ticket db p ReadTicket s
          | Some (JNum n) \<Rightarrow> check_ticket db p ReadTicket (js_String (JNum n))
          | _ \<Rightarrow> Inr ()))
     else if third \<in> {Some ''repo-access'', Some ''work-repos'', Some ''mono-fallback''} then
       with_body rq (\<lambda>b. let named = linked_repos b in
         if named \<noteq> [] then check db p (WriteRepo (Some (map (repoId_of db) named)))
         else case scopeTicket ref db of Inl e \<Rightarrow> Inl (GateThrown e)
           | Inr (t, _) \<Rightarrow> check db p (WriteRepo (Some (sct_repos t))))
     else Inr ())"

definition write_gate :: "db \<Rightarrow> principal_view \<Rightarrow> api_request \<Rightarrow> checked" where
  "write_gate db p rq = (
     let head = segment rq 0; second = segment rq 1; factory = check db p WriteFactory in
     if head = Some ''tickets'' then
       (case second of None \<Rightarrow> with_body rq (create_gate db p) | Some ref \<Rightarrow> ticket_write_gate db p rq ref)
     else if head = Some ''claims'' then
       (case Option.bind second (claim_findById db) of
          Some c \<Rightarrow> check_ticket db p WriteTicket (c_ticket_id c) | None \<Rightarrow> factory)
     else if head = Some ''decisions'' then
       (case second of
          None \<Rightarrow> with_body rq (\<lambda>b. case body_field ''ticket_id'' b of
              Some (JStr s) \<Rightarrow> check_ticket db p WriteTicket s | _ \<Rightarrow> factory)
        | Some i \<Rightarrow> decision_check db p False i)
     else if head = Some ''repos'' then
       (case second of
          None \<Rightarrow> factory
        | Some r \<Rightarrow> if r = ''onboard'' then check db p (WriteRepo None) else check db p (WriteRepo (Some [repoId_of db r])))
     else if head = Some ''api'' then
       (if second \<in> {Some ''settings'', Some ''idle-loops'', Some ''autonomy''} then check db p (WriteRepo None)
        else if second = Some ''principals'' then Inr ()
        else factory)
     else factory)"

definition reads :: "api_request \<Rightarrow> bool" where
  "reads rq = (rq_method rq = ''GET'' \<or> rq_method rq = ''HEAD'')"

definition authorizePrincipalRequest :: "db \<Rightarrow> principal_view \<Rightarrow> api_request \<Rightarrow> checked" where
  "authorizePrincipalRequest db p rq = (if reads rq then read_gate db p rq else write_gate db p rq)"

section \<open>The order of the gates\<close>

datatype verdict =
    ForbiddenHost | Unauthorized | ReadOnlyToken | Refused gate_error
  | Dispatched actor "principal_view option"

definition API_ACTOR :: actor where
  "API_ACTOR = \<lparr>a_type = Human, a_id = Some ''dispatch-api''\<rparr>"

text \<open>
  A request that reaches the data gates: the Host check unless it carries a valid credential, then
  the credential, then the capability of a write, then the scope of a named principal. What is
  dispatched acts as the principal, or as the operator.
\<close>

definition gate_request :: "auth_env \<Rightarrow> api_request \<Rightarrow> verdict resolved" where
  "gate_request au rq s = (
     let (valid, s1) = hasValidBearer au rq s in
     if \<not> valid \<and> \<not> rq_hostAllowed rq then (ForbiddenHost, s1)
     else let (auth, s2) = isRequestAuthorized au rq s1 in
     if \<not> auth then (Unauthorized, s2)
     else let (mutation, s3) = (if reads rq then (True, s2) else isMutationAuthorized au rq s2) in
     if \<not> mutation then (ReadOnlyToken, s3)
     else let (principal, s4) = requestPrincipal au rq s3 in
     (case principal of
        None \<Rightarrow> (Dispatched API_ACTOR None, s4)
      | Some (p, actor) \<Rightarrow> (case authorizePrincipalRequest (ad_db s4) p rq of
          Inl e \<Rightarrow> (Refused e, s4)
        | Inr _ \<Rightarrow> (Dispatched actor (Some p), s4))))"

text \<open>The filters the list routes apply for a scoped principal.\<close>

definition requestTicketFilter :: "db \<Rightarrow> principal_view option \<Rightarrow> (id \<Rightarrow> bool) option" where
  "requestTicketFilter db p = Option.bind p (ticketVisibility db)"

definition via_list :: "'a list option \<Rightarrow> 'a list" where
  "via_list v = (case v of None \<Rightarrow> [] | Some xs \<Rightarrow> xs)"

definition requestRepoFilter :: "db \<Rightarrow> principal_view option \<Rightarrow> (id \<Rightarrow> bool) option" where
  "requestRepoFilter db p = (case Option.bind p principalScope of
     None \<Rightarrow> None
   | Some sc \<Rightarrow> if \<not> isScoped (Some sc) then None
       else let ids = via_list (scp_repos sc) @ concat (map (\<lambda>t. map (\<lambda>(tr, r). r_id r) (repo_listForTicket db t)) (via_list (scp_tickets sc))) in
         Some (\<lambda>i. i \<in> set ids))"

end
