(* ===== verification/Access_Props.thy ===== *)
theory Access_Props
  imports Api_Gate Heads
begin

text \<open>
  The properties of access: what the evaluation grants, that a wider credential passes every
  request a narrower one passes, what a scoped principal's admitted request may touch, that a
  scope covers what a delivery writes to, and the life of a principal's token from minting to
  revocation.
\<close>

section \<open>What is granted\<close>

text \<open>The evaluation of a ticket for a principal.\<close>

definition in_scope :: "db \<Rightarrow> principal_view \<Rightarrow> ticket \<Rightarrow> bool" where
  "in_scope db p t \<longleftrightarrow> granted (evaluateTicketScope (principalScope p) (scopeTicketFor db (t_id t) (t_number t)))"

lemma access_fields [simp]:
  "acc_scope (principalAccess p) = principalScope p" "acc_readOnly (principalAccess p) \<longleftrightarrow> pv_capability p = ReadCapability"
  "acc_admin (principalAccess p) \<longleftrightarrow> pv_actor_type p = AdminPrincipal"
  by (simp_all add: principalAccess_def)

lemma check_Inr [simp]: "check db p action = Inr () \<longleftrightarrow> may (principalAccess p) action"
  using authorize_may [of "principalAccess p" action]
  by (auto simp: check_def assertPrincipalAccess_def split: access_decision.splits sum.splits)

lemma scopeTicket_eq:
  "scopeTicket ref db = (case resolve_ref db ref of None \<Rightarrow> Inl (DispatchError NOT_FOUND)
     | Some t \<Rightarrow> Inr (scopeTicketFor db (t_id t) (t_number t), db))"
  by (simp add: scopeTicket_def resolveRef_def tx_defs split: option.splits)

lemma check_ticket_Inr [simp]:
  "check_ticket db p mk ref = Inr () \<longleftrightarrow>
     (\<exists>t. resolve_ref db ref = Some t \<and> may (principalAccess p) (mk (scopeTicketFor db (t_id t) (t_number t))))"
  by (auto simp: check_ticket_def scopeTicket_eq split: option.splits)

lemma both_Inr [simp]: "both a b = Inr () \<longleftrightarrow> a = Inr () \<and> b = Inr ()"
  by (cases a) (auto simp: both_def)

lemma each_check_Inr [simp]: "each_check f xs = Inr () \<longleftrightarrow> (\<forall>x \<in> set xs. f x = Inr ())"
  by (induction xs) auto

lemma with_body_Inr [simp]: "with_body rq f = Inr () \<longleftrightarrow> (\<exists>b. rq_body rq = Inr b \<and> b \<noteq> JNull \<and> f b = Inr ())"
  by (auto simp: with_body_def split: sum.splits json.splits)

lemma sct_scopeTicketFor [simp]: "sct_id (scopeTicketFor db i n) = i"
  by (simp add: scopeTicketFor_def)

lemma may_ticket [simp]:
  "may (principalAccess p) (WriteTicket (scopeTicketFor db (t_id t) (t_number t))) \<longleftrightarrow> pv_capability p \<noteq> ReadCapability \<and> in_scope db p t"
  "may (principalAccess p) (ReadTicket (scopeTicketFor db (t_id t) (t_number t))) \<longleftrightarrow> in_scope db p t"
  by (auto simp: may_def in_scope_def)

lemma may_factory [simp]:
  "may (principalAccess p) WriteFactory \<longleftrightarrow> pv_capability p \<noteq> ReadCapability \<and> \<not> principal_scoped p"
  "may (principalAccess p) ReadFactory \<longleftrightarrow> \<not> principal_scoped p"
  "may (principalAccess p) (CreateTicketOn rs) \<longleftrightarrow> pv_capability p \<noteq> ReadCapability \<and>
     (\<not> principal_scoped p \<or> rs \<noteq> [] \<and> set rs \<subseteq> repo_grant (principalScope p))"
  "may (principalAccess p) (WriteRepo (Some rs)) \<longleftrightarrow> pv_capability p \<noteq> ReadCapability \<and> pv_actor_type p = AdminPrincipal \<and>
     (\<not> principal_scoped p \<or> rs \<noteq> [] \<and> set rs \<subseteq> repo_grant (principalScope p))"
  "may (principalAccess p) (WriteRepo None) \<longleftrightarrow> pv_capability p \<noteq> ReadCapability \<and> pv_actor_type p = AdminPrincipal \<and> \<not> principal_scoped p"
  by (auto simp: may_def principal_scoped_def repo_scope_granted)

lemma decision_check_Inr [simp]:
  "decision_check db p reading i = Inr () \<longleftrightarrow> (\<exists>ids. decisionTicketIds i db = Inr (ids, db) \<and>
     (if ids = [] then may (principalAccess p) (if reading then ReadFactory else WriteFactory)
      else \<forall>x \<in> set ids. check_ticket db p (if reading then ReadTicket else WriteTicket) x = Inr ()))"
proof -
  have "decisionTicketIds i db = Inr (ids, db') \<Longrightarrow> db' = db" for ids db'
    by (auto simp: decisionTicketIds_def getDecision_def tx_defs split: option.splits)
  then show ?thesis by (auto simp: decision_check_def split: sum.splits)
qed

section \<open>A scope covers what a delivery writes to\<close>

text \<open>
  C33. A scope covers what a delivery writes to. A ticket a principal reaches only through its
  repositories delivers into its repositories alone: every write repository whose head an
  approval pins and a landing merges is one the scope grants.
\<close>

theorem scope_covers_delivery:
  assumes "in_scope db p t" and "principal_scoped p" and "t_id t \<notin> ticket_grant (principalScope p)"
  shows "set (writeRepoIdsForTicket db t) \<subseteq> repo_grant (principalScope p)"
proof -
  have "writeRepoIdsForTicket db t = scope_writes db (t_id t)"
    unfolding writeRepoIdsForTicket_def scope_writes_def active_write_links_def isActiveTicketRepoRelation_def
    by (rule arg_cong [where f = "map _"], rule filter_cong) auto
  then show ?thesis
    using assms by (auto simp: in_scope_def principal_scoped_def ticket_scope_granted scopeTicketFor_def split: if_split_asm)
qed


definition sample_principal :: principal where
  "sample_principal = \<lparr>pl_id = ''p1'', pl_name = ''ci'', pl_token_hash = ''h'', pl_capability = FullCapability,
     pl_actor_type = HumanPrincipal, pl_actor_id = ''ci'', pl_created_by = None, pl_created_at = 0, pl_last_used_at = None,
     pl_revoked_at = None, pl_scope_repos = scope_column (Some [''r1'']), pl_scope_tickets = None\<rparr>"

definition scoped_db :: db where
  "scoped_db = empty_db\<lparr>db_tickets := [sample_ticket ''t1'' 1 InReview],
     db_repositories := [\<lparr>r_id = ''r1'', r_name = ''app'', r_local_path = None, r_remote_url = None, r_default_branch = ''main'',
       r_stack = None, r_risk_level = Low, r_test_command = None, r_lint_command = None, r_coverage_command = None, r_hidden = False, r_created_at = 0, r_updated_at = 0\<rparr>],
     db_ticket_repos := [\<lparr>tr_ticket_id = ''t1'', tr_repo_id = ''r1'', tr_role = RolePrimary, tr_branch_name = None,
       tr_pr_url = None, tr_access = AccWrite, tr_relation = RelConfirmed, tr_source = SrcManual,
       tr_confidence = None, tr_reasons = None, tr_created_at = 0, tr_updated_at = 0\<rparr>]\<rparr>"

theorem scope_covers_delivery_witness:
  "in_scope scoped_db (shown_principal scoped_db sample_principal) (sample_ticket ''t1'' 1 InReview) \<and>
   writeRepoIdsForTicket scoped_db (sample_ticket ''t1'' 1 InReview) = [''r1''] \<and>
   {''r1''} \<subseteq> repo_grant (principalScope (shown_principal scoped_db sample_principal))"
proof -
  have "in_scope scoped_db (shown_principal scoped_db sample_principal) (sample_ticket ''t1'' 1 InReview) \<and>
    principal_scoped (shown_principal scoped_db sample_principal) \<and>
    writeRepoIdsForTicket scoped_db (sample_ticket ''t1'' 1 InReview) = [''r1''] \<and>
    t_id (sample_ticket ''t1'' 1 InReview) \<notin> ticket_grant (principalScope (shown_principal scoped_db sample_principal))" by code_simp
  then have "in_scope scoped_db (shown_principal scoped_db sample_principal) (sample_ticket ''t1'' 1 InReview)"
    "principal_scoped (shown_principal scoped_db sample_principal)"
    "writeRepoIdsForTicket scoped_db (sample_ticket ''t1'' 1 InReview) = [''r1'']"
    "t_id (sample_ticket ''t1'' 1 InReview) \<notin> ticket_grant (principalScope (shown_principal scoped_db sample_principal))" by blast+
  with scope_covers_delivery [OF this(1,2,4)] show ?thesis by simp
qed

section \<open>A wider credential passes every request\<close>

text \<open>A check that passes whenever another does, and the rules for the shapes of the gate.\<close>

definition eases :: "checked \<Rightarrow> checked \<Rightarrow> bool" where
  "eases a b \<longleftrightarrow> (a = Inr () \<longrightarrow> b = Inr ())"

named_theorems easing \<open>rules for checks that pass whenever others do\<close>

lemma eases_refl [easing]: "eases a a"
  by (simp add: eases_def)

lemma eases_Inr [easing]: "eases a (Inr ())"
  by (simp add: eases_def)

lemma eases_if [easing]: "(x \<Longrightarrow> eases a b) \<Longrightarrow> (\<not> x \<Longrightarrow> eases c d) \<Longrightarrow> eases (if x then a else c) (if x then b else d)"
  by (simp add: eases_def)

lemma eases_both [easing]: "eases a b \<Longrightarrow> eases c d \<Longrightarrow> eases (both a c) (both b d)"
  by (simp add: eases_def)

lemma eases_option [easing]: "eases a b \<Longrightarrow> (\<And>x. eases (f x) (g x)) \<Longrightarrow>
    eases (case v of None \<Rightarrow> a | Some x \<Rightarrow> f x) (case v of None \<Rightarrow> b | Some x \<Rightarrow> g x)"
  by (simp split: option.split)

lemma eases_body [easing]: "(\<And>b. eases (f b) (g b)) \<Longrightarrow> eases (with_body rq f) (with_body rq g)"
  by (auto simp: eases_def)

lemma eases_each [easing]: "(\<And>x. eases (f x) (g x)) \<Longrightarrow> eases (each_check f xs) (each_check g xs)"
  by (auto simp: eases_def)

lemma eases_depends [easing]:
  "(\<And>s. eases (f s) (f' s)) \<Longrightarrow> (\<And>n. eases (g n) (g' n)) \<Longrightarrow>
   eases (case v of Some (JStr s) \<Rightarrow> f s | Some (JNum n) \<Rightarrow> g n | _ \<Rightarrow> Inr ())
     (case v of Some (JStr s) \<Rightarrow> f' s | Some (JNum n) \<Rightarrow> g' n | _ \<Rightarrow> Inr ())"
  by (auto simp: eases_def split: option.split json.split)

lemma eases_named [easing]:
  "(\<And>s. eases (f s) (f' s)) \<Longrightarrow> eases a b \<Longrightarrow>
   eases (case v of Some (JStr s) \<Rightarrow> f s | _ \<Rightarrow> a) (case v of Some (JStr s) \<Rightarrow> f' s | _ \<Rightarrow> b)"
  by (auto simp: eases_def split: option.split json.split)

lemma eases_ticket [easing]: "(\<And>t. eases (check db p (mk t)) (check db q (mk t))) \<Longrightarrow> eases (check_ticket db p mk ref) (check_ticket db q mk ref)"
  by (auto simp: check_ticket_def scopeTicket_eq eases_def split: option.splits simp del: check_Inr)

lemma eases_sum [easing]: "(\<And>x. eases (f x) (g x)) \<Longrightarrow>
    eases (case r of Inl e \<Rightarrow> Inl (h e) | Inr x \<Rightarrow> f x) (case r of Inl e \<Rightarrow> Inl (h e) | Inr x \<Rightarrow> g x)"
  by (auto simp: eases_def split: sum.split)

lemma eases_prod [easing]: "(\<And>x y. eases (f x y) (g x y)) \<Longrightarrow> eases (case v of (x, y) \<Rightarrow> f x y) (case v of (x, y) \<Rightarrow> g x y)"
  by (cases v) simp

text \<open>
  C19. A wider credential passes every request a narrower one passes. When one principal is at
  least as read-only as another, an admin only if the other is, and its scope grants a subset of
  the other's, then the REST gate admits no request of the first that it refuses to the other:
  no combination of segments, body and scopes gains by narrowing.
\<close>

theorem narrowing_never_gains:
  assumes "within_access (principalAccess p) (principalAccess q)" and "authorizePrincipalRequest db p rq = Inr ()"
  shows "authorizePrincipalRequest db q rq = Inr ()"
proof -
  have one: "eases (check db p action) (check db q action)" for action
    using credentials.wider_allows [OF assms(1)] by (simp add: eases_def authorize_may del: may_factory)
  have scoped: "principal_scoped q \<Longrightarrow> principal_scoped p"
    using assms(1) by (auto simp: within_access_def within_scope_def principal_scoped_def)
  have link: "eases (scope_link db p) (scope_link db q)"
    using one scoped unfolding scope_link_def eases_def by (simp del: check_Inr)
  have decs: "eases (decision_check db p r i) (decision_check db q r i)" for r i
    unfolding decision_check_def by (intro easing one)
  have reading: "eases (read_gate db p rq) (read_gate db q rq)"
  proof (cases "principal_scoped q")
    case True
    then have "principal_scoped p" by (rule scoped)
    with True show ?thesis unfolding read_gate_def Let_def by (simp only: not_True_eq_False if_False) (intro easing one decs)
  qed (simp add: read_gate_def eases_def)
  have "eases (write_gate db p rq) (write_gate db q rq)"
    unfolding write_gate_def ticket_write_gate_def create_gate_def Let_def by (intro easing one link decs)
  then have "eases (authorizePrincipalRequest db p rq) (authorizePrincipalRequest db q rq)"
    using reading unfolding authorizePrincipalRequest_def by (intro easing)
  then show ?thesis using assms(2) by (simp add: eases_def)
qed

definition operator_principal :: principal where
  "operator_principal = sample_principal\<lparr>pl_actor_type := AdminPrincipal, pl_scope_repos := None\<rparr>"

definition sample_request :: api_request where
  "sample_request = \<lparr>rq_authorization = None, rq_hostAllowed = True, rq_method = ''POST'',
     rq_segments = [''tickets'', ''t1'', ''approve''], rq_all = False, rq_body = Inr (JObj [])\<rparr>"

lemma sample_admitted: "authorizePrincipalRequest scoped_db (shown_principal scoped_db sample_principal) sample_request = Inr ()"
  by code_simp

theorem narrowing_never_gains_witness:
  "authorizePrincipalRequest scoped_db (shown_principal scoped_db operator_principal) sample_request = Inr ()"
proof -
  have "within_access (principalAccess (shown_principal scoped_db sample_principal)) (principalAccess (shown_principal scoped_db operator_principal))"
    by code_simp
  then show ?thesis using sample_admitted by (rule narrowing_never_gains)
qed

section \<open>What a scoped principal's write may touch\<close>

lemma scope_link_Inr: "principal_scoped p \<Longrightarrow> scope_link db p \<noteq> Inr ()"
  by (simp add: scope_link_def)

lemma create_gate_scoped:
  "principal_scoped p \<Longrightarrow> create_gate db p b = Inr () \<longleftrightarrow> pv_capability p \<noteq> ReadCapability \<and> named_repos b \<noteq> [] \<and>
     repoId_of db ` set (named_repos b) \<subseteq> repo_grant (principalScope p) \<and> items_of (body_field ''scopeNodeIds'' b) = []"
  by (auto simp: create_gate_def scope_link_Inr)

definition REPO_LINK_PATHS :: "string list" where
  "REPO_LINK_PATHS = [''repo-access'', ''work-repos'', ''mono-fallback'']"

text \<open>The tickets, repositories and decisions a scoped principal's write may name.\<close>

definition reached :: "db \<Rightarrow> principal_view \<Rightarrow> string \<Rightarrow> bool" where
  "reached db p ref \<longleftrightarrow> (\<exists>t. resolve_ref db ref = Some t \<and> in_scope db p t)"

text \<open>
  The other tickets a dependency request names: the path segment of a removal, the body's
  \<open>depends_on\<close> of a new dependency, a string or a ticket number.
\<close>

definition named_dependencies :: "api_request \<Rightarrow> string set" where
  "named_dependencies rq = {other. segment rq 3 = Some other} \<union>
     {other. segment rq 3 = None \<and> (\<exists>b. rq_body rq = Inr b \<and>
        (body_field ''depends_on'' b = Some (JStr other) \<or>
         (\<exists>n. body_field ''depends_on'' b = Some (JNum n) \<and> other = js_String (JNum n))))}"

text \<open>
  A change of a ticket's repository links is about granted repositories only: the ones its body
  names or, when it names none, every repository the ticket is linked to.
\<close>

definition links_granted :: "db \<Rightarrow> principal_view \<Rightarrow> api_request \<Rightarrow> string \<Rightarrow> bool" where
  "links_granted db p rq ref \<longleftrightarrow> (\<exists>b. rq_body rq = Inr b \<and> repoId_of db ` set (linked_repos b) \<subseteq> repo_grant (principalScope p) \<and>
     (linked_repos b = [] \<longrightarrow> (\<exists>t s. scopeTicket ref db = Inr (t, s) \<and> set (sct_repos t) \<subseteq> repo_grant (principalScope p))))"

definition confined :: "db \<Rightarrow> principal_view \<Rightarrow> api_request \<Rightarrow> bool" where
  "confined db p rq \<longleftrightarrow> (let head = segment rq 0; second = segment rq 1; grant = repo_grant (principalScope p) in
     if head = Some ''tickets'' then (case second of
         Some ref \<Rightarrow> reached db p ref \<and> segment rq 2 \<notin> {Some ''scopes'', Some ''primary-scope''} \<and>
           (segment rq 2 = Some ''dependencies'' \<longrightarrow> (\<forall>other \<in> named_dependencies rq. reached db p other)) \<and>
           (segment rq 2 \<in> Some ` set REPO_LINK_PATHS \<longrightarrow> pv_actor_type p = AdminPrincipal \<and> links_granted db p rq ref)
       | None \<Rightarrow> (\<exists>b. rq_body rq = Inr b \<and> named_repos b \<noteq> [] \<and> repoId_of db ` set (named_repos b) \<subseteq> grant \<and>
           items_of (body_field ''scopeNodeIds'' b) = []))
     else if head = Some ''claims'' then (\<exists>i c. second = Some i \<and> claim_findById db i = Some c \<and> reached db p (c_ticket_id c))
     else if head = Some ''decisions'' then (case second of
         None \<Rightarrow> (\<exists>b ref. rq_body rq = Inr b \<and> body_field ''ticket_id'' b = Some (JStr ref) \<and> reached db p ref)
       | Some i \<Rightarrow> (\<exists>ids. decisionTicketIds i db = Inr (ids, db) \<and> ids \<noteq> [] \<and> (\<forall>x \<in> set ids. reached db p x)))
     else head = Some ''repos'' \<and> pv_actor_type p = AdminPrincipal \<and> (\<exists>r. second = Some r \<and> r \<noteq> ''onboard'' \<and> repoId_of db r \<in> grant))"

lemma ticket_write_confined:
  assumes "principal_scoped p" and "ticket_write_gate db p rq ref = Inr ()"
  shows "pv_capability p \<noteq> ReadCapability \<and> reached db p ref" and "segment rq 2 \<notin> {Some ''scopes'', Some ''primary-scope''}"
    and "segment rq 2 = Some ''dependencies'' \<Longrightarrow> other \<in> named_dependencies rq \<Longrightarrow> reached db p other"
    and "segment rq 2 \<in> Some ` set REPO_LINK_PATHS \<Longrightarrow> pv_actor_type p = AdminPrincipal \<and> links_granted db p rq ref"
proof -
  note gate = assms(2) [unfolded ticket_write_gate_def Let_def both_Inr]
  from gate [THEN conjunct1] show "pv_capability p \<noteq> ReadCapability \<and> reached db p ref" by (auto simp: reached_def)
  show third: "segment rq 2 \<notin> {Some ''scopes'', Some ''primary-scope''}"
    using gate [THEN conjunct2] scope_link_Inr [OF assms(1)] by (auto split: if_split_asm)
  show "reached db p other" if "segment rq 2 = Some ''dependencies''" "other \<in> named_dependencies rq"
  proof (cases "segment rq 3")
    case None
    have "with_body rq (\<lambda>b. case body_field ''depends_on'' b of
            Some (JStr s) \<Rightarrow> check_ticket db p ReadTicket s
          | Some (JNum n) \<Rightarrow> check_ticket db p ReadTicket (js_String (JNum n))
          | _ \<Rightarrow> Inr ()) = Inr ()"
      using gate [THEN conjunct2] that(1) None by simp
    then obtain b where b: "rq_body rq = Inr b" "(case body_field ''depends_on'' b of
            Some (JStr s) \<Rightarrow> check_ticket db p ReadTicket s
          | Some (JNum n) \<Rightarrow> check_ticket db p ReadTicket (js_String (JNum n))
          | _ \<Rightarrow> Inr ()) = Inr ()" unfolding with_body_Inr by blast
    from that(2) None b(1) consider "body_field ''depends_on'' b = Some (JStr other)"
      | n where "body_field ''depends_on'' b = Some (JNum n)" "other = js_String (JNum n)"
      by (auto simp: named_dependencies_def)
    then show ?thesis using b(2) by cases (auto simp: reached_def)
  qed (use gate [THEN conjunct2] that in \<open>auto simp: reached_def named_dependencies_def\<close>)
  show "pv_actor_type p = AdminPrincipal \<and> links_granted db p rq ref"
    if "segment rq 2 \<in> Some ` set REPO_LINK_PATHS"
  proof -
    have in_set: "segment rq 2 \<in> {Some ''repo-access'', Some ''work-repos'', Some ''mono-fallback''}"
      using that by (simp add: REPO_LINK_PATHS_def)
    then have "segment rq 2 \<noteq> Some ''dependencies''" by auto
    with gate [THEN conjunct2] third in_set obtain b where b: "rq_body rq = Inr b"
      "(if linked_repos b \<noteq> [] then check db p (WriteRepo (Some (map (repoId_of db) (linked_repos b))))
        else case scopeTicket ref db of Inl e \<Rightarrow> Inl (GateThrown e) | Inr (t, _) \<Rightarrow> check db p (WriteRepo (Some (sct_repos t)))) = Inr ()"
      by (simp only: if_True if_False with_body_Inr) blast
    then show ?thesis using assms(1) by (cases "linked_repos b = []") (auto simp: links_granted_def split: sum.splits)
  qed
qed

lemma decision_confined:
  assumes "principal_scoped p" and "decision_check db p False i = Inr ()"
  shows "pv_capability p \<noteq> ReadCapability \<and> (\<exists>ids. decisionTicketIds i db = Inr (ids, db) \<and> ids \<noteq> [] \<and> (\<forall>x \<in> set ids. reached db p x))"
  using assms by (fastforce simp: reached_def split: if_splits)

text \<open>
  C8. What a scoped principal's write may touch. A write of a principal with a scope that the REST
  gate admits comes from a credential that may write, and what it names is inside the scope: the
  ticket of the path and every other ticket a dependency request names, in its path or in its
  body; the ticket of a claim; every ticket of a decision; a new ticket whose named repositories
  are all granted and which joins no map node; and, for an admin only, the repositories a change of
  a ticket's links names (all of the ticket's when it names none) or the registered repository of
  the path. No other path is admitted, but for the management of principals, which its own route
  refuses.
\<close>

theorem scoped_write_confined:
  assumes "principal_scoped p" and "\<not> reads rq" and "authorizePrincipalRequest db p rq = Inr ()"
  shows "segment rq 0 = Some ''api'' \<and> segment rq 1 = Some ''principals'' \<or>
    pv_capability p \<noteq> ReadCapability \<and> confined db p rq"
proof -
  from assms(2,3) have w: "write_gate db p rq = Inr ()" by (simp add: authorizePrincipalRequest_def)
  consider "segment rq 0 = Some ''tickets''" "segment rq 1 = None" | ref where "segment rq 0 = Some ''tickets''" "segment rq 1 = Some ref"
    | "segment rq 0 = Some ''claims''" | "segment rq 0 = Some ''decisions''" "segment rq 1 = None"
    | i where "segment rq 0 = Some ''decisions''" "segment rq 1 = Some i" | "segment rq 0 = Some ''repos''" | "segment rq 0 = Some ''api''"
    | "segment rq 0 \<notin> Some ` {''tickets'', ''claims'', ''decisions'', ''repos'', ''api''}" by (cases "segment rq 1") auto
  then show ?thesis
  proof cases
    case 1
    then have "with_body rq (create_gate db p) = Inr ()" using w by (simp add: write_gate_def)
    with 1 assms(1) show ?thesis by (auto simp: confined_def create_gate_scoped)
  next
    case (2 ref)
    then have "ticket_write_gate db p rq ref = Inr ()" using w by (simp add: write_gate_def Let_def)
    from ticket_write_confined [OF assms(1) this] 2 show ?thesis by (simp add: confined_def)
  next
    case 3
    then have "(case Option.bind (segment rq 1) (claim_findById db) of
        Some c \<Rightarrow> check_ticket db p WriteTicket (c_ticket_id c) | None \<Rightarrow> check db p WriteFactory) = Inr ()"
      using w by (simp add: write_gate_def)
    with assms(1) have "pv_capability p \<noteq> ReadCapability \<and> (\<exists>i c. segment rq 1 = Some i \<and> claim_findById db i = Some c \<and> reached db p (c_ticket_id c))"
      by (auto simp: reached_def bind_eq_Some_conv split: option.splits)
    with 3 show ?thesis by (simp add: confined_def)
  next
    case 4
    then have "with_body rq (\<lambda>b. case body_field ''ticket_id'' b of
        Some (JStr s) \<Rightarrow> check_ticket db p WriteTicket s | _ \<Rightarrow> check db p WriteFactory) = Inr ()"
      using w by (simp add: write_gate_def Let_def)
    then obtain b where b: "rq_body rq = Inr b" "(case body_field ''ticket_id'' b of
        Some (JStr s) \<Rightarrow> check_ticket db p WriteTicket s | _ \<Rightarrow> check db p WriteFactory) = Inr ()"
      unfolding with_body_Inr by blast
    from b(2) assms(1) have "pv_capability p \<noteq> ReadCapability \<and> (\<exists>ref. body_field ''ticket_id'' b = Some (JStr ref) \<and> reached db p ref)"
      by (auto simp: reached_def split: option.split_asm json.split_asm)
    with 4 b(1) show ?thesis by (simp add: confined_def)
  next
    case (5 i)
    then have "decision_check db p False i = Inr ()" using w by (simp add: write_gate_def)
    from decision_confined [OF assms(1) this] 5 show ?thesis by (simp add: confined_def)
  next
    case 6
    then have "(case segment rq 1 of None \<Rightarrow> check db p WriteFactory
        | Some r \<Rightarrow> if r = ''onboard'' then check db p (WriteRepo None) else check db p (WriteRepo (Some [repoId_of db r]))) = Inr ()"
      using w by (simp add: write_gate_def)
    with assms(1) have "pv_capability p \<noteq> ReadCapability \<and> pv_actor_type p = AdminPrincipal \<and>
        (\<exists>r. segment rq 1 = Some r \<and> r \<noteq> ''onboard'' \<and> repoId_of db r \<in> repo_grant (principalScope p))"
      by (cases "segment rq 1") (simp_all split: if_split_asm)
    with 6 show ?thesis by (simp add: confined_def)
  next
    case 7
    with w assms(1) show ?thesis by (auto simp: write_gate_def Let_def split: if_split_asm)
  next
    case 8
    then have "check db p WriteFactory = Inr ()" using w by (simp add: write_gate_def)
    with assms(1) show ?thesis by simp
  qed
qed

theorem scoped_write_confined_witness:
  "pv_capability (shown_principal scoped_db sample_principal) \<noteq> ReadCapability \<and>
   reached scoped_db (shown_principal scoped_db sample_principal) ''t1''"
proof -
  have "principal_scoped (shown_principal scoped_db sample_principal)" "\<not> reads sample_request" by code_simp+
  from scoped_write_confined [OF this sample_admitted] show ?thesis
    by (simp add: confined_def segment_def sample_request_def)
qed

section \<open>A token from minting to revocation\<close>

definition repo_axis :: "db \<Rightarrow> string list \<Rightarrow> id list option access_op" where
  "repo_axis db refs = scope_axis (\<lambda>ref. map_option r_id (repo_by_name_or_id db ref)) refs"

definition ticket_axis :: "db \<Rightarrow> string list \<Rightarrow> id list option access_op" where
  "ticket_axis db refs = scope_axis (\<lambda>ref. map_option t_id (resolve_ref db ref)) refs"

lemma bindT_scope_axis: "bindT (scope_axis f refs) k s = Inr r \<longleftrightarrow> (\<exists>x. scope_axis f refs s = Inr (x, s) \<and> k x s = Inr r)"
  by (auto simp: scope_axis_def tx_defs split: option.splits)

text \<open>What a principal that was minted found and wrote.\<close>

lemma createPrincipalD:
  assumes "createPrincipal en ids inp actor s = Inr ((p, token), s')"
  obtains sr st row where "row = principal_row (minted_row en ids inp actor (length (ad_principals s)) sr st)"
    and "repo_axis (ad_db s) (np_repos inp) s = Inr (sr, s)" and "ticket_axis (ad_db s) (np_tickets inp) s = Inr (st, s)"
    and "p = shown_principal (ad_db s) row" and "token = mintPrincipalToken en (length (ad_principals s))"
    and "ad_principals s' = ad_principals s @ [row]" and "\<exists>evs. ad_db s' = (ad_db s)\<lparr>db_events := evs\<rparr>"
    and "pl_token_hash row \<notin> pl_token_hash ` set (ad_principals s)" and "pl_id row \<notin> pl_id ` set (ad_principals s)"
    and "\<not> agent_identity (ad_db s) (principal_identity inp)"
proof -
  from assms obtain sr st r s1 where axes: "repo_axis (ad_db s) (np_repos inp) s = Inr (sr, s)" "ticket_axis (ad_db s) (np_tickets inp) s = Inr (st, s)"
    and ident: "\<not> agent_identity (ad_db s) (principal_identity inp)"
    and ins: "insert_principal (minted_row en ids inp actor (length (ad_principals s)) sr st) s = Inr (r, s1)"
    and fin: "bindT (on_db (writeEvent en ''principal'' (pv_id r) actor ''principal.created'' (Some (JObj (created_payload (ad_db s)
        (minted_row en ids inp actor (length (ad_principals s)) sr st)))))) (\<lambda>_. returnT (r, mintPrincipalToken en (length (ad_principals s)))) s1
      = Inr ((p, token), s')"
    unfolding createPrincipal_def Let_def repo_axis_def ticket_axis_def
    by (auto simp: bindT_scope_axis bindT_Inr_iff [of "insert_principal r" for r] split: if_split_asm)
  let ?row = "principal_row (minted_row en ids inp actor (length (ad_principals s)) sr st)"
  from ins have r: "r = shown_principal (ad_db s) ?row" "s1 = s\<lparr>ad_principals := ad_principals s @ [?row]\<rparr>"
    "pl_token_hash ?row \<notin> pl_token_hash ` set (ad_principals s)" "pl_id ?row \<notin> pl_id ` set (ad_principals s)"
    by (auto simp: insert_principal_def Let_def split: if_split_asm)
  from fin have "p = r" "token = mintPrincipalToken en (length (ad_principals s))" "ad_principals s' = ad_principals s1"
    "\<exists>evs. ad_db s' = (ad_db s1)\<lparr>db_events := evs\<rparr>"
    by (auto simp: bindT_def on_db_def writeEvent_def returnT_def Let_def)
  with axes ident r show thesis by (intro that [of ?row sr st]) simp_all
qed

lemma idList_column [simp]: "idList (scope_column axis) = axis"
proof -
  have "concat (map (\<lambda>v. case v of JStr s \<Rightarrow> [s] | _ \<Rightarrow> []) (map JStr xs)) = xs" for xs by (induction xs) simp_all
  then show ?thesis by (cases axis) (simp_all add: idList_def scope_column_def del: map_map)
qed

lemma principalScope_shown:
  "principalScope (shown_principal db r) = (if idList (pl_scope_repos r) = None \<and> idList (pl_scope_tickets r) = None then None
     else Some \<lparr>scp_repos = idList (pl_scope_repos r), scp_tickets = idList (pl_scope_tickets r)\<rparr>)"
  by (cases "idList (pl_scope_repos r)"; cases "idList (pl_scope_tickets r)")
    (simp_all add: principalScope_def shown_principal_def Let_def o_def)

lemma shown_principal_fields [simp]:
  "pv_capability (shown_principal db r) = pl_capability r" "pv_actor_type (shown_principal db r) = pl_actor_type r"
  "pv_actor_id (shown_principal db r) = pl_actor_id r" "pv_id (shown_principal db r) = pl_id r"
  "pv_revoked_at (shown_principal db r) = pl_revoked_at r" "pv_last_used_at (shown_principal db r) = pl_last_used_at r"
  by (simp_all add: shown_principal_def Let_def)

lemma shown_principal_events [simp]: "shown_principal (db\<lparr>db_events := evs\<rparr>) r = shown_principal db r"
  by (simp add: shown_principal_def repo_findById_def ticket_findById_def cong: if_cong)

lemma active_new:
  assumes "ad_principals s' = ad_principals s @ [r]" and "pl_token_hash r \<notin> pl_token_hash ` set (ad_principals s)" and "pl_revoked_at r = None"
  shows "active_principal s' (pl_token_hash r) = Some r"
proof -
  have "find (\<lambda>p. pl_token_hash p = h \<and> pl_revoked_at p = None) (rows @ [r]) = Some r"
    if "pl_token_hash r = h" "h \<notin> pl_token_hash ` set rows" for h rows
    using that assms(3) by (induction rows) auto
  from this [OF refl assms(2)] show ?thesis by (simp add: active_principal_def assms(1))
qed

text \<open>
  C32. A minted token authenticates as what it was minted for. The token that minting returns
  resolves to that principal, acting under the identity that was asked for, which is no
  registered agent's; and what it may do is exactly what was asked for: read-only or not, an admin
  or not, scoped to the repositories and tickets named, or to none when none was named.
\<close>

theorem minted_token_authenticates:
  assumes "createPrincipal en ids inp actor s = Inr ((p, token), s')"
  shows "\<exists>sr st. repo_axis (ad_db s) (np_repos inp) s = Inr (sr, s) \<and> ticket_axis (ad_db s) (np_tickets inp) s = Inr (st, s) \<and>
    fst (resolvePrincipalToken en token s') = Some (p, principalActor p) \<and>
    a_id (principalActor p) = Some (principal_identity inp) \<and> \<not> agent_identity (ad_db s) (principal_identity inp) \<and>
    principalAccess p = \<lparr>acc_readOnly = (np_capability inp = Some ReadCapability), acc_admin = (np_actorType inp = Some AdminPrincipal),
      acc_scope = (if sr = None \<and> st = None then None else Some \<lparr>scp_repos = sr, scp_tickets = st\<rparr>)\<rparr>"
proof (rule createPrincipalD [OF assms])
  fix sr st row
  assume row: "row = principal_row (minted_row en ids inp actor (length (ad_principals s)) sr st)"
    and axes: "repo_axis (ad_db s) (np_repos inp) s = Inr (sr, s)" "ticket_axis (ad_db s) (np_tickets inp) s = Inr (st, s)"
    and p: "p = shown_principal (ad_db s) row" and token: "token = mintPrincipalToken en (length (ad_principals s))"
    and s': "ad_principals s' = ad_principals s @ [row]" "\<exists>evs. ad_db s' = (ad_db s)\<lparr>db_events := evs\<rparr>"
    and new: "pl_token_hash row \<notin> pl_token_hash ` set (ad_principals s)" and ident: "\<not> agent_identity (ad_db s) (principal_identity inp)"
  have fields: "pl_token_hash row = hashPrincipalToken en token" "pl_revoked_at row = None" "pl_actor_id row = principal_identity inp"
    "pl_capability row = ReadCapability \<longleftrightarrow> np_capability inp = Some ReadCapability"
    "pl_actor_type row = AdminPrincipal \<longleftrightarrow> np_actorType inp = Some AdminPrincipal"
    "idList (pl_scope_repos row) = sr" "idList (pl_scope_tickets row) = st"
    by (simp_all add: row token principal_row_def minted_row_def split: option.split)
  have "active_principal s' (hashPrincipalToken en token) = Some row"
    using active_new [OF s'(1) new fields(2)] fields(1) by simp
  then have "fst (resolvePrincipalToken en token s') = Some (p, principalActor p)"
    using s'(2) by (auto simp: resolvePrincipalToken_def findActiveByHash_def p)
  then show ?thesis
    using axes ident fields by (intro exI [of _ sr] exI [of _ st]) (simp add: principalAccess_def principalScope_shown p principalActor_def)
qed

definition ci_principal :: new_principal where
  "ci_principal = \<lparr>np_name = ''ci'', np_capability = None, np_actorType = None, np_actorId = None, np_repos = [''app''], np_tickets = []\<rparr>"

definition access_start :: access_db where
  "access_start = \<lparr>ad_db = scoped_db, ad_principals = []\<rparr>"

definition sample_admin :: actor where
  "sample_admin = \<lparr>a_type = Admin, a_id = Some ''root''\<rparr>"

lemma sample_minting:
  "case createPrincipal sample_env (\<lambda>n. ''p'' @ show_nat n) ci_principal sample_admin access_start of Inr _ \<Rightarrow> True | Inl _ \<Rightarrow> False"
  by code_simp

theorem minted_token_authenticates_witness:
  "\<exists>p token s'. createPrincipal sample_env (\<lambda>n. ''p'' @ show_nat n) ci_principal sample_admin access_start = Inr ((p, token), s') \<and>
     principalAccess p = \<lparr>acc_readOnly = False, acc_admin = False, acc_scope = Some \<lparr>scp_repos = Some [''r1''], scp_tickets = None\<rparr>\<rparr>"
proof -
  obtain p token s' where run: "createPrincipal sample_env (\<lambda>n. ''p'' @ show_nat n) ci_principal sample_admin access_start = Inr ((p, token), s')"
    using sample_minting by (auto split: sum.splits)
  have "map_option fst (case repo_axis (ad_db access_start) (np_repos ci_principal) access_start of Inr x \<Rightarrow> Some x | Inl _ \<Rightarrow> None) = Some (Some [''r1''])"
    by code_simp
  moreover have "map_option fst (case ticket_axis (ad_db access_start) (np_tickets ci_principal) access_start of Inr x \<Rightarrow> Some x | Inl _ \<Rightarrow> None) = Some None"
    by code_simp
  ultimately show ?thesis using minted_token_authenticates [OF run] run by (auto simp: ci_principal_def)
qed

section \<open>A revoked token\<close>

inductive access_step :: "access_db \<Rightarrow> access_db \<Rightarrow> bool" where
  Mint: "createPrincipal en ids inp actor s = Inr (r, s') \<Longrightarrow> access_step s s'"
| Revoke: "revokePrincipal en ref actor s = Inr (p, s') \<Longrightarrow> access_step s s'"
| Resolve: "access_step s (snd (resolvePrincipalToken en token s))"
| Other: "access_step s (s\<lparr>ad_db := db\<rparr>)"

definition revoked_hash :: "access_db \<Rightarrow> string \<Rightarrow> bool" where
  "revoked_hash s h \<longleftrightarrow> (\<exists>p \<in> set (ad_principals s). pl_token_hash p = h \<and> pl_revoked_at p \<noteq> None)"

definition hashes_unique :: "access_db \<Rightarrow> bool" where
  "hashes_unique s \<longleftrightarrow> distinct (map pl_token_hash (ad_principals s))"

lemma revoked_inactive: "hashes_unique s \<Longrightarrow> revoked_hash s h \<Longrightarrow> active_principal s h = None"
  by (auto simp: hashes_unique_def revoked_hash_def active_principal_def find_None_iff dest: distinct_keyD)

lemma revokePrincipalD:
  assumes "revokePrincipal en ref actor s = Inr (p, s')"
  shows "ad_principals s' = upd_rows (\<lambda>r. pl_id r = pv_id p \<and> pl_revoked_at r = None) (\<lambda>r. r\<lparr>pl_revoked_at := Some (en_now en)\<rparr>) (ad_principals s)"
proof -
  from assms obtain row s1 where row: "principal_by_ref s ref = Some row"
    and s1: "s1 = s\<lparr>ad_principals := upd_rows (\<lambda>r. pl_id r = pv_id row \<and> pl_revoked_at r = None)
        (\<lambda>r. r\<lparr>pl_revoked_at := Some (en_now en)\<rparr>) (ad_principals s)\<rparr>"
    and fin: "ad_principals s' = ad_principals s1" "principal_get s' (pv_id row) = Some p"
    unfolding revokePrincipal_def getPrincipal_def principal_revoke_def
    by (auto simp: bindT_def throwIf_def throwT_def returnT_def modifyT_def on_db_def writeEvent_def Let_def
        split: option.splits if_split_asm sum.splits)
  from fin(2) have "pv_id p = pv_id row" by (auto simp: principal_get_def dest: find_row_SomeD)
  then show ?thesis using fin(1) s1 by simp
qed

lemma upd_keeps:
  assumes "ad_principals s' = upd_rows P f (ad_principals s)" and "\<And>r. pl_token_hash (f r) = pl_token_hash r"
    and "\<And>r. pl_revoked_at r \<noteq> None \<Longrightarrow> pl_revoked_at (f r) \<noteq> None"
  shows "hashes_unique s' = hashes_unique s" and "revoked_hash s h \<Longrightarrow> revoked_hash s' h"
proof -
  show "hashes_unique s' = hashes_unique s" by (simp add: hashes_unique_def assms(1,2) map_key_upd_rows)
  assume "revoked_hash s h"
  then obtain r where "r \<in> set (ad_principals s)" "pl_token_hash r = h" "pl_revoked_at r \<noteq> None" by (auto simp: revoked_hash_def)
  moreover from this have "(if P r then f r else r) \<in> set (ad_principals s')" by (simp add: assms(1) row_simps)
  ultimately show "revoked_hash s' h" using assms(2,3) unfolding revoked_hash_def by (metis (full_types))
qed

text \<open>Rows are only added under new hashes, and neither their hashes nor their revocations change.\<close>

lemma access_step_keeps:
  assumes "access_step s s'" and "hashes_unique s"
  shows "hashes_unique s' \<and> (revoked_hash s h \<longrightarrow> revoked_hash s' h)"
  using assms
proof cases
  case (Mint en ids inp actor r)
  obtain p token where "r = (p, token)" by fastforce
  with Mint have "createPrincipal en ids inp actor s = Inr ((p, token), s')" by simp
  then obtain row where "ad_principals s' = ad_principals s @ [row]" "pl_token_hash row \<notin> pl_token_hash ` set (ad_principals s)"
    by (rule createPrincipalD) blast
  with assms(2) show ?thesis by (auto simp: hashes_unique_def revoked_hash_def)
next
  case (Revoke en ref actor p)
  from upd_keeps [OF revokePrincipalD [OF this]] assms(2) show ?thesis by simp
next
  case (Resolve en token)
  have "ad_principals s' = ad_principals s \<or> (\<exists>i now. ad_principals s' = upd_rows (\<lambda>p. pl_id p = i) (\<lambda>p. p\<lparr>pl_last_used_at := Some now\<rparr>) (ad_principals s))"
    unfolding Resolve by (auto simp: resolvePrincipalToken_def principal_touch_def split: option.split)
  then show ?thesis
  proof
    assume "ad_principals s' = ad_principals s"
    with assms(2) show ?thesis by (simp add: hashes_unique_def revoked_hash_def)
  next
    assume "\<exists>i now. ad_principals s' = upd_rows (\<lambda>p. pl_id p = i) (\<lambda>p. p\<lparr>pl_last_used_at := Some now\<rparr>) (ad_principals s)"
    then obtain i now where "ad_principals s' = upd_rows (\<lambda>p. pl_id p = i) (\<lambda>p. p\<lparr>pl_last_used_at := Some now\<rparr>) (ad_principals s)" by blast
    from upd_keeps [OF this] assms(2) show ?thesis by simp
  qed
next
  case (Other db)
  with assms(2) show ?thesis by (simp add: hashes_unique_def revoked_hash_def)
qed

lemma access_run_keeps:
  assumes "access_step\<^sup>*\<^sup>* s s'" and "hashes_unique s"
  shows "hashes_unique s' \<and> (revoked_hash s h \<longrightarrow> revoked_hash s' h)"
  using assms by (induction rule: rtranclp_induct) (use access_step_keeps in blast)+

text \<open>
  C20. A revoked token never authenticates again. Once a principal is revoked, whatever is minted,
  revoked, resolved or otherwise done to the database afterwards, a token with its hash resolves to
  nobody. (The table's hashes are unique, as its schema says; the operations keep them so.)
\<close>

theorem revoked_never_authenticates:
  assumes "hashes_unique s" and "revokePrincipal en ref actor s = Inr (p, s1)" and "r \<in> set (ad_principals s)" and "pl_id r = pv_id p"
    and "access_step\<^sup>*\<^sup>* s1 s2" and "hashPrincipalToken en2 token = pl_token_hash r"
  shows "fst (resolvePrincipalToken en2 token s2) = None \<and> hashes_unique s2"
proof -
  have rows: "ad_principals s1 = upd_rows (\<lambda>r. pl_id r = pv_id p \<and> pl_revoked_at r = None)
      (\<lambda>r. r\<lparr>pl_revoked_at := Some (en_now en)\<rparr>) (ad_principals s)" using revokePrincipalD [OF assms(2)] .
  then have unique: "hashes_unique s1" using assms(1) by (simp add: hashes_unique_def map_key_upd_rows)
  have "revoked_hash s1 (pl_token_hash r)"
  proof -
    let ?f = "\<lambda>r. if pl_id r = pv_id p \<and> pl_revoked_at r = None then r\<lparr>pl_revoked_at := Some (en_now en)\<rparr> else r"
    have "?f r \<in> set (ad_principals s1)" using assms(3) by (simp add: rows row_simps)
    moreover have "pl_token_hash (?f r) = pl_token_hash r" "pl_revoked_at (?f r) \<noteq> None" using assms(4) by auto
    ultimately show ?thesis unfolding revoked_hash_def by blast
  qed
  with access_run_keeps [OF assms(5) unique] have "hashes_unique s2" "revoked_hash s2 (pl_token_hash r)" by blast+
  then show ?thesis
    using revoked_inactive assms(6) by (simp add: resolvePrincipalToken_def findActiveByHash_def)
qed

definition access_minted :: access_db where
  "access_minted = \<lparr>ad_db = scoped_db, ad_principals = [sample_principal\<lparr>pl_token_hash := en_sha256 sample_env ''gfp_x''\<rparr>]\<rparr>"

lemma sample_revocation:
  "case revokePrincipal sample_env ''ci'' sample_admin access_minted of Inr (p, s1) \<Rightarrow> pv_id p = ''p1'' | Inl _ \<Rightarrow> False"
  by code_simp

theorem revoked_never_authenticates_witness:
  "\<exists>p s1. revokePrincipal sample_env ''ci'' sample_admin access_minted = Inr (p, s1) \<and>
     fst (resolvePrincipalToken sample_env ''gfp_x'' access_minted) \<noteq> None \<and> fst (resolvePrincipalToken sample_env ''gfp_x'' s1) = None"
proof -
  obtain p s1 where run: "revokePrincipal sample_env ''ci'' sample_admin access_minted = Inr (p, s1)" "pv_id p = ''p1''"
    using sample_revocation by (auto split: sum.splits prod.splits)
  have "hashes_unique access_minted" by (simp add: hashes_unique_def access_minted_def)
  moreover have "sample_principal\<lparr>pl_token_hash := en_sha256 sample_env ''gfp_x''\<rparr> \<in> set (ad_principals access_minted)" by (simp add: access_minted_def)
  moreover have "pl_id (sample_principal\<lparr>pl_token_hash := en_sha256 sample_env ''gfp_x''\<rparr>) = pv_id p" by (simp add: run(2) sample_principal_def)
  moreover have "fst (resolvePrincipalToken sample_env ''gfp_x'' access_minted) \<noteq> None" by code_simp
  ultimately show ?thesis
    using revoked_never_authenticates [OF _ run(1), of _ s1 sample_env "''gfp_x''"] run(1) by (auto simp: hashPrincipalToken_def)
qed

section \<open>What is dispatched\<close>

text \<open>Resolving a token changes nothing but the stamp of its last use.\<close>

definition unstamp :: "principal \<Rightarrow> principal" where
  "unstamp p = p\<lparr>pl_last_used_at := None\<rparr>"

definition same_but_stamps :: "access_db \<Rightarrow> access_db \<Rightarrow> bool" where
  "same_but_stamps s s' \<longleftrightarrow> ad_db s' = ad_db s \<and> map unstamp (ad_principals s') = map unstamp (ad_principals s)"

lemma same_refl [simp]: "same_but_stamps s s"
  by (simp add: same_but_stamps_def)

lemma same_trans: "same_but_stamps s t \<Longrightarrow> same_but_stamps t u \<Longrightarrow> same_but_stamps s u"
  by (simp add: same_but_stamps_def)

lemma unstamp_fields [simp]:
  "pl_token_hash (unstamp p) = pl_token_hash p" "pl_revoked_at (unstamp p) = pl_revoked_at p" "pl_capability (unstamp p) = pl_capability p"
  "pl_actor_type (unstamp p) = pl_actor_type p" "pl_actor_id (unstamp p) = pl_actor_id p"
  "pl_scope_repos (unstamp p) = pl_scope_repos p" "pl_scope_tickets (unstamp p) = pl_scope_tickets p"
  by (simp_all add: unstamp_def)

lemma unstamp_eqD:
  assumes "unstamp p = unstamp q"
  shows "pl_token_hash p = pl_token_hash q" "pl_revoked_at p = pl_revoked_at q" "pl_capability p = pl_capability q"
    "pl_actor_type p = pl_actor_type q" "pl_actor_id p = pl_actor_id q" "pl_scope_repos p = pl_scope_repos q" "pl_scope_tickets p = pl_scope_tickets q"
  using assms by (metis unstamp_fields)+

lemma active_unstamped:
  "map_option unstamp (active_principal s h) = find (\<lambda>p. pl_token_hash p = h \<and> pl_revoked_at p = None) (map unstamp (ad_principals s))"
proof -
  have "map_option unstamp (find (\<lambda>p. pl_token_hash p = h \<and> pl_revoked_at p = None) rows) =
      find (\<lambda>p. pl_token_hash p = h \<and> pl_revoked_at p = None) (map unstamp rows)" for rows
    by (induction rows) auto
  then show ?thesis by (simp add: active_principal_def)
qed

lemma active_same: "same_but_stamps s s' \<Longrightarrow> map_option unstamp (active_principal s' h) = map_option unstamp (active_principal s h)"
  by (simp add: active_unstamped same_but_stamps_def)

lemma resolve_same: "same_but_stamps s (snd (resolvePrincipalToken en token s))"
proof -
  have "map unstamp (upd_rows P (\<lambda>p. p\<lparr>pl_last_used_at := u\<rparr>) rows) = map unstamp rows" for P u rows
    by (induction rows) (simp_all add: upd_rows_def unstamp_def)
  then show ?thesis
    by (simp add: same_but_stamps_def resolvePrincipalToken_def principal_touch_def split: option.split)
qed

lemma requestPrincipal_same: "same_but_stamps s (snd (requestPrincipal au rq s))"
  by (simp add: requestPrincipal_def resolve_same Let_def)

text \<open>The row behind a request that authenticates as a principal.\<close>

definition request_row :: "auth_env \<Rightarrow> api_request \<Rightarrow> access_db \<Rightarrow> principal option" where
  "request_row au rq s = (if \<not> au_resolver au \<or> bearer rq = [] \<or> \<not> looksLikePrincipalToken (bearer rq)
       \<or> apiToken au \<noteq> [] \<and> (tokenMatches au (bearer rq) (apiToken au) \<or> tokenMatches au (bearer rq) (deriveReadToken au (apiToken au)))
     then None else active_principal s (hashPrincipalToken (au_env au) (bearer rq)))"

lemma requestPrincipal_row:
  "fst (requestPrincipal au rq s) = map_option (\<lambda>r. (shown_principal (ad_db s) r, principalActor (shown_principal (ad_db s) r))) (request_row au rq s)"
  by (simp add: requestPrincipal_def request_row_def resolvePrincipalToken_def findActiveByHash_def Let_def split: option.split)

lemma request_row_same: "same_but_stamps s s' \<Longrightarrow> map_option unstamp (request_row au rq s') = map_option unstamp (request_row au rq s)"
  unfolding request_row_def using active_same by (cases "au_resolver au") auto

lemma requestCapability_row:
  "fst (requestCapability au rq s) =
    (if apiToken au = [] then Some FullCapability else if bearer rq = [] then None
     else if tokenMatches au (bearer rq) (apiToken au) then Some FullCapability
     else if tokenMatches au (bearer rq) (deriveReadToken au (apiToken au)) then Some ReadCapability
     else map_option pl_capability (request_row au rq s))"
  using requestPrincipal_row [of au rq s]
  by (auto simp: requestCapability_def Let_def case_prod_unfold option.map_comp o_def)

lemma requestCapability_same:
  "same_but_stamps s (snd (requestCapability au rq s))"
  "same_but_stamps s s' \<Longrightarrow> fst (requestCapability au rq s') = fst (requestCapability au rq s)"
proof -
  show "same_but_stamps s (snd (requestCapability au rq s))"
    using requestPrincipal_same by (simp add: requestCapability_def Let_def case_prod_unfold)
  assume "same_but_stamps s s'"
  from request_row_same [OF this] have "map_option pl_capability (map_option unstamp (request_row au rq s')) =
      map_option pl_capability (map_option unstamp (request_row au rq s))" by simp
  then show "fst (requestCapability au rq s') = fst (requestCapability au rq s)"
    by (simp add: requestCapability_row option.map_comp o_def)
qed

lemma dispatchedD:
  assumes "gate_request au rq s = (Dispatched actor pv, s')" and "apiToken au \<noteq> []"
  obtains s3 where "same_but_stamps s s3" and "fst (requestCapability au rq s) \<noteq> None"
    and "reads rq \<or> fst (requestCapability au rq s) = Some FullCapability"
    and "case fst (requestPrincipal au rq s3) of None \<Rightarrow> actor = API_ACTOR \<and> pv = None
      | Some (p, a) \<Rightarrow> actor = a \<and> pv = Some p \<and> authorizePrincipalRequest (ad_db s3) p rq = Inr ()"
proof -
  define s1 where "s1 = snd (hasValidBearer au rq s)"
  define s2 where "s2 = snd (isRequestAuthorized au rq s1)"
  define s3 where "s3 = (if reads rq then s2 else snd (isMutationAuthorized au rq s2))"
  have ss: "same_but_stamps s s1" "same_but_stamps s1 s2" "same_but_stamps s2 s3"
    using requestCapability_same(1)
    by (auto simp: s1_def s2_def s3_def hasValidBearer_def isRequestAuthorized_def isMutationAuthorized_def case_prod_unfold Let_def)
  then have s3: "same_but_stamps s s3" and s2: "same_but_stamps s s2" by (blast intro: same_trans)+
  have "ad_db (snd (requestPrincipal au rq s3)) = ad_db s3"
    using requestPrincipal_same [of s3] by (simp add: same_but_stamps_def)
  with assms have "fst (isRequestAuthorized au rq s1)" "reads rq \<or> fst (isMutationAuthorized au rq s2)"
    "case fst (requestPrincipal au rq s3) of None \<Rightarrow> actor = API_ACTOR \<and> pv = None
      | Some (p, a) \<Rightarrow> actor = a \<and> pv = Some p \<and> authorizePrincipalRequest (ad_db s3) p rq = Inr ()"
    by (auto simp: gate_request_def Let_def case_prod_unfold s1_def s2_def s3_def split: if_split_asm option.splits sum.splits)
  moreover have "fst (isRequestAuthorized au rq s1) \<longleftrightarrow> fst (requestCapability au rq s) \<noteq> None"
    "fst (isMutationAuthorized au rq s2) \<longleftrightarrow> fst (requestCapability au rq s) = Some FullCapability"
    using assms(2) requestCapability_same(2) [OF ss(1), of au rq] requestCapability_same(2) [OF s2, of au rq]
    by (simp_all add: isRequestAuthorized_def hasValidBearer_def isMutationAuthorized_def case_prod_unfold Let_def)
  ultimately show thesis using that [OF s3] by blast
qed

text \<open>
  C11. What is dispatched. While a token is configured, a request reaches a route only with a
  credential: the operator's token, or the read token derived from it for a read, and then acts as
  the operator; or the token of a principal that is stored and not revoked, whose capability
  covers the method and whose scope admits the request, and then acts as exactly that
  principal's actor. Resolving the token as often as the gate does changes no decision.
\<close>

theorem dispatch_needs_credential:
  assumes "gate_request au rq s = (Dispatched actor pv, s')" and "apiToken au \<noteq> []"
  shows "bearer rq \<noteq> [] \<and> (case pv of
      None \<Rightarrow> actor = API_ACTOR \<and> (tokenMatches au (bearer rq) (apiToken au) \<or>
        reads rq \<and> tokenMatches au (bearer rq) (deriveReadToken au (apiToken au)))
    | Some p \<Rightarrow> \<exists>row \<in> set (ad_principals s). pl_token_hash row = hashPrincipalToken (au_env au) (bearer rq) \<and> pl_revoked_at row = None \<and>
        actor = \<lparr>a_type = principal_actor_type (pl_actor_type row), a_id = Some (pl_actor_id row)\<rparr> \<and>
        (reads rq \<or> pl_capability row = FullCapability) \<and>
        principalAccess p = principalAccess (shown_principal (ad_db s) row) \<and> authorizePrincipalRequest (ad_db s) p rq = Inr ())"
proof (rule dispatchedD [OF assms])
  fix s3
  assume s3: "same_but_stamps s s3" and cap: "fst (requestCapability au rq s) \<noteq> None" "reads rq \<or> fst (requestCapability au rq s) = Some FullCapability"
    and went: "case fst (requestPrincipal au rq s3) of None \<Rightarrow> actor = API_ACTOR \<and> pv = None
      | Some (p, a) \<Rightarrow> actor = a \<and> pv = Some p \<and> authorizePrincipalRequest (ad_db s3) p rq = Inr ()"
  have db: "ad_db s3 = ad_db s" using s3 by (simp add: same_but_stamps_def)
  have rows: "map_option unstamp (request_row au rq s3) = map_option unstamp (request_row au rq s)" using request_row_same [OF s3] .
  show ?thesis
  proof (cases "request_row au rq s")
    case None
    then have "pv = None \<and> actor = API_ACTOR" using went rows by (simp add: requestPrincipal_row)
    with None cap assms(2) show ?thesis by (auto simp: requestCapability_row split: if_split_asm)
  next
    case (Some row)
    with rows obtain row3 where row3: "request_row au rq s3 = Some row3" "unstamp row3 = unstamp row" by auto
    have row: "row \<in> set (ad_principals s)" "pl_token_hash row = hashPrincipalToken (au_env au) (bearer rq)" "pl_revoked_at row = None"
      "bearer rq \<noteq> []" "\<not> tokenMatches au (bearer rq) (apiToken au)" "\<not> tokenMatches au (bearer rq) (deriveReadToken au (apiToken au))"
      using Some assms(2) by (auto simp: request_row_def active_principal_def find_Some_iff split: if_split_asm)
    have access: "principalAccess (shown_principal (ad_db s) row3) = principalAccess (shown_principal (ad_db s) row)"
      using unstamp_eqD [OF row3(2)] by (simp add: principalAccess_def principalScope_shown)
    show ?thesis
      using went cap row access unstamp_eqD [OF row3(2)] assms(2) Some
      by (auto simp: requestPrincipal_row row3(1) db requestCapability_row principalActor_def)
  qed
qed

text \<open>A request with the token \<open>gfp_0123456789abcdef\<close>, and the state in which that token is \<open>ci\<close>'s.\<close>

definition ci_token :: string where
  "ci_token = ''gfp_0123456789abcdef''"

definition sample_auth :: auth_env where
  "sample_auth = \<lparr>au_env = sample_env, au_process = (\<lambda>k. Some ''operator''), au_hmac = (\<lambda>k m. m @ k), au_resolver = True\<rparr>"

definition ci_request :: api_request where
  "ci_request = sample_request\<lparr>rq_authorization := Some (''bearer  '' @ ci_token)\<rparr>"

definition ci_access :: access_db where
  "ci_access = \<lparr>ad_db = scoped_db, ad_principals = [sample_principal\<lparr>pl_token_hash := en_sha256 sample_env ci_token\<rparr>]\<rparr>"

lemma sample_dispatch: "case gate_request sample_auth ci_request ci_access of (Dispatched actor pv, s') \<Rightarrow> pv \<noteq> None | _ \<Rightarrow> False"
  by code_simp

theorem dispatch_needs_credential_witness:
  "\<exists>actor pv s'. gate_request sample_auth ci_request ci_access = (Dispatched actor pv, s') \<and> actor = \<lparr>a_type = Human, a_id = Some ''ci''\<rparr>"
proof -
  obtain actor p s' where run: "gate_request sample_auth ci_request ci_access = (Dispatched actor (Some p), s')"
    using sample_dispatch by (auto split: prod.splits verdict.splits)
  have "apiToken sample_auth \<noteq> []" by (simp add: apiToken_def sample_auth_def via_text_def js_trim_def js_ws_def)
  from dispatch_needs_credential [OF run this] run show ?thesis by (auto simp: ci_access_def sample_principal_def)
qed

section \<open>A corrupt scope\<close>

text \<open>
  A corrupt scope never widens access. Whatever happens to the stored text of one axis of a
  principal's scope so that it no longer parses to an array, what the principal may do afterwards
  is within what it might do before.
\<close>

theorem corrupt_scope_narrows:
  assumes "c = Unreadable \<or> (\<exists>v. c = Readable v \<and> (\<forall>vs. v \<noteq> JArr vs))"
  shows "within_access (principalAccess (shown_principal db (r\<lparr>pl_scope_repos := Some c\<rparr>))) (principalAccess (shown_principal db r)) \<and>
    within_access (principalAccess (shown_principal db (r\<lparr>pl_scope_tickets := Some c\<rparr>))) (principalAccess (shown_principal db r))"
proof -
  have empty: "idList (Some c) = Some []" using assms by (auto simp: idList_def split: json.split)
  then show ?thesis
    by (auto simp: within_access_def within_scope_def principalScope_shown isScoped_def repo_grant_def ticket_grant_def)
qed

theorem corrupt_scope_narrows_witness:
  "within_access (principalAccess (shown_principal scoped_db (sample_principal\<lparr>pl_scope_repos := Some Unreadable\<rparr>)))
     (principalAccess (shown_principal scoped_db sample_principal)) \<and>
   \<not> reached scoped_db (shown_principal scoped_db (sample_principal\<lparr>pl_scope_repos := Some Unreadable\<rparr>)) ''t1''"
proof -
  have "\<not> in_scope scoped_db (shown_principal scoped_db (sample_principal\<lparr>pl_scope_repos := Some Unreadable\<rparr>)) (sample_ticket ''t1'' 1 InReview)"
    by code_simp
  moreover have "resolve_ref scoped_db ''t1'' = Some (sample_ticket ''t1'' 1 InReview)"
    by (simp add: resolve_ref_def ticket_findById_def find_row_def scoped_db_def sample_ticket_def)
  ultimately show ?thesis using corrupt_scope_narrows [OF disjI1 [OF refl], of scoped_db sample_principal] by (simp add: reached_def)
qed

end
