(* ===== verification/Boundary.thy ===== *)
theory Boundary
  imports System Access_Props Ticket_Props
begin

text \<open>
  Who opens a write boundary: the pairs of a ticket and a repository its delivery may write, and the
  operations that add one. A scoped principal's new ticket is linked inside its grant.
\<close>

section \<open>The links every other operation leaves alone\<close>

definition links_same :: "db \<Rightarrow> db \<Rightarrow> bool" where
  "links_same s s' \<longleftrightarrow> db_ticket_repos s' = db_ticket_repos s \<and> db_repositories s' = db_repositories s"

interpretation links: preorder_frame links_same
  by unfold_locales (simp_all add: links_same_def)

interpretation links: table_frame links_same
  by unfold_locales (simp_all add: links_same_def)

lemma links_of_calm: "calmT m \<Longrightarrow> framed links_same m"
  by (auto simp: framed_def calm_def same_map_def links_same_def)

interpretation links: service_frame links_same
  by unfold_locales (rule links_of_calm [OF calm_transition])

lemma links_writes [frames]:
  "framed links_same (ticket_insert t)" "framed links_same (dep_insert d)" "framed links_same (dep_delete i j)"
  "framed links_same (paused_upsert i c now)" "framed links_same (node_insert n)" "framed links_same (node_update i p now)"
  "framed links_same (scopeRepo_insert l)" "framed links_same (edge_insert e)" "framed links_same (node_delete i)"
  "framed links_same (ticketScope_upsert k)" "framed links_same (demotePrimaries i now)" "framed links_same (ticketScope_delete i j)"
  "framed links_same (modifyT (\<lambda>db. db\<lparr>db_scope_repos := f db\<rparr>))" "framed links_same (modifyT (\<lambda>db. db\<lparr>db_scope_edges := g db\<rparr>))"
  by (auto simp: framed_def links_same_def ticket_insert_def dep_insert_def dep_delete_def paused_upsert_def node_insert_def
      node_update_def scopeRepo_insert_def edge_insert_def node_delete_def ticketScope_upsert_def demotePrimaries_def
      ticketScope_delete_def modifyT_def split: if_split_asm)

lemma links_reads [frames]:
  "framed links_same (getScopeNodeRow i)" "framed links_same (need_repo f ref)" "framed links_same (getScopeRepo i)"
  "framed links_same (getScopeEdge i)" "framed links_same (need_ticket i)" "framed links_same (defined_link l)"
  unfolding getScopeNodeRow_def need_repo_def getScopeRepo_def getScopeEdge_def need_ticket_def defined_link_def
  by (intro frames)+

lemma links_services [frames]:
  "framed links_same (createTicket en ct a)" "framed links_same (addDependency en r q a)" "framed links_same (removeDependency en r q a)"
  "framed links_same (pauseDelivery en r inp a)" "framed links_same (createDecision en cd a)"
  unfolding createTicket_def addDependency_def removeDependency_def pauseDelivery_def Let_def
  by (intro frames; simp)+

lemma links_scope_service [frames]:
  "framed links_same (createScopeNode en ni a)" "framed links_same (updateScopeNode en i nu a)"
  "framed links_same (linkScopeRepo en si a)" "framed links_same (updateScopeRepo en i sp a)"
  "framed links_same (unlinkScopeRepo en i a)" "framed links_same (createScopeEdge en ei a)"
  "framed links_same (deleteScopeEdge en i a)" "framed links_same (deleteScopeNode en i a)"
  "framed links_same (scope_setPrimaryScope en r i a)" "framed links_same (scope_linkTicketScope en lk a)"
  "framed links_same (scope_removeTicketScope en r i a)"
  unfolding createScopeNode_def updateScopeNode_def linkScopeRepo_def updateScopeRepo_def unlinkScopeRepo_def createScopeEdge_def
    deleteScopeEdge_def deleteScopeNode_def scope_setPrimaryScope_def scope_linkTicketScope_def scope_removeTicketScope_def
    nodeEvent_def Let_def
  by (intro frames; simp)+

lemma links_facade [frames]:
  "framed links_same (wireEpicAcceptance en tid nid rel a)" "framed links_same (unwireEpicAcceptance en tid nid a)"
  "framed links_same (recordImplicitRepoScopes en tid rid a)"
  unfolding wireEpicAcceptance_def unwireEpicAcceptance_def recordImplicitRepoScopes_def implicit_node_def
  by (intro frames; simp)+

lemma links_membership [frames]:
  "framed links_same (linkTicketScope en lk a)" "framed links_same (setPrimaryScope en r i a)"
  "framed links_same (removeTicketScope en r i a)" "framed links_same (linked_createDecision en cd a)"
proof -
  have "framed links_same (resolve_each refs)" for refs
    by (auto simp: framed_def resolve_each_def links_same_def split: option.splits)
  then show "framed links_same (linkTicketScope en lk a)" "framed links_same (setPrimaryScope en r i a)"
    "framed links_same (removeTicketScope en r i a)" "framed links_same (linked_createDecision en cd a)"
    unfolding linkTicketScope_def setPrimaryScope_def removeTicketScope_def linked_createDecision_def by (intro frames)+
qed

lemma links_exec: "framed links_same (exec en a c)"
  by (cases c) (simp_all add: effect_def frames links_of_calm calm_others)

lemma links_calm_landing [frames]:
  "framed links_same (rejectReview en le r rt a w)" "framed links_same (wontDo en le r a w)"
  by (rule links_of_calm, rule calm_others)+

lemma links_landing: "framedP links_same (run_landing en le a c)"
  by (cases c; simp only: run_landing.simps discard_def markMerged_def settle_from_git_def reject_facade_def
      wontDo_facade_def moveTicket_def ci_facade_def recordCiResult_def) (intro frames; simp)+

lemma links_routeEach [frames]: "framedP links_same (routeEach en ga a is)"
  by (induction "is") (simp_all only: routeEach.simps, (intro frames | assumption)+)

lemma links_gate: "framedP links_same (run_gate en ga a c)"
  by (cases c; simp only: run_gate.simps discard_def approveReview_def enforceObservedRiskCeiling_def routeAllToTester_def)
    (intro frames)+

section \<open>The write boundary\<close>

text \<open>The repositories a ticket's delivery may write, and the pairs that have a link at all.\<close>

definition write_boundary :: "db \<Rightarrow> (id \<times> id) set" where
  "write_boundary db = (\<lambda>l. (tr_ticket_id l, tr_repo_id l)) `
     {l \<in> set (db_ticket_repos db). tr_access l = AccWrite \<and> isActiveTicketRepoRelation (tr_relation l)}"

definition link_keys :: "db \<Rightarrow> (id \<times> id) set" where
  "link_keys db = (\<lambda>l. (tr_ticket_id l, tr_repo_id l)) ` set (db_ticket_repos db)"

lemma boundary_linked: "write_boundary db \<subseteq> link_keys db"
  by (auto simp: write_boundary_def link_keys_def)

text \<open>A step that opens the boundary only where there was no link, or inside \<open>X\<close>.\<close>

definition opens :: "(id \<times> id) set \<Rightarrow> db \<Rightarrow> db \<Rightarrow> bool" where
  "opens X s s' \<longleftrightarrow> link_keys s \<subseteq> link_keys s' \<and> write_boundary s' \<subseteq> write_boundary s \<union> - link_keys s \<union> X"

interpretation opens: preorder_frame "opens X" for X
  by unfold_locales (auto simp: opens_def)

lemma opens_of_links: "framed links_same m \<Longrightarrow> framed (opens X) m"
  by (auto simp: framed_def links_same_def opens_def link_keys_def write_boundary_def)

lemma set_put_link:
  assumes "put_link tid rid f now s = Inr (u, s')"
    and "\<And>l. tr_ticket_id (f l) = tr_ticket_id l" and "\<And>l. tr_repo_id (f l) = tr_repo_id l"
  shows "link_keys s' = insert (tid, rid) (link_keys s)"
    and "k \<in> write_boundary s' \<Longrightarrow> k \<noteq> (tid, rid) \<Longrightarrow> k \<in> write_boundary s"
    and "(\<And>l. tr_access (f l) = tr_access l) \<Longrightarrow> (\<And>l. tr_relation (f l) = tr_relation l) \<Longrightarrow> (tid, rid) \<in> link_keys s \<Longrightarrow>
      (tid, rid) \<in> write_boundary s' \<Longrightarrow> (tid, rid) \<in> write_boundary s"
proof -
  let ?rows = "db_ticket_repos s"
  have s': "s' = s\<lparr>db_ticket_repos := (if find (same_link tid rid) ?rows = None then ?rows @ [f (fresh_link tid rid now)]
      else upd_rows (same_link tid rid) (\<lambda>l. (f l)\<lparr>tr_updated_at := now\<rparr>) ?rows)\<rparr>"
    using put_link_shape [OF assms(1)] by blast
  have fresh: "tr_ticket_id (f (fresh_link tid rid now)) = tid" "tr_repo_id (f (fresh_link tid rid now)) = rid"
    by (simp_all add: assms fresh_link_def)
  show "link_keys s' = insert (tid, rid) (link_keys s)"
  proof (cases "find (same_link tid rid) ?rows")
    case None
    then show ?thesis using fresh by (simp add: s' link_keys_def)
  next
    case (Some x)
    then have x: "x \<in> set ?rows" "same_link tid rid x" by (auto simp: find_Some_iff)
    have "map (\<lambda>l. (tr_ticket_id l, tr_repo_id l)) (upd_rows (same_link tid rid) (\<lambda>l. (f l)\<lparr>tr_updated_at := now\<rparr>) ?rows) =
        map (\<lambda>l. (tr_ticket_id l, tr_repo_id l)) ?rows"
      by (rule map_key_upd_rows) (simp add: assms)
    then have "link_keys s' = link_keys s" using Some unfolding s' link_keys_def by (simp flip: set_map)
    moreover have "(tid, rid) \<in> link_keys s" using x by (auto simp: link_keys_def same_link_def)
    ultimately show ?thesis by blast
  qed
  show "k \<in> write_boundary s" if "k \<in> write_boundary s'" "k \<noteq> (tid, rid)"
    using that fresh by (auto simp: s' write_boundary_def set_upd_rows same_link_def assms split: if_split_asm)
  show "(tid, rid) \<in> write_boundary s"
    if "\<And>l. tr_access (f l) = tr_access l" "\<And>l. tr_relation (f l) = tr_relation l" "(tid, rid) \<in> link_keys s" "(tid, rid) \<in> write_boundary s'"
  proof -
    have "find (same_link tid rid) ?rows \<noteq> None" using that(3) by (auto simp: link_keys_def find_None_iff same_link_def)
    with that(4) show ?thesis
      by (auto simp: s' write_boundary_def set_upd_rows assms that(1,2) split: if_split_asm)
  qed
qed

lemma opens_put_link:
  assumes "\<And>l. tr_ticket_id (f l) = tr_ticket_id l" and "\<And>l. tr_repo_id (f l) = tr_repo_id l"
  shows "(tid, rid) \<in> X \<Longrightarrow> framed (opens X) (put_link tid rid f now)"
    and "(\<And>l. tr_access (f l) = tr_access l) \<Longrightarrow> (\<And>l. tr_relation (f l) = tr_relation l) \<Longrightarrow> framed (opens X) (put_link tid rid f now)"
  using set_put_link [OF _ assms] by (fastforce simp: framed_def opens_def)+

lemma links_repo_events [frames]:
  "framed links_same (repoEvent en i ac ty tp)" "framed links_same (access_event en i rid u ac)"
  unfolding repoEvent_def access_event_def by (intro frames)+

lemma opens_repo_writes:
  "framed (opens X) (repo_insert r)" "framed (opens X) (repo_update i g)"
  by (auto simp: framed_def opens_def repo_insert_def repo_update_def modifyT_def link_keys_def write_boundary_def split: if_split_asm)

text \<open>No operation on repositories, nodes and scopes and no bare link opens a boundary.\<close>

lemma opens_repo_service:
  "framed (opens X) (registerRepository en rg a)" "framed (opens X) (setRepoHidden en ref b a)"
  "framed (opens X) (setRepoDefaultBranch en ref br a)" "framed (opens X) (setRepoCommands en ref rc a)"
  unfolding registerRepository_def setRepoHidden_def setRepoDefaultBranch_def setRepoCommands_def Let_def
  by (intro frames opens_repo_writes opens_of_links links_repo_events links_reads; simp)+

lemma opens_linkRepository: "framed (opens X) (linkRepository en tid ref role a)"
  unfolding linkRepository_def linkTicket_def
  by (intro frames opens_put_link(2) opens_of_links links_facade links_reads; simp)

lemma opens_upsertAccess: "(tid, rid) \<in> X \<Longrightarrow> framed (opens X) (upsertAccess tid rid u now)"
  unfolding upsertAccess_def by (rule opens_put_link(1)) simp_all

lemma opens_access_by_others:
  "a_type a \<notin> {Human, Admin} \<Longrightarrow> framed (opens X) (setTicketRepoAccess en ta a)"
  by (auto simp: framed_def setTicketRepoAccess_def)

lemma opens_create:
  assumes "a_type a \<notin> {Human, Admin}" shows "framed (opens X) (createTicketWithLinks en inp links a)"
  unfolding createTicketWithLinks_def link_scopes_def link_accesses_def
  by (intro frames opens_linkRepository opens_access_by_others assms opens_of_links links_services links_membership)

text \<open>The two boundaries the system sets itself.\<close>

lemma bindT_repo: "bindT (need_repo g ref) f s = Inr y \<longleftrightarrow> (\<exists>r. g s ref = Some r \<and> f r s = Inr y)"
  by (auto simp: bindT_def need_repo_def split: option.splits)

lemma access_result:
  assumes "applyTicketRepoAccess en inp a s = Inr (x, s')"
  shows "\<exists>t r. resolve_ref s (ta_ticket_id inp) = Some t \<and> repo_by_id_or_name s (ta_repo_id inp) = Some r \<and>
    opens {(t_id t, r_id r)} s s'"
proof -
  from assms obtain t r where t: "resolve_ref s (ta_ticket_id inp) = Some t" "repo_by_id_or_name s (ta_repo_id inp) = Some r"
    and rest: "bindT (upsertAccess (t_id t) (r_id r) (upsert_of inp) (en_now en)) (\<lambda>_.
     bindT (access_event en (t_id t) (r_id r) (upsert_of inp) a) (\<lambda>ev.
     returnT \<lparr>tx_ticketId = t_id t, tx_repoId = r_id r, tx_access = ta_access inp, tx_relation = ta_relation inp, tx_eventId = ev\<rparr>)) s = Inr (x, s')"
    by (auto simp: applyTicketRepoAccess_def bindT_resolved bindT_repo split: if_split_asm)
  have "framed (opens {(t_id t, r_id r)}) (bindT (upsertAccess (t_id t) (r_id r) (upsert_of inp) (en_now en)) (\<lambda>_.
     bindT (access_event en (t_id t) (r_id r) (upsert_of inp) a) (\<lambda>ev.
     returnT \<lparr>tx_ticketId = t_id t, tx_repoId = r_id r, tx_access = ta_access inp, tx_relation = ta_relation inp, tx_eventId = ev\<rparr>)))"
    by (intro frames opens_upsertAccess opens_of_links links_repo_events) simp
  from framedD [OF this rest] t show ?thesis by blast
qed

lemma resolve_own_id: "t \<in> set (db_tickets s) \<Longrightarrow> resolve_ref s (t_id t) = Some t' \<Longrightarrow> t_id t' = t_id t"
  by (cases "ticket_findById s (t_id t)") (auto simp: resolve_ref_def ticket_findById_def find_row_None_iff dest: find_row_SomeD)

lemma repo_own_id: "r \<in> set (db_repositories s) \<Longrightarrow> repo_by_id_or_name s (r_id r) = Some r' \<Longrightarrow> r_id r' = r_id r"
  by (cases "repo_findById s (r_id r)") (auto simp: repo_by_id_or_name_def repo_findById_def find_row_None_iff dest: find_row_SomeD)

lemma repo_by_id_or_name_mem: "repo_by_id_or_name s ref = Some r \<Longrightarrow> r \<in> set (db_repositories s)"
  by (auto simp: repo_by_id_or_name_def repo_findById_def repo_findByName_def dest: find_row_SomeD split: option.split_asm)

lemma inherit_result:
  assumes "inheritBootstrapRepoAccess en tref rref a s = Inr (x, s')"
  shows "\<exists>tid rid. a_type a = System \<and> sharedBootstrap s tid rid \<and> opens {(tid, rid)} s s'"
proof -
  from assms obtain t r where sys: "a_type a = System" and t: "resolve_ref s tref = Some t" and r: "repo_by_id_or_name s rref = Some r"
    and shared: "sharedBootstrap s (t_id t) (r_id r)"
    and rest: "applyTicketRepoAccess en \<lparr>ta_ticket_id = t_id t, ta_repo_id = r_id r, ta_access = AccWrite, ta_relation = RelConfirmed,
       ta_source = SrcScopeInferred, ta_confidence = None, ta_reasons = None\<rparr> a s = Inr (x, s')"
    by (auto simp: inheritBootstrapRepoAccess_def bindT_resolved bindT_repo split: if_split_asm)
  from access_result [OF rest] obtain t' r' where "resolve_ref s (t_id t) = Some t'" "repo_by_id_or_name s (r_id r) = Some r'"
    and o': "opens {(t_id t', r_id r')} s s'" by auto
  then have "t_id t' = t_id t" "r_id r' = r_id r"
    using resolve_own_id [OF resolve_ref_mem [OF t]] repo_own_id [OF repo_by_id_or_name_mem [OF r]] by blast+
  with sys shared o' show ?thesis by auto
qed

definition sole_unmapped :: "db \<Rightarrow> (id \<times> id) set" where
  "sole_unmapped db = {(tid, rid). map (r_id \<circ> snd) (repo_listForTicket db tid) = [rid] \<and> scopesForRepo db rid = []}"

lemma mono_shape:
  assumes "resolve_ref s ref = Some t" and "repo_listForTicket s (t_id t) = links"
  shows "applyMonoFallback en ref a s = (if length links \<noteq> 1 then Inr (MonoNotOne (t_id t) (length links), s)
    else if scopesForRepo s (r_id (snd (hd links))) \<noteq> [] then Inr (MonoMapped (t_id t), s)
    else bindT (upsertAccess (t_id t) (r_id (snd (hd links))) mono_upsert (en_now en)) (\<lambda>_.
         bindT (access_event en (t_id t) (r_id (snd (hd links))) mono_upsert a) (\<lambda>_.
         returnT (MonoApplied (t_id t) (r_id (snd (hd links)))))) s)"
  unfolding applyMonoFallback_def bindT_resolveRef [OF assms(1)] bindT_get assms(2) Let_def returnT_def if_distribR by (rule refl)

lemma mono_result:
  assumes "applyMonoFallback en ref a s = Inr (x, s')"
  shows "opens (sole_unmapped s) s s'"
proof -
  from assms obtain t where t: "resolve_ref s ref = Some t" unfolding applyMonoFallback_def bindT_resolved by blast
  obtain links where links: "repo_listForTicket s (t_id t) = links" by blast
  note shape = mono_shape [OF t links, of en a]
  show ?thesis
  proof (cases "length links = 1 \<and> scopesForRepo s (r_id (snd (hd links))) = []")
    case False
    then have "s' = s" using assms unfolding shape by (simp split: if_split_asm)
    then show ?thesis by (simp add: opens.frame_refl)
  next
    case True
    then obtain y where y: "links = [y]" by (cases links) simp_all
    then have "(t_id t, r_id (snd y)) \<in> sole_unmapped s" using True links by (simp add: sole_unmapped_def)
    then have "framed (opens (sole_unmapped s)) (bindT (upsertAccess (t_id t) (r_id (snd y)) mono_upsert (en_now en)) (\<lambda>_.
         bindT (access_event en (t_id t) (r_id (snd y)) mono_upsert a) (\<lambda>_. returnT (MonoApplied (t_id t) (r_id (snd y))))))"
      by (intro frames opens_upsertAccess opens_of_links links_repo_events)
    then show ?thesis by (rule framedD) (use assms shape True y in simp)
  qed
qed

lemma opens_map:
  assumes "a_type a \<notin> {Human, Admin}" and "\<forall>tr rr. mc \<noteq> InheritAccess tr rr" and "\<forall>r. mc \<noteq> MonoFallback r"
  shows "framed (opens {}) (run_map en a mc)"
  using assms(2,3)
  by (cases mc; simp only: run_map.simps effect_def)
    (intro frames opens_repo_service opens_linkRepository opens_access_by_others [OF assms(1)] opens_create [OF assms(1)]
      opens_of_links links_scope_service links_membership; simp)+

text \<open>
  C40. Who opens a write boundary. A pair of a ticket and a repository that a command makes writable was
  writable before, had no link at all before (a new link), or was opened by a person or an
  administrator, by the system for a repository a bootstrap ticket sharing a scope already writes,
  or by the fallback for the only repository of the ticket when no scope maps it. Commands on
  tickets, claims, reviews and landings open none.
\<close>

theorem write_boundary_opened:
  assumes "exec en a c db = Inr ((), db') \<or> run_landing en le a lc db = (v, db') \<or> run_gate en ga a gc db = (w, db') \<or>
      run_map en a mc db = Inr ((), db')"
    and "(tid, rid) \<in> write_boundary db'"
  shows "(tid, rid) \<in> write_boundary db \<or> (tid, rid) \<notin> link_keys db \<or> a_type a \<in> {Human, Admin} \<or>
    a_type a = System \<and> sharedBootstrap db tid rid \<or> (tid, rid) \<in> sole_unmapped db"
proof (cases "run_map en a mc db = Inr ((), db') \<and> a_type a \<notin> {Human, Admin}")
  case False
  then consider "a_type a \<in> {Human, Admin}" | "links_same db db'"
    using assms(1) framedD [OF links_exec] framedPD [OF links_landing] framedPD [OF links_gate] by blast
  then show ?thesis using assms(2) by cases (auto simp: links_same_def write_boundary_def)
next
  case True
  then have others: "a_type a \<notin> {Human, Admin}" and run: "run_map en a mc db = Inr ((), db')" by blast+
  consider (inherit) tr rr where "mc = InheritAccess tr rr" | (mono) r where "mc = MonoFallback r"
    | (rest) "\<forall>tr rr. mc \<noteq> InheritAccess tr rr" "\<forall>r. mc \<noteq> MonoFallback r" by blast
  then show ?thesis
  proof cases
    case inherit
    with run obtain x where "inheritBootstrapRepoAccess en tr rr a db = Inr (x, db')" by (auto simp: effect_def bindT_Inr_iff returnT_def)
    from inherit_result [OF this] assms(2) show ?thesis by (auto simp: opens_def)
  next
    case mono
    with run obtain x where "applyMonoFallback en r a db = Inr (x, db')" by (auto simp: effect_def bindT_Inr_iff returnT_def)
    from mono_result [OF this] assms(2) show ?thesis by (auto simp: opens_def)
  next
    case rest
    from framedD [OF opens_map [OF others rest] run] assms(2) show ?thesis by (auto simp: opens_def)
  qed
qed

lemma ran: "(case m of Inl e \<Rightarrow> False | Inr (u, d) \<Rightarrow> P d) \<Longrightarrow> \<exists>d. m = Inr ((), d) \<and> P d"
  by (cases m) auto

theorem write_boundary_opened_witness:
  "\<exists>db'. run_map sample_env \<lparr>a_type = AgentActor, a_id = Some ''ag1''\<rparr> (LinkRepo ''t1'' ''app'' ''secondary'') scoped_db = Inr ((), db') \<and>
     (''t1'', ''r1'') \<in> write_boundary db' \<and> (''t1'', ''r1'') \<in> write_boundary scoped_db \<union> sole_unmapped scoped_db"
proof -
  let ?agent = "\<lparr>a_type = AgentActor, a_id = Some ''ag1''\<rparr>" and ?c = "LinkRepo ''t1'' ''app'' ''secondary''"
  have "case run_map sample_env ?agent ?c scoped_db of Inl e \<Rightarrow> False | Inr (u, db') \<Rightarrow> (''t1'', ''r1'') \<in> write_boundary db'"
    by code_simp
  from ran [OF this] obtain db' where run: "run_map sample_env ?agent ?c scoped_db = Inr ((), db')" "(''t1'', ''r1'') \<in> write_boundary db'"
    by blast
  have "(''t1'', ''r1'') \<in> link_keys scoped_db" "a_type ?agent \<notin> {Human, Admin}" "a_type ?agent \<noteq> System"
    by (simp_all add: link_keys_def scoped_db_def)
  with write_boundary_opened [OF disjI2 [OF disjI2 [OF disjI2 [OF run(1)]]] run(2)]
  have "(''t1'', ''r1'') \<in> write_boundary scoped_db \<union> sole_unmapped scoped_db" by blast
  with run show ?thesis by blast
qed

section \<open>A new ticket of a scoped principal\<close>

















definition create_body :: "string \<Rightarrow> json" where
  "create_body ref = JObj [(''title'', JStr ''Fix''), (''repo'', JStr ref)]"

definition create_links :: "string \<Rightarrow> ticket_links" where
  "create_links ref = \<lparr>tk_repo = Some ref, tk_scopeNodeIds = [], tk_repoAccess = []\<rparr>"


definition member :: principal_view where
  "member = shown_principal scoped_db sample_principal"



lemma bindT_assoc: "bindT (bindT m f) g = bindT m (\<lambda>x. bindT (f x) g)"
  by (auto simp: bindT_def fun_eq_iff split: sum.splits)

lemma bindT_pure: "bindT (returnT x) f = f x" "bindT (throwIf False e) g = g ()"
  by (auto simp: bindT_def returnT_def throwIf_def fun_eq_iff)

text \<open>The creation after its schema, to be evaluated.\<close>

lemma create_checked:
  assumes "create_schema_ok inp"
  shows "createTicketWithLinks en inp (create_links ref) a = bindT (getT (new_ticket en inp a)) (\<lambda>t.
     bindT (ticket_insert t) (\<lambda>_.
     bindT (ticketEvent en (t_id t) a ''ticket.created''
              ([(''title'', JStr (t_title t)), (''policy_pack'', JStr (pack_name (t_policy_pack t)))]
               @ (if t_bootstrap t then [(''bootstrap'', JBool True)] else [])
               @ (if t_acceptance t then [(''acceptance'', JBool True)] else []))) (\<lambda>_.
     bindT (if ref = [] then returnT () else linkRepository en (t_id t) ref ''primary'' a) (\<lambda>_. returnT t))))"
  using assms
  by (simp only: createTicketWithLinks_def createTicket_def create_links_def link_scopes_def link_accesses_def bindT_assoc bindT_pure
      ticket_links.simps option.simps enumerate_simps forT.simps not_True_eq_False)

lemma first_input_ok: "create_schema_ok first_input"
  by (simp add: first_input_def create_schema_ok_def one_line_ok_def js_trim_def js_ws_def has_control_def opt_ok_def)




text \<open>Without that hypothesis it does not hold: a repository named with another one's id is linked in its place.\<close>

definition shadowed_db :: db where
  "shadowed_db = scoped_db\<lparr>db_repositories := db_repositories scoped_db @
     map (\<lambda>r. r\<lparr>r_id := ''r2'', r_name := ''r1''\<rparr>) (db_repositories scoped_db)\<rparr>"

lemma scoped_create_shadowed:
  "create_gate shadowed_db member (create_body ''r1'') = Inr ()"
  "case createTicketWithLinks sample_env first_input (create_links ''r1'') sample_human shadowed_db of Inl e \<Rightarrow> False
     | Inr (t, db') \<Rightarrow> (t_id t, ''r2'') \<in> link_keys db'"
  unfolding create_checked [OF first_input_ok] by code_simp+

end
