(* ===== verification/Spec2Isabelle.thy ===== *)
theory Spec2Isabelle
  imports Decision_Props Cancel_Props Tester_Props Outcome_Props Membership Boundary
begin

text \<open>
  \<^bold>\<open>Gaffer's control plane\<close>

  Gaffer runs coding agents against tickets. Its core is \<open>packages/dispatch\<close>, a library over one
  SQLite database: agents claim tickets under leases, deliver them and submit them for review, a
  person or a tester approves, the runner lands the approved commits and the ticket is done. All
  paths below are under \<open>src/packages/dispatch/src/\<close>. Of the adapters around the library the gate of the
  REST surface is modelled; its routes, the CLI, MCP and web surfaces, the runner's scripts, the agent
  runtime and the knowledge store call the library and are not part of the model.

  \<^bold>\<open>How the code is modelled\<close>

  A database is a record of tables (\<open>Store\<close>), a table the list of its rows in \<open>rowid\<close> order. An operation
  is a function from a database to a thrown error or to a result and a new database (\<open>Prelude\<close>);
  a throw carries no database because \<open>inTransaction\<close> rolls back. An operation the code does not
  wrap in one transaction is a sequence of them, and its throw keeps what was committed before.
  Every raise of the source is a value of \<open>thrown\<close>, with the failures of keys and foreign keys that
  SQLite enforces. Instants are milliseconds; numbers of tickets, attempts and priorities are
  unbounded, as in the source. What the code takes from outside the repository is an argument: the clock,
  random ids and tokens, SHA-256, git and the file system (\<open>env\<close>), and the git probes of the review
  gate (\<open>landing_env\<close>). Nothing is assumed of them, except where a theorem states it.

  \<^item> \<open>Prelude\<close>, \<open>Json\<close>, \<open>Clock\<close>, \<open>Domain\<close>, \<open>Samples\<close>: transactions with their weakest
    preconditions, the frame calculus (locale \<open>preorder_frame\<close>), JSON values with their printer,
    ISO instants, the rows and enums of \<open>domain/types.ts\<close>, and example rows.
  \<^item> \<open>Store\<close>, \<open>Ticket_Ref\<close>, \<open>Link_Store\<close>, \<open>Claim_Store\<close>: \<open>repositories/\<close>, one definition per statement or
    query. The contract of the claim table is the locale \<open>lease_store\<close>.
  \<^item> \<open>Policy\<close>: \<open>policy/policy.ts\<close>. \<open>Diff\<close>: the delivery diff of \<open>services/diffService.ts\<close>.
    \<open>Transition\<close>: \<open>services/transitionService.ts\<close> with its guarded edges and gates.
  \<^item> \<open>Lifecycle\<close>: the abstract lifecycle of one ticket (\<open>view\<close>, \<open>goto\<close>, \<open>sound\<close>) that the operations refine.
  \<^item> \<open>Claims\<close>, \<open>Claim_Inv\<close>: \<open>services/claimService.ts\<close>. \<open>Tickets\<close>, \<open>Ticket_Inv\<close>: \<open>services/ticketService.ts\<close>.
    \<open>Pause\<close>: \<open>services/pauseService.ts\<close>. \<open>Decisions\<close>: \<open>services/decisionService.ts\<close>.
  \<^item> \<open>Review\<close>, \<open>Landing_Status\<close>, \<open>Landing\<close>, \<open>Merge\<close>, \<open>Merge_Inv\<close>: \<open>services/reviewGateService.ts\<close>,
    \<open>services/landingStatus.ts\<close>, \<open>services/reviewLifecycleService.ts\<close>, and the move targets of
    \<open>services/boardService.ts\<close>.
  \<^item> \<open>Autonomy\<close>, \<open>Contract\<close>, \<open>Approval\<close>, \<open>Tester\<close>, \<open>Heads\<close>, \<open>Gate_Inv\<close>: the approval and tester verdicts of
    \<open>services/reviewGateService.ts\<close> with what they rest on: the observed risk and the autonomy policy,
    \<open>services/contractHash.ts\<close>, \<open>services/testerReplay.ts\<close>, \<open>services/testerLaneService.ts\<close>, and the heads
    of \<open>services/ticketGitService.ts\<close>. What the gate asks of its host is the record \<open>gate_env\<close>;
    \<open>core_gate\<close> is that record as \<open>core.ts\<close> fills it.
  \<^item> \<open>Outcome\<close>, \<open>Landing_State\<close>: \<open>services/approveOutcome.ts\<close>, \<open>services/rejectOutcome.ts\<close>,
    \<open>services/landingState.ts\<close> and \<open>services/landingFactsService.ts\<close>: what the dashboard says an
    approval or a send-back will do, and the label a ticket carries after it.
  \<^item> \<open>Access\<close>, \<open>Principals\<close>, \<open>Api_Gate\<close>: \<open>services/accessScope.ts\<close> (locale \<open>access_order\<close>),
    \<open>repositories/principalRepository.ts\<close>, \<open>services/principalService.ts\<close>,
    \<open>services/principalAdminService.ts\<close>, and the gate of the REST surface: \<open>api/auth.ts\<close>,
    \<open>api/scopeGate.ts\<close> and the order in which \<open>route\<close> of \<open>api/server.ts\<close> asks them.
  \<^item> \<open>Scope_Graph\<close>, \<open>Repos\<close>, \<open>Links\<close>, \<open>Map_Inv\<close>: the map of the work: \<open>services/scopeService.ts\<close> with its
    repositories, \<open>services/repoService.ts\<close> with the access boundaries of tickets,
    \<open>services/ticketLinksService.ts\<close> and \<open>services/epicAcceptance.ts\<close>, and the invariant of their tables.
    \<open>Graph_Walk\<close> is the search the dependency guard and the containment guard share.
  \<^item> \<open>Event_Chain\<close>: \<open>events/\<close> and \<open>services/eventLogService.ts\<close>, the hash chain over the event log.
  \<^item> \<open>Frame\<close>, \<open>System\<close>: the locales \<open>table_frame\<close> and \<open>service_frame\<close>, in which every operation is shown to
    stay within a preorder that the statements respect, and the transition system of all commands
    (\<open>exec\<close>, \<open>run_landing\<close>, \<open>run_gate\<close>, \<open>run_map\<close>) with its reachable states (locale \<open>invariant_system\<close>).

  \<^bold>\<open>What the theorems show\<close>

  \<^item> Here and in \<open>Gate_Props\<close>: in every reachable state leases, human ownership, markers and pause
    contexts fit the ticket's status; dependencies are acyclic, so that of the tickets that can still
    be delivered one waits for no other (a ticket that depends on a cancelled or failed one waits for
    a person); the scope graph keeps its order; a transition refines the abstract lifecycle;
    done is reached only through review and a landing.
  \<^item> \<open>Landing_Props\<close>, \<open>Cancel_Props\<close>: a ticket marked merged has every approved commit of its landing plan
    on record as landed, and a plan that is not empty covers every write repository; landings start and are recorded only for approved commits; a ticket that landed
    is not cancelled, except by the stop of a paused delivery, which does not look.
  \<^item> \<open>Claim_Props\<close>, \<open>Queue_Props\<close>, \<open>Recovery_Props\<close>, \<open>Pause_Props\<close>: submissions, heartbeats, the expiry sweep,
    the candidate queries against their specification, claims that must succeed, recovery of
    lapsed deliveries, and the pause, continue, resume round trip.
  \<^item> \<open>Ticket_Props\<close>, \<open>Decision_Props\<close>, \<open>Ticket_Ref\<close>: creation and lookup, the contract freeze, the cycle guard against
    reachability, human block and unblock, decisions that hold tickets, spellings of references.
  \<^item> \<open>Approval_Props\<close>, \<open>Heads_Props\<close>, \<open>Autonomy\<close>: what an approval takes, that it covers every write
    repository at the commit shown, and that more change never escapes the observed-risk hold.
  \<^item> \<open>Tester_Props\<close>: what an automated PASS proves and what it covers, which tickets the sweep sends to the
    tester, and what a recorded replay repeats.
  \<^item> \<open>Outcome_Props\<close>: the outcome shown for an approval or a send-back against what the gate then does.
  \<^item> \<open>Access_Props\<close>: who is dispatched, what a scoped credential may write, that a narrower credential never
    gains, that a scope covers the delivery, minting, revocation and corrupt scopes.
  \<^item> \<open>Membership\<close>, \<open>Boundary\<close>: an epic's acceptance ticket waits for a ticket that joins the epic, joining and
    leaving again is a round trip; which operations open a write boundary, and that a scoped
    principal's new ticket is linked inside its grant.
  \<^item> \<open>Policy\<close>, \<open>Diff\<close>, \<open>Event_Chain\<close>: the layering of the packs, what a passed done gate guarantees, that a diff
    proof taken before a transaction is still right inside it, and tamper evidence of the log under any hash.

  Some of them state where the code departs from its comments: two spellings of one sentinel in the
  candidate queries, a recovery that its own throw rolls back, a claimability test that ignores the
  schedule, a runner release that passes the ready gate by, a lease that outlives a failed delivery,
  a landing that is recorded twice, the stop of a paused delivery, a role order that puts an affected
  repository before the primary one, and a repository name that shadows another one's id.

  \<^bold>\<open>Termination\<close>

  All definitions are total. The one walk that could run for ever, the search of a graph (\<open>Graph_Walk\<close>),
  carries the list of nodes it has seen and terminates because that list grows within the table;
  there is no fuel.

  \<^bold>\<open>Not modelled\<close>

  The rendering of patches and the regular expressions over diff text: \<open>services/testIntegrity.ts\<close> is left out,
  and the rendered diff with its risk annotations and the parse of the runner's integrity report are arguments. JSON columns
  are held as values, with one for a text that does not parse, and hashes are taken of the bytes of a string.
  The creation of epics, specs, planning, the engine that suggests repositories, review packets and the read models for the board and the human queue.
  The files and processes behind \<open>ensureApiToken\<close> and the usage pause, the check of the Host header, and the
  routes behind the REST gate. Messages of errors, but for the sentence of a refused scope: an error is its
  code. Notifications, which are best-effort I/O after the commit. The order of keys inside the JSON of a
  patch. Strings are Latin-1 lists of characters.
\<close>

section \<open>A reachable state\<close>

definition first_db :: db where
  "first_db = (case exec sample_env sample_human (CreateTicket first_input) empty_db of Inl _ \<Rightarrow> empty_db | Inr (_, db) \<Rightarrow> db)"

lemma reachable_first_db: "reachable first_db" "length (db_tickets first_db) = 1" "map t_status (db_tickets first_db) = [Draft]"
proof -
  have "exec sample_env sample_human (CreateTicket first_input) empty_db = Inr ((), first_db) \<and> length (db_tickets first_db) = 1
     \<and> map t_status (db_tickets first_db) = [Draft]"
    by (simp add: first_db_def effect_def createTicket_def first_input_def create_schema_ok_def one_line_ok_def
       js_trim_def js_ws_def has_control_def opt_ok_def bindT_def throwIf_def getT_def ticket_insert_def new_ticket_def
       empty_db_def writeEvent_def returnT_def Let_def sample_env_def)
  moreover have "reachable empty_db" by (simp add: reachable_def)
  ultimately show "reachable first_db" "length (db_tickets first_db) = 1" "map t_status (db_tickets first_db) = [Draft]" using reachable_step by blast+
qed

section \<open>Invariants of every reachable state\<close>

lemma card_le_1I: "(\<And>x y. x \<in> S \<Longrightarrow> y \<in> S \<Longrightarrow> x = y) \<Longrightarrow> card S \<le> 1"
  by (metis One_nat_def card_le_Suc0_iff_eq card.infinite le0)

text \<open>
  C1. Whatever commands are run, by whatever actors and at whatever times, from an empty
  database: an active claim belongs to a ticket that is claimed, in progress or failed, a
  ticket has at most one of them and a claimed ticket has one; a ticket a human owns is in
  progress and no agent holds a lease on it; the delivered-by-hand marker is only on tickets
  in the review lane; a pause context is only kept for a paused or resumed delivery.
\<close>

theorem reachable_delivery_states:
  assumes "reachable db" and "t \<in> set (db_tickets db)"
  shows "card {c \<in> set (db_claims db). c_ticket_id c = t_id t \<and> claim_active c} \<le> 1 \<and>
    (hasActiveForTicket db (t_id t) \<longrightarrow> t_status t \<in> {Claimed, InProgress, Failed}) \<and>
    (t_status t = Claimed \<longrightarrow> hasActiveForTicket db (t_id t)) \<and>
    (t_human_owner t \<noteq> None \<longrightarrow> t_status t = InProgress \<and> \<not> hasActiveForTicket db (t_id t)) \<and>
    (t_human_delivered t \<noteq> None \<longrightarrow> t_status t \<in> set REVIEW_LANE_STATUSES) \<and>
    (paused_find db (t_id t) \<noteq> None \<longrightarrow> t_status t \<in> {Paused, InProgress})"
proof -
  have h: "healthy db" using well_formedD(1) [OF reachable_wf [OF assms(1)]] .
  then have k: "keys_ok db" by (rule healthy_keys)
  have "ticket_findById db (t_id t) = Some t"
    using assms(2) k by (simp add: ticket_findById_def find_row_Some_iff keys_ok_def)
  then have "view db (t_id t) = Some (view_of db t)" by (simp add: view_def)
  from healthy_sound [OF h this] have "sound (view_of db t)" .
  moreover have "card {c \<in> set (db_claims db). c_ticket_id c = t_id t \<and> claim_active c} \<le> 1"
    by (rule card_le_1I) (use k in \<open>auto simp: keys_ok_def intro: one_activeD\<close>)
  ultimately show ?thesis by (simp add: sound_def view_of_def)
qed

theorem reachable_delivery_states_witness:
  "\<exists>t \<in> set (db_tickets first_db). card {c \<in> set (db_claims first_db). c_ticket_id c = t_id t \<and> claim_active c} \<le> 1"
proof -
  obtain t where "t \<in> set (db_tickets first_db)" using reachable_first_db(2) by (cases "db_tickets first_db") auto
  with reachable_delivery_states [OF reachable_first_db(1)] show ?thesis by blast
qed





text \<open>
  C18. The map stays in order: in every reachable state no two scope links of a ticket are primary,
  and containment between scope nodes has no cycle. The tables enforce neither: a new primary link
  demotes the old one in the same transaction, and a new containment edge is checked against every
  path that exists.
\<close>

theorem reachable_scope_graph:
  assumes "reachable db"
  shows "(\<forall>l \<in> set (db_ticket_scopes db). \<forall>m \<in> set (db_ticket_scopes db).
      ts_ticket_id l = ts_ticket_id m \<and> ts_relation l = ScPrimary \<and> ts_relation m = ScPrimary \<longrightarrow> l = m) \<and>
    acyclic {(se_from e, se_to e) | e. e \<in> set (db_scope_edges db) \<and> se_relation e = EdgeContains}"
proof -
  have ok: "map_ok db" by (rule wf_map_ok [OF reachable_wf [OF assms]])
  have "l = m" if "l \<in> set (db_ticket_scopes db)" "m \<in> set (db_ticket_scopes db)" "ts_ticket_id l = ts_ticket_id m"
      "ts_relation l = ScPrimary" "ts_relation m = ScPrimary" for l m
  proof -
    have "distinct (map ts_ticket_id (filter (\<lambda>l. ts_relation l = ScPrimary) (db_ticket_scopes db)))" using ok by (simp add: map_ok_def)
    from distinct_keyD [OF this, of l m] that show ?thesis by simp
  qed
  moreover have "{(se_from e, se_to e) | e. e \<in> set (db_scope_edges db) \<and> se_relation e = EdgeContains} = set (contains_edges db)"
    by (auto simp: contains_edges_def)
  ultimately show ?thesis using ok by (auto simp: map_ok_def)
qed

definition area :: "string \<Rightarrow> scope_node_input" where
  "area nm = \<lparr>ni_name = nm, ni_type = NodeProduct, ni_description = None, ni_risk_level = Low, ni_owner = None,
     ni_tags = None, ni_lore_tags = None\<rparr>"

definition area_edge :: "id \<Rightarrow> id \<Rightarrow> scope_edge_input" where
  "area_edge i j = \<lparr>ei_from = i, ei_to = j, ei_relation = EdgeContains, ei_confidence = None, ei_reasons = None, ei_advanced = False\<rparr>"

definition then_map :: "map_command \<Rightarrow> db \<Rightarrow> db" where
  "then_map c db = (case run_map sample_env sample_human c db of Inl _ \<Rightarrow> db | Inr (_, db') \<Rightarrow> db')"

lemma reachable_then_map: "reachable db \<Longrightarrow> reachable (then_map c db)"
  by (auto simp: then_map_def reachable_map split: sum.split)

definition areas_db :: db where
  "areas_db = then_map (CreateNode (area ''web'')) (then_map (CreateNode (area ''shop'')) empty_db)"

definition map_db :: db where
  "map_db = (case map sn_id (db_scope_nodes areas_db) of [i, j] \<Rightarrow> then_map (CreateEdge (area_edge i j)) areas_db | _ \<Rightarrow> areas_db)"

lemma area_created:
  assumes "node_schema_ok (area nm)"
  shows "createScopeNode en (area nm) a = bindT (getT (\<lambda>db. node_row en db (area nm))) (\<lambda>n.
     bindT (node_insert n) (\<lambda>_.
     bindT (nodeEvent en (sn_id n) a ''scope_node.created''
              [(''name'', JStr (sn_name n)), (''type'', JStr (node_type_name (sn_type n)))]) (\<lambda>_.
     returnT n)))"
  using assms by (simp only: createScopeNode_def bindT_pure not_True_eq_False)

lemma area_names: "node_schema_ok (area ''web'')" "node_schema_ok (area ''shop'')"
  by (simp_all add: node_schema_ok_def area_def node_name_ok_def opt_ok_def one_line_ok_def js_trim_def js_ws_def has_c0_def)

lemma map_db_shape: "length (db_scope_nodes map_db) = 2" "map se_relation (db_scope_edges map_db) = [EdgeContains]"
  unfolding map_db_def areas_db_def then_map_def run_map.simps area_created [OF area_names(1)] area_created [OF area_names(2)]
  by code_simp+

lemma reachable_map_db: "reachable map_db"
proof -
  have "reachable empty_db" by (simp add: reachable_def)
  then have "reachable areas_db" unfolding areas_db_def by (intro reachable_then_map)
  then show ?thesis unfolding map_db_def by (auto intro: reachable_then_map split: list.split)
qed

theorem reachable_scope_graph_witness:
  "\<exists>i j. contains_edges map_db = [(i, j)] \<and> i \<noteq> j"
proof -
  obtain e where e: "db_scope_edges map_db = [e]" "se_relation e = EdgeContains" using map_db_shape(2) by auto
  have "acyclic {(se_from e, se_to e) | e. e \<in> set (db_scope_edges map_db) \<and> se_relation e = EdgeContains}"
    using reachable_scope_graph [OF reachable_map_db] by blast
  then have "se_from e \<noteq> se_to e" using e by (force simp: acyclic_def)
  then show ?thesis using e by (simp add: contains_edges_def)
qed

end
